(* ===== verification/Prelude.thy ===== *)
theory Prelude
  imports Main "HOL-Library.Word" "HOL-Library.Signed_Division"
begin

text \<open>
  Shared vocabulary of the development: JavaScript results, nullish defaults, Node buffers and
  their fixed-width integer reads and writes, truncating bigint division and decimal rendering.

  A thrown exception is a value \<open>Inl e\<close>; \<open>bnd\<close> is the sequencing of two computations of which
  the first may throw. Exceptions of the platform are \<open>RangeError\<close> and \<open>TypeError\<close>; the code's
  own \<open>throw new Error(msg)\<close> is \<open>Error msg\<close>; \<open>RpcError\<close> is any rejection of a request to the
  chain or another service.
\<close>

section \<open>Results\<close>

datatype js_error = RangeError | TypeError | RpcError | Error string

type_synonym 'a result = "js_error + 'a"
type_synonym byte = "8 word"
type_synonym pubkey = "byte list"

named_theorems js_simps \<comment> \<open>unfolding of results, defaults and buffer operations\<close>
named_theorems codec_simps \<comment> \<open>lengths, slices and reads of encoded buffers\<close>

definition bnd :: "'a result \<Rightarrow> ('a \<Rightarrow> 'b result) \<Rightarrow> 'b result" where
  "bnd m f = (case m of Inl e \<Rightarrow> Inl e | Inr x \<Rightarrow> f x)"

lemma bnd_Inr [simp]: "bnd (Inr x) f = f x"
  by (simp add: bnd_def)

lemma bnd_Inl [simp]: "bnd (Inl e) f = Inl e"
  by (simp add: bnd_def)

lemma bnd_eq_Inr_iff [js_simps]: "bnd m f = Inr y \<longleftrightarrow> (\<exists>x. m = Inr x \<and> f x = Inr y)"
  by (cases m) auto

lemma bnd_eq_Inl_iff: "bnd m f = Inl e \<longleftrightarrow> m = Inl e \<or> (\<exists>x. m = Inr x \<and> f x = Inl e)"
  by (cases m) auto

lemma bnd_cong [fundef_cong]: "m = m' \<Longrightarrow> (\<And>x. m' = Inr x \<Longrightarrow> f x = g x) \<Longrightarrow> bnd m f = bnd m' g"
  by (cases m') auto

text \<open>
  \<open>ok P r\<close>: if the computation returns, its value satisfies \<open>P\<close>. The rules walk over a chain of
  \<open>bnd\<close> without looking at what is computed on the way.
\<close>

definition ok :: "('a \<Rightarrow> bool) \<Rightarrow> 'a result \<Rightarrow> bool" where
  "ok P r = (case r of Inl e \<Rightarrow> True | Inr x \<Rightarrow> P x)"

lemma ok_simps [simp]: "ok P (Inr x) = P x" "ok P (Inl e)"
  by (simp_all add: ok_def)

lemma ok_bnd: "(\<And>x. ok P (f x)) \<Longrightarrow> ok P (bnd m f)"
  by (cases m) simp_all

lemma ok_bnd_via: "ok R m \<Longrightarrow> (\<And>x. R x \<Longrightarrow> ok P (f x)) \<Longrightarrow> ok P (bnd m f)"
  by (cases m) simp_all

lemma okD: "ok P r \<Longrightarrow> r = Inr x \<Longrightarrow> P x"
  by simp

text \<open>\<open>throwIf c e\<close> is \<open>if (c) throw e\<close>.\<close>

definition throwIf :: "bool \<Rightarrow> js_error \<Rightarrow> unit result" where
  "throwIf c e = (if c then Inl e else Inr ())"

lemma throwIf_eq_Inr [js_simps]: "throwIf c e = Inr u \<longleftrightarrow> \<not> c"
  by (simp add: throwIf_def)

lemma throwIf_simps [simp]: "throwIf True e = Inl e" "throwIf False e = Inr ()"
  by (simp_all add: throwIf_def)

text \<open>\<open>x ?? d\<close>, and \<open>x ??= d\<close> where computing \<open>d\<close> may throw (it is evaluated only if needed).\<close>

definition orElse :: "'a option \<Rightarrow> 'a \<Rightarrow> 'a" where
  "orElse x d = (case x of None \<Rightarrow> d | Some v \<Rightarrow> v)"

definition orElseM :: "'a option \<Rightarrow> 'a result \<Rightarrow> 'a result" where
  "orElseM x d = (case x of None \<Rightarrow> d | Some v \<Rightarrow> Inr v)"

lemma orElse_simps [simp]: "orElse None d = d" "orElse (Some v) d = v"
  by (simp_all add: orElse_def)

lemma orElseM_simps [simp]: "orElseM None d = d" "orElseM (Some v) d = Inr v"
  by (simp_all add: orElseM_def)

fun mapM :: "('a \<Rightarrow> 'b result) \<Rightarrow> 'a list \<Rightarrow> 'b list result" where
  "mapM f [] = Inr []"
| "mapM f (x # xs) = bnd (f x) (\<lambda>y. bnd (mapM f xs) (\<lambda>ys. Inr (y # ys)))"

text \<open>
  JavaScript numbers are integers here, except where the code's behaviour on a number that is not
  one matters (\<open>BigInt(x)\<close> throws for it).
\<close>

datatype number = Whole int | NotWhole

definition toBigInt :: "number \<Rightarrow> int result" where
  "toBigInt n = (case n of Whole i \<Rightarrow> Inr i | NotWhole \<Rightarrow> Inl RangeError)"

lemma toBigInt_simps [simp]: "toBigInt (Whole i) = Inr i" "toBigInt NotWhole = Inl RangeError"
  by (simp_all add: toBigInt_def)

lemma sdiv_nonneg: "0 \<le> a \<Longrightarrow> 0 \<le> (b :: int) \<Longrightarrow> a sdiv b = a div b"
  by (cases "a = 0"; cases "b = 0") (auto simp: signed_divide_int_def sgn_if)

section \<open>Byte sequences\<close>

text \<open>
  A \<open>Buffer\<close>, a \<open>Uint8Array\<close> and an \<open>Array<number>\<close> of bytes are all lists of bytes. \<open>beBytes n v\<close> is
  the big-endian encoding of \<open>v\<close> in \<open>n\<close> bytes (high bytes cut off), \<open>beNat\<close> its inverse.
\<close>

fun beBytes :: "nat \<Rightarrow> nat \<Rightarrow> byte list" where
  "beBytes 0 v = []"
| "beBytes (Suc n) v = beBytes n (v div 256) @ [word_of_nat (v mod 256)]"

fun leNat :: "byte list \<Rightarrow> nat" where
  "leNat [] = 0"
| "leNat (b # bs) = unat b + 256 * leNat bs"

definition beNat :: "byte list \<Rightarrow> nat" where
  "beNat bs = leNat (rev bs)"

definition leBytes :: "nat \<Rightarrow> nat \<Rightarrow> byte list" where
  "leBytes n v = rev (beBytes n v)"

lemma length_beBytes [simp, codec_simps]: "length (beBytes n v) = n"
  by (induction n arbitrary: v) auto

lemma length_leBytes [simp, codec_simps]: "length (leBytes n v) = n"
  by (simp add: leBytes_def)

lemma unat_byte_less: "unat (b :: byte) < 256"
proof -
  have "unat b < 2 ^ LENGTH(8)" by (rule unsigned_less)
  then show ?thesis by simp
qed

lemma unat_byte_of_nat: "unat (word_of_nat (v mod 256) :: byte) = v mod 256"
  by (simp add: unat_of_nat)

lemma leBytes_Suc: "leBytes (Suc n) v = word_of_nat (v mod 256) # leBytes n (v div 256)"
  by (simp add: leBytes_def)

lemma leBytes_0 [simp]: "leBytes 0 v = []"
  by (simp add: leBytes_def)

lemma leNat_leBytes: "leNat (leBytes n v) = v mod 256 ^ n"
proof (induction n arbitrary: v)
  case (Suc n)
  have "leNat (leBytes (Suc n) v) = v mod 256 + 256 * (v div 256 mod 256 ^ n)"
    by (simp add: leBytes_Suc unat_byte_of_nat Suc.IH)
  also have "\<dots> = v mod (256 * 256 ^ n)"
    by (simp add: mod_mult2_eq)
  finally show ?case by simp
qed simp

lemma beNat_beBytes_mod: "beNat (beBytes n v) = v mod 256 ^ n"
  using leNat_leBytes [of n v] by (simp add: beNat_def leBytes_def)

lemma beNat_beBytes [codec_simps]: "v < 256 ^ n \<Longrightarrow> beNat (beBytes n v) = v"
  by (simp add: beNat_beBytes_mod)

lemma leNat_leBytes_id [codec_simps]: "v < 256 ^ n \<Longrightarrow> leNat (leBytes n v) = v"
  by (simp add: leNat_leBytes)

lemma leNat_bound: "leNat bs < 256 ^ length bs"
proof (induction bs)
  case (Cons b bs)
  have "unat b < 256" by (rule unat_byte_less)
  with Cons show ?case by simp
qed simp

lemma beNat_bound: "beNat bs < 256 ^ length bs"
  using leNat_bound [of "rev bs"] by (simp add: beNat_def)

lemma leBytes_leNat: "leBytes (length bs) (leNat bs) = bs"
proof (induction bs)
  case (Cons b bs)
  have b: "unat b < 256" by (rule unat_byte_less)
  then have "word_of_nat ((unat b + 256 * leNat bs) mod 256) = b"
    by (simp add: mod_mult_self2)
  moreover from b have "(unat b + 256 * leNat bs) div 256 = leNat bs" by simp
  ultimately show ?case using Cons by (simp add: leBytes_Suc)
qed simp

lemma beBytes_beNat [codec_simps]: "length bs = n \<Longrightarrow> beBytes n (beNat bs) = bs"
  using leBytes_leNat [of "rev bs"] by (auto simp: beNat_def leBytes_def)

lemma beBytes_inject: "v < 256 ^ n \<Longrightarrow> w < 256 ^ n \<Longrightarrow> beBytes n v = beBytes n w \<longleftrightarrow> v = w"
  by (metis beNat_beBytes)

lemma beBytes_inject_iff: "beBytes n v = beBytes n w \<longleftrightarrow> v mod 256 ^ n = w mod 256 ^ n"
proof
  assume "v mod 256 ^ n = w mod 256 ^ n"
  then have "beNat (beBytes n v) = beNat (beBytes n w)" by (simp add: beNat_beBytes_mod)
  then show "beBytes n v = beBytes n w" by (metis beBytes_beNat length_beBytes)
next
  assume "beBytes n v = beBytes n w"
  then show "v mod 256 ^ n = w mod 256 ^ n" by (metis beNat_beBytes_mod)
qed

text \<open>The number of bytes of a magnitude: \<open>BN.byteLength()\<close>.\<close>

fun byteLength :: "nat \<Rightarrow> nat" where
  "byteLength n = (if n = 0 then 0 else Suc (byteLength (n div 256)))"

declare byteLength.simps [simp del]

lemma byteLength_le_iff: "byteLength n \<le> k \<longleftrightarrow> n < 256 ^ k"
proof (induction n arbitrary: k rule: byteLength.induct)
  case (1 n)
  show ?case
  proof (cases "n = 0")
    case True
    then show ?thesis by (simp add: byteLength.simps)
  next
    case False
    then show ?thesis
      using "1.IH" by (cases k) (simp_all add: byteLength.simps [of n] less_mult_imp_div_less
        div_less_iff_less_mult mult.commute)
  qed
qed

section \<open>Node buffers\<close>

text \<open>
  \<open>subarray b i j\<close> clips at the end of the buffer, as \<open>Buffer.subarray\<close> and \<open>slice\<close> do. Reads and
  writes of integers check the offset and the range of the value and throw; \<open>at\<close> is indexing,
  \<open>None\<close> for \<open>undefined\<close>; \<open>bufSet\<close> is \<open>TypedArray.set\<close>.
\<close>

definition subarray :: "byte list \<Rightarrow> nat \<Rightarrow> nat \<Rightarrow> byte list" where
  "subarray b i j = take (j - i) (drop i b)"

definition at :: "byte list \<Rightarrow> nat \<Rightarrow> byte option" where
  "at b i = (if i < length b then Some (b ! i) else None)"

definition alloc :: "nat \<Rightarrow> byte list" where
  "alloc n = replicate n 0"

definition readBE :: "nat \<Rightarrow> byte list \<Rightarrow> nat \<Rightarrow> nat result" where
  "readBE n b off = (if off + n \<le> length b then Inr (beNat (take n (drop off b))) else Inl RangeError)"

definition readLE :: "nat \<Rightarrow> byte list \<Rightarrow> nat \<Rightarrow> nat result" where
  "readLE n b off = (if off + n \<le> length b then Inr (leNat (take n (drop off b))) else Inl RangeError)"

definition splice :: "byte list \<Rightarrow> nat \<Rightarrow> byte list \<Rightarrow> byte list" where
  "splice b off src = take off b @ src @ drop (off + length src) b"

definition bufSet :: "byte list \<Rightarrow> byte list \<Rightarrow> nat \<Rightarrow> byte list result" where
  "bufSet b src off = (if off + length src \<le> length b then Inr (splice b off src) else Inl RangeError)"

definition writeBE :: "nat \<Rightarrow> byte list \<Rightarrow> int \<Rightarrow> nat \<Rightarrow> byte list result" where
  "writeBE n b v off =
     (if v < 0 \<or> 256 ^ n \<le> v then Inl RangeError else bufSet b (beBytes n (nat v)) off)"

lemma length_splice [codec_simps]: "off + length src \<le> length b \<Longrightarrow> length (splice b off src) = length b"
  by (simp add: splice_def)

lemma length_bufSet: "bufSet b src off = Inr b' \<Longrightarrow> length b' = length b"
  by (auto simp: bufSet_def length_splice split: if_splits)

lemma length_writeBE: "writeBE n b v off = Inr b' \<Longrightarrow> length b' = length b"
  by (auto simp: writeBE_def length_bufSet split: if_splits)

lemma length_alloc [simp]: "length (alloc n) = n"
  by (simp add: alloc_def)

text \<open>
  A write at the end of what has been written so far: a fresh buffer filled from the left is the
  concatenation of what was written and of the zeros that remain.
\<close>

lemma bufSet_fill: "length pre = off \<Longrightarrow> length src \<le> length rest \<Longrightarrow>
    bufSet (pre @ rest) src off = Inr (pre @ src @ drop (length src) rest)"
  by (auto simp: bufSet_def splice_def)

lemma writeBE_fill: "length pre = off \<Longrightarrow> n \<le> length rest \<Longrightarrow> 0 \<le> v \<Longrightarrow> v < 256 ^ n \<Longrightarrow>
    writeBE n (pre @ rest) v off = Inr (pre @ beBytes n (nat v) @ drop n rest)"
  by (simp add: writeBE_def bufSet_fill not_le)

text \<open>The same in the form the encoders use: \<open>filled pre k\<close> has \<open>pre\<close> written and \<open>k\<close> bytes to go.\<close>

definition filled :: "byte list \<Rightarrow> nat \<Rightarrow> byte list" where
  "filled pre k = pre @ replicate k 0"

lemma alloc_filled: "alloc n = filled [] n"
  by (simp add: alloc_def filled_def)

lemma filled_0 [simp]: "filled pre 0 = pre"
  by (simp add: filled_def)

lemma length_filled [simp]: "length (filled pre k) = length pre + k"
  by (simp add: filled_def)

lemma bufSet_filled: "off = length pre \<Longrightarrow> length src \<le> k \<Longrightarrow>
    bufSet (filled pre k) src off = Inr (filled (pre @ src) (k - length src))"
  by (simp add: filled_def bufSet_fill)

lemma writeBE_filled: "off = length pre \<Longrightarrow> n \<le> k \<Longrightarrow> 0 \<le> v \<Longrightarrow> v < 256 ^ n \<Longrightarrow>
    writeBE n (filled pre k) v off = Inr (filled (pre @ beBytes n (nat v)) (k - n))"
  by (simp add: filled_def writeBE_fill)

lemma writeBE_alloc: "0 \<le> v \<Longrightarrow> v < 256 ^ n \<Longrightarrow> writeBE n (alloc n) v 0 = Inr (beBytes n (nat v))"
  using writeBE_fill [of "[]" 0 n "alloc n" v] by simp

lemma writeBE_alloc_Inr_iff:
  "writeBE n (alloc n) v 0 = Inr b \<longleftrightarrow> 0 \<le> v \<and> v < 256 ^ n \<and> b = beBytes n (nat v)"
  using writeBE_alloc [of v n] by (auto simp: writeBE_def)

lemma readBE_at: "length pre = off \<Longrightarrow> length bs = n \<Longrightarrow> readBE n (pre @ bs @ post) off = Inr (beNat bs)"
  by (simp add: readBE_def)

lemma readLE_at: "length pre = off \<Longrightarrow> length bs = n \<Longrightarrow> readLE n (pre @ bs @ post) off = Inr (leNat bs)"
  by (simp add: readLE_def)

lemma subarray_at: "length pre = i \<Longrightarrow> i + length bs = j \<Longrightarrow> subarray (pre @ bs @ post) i j = bs"
  by (auto simp: subarray_def)

lemma length_subarray_le: "length (subarray b i j) \<le> j - i"
  by (simp add: subarray_def)

lemma length_subarray: "i \<le> j \<Longrightarrow> j \<le> length b \<Longrightarrow> length (subarray b i j) = j - i"
  by (simp add: subarray_def)

text \<open>Reads of a buffer known as a concatenation: the offset walks over the parts before it.\<close>

lemma readBE_Cons_part: "length p \<le> off \<Longrightarrow> readBE n (p @ b) off = readBE n b (off - length p)"
  by (auto simp: readBE_def)

lemma readLE_Cons_part: "length p \<le> off \<Longrightarrow> readLE n (p @ b) off = readLE n b (off - length p)"
  by (auto simp: readLE_def)

lemma readBE_here: "length p = n \<Longrightarrow> readBE n (p @ b) 0 = Inr (beNat p)"
  by (simp add: readBE_def)

lemma readLE_here: "length p = n \<Longrightarrow> readLE n (p @ b) 0 = Inr (leNat p)"
  by (simp add: readLE_def)

lemma readLE_last: "length p = n \<Longrightarrow> readLE n p 0 = Inr (leNat p)"
  by (simp add: readLE_def)

lemma subarray_Cons_part: "length p \<le> i \<Longrightarrow> i \<le> j \<Longrightarrow>
    subarray (p @ b) i j = subarray b (i - length p) (j - length p)"
  by (simp add: subarray_def)

lemma subarray_here: "length p = j \<Longrightarrow> subarray (p @ b) 0 j = p"
  by (simp add: subarray_def)

lemma subarray_last: "length p = j \<Longrightarrow> subarray p 0 j = p"
  by (simp add: subarray_def)

lemma subarray_0: "length p \<le> j \<Longrightarrow> subarray p 0 j = p"
  by (simp add: subarray_def)

lemma take_drop_join: "j = i + n \<Longrightarrow> take n (drop i b) @ drop j b = drop i b"
  by (metis add.commute append_take_drop_id drop_drop)

lemmas read_parts = readBE_Cons_part readLE_Cons_part readBE_here readLE_here readLE_last
  subarray_Cons_part subarray_here subarray_last

section \<open>Interfaces of encodings\<close>

text \<open>
  What a client may rely on of an encoder and its decoder: a well-formed value survives the round
  trip, hence two well-formed values with the same encoding are equal; and, for an encoding that
  determines its value, what decodes re-encodes to the bytes that were decoded.
\<close>

locale codec =
  fixes enc :: "'a \<Rightarrow> byte list result"
    and dec :: "byte list \<Rightarrow> 'a result"
    and wf :: "'a \<Rightarrow> bool"
  assumes round_trip: "wf x \<Longrightarrow> \<exists>b. enc x = Inr b \<and> dec b = Inr x"
begin

lemma enc_defined: "wf x \<Longrightarrow> \<exists>b. enc x = Inr b"
  using round_trip by blast

lemma dec_enc: "wf x \<Longrightarrow> bnd (enc x) dec = Inr x"
  using round_trip [of x] by auto

lemma enc_inject:
  assumes "wf x" "wf y" "enc x = enc y"
  shows "x = y"
  using round_trip [OF assms(1)] round_trip [OF assms(2)] assms(3) by auto

end

locale exact_codec = codec +
  fixes size_ok :: "byte list \<Rightarrow> bool"
  assumes dec_total: "size_ok b \<Longrightarrow> \<exists>x. dec b = Inr x \<and> wf x \<and> enc x = Inr b"
begin

lemma dec_inject:
  assumes "size_ok b" "size_ok c" "dec b = dec c"
  shows "b = c"
  using dec_total [OF assms(1)] dec_total [OF assms(2)] assms(3) by auto

end

section \<open>Text\<close>

text \<open>\<open>Buffer.from(s)\<close> for an ASCII string, and the decimal rendering \<open>n.toString()\<close>.\<close>

definition ascii :: "string \<Rightarrow> byte list" where
  "ascii s = map of_char s"

lemma length_ascii [simp]: "length (ascii s) = length s"
  by (simp add: ascii_def)

fun decDigits :: "nat \<Rightarrow> nat list" where
  "decDigits n = (if n < 10 then [n] else decDigits (n div 10) @ [n mod 10])"

declare decDigits.simps [simp del]

definition digitByte :: "nat \<Rightarrow> byte" where
  "digitByte d = word_of_nat (48 + d)"

definition decBytes :: "nat \<Rightarrow> byte list" where
  "decBytes n = map digitByte (decDigits n)"

definition digitsNat :: "nat list \<Rightarrow> nat" where
  "digitsNat ds = foldl (\<lambda>a d. 10 * a + d) 0 ds"

lemma digitsNat_decDigits: "digitsNat (decDigits n) = n"
proof (induction n rule: decDigits.induct)
  case (1 n)
  then show ?case
    by (cases "n < 10") (simp_all add: decDigits.simps [of n] digitsNat_def)
qed

lemma decDigits_inject: "decDigits m = decDigits n \<longleftrightarrow> m = n"
  by (metis digitsNat_decDigits)

lemma decDigits_less10: "d \<in> set (decDigits n) \<Longrightarrow> d < 10"
proof (induction n rule: decDigits.induct)
  case (1 n)
  then show ?case by (cases "n < 10") (auto simp: decDigits.simps [of n])
qed

lemma decDigits_nonempty [simp]: "decDigits n \<noteq> []"
  by (simp add: decDigits.simps [of n])

lemma digitByte_inject: "d < 10 \<Longrightarrow> e < 10 \<Longrightarrow> digitByte d = digitByte e \<longleftrightarrow> d = e"
  by (auto simp: digitByte_def of_nat_eq_iff word_of_nat_eq_iff take_bit_eq_mod
      simp flip: of_nat_add)

lemma map_digitByte_inject:
  "\<forall>d\<in>set ds. d < 10 \<Longrightarrow> \<forall>e\<in>set es. e < 10 \<Longrightarrow> map digitByte ds = map digitByte es \<longleftrightarrow> ds = es"
  by (subst inj_on_map_eq_map) (auto simp: inj_on_def digitByte_inject)

lemma decBytes_inject: "decBytes m = decBytes n \<longleftrightarrow> m = n"
  using map_digitByte_inject [of "decDigits m" "decDigits n"]
  by (auto simp: decBytes_def decDigits_less10 decDigits_inject)

end
