(* ===== verification/Array_Queue.thy ===== *)
theory Array_Queue
  imports Prelude
begin

text \<open>
  The ring buffer \<open>ArrayQueue\<close> of \<open>solana/ts/src/utils.ts\<close>. An array slot is \<open>undefined\<close> (a hole),
  \<open>null\<close> or an element. Growing replaces the array object; \<open>enqueue\<close> keeps writing to the array it
  read before, so the model threads both arrays. The capacity is positive (the code's only queue
  takes the default, 256).

  The interface \<open>bounded_fifo\<close> is what a client of a queue may rely on while there is room; it is
  discharged for the ring buffer, and its refinement of a list queue is proved once, for the
  interface.
\<close>

section \<open>The class\<close>

datatype 'a slot = Undefined | Null | Item 'a

record 'a arrayQueue =
  aq_data :: "'a slot list"
  aq_size :: nat
  aq_index :: nat

definition newArrayQueue :: "nat option \<Rightarrow> 'a arrayQueue" where
  "newArrayQueue capacity = \<lparr>aq_data = replicate (orElse capacity 256) Null, aq_size = 0, aq_index = 0\<rparr>"

definition queueIsEmpty :: "'a arrayQueue \<Rightarrow> bool" where
  "queueIsEmpty q \<longleftrightarrow> aq_size q = 0"

definition queueLength :: "'a arrayQueue \<Rightarrow> nat" where
  "queueLength q = aq_size q"

text \<open>Reading past the end of an array gives \<open>undefined\<close>.\<close>

definition slotAt :: "'a slot list \<Rightarrow> nat \<Rightarrow> 'a slot" where
  "slotAt data i = (if i < length data then data ! i else Undefined)"

definition queueHead :: "'a arrayQueue \<Rightarrow> 'a slot" where
  "queueHead q = (if queueIsEmpty q then Null else slotAt (aq_data q) (aq_index q))"

fun resizeLoop :: "'a slot list \<Rightarrow> nat \<Rightarrow> nat \<Rightarrow> nat \<Rightarrow> 'a slot list \<Rightarrow> 'a slot list" where
  "resizeLoop data index i 0 newData = newData"
| "resizeLoop data index i (Suc remaining) newData =
     resizeLoop data index (Suc i) remaining
       (newData[i := slotAt data ((index + i) mod length data)])"

definition queueResize :: "'a arrayQueue \<Rightarrow> 'a arrayQueue" where
  "queueResize q =
     (let data = aq_data q; size' = aq_size q; index = aq_index q;
          newData = replicate (size' * 2) Undefined
      in q\<lparr>aq_data := resizeLoop data index 0 size' newData, aq_index := 0\<rparr>)"

definition queueEnqueue :: "'a arrayQueue \<Rightarrow> 'a \<Rightarrow> 'a arrayQueue" where
  "queueEnqueue q v =
     (let data = aq_data q; size' = aq_size q; index = aq_index q;
          resized = (size' + 1 > length data);
          q1 = (if resized then queueResize q else q);
          written = data[(index + size') mod length data := Item v]  \<comment> \<open>the array read at the start\<close>
      in q1\<lparr>aq_data := (if resized then aq_data q1 else written), aq_size := aq_size q1 + 1\<rparr>)"

definition queueDequeue :: "'a arrayQueue \<Rightarrow> 'a arrayQueue" where
  "queueDequeue q =
     (if queueIsEmpty q then q
      else q\<lparr>aq_index := (aq_index q + 1) mod length (aq_data q), aq_size := aq_size q - 1\<rparr>)"

section \<open>Abstraction\<close>

text \<open>The slots between head and tail, in order; a queue is well formed when all hold elements.\<close>

definition queueSlots :: "'a arrayQueue \<Rightarrow> 'a slot list" where
  "queueSlots q = map (\<lambda>i. aq_data q ! ((aq_index q + i) mod length (aq_data q))) [0..<aq_size q]"

fun slotItem :: "'a slot \<Rightarrow> 'a option" where
  "slotItem (Item x) = Some x"
| "slotItem _ = None"

definition queueItems :: "'a arrayQueue \<Rightarrow> 'a list" where
  "queueItems q = List.map_filter slotItem (queueSlots q)"

definition ringShape :: "'a arrayQueue \<Rightarrow> bool" where
  "ringShape q \<longleftrightarrow> 0 < length (aq_data q) \<and> aq_size q \<le> length (aq_data q) \<and> aq_index q < length (aq_data q)"

definition queueInv :: "'a arrayQueue \<Rightarrow> bool" where
  "queueInv q \<longleftrightarrow> ringShape q \<and> (\<exists>xs. queueSlots q = map Item xs)"

definition queueRoom :: "'a arrayQueue \<Rightarrow> nat" where
  "queueRoom q = length (aq_data q) - aq_size q"

lemma length_queueSlots [simp]: "length (queueSlots q) = aq_size q"
  by (simp add: queueSlots_def)

lemma map_filter_Item [simp]: "List.map_filter slotItem (map Item xs) = xs"
  by (induction xs) (simp_all add: List.map_filter_def)

lemma queueItems_eq: "queueSlots q = map Item xs \<Longrightarrow> queueItems q = xs"
  by (simp add: queueItems_def)

lemma queueSlots_items: "queueInv q \<Longrightarrow> queueSlots q = map Item (queueItems q)"
  by (auto simp: queueInv_def queueItems_def)

lemma ringShape_new: "0 < orElse capacity 256 \<Longrightarrow> ringShape (newArrayQueue capacity)"
  by (simp add: ringShape_def newArrayQueue_def)

lemma queueSlots_new [simp]: "queueSlots (newArrayQueue capacity) = []"
  by (simp add: queueSlots_def newArrayQueue_def)

lemma ring_distinct:
  assumes "i < n" "k < (n :: nat)" "j < n"
  shows "(j + i) mod n = (j + k) mod n \<longleftrightarrow> i = k"
proof
  assume "(j + i) mod n = (j + k) mod n"
  moreover have "(j + i) mod n = (if j + i < n then j + i else j + i - n)"
    using assms by (simp add: mod_if)
  moreover have "(j + k) mod n = (if j + k < n then j + k else j + k - n)"
    using assms by (simp add: mod_if)
  ultimately show "i = k" using assms by (auto split: if_splits)
qed simp

lemma queueSlots_enqueue_room:
  assumes "ringShape q" "aq_size q < length (aq_data q)"
  shows "queueSlots (queueEnqueue q v) = queueSlots q @ [Item v]"
proof -
  let ?n = "length (aq_data q)" and ?k = "(aq_index q + aq_size q) mod length (aq_data q)"
  have old: "(aq_data q)[?k := Item v] ! ((aq_index q + i) mod ?n) = aq_data q ! ((aq_index q + i) mod ?n)"
    if "i < aq_size q" for i
  proof (rule nth_list_update_neq)
    show "?k \<noteq> (aq_index q + i) mod ?n"
      using assms that ring_distinct [of i ?n "aq_size q" "aq_index q"] by (auto simp: ringShape_def)
  qed
  have new: "(aq_data q)[?k := Item v] ! ?k = Item v"
    using assms by (simp add: ringShape_def)
  show ?thesis
    using assms old new by (simp add: queueSlots_def queueEnqueue_def Let_def)
qed

lemma ringShape_enqueue_room:
  "ringShape q \<Longrightarrow> aq_size q < length (aq_data q) \<Longrightarrow> ringShape (queueEnqueue q v)"
  by (auto simp: ringShape_def queueEnqueue_def Let_def)

lemma resizeLoop_length [simp]: "length (resizeLoop data index i n newData) = length newData"
  by (induction n arbitrary: i newData) auto

lemma resizeLoop_nth:
  "i + n \<le> length newData \<Longrightarrow> k < length newData \<Longrightarrow>
   resizeLoop data index i n newData ! k =
     (if i \<le> k \<and> k < i + n then slotAt data ((index + k) mod length data) else newData ! k)"
proof (induction n arbitrary: i newData)
  case (Suc n)
  then show ?case by (auto simp: nth_list_update)
qed auto

lemma queueSlots_resize: "ringShape q \<Longrightarrow> queueSlots (queueResize q) = queueSlots q"
  by (auto simp: queueSlots_def queueResize_def Let_def ringShape_def resizeLoop_nth slotAt_def)

lemma queueSlots_enqueue_full:
  assumes "ringShape q" "aq_size q = length (aq_data q)"
  shows "queueSlots (queueEnqueue q v) = queueSlots q @ [Undefined]"
  using assms
  by (auto simp: queueSlots_def queueEnqueue_def queueResize_def Let_def ringShape_def
      resizeLoop_nth slotAt_def)

lemma ringShape_enqueue: "ringShape q \<Longrightarrow> ringShape (queueEnqueue q v)"
  by (cases "aq_size q < length (aq_data q)")
    (auto simp: ringShape_def queueEnqueue_def queueResize_def Let_def)

lemma queueSlots_dequeue:
  assumes "ringShape q"
  shows "queueSlots (queueDequeue q) = tl (queueSlots q)"
proof (cases "aq_size q")
  case 0
  then show ?thesis by (simp add: queueSlots_def queueDequeue_def queueIsEmpty_def)
next
  case (Suc n)
  have "((aq_index q + 1) mod length (aq_data q) + i) mod length (aq_data q) =
      (aq_index q + Suc i) mod length (aq_data q)" for i
    by (simp add: mod_add_left_eq)
  with Suc show ?thesis
    by (auto simp: queueSlots_def queueDequeue_def queueIsEmpty_def upt_conv_Cons map_Suc_upt [symmetric]
        comp_def simp del: upt_Suc)
qed

lemma ringShape_dequeue: "ringShape q \<Longrightarrow> ringShape (queueDequeue q)"
  by (auto simp: ringShape_def queueDequeue_def)

lemma queueHead_slots: "ringShape q \<Longrightarrow> queueHead q = (case queueSlots q of [] \<Rightarrow> Null | s # _ \<Rightarrow> s)"
  by (cases "aq_size q")
    (auto simp: queueHead_def queueIsEmpty_def queueSlots_def slotAt_def ringShape_def upt_conv_Cons
      simp del: upt_Suc)

lemma capacity_enqueue_room:
  "aq_size q < length (aq_data q) \<Longrightarrow> length (aq_data (queueEnqueue q v)) = length (aq_data q)"
  by (simp add: queueEnqueue_def Let_def)

lemma size_enqueue [simp]: "aq_size (queueEnqueue q v) = Suc (aq_size q)"
  by (simp add: queueEnqueue_def queueResize_def Let_def)

lemma size_dequeue [simp]: "aq_size (queueDequeue q) = aq_size q - 1"
  by (auto simp: queueDequeue_def queueIsEmpty_def)

lemma capacity_dequeue [simp]: "length (aq_data (queueDequeue q)) = length (aq_data q)"
  by (simp add: queueDequeue_def)

section \<open>The interface of a bounded queue\<close>

datatype 'a queueOp = Enqueue 'a | Dequeue

fun listQueueRun :: "'a list \<Rightarrow> 'a queueOp list \<Rightarrow> 'a list" where
  "listQueueRun xs [] = xs"
| "listQueueRun xs (Enqueue x # ops) = listQueueRun (xs @ [x]) ops"
| "listQueueRun xs (Dequeue # ops) = listQueueRun (tl xs) ops"

text \<open>The run never holds more than \<open>cap\<close> elements.\<close>

fun staysWithin :: "nat \<Rightarrow> nat \<Rightarrow> 'a queueOp list \<Rightarrow> bool" where
  "staysWithin cap n [] = True"
| "staysWithin cap n (Enqueue x # ops) = (n < cap \<and> staysWithin cap (Suc n) ops)"
| "staysWithin cap n (Dequeue # ops) = staysWithin cap (n - 1) ops"

fun queueRun :: "('q \<Rightarrow> 'a \<Rightarrow> 'q) \<Rightarrow> ('q \<Rightarrow> 'q) \<Rightarrow> 'q \<Rightarrow> 'a queueOp list \<Rightarrow> 'q" where
  "queueRun enq deq q [] = q"
| "queueRun enq deq q (Enqueue x # ops) = queueRun enq deq (enq q x) ops"
| "queueRun enq deq q (Dequeue # ops) = queueRun enq deq (deq q) ops"

locale bounded_fifo =
  fixes enq :: "'q \<Rightarrow> 'a \<Rightarrow> 'q"
    and deq :: "'q \<Rightarrow> 'q"
    and front :: "'q \<Rightarrow> 'a option"
    and items :: "'q \<Rightarrow> 'a list"
    and cap :: "'q \<Rightarrow> nat"
    and inv :: "'q \<Rightarrow> bool"
  assumes items_enq: "inv q \<Longrightarrow> length (items q) < cap q \<Longrightarrow> items (enq q x) = items q @ [x]"
    and items_deq: "inv q \<Longrightarrow> items (deq q) = tl (items q)"
    and front_items: "inv q \<Longrightarrow> front q = (case items q of [] \<Rightarrow> None | x # _ \<Rightarrow> Some x)"
    and cap_enq: "inv q \<Longrightarrow> length (items q) < cap q \<Longrightarrow> cap (enq q x) = cap q"
    and cap_deq: "inv q \<Longrightarrow> cap (deq q) = cap q"
    and inv_enq: "inv q \<Longrightarrow> length (items q) < cap q \<Longrightarrow> inv (enq q x)"
    and inv_deq: "inv q \<Longrightarrow> inv (deq q)"
begin

lemmas queue_laws = items_enq items_deq cap_enq cap_deq inv_enq inv_deq

lemma run_refines:
  "inv q \<Longrightarrow> staysWithin (cap q) (length (items q)) ops \<Longrightarrow>
   inv (queueRun enq deq q ops) \<and> items (queueRun enq deq q ops) = listQueueRun (items q) ops"
proof (induction ops arbitrary: q)
  case (Cons op ops)
  then show ?case by (cases op) (simp_all add: queue_laws)
qed simp

lemma run_front:
  "inv q \<Longrightarrow> staysWithin (cap q) (length (items q)) ops \<Longrightarrow>
   front (queueRun enq deq q ops) = (case listQueueRun (items q) ops of [] \<Rightarrow> None | x # _ \<Rightarrow> Some x)"
  using run_refines [of q ops] by (simp add: front_items)

end

definition queueCapacity :: "'a arrayQueue \<Rightarrow> nat" where
  "queueCapacity q = length (aq_data q)"

definition queueFront :: "'a arrayQueue \<Rightarrow> 'a option" where
  "queueFront q = slotItem (queueHead q)"

lemma length_queueItems: "queueInv q \<Longrightarrow> length (queueItems q) = aq_size q"
  using queueSlots_items [of q] length_queueSlots [of q] by (metis length_map)

lemma queueInv_enqueue:
  assumes "queueInv q" "aq_size q < length (aq_data q)"
  shows "queueItems (queueEnqueue q x) = queueItems q @ [x] \<and> queueInv (queueEnqueue q x)"
proof -
  have "queueSlots (queueEnqueue q x) = map Item (queueItems q @ [x])"
    using assms queueSlots_enqueue_room [of q x] queueSlots_items [of q]
    by (simp add: queueInv_def)
  then show ?thesis
    using assms ringShape_enqueue [of q x] queueItems_eq unfolding queueInv_def by blast
qed

lemma queueInv_dequeue:
  assumes "queueInv q"
  shows "queueItems (queueDequeue q) = tl (queueItems q) \<and> queueInv (queueDequeue q)"
proof -
  have "queueSlots (queueDequeue q) = map Item (tl (queueItems q))"
    using assms queueSlots_dequeue [of q] queueSlots_items [of q]
    by (simp add: queueInv_def map_tl)
  then show ?thesis
    using assms ringShape_dequeue [of q] queueItems_eq unfolding queueInv_def by blast
qed

interpretation ring: bounded_fifo queueEnqueue queueDequeue queueFront queueItems queueCapacity queueInv
proof unfold_locales
  fix q :: "'a arrayQueue" and x
  assume inv: "queueInv q"
  show "queueFront q = (case queueItems q of [] \<Rightarrow> None | x # _ \<Rightarrow> Some x)"
    using inv queueHead_slots [of q] queueSlots_items [OF inv]
    by (auto simp: queueFront_def queueInv_def split: list.splits)
  show "queueItems (queueDequeue q) = tl (queueItems q)" "queueInv (queueDequeue q)"
    using queueInv_dequeue [OF inv] by blast+
  show "queueCapacity (queueDequeue q) = queueCapacity q"
    by (simp add: queueCapacity_def)
  assume "length (queueItems q) < queueCapacity q"
  then have room: "aq_size q < length (aq_data q)"
    using length_queueItems [OF inv] by (simp add: queueCapacity_def)
  show "queueItems (queueEnqueue q x) = queueItems q @ [x]" "queueInv (queueEnqueue q x)"
    using queueInv_enqueue [OF inv room] by blast+
  show "queueCapacity (queueEnqueue q x) = queueCapacity q"
    using capacity_enqueue_room [OF room] by (simp add: queueCapacity_def)
qed

lemma queueInv_new: "0 < orElse capacity 256 \<Longrightarrow> queueInv (newArrayQueue capacity)"
  by (simp add: queueInv_def ringShape_new)

lemma queueItems_new [simp]: "queueItems (newArrayQueue capacity) = []"
  by (simp add: queueItems_def List.map_filter_def)

section \<open>Properties\<close>

text \<open>
  C6. First in, first out: every sequence of enqueues and dequeues on a new queue that never holds
  more than the capacity leaves exactly the elements a list queue would hold, and the head is the
  oldest of them.
\<close>

theorem arrayQueue_fifo:
  fixes ops :: "'a queueOp list"
  assumes "0 < orElse capacity 256" "staysWithin (orElse capacity 256) 0 ops"
  shows "queueItems (queueRun queueEnqueue queueDequeue (newArrayQueue capacity) ops) = listQueueRun [] ops \<and>
    queueFront (queueRun queueEnqueue queueDequeue (newArrayQueue capacity) ops) =
      (case listQueueRun [] ops of [] \<Rightarrow> None | x # _ \<Rightarrow> Some x)"
proof -
  let ?q = "newArrayQueue capacity :: 'a arrayQueue"
  have cap: "queueCapacity ?q = orElse capacity 256"
    by (simp add: queueCapacity_def newArrayQueue_def)
  show ?thesis
    using ring.run_refines [OF queueInv_new [OF assms(1)], of ops]
      ring.run_front [OF queueInv_new [OF assms(1)], of ops] assms(2) cap by simp
qed

theorem arrayQueue_fifo_witness:
  "queueItems (queueRun queueEnqueue queueDequeue (newArrayQueue (Some 2))
     [Enqueue (1 :: nat), Enqueue 2, Dequeue, Enqueue 3]) = [2, 3]"
  using arrayQueue_fifo [of "Some 2" "[Enqueue (1 :: nat), Enqueue 2, Dequeue, Enqueue 3]"] by simp

fun dequeueTimes :: "nat \<Rightarrow> 'a arrayQueue \<Rightarrow> 'a arrayQueue" where
  "dequeueTimes 0 q = q"
| "dequeueTimes (Suc n) q = dequeueTimes n (queueDequeue q)"

lemma dequeueTimes_slots:
  "ringShape q \<Longrightarrow> ringShape (dequeueTimes n q) \<and> queueSlots (dequeueTimes n q) = drop n (queueSlots q)"
proof (induction n arbitrary: q)
  case (Suc n)
  then show ?case
    using ringShape_dequeue [of q] queueSlots_dequeue [of q] by (simp add: drop_Suc tl_drop)
qed simp

text \<open>
  Growing loses an element: \<open>enqueue\<close> on a full queue counts the new element but stores it in the
  array that \<open>resize\<close> has just replaced. The size grows by one, the slot of the new element is a hole,
  and once the older elements are dequeued \<open>head\<close> is \<open>undefined\<close>, which is neither the element nor the
  \<open>null\<close> of an empty queue.
\<close>

theorem arrayQueue_enqueue_full_loses_element:
  assumes "queueInv q" "aq_size q = length (aq_data q)"
  shows "queueItems (queueEnqueue q v) = queueItems q \<and> queueLength (queueEnqueue q v) = queueLength q + 1 \<and>
    queueHead (dequeueTimes (queueLength q) (queueEnqueue q v)) = Undefined"
proof -
  have shape: "ringShape (queueEnqueue q v)"
    using assms ringShape_enqueue by (auto simp: queueInv_def)
  have slots: "queueSlots (queueEnqueue q v) = queueSlots q @ [Undefined]"
    using assms queueSlots_enqueue_full [of q v] by (simp add: queueInv_def)
  have "queueHead (dequeueTimes (queueLength q) (queueEnqueue q v)) = Undefined"
    using dequeueTimes_slots [OF shape, of "queueLength q"] slots
    by (simp add: queueHead_slots queueLength_def)
  then show ?thesis
    using slots by (simp add: queueItems_def queueLength_def List.map_filter_def)
qed

theorem arrayQueue_enqueue_full_loses_element_witness:
  "queueHead (dequeueTimes 1 (queueEnqueue (queueEnqueue (newArrayQueue (Some 1)) (7 :: nat)) 8)) = Undefined"
proof -
  let ?q = "queueEnqueue (newArrayQueue (Some 1)) (7 :: nat)"
  have "queueInv (newArrayQueue (Some 1) :: nat arrayQueue)" by (rule queueInv_new) simp
  then have "queueInv ?q"
    using queueInv_enqueue [of "newArrayQueue (Some 1) :: nat arrayQueue" 7] by (simp add: newArrayQueue_def)
  moreover have "aq_size ?q = length (aq_data ?q)"
    by (simp add: queueEnqueue_def newArrayQueue_def Let_def)
  moreover have one: "queueLength ?q = 1"
    by (simp add: queueLength_def) (simp add: newArrayQueue_def)
  ultimately have "queueHead (dequeueTimes (queueLength ?q) (queueEnqueue ?q 8)) = Undefined"
    using arrayQueue_enqueue_full_loses_element [of ?q 8] by blast
  then show ?thesis unfolding one .
qed

end
