(* ===== verification/Event_Listener.thy ===== *)
theory Event_Listener
  imports Array_Queue
begin

text \<open>
  \<open>MatchingEngineProgram.onEventCpi\<close> of \<open>solana/ts/src/matchingEngine/index.ts\<close>: the log callback that
  queues the signatures of the program's transactions, and the slot callback that fetches each queued
  transaction and reports the events among its inner instructions. First the two callbacks as
  functions on the listener's state, each run to its end; then the callbacks as the event loop runs
  them, interleaved at the \<open>await\<close> of \<open>getParsedTransaction\<close>, as a step relation.
\<close>

section \<open>The two callbacks\<close>

definition CPI_EVENT_IX_SELECTOR :: "byte list" where
  "CPI_EVENT_IX_SELECTOR = [228, 69, 165, 46, 81, 203, 154, 29]"

record innerInstruction =
  ii_programId :: pubkey
  ii_data :: "byte list option"  \<comment> \<open>base58-decoded; \<open>None\<close> when the instruction came parsed\<close>

record parsedTransaction =
  px_innerInstructions :: "innerInstruction list list option"

record listener =
  li_unprocessedTxs :: "(string \<times> int) arrayQueue"
  li_observedTxs :: "int \<Rightarrow> string set option"

definition newListener :: listener where
  "newListener = \<lparr>li_unprocessedTxs = newArrayQueue None, li_observedTxs = (\<lambda>_. None)\<rparr>"

definition onLogs :: "string \<Rightarrow> int \<Rightarrow> listener \<Rightarrow> listener" where
  "onLogs signature eventSlot l =
     (let obs = (if li_observedTxs l eventSlot = None then (li_observedTxs l)(eventSlot \<mapsto> {})
                 else li_observedTxs l);
          observed = the (obs eventSlot)
      in if signature \<in> observed then l\<lparr>li_observedTxs := obs\<rparr>
         else l\<lparr>li_unprocessedTxs := queueEnqueue (li_unprocessedTxs l) (signature, eventSlot),
                li_observedTxs := obs(eventSlot \<mapsto> insert signature observed)\<rparr>)"

text \<open>The events of a transaction, in the order of its inner instructions.\<close>

definition eventOf :: "pubkey \<Rightarrow> (byte list \<Rightarrow> 'e option) \<Rightarrow> innerInstruction \<Rightarrow> 'e option" where
  "eventOf programId decodeEvent ix =
     (case ii_data ix of
        None \<Rightarrow> None
      | Some data \<Rightarrow>
          if ii_programId ix \<noteq> programId then None
          else if subarray data 0 8 \<noteq> CPI_EVENT_IX_SELECTOR then None
          else decodeEvent (drop 8 data))"

definition eventsOf :: "pubkey \<Rightarrow> (byte list \<Rightarrow> 'e option) \<Rightarrow> parsedTransaction \<Rightarrow> 'e list result" where
  "eventsOf programId decodeEvent tx =
     (case px_innerInstructions tx of
        None \<Rightarrow> Inl TypeError
      | Some innerIxs \<Rightarrow> Inr (List.map_filter (eventOf programId decodeEvent) (concat innerIxs)))"

text \<open>
  The \<open>while\<close> loop. It ends with the queue, the reported events, and the error that rejected the
  callback, if any; destructuring an \<open>undefined\<close> head is a \<open>TypeError\<close>.
\<close>

function drain :: "pubkey \<Rightarrow> (byte list \<Rightarrow> 'e option) \<Rightarrow> (string \<Rightarrow> parsedTransaction option result) \<Rightarrow>
    (string \<times> int) arrayQueue \<Rightarrow> ('e \<times> int \<times> string) list \<Rightarrow>
    (string \<times> int) arrayQueue \<times> ('e \<times> int \<times> string) list \<times> unit result" where
  "drain programId decodeEvent getParsedTransaction q out =
     (if queueIsEmpty q then (q, out, Inr ())
      else case queueHead q of
        Null \<Rightarrow> (q, out, Inr ())
      | Undefined \<Rightarrow> (q, out, Inl TypeError)
      | Item (signature, eventSlot) \<Rightarrow>
          (case getParsedTransaction signature of
             Inl e \<Rightarrow> (q, out, Inl e)
           | Inr None \<Rightarrow> (q, out, Inr ())
           | Inr (Some tx) \<Rightarrow>
               (case eventsOf programId decodeEvent tx of
                  Inl e \<Rightarrow> (queueDequeue q, out, Inl e)
                | Inr es \<Rightarrow> drain programId decodeEvent getParsedTransaction (queueDequeue q)
                    (out @ map (\<lambda>e. (e, eventSlot, signature)) es))))"
  by pat_completeness auto
termination
  by (relation "measure (\<lambda>(p, d, g, q, out). aq_size q)") (auto simp: queueIsEmpty_def)

declare drain.simps [simp del]

text \<open>What follows the loop: the signatures of old slots are forgotten.\<close>

definition cleanUp :: "int \<Rightarrow> listener \<Rightarrow> listener" where
  "cleanUp slot l = l\<lparr>li_observedTxs := (\<lambda>s. if s < slot - 64 then None else li_observedTxs l s)\<rparr>"

definition onSlotChange :: "pubkey \<Rightarrow> (byte list \<Rightarrow> 'e option) \<Rightarrow>
    (string \<Rightarrow> parsedTransaction option result) \<Rightarrow> int \<Rightarrow> listener \<Rightarrow>
    listener \<times> ('e \<times> int \<times> string) list \<times> unit result" where
  "onSlotChange programId decodeEvent getParsedTransaction slot l =
     (case drain programId decodeEvent getParsedTransaction (li_unprocessedTxs l) [] of
        (q, out, Inl e) \<Rightarrow> (l\<lparr>li_unprocessedTxs := q\<rparr>, out, Inl e)
      | (q, out, Inr u) \<Rightarrow> (cleanUp slot (l\<lparr>li_unprocessedTxs := q\<rparr>), out, Inr u))"

text \<open>
  A transaction is queued once per slot: a second log of the same signature at the same slot
  changes nothing, and it still changes nothing after any slot change at most 64 slots later,
  whatever the slot callback fetched.
\<close>

theorem onLogs_deduplicates:
  assumes "slot - 64 \<le> eventSlot"
    and "onSlotChange programId decodeEvent fetch slot (onLogs signature eventSlot l) = (l', out, r)"
  shows "onLogs signature eventSlot (onLogs signature eventSlot l) = onLogs signature eventSlot l \<and>
    onLogs signature eventSlot l' = l'"
proof -
  let ?l = "onLogs signature eventSlot l"
  have seen: "\<exists>s. li_observedTxs ?l eventSlot = Some s \<and> signature \<in> s"
    by (auto simp: onLogs_def Let_def)
  have again: "onLogs signature eventSlot m = m"
    if "\<exists>s. li_observedTxs m eventSlot = Some s \<and> signature \<in> s" for m :: listener
    using that by (auto simp: onLogs_def)
  have "li_observedTxs l' eventSlot = li_observedTxs ?l eventSlot"
    using assms by (auto simp: onSlotChange_def cleanUp_def split: prod.splits sum.splits)
  then show ?thesis using seen again [of ?l] again [of l'] by simp
qed

theorem onLogs_deduplicates_witness:
  "\<exists>l' out r. onSlotChange [] (\<lambda>_. None :: nat option) (\<lambda>_. Inr None) 100 (onLogs ''tx'' 50 newListener) = (l', out, r) \<and>
     onLogs ''tx'' 50 l' = l'"
proof -
  obtain l' out r where
    "onSlotChange [] (\<lambda>_. None :: nat option) (\<lambda>_. Inr None) 100 (onLogs ''tx'' 50 newListener) = (l', out, r)"
    by (metis prod_cases3)
  note o = this
  have "onLogs ''tx'' 50 (onLogs ''tx'' 50 newListener) = onLogs ''tx'' 50 newListener \<and> onLogs ''tx'' 50 l' = l'"
    by (rule onLogs_deduplicates [OF _ o]) simp
  with o show ?thesis by blast
qed

section \<open>The callbacks interleaved\<close>

text \<open>
  The slot callback is \<open>async\<close>: it runs without interruption from its start, or from the moment a fetch
  resolves, to the next \<open>await\<close>. While it waits, other logs and other slot changes are handled, and
  each slot change starts another run of the callback on the same listener. A run that waits is the
  entry it read from the head of the queue, with the slot it was started for. The result of a fetch
  depends on the transaction only (\<open>txOf\<close>), but may come late (\<open>null\<close>) or fail. A run that throws
  ends at once: after a failed fetch with the entry still queued, and after a transaction without
  inner instructions with the entry taken but nothing reported. The callback that the user passed
  does not throw. The ghost fields record what was logged, queued, taken from the queue and reported,
  the slots of the slot changes, and whether an enqueue ever found the queue full.
\<close>

record 'e loopState =
  ls_listener :: listener
  ls_waiting :: "((string \<times> int) \<times> int) list"
  ls_logged :: "(string \<times> int) list"
  ls_queued :: "(string \<times> int) list"
  ls_taken :: "(string \<times> int) list"
  ls_reported :: "('e \<times> int \<times> string) list"
  ls_slots :: "int list"
  ls_overflow :: bool

definition initLoop :: "'e loopState" where
  "initLoop = \<lparr>ls_listener = newListener, ls_waiting = [], ls_logged = [], ls_queued = [], ls_taken = [],
     ls_reported = [], ls_slots = [], ls_overflow = False\<rparr>"

abbreviation ls_queue :: "'e loopState \<Rightarrow> (string \<times> int) arrayQueue" where
  "ls_queue s \<equiv> li_unprocessedTxs (ls_listener s)"

definition isObserved :: "listener \<Rightarrow> string \<Rightarrow> int \<Rightarrow> bool" where
  "isObserved l signature eventSlot = (case li_observedTxs l eventSlot of None \<Rightarrow> False | Some obs \<Rightarrow> signature \<in> obs)"

text \<open>
  What a run does when it reaches the loop condition: it ends and forgets old slots, throws, or waits
  for the head it reads.
\<close>

definition nextWait :: "int \<Rightarrow> listener \<Rightarrow> listener \<times> ((string \<times> int) \<times> int) list" where
  "nextWait slot l =
     (if queueIsEmpty (li_unprocessedTxs l) then (cleanUp slot l, [])
      else case queueHead (li_unprocessedTxs l) of
        Null \<Rightarrow> (cleanUp slot l, [])
      | Undefined \<Rightarrow> (l, [])
      | Item x \<Rightarrow> (l, [(x, slot)]))"

definition dequeued :: "listener \<Rightarrow> listener" where
  "dequeued l = l\<lparr>li_unprocessedTxs := queueDequeue (li_unprocessedTxs l)\<rparr>"

inductive loopStep :: "bool \<Rightarrow> pubkey \<Rightarrow> (byte list \<Rightarrow> 'e option) \<Rightarrow> (string \<Rightarrow> parsedTransaction) \<Rightarrow>
    'e loopState \<Rightarrow> 'e loopState \<Rightarrow> bool"
  for exclusive :: bool and programId :: pubkey and decodeEvent :: "byte list \<Rightarrow> 'e option"
    and txOf :: "string \<Rightarrow> parsedTransaction" where
  log: "loopStep exclusive programId decodeEvent txOf s
    (s\<lparr>ls_listener := onLogs signature eventSlot (ls_listener s),
       ls_logged := ls_logged s @ [(signature, eventSlot)],
       ls_queued := ls_queued s @ (if isObserved (ls_listener s) signature eventSlot then [] else [(signature, eventSlot)]),
       ls_overflow := (ls_overflow s \<or> \<not> isObserved (ls_listener s) signature eventSlot \<and>
         aq_size (ls_queue s) = length (aq_data (ls_queue s)))\<rparr>)"
| slotChange: "(exclusive \<longrightarrow> ls_waiting s = []) \<Longrightarrow> nextWait slot (ls_listener s) = (l, w) \<Longrightarrow>
    loopStep exclusive programId decodeEvent txOf s
      (s\<lparr>ls_listener := l, ls_waiting := ls_waiting s @ w, ls_slots := ls_slots s @ [slot]\<rparr>)"
| fetched: "ls_waiting s = ws1 @ (x, slot) # ws2 \<Longrightarrow> eventsOf programId decodeEvent (txOf (fst x)) = Inr es \<Longrightarrow>
    nextWait slot (dequeued (ls_listener s)) = (l, w) \<Longrightarrow>
    loopStep exclusive programId decodeEvent txOf s
      (s\<lparr>ls_listener := l, ls_waiting := ws1 @ w @ ws2, ls_taken := ls_taken s @ [x],
         ls_reported := ls_reported s @ map (\<lambda>e. (e, snd x, fst x)) es\<rparr>)"
| thrown: "ls_waiting s = ws1 @ (x, slot) # ws2 \<Longrightarrow> eventsOf programId decodeEvent (txOf (fst x)) = Inl e \<Longrightarrow>
    loopStep exclusive programId decodeEvent txOf s
      (s\<lparr>ls_listener := dequeued (ls_listener s), ls_waiting := ws1 @ ws2, ls_taken := ls_taken s @ [x]\<rparr>)"
| notYet: "ls_waiting s = ws1 @ (x, slot) # ws2 \<Longrightarrow>
    loopStep exclusive programId decodeEvent txOf s
      (s\<lparr>ls_listener := cleanUp slot (ls_listener s), ls_waiting := ws1 @ ws2\<rparr>)"
| failed: "ls_waiting s = ws1 @ (x, slot) # ws2 \<Longrightarrow>
    loopStep exclusive programId decodeEvent txOf s (s\<lparr>ls_waiting := ws1 @ ws2\<rparr>)"

inductive loopReachable :: "bool \<Rightarrow> pubkey \<Rightarrow> (byte list \<Rightarrow> 'e option) \<Rightarrow> (string \<Rightarrow> parsedTransaction) \<Rightarrow>
    'e loopState \<Rightarrow> bool"
  for exclusive :: bool and programId :: pubkey and decodeEvent :: "byte list \<Rightarrow> 'e option"
    and txOf :: "string \<Rightarrow> parsedTransaction" where
  start: "loopReachable exclusive programId decodeEvent txOf initLoop"
| step: "loopReachable exclusive programId decodeEvent txOf s \<Longrightarrow> loopStep exclusive programId decodeEvent txOf s t \<Longrightarrow>
    loopReachable exclusive programId decodeEvent txOf t"

text \<open>What is reported of an entry that is taken: its events, and nothing if it has no inner instructions.\<close>

definition reportOf :: "pubkey \<Rightarrow> (byte list \<Rightarrow> 'e option) \<Rightarrow> (string \<Rightarrow> parsedTransaction) \<Rightarrow> string \<times> int \<Rightarrow>
    ('e \<times> int \<times> string) list" where
  "reportOf programId decodeEvent txOf x =
     (case eventsOf programId decodeEvent (txOf (fst x)) of Inl _ \<Rightarrow> [] | Inr es \<Rightarrow> map (\<lambda>e. (e, snd x, fst x)) es)"

section \<open>One run at a time\<close>

text \<open>
  With one run of the slot callback at a time, the entry a run waits for is the head of the queue,
  and what was taken followed by what is queued is what was queued ever.
\<close>

definition loopInv :: "'e loopState \<Rightarrow> bool" where
  "loopInv s \<longleftrightarrow> queueInv (ls_queue s) \<and> ls_queued s = ls_taken s @ queueItems (ls_queue s) \<and>
     (ls_waiting s = [] \<or> (\<exists>x slot. ls_waiting s = [(x, slot)] \<and> queueFront (ls_queue s) = Some x))"

lemma cleanUp_queue [simp]: "li_unprocessedTxs (cleanUp slot l) = li_unprocessedTxs l"
  by (simp add: cleanUp_def)

lemma dequeued_queue [simp]: "li_unprocessedTxs (dequeued l) = queueDequeue (li_unprocessedTxs l)"
  by (simp add: dequeued_def)

lemma nextWait_front: "queueInv (li_unprocessedTxs l) \<Longrightarrow>
  nextWait slot l = (case queueFront (li_unprocessedTxs l) of None \<Rightarrow> (cleanUp slot l, []) | Some x \<Rightarrow> (l, [(x, slot)]))"
  using ring.front_items [of "li_unprocessedTxs l"] length_queueItems [of "li_unprocessedTxs l"]
  by (auto simp: nextWait_def queueFront_def queueIsEmpty_def split: slot.splits list.splits)

lemma nextWait_queue: "nextWait slot l = (l', w) \<Longrightarrow> li_unprocessedTxs l' = li_unprocessedTxs l"
  by (auto simp: nextWait_def split: if_splits slot.splits)

lemma front_enqueue:
  "queueInv q \<Longrightarrow> aq_size q < length (aq_data q) \<Longrightarrow> queueFront q = Some y \<Longrightarrow> queueFront (queueEnqueue q x) = Some y"
  using ring.front_items [of q] ring.front_items [of "queueEnqueue q x"] queueInv_enqueue [of q x]
  by (cases "queueItems q") auto

lemma onLogs_queue: "li_unprocessedTxs (onLogs signature eventSlot l) =
    (if isObserved l signature eventSlot then li_unprocessedTxs l
     else queueEnqueue (li_unprocessedTxs l) (signature, eventSlot))"
  by (auto simp: onLogs_def isObserved_def Let_def split: option.splits)

lemma loopInv_init: "loopInv initLoop"
  using queueInv_new [of None] by (simp add: loopInv_def initLoop_def newListener_def)

lemma front_taken: "queueInv q \<Longrightarrow> queueFront q = Some x \<Longrightarrow> queueItems q = x # queueItems (queueDequeue q)"
  using ring.front_items [of q] queueInv_dequeue [of q] by (auto split: list.splits)

lemma loopStep_inv:
  assumes "loopStep True programId decodeEvent txOf s t" "loopInv s" "\<not> ls_overflow t"
  shows "loopInv t"
  using assms(1)
proof cases
  case (log signature eventSlot)
  then have "isObserved (ls_listener s) signature eventSlot \<or> aq_size (ls_queue s) < length (aq_data (ls_queue s))"
    using assms by (auto simp: loopInv_def queueInv_def ringShape_def)
  then show ?thesis
    using log assms queueInv_enqueue [of "ls_queue s" "(signature, eventSlot)"] front_enqueue [of "ls_queue s" _ "(signature, eventSlot)"]
    by (auto simp: loopInv_def onLogs_queue)
next
  case (slotChange slot l w)
  then show ?thesis
    using assms nextWait_queue [OF slotChange(3)] nextWait_front [of "ls_listener s" slot]
    by (auto simp: loopInv_def split: option.splits)
next
  case (fetched ws1 x slot ws2 es l w)
  then have one: "ws1 = []" "ws2 = []" and front: "queueFront (ls_queue s) = Some x" and inv: "queueInv (ls_queue s)"
    using assms by (auto simp: loopInv_def append_eq_Cons_conv)
  have deq: "queueInv (queueDequeue (ls_queue s))" using queueInv_dequeue [OF inv] by simp
  then have "w = [] \<or> (\<exists>y slot. w = [(y, slot)] \<and> queueFront (queueDequeue (ls_queue s)) = Some y)"
    using fetched(4) by (auto simp: nextWait_front split: option.splits)
  moreover have "ls_queued s = ls_taken s @ x # queueItems (queueDequeue (ls_queue s))"
    using assms(2) front_taken [OF inv front] by (simp add: loopInv_def)
  moreover have "li_unprocessedTxs l = queueDequeue (ls_queue s)" using nextWait_queue [OF fetched(4)] by simp
  ultimately show ?thesis using deq one by (simp add: loopInv_def fetched(1))
next
  case (thrown ws1 x slot ws2 e)
  then have one: "ws1 = []" "ws2 = []" and front: "queueFront (ls_queue s) = Some x" and inv: "queueInv (ls_queue s)"
    using assms by (auto simp: loopInv_def append_eq_Cons_conv)
  have "queueInv (queueDequeue (ls_queue s))" using queueInv_dequeue [OF inv] by simp
  moreover have "ls_queued s = ls_taken s @ x # queueItems (queueDequeue (ls_queue s))"
    using assms(2) front_taken [OF inv front] by (simp add: loopInv_def)
  ultimately show ?thesis using one by (simp add: loopInv_def thrown(1))
next
  case (notYet ws1 x slot ws2)
  then show ?thesis
    using assms by (auto simp: loopInv_def append_eq_Cons_conv)
next
  case (failed ws1 x slot ws2)
  then show ?thesis
    using assms by (auto simp: loopInv_def append_eq_Cons_conv)
qed

inductive_cases loopStepE: "loopStep exclusive programId decodeEvent txOf s t"

lemma loopStep_overflow: "loopStep exclusive programId decodeEvent txOf s t \<Longrightarrow> ls_overflow s \<Longrightarrow> ls_overflow t"
  by (erule loopStepE) auto

lemma loopReachable_inv:
  "loopReachable True programId decodeEvent txOf s \<Longrightarrow> \<not> ls_overflow s \<Longrightarrow> loopInv s"
proof (induction rule: loopReachable.induct)
  case start
  show ?case by (rule loopInv_init)
next
  case (step s t)
  then show ?case using loopStep_inv loopStep_overflow by blast
qed

text \<open>Whatever overlaps, what was reported are the reports of the entries taken, in their order.\<close>

lemma loopReachable_reported:
  "loopReachable exclusive programId decodeEvent txOf s \<Longrightarrow>
   ls_reported s = concat (map (reportOf programId decodeEvent txOf) (ls_taken s))"
proof (induction rule: loopReachable.induct)
  case start
  show ?case by (simp add: initLoop_def)
next
  case (step s t)
  from step(2,3) show ?case by (cases) (auto simp: reportOf_def)
qed

section \<open>Deduplication\<close>

text \<open>
  For a slot that no slot change has made old yet: what is observed is what was logged, and each
  entry has been queued once if it was logged, however often.
\<close>

definition freshSlot :: "'e loopState \<Rightarrow> int \<Rightarrow> bool" where
  "freshSlot s eventSlot \<longleftrightarrow> (\<forall>slot\<in>set (ls_slots s). slot - 64 \<le> eventSlot)"

definition dedupAt :: "'e loopState \<Rightarrow> string \<Rightarrow> int \<Rightarrow> bool" where
  "dedupAt s signature eventSlot \<longleftrightarrow>
     (isObserved (ls_listener s) signature eventSlot \<longleftrightarrow> (signature, eventSlot) \<in> set (ls_logged s)) \<and>
     count_list (ls_queued s) (signature, eventSlot) = (if (signature, eventSlot) \<in> set (ls_logged s) then 1 else 0)"

definition dedupInv :: "'e loopState \<Rightarrow> bool" where
  "dedupInv s \<longleftrightarrow> snd ` set (ls_waiting s) \<subseteq> set (ls_slots s) \<and>
     (\<forall>signature eventSlot. freshSlot s eventSlot \<longrightarrow> dedupAt s signature eventSlot)"

lemma isObserved_onLogs:
  "isObserved (onLogs signature eventSlot l) signature' eventSlot' \<longleftrightarrow>
     isObserved l signature' eventSlot' \<or> (signature' = signature \<and> eventSlot' = eventSlot)"
  by (auto simp: onLogs_def isObserved_def Let_def split: option.splits)

lemma isObserved_cleanUp:
  "isObserved (cleanUp slot l) signature eventSlot \<longleftrightarrow> slot - 64 \<le> eventSlot \<and> isObserved l signature eventSlot"
  by (auto simp: cleanUp_def isObserved_def split: option.splits)

lemma isObserved_dequeued [simp]: "isObserved (dequeued l) = isObserved l"
  by (simp add: dequeued_def isObserved_def fun_eq_iff)

lemma isObserved_nextWait:
  "nextWait slot l = (l', w) \<Longrightarrow> slot - 64 \<le> eventSlot \<Longrightarrow> isObserved l' signature eventSlot = isObserved l signature eventSlot"
  by (auto simp: nextWait_def isObserved_cleanUp split: if_splits slot.splits)

lemma nextWait_slot: "nextWait slot l = (l', w) \<Longrightarrow> snd ` set w \<subseteq> {slot}"
  by (auto simp: nextWait_def split: if_splits slot.splits)

lemma dedupInvI:
  assumes "dedupInv s" "snd ` set (ls_waiting t) \<subseteq> set (ls_slots t)"
    and "\<And>eventSlot. freshSlot t eventSlot \<Longrightarrow> freshSlot s eventSlot"
    and "\<And>signature eventSlot. freshSlot t eventSlot \<Longrightarrow> dedupAt s signature eventSlot \<Longrightarrow> dedupAt t signature eventSlot"
  shows "dedupInv t"
proof -
  have "dedupAt t signature eventSlot" if "freshSlot t eventSlot" for signature eventSlot
    by (rule assms(4) [OF that]) (use assms(1) assms(3) [OF that] in \<open>simp add: dedupInv_def\<close>)
  with assms(2) show ?thesis by (simp add: dedupInv_def)
qed

lemma dedupAt_same:
  assumes "dedupAt s signature eventSlot" "ls_logged t = ls_logged s" "ls_queued t = ls_queued s"
    and "isObserved (ls_listener t) signature eventSlot = isObserved (ls_listener s) signature eventSlot"
  shows "dedupAt t signature eventSlot"
  using assms by (simp add: dedupAt_def)

lemma waiting_slots: "dedupInv s \<Longrightarrow> snd ` set (ls_waiting s) \<subseteq> set (ls_slots s)"
  by (simp add: dedupInv_def)

lemma loopStep_dedup:
  assumes step: "loopStep exclusive programId decodeEvent txOf s t" and inv: "dedupInv s"
  shows "dedupInv t"
  using step
proof cases
  case (log signature eventSlot)
  show ?thesis
  proof (rule dedupInvI [OF inv])
    show "dedupAt t signature' eventSlot'" if "dedupAt s signature' eventSlot'" for signature' eventSlot'
      using that by (auto simp: log dedupAt_def isObserved_onLogs)
  qed (use waiting_slots [OF inv] in \<open>simp_all add: log freshSlot_def\<close>)
next
  case (slotChange slot l w)
  show ?thesis
  proof (rule dedupInvI [OF inv])
    show "dedupAt t signature' eventSlot'" if "freshSlot t eventSlot'" "dedupAt s signature' eventSlot'" for signature' eventSlot'
      by (rule dedupAt_same [OF that(2)]) (use that(1) isObserved_nextWait [OF slotChange(3)] in \<open>simp_all add: slotChange(1) freshSlot_def\<close>)
  qed (use waiting_slots [OF inv] nextWait_slot [OF slotChange(3)] in \<open>auto simp: slotChange(1) freshSlot_def\<close>)
next
  case (fetched ws1 x slot ws2 es l w)
  have slot: "slot \<in> set (ls_slots s)" using waiting_slots [OF inv] fetched(2) by auto
  show ?thesis
  proof (rule dedupInvI [OF inv])
    show "dedupAt t signature' eventSlot'" if "freshSlot t eventSlot'" "dedupAt s signature' eventSlot'" for signature' eventSlot'
      by (rule dedupAt_same [OF that(2)])
        (use that(1) slot isObserved_nextWait [OF fetched(4)] in \<open>simp_all add: fetched(1) freshSlot_def\<close>)
  qed (use waiting_slots [OF inv] nextWait_slot [OF fetched(4)] fetched(2) in \<open>auto simp: fetched(1) freshSlot_def\<close>)
next
  case (thrown ws1 x slot ws2 e)
  show ?thesis
  proof (rule dedupInvI [OF inv])
    show "dedupAt t signature' eventSlot'" if "dedupAt s signature' eventSlot'" for signature' eventSlot'
      by (rule dedupAt_same [OF that]) (simp_all add: thrown(1))
  qed (use waiting_slots [OF inv] thrown(2) in \<open>auto simp: thrown(1) freshSlot_def\<close>)
next
  case (notYet ws1 x slot ws2)
  have slot: "slot \<in> set (ls_slots s)" using waiting_slots [OF inv] notYet(2) by auto
  show ?thesis
  proof (rule dedupInvI [OF inv])
    show "dedupAt t signature' eventSlot'" if "freshSlot t eventSlot'" "dedupAt s signature' eventSlot'" for signature' eventSlot'
      by (rule dedupAt_same [OF that(2)]) (use that(1) slot in \<open>simp_all add: notYet(1) freshSlot_def isObserved_cleanUp\<close>)
  qed (use waiting_slots [OF inv] notYet(2) in \<open>auto simp: notYet(1) freshSlot_def\<close>)
next
  case (failed ws1 x slot ws2)
  show ?thesis
  proof (rule dedupInvI [OF inv])
    show "dedupAt t signature' eventSlot'" if "dedupAt s signature' eventSlot'" for signature' eventSlot'
      by (rule dedupAt_same [OF that]) (simp_all add: failed(1))
  qed (use waiting_slots [OF inv] failed(2) in \<open>auto simp: failed(1) freshSlot_def\<close>)
qed

lemma loopReachable_dedup: "loopReachable exclusive programId decodeEvent txOf s \<Longrightarrow> dedupInv s"
proof (induction rule: loopReachable.induct)
  case start
  show ?case by (simp add: dedupInv_def dedupAt_def initLoop_def newListener_def isObserved_def)
next
  case (step s t)
  then show ?case using loopStep_dedup by blast
qed

text \<open>
  C7. When slot callbacks do not overlap and no entry was ever queued while the queue was full: the
  transactions taken from the queue, followed by those that still wait in it, are those queued, in order; what was
  reported are the events of the transactions taken, in that order (none of a transaction without
  inner instructions, on which the callback throws after it took it); and for every slot that is not more than 64
  behind a slot change, a signature logged there, however often, was queued exactly once.
\<close>

theorem event_loop_exclusive_reports_in_order:
  assumes "loopReachable True programId decodeEvent txOf s" "\<not> ls_overflow s"
  shows "ls_queued s = ls_taken s @ queueItems (ls_queue s) \<and>
    ls_reported s = concat (map (reportOf programId decodeEvent txOf) (ls_taken s)) \<and>
    (\<forall>signature eventSlot. freshSlot s eventSlot \<longrightarrow>
       count_list (ls_queued s) (signature, eventSlot) = (if (signature, eventSlot) \<in> set (ls_logged s) then 1 else 0))"
  using loopReachable_inv [OF assms] loopReachable_reported [OF assms(1)] loopReachable_dedup [OF assms(1)]
  by (simp add: loopInv_def dedupInv_def dedupAt_def)

lemma queue_two:
  fixes x y :: "string \<times> int"
  defines "q1 \<equiv> queueEnqueue (newArrayQueue None) x"
  defines "q2 \<equiv> queueEnqueue q1 y"
  shows "queueInv q1" "queueItems q1 = [x]" "queueInv q2" "queueItems q2 = [x, y]"
    "queueInv (queueDequeue q1)" "queueItems (queueDequeue q1) = []"
    "queueInv (queueDequeue q2)" "queueItems (queueDequeue q2) = [y]"
    "queueInv (queueDequeue (queueDequeue q2))" "queueItems (queueDequeue (queueDequeue q2)) = []"
    "aq_size q1 \<noteq> length (aq_data q1)"
proof -
  let ?q0 = "newArrayQueue None :: (string \<times> int) arrayQueue"
  have inv0: "queueInv ?q0" by (rule queueInv_new) simp
  have room: "aq_size ?q0 < length (aq_data ?q0)" by (simp add: newArrayQueue_def)
  note one = queueInv_enqueue [OF inv0 room, of x, folded q1_def]
  have room1: "aq_size q1 < length (aq_data q1)"
    using capacity_enqueue_room [OF room, of x] by (simp add: q1_def newArrayQueue_def)
  have inv1: "queueInv q1" using one by simp
  note two = queueInv_enqueue [OF inv1 room1, of y, folded q2_def]
  have inv2: "queueInv q2" using two by simp
  note d1 = queueInv_dequeue [OF inv1] and d2 = queueInv_dequeue [OF inv2]
  then have d3: "queueItems (queueDequeue (queueDequeue q2)) = tl (queueItems (queueDequeue q2)) \<and>
      queueInv (queueDequeue (queueDequeue q2))"
    using queueInv_dequeue [of "queueDequeue q2"] by simp
  show "queueInv q1" "queueItems q1 = [x]" "queueInv q2" "queueItems q2 = [x, y]"
    "queueInv (queueDequeue q1)" "queueItems (queueDequeue q1) = []"
    "queueInv (queueDequeue q2)" "queueItems (queueDequeue q2) = [y]"
    "queueInv (queueDequeue (queueDequeue q2))" "queueItems (queueDequeue (queueDequeue q2)) = []"
    "aq_size q1 \<noteq> length (aq_data q1)"
    using one two d1 d2 d3 room1 by simp_all
qed

lemma nextWait_items:
  "queueInv (li_unprocessedTxs l) \<Longrightarrow> nextWait slot l =
    (case queueItems (li_unprocessedTxs l) of [] \<Rightarrow> (cleanUp slot l, []) | x # _ \<Rightarrow> (l, [(x, slot)]))"
  using ring.front_items [of "li_unprocessedTxs l"] by (auto simp: nextWait_front split: list.splits)

text \<open>A run of the listener: one log, then two.\<close>

definition oneLog :: "listener" where
  "oneLog = onLogs ''a'' 1 newListener"

definition twoLogs :: "listener" where
  "twoLogs = onLogs ''b'' 1 oneLog"

lemma logs_queue:
  "li_unprocessedTxs oneLog = queueEnqueue (newArrayQueue None) (''a'', 1)" "\<not> isObserved newListener ''a'' 1"
  "li_unprocessedTxs twoLogs = queueEnqueue (queueEnqueue (newArrayQueue None) (''a'', 1)) (''b'', 1)" "\<not> isObserved oneLog ''b'' 1"
proof -
  have new: "\<not> isObserved newListener signature eventSlot" for signature eventSlot
    by (simp add: isObserved_def newListener_def)
  then have b: "\<not> isObserved oneLog ''b'' 1" by (simp add: oneLog_def isObserved_onLogs)
  show "li_unprocessedTxs oneLog = queueEnqueue (newArrayQueue None) (''a'', 1)" "\<not> isObserved newListener ''a'' 1"
    using new by (simp_all add: oneLog_def onLogs_queue newListener_def)
  with b show "li_unprocessedTxs twoLogs = queueEnqueue (queueEnqueue (newArrayQueue None) (''a'', 1)) (''b'', 1)"
    "\<not> isObserved oneLog ''b'' 1"
    by (simp_all add: twoLogs_def onLogs_queue)
qed

lemma reachable_oneLog:
  "loopReachable exclusive programId decodeEvent txOf
    (initLoop\<lparr>ls_listener := oneLog, ls_logged := [(''a'', 1)], ls_queued := [(''a'', 1)]\<rparr>)"
  using loopReachable.step [OF loopReachable.start loopStep.log [of exclusive programId decodeEvent txOf initLoop "''a''" 1]] logs_queue(2)
  by (simp add: initLoop_def oneLog_def newArrayQueue_def newListener_def)

theorem event_loop_exclusive_reports_in_order_witness:
  "\<exists>s :: nat loopState. loopReachable True [] (\<lambda>_. Some 7) (\<lambda>_. \<lparr>px_innerInstructions = Some []\<rparr>) s \<and> ls_taken s = [(''a'', 1)] \<and>
     ls_queued s = ls_taken s @ queueItems (ls_queue s) \<and> freshSlot s 1 \<and> count_list (ls_queued s) (''a'', 1) = 1"
proof -
  let ?tx = "\<lambda>_ :: string. \<lparr>px_innerInstructions = Some []\<rparr>" and ?dec = "\<lambda>_. Some (7 :: nat)"
  let ?s1 = "initLoop\<lparr>ls_listener := oneLog, ls_logged := [(''a'', 1)], ls_queued := [(''a'', 1)]\<rparr> :: nat loopState"
  let ?s2 = "?s1\<lparr>ls_waiting := [((''a'', 1), 2)], ls_slots := [2]\<rparr>"
  let ?s3 = "?s2\<lparr>ls_listener := cleanUp 2 (dequeued oneLog), ls_waiting := [], ls_taken := [(''a'', 1)]\<rparr>"
  note q = queue_two(1,2,5,6,11) [where x = "(''a'', 1)"] logs_queue
  have w1: "nextWait 2 oneLog = (oneLog, [((''a'', 1), 2)])"
    and w2: "nextWait 2 (dequeued oneLog) = (cleanUp 2 (dequeued oneLog), [])"
    using q by (simp_all add: nextWait_items)
  have "loopReachable True [] ?dec ?tx ?s2"
    using loopReachable.step [OF reachable_oneLog loopStep.slotChange [of True _ 2 oneLog "[((''a'', 1), 2)]"]] w1 by (simp add: initLoop_def)
  then have r: "loopReachable True [] ?dec ?tx ?s3"
    using loopReachable.step [OF _ loopStep.fetched [of ?s2 "[]" "(''a'', 1)" 2 "[]" "[]" ?dec ?tx "[]"]] w2
    by (simp add: initLoop_def eventsOf_def)
  moreover have "\<not> ls_overflow ?s3" "freshSlot ?s3 1" by (simp_all add: initLoop_def freshSlot_def)
  ultimately show ?thesis
    using event_loop_exclusive_reports_in_order [OF r] by (intro exI [of _ ?s3]) simp
qed

text \<open>
  C33. When slot callbacks overlap, a transaction can be lost: after two logs, two overlapping runs wait
  for the first; one of them takes it, reads the second and finds it not available yet, and the
  other, resuming, removes the second from the queue while it reports the first again. The
  second is then neither reported, nor queued, nor awaited, and the queue never overflowed. This is so
  whatever inner instructions the transactions have.
\<close>

theorem event_loop_overlap_loses_transaction:
  "\<exists>s. loopReachable False programId decodeEvent (\<lambda>_. \<lparr>px_innerInstructions = Some ixs\<rparr>) s \<and> \<not> ls_overflow s \<and>
     ls_queued s = [(''a'', 1), (''b'', 1)] \<and>
     ls_reported s = (let es = List.map_filter (eventOf programId decodeEvent) (concat ixs); r = map (\<lambda>e. (e, 1, ''a'')) es in r @ r) \<and>
     queueItems (ls_queue s) = [] \<and> ls_waiting s = []"
proof -
  let ?a = "(''a'', 1 :: int)" and ?b = "(''b'', 1 :: int)"
  let ?tx = "\<lambda>_ :: string. \<lparr>px_innerInstructions = Some ixs\<rparr>"
  let ?R = "loopReachable False programId decodeEvent ?tx"
  let ?es = "List.map_filter (eventOf programId decodeEvent) (concat ixs)"
  let ?r = "map (\<lambda>e. (e, 1, ''a'')) ?es"
  have ev: "eventsOf programId decodeEvent (?tx x) = Inr ?es" for x by (simp add: eventsOf_def)
  let ?st = "\<lambda>l w taken r slots. \<lparr>ls_listener = l, ls_waiting = w, ls_logged = [?a, ?b], ls_queued = [?a, ?b], ls_taken = taken,
    ls_reported = r, ls_slots = slots, ls_overflow = False\<rparr>"
  note q = queue_two(1,2,5,6,11) [where x = ?a] queue_two(3,4,7-10) [where x = ?a and y = ?b] logs_queue
  let ?l1 = "dequeued twoLogs" and ?l2 = "cleanUp 2 (dequeued twoLogs)"
  have w: "nextWait 2 twoLogs = (twoLogs, [(?a, 2)])" "nextWait 3 twoLogs = (twoLogs, [(?a, 3)])"
      "nextWait 2 ?l1 = (?l1, [(?b, 2)])" "nextWait 3 (dequeued ?l2) = (cleanUp 3 (dequeued ?l2), [])"
    using q by (simp_all add: nextWait_items)
  have "?R (?st twoLogs [] [] [] [])"
    using loopReachable.step [OF reachable_oneLog loopStep.log [of False programId decodeEvent ?tx _ "''b''" 1]] q
    by (simp add: initLoop_def twoLogs_def)
  from loopReachable.step [OF this loopStep.slotChange [of False _ 2, OF _]] w(1)
  have "?R (?st twoLogs [(?a, 2)] [] [] [2])" by simp
  from loopReachable.step [OF this loopStep.slotChange [of False _ 3, OF _]] w(2)
  have "?R (?st twoLogs [(?a, 2), (?a, 3)] [] [] [2, 3])" by simp
  from loopReachable.step [OF this loopStep.fetched [of _ "[]" ?a 2 "[(?a, 3)]", OF _ ev]] w(3)
  have "?R (?st ?l1 [(?b, 2), (?a, 3)] [?a] ?r [2, 3])" by simp
  from loopReachable.step [OF this loopStep.notYet [of _ "[]" ?b 2 "[(?a, 3)]"]]
  have "?R (?st ?l2 [(?a, 3)] [?a] ?r [2, 3])" by simp
  from loopReachable.step [OF this loopStep.fetched [of _ "[]" ?a 3 "[]", OF _ ev]] w(4)
  have "?R (?st (cleanUp 3 (dequeued ?l2)) [] [?a, ?a] (?r @ ?r) [2, 3])" by simp
  then show ?thesis using q by (intro exI conjI) (assumption, simp_all add: Let_def)
qed

end
