(* ===== verification/Common.thy ===== *)
theory Common
  imports Prelude
begin

text \<open>
  \<open>solana/ts/src/common/index.ts\<close>: the three representations of a 64-bit unsigned integer that the
  SDK accepts, their conversions, and the representations of a VAA hash. A \<open>BN\<close> is an arbitrary
  integer, a \<open>bigint\<close> too; a \<open>number\<close> may fail to be an integer.
\<close>

section \<open>Uint64\<close>

datatype uint64 = UBigint int | UBN int | UNumber number

fun isUint64 :: "uint64 \<Rightarrow> bool" where
  "isUint64 (UBigint _) = True"
| "isUint64 (UBN _) = True"
| "isUint64 (UNumber _) = True"

fun uint64ToBigInt :: "uint64 \<Rightarrow> int result" where
  "uint64ToBigInt (UBigint v) = Inr v"
| "uint64ToBigInt (UNumber n) = toBigInt n"
| "uint64ToBigInt (UBN v) =
     (if byteLength (nat \<bar>v\<bar>) \<le> 8 then Inr v else Inl (Error ''Invalid uint64''))"

definition writeUint64BE :: "byte list \<Rightarrow> uint64 \<Rightarrow> nat \<Rightarrow> byte list result" where
  "writeUint64BE buf value offset = bnd (uint64ToBigInt value) (\<lambda>v. writeBE 8 buf v offset)"

text \<open>\<open>uint64ToBN\<close> goes through an 8-byte buffer, so it also checks the range.\<close>

definition uint64ToBN :: "uint64 \<Rightarrow> int result" where
  "uint64ToBN value = bnd (writeUint64BE (alloc 8) value 0) (\<lambda>buf. Inr (int (beNat buf)))"

lemma uint64ToBigInt_BN: "uint64ToBigInt (UBN v) = (if \<bar>v\<bar> < 256 ^ 8 then Inr v else Inl (Error ''Invalid uint64''))"
proof -
  have "nat \<bar>v\<bar> < 256 ^ 8 \<longleftrightarrow> \<bar>v\<bar> < 256 ^ 8"
    by (simp add: nat_less_iff)
  then show ?thesis by (simp add: byteLength_le_iff)
qed

lemma writeUint64BE_alloc:
  "writeUint64BE (alloc 8) value 0 = Inr b \<longleftrightarrow>
     (\<exists>v. uint64ToBigInt value = Inr v \<and> 0 \<le> v \<and> v < 256 ^ 8 \<and> b = beBytes 8 (nat v))"
  by (simp add: writeUint64BE_def bnd_eq_Inr_iff writeBE_alloc_Inr_iff)

lemma length_writeUint64BE: "writeUint64BE (alloc 8) value 0 = Inr b \<Longrightarrow> length b = 8"
  by (auto simp: writeUint64BE_alloc)

lemma writeUint64BE_ok:
  "uint64ToBigInt value = Inr v \<Longrightarrow> 0 \<le> v \<Longrightarrow> v < 256 ^ 8 \<Longrightarrow>
   writeUint64BE (alloc 8) value 0 = Inr (beBytes 8 (nat v))"
  by (simp add: writeUint64BE_def writeBE_alloc)

lemma uint64ToBN_eq_Inr:
  "uint64ToBN value = Inr n \<longleftrightarrow> uint64ToBigInt value = Inr n \<and> 0 \<le> n \<and> n < 256 ^ 8"
  (is "?l \<longleftrightarrow> ?r")
proof
  assume ?l
  then obtain v where "uint64ToBigInt value = Inr v" and r: "0 \<le> v" "v < 256 ^ 8"
    and n: "n = int (beNat (beBytes 8 (nat v)))"
    by (auto simp: uint64ToBN_def bnd_eq_Inr_iff writeUint64BE_alloc)
  moreover from r have "nat v < 256 ^ 8" by (simp add: nat_less_iff)
  ultimately show ?r by (simp add: beNat_beBytes)
next
  assume r: ?r
  then have "nat n < 256 ^ 8" by (simp add: nat_less_iff)
  with r show ?l by (simp add: uint64ToBN_def writeUint64BE_ok beNat_beBytes)
qed

lemma uint64ToBigInt_error: "uint64ToBigInt value = Inl e \<Longrightarrow> e = RangeError \<or> e = Error ''Invalid uint64''"
  by (cases "value" rule: uint64ToBigInt.cases) (auto simp: toBigInt_def split: number.splits if_splits)

text \<open>
  The conversion to a BN succeeds exactly on the integers of 0 to 2^64 - 1, whatever of the three
  representations they come in, and returns that integer; on everything else it throws.
\<close>

theorem uint64ToBN_spec:
  "uint64ToBN (UBigint i) = (if 0 \<le> i \<and> i < 2 ^ 64 then Inr i else Inl RangeError) \<and>
   uint64ToBN (UNumber (Whole i)) = (if 0 \<le> i \<and> i < 2 ^ 64 then Inr i else Inl RangeError) \<and>
   uint64ToBN (UBN i) = (if 0 \<le> i \<and> i < 2 ^ 64 then Inr i
      else if - (2 ^ 64) < i \<and> i < 0 then Inl RangeError else Inl (Error ''Invalid uint64'')) \<and>
   uint64ToBN (UNumber NotWhole) = Inl RangeError"
proof -
  have in_range: "uint64ToBN v = Inr i" if "uint64ToBigInt v = Inr i" "0 \<le> i" "i < 2 ^ 64" for v i
    using that by (simp add: uint64ToBN_eq_Inr)
  have out: "uint64ToBN v = Inl RangeError" if "uint64ToBigInt v = Inr i" "\<not> (0 \<le> i \<and> i < 2 ^ 64)" for v i
    using that by (auto simp: uint64ToBN_def writeUint64BE_def writeBE_def)
  have "uint64ToBN (UBN i) = Inl (Error ''Invalid uint64'')" if "\<not> \<bar>i\<bar> < 2 ^ 64"
    using that by (simp add: uint64ToBN_def writeUint64BE_def uint64ToBigInt_BN del: uint64ToBigInt.simps)
  then have bn: "uint64ToBN (UBN i) = (if 0 \<le> i \<and> i < 2 ^ 64 then Inr i
      else if - (2 ^ 64) < i \<and> i < 0 then Inl RangeError else Inl (Error ''Invalid uint64''))"
    using in_range [of "UBN i" i] out [of "UBN i" i]
    by (auto simp: uint64ToBigInt_BN abs_if simp del: uint64ToBigInt.simps)
  show ?thesis
    using in_range [of "UBigint i" i] out [of "UBigint i" i]
      in_range [of "UNumber (Whole i)" i] out [of "UNumber (Whole i)" i] bn
    by (auto simp: uint64ToBN_def writeUint64BE_def)
qed

section \<open>VAA hashes\<close>

text \<open>
  \<open>Uint8Array.from\<close> and \<open>Buffer.from\<close> reduce the elements of an array of numbers modulo 256; the two
  typed representations already hold bytes.
\<close>

datatype vaaHash = HashArray "int list" | HashBuffer "byte list" | HashUint8Array "byte list"

fun vaaHashToUint8Array :: "vaaHash \<Rightarrow> byte list" where
  "vaaHashToUint8Array (HashArray xs) = map word_of_int xs"
| "vaaHashToUint8Array (HashBuffer bs) = bs"
| "vaaHashToUint8Array (HashUint8Array bs) = bs"

fun vaaHashToBuffer :: "vaaHash \<Rightarrow> byte list" where
  "vaaHashToBuffer (HashBuffer bs) = bs"
| "vaaHashToBuffer h = vaaHashToUint8Array h"

fun vaaHashToArray :: "vaaHash \<Rightarrow> int list" where
  "vaaHashToArray (HashArray xs) = xs"
| "vaaHashToArray h = map uint (vaaHashToUint8Array h)"

text \<open>\<open>Buffer.from(vaaHash)\<close>, as the address derivations use it.\<close>

definition bufferFromHash :: "vaaHash \<Rightarrow> byte list" where
  "bufferFromHash h = vaaHashToUint8Array h"

lemma vaaHashToBuffer_eq: "vaaHashToBuffer h = bufferFromHash h"
  by (cases h) (simp_all add: bufferFromHash_def)

text \<open>
  The three views of a VAA hash are coherent: reading the array view back, or the buffer view,
  gives the same bytes, and the array view of a typed hash reproduces exactly its bytes.
\<close>

theorem vaaHash_views:
  "vaaHashToUint8Array (HashArray (vaaHashToArray h)) = vaaHashToUint8Array h \<and>
   vaaHashToBuffer (HashArray (vaaHashToArray h)) = vaaHashToBuffer h \<and>
   (\<forall>x\<in>set (vaaHashToArray (HashUint8Array (vaaHashToUint8Array h))). 0 \<le> x \<and> x < 256)"
proof -
  have "0 \<le> uint (b :: byte) \<and> uint b < 256" for b
    using uint_bounded [of b] by simp
  then show ?thesis
    by (cases h) (auto simp: comp_def)
qed

end
