(* ===== verification/State_Types.thy ===== *)
theory State_Types
  imports Common
begin

text \<open>
  The account data types of \<open>solana/ts/src/matchingEngine/state\<close>, \<open>tokenRouter/state\<close>,
  \<open>upgradeManager/state\<close> and \<open>cctp/*\<close>, with the classes' fields in their order. A \<open>BN\<close> and a
  \<open>number\<close> field are integers, \<open>PublicKey\<close> and byte arrays are byte lists, \<open>T | null\<close> is an option.
  Anchor represents a Rust enum as an object with exactly one key, here a \<open>datatype\<close>.
\<close>

section \<open>Matching engine\<close>

datatype messageProtocol = LocalProtocol pubkey | CctpProtocol int | NoneProtocol

record endpointInfo =
  ei_chain :: int
  ei_address :: "byte list"
  ei_mintRecipient :: "byte list"
  ei_protocol :: messageProtocol

record routerEndpoint =
  re_bump :: int
  re_info :: endpointInfo

datatype auctionStatus =
    NotStarted
  | Active
  | Completed int "int option"  \<comment> \<open>slot, executePenalty\<close>
  | Settled int "int option"  \<comment> \<open>fee, totalPenalty\<close>

record auctionDestinationAssetInfo =
  da_custodyTokenBump :: int
  da_amountOut :: int

record auctionInfo =
  ai_configId :: int
  ai_custodyTokenBump :: int
  ai_vaaSequence :: int
  ai_sourceChain :: int
  ai_bestOfferToken :: pubkey
  ai_initialOfferToken :: pubkey
  ai_startSlot :: int
  ai_amountIn :: int
  ai_securityDeposit :: int
  ai_offerPrice :: int
  ai_redeemerMessageLen :: int
  ai_destinationAssetInfo :: "auctionDestinationAssetInfo option"

record auction =
  au_bump :: int
  au_vaaHash :: "byte list"
  au_vaaTimestamp :: int
  au_targetProtocol :: messageProtocol
  au_status :: auctionStatus
  au_preparedBy :: pubkey
  au_info :: "auctionInfo option"

record auctionParameters =
  ap_userPenaltyRewardBps :: int
  ap_initialPenaltyBps :: int
  ap_duration :: int
  ap_gracePeriod :: int
  ap_penaltyPeriod :: int
  ap_minOfferDeltaBps :: int
  ap_securityDepositBase :: int
  ap_securityDepositBps :: int

record auctionConfig =
  ac_id :: int
  ac_parameters :: auctionParameters

record auctionHistoryHeader =
  ah_id :: int
  ah_minTimestamp :: "int option"
  ah_maxTimestamp :: "int option"

record auctionEntry =
  ae_vaaHash :: "byte list"
  ae_vaaTimestamp :: int
  ae_info :: auctionInfo

record auctionHistory =
  ah_header :: auctionHistoryHeader
  ah_data :: "auctionEntry list"

record me_custodian =
  mc_owner :: pubkey
  mc_pendingOwner :: "pubkey option"
  mc_paused :: bool
  mc_pausedSetBy :: "pubkey option"
  mc_ownerAssistant :: pubkey
  mc_feeRecipientToken :: pubkey
  mc_auctionConfigId :: int
  mc_nextProposalId :: int

record fastFillInfo =
  fi_preparedBy :: pubkey
  fi_amount :: int
  fi_redeemer :: pubkey
  fi_timestamp :: int

record fastFillSeeds =
  fs_sourceChain :: int
  fs_orderSender :: "byte list"
  fs_sequence :: int
  fs_bump :: int

record fastFillAccount =
  ff_seeds :: fastFillSeeds
  ff_redeemed :: bool
  ff_info :: fastFillInfo
  ff_redeemerMessage :: "byte list"

record fastFillSequencerSeeds =
  qs_sourceChain :: int
  qs_sender :: "byte list"
  qs_bump :: int

record fastFillSequencer =
  sq_seeds :: fastFillSequencerSeeds
  sq_nextSequence :: int

record preparedOrderResponseSeeds =
  ps_fastVaaHash :: "byte list"
  ps_bump :: int

record preparedOrderResponseInfo =
  pi_preparedBy :: pubkey
  pi_baseFeeToken :: pubkey
  pi_fastVaaTimestamp :: int
  pi_sourceChain :: int
  pi_baseFee :: int
  pi_initAuctionFee :: int
  pi_sender :: "byte list"
  pi_redeemer :: "byte list"
  pi_amountIn :: int

record preparedOrderResponse =
  pr_seeds :: preparedOrderResponseSeeds
  pr_info :: preparedOrderResponseInfo
  pr_toEndpoint :: endpointInfo
  pr_redeemerMessage :: "byte list"

datatype proposalAction = NoAction | UpdateAuctionParameters int auctionParameters

record proposal =
  pp_id :: int
  pp_bump :: int
  pp_action :: proposalAction
  pp_by :: pubkey
  pp_owner :: pubkey
  pp_slotProposedAt :: int
  pp_slotEnactDelay :: int
  pp_slotEnactedAt :: "int option"

text \<open>The constructor of \<open>Proposal\<close> converts its slots through \<open>uint64ToBN\<close> and so may throw.\<close>

definition newProposal ::
  "int \<Rightarrow> int \<Rightarrow> proposalAction \<Rightarrow> pubkey \<Rightarrow> pubkey \<Rightarrow> uint64 \<Rightarrow> uint64 \<Rightarrow> uint64 option \<Rightarrow> proposal result" where
  "newProposal id' bump action by' owner slotProposedAt slotEnactDelay slotEnactedAt =
     bnd (uint64ToBN slotProposedAt) (\<lambda>proposed.
     bnd (uint64ToBN slotEnactDelay) (\<lambda>delay.
     bnd (case slotEnactedAt of None \<Rightarrow> Inr None
          | Some s \<Rightarrow> bnd (uint64ToBN s) (\<lambda>n. Inr (Some n))) (\<lambda>enacted.
     Inr \<lparr>pp_id = id', pp_bump = bump, pp_action = action, pp_by = by', pp_owner = owner,
          pp_slotProposedAt = proposed, pp_slotEnactDelay = delay, pp_slotEnactedAt = enacted\<rparr>)))"

record reservedFastFillSequenceSeeds =
  rq_fastVaaHash :: "byte list"
  rq_bump :: int

record reservedFastFillSequence =
  rs_seeds :: reservedFastFillSequenceSeeds
  rs_beneficiary :: pubkey
  rs_fastFillSeeds :: fastFillSeeds

section \<open>Token router\<close>

record tr_custodian =
  tc_paused :: bool
  tc_owner :: pubkey
  tc_pendingOwner :: "pubkey option"
  tc_ownerAssistant :: pubkey
  tc_pausedSetBy :: pubkey

datatype fillType = UnsetFill | WormholeCctpDeposit | FastFillType

record preparedFillSeeds =
  px_fillSource :: pubkey
  px_bump :: int

record preparedFillInfo =
  pn_preparedCustodyTokenBump :: int
  pn_preparedBy :: pubkey
  pn_fillType :: fillType
  pn_sourceChain :: int
  pn_orderSender :: "byte list"
  pn_redeemer :: pubkey
  pn_timestamp :: int

record preparedFill =
  pf_seeds :: preparedFillSeeds
  pf_info :: preparedFillInfo
  pf_redeemerMessage :: "byte list"

datatype orderType = MarketOrder "int option"

record preparedOrderInfo =
  po_preparedCustodyTokenBump :: int
  po_orderSender :: pubkey
  po_preparedBy :: pubkey
  po_orderType :: orderType
  po_srcToken :: pubkey
  po_refundToken :: pubkey
  po_targetChain :: int
  po_redeemer :: "byte list"

record preparedOrder =
  po_info :: preparedOrderInfo
  po_redeemerMessage :: "byte list"

section \<open>Upgrade manager\<close>

datatype upgradeStatus = NoUpgrade | Uncommitted pubkey int

record upgradeReceipt =
  ur_bump :: int
  ur_programDataBump :: int
  ur_owner :: pubkey
  ur_status :: upgradeStatus

section \<open>CCTP accounts\<close>

record messageTransmitterConfig =
  mt_owner :: pubkey
  mt_pendingOwner :: pubkey
  mt_attesterManager :: pubkey
  mt_pauser :: pubkey
  mt_paused :: bool
  mt_localDomain :: int
  mt_version :: int
  mt_signatureThreshold :: int
  mt_enabledAttesters :: "pubkey list"
  mt_maxMessageBodySize :: int
  mt_nextAvailableNonce :: int

record messageSent =
  ms_rentPayer :: pubkey
  ms_message :: "byte list"

record remoteTokenMessenger =
  rt_domain :: int
  rt_tokenMessenger :: "byte list"

section \<open>Messages of the Liquidity Layer, as their layouts type them\<close>

text \<open>A \<open>Chain\<close> is the SDK's name of a chain, a \<open>ChainId\<close> its number.\<close>

record fastMarketOrder =
  fm_amountIn :: int
  fm_minAmountOut :: int
  fm_targetChain :: string
  fm_redeemer :: "byte list"
  fm_sender :: "byte list"
  fm_refundAddress :: "byte list"
  fm_maxFee :: int
  fm_initAuctionFee :: int
  fm_deadline :: int
  fm_redeemerMessage :: "byte list"

record fastFillMessage =
  fl_fillAmount :: int
  fl_sourceChain :: string
  fl_orderSender :: "byte list"
  fl_redeemer :: "byte list"
  fl_redeemerMessage :: "byte list"

record fill =
  fp_sourceChain :: string
  fp_orderSender :: "byte list"
  fp_redeemer :: "byte list"
  fp_redeemerMessage :: "byte list"

datatype depositPayload = FillPayload fill | SlowOrderResponsePayload int

record cctpDeposit =
  cd_tokenAddress :: "byte list"
  cd_amount :: int
  cd_sourceCctpDomain :: int
  cd_destinationCctpDomain :: int
  cd_cctpNonce :: int
  cd_burnSource :: "byte list"
  cd_mintRecipient :: "byte list"
  cd_payload :: depositPayload

datatype message =
    CctpDepositMessage cctpDeposit
  | FastMarketOrderMessage fastMarketOrder
  | FastFillMessage fastFillMessage

text \<open>A VAA as \<open>@wormhole-foundation/sdk-definitions\<close> parses it.\<close>

record vaa =
  va_emitterChain :: string
  va_emitterAddress :: "byte list"
  va_sequence :: int
  va_timestamp :: int
  va_consistencyLevel :: int
  va_payload :: "byte list"
  va_hash :: "byte list"

record tokenAccount =
  ta_owner :: pubkey
  ta_amount :: int

end
