(* ===== verification/Chain_Env.thy ===== *)
theory Chain_Env
  imports State_Types
begin

text \<open>
  What the SDK calls and does not define. Third-party packages (\<open>@solana/web3.js\<close>,
  \<open>@solana/spl-token\<close>, \<open>@wormhole-foundation/sdk-*\<close>, Anchor's account decoders) and the state of
  the chain behind the connection are the fields of a record \<open>env\<close>, an argument of every definition
  that uses them. All reads of one call see one snapshot of the chain.

  An Anchor call \<open>program.methods.m(args).accounts(tree).instruction()\<close> is the value
  \<open>AnchorCall program m args tree\<close>: what the SDK hands over, before Anchor encodes it.
\<close>

section \<open>The environment\<close>

record env =
  findProgramAddress :: "byte list list \<Rightarrow> pubkey \<Rightarrow> pubkey"  \<comment> \<open>PublicKey.findProgramAddressSync(..)[0]\<close>
  newPublicKey :: "string \<Rightarrow> pubkey"  \<comment> \<open>new PublicKey(base58)\<close>
  associatedTokenAddress :: "pubkey \<Rightarrow> pubkey \<Rightarrow> bool \<Rightarrow> pubkey result"  \<comment> \<open>mint, owner, allowOwnerOffCurve\<close>
  keccak256 :: "byte list \<Rightarrow> byte list"
  deserializeVaa :: "byte list \<Rightarrow> vaa result"
  deserializeMessage :: "byte list \<Rightarrow> message result"  \<comment> \<open>Message.deserialize over the layouts\<close>
  serializeMessage :: "message \<Rightarrow> byte list result"
  isChainId :: "int \<Rightarrow> bool"
  isChain :: "string \<Rightarrow> bool"
  toChainId :: "string \<Rightarrow> int result"
  getAccountInfo :: "pubkey \<Rightarrow> byte list option result"
  getTokenAccount :: "pubkey \<Rightarrow> tokenAccount result"
  acctMeCustodian :: "pubkey \<Rightarrow> me_custodian result"
  acctAuctionConfig :: "pubkey \<Rightarrow> auctionConfig result"
  acctRouterEndpoint :: "pubkey \<Rightarrow> routerEndpoint result"
  acctAuction :: "pubkey \<Rightarrow> auction result"
  acctProposal :: "pubkey \<Rightarrow> proposal result"
  acctPreparedOrderResponse :: "pubkey \<Rightarrow> preparedOrderResponse result"
  acctFastFill :: "pubkey \<Rightarrow> fastFillAccount result"
  acctFastFillSequencer :: "pubkey \<Rightarrow> fastFillSequencer result"
  acctReservedFastFillSequence :: "pubkey \<Rightarrow> reservedFastFillSequence result"
  acctTrCustodian :: "pubkey \<Rightarrow> tr_custodian result"
  acctPreparedOrder :: "pubkey \<Rightarrow> preparedOrder result"
  acctPreparedFill :: "pubkey \<Rightarrow> preparedFill result"
  acctUpgradeReceipt :: "pubkey \<Rightarrow> upgradeReceipt result"
  acctMessageTransmitter :: "pubkey \<Rightarrow> messageTransmitterConfig result"
  acctMessageSent :: "pubkey \<Rightarrow> messageSent result"
  acctRemoteTokenMessenger :: "pubkey \<Rightarrow> remoteTokenMessenger result"
  tokenProgramId :: pubkey
  associatedTokenProgramId :: pubkey
  systemProgramId :: pubkey
  sysvarRent :: pubkey
  sysvarClock :: pubkey
  sysvarEpochSchedule :: pubkey
  defaultPublicKey :: pubkey

section \<open>Instructions\<close>

text \<open>
  The value of one account of an Anchor call: a key, \<open>null\<close>, or a group of accounts (a composite).
\<close>

datatype acct = Key pubkey | NullAcct | Group "(string \<times> acct) list"

datatype arg =
    ArgBool bool
  | ArgNum int
  | ArgBN int
  | ArgBytes "byte list"
  | ArgNull
  | ArgObject "(string \<times> arg) list"

datatype instruction =
    AnchorCall pubkey string "arg list" "(string \<times> acct) list"
  | SplApprove pubkey pubkey pubkey int  \<comment> \<open>account, delegate, owner, amount\<close>
  | RawIx pubkey "(pubkey \<times> bool \<times> bool) list" "byte list"  \<comment> \<open>program, keys (isSigner, isWritable), data\<close>

definition keyOrNull :: "pubkey option \<Rightarrow> acct" where
  "keyOrNull k = (case k of None \<Rightarrow> NullAcct | Some p \<Rightarrow> Key p)"

text \<open>The argument object of an instruction that takes an \<open>AuctionParameters\<close>.\<close>

definition argAuctionParameters :: "auctionParameters \<Rightarrow> arg" where
  "argAuctionParameters p = ArgObject
     [(''userPenaltyRewardBps'', ArgNum (ap_userPenaltyRewardBps p)),
      (''initialPenaltyBps'', ArgNum (ap_initialPenaltyBps p)),
      (''duration'', ArgNum (ap_duration p)),
      (''gracePeriod'', ArgNum (ap_gracePeriod p)),
      (''penaltyPeriod'', ArgNum (ap_penaltyPeriod p)),
      (''minOfferDeltaBps'', ArgNum (ap_minOfferDeltaBps p)),
      (''securityDepositBase'', ArgBN (ap_securityDepositBase p)),
      (''securityDepositBps'', ArgNum (ap_securityDepositBps p))]"

record preparedTransactionOptions =
  to_feeMicroLamports :: int
  to_computeUnits :: int
  to_nonceAccount :: "pubkey option"
  to_addressLookupTableAccounts :: "pubkey list option"

record confirmOptions =
  co_skipPreflight :: "bool option"
  co_commitment :: "string option"

record preparedTransaction =
  pt_ixs :: "instruction list"
  pt_signers :: "pubkey list"
  pt_computeUnits :: int
  pt_feeMicroLamports :: int
  pt_nonceAccount :: "pubkey option"
  pt_addressLookupTableAccounts :: "pubkey list option"
  pt_txName :: "string option"
  pt_confirmOptions :: "confirmOptions option"

end
