(* ===== verification/Addresses.thy ===== *)
theory Addresses
  imports Chain_Env
begin

text \<open>
  Program-derived addresses of the Matching Engine and the Token Router: the \<open>static address\<close>
  functions of \<open>solana/ts/src/matchingEngine/state\<close>, \<open>tokenRouter/state\<close>,
  \<open>upgradeManager/state\<close>, the helpers of \<open>solana/ts/src/common/state/index.ts\<close> and
  \<open>solana/ts/src/utils.ts\<close>, and those the program classes derive in place. Each is its seed list (which
  may throw, where a number is encoded) and the address found for it.

  \<open>findProgramAddress\<close> hashes the concatenation of the seeds, so two seed lists are told apart by
  their concatenation only: the interface \<open>pda_family\<close> states that a family of seed lists keeps its
  members apart, and fits the limits of the platform (16 seeds of at most 32 bytes).
\<close>

section \<open>common/state\<close>

definition emitter_seeds :: "byte list list" where
  "emitter_seeds = [ascii ''emitter'']"

definition emitterAddress :: "env \<Rightarrow> pubkey \<Rightarrow> pubkey" where
  "emitterAddress env programId = findProgramAddress env emitter_seeds programId"

definition message_seeds :: "pubkey \<Rightarrow> string \<Rightarrow> byte list list" where
  "message_seeds associatedAccount prefix = [ascii prefix, associatedAccount]"

definition messageAddress :: "env \<Rightarrow> pubkey \<Rightarrow> pubkey \<Rightarrow> string \<Rightarrow> pubkey" where
  "messageAddress env programId associatedAccount prefix =
     findProgramAddress env (message_seeds associatedAccount prefix) programId"

definition coreMessageAddress :: "env \<Rightarrow> pubkey \<Rightarrow> pubkey \<Rightarrow> pubkey" where
  "coreMessageAddress env programId associatedAccount =
     messageAddress env programId associatedAccount ''core-msg''"

definition cctpMessageAddress :: "env \<Rightarrow> pubkey \<Rightarrow> pubkey \<Rightarrow> pubkey" where
  "cctpMessageAddress env programId associatedAccount =
     messageAddress env programId associatedAccount ''cctp-msg''"

definition messageOld_seeds :: "pubkey \<Rightarrow> uint64 \<Rightarrow> string \<Rightarrow> byte list list result" where
  "messageOld_seeds payer payerSequenceValue prefix =
     bnd (writeUint64BE (alloc 8) payerSequenceValue 0) (\<lambda>encoded.
     Inr [ascii prefix, payer, encoded])"

definition messageAddressOld :: "env \<Rightarrow> pubkey \<Rightarrow> pubkey \<Rightarrow> uint64 \<Rightarrow> string \<Rightarrow> pubkey result" where
  "messageAddressOld env programId payer payerSequenceValue prefix =
     bnd (messageOld_seeds payer payerSequenceValue prefix) (\<lambda>seeds.
     Inr (findProgramAddress env seeds programId))"

definition coreMessageAddressOld :: "env \<Rightarrow> pubkey \<Rightarrow> pubkey \<Rightarrow> uint64 \<Rightarrow> pubkey result" where
  "coreMessageAddressOld env programId payer payerSequenceValue =
     messageAddressOld env programId payer payerSequenceValue ''core-msg''"

definition cctpMessageAddressOld :: "env \<Rightarrow> pubkey \<Rightarrow> pubkey \<Rightarrow> uint64 \<Rightarrow> pubkey result" where
  "cctpMessageAddressOld env programId payer payerSequenceValue =
     messageAddressOld env programId payer payerSequenceValue ''cctp-msg''"

section \<open>matchingEngine/state\<close>

definition custodian_address :: "env \<Rightarrow> pubkey \<Rightarrow> pubkey" where
  "custodian_address env programId = emitterAddress env programId"

definition auction_seeds :: "vaaHash \<Rightarrow> byte list list" where
  "auction_seeds vaaHash = [ascii ''auction'', bufferFromHash vaaHash]"

definition auction_address :: "env \<Rightarrow> pubkey \<Rightarrow> vaaHash \<Rightarrow> pubkey" where
  "auction_address env programId vaaHash = findProgramAddress env (auction_seeds vaaHash) programId"

definition auctionConfig_seeds :: "int \<Rightarrow> byte list list result" where
  "auctionConfig_seeds id' =
     bnd (writeBE 4 (alloc 4) id' 0) (\<lambda>encodedId. Inr [ascii ''auction-config'', encodedId])"

definition auctionConfig_address :: "env \<Rightarrow> pubkey \<Rightarrow> int \<Rightarrow> pubkey result" where
  "auctionConfig_address env programId id' =
     bnd (auctionConfig_seeds id') (\<lambda>seeds. Inr (findProgramAddress env seeds programId))"

definition auctionHistory_seeds :: "uint64 \<Rightarrow> byte list list result" where
  "auctionHistory_seeds id' =
     bnd (writeUint64BE (alloc 8) id' 0) (\<lambda>encodedId. Inr [ascii ''auction-history'', encodedId])"

definition auctionHistory_address :: "env \<Rightarrow> pubkey \<Rightarrow> uint64 \<Rightarrow> pubkey result" where
  "auctionHistory_address env programId id' =
     bnd (auctionHistory_seeds id') (\<lambda>seeds. Inr (findProgramAddress env seeds programId))"

definition fastFill_seeds :: "int \<Rightarrow> byte list \<Rightarrow> uint64 \<Rightarrow> byte list list result" where
  "fastFill_seeds sourceChain orderSender sequence =
     bnd (writeBE 2 (alloc 2) sourceChain 0) (\<lambda>encodedSourceChain.
     bnd (writeUint64BE (alloc 8) sequence 0) (\<lambda>encodedSequence.
     Inr [ascii ''fast-fill'', encodedSourceChain, orderSender, encodedSequence]))"

definition fastFill_address :: "env \<Rightarrow> pubkey \<Rightarrow> int \<Rightarrow> byte list \<Rightarrow> uint64 \<Rightarrow> pubkey result" where
  "fastFill_address env programId sourceChain orderSender sequence =
     bnd (fastFill_seeds sourceChain orderSender sequence) (\<lambda>seeds.
     Inr (findProgramAddress env seeds programId))"

definition fastFillSequencer_seeds :: "int \<Rightarrow> byte list \<Rightarrow> byte list list result" where
  "fastFillSequencer_seeds sourceChain sender =
     bnd (writeBE 2 (alloc 2) sourceChain 0) (\<lambda>encodedSourceChain.
     Inr [ascii ''fast-fill-sequencer'', encodedSourceChain, sender])"

definition fastFillSequencer_address :: "env \<Rightarrow> pubkey \<Rightarrow> int \<Rightarrow> byte list \<Rightarrow> pubkey result" where
  "fastFillSequencer_address env programId sourceChain sender =
     bnd (fastFillSequencer_seeds sourceChain sender) (\<lambda>seeds.
     Inr (findProgramAddress env seeds programId))"

definition preparedOrderResponse_seeds :: "vaaHash \<Rightarrow> byte list list" where
  "preparedOrderResponse_seeds fastVaaHash = [ascii ''order-response'', bufferFromHash fastVaaHash]"

definition preparedOrderResponse_address :: "env \<Rightarrow> pubkey \<Rightarrow> vaaHash \<Rightarrow> pubkey" where
  "preparedOrderResponse_address env programId fastVaaHash =
     findProgramAddress env (preparedOrderResponse_seeds fastVaaHash) programId"

definition proposal_seeds :: "uint64 \<Rightarrow> byte list list result" where
  "proposal_seeds nextProposalId =
     bnd (writeUint64BE (alloc 8) nextProposalId 0) (\<lambda>encodedProposalId.
     Inr [ascii ''proposal'', encodedProposalId])"

definition proposal_address :: "env \<Rightarrow> pubkey \<Rightarrow> uint64 \<Rightarrow> pubkey result" where
  "proposal_address env programId nextProposalId =
     bnd (proposal_seeds nextProposalId) (\<lambda>seeds. Inr (findProgramAddress env seeds programId))"

definition reservedFastFillSequence_seeds :: "vaaHash \<Rightarrow> byte list list" where
  "reservedFastFillSequence_seeds fastVaaHash =
     [ascii ''reserved-fast-fill-sequence'', bufferFromHash fastVaaHash]"

definition reservedFastFillSequence_address :: "env \<Rightarrow> pubkey \<Rightarrow> vaaHash \<Rightarrow> pubkey" where
  "reservedFastFillSequence_address env programId fastVaaHash =
     findProgramAddress env (reservedFastFillSequence_seeds fastVaaHash) programId"

definition routerEndpoint_seeds :: "int \<Rightarrow> byte list list result" where
  "routerEndpoint_seeds chain =
     bnd (writeBE 2 (alloc 2) chain 0) (\<lambda>encodedChain. Inr [ascii ''endpoint'', encodedChain])"

definition routerEndpoint_address :: "env \<Rightarrow> pubkey \<Rightarrow> int \<Rightarrow> pubkey result" where
  "routerEndpoint_address env programId chain =
     bnd (routerEndpoint_seeds chain) (\<lambda>seeds. Inr (findProgramAddress env seeds programId))"

section \<open>tokenRouter/state, upgradeManager/state, utils.ts\<close>

definition preparedFill_seeds :: "pubkey \<Rightarrow> byte list list" where
  "preparedFill_seeds fillSource = [ascii ''fill'', fillSource]"

definition preparedFill_address :: "env \<Rightarrow> pubkey \<Rightarrow> pubkey \<Rightarrow> pubkey" where
  "preparedFill_address env programId fillSource =
     findProgramAddress env (preparedFill_seeds fillSource) programId"

definition upgradeReceipt_seeds :: "pubkey \<Rightarrow> byte list list" where
  "upgradeReceipt_seeds otherProgram = [ascii ''receipt'', otherProgram]"

definition upgradeReceipt_address :: "env \<Rightarrow> pubkey \<Rightarrow> pubkey \<Rightarrow> pubkey" where
  "upgradeReceipt_address env programId otherProgram =
     findProgramAddress env (upgradeReceipt_seeds otherProgram) programId"

definition BPF_LOADER_UPGRADEABLE_PROGRAM_ID :: "env \<Rightarrow> pubkey" where
  "BPF_LOADER_UPGRADEABLE_PROGRAM_ID env =
     newPublicKey env ''BPFLoaderUpgradeab1e11111111111111111111111''"

definition programDataAddress :: "env \<Rightarrow> pubkey \<Rightarrow> pubkey" where
  "programDataAddress env programId =
     findProgramAddress env [programId] (BPF_LOADER_UPGRADEABLE_PROGRAM_ID env)"

section \<open>Addresses the program classes derive in place\<close>

definition eventAuthority_seeds :: "byte list list" where
  "eventAuthority_seeds = [ascii ''__event_authority'']"

definition preparedCustodyToken_seeds :: "pubkey \<Rightarrow> byte list list" where
  "preparedCustodyToken_seeds prepared = [ascii ''prepared-custody'', prepared]"

definition auctionCustodyToken_seeds :: "pubkey \<Rightarrow> byte list list" where
  "auctionCustodyToken_seeds auction = [ascii ''auction-custody'', auction]"

definition localCustodyToken_seeds :: "int \<Rightarrow> byte list list result" where
  "localCustodyToken_seeds sourceChain =
     bnd (writeBE 2 (alloc 2) sourceChain 0) (\<lambda>encodedSourceChain.
     Inr [ascii ''local-custody'', encodedSourceChain])"

definition meTransferAuthority_seeds :: "pubkey \<Rightarrow> uint64 \<Rightarrow> byte list list result" where
  "meTransferAuthority_seeds auction offerPrice =
     bnd (writeUint64BE (alloc 8) offerPrice 0) (\<lambda>encodedOfferPrice.
     Inr [ascii ''transfer-authority'', auction, encodedOfferPrice])"

section \<open>The interface\<close>

definition collisionFree :: "env \<Rightarrow> bool" where
  "collisionFree env \<longleftrightarrow> (\<forall>s s' p p'. findProgramAddress env s p = findProgramAddress env s' p' \<longrightarrow>
     concat s = concat s' \<and> p = p')"

locale pda_family =
  fixes seeds :: "'k \<Rightarrow> byte list list result"
    and valid :: "'k \<Rightarrow> bool"
  assumes seeds_defined: "valid k \<Longrightarrow> \<exists>s. seeds k = Inr s"
    and seeds_count: "seeds k = Inr s \<Longrightarrow> length s \<le> 16"
    and seeds_fit: "valid k \<Longrightarrow> seeds k = Inr s \<Longrightarrow> x \<in> set s \<Longrightarrow> length x \<le> 32"
    and seeds_apart: "valid k \<Longrightarrow> valid k' \<Longrightarrow> seeds k = Inr s \<Longrightarrow> seeds k' = Inr s' \<Longrightarrow>
      concat s = concat s' \<Longrightarrow> k = k'"
begin

lemma address_apart:
  assumes "collisionFree env" "valid k" "valid k'" "seeds k = Inr s" "seeds k' = Inr s'"
    and "findProgramAddress env s p = findProgramAddress env s' p'"
  shows "k = k' \<and> p = p'"
proof -
  have "concat s = concat s' \<and> p = p'"
    using assms(1,6) unfolding collisionFree_def by blast
  then show ?thesis using seeds_apart [OF assms(2-5)] by blast
qed

lemma address_inj_on:
  assumes "collisionFree env"
  shows "inj_on (\<lambda>k. map_sum id (\<lambda>s. findProgramAddress env s p) (seeds k)) {k. valid k}"
proof (rule inj_onI)
  fix k k' assume k: "k \<in> {k. valid k}" and k': "k' \<in> {k. valid k}"
    and eq: "map_sum id (\<lambda>s. findProgramAddress env s p) (seeds k) =
      map_sum id (\<lambda>s. findProgramAddress env s p) (seeds k')"
  from k k' obtain s s' where s: "seeds k = Inr s" and s': "seeds k' = Inr s'"
    using seeds_defined by blast
  with eq have "findProgramAddress env s p = findProgramAddress env s' p" by simp
  with assms k k' s s' show "k = k'" using address_apart by blast
qed

end

section \<open>The Matching Engine's family\<close>

datatype me_pda =
    MeEmitter
  | MeEventAuthority
  | MeCoreMessage pubkey
  | MeCctpMessage pubkey
  | MeAuction "byte list"
  | MeAuctionConfig int
  | MeAuctionHistory int
  | MeFastFill int "byte list" int
  | MeFastFillSequencer int "byte list"
  | MePreparedOrderResponse "byte list"
  | MeProposal int
  | MeReservedFastFillSequence "byte list"
  | MeRouterEndpoint int
  | MePreparedCustody pubkey
  | MeAuctionCustody pubkey
  | MeLocalCustody int
  | MeTransferAuthority pubkey int

fun me_seeds :: "me_pda \<Rightarrow> byte list list result" where
  "me_seeds MeEmitter = Inr emitter_seeds"
| "me_seeds MeEventAuthority = Inr eventAuthority_seeds"
| "me_seeds (MeCoreMessage a) = Inr (message_seeds a ''core-msg'')"
| "me_seeds (MeCctpMessage a) = Inr (message_seeds a ''cctp-msg'')"
| "me_seeds (MeAuction h) = Inr (auction_seeds (HashUint8Array h))"
| "me_seeds (MeAuctionConfig i) = auctionConfig_seeds i"
| "me_seeds (MeAuctionHistory i) = auctionHistory_seeds (UBigint i)"
| "me_seeds (MeFastFill c s q) = fastFill_seeds c s (UBigint q)"
| "me_seeds (MeFastFillSequencer c s) = fastFillSequencer_seeds c s"
| "me_seeds (MePreparedOrderResponse h) = Inr (preparedOrderResponse_seeds (HashUint8Array h))"
| "me_seeds (MeProposal i) = proposal_seeds (UBigint i)"
| "me_seeds (MeReservedFastFillSequence h) = Inr (reservedFastFillSequence_seeds (HashUint8Array h))"
| "me_seeds (MeRouterEndpoint c) = routerEndpoint_seeds c"
| "me_seeds (MePreparedCustody k) = Inr (preparedCustodyToken_seeds k)"
| "me_seeds (MeAuctionCustody k) = Inr (auctionCustodyToken_seeds k)"
| "me_seeds (MeLocalCustody c) = localCustodyToken_seeds c"
| "me_seeds (MeTransferAuthority k p) = meTransferAuthority_seeds k (UBigint p)"

text \<open>Keys, hashes and senders of 32 bytes; chains, ids and amounts within their encodings.\<close>

fun me_valid :: "me_pda \<Rightarrow> bool" where
  "me_valid MeEmitter = True"
| "me_valid MeEventAuthority = True"
| "me_valid (MeCoreMessage a) = (length a = 32)"
| "me_valid (MeCctpMessage a) = (length a = 32)"
| "me_valid (MeAuction h) = (length h = 32)"
| "me_valid (MeAuctionConfig i) = (0 \<le> i \<and> i < 256 ^ 4)"
| "me_valid (MeAuctionHistory i) = (0 \<le> i \<and> i < 256 ^ 8)"
| "me_valid (MeFastFill c s q) = (0 \<le> c \<and> c < 256 ^ 2 \<and> length s = 32 \<and> 0 \<le> q \<and> q < 256 ^ 8)"
| "me_valid (MeFastFillSequencer c s) = (0 \<le> c \<and> c < 256 ^ 2 \<and> length s = 32)"
| "me_valid (MePreparedOrderResponse h) = (length h = 32)"
| "me_valid (MeProposal i) = (0 \<le> i \<and> i < 256 ^ 8)"
| "me_valid (MeReservedFastFillSequence h) = (length h = 32)"
| "me_valid (MeRouterEndpoint c) = (0 \<le> c \<and> c < 256 ^ 2)"
| "me_valid (MePreparedCustody k) = (length k = 32)"
| "me_valid (MeAuctionCustody k) = (length k = 32)"
| "me_valid (MeLocalCustody c) = (0 \<le> c \<and> c < 256 ^ 2)"
| "me_valid (MeTransferAuthority k p) = (length k = 32 \<and> 0 \<le> p \<and> p < 256 ^ 8)"

lemmas seeds_defs = emitter_seeds_def eventAuthority_seeds_def message_seeds_def auction_seeds_def
  auctionConfig_seeds_def auctionHistory_seeds_def fastFill_seeds_def fastFillSequencer_seeds_def
  preparedOrderResponse_seeds_def proposal_seeds_def reservedFastFillSequence_seeds_def
  routerEndpoint_seeds_def preparedCustodyToken_seeds_def auctionCustodyToken_seeds_def
  localCustodyToken_seeds_def meTransferAuthority_seeds_def preparedFill_seeds_def
  upgradeReceipt_seeds_def messageOld_seeds_def

lemma bufferFromHash_Uint8Array [simp]: "bufferFromHash (HashUint8Array h) = h"
  by (simp add: bufferFromHash_def)

lemma writeUint64BE_bigint:
  "writeUint64BE (alloc 8) (UBigint i) 0 = writeBE 8 (alloc 8) i 0"
  by (simp add: writeUint64BE_def)

text \<open>The flattened seeds of a valid member, and their length, which tells most members apart.\<close>

fun me_flat :: "me_pda \<Rightarrow> byte list" where
  "me_flat MeEmitter = ascii ''emitter''"
| "me_flat MeEventAuthority = ascii ''__event_authority''"
| "me_flat (MeCoreMessage a) = ascii ''core-msg'' @ a"
| "me_flat (MeCctpMessage a) = ascii ''cctp-msg'' @ a"
| "me_flat (MeAuction h) = ascii ''auction'' @ h"
| "me_flat (MeAuctionConfig i) = ascii ''auction-config'' @ beBytes 4 (nat i)"
| "me_flat (MeAuctionHistory i) = ascii ''auction-history'' @ beBytes 8 (nat i)"
| "me_flat (MeFastFill c s q) = ascii ''fast-fill'' @ beBytes 2 (nat c) @ s @ beBytes 8 (nat q)"
| "me_flat (MeFastFillSequencer c s) = ascii ''fast-fill-sequencer'' @ beBytes 2 (nat c) @ s"
| "me_flat (MePreparedOrderResponse h) = ascii ''order-response'' @ h"
| "me_flat (MeProposal i) = ascii ''proposal'' @ beBytes 8 (nat i)"
| "me_flat (MeReservedFastFillSequence h) = ascii ''reserved-fast-fill-sequence'' @ h"
| "me_flat (MeRouterEndpoint c) = ascii ''endpoint'' @ beBytes 2 (nat c)"
| "me_flat (MePreparedCustody k) = ascii ''prepared-custody'' @ k"
| "me_flat (MeAuctionCustody k) = ascii ''auction-custody'' @ k"
| "me_flat (MeLocalCustody c) = ascii ''local-custody'' @ beBytes 2 (nat c)"
| "me_flat (MeTransferAuthority k p) = ascii ''transfer-authority'' @ k @ beBytes 8 (nat p)"

fun me_flatLength :: "me_pda \<Rightarrow> nat" where
  "me_flatLength MeEmitter = 7"
| "me_flatLength MeEventAuthority = 17"
| "me_flatLength (MeCoreMessage a) = 40"
| "me_flatLength (MeCctpMessage a) = 40"
| "me_flatLength (MeAuction h) = 39"
| "me_flatLength (MeAuctionConfig i) = 18"
| "me_flatLength (MeAuctionHistory i) = 23"
| "me_flatLength (MeFastFill c s q) = 51"
| "me_flatLength (MeFastFillSequencer c s) = 53"
| "me_flatLength (MePreparedOrderResponse h) = 46"
| "me_flatLength (MeProposal i) = 16"
| "me_flatLength (MeReservedFastFillSequence h) = 59"
| "me_flatLength (MeRouterEndpoint c) = 10"
| "me_flatLength (MePreparedCustody k) = 48"
| "me_flatLength (MeAuctionCustody k) = 47"
| "me_flatLength (MeLocalCustody c) = 15"
| "me_flatLength (MeTransferAuthority k p) = 58"

lemma me_seeds_flat: "me_valid k \<Longrightarrow> \<exists>s. me_seeds k = Inr s \<and> concat s = me_flat k"
  by (cases k) (auto simp: seeds_defs writeUint64BE_bigint writeBE_alloc)

lemma length_me_flat: "me_valid k \<Longrightarrow> length (me_flat k) = me_flatLength k"
  by (cases k) auto

lemma core_cctp_prefix:
  "ascii ''core-msg'' \<noteq> ascii ''cctp-msg''" "ascii ''cctp-msg'' \<noteq> ascii ''core-msg''"
  by (simp_all add: ascii_def)

lemma nat_beBytes_inject:
  "0 \<le> i \<Longrightarrow> i < 256 ^ n \<Longrightarrow> 0 \<le> j \<Longrightarrow> j < 256 ^ n \<Longrightarrow> beBytes n (nat i) = beBytes n (nat j) \<longleftrightarrow> i = j"
  by (subst beBytes_inject) (auto simp: nat_less_iff)

lemma me_flat_apart:
  assumes v: "me_valid k" "me_valid k'" and eq: "me_flat k = me_flat k'"
  shows "k = k'"
proof -
  have len: "me_flatLength k = me_flatLength k'"
    using v eq length_me_flat by metis
  show ?thesis
    using v len eq
    by (cases k; cases k') (auto simp: core_cctp_prefix nat_beBytes_inject simp del: power_numeral)
qed

lemma me_seeds_fit: "me_valid k \<Longrightarrow> me_seeds k = Inr s \<Longrightarrow> length s \<le> 4 \<and> (\<forall>x\<in>set s. length x \<le> 32)"
  by (cases k) (auto simp: seeds_defs writeUint64BE_bigint writeBE_alloc)

lemma me_seeds_count: "me_seeds k = Inr s \<Longrightarrow> length s \<le> 4"
  by (cases k) (auto simp: seeds_defs bnd_eq_Inr_iff)

interpretation me_addresses: pda_family me_seeds me_valid
proof unfold_locales
  show "\<exists>s. me_seeds k = Inr s" if "me_valid k" for k
    using me_seeds_flat [OF that] by blast
  show "length s \<le> 16" if "me_seeds k = Inr s" for k s
    using me_seeds_count [OF that] by simp
  show "length x \<le> 32" if "me_valid k" "me_seeds k = Inr s" "x \<in> set s" for k s x
    using me_seeds_fit that by blast
  show "k = k'" if "me_valid k" "me_valid k'" "me_seeds k = Inr s" "me_seeds k' = Inr s'"
    "concat s = concat s'" for k k' s s'
    using me_seeds_flat me_flat_apart that by (metis sum.inject(2))
qed

section \<open>The Token Router's family\<close>

text \<open>
  The transfer authority of the Token Router takes a Keccak digest of the order as a seed; here the
  digest is any 32 bytes.
\<close>

datatype tr_pda =
    TrEmitter
  | TrCoreMessage pubkey
  | TrCctpMessage pubkey
  | TrPreparedFill pubkey
  | TrPreparedCustody pubkey
  | TrTransferAuthority pubkey "byte list" pubkey

definition trTransferAuthority_seeds :: "pubkey \<Rightarrow> byte list \<Rightarrow> pubkey \<Rightarrow> byte list list" where
  "trTransferAuthority_seeds preparedOrder digest refundToken =
     [ascii ''transfer-authority'', preparedOrder, digest, refundToken]"

fun tr_seeds :: "tr_pda \<Rightarrow> byte list list result" where
  "tr_seeds TrEmitter = Inr emitter_seeds"
| "tr_seeds (TrCoreMessage a) = Inr (message_seeds a ''core-msg'')"
| "tr_seeds (TrCctpMessage a) = Inr (message_seeds a ''cctp-msg'')"
| "tr_seeds (TrPreparedFill a) = Inr (preparedFill_seeds a)"
| "tr_seeds (TrPreparedCustody a) = Inr (preparedCustodyToken_seeds a)"
| "tr_seeds (TrTransferAuthority o' d r) = Inr (trTransferAuthority_seeds o' d r)"

fun tr_valid :: "tr_pda \<Rightarrow> bool" where
  "tr_valid TrEmitter = True"
| "tr_valid (TrCoreMessage a) = (length a = 32)"
| "tr_valid (TrCctpMessage a) = (length a = 32)"
| "tr_valid (TrPreparedFill a) = (length a = 32)"
| "tr_valid (TrPreparedCustody a) = (length a = 32)"
| "tr_valid (TrTransferAuthority o' d r) = (length o' = 32 \<and> length d = 32 \<and> length r = 32)"

fun tr_flat :: "tr_pda \<Rightarrow> byte list" where
  "tr_flat TrEmitter = ascii ''emitter''"
| "tr_flat (TrCoreMessage a) = ascii ''core-msg'' @ a"
| "tr_flat (TrCctpMessage a) = ascii ''cctp-msg'' @ a"
| "tr_flat (TrPreparedFill a) = ascii ''fill'' @ a"
| "tr_flat (TrPreparedCustody a) = ascii ''prepared-custody'' @ a"
| "tr_flat (TrTransferAuthority o' d r) = ascii ''transfer-authority'' @ o' @ d @ r"

fun tr_flatLength :: "tr_pda \<Rightarrow> nat" where
  "tr_flatLength TrEmitter = 7"
| "tr_flatLength (TrCoreMessage a) = 40"
| "tr_flatLength (TrCctpMessage a) = 40"
| "tr_flatLength (TrPreparedFill a) = 36"
| "tr_flatLength (TrPreparedCustody a) = 48"
| "tr_flatLength (TrTransferAuthority o' d r) = 114"

lemma tr_seeds_flat: "\<exists>s. tr_seeds k = Inr s \<and> concat s = tr_flat k"
  by (cases k) (auto simp: seeds_defs trTransferAuthority_seeds_def)

lemma length_tr_flat: "tr_valid k \<Longrightarrow> length (tr_flat k) = tr_flatLength k"
  by (cases k) auto

lemma tr_flat_apart:
  assumes v: "tr_valid k" "tr_valid k'" and eq: "tr_flat k = tr_flat k'"
  shows "k = k'"
proof -
  have len: "tr_flatLength k = tr_flatLength k'"
    using v eq length_tr_flat by metis
  show ?thesis
    using v len eq by (cases k; cases k') (auto simp: core_cctp_prefix)
qed

interpretation tr_addresses: pda_family tr_seeds tr_valid
proof unfold_locales
  show "\<exists>s. tr_seeds k = Inr s" for k
    using tr_seeds_flat by blast
  show "length s \<le> 16" if "tr_seeds k = Inr s" for k s
    using that by (cases k) (auto simp: seeds_defs trTransferAuthority_seeds_def)
  show "length x \<le> 32" if "tr_valid k" "tr_seeds k = Inr s" "x \<in> set s" for k s x
    using that by (cases k) (auto simp: seeds_defs trTransferAuthority_seeds_def)
  show "k = k'" if "tr_valid k" "tr_valid k'" "tr_seeds k = Inr s" "tr_seeds k' = Inr s'"
    "concat s = concat s'" for k k' s s'
    using tr_seeds_flat tr_flat_apart that by (metis sum.inject(2))
qed

section \<open>The addresses are apart\<close>

text \<open>
  C30. No two accounts of the Matching Engine share an address by construction: for keys and hashes of
  32 bytes and numbers within their encodings the seed list of every account is defined and within the
  platform's limits (at most 16 seeds of at most 32 bytes), and two accounts whose seeds concatenate
  to the same bytes are the same account, across all 17 families.
\<close>

theorem me_accounts_apart:
  assumes "me_valid k" "me_valid k'"
  shows "\<exists>s s'. me_seeds k = Inr s \<and> me_seeds k' = Inr s' \<and> (concat s = concat s' \<longleftrightarrow> k = k') \<and>
    length s \<le> 16 \<and> list_all (\<lambda>x. length x \<le> 32) s"
proof -
  obtain s s' where s: "me_seeds k = Inr s" "me_seeds k' = Inr s'"
    using me_addresses.seeds_defined assms by meson
  then show ?thesis
    using me_addresses.seeds_apart [OF assms s] me_addresses.seeds_count [OF s(1)]
      me_addresses.seeds_fit [OF assms(1) s(1)]
    by (auto simp: list_all_iff)
qed

theorem me_accounts_apart_witness:
  "\<exists>s s'. me_seeds (MeAuctionConfig 1) = Inr s \<and> me_seeds (MeRouterEndpoint 2) = Inr s' \<and> concat s \<noteq> concat s'"
proof -
  have "\<exists>s s'. me_seeds (MeAuctionConfig 1) = Inr s \<and> me_seeds (MeRouterEndpoint 2) = Inr s' \<and>
      (concat s = concat s' \<longleftrightarrow> MeAuctionConfig 1 = MeRouterEndpoint 2) \<and> length s \<le> 16 \<and>
      list_all (\<lambda>x. length x \<le> 32) s"
    by (rule me_accounts_apart) simp_all
  then show ?thesis by auto
qed

text \<open>
  No two accounts of the Token Router share an address by construction: the same for its six
  families, among them the transfer authority, whose seed is the digest of an order.
\<close>

theorem tr_accounts_apart:
  assumes "tr_valid k" "tr_valid k'"
  shows "\<exists>s s'. tr_seeds k = Inr s \<and> tr_seeds k' = Inr s' \<and> (concat s = concat s' \<longleftrightarrow> k = k') \<and>
    length s \<le> 16 \<and> list_all (\<lambda>x. length x \<le> 32) s"
proof -
  obtain s s' where s: "tr_seeds k = Inr s" "tr_seeds k' = Inr s'"
    using tr_seeds_flat by blast
  then show ?thesis
    using tr_addresses.seeds_apart [OF assms s] tr_addresses.seeds_count [OF s(1)]
      tr_addresses.seeds_fit [OF assms(1) s(1)]
    by (auto simp: list_all_iff)
qed

theorem tr_accounts_apart_witness:
  "\<exists>s s'. tr_seeds (TrCoreMessage (replicate 32 7)) = Inr s \<and> tr_seeds (TrCctpMessage (replicate 32 7)) = Inr s' \<and>
     concat s \<noteq> concat s'"
proof -
  have "\<exists>s s'. tr_seeds (TrCoreMessage (replicate 32 7)) = Inr s \<and> tr_seeds (TrCctpMessage (replicate 32 7)) = Inr s' \<and>
      (concat s = concat s' \<longleftrightarrow> TrCoreMessage (replicate 32 7) = TrCctpMessage (replicate 32 7)) \<and> length s \<le> 16 \<and>
      list_all (\<lambda>x. length x \<le> 32) s"
    by (rule tr_accounts_apart) simp_all
  then show ?thesis by auto
qed

end
