(* ===== verification/Cctp_Messages.thy ===== *)
theory Cctp_Messages
  imports Prelude
begin

text \<open>
  \<open>solana/ts/src/cctp/messages.ts\<close>: the header of a CCTP message, a generic message and a token burn
  message, with their encoders (a buffer filled field by field) and decoders (reads at fixed
  offsets). Integers are big-endian; nonces and amounts are bigints.
\<close>

section \<open>The header\<close>

record cctp =
  cc_version :: int
  cc_sourceDomain :: int
  cc_destinationDomain :: int
  cc_nonce :: int
  cc_sender :: "byte list"
  cc_recipient :: "byte list"
  cc_targetCaller :: "byte list"

definition encodeCctp :: "cctp \<Rightarrow> byte list result" where
  "encodeCctp c =
     bnd (writeBE 4 (alloc 116) (cc_version c) 0) (\<lambda>buf.
     bnd (writeBE 4 buf (cc_sourceDomain c) 4) (\<lambda>buf.
     bnd (writeBE 4 buf (cc_destinationDomain c) 8) (\<lambda>buf.
     bnd (writeBE 8 buf (cc_nonce c) 12) (\<lambda>buf.
     bnd (bufSet buf (cc_sender c) 20) (\<lambda>buf.
     bnd (bufSet buf (cc_recipient c) 52) (\<lambda>buf.
     bufSet buf (cc_targetCaller c) 84))))))"

definition cctp_wf :: "cctp \<Rightarrow> bool" where
  "cctp_wf c \<longleftrightarrow> 0 \<le> cc_version c \<and> cc_version c < 256 ^ 4 \<and>
     0 \<le> cc_sourceDomain c \<and> cc_sourceDomain c < 256 ^ 4 \<and>
     0 \<le> cc_destinationDomain c \<and> cc_destinationDomain c < 256 ^ 4 \<and>
     0 \<le> cc_nonce c \<and> cc_nonce c < 256 ^ 8 \<and>
     length (cc_sender c) = 32 \<and> length (cc_recipient c) = 32 \<and> length (cc_targetCaller c) = 32"

text \<open>The bytes of a well-formed header.\<close>

definition cctpBytes :: "cctp \<Rightarrow> byte list" where
  "cctpBytes c = beBytes 4 (nat (cc_version c)) @ beBytes 4 (nat (cc_sourceDomain c)) @
     beBytes 4 (nat (cc_destinationDomain c)) @ beBytes 8 (nat (cc_nonce c)) @
     cc_sender c @ cc_recipient c @ cc_targetCaller c"

lemma encodeCctp_eq: "cctp_wf c \<Longrightarrow> encodeCctp c = Inr (cctpBytes c)"
  by (simp add: encodeCctp_def cctp_wf_def cctpBytes_def alloc_filled writeBE_filled bufSet_filled
      del: power_numeral)

lemma length_cctpBytes [simp]: "cctp_wf c \<Longrightarrow> length (cctpBytes c) = 116"
  by (simp add: cctpBytes_def cctp_wf_def)

section \<open>CctpMessage\<close>

record cctpMessage =
  cm_cctp :: cctp
  cm_message :: "byte list"

definition cctpMessage_decode :: "byte list \<Rightarrow> cctpMessage result" where
  "cctpMessage_decode buf =
     bnd (readBE 4 buf 0) (\<lambda>version.
     bnd (readBE 4 buf 4) (\<lambda>sourceDomain.
     bnd (readBE 4 buf 8) (\<lambda>destinationDomain.
     bnd (readBE 8 buf 12) (\<lambda>nonce.
     Inr \<lparr>cm_cctp = \<lparr>cc_version = int version, cc_sourceDomain = int sourceDomain,
            cc_destinationDomain = int destinationDomain, cc_nonce = int nonce,
            cc_sender = subarray buf 20 52, cc_recipient = subarray buf 52 84,
            cc_targetCaller = subarray buf 84 116\<rparr>,
          cm_message = drop 116 buf\<rparr>))))"

definition cctpMessage_encode :: "cctpMessage \<Rightarrow> byte list result" where
  "cctpMessage_encode m = bnd (encodeCctp (cm_cctp m)) (\<lambda>buf. Inr (buf @ cm_message m))"

datatype cctpMessageInput = CctpMessageObject cctpMessage | CctpMessageBuffer "byte list"

fun cctpMessage_from :: "cctpMessageInput \<Rightarrow> cctpMessage result" where
  "cctpMessage_from (CctpMessageObject m) = Inr m"
| "cctpMessage_from (CctpMessageBuffer buf) = cctpMessage_decode buf"

lemma nat_less_256: "0 \<le> v \<Longrightarrow> v < 256 ^ n \<Longrightarrow> nat v < 256 ^ n"
  by (simp add: nat_less_iff)

lemma cctpMessage_decode_bytes:
  assumes "cctp_wf c"
  shows "cctpMessage_decode (cctpBytes c @ msg) = Inr \<lparr>cm_cctp = c, cm_message = msg\<rparr>"
  using assms
  by (simp add: cctpMessage_decode_def cctpBytes_def cctp_wf_def read_parts beNat_beBytes nat_less_256
      del: power_numeral)

lemma cctpMessage_round_trip:
  "cctp_wf (cm_cctp m) \<Longrightarrow> \<exists>b. cctpMessage_encode m = Inr b \<and> cctpMessage_decode b = Inr m"
  by (simp add: cctpMessage_encode_def encodeCctp_eq cctpMessage_decode_bytes)

lemma beNat_bound_length: "length bs = n \<Longrightarrow> beNat bs < 256 ^ n"
  using beNat_bound [of bs] by simp

lemma readBE_ok: "off + n \<le> length b \<Longrightarrow> readBE n b off = Inr (beNat (subarray b off (off + n)))"
  by (simp add: readBE_def subarray_def)

lemma cctpMessage_decode_encode:
  assumes "116 \<le> length b"
  shows "\<exists>m. cctpMessage_decode b = Inr m \<and> cctp_wf (cm_cctp m) \<and> cctpMessage_encode m = Inr b"
proof -
  obtain p1 p2 p3 p4 p5 p6 p7 rest where b: "b = p1 @ p2 @ p3 @ p4 @ p5 @ p6 @ p7 @ rest"
    and len: "length p1 = 4" "length p2 = 4" "length p3 = 4" "length p4 = 8"
      "length p5 = 32" "length p6 = 32" "length p7 = 32"
  proof
    show "b = take 4 b @ take 4 (drop 4 b) @ take 4 (drop 8 b) @ take 8 (drop 12 b) @
        take 32 (drop 20 b) @ take 32 (drop 52 b) @ take 32 (drop 84 b) @ drop 116 b"
      by (simp add: take_drop_join)
  qed (use assms in simp_all)
  let ?c = "\<lparr>cc_version = int (beNat p1), cc_sourceDomain = int (beNat p2),
    cc_destinationDomain = int (beNat p3), cc_nonce = int (beNat p4),
    cc_sender = p5, cc_recipient = p6, cc_targetCaller = p7\<rparr>"
  have wf: "cctp_wf ?c" using len by (simp add: cctp_wf_def beNat_bound_length del: power_numeral)
  have bytes: "cctpBytes ?c @ rest = b"
    using len by (simp add: cctpBytes_def beBytes_beNat b)
  show ?thesis
    using cctpMessage_decode_bytes [OF wf, of rest] wf bytes
    by (simp add: cctpMessage_encode_def encodeCctp_eq)
qed

interpretation cctpMessage: exact_codec cctpMessage_encode cctpMessage_decode "\<lambda>m. cctp_wf (cm_cctp m)"
  "\<lambda>b. 116 \<le> length b"
  by unfold_locales (simp_all add: cctpMessage_round_trip cctpMessage_decode_encode)

section \<open>CctpTokenBurnMessage\<close>

record cctpTokenBurnMessage =
  cb_cctp :: cctp
  cb_version :: int
  cb_burnTokenAddress :: "byte list"
  cb_mintRecipient :: "byte list"
  cb_amount :: int
  cb_sender :: "byte list"

definition cctpTokenBurnMessage_decode :: "byte list \<Rightarrow> cctpTokenBurnMessage result" where
  "cctpTokenBurnMessage_decode buf =
     bnd (cctpMessage_decode buf) (\<lambda>m.
     let message = cm_message m in
     bnd (readBE 4 message 0) (\<lambda>version.
     Inr \<lparr>cb_cctp = cm_cctp m, cb_version = int version,
          cb_burnTokenAddress = subarray message 4 36, cb_mintRecipient = subarray message 36 68,
          cb_amount = int (beNat (subarray message 68 100)), cb_sender = subarray message 100 132\<rparr>))"

text \<open>\<open>BN.toBuffer("be", 32)\<close> encodes the magnitude and throws when it does not fit.\<close>

definition bnToBuffer32 :: "int \<Rightarrow> byte list result" where
  "bnToBuffer32 n =
     (if byteLength (nat \<bar>n\<bar>) \<le> 32 then Inr (beBytes 32 (nat \<bar>n\<bar>))
      else Inl (Error ''byte array longer than desired length''))"

definition cctpTokenBurnMessage_encode :: "cctpTokenBurnMessage \<Rightarrow> byte list result" where
  "cctpTokenBurnMessage_encode m =
     bnd (writeBE 4 (alloc 132) (cb_version m) 0) (\<lambda>buf.
     bnd (bufSet buf (cb_burnTokenAddress m) 4) (\<lambda>buf.
     bnd (bufSet buf (cb_mintRecipient m) 36) (\<lambda>buf.
     bnd (bnToBuffer32 (cb_amount m)) (\<lambda>encodedAmount.
     bnd (bufSet buf encodedAmount (68 + 32 - length encodedAmount)) (\<lambda>buf.
     bnd (bufSet buf (cb_sender m) 100) (\<lambda>buf.
     bnd (encodeCctp (cb_cctp m)) (\<lambda>header.
     Inr (header @ buf))))))))"

datatype burnMessageInput = BurnMessageObject cctpTokenBurnMessage | BurnMessageBuffer "byte list"

fun cctpTokenBurnMessage_from :: "burnMessageInput \<Rightarrow> cctpTokenBurnMessage result" where
  "cctpTokenBurnMessage_from (BurnMessageObject m) = Inr m"
| "cctpTokenBurnMessage_from (BurnMessageBuffer buf) = cctpTokenBurnMessage_decode buf"

definition burn_wf :: "cctpTokenBurnMessage \<Rightarrow> bool" where
  "burn_wf m \<longleftrightarrow> cctp_wf (cb_cctp m) \<and> 0 \<le> cb_version m \<and> cb_version m < 256 ^ 4 \<and>
     length (cb_burnTokenAddress m) = 32 \<and> length (cb_mintRecipient m) = 32 \<and>
     0 \<le> cb_amount m \<and> cb_amount m < 256 ^ 32 \<and> length (cb_sender m) = 32"

definition burnBytes :: "cctpTokenBurnMessage \<Rightarrow> byte list" where
  "burnBytes m = beBytes 4 (nat (cb_version m)) @ cb_burnTokenAddress m @ cb_mintRecipient m @
     beBytes 32 (nat (cb_amount m)) @ cb_sender m"

lemma bnToBuffer32_eq: "0 \<le> n \<Longrightarrow> n < 256 ^ 32 \<Longrightarrow> bnToBuffer32 n = Inr (beBytes 32 (nat n))"
  by (simp add: bnToBuffer32_def byteLength_le_iff nat_less_iff del: power_numeral)

lemma burn_encode_eq: "burn_wf m \<Longrightarrow> cctpTokenBurnMessage_encode m = Inr (cctpBytes (cb_cctp m) @ burnBytes m)"
  by (simp add: cctpTokenBurnMessage_encode_def burn_wf_def burnBytes_def alloc_filled writeBE_filled
      bufSet_filled bnToBuffer32_eq encodeCctp_eq del: power_numeral)

lemma burn_decode_bytes:
  assumes "burn_wf m"
  shows "cctpTokenBurnMessage_decode (cctpBytes (cb_cctp m) @ burnBytes m @ extra) = Inr m"
  using assms
  by (simp add: cctpTokenBurnMessage_decode_def burn_wf_def cctpMessage_decode_bytes Let_def burnBytes_def
      read_parts beNat_beBytes nat_less_256 del: power_numeral)

lemma burn_round_trip:
  "burn_wf m \<Longrightarrow> \<exists>b. cctpTokenBurnMessage_encode m = Inr b \<and> cctpTokenBurnMessage_decode b = Inr m"
  using burn_decode_bytes [of m "[]"] by (simp add: burn_encode_eq)

lemma burn_decode_encode:
  assumes "length b = 248"
  shows "\<exists>m. cctpTokenBurnMessage_decode b = Inr m \<and> burn_wf m \<and> cctpTokenBurnMessage_encode m = Inr b"
proof -
  obtain h where h: "cctpMessage_decode b = Inr h" and wf: "cctp_wf (cm_cctp h)"
    and enc: "cctpMessage_encode h = Inr b"
    using cctpMessage_decode_encode [of b] assms by auto
  let ?m = "cm_message h"
  have b: "b = cctpBytes (cm_cctp h) @ ?m"
    using enc wf by (simp add: cctpMessage_encode_def encodeCctp_eq)
  have "length b = 116 + length ?m"
    using wf by (subst b) simp
  with assms have len: "length ?m = 132" by simp
  let ?r = "\<lparr>cb_cctp = cm_cctp h, cb_version = int (beNat (take 4 ?m)),
    cb_burnTokenAddress = take 32 (drop 4 ?m), cb_mintRecipient = take 32 (drop 36 ?m),
    cb_amount = int (beNat (take 32 (drop 68 ?m))), cb_sender = take 32 (drop 100 ?m)\<rparr>"
  have wfr: "burn_wf ?r"
    using wf len by (simp add: burn_wf_def beNat_bound_length del: power_numeral)
  have "burnBytes ?r = take 4 ?m @ take 32 (drop 4 ?m) @ take 32 (drop 36 ?m) @ take 32 (drop 68 ?m) @ drop 100 ?m"
    using len by (simp add: burnBytes_def beBytes_beNat)
  also have "\<dots> = ?m" by (simp add: take_drop_join)
  finally have "burnBytes ?r = ?m" .
  then show ?thesis
    using burn_decode_bytes [OF wfr, of "[]"] burn_encode_eq [OF wfr] wfr b by auto
qed

interpretation burnMessage: exact_codec cctpTokenBurnMessage_encode cctpTokenBurnMessage_decode burn_wf
  "\<lambda>b. length b = 248"
  by unfold_locales (simp_all add: burn_round_trip burn_decode_encode)

section \<open>Properties\<close>

text \<open>
  Encoding and decoding a CCTP message are inverse to each other: a message whose fields fit their
  widths decodes from its encoding, and every buffer of at least 116 bytes is the encoding of the
  message it decodes to. A shorter buffer whose integers cannot be read is rejected.
\<close>

theorem cctpMessage_codec:
  "(cctp_wf (cm_cctp m) \<longrightarrow> bnd (cctpMessage_encode m) cctpMessage_decode = Inr m) \<and>
   (116 \<le> length b \<longrightarrow> bnd (cctpMessage_decode b) cctpMessage_encode = Inr b) \<and>
   (length b < 20 \<longrightarrow> cctpMessage_decode b = Inl RangeError)"
proof (intro conjI impI)
  assume "cctp_wf (cm_cctp m)"
  then show "bnd (cctpMessage_encode m) cctpMessage_decode = Inr m" by (rule cctpMessage.dec_enc)
next
  assume "116 \<le> length b"
  then show "bnd (cctpMessage_decode b) cctpMessage_encode = Inr b"
    using cctpMessage.dec_total [of b] by auto
next
  assume "length b < 20"
  then show "cctpMessage_decode b = Inl RangeError"
    by (simp add: cctpMessage_decode_def readBE_def)
qed

theorem cctpMessage_codec_witness:
  "bnd (cctpMessage_decode (replicate 120 7)) cctpMessage_encode = Inr (replicate 120 7) \<and>
   cctpMessage_decode [1, 2] = Inl RangeError"
  using cctpMessage_codec [of _ "replicate 120 7"] cctpMessage_codec [of _ "[1, 2]"] by simp

text \<open>
  C29. Encoding and decoding a token burn message are inverse to each other: a message whose fields
  fit their widths (the amount in 256 bits) decodes from its encoding, and so with trailing bytes,
  which the decoder ignores; every buffer of exactly 248 bytes is the encoding of the message it
  decodes to.
\<close>

theorem cctpTokenBurnMessage_codec:
  "(burn_wf m \<longrightarrow> bnd (cctpTokenBurnMessage_encode m) (\<lambda>b. cctpTokenBurnMessage_decode (b @ extra)) = Inr m) \<and>
   (length b = 248 \<longrightarrow> bnd (cctpTokenBurnMessage_decode b) cctpTokenBurnMessage_encode = Inr b)"
proof (intro conjI impI)
  assume "burn_wf m"
  then show "bnd (cctpTokenBurnMessage_encode m) (\<lambda>b. cctpTokenBurnMessage_decode (b @ extra)) = Inr m"
    by (simp add: burn_encode_eq burn_decode_bytes)
next
  assume "length b = 248"
  then show "bnd (cctpTokenBurnMessage_decode b) cctpTokenBurnMessage_encode = Inr b"
    using burnMessage.dec_total [of b] by auto
qed

theorem cctpTokenBurnMessage_codec_witness:
  "bnd (cctpTokenBurnMessage_decode (replicate 248 3)) cctpTokenBurnMessage_encode = Inr (replicate 248 3)"
  using cctpTokenBurnMessage_codec [of _ _ "replicate 248 3"] by simp

text \<open>
  The encoder rejects what does not fit instead of truncating it: a header integer outside its
  width, or a burn amount of more than 256 bits, makes the encoding throw.
\<close>

theorem cctpTokenBurnMessage_encode_rejects:
  assumes "cctpTokenBurnMessage_encode m = Inr b"
  shows "0 \<le> cb_version m \<and> cb_version m < 2 ^ 32 \<and> \<bar>cb_amount m\<bar> < 2 ^ 256 \<and>
    0 \<le> cc_sourceDomain (cb_cctp m) \<and> cc_sourceDomain (cb_cctp m) < 2 ^ 32 \<and>
    0 \<le> cc_destinationDomain (cb_cctp m) \<and> cc_destinationDomain (cb_cctp m) < 2 ^ 32 \<and>
    0 \<le> cc_nonce (cb_cctp m) \<and> cc_nonce (cb_cctp m) < 2 ^ 64 \<and> length b = 248"
proof -
  have w: "0 \<le> v \<and> v < 256 ^ n" if "writeBE n buf v off = Inr buf'" for n buf v off buf'
    using that by (auto simp: writeBE_def not_le split: if_splits)
  from assms obtain b1 b2 b3 e b4 b5 h where
    steps: "writeBE 4 (alloc 132) (cb_version m) 0 = Inr b1" "bufSet b1 (cb_burnTokenAddress m) 4 = Inr b2"
      "bufSet b2 (cb_mintRecipient m) 36 = Inr b3" "bnToBuffer32 (cb_amount m) = Inr e"
      "bufSet b3 e (68 + 32 - length e) = Inr b4" "bufSet b4 (cb_sender m) 100 = Inr b5"
      "encodeCctp (cb_cctp m) = Inr h" and b: "b = h @ b5"
    by (auto simp: cctpTokenBurnMessage_encode_def bnd_eq_Inr_iff)
  have "length b5 = 132" using steps by (metis length_alloc length_bufSet length_writeBE)
  moreover have "length h = 116"
    using steps(7) by (auto simp: encodeCctp_def bnd_eq_Inr_iff dest!: length_writeBE length_bufSet)
  moreover have "\<bar>cb_amount m\<bar> < 2 ^ 256"
    using steps(4) by (auto simp: bnToBuffer32_def byteLength_le_iff nat_less_iff split: if_splits)
  moreover have "0 \<le> cc_sourceDomain (cb_cctp m) \<and> cc_sourceDomain (cb_cctp m) < 256 ^ 4 \<and>
    0 \<le> cc_destinationDomain (cb_cctp m) \<and> cc_destinationDomain (cb_cctp m) < 256 ^ 4 \<and>
    0 \<le> cc_nonce (cb_cctp m) \<and> cc_nonce (cb_cctp m) < 256 ^ 8"
    using steps(7) by (auto simp: encodeCctp_def bnd_eq_Inr_iff simp del: power_numeral dest!: w)
  ultimately show ?thesis using w [OF steps(1)] b by simp
qed

theorem cctpTokenBurnMessage_encode_rejects_witness:
  "\<exists>m b. cctpTokenBurnMessage_encode m = Inr b \<and> length b = 248"
proof -
  obtain m where "cctpTokenBurnMessage_encode m = Inr (replicate 248 3)"
    using burn_decode_encode [of "replicate 248 3"] by auto
  then show ?thesis using cctpTokenBurnMessage_encode_rejects by blast
qed

end
