(* ===== verification/Cctp_Programs.thy ===== *)
theory Cctp_Programs
  imports Addresses Cctp_Messages
begin

text \<open>
  \<open>solana/ts/src/cctp/messageTransmitter\<close> and \<open>solana/ts/src/cctp/tokenMessengerMinter\<close>: the two
  CCTP programs' account addresses and the account lists for receiving a token burn message and for
  burning. A program object is its program id as a base58 string.
\<close>

section \<open>Decimal seeds and used nonces\<close>

definition decInt :: "int \<Rightarrow> byte list" where
  "decInt i = (if i < 0 then ascii ''-'' @ decBytes (nat (- i)) else decBytes (nat i))"

definition MAX_NONCES :: int where
  "MAX_NONCES = 6400"

definition firstNonce :: "int \<Rightarrow> int" where
  "firstNonce nonce = ((nonce - 1) sdiv MAX_NONCES) * MAX_NONCES + 1"

definition usedNonces_seeds :: "int \<Rightarrow> int \<Rightarrow> byte list list" where
  "usedNonces_seeds remoteDomain nonce =
     [ascii ''used_nonces'', decInt remoteDomain, decInt (firstNonce nonce)]"

definition usedNonces_address :: "env \<Rightarrow> pubkey \<Rightarrow> int \<Rightarrow> int \<Rightarrow> pubkey" where
  "usedNonces_address env programId remoteDomain nonce =
     findProgramAddress env (usedNonces_seeds remoteDomain nonce) programId"

section \<open>TokenMessengerMinterProgram\<close>

definition TOKEN_MESSENGER_MINTER_PROGRAM_IDS :: "string list" where
  "TOKEN_MESSENGER_MINTER_PROGRAM_IDS = [''CCTPiPYPc6AsJuwueEnWgSgucamXDZwBd53dQ11YiKX3'']"

definition newTokenMessengerMinterProgram :: "string option \<Rightarrow> string" where
  "newTokenMessengerMinterProgram programId = orElse programId (hd TOKEN_MESSENGER_MINTER_PROGRAM_IDS)"

definition tmm_ID :: "env \<Rightarrow> string \<Rightarrow> pubkey" where
  "tmm_ID env p = newPublicKey env p"

definition tmm_tokenMessengerAddress :: "env \<Rightarrow> string \<Rightarrow> pubkey" where
  "tmm_tokenMessengerAddress env p = findProgramAddress env [ascii ''token_messenger''] (tmm_ID env p)"

definition tmm_tokenMinterAddress :: "env \<Rightarrow> string \<Rightarrow> pubkey" where
  "tmm_tokenMinterAddress env p = findProgramAddress env [ascii ''token_minter''] (tmm_ID env p)"

definition tmm_custodyTokenAddress :: "env \<Rightarrow> string \<Rightarrow> pubkey \<Rightarrow> pubkey" where
  "tmm_custodyTokenAddress env p mint = findProgramAddress env [ascii ''custody'', mint] (tmm_ID env p)"

definition tmm_tokenPairAddress :: "env \<Rightarrow> string \<Rightarrow> int \<Rightarrow> byte list \<Rightarrow> pubkey" where
  "tmm_tokenPairAddress env p remoteDomain remoteTokenAddress =
     findProgramAddress env [ascii ''token_pair'', decInt remoteDomain, remoteTokenAddress] (tmm_ID env p)"

definition remoteTokenMessenger_address :: "env \<Rightarrow> pubkey \<Rightarrow> int \<Rightarrow> pubkey" where
  "remoteTokenMessenger_address env programId remoteDomain =
     findProgramAddress env [ascii ''remote_token_messenger'', decInt remoteDomain] programId"

definition tmm_remoteTokenMessengerAddress :: "env \<Rightarrow> string \<Rightarrow> int \<Rightarrow> pubkey" where
  "tmm_remoteTokenMessengerAddress env p remoteDomain =
     remoteTokenMessenger_address env (tmm_ID env p) remoteDomain"

definition tmm_fetchRemoteTokenMessenger :: "env \<Rightarrow> pubkey \<Rightarrow> remoteTokenMessenger result" where
  "tmm_fetchRemoteTokenMessenger env addr =
     bnd (acctRemoteTokenMessenger env addr) (\<lambda>a.
     Inr \<lparr>rt_domain = rt_domain a, rt_tokenMessenger = rt_tokenMessenger a\<rparr>)"

definition tmm_localTokenAddress :: "env \<Rightarrow> string \<Rightarrow> pubkey \<Rightarrow> pubkey" where
  "tmm_localTokenAddress env p mint = findProgramAddress env [ascii ''local_token'', mint] (tmm_ID env p)"

definition tmm_senderAuthorityAddress :: "env \<Rightarrow> string \<Rightarrow> pubkey" where
  "tmm_senderAuthorityAddress env p = findProgramAddress env [ascii ''sender_authority''] (tmm_ID env p)"

definition tmm_eventAuthorityAddress :: "env \<Rightarrow> string \<Rightarrow> pubkey" where
  "tmm_eventAuthorityAddress env p = findProgramAddress env [ascii ''__event_authority''] (tmm_ID env p)"

section \<open>MessageTransmitterProgram\<close>

definition MESSAGE_TRANSMITTER_PROGRAM_IDS :: "string list" where
  "MESSAGE_TRANSMITTER_PROGRAM_IDS = [''CCTPmbSD7gX1bxKPAmg77w8oFzNFpaQiQUWD43TKaecd'']"

definition newMessageTransmitterProgram :: "string option \<Rightarrow> string" where
  "newMessageTransmitterProgram programId = orElse programId (hd MESSAGE_TRANSMITTER_PROGRAM_IDS)"

definition mt_ID :: "env \<Rightarrow> string \<Rightarrow> pubkey" where
  "mt_ID env p = newPublicKey env p"

definition messageTransmitterConfig_address :: "env \<Rightarrow> pubkey \<Rightarrow> pubkey" where
  "messageTransmitterConfig_address env programId =
     findProgramAddress env [ascii ''message_transmitter''] programId"

definition mt_messageTransmitterConfigAddress :: "env \<Rightarrow> string \<Rightarrow> pubkey" where
  "mt_messageTransmitterConfigAddress env p = messageTransmitterConfig_address env (mt_ID env p)"

definition mt_fetchMessageTransmitterConfig :: "env \<Rightarrow> pubkey \<Rightarrow> messageTransmitterConfig result" where
  "mt_fetchMessageTransmitterConfig env addr = acctMessageTransmitter env addr"

definition mt_usedNoncesAddress :: "env \<Rightarrow> string \<Rightarrow> int \<Rightarrow> int \<Rightarrow> pubkey" where
  "mt_usedNoncesAddress env p remoteDomain nonce = usedNonces_address env (mt_ID env p) remoteDomain nonce"

definition mt_authorityAddress :: "env \<Rightarrow> string \<Rightarrow> pubkey \<Rightarrow> pubkey" where
  "mt_authorityAddress env p cpiProgramId =
     findProgramAddress env [ascii ''message_transmitter_authority'', cpiProgramId] (mt_ID env p)"

definition mt_eventAuthorityAddress :: "env \<Rightarrow> string \<Rightarrow> pubkey" where
  "mt_eventAuthorityAddress env p = findProgramAddress env [ascii ''__event_authority''] (mt_ID env p)"

definition mt_fetchMessageSent :: "env \<Rightarrow> pubkey \<Rightarrow> messageSent result" where
  "mt_fetchMessageSent env addr = acctMessageSent env addr"

definition mt_tokenMessengerMinterProgram :: string where
  "mt_tokenMessengerMinterProgram = newTokenMessengerMinterProgram None"

record receiveTokenMessengerMinterMessageAccounts =
  rm_authority :: pubkey
  rm_messageTransmitterConfig :: pubkey
  rm_usedNonces :: pubkey
  rm_tokenMessengerMinterProgram :: pubkey
  rm_messageTransmitterEventAuthority :: pubkey
  rm_messageTransmitterProgram :: pubkey
  rm_tokenMessenger :: pubkey
  rm_remoteTokenMessenger :: pubkey
  rm_tokenMinter :: pubkey
  rm_localToken :: pubkey
  rm_tokenPair :: pubkey
  rm_custodyToken :: pubkey
  rm_tokenMessengerMinterEventAuthority :: pubkey

definition mt_receiveTokenMessengerMinterMessageAccounts ::
  "env \<Rightarrow> string \<Rightarrow> pubkey \<Rightarrow> burnMessageInput \<Rightarrow> receiveTokenMessengerMinterMessageAccounts result" where
  "mt_receiveTokenMessengerMinterMessageAccounts env p mint circleMessage =
     bnd (cctpTokenBurnMessage_from circleMessage) (\<lambda>msg.
     let sourceDomain = cc_sourceDomain (cb_cctp msg);
         nonce = cc_nonce (cb_cctp msg);
         burnTokenAddress = cb_burnTokenAddress msg;
         tmm = mt_tokenMessengerMinterProgram
     in Inr \<lparr>
       rm_authority = mt_authorityAddress env p (tmm_ID env tmm),
       rm_messageTransmitterConfig = mt_messageTransmitterConfigAddress env p,
       rm_usedNonces = mt_usedNoncesAddress env p sourceDomain nonce,
       rm_tokenMessengerMinterProgram = tmm_ID env tmm,
       rm_messageTransmitterEventAuthority = mt_eventAuthorityAddress env p,
       rm_messageTransmitterProgram = mt_ID env p,
       rm_tokenMessenger = tmm_tokenMessengerAddress env tmm,
       rm_remoteTokenMessenger = tmm_remoteTokenMessengerAddress env tmm sourceDomain,
       rm_tokenMinter = tmm_tokenMinterAddress env tmm,
       rm_localToken = tmm_localTokenAddress env tmm mint,
       rm_tokenPair = tmm_tokenPairAddress env tmm sourceDomain burnTokenAddress,
       rm_custodyToken = tmm_custodyTokenAddress env tmm mint,
       rm_tokenMessengerMinterEventAuthority = tmm_eventAuthorityAddress env tmm\<rparr>)"

definition mt_reclaimEventAccountIx :: "env \<Rightarrow> string \<Rightarrow> pubkey \<Rightarrow> pubkey \<Rightarrow> byte list \<Rightarrow> instruction" where
  "mt_reclaimEventAccountIx env p payee messageSentEventData attestation =
     AnchorCall (mt_ID env p) ''reclaimEventAccount'' [ArgObject [(''attestation'', ArgBytes attestation)]]
       [(''payee'', Key payee),
        (''messageTransmitter'', Key (mt_messageTransmitterConfigAddress env p)),
        (''messageSentEventData'', Key messageSentEventData)]"

text \<open>\<open>reclaimCctpMessageIx\<close> of \<open>common/index.ts\<close>: the payer is the payee.\<close>

definition reclaimCctpMessageIx :: "env \<Rightarrow> string \<Rightarrow> pubkey \<Rightarrow> pubkey \<Rightarrow> byte list \<Rightarrow> instruction" where
  "reclaimCctpMessageIx env messageTransmitter payer cctpMessage cctpAttestation =
     mt_reclaimEventAccountIx env messageTransmitter payer cctpMessage cctpAttestation"

text \<open>The Token Messenger Minter's view of the Message Transmitter, and the accounts of a burn.\<close>

definition tmm_messageTransmitterProgram :: string where
  "tmm_messageTransmitterProgram =
     newMessageTransmitterProgram (Some ''CCTPmbSD7gX1bxKPAmg77w8oFzNFpaQiQUWD43TKaecd'')"

record depositForBurnWithCallerAccounts =
  db_senderAuthority :: pubkey
  db_messageTransmitterConfig :: pubkey
  db_tokenMessenger :: pubkey
  db_remoteTokenMessenger :: pubkey
  db_tokenMinter :: pubkey
  db_localToken :: pubkey
  db_tokenMessengerMinterEventAuthority :: pubkey
  db_messageTransmitterProgram :: pubkey
  db_tokenMessengerMinterProgram :: pubkey

definition tmm_depositForBurnWithCallerAccounts ::
  "env \<Rightarrow> string \<Rightarrow> pubkey \<Rightarrow> int \<Rightarrow> depositForBurnWithCallerAccounts" where
  "tmm_depositForBurnWithCallerAccounts env p mint remoteDomain =
     (let mt = tmm_messageTransmitterProgram in \<lparr>
       db_senderAuthority = tmm_senderAuthorityAddress env p,
       db_messageTransmitterConfig = mt_messageTransmitterConfigAddress env mt,
       db_tokenMessenger = tmm_tokenMessengerAddress env p,
       db_remoteTokenMessenger = tmm_remoteTokenMessengerAddress env p remoteDomain,
       db_tokenMinter = tmm_tokenMinterAddress env p,
       db_localToken = tmm_localTokenAddress env p mint,
       db_tokenMessengerMinterEventAuthority = tmm_eventAuthorityAddress env p,
       db_messageTransmitterProgram = mt_ID env mt,
       db_tokenMessengerMinterProgram = tmm_ID env p\<rparr>)"

section \<open>Properties of the nonce accounts\<close>

lemma firstNonce_pos: "1 \<le> nonce \<Longrightarrow> firstNonce nonce = (nonce - 1) div 6400 * 6400 + 1"
  by (simp add: firstNonce_def MAX_NONCES_def sdiv_nonneg)

lemma firstNonce_ge1: "1 \<le> nonce \<Longrightarrow> 1 \<le> firstNonce nonce"
  by (simp add: firstNonce_pos pos_imp_zdiv_nonneg_iff)

lemma decInt_inject: "0 \<le> i \<Longrightarrow> 0 \<le> j \<Longrightarrow> decInt i = decInt j \<longleftrightarrow> i = j"
  by (auto simp: decInt_def decBytes_inject)

lemma hd_decDigits_pos: "0 < n \<Longrightarrow> hd (decDigits n) \<noteq> 0"
proof (induction n rule: decDigits.induct)
  case (1 n)
  show ?case
  proof (cases "n < 10")
    case True
    with "1.prems" show ?thesis by (simp add: decDigits.simps [of n])
  next
    case False
    then have "0 < n div 10" by (simp add: div_greater_zero_iff)
    with False "1.IH" show ?thesis by (simp add: decDigits.simps [of n] hd_append)
  qed
qed

lemma digits_map_append_cancel:
  assumes "map digitByte ds @ map digitByte xs = map digitByte es @ map digitByte ys"
    and "\<forall>d\<in>set ds \<union> set xs \<union> set es \<union> set ys. d < 10"
  shows "ds @ xs = es @ ys"
proof -
  have "map digitByte (ds @ xs) = map digitByte (es @ ys)" using assms(1) by simp
  then show ?thesis using assms(2) by (subst (asm) map_digitByte_inject) auto
qed

lemma decDigits_small: "n < 10 \<Longrightarrow> decDigits n = [n]"
  by (simp add: decDigits.simps [of n])

lemma decDigits_10: "decDigits 10 = [1, 0]"
  by (simp add: decDigits.simps [of 10] decDigits_small)

lemma decDigits_no_leading_zero: "0 < n \<Longrightarrow> decDigits n \<noteq> 0 # ds" "0 < n \<Longrightarrow> 0 # ds \<noteq> decDigits n"
  using hd_decDigits_pos [of n] by (metis list.sel(1))+

lemma decDigits_append_inject:
  assumes "d \<le> 10" "e \<le> 10" "0 < m" "0 < n" "decDigits d @ decDigits m = decDigits e @ decDigits n"
  shows "d = e \<and> m = n"
  using assms
  by (cases "d = 10"; cases "e = 10")
    (auto simp: decDigits_small decDigits_10 decDigits_inject decDigits_no_leading_zero)

text \<open>
  Used-nonce accounts partition the nonces into runs of 6400: for nonces from 1, the account of a
  nonce is the one of the run \<open>6400 k + 1 .. 6400 (k + 1)\<close> that holds it, and for the remote domains
  0 to 10 two nonces share the seeds of an account exactly when domain and run agree.
\<close>

theorem usedNonces_seeds_partition:
  assumes "1 \<le> m" "1 \<le> n" "0 \<le> d" "d \<le> 10" "0 \<le> e" "e \<le> 10"
  shows "firstNonce n \<le> n \<and> n < firstNonce n + 6400 \<and> (firstNonce n - 1) mod 6400 = 0 \<and>
    (concat (usedNonces_seeds d m) = concat (usedNonces_seeds e n) \<longleftrightarrow>
      d = e \<and> (m - 1) div 6400 = (n - 1) div 6400)"
proof -
  have bounds: "firstNonce n \<le> n \<and> n < firstNonce n + 6400 \<and> (firstNonce n - 1) mod 6400 = 0"
  proof -
    have "(n - 1) div 6400 * 6400 + (n - 1) mod 6400 = n - 1" by (rule div_mult_mod_eq)
    moreover have "0 \<le> (n - 1) mod 6400" "(n - 1) mod 6400 < 6400" by simp_all
    ultimately show ?thesis using assms(2) unfolding firstNonce_pos [OF assms(2)]
      by (intro conjI) (linarith, linarith, simp)
  qed
  have pos: "1 \<le> firstNonce m" "1 \<le> firstNonce n" using assms firstNonce_ge1 by auto
  have "d = e \<and> firstNonce m = firstNonce n"
    if "decInt d @ decInt (firstNonce m) = decInt e @ decInt (firstNonce n)"
  proof -
    have "decDigits (nat d) @ decDigits (nat (firstNonce m)) =
        decDigits (nat e) @ decDigits (nat (firstNonce n))"
      using that assms pos by (intro digits_map_append_cancel) (auto simp: decInt_def decBytes_def decDigits_less10)
    then have "nat d = nat e \<and> nat (firstNonce m) = nat (firstNonce n)"
      using assms pos by (intro decDigits_append_inject) auto
    then show ?thesis using assms pos by (auto simp: eq_nat_nat_iff)
  qed
  then have "concat (usedNonces_seeds d m) = concat (usedNonces_seeds e n) \<longleftrightarrow>
      d = e \<and> firstNonce m = firstNonce n"
    by (auto simp: usedNonces_seeds_def)
  then show ?thesis using bounds assms by (simp add: firstNonce_pos)
qed

theorem usedNonces_seeds_partition_witness:
  "concat (usedNonces_seeds 10 6400) = concat (usedNonces_seeds 10 1) \<and>
   concat (usedNonces_seeds 1 6401) \<noteq> concat (usedNonces_seeds 1 6400)"
  using usedNonces_seeds_partition [of 6400 1 10 10] usedNonces_seeds_partition [of 6401 6400 1 1] by simp

text \<open>
  The decimal seeds of a used-nonce account have no separator, so from domain 11 on they no longer
  tell domains apart: the nonce 10003201 of domain 11 and the nonce 110003201 of domain 1, each the
  first of its run, have the same concatenation of seeds, hence the same address.
\<close>

theorem usedNonces_domains_collide:
  "concat (usedNonces_seeds 11 10003201) = concat (usedNonces_seeds 1 110003201) \<and>
   firstNonce 10003201 = 10003201 \<and> firstNonce 110003201 = 110003201"
proof -
  have f: "firstNonce 10003201 = 10003201" "firstNonce 110003201 = 110003201"
    by (simp_all add: firstNonce_pos)
  have "decDigits 11 @ decDigits 10003201 = decDigits 1 @ decDigits 110003201"
    by (simp add: decDigits.simps)
  then have "map digitByte (decDigits 11) @ map digitByte (decDigits 10003201) =
      map digitByte (decDigits 1) @ map digitByte (decDigits 110003201)"
    by (metis map_append)
  then show ?thesis using f by (simp add: usedNonces_seeds_def decInt_def decBytes_def)
qed

end
