(* ===== verification/Vaa_Account.thy ===== *)
theory Vaa_Account
  imports Chain_Env
begin

text \<open>
  \<open>VaaAccount\<close> of \<open>solana/ts/src/wormhole/index.ts\<close>: the parser of the two account formats that hold a
  VAA (the bytes of an encoded VAA, or the fields of a posted one), the accessors, and the hash of a
  posted VAA, which rebuilds the VAA's body.
\<close>

section \<open>The class\<close>

record encodedVaa =
  ev_status :: "byte option"
  ev_writeAuthority :: pubkey
  ev_version :: "byte option"
  ev_buf :: "byte list"

record postedVaaV1 =
  pv_consistencyLevel :: "byte option"
  pv_timestamp :: int
  pv_signatureSet :: pubkey
  pv_guardianSetIndex :: int
  pv_nonce :: int
  pv_sequence :: int
  pv_emitterChain :: int
  pv_emitterAddress :: "byte list"
  pv_payload :: "byte list"

record emitterInfo =
  ef_chain :: int
  ef_address :: "byte list"
  ef_sequence :: int

record vaaAccount =
  vc_encodedVaa :: "encodedVaa option"
  vc_postedVaaV1 :: "postedVaaV1 option"

definition newVaaAccount :: "encodedVaa option \<Rightarrow> postedVaaV1 option \<Rightarrow> vaaAccount result" where
  "newVaaAccount encoded posted =
     (if encoded \<noteq> None \<and> posted \<noteq> None
      then Inl (Error ''VaaAccount cannot have both encodedVaa and postedVaaV1'')
      else Inr \<lparr>vc_encodedVaa = encoded, vc_postedVaaV1 = posted\<rparr>)"

definition ENCODED_VAA_DISCRIMINATOR :: "byte list" where
  "ENCODED_VAA_DISCRIMINATOR = [226, 101, 163, 4, 133, 160, 84, 245]"

definition POSTED_VAA_V1_DISCRIMINATOR :: "byte list" where
  "POSTED_VAA_V1_DISCRIMINATOR = [118, 97, 97, 1]"

text \<open>
  The body of \<open>fetch\<close> on the account's data. An index past the end is \<open>undefined\<close>; a later read throws
  then. The posted format starts 4 bytes earlier than the encoded one.
\<close>

definition parseEncodedVaa :: "byte list \<Rightarrow> encodedVaa result" where
  "parseEncodedVaa data =
     (let status = at data 8; writeAuthority = subarray data 9 41; version = at data 41
      in bnd (readLE 4 data 42) (\<lambda>bufLen.
         Inr \<lparr>ev_status = status, ev_writeAuthority = writeAuthority, ev_version = version,
              ev_buf = subarray data 46 (46 + bufLen)\<rparr>))"

definition parsePostedVaaV1 :: "env \<Rightarrow> byte list \<Rightarrow> postedVaaV1 result" where
  "parsePostedVaaV1 env data =
     (let consistencyLevel = at data 4
      in bnd (readLE 4 data 5) (\<lambda>timestamp.
         let signatureSet = subarray data 9 41
         in bnd (readLE 4 data 41) (\<lambda>guardianSetIndex.
         bnd (readLE 4 data 45) (\<lambda>nonce.
         bnd (readLE 8 data 49) (\<lambda>sequence.
         bnd (readLE 2 data 57) (\<lambda>emitterChain.
         bnd (throwIf (\<not> isChainId env (int emitterChain)) (Error ''invalid emitter chain'')) (\<lambda>_.
         let emitterAddress = subarray data 59 91
         in bnd (readLE 4 data 91) (\<lambda>payloadLen.
         Inr \<lparr>pv_consistencyLevel = consistencyLevel, pv_timestamp = int timestamp,
              pv_signatureSet = signatureSet, pv_guardianSetIndex = int guardianSetIndex,
              pv_nonce = int nonce, pv_sequence = int sequence, pv_emitterChain = int emitterChain,
              pv_emitterAddress = emitterAddress,
              pv_payload = subarray data 95 (95 + payloadLen)\<rparr>))))))))"

definition parseVaaAccount :: "env \<Rightarrow> byte list \<Rightarrow> vaaAccount result" where
  "parseVaaAccount env data =
     (let disc = subarray data 0 8
      in if disc = ENCODED_VAA_DISCRIMINATOR
         then bnd (parseEncodedVaa data) (\<lambda>e. newVaaAccount (Some e) None)
         else if subarray disc 0 4 = POSTED_VAA_V1_DISCRIMINATOR
         then bnd (parsePostedVaaV1 env data) (\<lambda>p. newVaaAccount None (Some p))
         else Inl (Error ''invalid VAA account data''))"

definition vaaAccount_fetch :: "env \<Rightarrow> pubkey \<Rightarrow> vaaAccount result" where
  "vaaAccount_fetch env addr =
     bnd (getAccountInfo env addr) (\<lambda>accInfo.
     case accInfo of
       None \<Rightarrow> Inl (Error ''no VAA account info found'')
     | Some data \<Rightarrow> parseVaaAccount env data)"

definition vaaAccount_emitterInfo :: "env \<Rightarrow> vaaAccount \<Rightarrow> emitterInfo result" where
  "vaaAccount_emitterInfo env v =
     (case vc_encodedVaa v of
        Some e \<Rightarrow> bnd (deserializeVaa env (ev_buf e)) (\<lambda>parsed.
          bnd (toChainId env (va_emitterChain parsed)) (\<lambda>chain.
          Inr \<lparr>ef_chain = chain, ef_address = va_emitterAddress parsed, ef_sequence = va_sequence parsed\<rparr>))
      | None \<Rightarrow>
          (case vc_postedVaaV1 v of
             Some p \<Rightarrow> Inr \<lparr>ef_chain = pv_emitterChain p, ef_address = pv_emitterAddress p,
               ef_sequence = pv_sequence p\<rparr>
           | None \<Rightarrow> Inl (Error ''impossible: emitterInfo() failed'')))"

definition vaaAccount_timestamp :: "env \<Rightarrow> vaaAccount \<Rightarrow> int result" where
  "vaaAccount_timestamp env v =
     (case vc_encodedVaa v of
        Some e \<Rightarrow> bnd (deserializeVaa env (ev_buf e)) (\<lambda>parsed. Inr (va_timestamp parsed))
      | None \<Rightarrow>
          (case vc_postedVaaV1 v of
             Some p \<Rightarrow> Inr (pv_timestamp p)
           | None \<Rightarrow> Inl (Error ''impossible: timestamp() failed'')))"

definition vaaAccount_payload :: "env \<Rightarrow> vaaAccount \<Rightarrow> byte list result" where
  "vaaAccount_payload env v =
     (case vc_encodedVaa v of
        Some e \<Rightarrow> bnd (deserializeVaa env (ev_buf e)) (\<lambda>parsed. Inr (va_payload parsed))
      | None \<Rightarrow>
          (case vc_postedVaaV1 v of
             Some p \<Rightarrow> Inr (pv_payload p)
           | None \<Rightarrow> Inl (Error ''impossible: payload() failed'')))"

text \<open>The buffer that \<open>hash\<close> fills; an \<open>undefined\<close> consistency level makes \<open>writeUInt8\<close> throw a TypeError.\<close>

definition postedVaaBody :: "postedVaaV1 \<Rightarrow> byte list result" where
  "postedVaaBody p =
     bnd (writeBE 4 (alloc (51 + length (pv_payload p))) (pv_timestamp p) 0) (\<lambda>buf.
     bnd (writeBE 4 buf (pv_nonce p) 4) (\<lambda>buf.
     bnd (writeBE 2 buf (pv_emitterChain p) 8) (\<lambda>buf.
     bnd (bufSet buf (pv_emitterAddress p) 10) (\<lambda>buf.
     bnd (writeBE 8 buf (pv_sequence p) 42) (\<lambda>buf.
     bnd (case pv_consistencyLevel p of None \<Rightarrow> Inl TypeError | Some c \<Rightarrow> writeBE 1 buf (uint c) 50) (\<lambda>buf.
     bufSet buf (pv_payload p) 51))))))"

definition vaaAccount_hash :: "env \<Rightarrow> vaaAccount \<Rightarrow> byte list result" where
  "vaaAccount_hash env v =
     (case vc_encodedVaa v of
        Some e \<Rightarrow> bnd (deserializeVaa env (ev_buf e)) (\<lambda>parsed. Inr (va_hash parsed))
      | None \<Rightarrow>
          (case vc_postedVaaV1 v of
             Some p \<Rightarrow> bnd (postedVaaBody p) (\<lambda>buf. Inr (keccak256 env buf))
           | None \<Rightarrow> Inl (Error ''impossible: hash() failed'')))"

definition vaaAccount_digest :: "env \<Rightarrow> vaaAccount \<Rightarrow> byte list result" where
  "vaaAccount_digest env v = bnd (vaaAccount_hash env v) (\<lambda>h. Inr (keccak256 env h))"

definition vaaAccount_encodedVaa :: "vaaAccount \<Rightarrow> encodedVaa result" where
  "vaaAccount_encodedVaa v =
     (case vc_encodedVaa v of None \<Rightarrow> Inl (Error ''VaaAccount does not have encodedVaa'') | Some e \<Rightarrow> Inr e)"

definition vaaAccount_postedVaaV1 :: "vaaAccount \<Rightarrow> postedVaaV1 result" where
  "vaaAccount_postedVaaV1 v =
     (case vc_postedVaaV1 v of None \<Rightarrow> Inl (Error ''VaaAccount does not have postedVaaV1'') | Some p \<Rightarrow> Inr p)"

section \<open>The account formats\<close>

text \<open>
  The layout of the two formats, field by field, as the parser's offsets assume it, and the values
  whose fields fit.
\<close>

definition posted_wf :: "postedVaaV1 \<Rightarrow> bool" where
  "posted_wf p \<longleftrightarrow> pv_consistencyLevel p \<noteq> None \<and>
     0 \<le> pv_timestamp p \<and> pv_timestamp p < 256 ^ 4 \<and> length (pv_signatureSet p) = 32 \<and>
     0 \<le> pv_guardianSetIndex p \<and> pv_guardianSetIndex p < 256 ^ 4 \<and>
     0 \<le> pv_nonce p \<and> pv_nonce p < 256 ^ 4 \<and> 0 \<le> pv_sequence p \<and> pv_sequence p < 256 ^ 8 \<and>
     0 \<le> pv_emitterChain p \<and> pv_emitterChain p < 256 ^ 2 \<and> length (pv_emitterAddress p) = 32 \<and>
     length (pv_payload p) < 256 ^ 4"

definition postedAccountBytes :: "postedVaaV1 \<Rightarrow> byte list" where
  "postedAccountBytes p = POSTED_VAA_V1_DISCRIMINATOR @ [the (pv_consistencyLevel p)] @
     leBytes 4 (nat (pv_timestamp p)) @ pv_signatureSet p @ leBytes 4 (nat (pv_guardianSetIndex p)) @
     leBytes 4 (nat (pv_nonce p)) @ leBytes 8 (nat (pv_sequence p)) @
     leBytes 2 (nat (pv_emitterChain p)) @ pv_emitterAddress p @
     leBytes 4 (length (pv_payload p)) @ pv_payload p"

definition encoded_wf :: "encodedVaa \<Rightarrow> bool" where
  "encoded_wf e \<longleftrightarrow> ev_status e \<noteq> None \<and> length (ev_writeAuthority e) = 32 \<and> ev_version e \<noteq> None \<and>
     length (ev_buf e) < 256 ^ 4"

definition encodedAccountBytes :: "encodedVaa \<Rightarrow> byte list" where
  "encodedAccountBytes e = ENCODED_VAA_DISCRIMINATOR @ [the (ev_status e)] @ ev_writeAuthority e @
     [the (ev_version e)] @ leBytes 4 (length (ev_buf e)) @ ev_buf e"

lemma at_skip: "length p \<le> i \<Longrightarrow> at (p @ b) i = at b (i - length p)"
  by (auto simp: at_def nth_append)

lemma at_Cons_0: "at (x # b) 0 = Some x"
  by (simp add: at_def)

lemma readLE_Cons: "0 < off \<Longrightarrow> readLE n (x # b) off = readLE n b (off - 1)"
  by (cases off) (auto simp: readLE_def)

lemma subarray_Cons: "0 < i \<Longrightarrow> i \<le> j \<Longrightarrow> subarray (x # b) i j = subarray b (i - 1) (j - 1)"
  by (cases i) (simp_all add: subarray_def)

lemma at_Cons: "0 < i \<Longrightarrow> at (x # b) i = at b (i - 1)"
  by (cases i) (simp_all add: at_def)

lemmas account_parts = read_parts at_skip at_Cons_0 readLE_Cons subarray_Cons at_Cons

lemma disc_lengths: "length ENCODED_VAA_DISCRIMINATOR = 8" "length POSTED_VAA_V1_DISCRIMINATOR = 4"
  by (simp_all add: ENCODED_VAA_DISCRIMINATOR_def POSTED_VAA_V1_DISCRIMINATOR_def)

lemma subarray_self [simp]: "subarray b 0 (length b) = b"
  by (simp add: subarray_def)

lemma nat_less_256_pow: "0 \<le> v \<Longrightarrow> v < 256 ^ n \<Longrightarrow> nat v < 256 ^ n"
  by (simp add: nat_less_iff)

lemma parsePosted_bytes:
  assumes "posted_wf p" "isChainId env (pv_emitterChain p)"
  shows "parsePostedVaaV1 env (postedAccountBytes p) = Inr p"
  using assms
  by (auto simp: parsePostedVaaV1_def postedAccountBytes_def posted_wf_def account_parts disc_lengths
      leNat_leBytes_id nat_less_256_pow subarray_0 Let_def simp del: power_numeral)

lemma parseEncoded_bytes: "encoded_wf e \<Longrightarrow> parseEncodedVaa (encodedAccountBytes e) = Inr e"
  by (auto simp: parseEncodedVaa_def encodedAccountBytes_def encoded_wf_def account_parts disc_lengths
      leNat_leBytes_id subarray_0 Let_def simp del: power_numeral)

lemma posted_disc:
  "posted_wf p \<Longrightarrow> subarray (postedAccountBytes p) 0 8 \<noteq> ENCODED_VAA_DISCRIMINATOR \<and>
   subarray (subarray (postedAccountBytes p) 0 8) 0 4 = POSTED_VAA_V1_DISCRIMINATOR"
  by (simp add: postedAccountBytes_def POSTED_VAA_V1_DISCRIMINATOR_def ENCODED_VAA_DISCRIMINATOR_def
      subarray_def)

lemma encoded_disc: "subarray (encodedAccountBytes e) 0 8 = ENCODED_VAA_DISCRIMINATOR"
  by (simp add: encodedAccountBytes_def subarray_def disc_lengths)

section \<open>What a parsed account guarantees\<close>

lemma leNat_less: "length bs = n \<Longrightarrow> leNat bs < 256 ^ n"
  using leNat_bound [of bs] by simp

lemma readLE_Inr: "readLE n b off = Inr v \<longleftrightarrow> off + n \<le> length b \<and> v = leNat (take n (drop off b))"
  by (auto simp: readLE_def)

lemma readLE_less: "readLE n b off = Inr v \<Longrightarrow> v < 256 ^ n"
  by (auto simp: readLE_Inr intro!: leNat_less)

lemma parsePosted_wf:
  assumes "parsePostedVaaV1 env data = Inr p"
  shows "posted_wf p \<and> isChainId env (pv_emitterChain p)"
proof -
  from assms obtain t g n q c l where
    reads: "readLE 4 data 5 = Inr t" "readLE 4 data 41 = Inr g" "readLE 4 data 45 = Inr n"
      "readLE 8 data 49 = Inr q" "readLE 2 data 57 = Inr c" "readLE 4 data 91 = Inr l"
    and chain: "isChainId env (int c)"
    and p: "p = \<lparr>pv_consistencyLevel = at data 4, pv_timestamp = int t,
      pv_signatureSet = subarray data 9 41, pv_guardianSetIndex = int g, pv_nonce = int n,
      pv_sequence = int q, pv_emitterChain = int c, pv_emitterAddress = subarray data 59 91,
      pv_payload = subarray data 95 (95 + l)\<rparr>"
    by (auto simp: parsePostedVaaV1_def Let_def bnd_eq_Inr_iff throwIf_eq_Inr)
  have "95 \<le> length data" using reads(6) by (simp add: readLE_Inr)
  moreover have "length (subarray data 95 (95 + l)) \<le> l"
    using length_subarray_le [of data 95 "95 + l"] by simp
  then have "length (subarray data 95 (95 + l)) < 256 ^ 4"
    using readLE_less [OF reads(6)] by linarith
  ultimately show ?thesis
    using reads [THEN readLE_less] chain
    by (simp add: p posted_wf_def at_def length_subarray)
qed

text \<open>The VAA body of a posted account.\<close>

definition bodyBytes :: "postedVaaV1 \<Rightarrow> byte list" where
  "bodyBytes p = beBytes 4 (nat (pv_timestamp p)) @ beBytes 4 (nat (pv_nonce p)) @
     beBytes 2 (nat (pv_emitterChain p)) @ pv_emitterAddress p @ beBytes 8 (nat (pv_sequence p)) @
     [the (pv_consistencyLevel p)] @ pv_payload p"

lemma beBytes_1_uint: "beBytes 1 (nat (uint (c :: byte))) = [c]"
proof -
  have "beBytes 1 (nat (uint c)) = [word_of_nat (unat c mod 256)]" by simp
  also have "unat c mod 256 = unat c" using unat_byte_less [of c] by simp
  finally show ?thesis by simp
qed

lemma postedVaaBody_eq:
  assumes "posted_wf p"
  shows "postedVaaBody p = Inr (bodyBytes p)"
proof -
  obtain c where c: "pv_consistencyLevel p = Some c" using assms by (auto simp: posted_wf_def)
  have u: "0 \<le> uint c" "uint c < 256 ^ 1" using uint_bounded [of c] by simp_all
  show ?thesis
    using assms u unfolding postedVaaBody_def c option.case
    by (simp add: posted_wf_def bodyBytes_def alloc_filled writeBE_filled bufSet_filled c
        beBytes_1_uint [simplified] del: power_numeral)
qed

lemma bodyBytes_inject:
  assumes wf: "posted_wf p" "posted_wf q" and eq: "bodyBytes p = bodyBytes q"
  shows "pv_timestamp p = pv_timestamp q \<and> pv_nonce p = pv_nonce q \<and>
    pv_emitterChain p = pv_emitterChain q \<and> pv_emitterAddress p = pv_emitterAddress q \<and>
    pv_sequence p = pv_sequence q \<and> pv_consistencyLevel p = pv_consistencyLevel q \<and>
    pv_payload p = pv_payload q"
proof -
  have nat_eq: "i = j" if "beBytes n (nat i) = beBytes n (nat j)" "0 \<le> i" "i < 256 ^ n" "0 \<le> j" "j < 256 ^ n"
    for i j :: int and n
    using that by (metis beBytes_inject nat_less_256_pow eq_nat_nat_iff)
  have parts: "beBytes 4 (nat (pv_timestamp p)) = beBytes 4 (nat (pv_timestamp q))"
    "beBytes 4 (nat (pv_nonce p)) = beBytes 4 (nat (pv_nonce q))"
    "beBytes 2 (nat (pv_emitterChain p)) = beBytes 2 (nat (pv_emitterChain q))"
    "beBytes 8 (nat (pv_sequence p)) = beBytes 8 (nat (pv_sequence q))"
    and rest: "pv_emitterAddress p = pv_emitterAddress q" "pv_payload p = pv_payload q"
      "the (pv_consistencyLevel p) = the (pv_consistencyLevel q)"
    using eq wf by (simp_all add: bodyBytes_def posted_wf_def del: beBytes.simps)
  show ?thesis
    using wf rest parts [THEN nat_eq] by (auto simp: posted_wf_def)
qed

interpretation encodedAccount: codec "\<lambda>e. Inr (encodedAccountBytes e)" parseEncodedVaa encoded_wf
  by unfold_locales (simp add: parseEncoded_bytes)

section \<open>Properties\<close>

text \<open>
  C24. The account parser recovers every well-formed account of either format, and tells the formats
  apart by their discriminators: an encoded VAA gives back its fields, a posted one does when its
  emitter chain is known and is rejected when it is not; data with neither discriminator is
  rejected.
\<close>

theorem vaaAccount_parse_formats:
  "(encoded_wf e \<longrightarrow> parseVaaAccount env (encodedAccountBytes e) =
      Inr \<lparr>vc_encodedVaa = Some e, vc_postedVaaV1 = None\<rparr>) \<and>
   (posted_wf p \<longrightarrow> parseVaaAccount env (postedAccountBytes p) =
      (if isChainId env (pv_emitterChain p) then Inr \<lparr>vc_encodedVaa = None, vc_postedVaaV1 = Some p\<rparr>
       else Inl (Error ''invalid emitter chain''))) \<and>
   (subarray data 0 8 \<noteq> ENCODED_VAA_DISCRIMINATOR \<and> subarray data 0 4 \<noteq> POSTED_VAA_V1_DISCRIMINATOR \<longrightarrow>
      parseVaaAccount env data = Inl (Error ''invalid VAA account data''))"
proof (intro conjI impI)
  assume "encoded_wf e"
  then show "parseVaaAccount env (encodedAccountBytes e) = Inr \<lparr>vc_encodedVaa = Some e, vc_postedVaaV1 = None\<rparr>"
    by (simp add: parseVaaAccount_def Let_def encoded_disc parseEncoded_bytes newVaaAccount_def)
next
  assume wf: "posted_wf p"
  have "parsePostedVaaV1 env (postedAccountBytes p) = Inl (Error ''invalid emitter chain'')"
    if "\<not> isChainId env (pv_emitterChain p)"
    using that wf
    by (auto simp: parsePostedVaaV1_def postedAccountBytes_def posted_wf_def account_parts disc_lengths
      leNat_leBytes_id nat_less_256_pow Let_def simp del: power_numeral)
  then show "parseVaaAccount env (postedAccountBytes p) =
      (if isChainId env (pv_emitterChain p) then Inr \<lparr>vc_encodedVaa = None, vc_postedVaaV1 = Some p\<rparr>
       else Inl (Error ''invalid emitter chain''))"
    using posted_disc [OF wf] parsePosted_bytes [OF wf, of env]
    by (auto simp: parseVaaAccount_def Let_def newVaaAccount_def)
next
  assume "subarray data 0 8 \<noteq> ENCODED_VAA_DISCRIMINATOR \<and> subarray data 0 4 \<noteq> POSTED_VAA_V1_DISCRIMINATOR"
  moreover have "subarray (subarray data 0 8) 0 4 = subarray data 0 4" by (simp add: subarray_def)
  ultimately show "parseVaaAccount env data = Inl (Error ''invalid VAA account data'')"
    by (simp add: parseVaaAccount_def Let_def)
qed

theorem vaaAccount_parse_formats_witness:
  "\<forall>env. parseVaaAccount env (encodedAccountBytes \<lparr>ev_status = Some 2, ev_writeAuthority = replicate 32 9,
       ev_version = Some 1, ev_buf = [1, 2, 3]\<rparr>) =
     Inr \<lparr>vc_encodedVaa = Some \<lparr>ev_status = Some 2, ev_writeAuthority = replicate 32 9,
       ev_version = Some 1, ev_buf = [1, 2, 3]\<rparr>, vc_postedVaaV1 = None\<rparr> \<and>
   parseVaaAccount env [1, 2, 3] = Inl (Error ''invalid VAA account data'')"
proof
  fix env :: env
  let ?e = "\<lparr>ev_status = Some 2, ev_writeAuthority = replicate 32 9, ev_version = Some 1, ev_buf = [1, 2, 3]\<rparr>"
  have "encoded_wf ?e" by (simp add: encoded_wf_def)
  moreover have "subarray [1, 2, 3] 0 8 \<noteq> ENCODED_VAA_DISCRIMINATOR"
    "subarray [1, 2, 3] 0 4 \<noteq> POSTED_VAA_V1_DISCRIMINATOR"
    by (simp_all add: subarray_def ENCODED_VAA_DISCRIMINATOR_def POSTED_VAA_V1_DISCRIMINATOR_def)
  ultimately show "parseVaaAccount env (encodedAccountBytes ?e) = Inr \<lparr>vc_encodedVaa = Some ?e, vc_postedVaaV1 = None\<rparr> \<and>
      parseVaaAccount env [1, 2, 3] = Inl (Error ''invalid VAA account data'')"
    using vaaAccount_parse_formats [of ?e env _ "[1, 2, 3]"] by blast
qed

text \<open>
  The hash of a parsed posted VAA always exists and is the hash of the VAA body that the parsed
  fields spell out (timestamp, nonce, chain, emitter, sequence, consistency level, payload, in the
  guardians' order); with a hash function without collisions, two posted accounts with the same
  hash agree on all of these fields.
\<close>

theorem posted_vaa_hash:
  assumes "parseVaaAccount env data = Inr v" "vc_postedVaaV1 v = Some p"
  shows "vaaAccount_hash env v = Inr (keccak256 env (bodyBytes p)) \<and>
    length (bodyBytes p) = 51 + length (pv_payload p) \<and>
    (parseVaaAccount env data' = Inr v' \<and> vc_postedVaaV1 v' = Some p' \<and> inj (keccak256 env) \<and>
      vaaAccount_hash env v' = vaaAccount_hash env v \<longrightarrow>
      vaaAccount_emitterInfo env v' = vaaAccount_emitterInfo env v \<and>
      vaaAccount_timestamp env v' = vaaAccount_timestamp env v \<and>
      vaaAccount_payload env v' = vaaAccount_payload env v)"
proof -
  have posted: "posted_wf q \<and> vc_encodedVaa w = None"
    if "parseVaaAccount env d = Inr w" "vc_postedVaaV1 w = Some q" for d w q
    using that parsePosted_wf
    by (auto simp: parseVaaAccount_def Let_def bnd_eq_Inr_iff newVaaAccount_def split: if_splits)
  have hash: "vaaAccount_hash env w = Inr (keccak256 env (bodyBytes q))"
    if "parseVaaAccount env d = Inr w" "vc_postedVaaV1 w = Some q" for d w q
    using posted [OF that] that by (simp add: vaaAccount_hash_def postedVaaBody_eq)
  have "length (bodyBytes p) = 51 + length (pv_payload p)"
    using posted [OF assms] by (simp add: bodyBytes_def posted_wf_def del: beBytes.simps)
  moreover have "vaaAccount_emitterInfo env v' = vaaAccount_emitterInfo env v \<and>
      vaaAccount_timestamp env v' = vaaAccount_timestamp env v \<and>
      vaaAccount_payload env v' = vaaAccount_payload env v"
    if v': "parseVaaAccount env data' = Inr v'" "vc_postedVaaV1 v' = Some p'" and inj: "inj (keccak256 env)"
      and same: "vaaAccount_hash env v' = vaaAccount_hash env v"
  proof -
    have "bodyBytes p' = bodyBytes p"
      using hash [OF v'] hash [OF assms] same inj by (simp add: inj_eq)
    then have "pv_timestamp p' = pv_timestamp p \<and> pv_emitterChain p' = pv_emitterChain p \<and>
      pv_emitterAddress p' = pv_emitterAddress p \<and> pv_sequence p' = pv_sequence p \<and>
      pv_payload p' = pv_payload p"
      using bodyBytes_inject posted [OF assms] posted [OF v'] by blast
    then show ?thesis
      using posted [OF assms] posted [OF v'] assms v'
      by (simp add: vaaAccount_emitterInfo_def vaaAccount_timestamp_def vaaAccount_payload_def)
  qed
  ultimately show ?thesis using hash [OF assms] by blast
qed

theorem posted_vaa_hash_witness:
  "\<exists>(env :: env) data v p. parseVaaAccount env data = Inr v \<and> vc_postedVaaV1 v = Some p \<and>
     vaaAccount_hash env v = Inr (bodyBytes p) \<and> pv_payload p = [11, 12]"
proof -
  let ?p = "\<lparr>pv_consistencyLevel = Some 1, pv_timestamp = 5, pv_signatureSet = replicate 32 0,
    pv_guardianSetIndex = 0, pv_nonce = 7, pv_sequence = 9, pv_emitterChain = 2,
    pv_emitterAddress = replicate 32 3, pv_payload = [11, 12]\<rparr>"
  let ?env = "(undefined :: env)\<lparr>isChainId := \<lambda>_. True, keccak256 := \<lambda>b. b\<rparr>"
  let ?v = "\<lparr>vc_encodedVaa = None, vc_postedVaaV1 = Some ?p\<rparr>"
  have "posted_wf ?p" by (simp add: posted_wf_def)
  then have parse: "parseVaaAccount ?env (postedAccountBytes ?p) = Inr ?v"
    using posted_disc [of ?p] parsePosted_bytes [of ?p ?env]
    by (simp add: parseVaaAccount_def Let_def newVaaAccount_def)
  then have "vaaAccount_hash ?env ?v = Inr (keccak256 ?env (bodyBytes ?p))"
    using posted_vaa_hash [of ?env _ ?v ?p] by simp
  with parse show ?thesis by (intro exI [of _ ?env] exI [of _ "postedAccountBytes ?p"] exI [of _ ?v] exI [of _ ?p]) simp
qed

end
