(* ===== verification/Liquidity_Messages.thy ===== *)
theory Liquidity_Messages
  imports Chain_Env
begin

text \<open>
  \<open>solana/ts/src/common/messages\<close>: \<open>LiquidityLayerDeposit\<close> and \<open>LiquidityLayerMessage\<close>, the dispatch on
  the payload id over the layout codec (\<open>Message.deserialize\<close> and \<open>Message.serialize\<close> of the
  definitions package, which the environment supplies). The class \<open>LiquidityLayerDeposit\<close> has the one
  field \<open>message\<close> and takes whatever the codec returns, by an unchecked cast.
\<close>

definition ID_DEPOSIT :: nat where
  "ID_DEPOSIT = 1"

definition ID_DEPOSIT_FILL :: nat where
  "ID_DEPOSIT_FILL = 1"

definition ID_DEPOSIT_SLOW_ORDER_RESPONSE :: nat where
  "ID_DEPOSIT_SLOW_ORDER_RESPONSE = 2"

definition ID_FAST_MARKET_ORDER :: nat where
  "ID_FAST_MARKET_ORDER = 11"

record liquidityLayerDeposit =
  ld_message :: message

definition liquidityLayerDeposit_decode :: "env \<Rightarrow> byte list \<Rightarrow> liquidityLayerDeposit result" where
  "liquidityLayerDeposit_decode env buf =
     bnd (deserializeMessage env buf) (\<lambda>msg. Inr \<lparr>ld_message = msg\<rparr>)"

definition liquidityLayerDeposit_encode :: "env \<Rightarrow> liquidityLayerDeposit \<Rightarrow> byte list result" where
  "liquidityLayerDeposit_encode env d = serializeMessage env (ld_message d)"

record liquidityLayerMessage =
  ll_deposit :: "liquidityLayerDeposit option"
  ll_fastMarketOrder :: "fastMarketOrder option"

text \<open>
  A message of another kind has no \<open>targetChain\<close>, and \<open>isChain(undefined)\<close> is false.
\<close>

definition liquidityLayerMessage_decode :: "env \<Rightarrow> byte list \<Rightarrow> liquidityLayerMessage result" where
  "liquidityLayerMessage_decode env buf =
     bnd (readBE 1 buf 0) (\<lambda>payloadId.
     if payloadId = ID_DEPOSIT then
       bnd (liquidityLayerDeposit_decode env buf) (\<lambda>deposit.
       Inr \<lparr>ll_deposit = Some deposit, ll_fastMarketOrder = None\<rparr>)
     else if payloadId = ID_FAST_MARKET_ORDER then
       bnd (deserializeMessage env buf) (\<lambda>msg.
       case msg of
         FastMarketOrderMessage fastMarketOrder \<Rightarrow>
           if isChain env (fm_targetChain fastMarketOrder)
           then Inr \<lparr>ll_deposit = None, ll_fastMarketOrder = Some fastMarketOrder\<rparr>
           else Inl (Error ''Invalid target chain'')
       | _ \<Rightarrow> Inl (Error ''Invalid target chain''))
     else Inl (Error ''Invalid Liquidity Layer message''))"

definition liquidityLayerMessage_encode :: "env \<Rightarrow> liquidityLayerMessage \<Rightarrow> byte list result" where
  "liquidityLayerMessage_encode env m =
     (case ll_deposit m of
        Some deposit \<Rightarrow> liquidityLayerDeposit_encode env deposit
      | None \<Rightarrow>
          (case ll_fastMarketOrder m of
             Some fastMarketOrder \<Rightarrow> serializeMessage env (FastMarketOrderMessage fastMarketOrder)
           | None \<Rightarrow> Inl (Error ''Invalid Liquidity Layer message'')))"

text \<open>A decoded message has exactly one of the two parts.\<close>

lemma decode_one_part:
  assumes "liquidityLayerMessage_decode env buf = Inr m"
  shows "(ll_deposit m = None) \<noteq> (ll_fastMarketOrder m = None)"
proof -
  from assms obtain i where r: "readBE 1 buf 0 = Inr i"
    by (auto simp: liquidityLayerMessage_decode_def bnd_eq_Inr_iff)
  with assms show ?thesis
    by (cases "deserializeMessage env buf")
      (auto simp: liquidityLayerMessage_decode_def liquidityLayerDeposit_decode_def
        split: if_splits message.splits)
qed

end
