(* ===== verification/Upgrade_Manager_Base.thy ===== *)
theory Upgrade_Manager_Base
  imports Addresses
begin

text \<open>
  \<open>UpgradeManagerProgram\<close> of \<open>solana/ts/src/upgradeManager/index.ts\<close>, the part the other programs
  call: its id, its addresses and the account groups of its instructions. A program object is its
  program id as a base58 string. The instructions themselves are in \<open>Upgrade_Manager\<close>.
\<close>

definition UPGRADE_MANAGER_PROGRAM_IDS :: "string list" where
  "UPGRADE_MANAGER_PROGRAM_IDS =
     [''UpgradeManager11111111111111111111111111111'',
      ''ucdP9ktgrXgEUnn6roqD2SfdGMR2JSiWHUKv23oXwxt'',
      ''4jyJ7EEsYa72REdD8ZMBvHFTXZ4VYGQPUHaJTajsK8SN'']"

definition um_mainnet :: string where
  "um_mainnet = ''4jyJ7EEsYa72REdD8ZMBvHFTXZ4VYGQPUHaJTajsK8SN''"

definition um_testnet :: string where
  "um_testnet = ''ucdP9ktgrXgEUnn6roqD2SfdGMR2JSiWHUKv23oXwxt''"

definition um_localnet :: string where
  "um_localnet = ''UpgradeManager11111111111111111111111111111''"

definition um_ID :: "env \<Rightarrow> string \<Rightarrow> pubkey" where
  "um_ID env p = newPublicKey env p"

definition um_upgradeAuthorityAddress :: "env \<Rightarrow> string \<Rightarrow> pubkey" where
  "um_upgradeAuthorityAddress env p = findProgramAddress env [ascii ''upgrade''] (um_ID env p)"

definition um_upgradeReceiptAddress :: "env \<Rightarrow> string \<Rightarrow> pubkey \<Rightarrow> pubkey" where
  "um_upgradeReceiptAddress env p otherProgram = upgradeReceipt_address env (um_ID env p) otherProgram"

text \<open>An argument \<open>T | { address: PublicKey }\<close> of a fetching method.\<close>

datatype 'a fetchInput = AtAddress pubkey | Derived 'a

fun um_fetchUpgradeReceipt :: "env \<Rightarrow> string \<Rightarrow> pubkey fetchInput \<Rightarrow> upgradeReceipt result" where
  "um_fetchUpgradeReceipt env p (AtAddress a) = acctUpgradeReceipt env a"
| "um_fetchUpgradeReceipt env p (Derived otherProgram) =
     acctUpgradeReceipt env (um_upgradeReceiptAddress env p otherProgram)"

definition um_ownerOnlyComposite :: "env \<Rightarrow> string \<Rightarrow> pubkey \<Rightarrow> acct" where
  "um_ownerOnlyComposite env p owner =
     Group [(''owner'', Key owner), (''upgradeAuthority'', Key (um_upgradeAuthorityAddress env p))]"

definition um_requiredSysvarsComposite :: "env \<Rightarrow> acct" where
  "um_requiredSysvarsComposite env =
     Group [(''rent'', Key (sysvarRent env)), (''clock'', Key (sysvarClock env))]"

definition um_executeUpgradeComposite ::
  "env \<Rightarrow> string \<Rightarrow> pubkey \<Rightarrow> pubkey \<Rightarrow> pubkey \<Rightarrow> pubkey option \<Rightarrow> acct" where
  "um_executeUpgradeComposite env p owner program buffer inputPayer =
     Group
       [(''payer'', Key (orElse inputPayer owner)),
        (''admin'', um_ownerOnlyComposite env p owner),
        (''receipt'', Key (um_upgradeReceiptAddress env p program)),
        (''buffer'', Key buffer),
        (''programData'', Key (programDataAddress env program)),
        (''program'', Key program),
        (''bpfLoaderUpgradeableProgram'', Key (BPF_LOADER_UPGRADEABLE_PROGRAM_ID env)),
        (''systemProgram'', Key (systemProgramId env)),
        (''sysvars'', um_requiredSysvarsComposite env)]"

definition um_commitUpgradeComposite ::
  "env \<Rightarrow> string \<Rightarrow> pubkey \<Rightarrow> pubkey \<Rightarrow> pubkey option \<Rightarrow> acct" where
  "um_commitUpgradeComposite env p owner program inputRecipient =
     Group
       [(''admin'', um_ownerOnlyComposite env p owner),
        (''recipient'', Key (orElse inputRecipient owner)),
        (''receipt'', Key (um_upgradeReceiptAddress env p program)),
        (''programData'', Key (programDataAddress env program)),
        (''program'', Key program)]"

end
