(* ===== verification/Me_Program.thy ===== *)
theory Me_Program
  imports Cctp_Programs Vaa_Account Liquidity_Messages Upgrade_Manager_Base
begin

text \<open>
  \<open>MatchingEngineProgram\<close> of \<open>solana/ts/src/matchingEngine/index.ts\<close>: the program object (its id and
  mint), the addresses of its accounts, the fetching methods, the account groups (composites) that its
  instructions share, the programs it talks to, and the accounts for publishing and burning. The
  instructions are in \<open>Me_Admin\<close>, \<open>Me_Offers\<close>, \<open>Me_Settle\<close> and \<open>Me_Execute\<close>.
\<close>

section \<open>The program object\<close>

definition ME_PROGRAM_IDS :: "string list" where
  "ME_PROGRAM_IDS =
     [''MatchingEngine11111111111111111111111111111'',
      ''mPydpGUWxzERTNpyvTKdvS7v8kvw5sgwfiP8WQFrXVS'',
      ''HtkeCDdYY4i9ncAxXKjYTx8Uu3WM8JbtiLRYjtHwaVXb'']"

definition me_mainnet :: string where
  "me_mainnet = ''HtkeCDdYY4i9ncAxXKjYTx8Uu3WM8JbtiLRYjtHwaVXb''"

definition me_testnet :: string where
  "me_testnet = ''mPydpGUWxzERTNpyvTKdvS7v8kvw5sgwfiP8WQFrXVS''"

definition me_localnet :: string where
  "me_localnet = ''MatchingEngine11111111111111111111111111111''"

record meProgram =
  me_programId :: string
  me_mint :: pubkey

definition me_ID :: "env \<Rightarrow> meProgram \<Rightarrow> pubkey" where
  "me_ID env p = newPublicKey env (me_programId p)"

section \<open>Programs it talks to\<close>

definition me_upgradeManagerProgram :: "meProgram \<Rightarrow> string result" where
  "me_upgradeManagerProgram p =
     (if me_programId p = me_mainnet then Inr ''4jyJ7EEsYa72REdD8ZMBvHFTXZ4VYGQPUHaJTajsK8SN''
      else if me_programId p = me_testnet then Inr ''ucdP9ktgrXgEUnn6roqD2SfdGMR2JSiWHUKv23oXwxt''
      else if me_programId p = me_localnet then Inr ''UpgradeManager11111111111111111111111111111''
      else Inl (Error ''unsupported network''))"

definition me_tokenMessengerMinterProgram :: string where
  "me_tokenMessengerMinterProgram = newTokenMessengerMinterProgram None"

definition me_messageTransmitterProgram :: string where
  "me_messageTransmitterProgram = newMessageTransmitterProgram None"

definition me_coreBridgeProgramId :: "env \<Rightarrow> meProgram \<Rightarrow> pubkey result" where
  "me_coreBridgeProgramId env p =
     (if me_programId p = me_mainnet
      then Inr (newPublicKey env ''worm2ZoG2kUd4vFXhvjh93UUH596ayRfgQ2MgjNMTth'')
      else if me_programId p = me_testnet
      then Inr (newPublicKey env ''3u8hJUVTA4jH1wYAyUur7FFZVQ8H635K3tSHHF4ssjQ5'')
      else if me_programId p = me_localnet
      then Inr (newPublicKey env ''worm2ZoG2kUd4vFXhvjh93UUH596ayRfgQ2MgjNMTth'')
      else Inl (Error ''unsupported network''))"

section \<open>Addresses and fetched accounts\<close>

definition me_eventAuthorityAddress :: "env \<Rightarrow> meProgram \<Rightarrow> pubkey" where
  "me_eventAuthorityAddress env p = findProgramAddress env eventAuthority_seeds (me_ID env p)"

definition me_custodianAddress :: "env \<Rightarrow> meProgram \<Rightarrow> pubkey" where
  "me_custodianAddress env p = custodian_address env (me_ID env p)"

definition me_fetchCustodian :: "env \<Rightarrow> meProgram \<Rightarrow> pubkey option \<Rightarrow> me_custodian result" where
  "me_fetchCustodian env p input = acctMeCustodian env (orElse input (me_custodianAddress env p))"

definition me_auctionConfigAddress :: "env \<Rightarrow> meProgram \<Rightarrow> int \<Rightarrow> pubkey result" where
  "me_auctionConfigAddress env p id' = auctionConfig_address env (me_ID env p) id'"

fun me_fetchAuctionConfig :: "env \<Rightarrow> meProgram \<Rightarrow> int fetchInput \<Rightarrow> auctionConfig result" where
  "me_fetchAuctionConfig env p (AtAddress a) = acctAuctionConfig env a"
| "me_fetchAuctionConfig env p (Derived i) = bnd (me_auctionConfigAddress env p i) (acctAuctionConfig env)"

definition me_fetchAuctionParameters :: "env \<Rightarrow> meProgram \<Rightarrow> int option \<Rightarrow> auctionParameters result" where
  "me_fetchAuctionParameters env p id' =
     bnd (orElseM id' (bnd (me_fetchCustodian env p None) (\<lambda>c. Inr (mc_auctionConfigId c)))) (\<lambda>i.
     bnd (me_fetchAuctionConfig env p (Derived i)) (\<lambda>config. Inr (ac_parameters config)))"

definition me_cctpMintRecipientAddress :: "env \<Rightarrow> meProgram \<Rightarrow> pubkey result" where
  "me_cctpMintRecipientAddress env p = associatedTokenAddress env (me_mint p) (me_custodianAddress env p) True"

definition me_fetchCctpMintRecipient :: "env \<Rightarrow> meProgram \<Rightarrow> tokenAccount result" where
  "me_fetchCctpMintRecipient env p = bnd (me_cctpMintRecipientAddress env p) (getTokenAccount env)"

definition me_routerEndpointAddress :: "env \<Rightarrow> meProgram \<Rightarrow> int \<Rightarrow> pubkey result" where
  "me_routerEndpointAddress env p chain = routerEndpoint_address env (me_ID env p) chain"

fun me_fetchRouterEndpoint :: "env \<Rightarrow> meProgram \<Rightarrow> int fetchInput \<Rightarrow> routerEndpoint result" where
  "me_fetchRouterEndpoint env p (AtAddress a) = acctRouterEndpoint env a"
| "me_fetchRouterEndpoint env p (Derived chain) =
     bnd (me_routerEndpointAddress env p chain) (acctRouterEndpoint env)"

definition me_fetchRouterEndpointInfo :: "env \<Rightarrow> meProgram \<Rightarrow> int fetchInput \<Rightarrow> endpointInfo result" where
  "me_fetchRouterEndpointInfo env p input =
     bnd (me_fetchRouterEndpoint env p input) (\<lambda>e. Inr (re_info e))"

definition me_auctionAddress :: "env \<Rightarrow> meProgram \<Rightarrow> vaaHash \<Rightarrow> pubkey" where
  "me_auctionAddress env p vaaHash = auction_address env (me_ID env p) vaaHash"

fun me_fetchAuction :: "env \<Rightarrow> meProgram \<Rightarrow> vaaHash fetchInput \<Rightarrow> auction result" where
  "me_fetchAuction env p (AtAddress a) = acctAuction env a"
| "me_fetchAuction env p (Derived h) = acctAuction env (me_auctionAddress env p h)"

definition me_proposalAddress :: "env \<Rightarrow> meProgram \<Rightarrow> uint64 option \<Rightarrow> pubkey result" where
  "me_proposalAddress env p proposalId =
     bnd (orElseM proposalId (bnd (me_fetchCustodian env p None) (\<lambda>c. Inr (UBN (mc_nextProposalId c)))))
     (\<lambda>i. proposal_address env (me_ID env p) i)"

definition me_fetchProposal :: "env \<Rightarrow> meProgram \<Rightarrow> pubkey option \<Rightarrow> proposal result" where
  "me_fetchProposal env p input =
     bnd (orElseM input (me_proposalAddress env p None)) (acctProposal env)"

definition me_coreMessageAddress :: "env \<Rightarrow> meProgram \<Rightarrow> pubkey \<Rightarrow> pubkey" where
  "me_coreMessageAddress env p auction = coreMessageAddress env (me_ID env p) auction"

definition me_cctpMessageAddress :: "env \<Rightarrow> meProgram \<Rightarrow> pubkey \<Rightarrow> pubkey" where
  "me_cctpMessageAddress env p auction = cctpMessageAddress env (me_ID env p) auction"

definition me_reclaimCctpMessageIx :: "env \<Rightarrow> meProgram \<Rightarrow> pubkey \<Rightarrow> pubkey \<Rightarrow> byte list \<Rightarrow> instruction" where
  "me_reclaimCctpMessageIx env p payer cctpMessage cctpAttestation =
     reclaimCctpMessageIx env me_messageTransmitterProgram payer cctpMessage cctpAttestation"

definition me_preparedOrderResponseAddress :: "env \<Rightarrow> meProgram \<Rightarrow> vaaHash \<Rightarrow> pubkey" where
  "me_preparedOrderResponseAddress env p fastVaaHash =
     preparedOrderResponse_address env (me_ID env p) fastVaaHash"

fun me_fetchPreparedOrderResponse ::
  "env \<Rightarrow> meProgram \<Rightarrow> vaaHash fetchInput \<Rightarrow> preparedOrderResponse result" where
  "me_fetchPreparedOrderResponse env p (AtAddress a) = acctPreparedOrderResponse env a"
| "me_fetchPreparedOrderResponse env p (Derived h) =
     acctPreparedOrderResponse env (me_preparedOrderResponseAddress env p h)"

definition me_preparedCustodyTokenAddress :: "env \<Rightarrow> meProgram \<Rightarrow> pubkey \<Rightarrow> pubkey" where
  "me_preparedCustodyTokenAddress env p preparedOrderResponse =
     findProgramAddress env (preparedCustodyToken_seeds preparedOrderResponse) (me_ID env p)"

definition me_auctionCustodyTokenAddress :: "env \<Rightarrow> meProgram \<Rightarrow> pubkey \<Rightarrow> pubkey" where
  "me_auctionCustodyTokenAddress env p auction =
     findProgramAddress env (auctionCustodyToken_seeds auction) (me_ID env p)"

text \<open>The balances: a failing lookup counts as no tokens.\<close>

definition me_fetchAuctionCustodyTokenBalance :: "env \<Rightarrow> meProgram \<Rightarrow> pubkey \<Rightarrow> int" where
  "me_fetchAuctionCustodyTokenBalance env p auction =
     (case getTokenAccount env (me_auctionCustodyTokenAddress env p auction) of
        Inl _ \<Rightarrow> 0 | Inr token \<Rightarrow> ta_amount token)"

definition me_localCustodyTokenAddress :: "env \<Rightarrow> meProgram \<Rightarrow> int \<Rightarrow> pubkey result" where
  "me_localCustodyTokenAddress env p sourceChain =
     bnd (localCustodyToken_seeds sourceChain) (\<lambda>seeds.
     Inr (findProgramAddress env seeds (me_ID env p)))"

definition me_fetchLocalCustodyTokenBalance :: "env \<Rightarrow> meProgram \<Rightarrow> int \<Rightarrow> int result" where
  "me_fetchLocalCustodyTokenBalance env p sourceChain =
     bnd (me_localCustodyTokenAddress env p sourceChain) (\<lambda>addr.
     Inr (case getTokenAccount env addr of Inl _ \<Rightarrow> 0 | Inr token \<Rightarrow> ta_amount token))"

definition me_fastFillAddress :: "env \<Rightarrow> meProgram \<Rightarrow> int \<Rightarrow> byte list \<Rightarrow> uint64 \<Rightarrow> pubkey result" where
  "me_fastFillAddress env p sourceChain orderSender sequence =
     fastFill_address env (me_ID env p) sourceChain orderSender sequence"

fun me_fetchFastFill ::
  "env \<Rightarrow> meProgram \<Rightarrow> (int \<times> byte list \<times> uint64) fetchInput \<Rightarrow> fastFillAccount result" where
  "me_fetchFastFill env p (AtAddress a) = acctFastFill env a"
| "me_fetchFastFill env p (Derived (sourceChain, orderSender, sequence)) =
     bnd (me_fastFillAddress env p sourceChain orderSender sequence) (acctFastFill env)"

definition me_fastFillSequencerAddress :: "env \<Rightarrow> meProgram \<Rightarrow> int \<Rightarrow> byte list \<Rightarrow> pubkey result" where
  "me_fastFillSequencerAddress env p sourceChain sender =
     fastFillSequencer_address env (me_ID env p) sourceChain sender"

fun me_fetchFastFillSequencer ::
  "env \<Rightarrow> meProgram \<Rightarrow> (int \<times> byte list) fetchInput \<Rightarrow> fastFillSequencer result" where
  "me_fetchFastFillSequencer env p (AtAddress a) = acctFastFillSequencer env a"
| "me_fetchFastFillSequencer env p (Derived (sourceChain, sender)) =
     bnd (me_fastFillSequencerAddress env p sourceChain sender) (acctFastFillSequencer env)"

definition me_reservedFastFillSequenceAddress :: "env \<Rightarrow> meProgram \<Rightarrow> vaaHash \<Rightarrow> pubkey" where
  "me_reservedFastFillSequenceAddress env p fastVaaHash =
     reservedFastFillSequence_address env (me_ID env p) fastVaaHash"

fun me_fetchReservedFastFillSequence ::
  "env \<Rightarrow> meProgram \<Rightarrow> vaaHash fetchInput \<Rightarrow> reservedFastFillSequence result" where
  "me_fetchReservedFastFillSequence env p (AtAddress a) = acctReservedFastFillSequence env a"
| "me_fetchReservedFastFillSequence env p (Derived h) =
     acctReservedFastFillSequence env (me_reservedFastFillSequenceAddress env p h)"

definition me_transferAuthorityAddress :: "env \<Rightarrow> meProgram \<Rightarrow> pubkey \<Rightarrow> uint64 \<Rightarrow> pubkey result" where
  "me_transferAuthorityAddress env p auction offerPrice =
     bnd (meTransferAuthority_seeds auction offerPrice) (\<lambda>seeds.
     Inr (findProgramAddress env seeds (me_ID env p)))"

definition me_auctionHistoryAddress :: "env \<Rightarrow> meProgram \<Rightarrow> uint64 \<Rightarrow> pubkey result" where
  "me_auctionHistoryAddress env p id' = auctionHistory_address env (me_ID env p) id'"

section \<open>Composites\<close>

definition me_checkedCustodianComposite :: "env \<Rightarrow> meProgram \<Rightarrow> pubkey option \<Rightarrow> acct" where
  "me_checkedCustodianComposite env p addr =
     Group [(''custodian'', Key (orElse addr (me_custodianAddress env p)))]"

definition me_adminComposite :: "env \<Rightarrow> meProgram \<Rightarrow> pubkey \<Rightarrow> pubkey option \<Rightarrow> acct" where
  "me_adminComposite env p ownerOrAssistant custodian =
     Group [(''ownerOrAssistant'', Key ownerOrAssistant),
            (''custodian'', me_checkedCustodianComposite env p custodian)]"

definition me_adminMutComposite :: "env \<Rightarrow> meProgram \<Rightarrow> pubkey \<Rightarrow> pubkey option \<Rightarrow> acct" where
  "me_adminMutComposite env p ownerOrAssistant custodian =
     Group [(''ownerOrAssistant'', Key ownerOrAssistant),
            (''custodian'', Key (orElse custodian (me_custodianAddress env p)))]"

definition me_ownerOnlyComposite :: "env \<Rightarrow> meProgram \<Rightarrow> pubkey \<Rightarrow> pubkey option \<Rightarrow> acct" where
  "me_ownerOnlyComposite env p owner custodian =
     Group [(''owner'', Key owner), (''custodian'', me_checkedCustodianComposite env p custodian)]"

definition me_ownerOnlyMutComposite :: "env \<Rightarrow> meProgram \<Rightarrow> pubkey \<Rightarrow> pubkey option \<Rightarrow> acct" where
  "me_ownerOnlyMutComposite env p owner custodian =
     Group [(''owner'', Key owner),
            (''custodian'', Key (orElse custodian (me_custodianAddress env p)))]"

definition me_routerEndpointComposite :: "pubkey \<Rightarrow> acct" where
  "me_routerEndpointComposite addr = Group [(''endpoint'', Key addr)]"

definition me_liquidityLayerVaaComposite :: "pubkey \<Rightarrow> acct" where
  "me_liquidityLayerVaaComposite vaa = Group [(''vaa'', Key vaa)]"

definition me_usdcComposite :: "meProgram \<Rightarrow> pubkey option \<Rightarrow> acct" where
  "me_usdcComposite p mint = Group [(''mint'', Key (orElse mint (me_mint p)))]"

definition me_localTokenRouterComposite :: "env \<Rightarrow> meProgram \<Rightarrow> pubkey \<Rightarrow> acct result" where
  "me_localTokenRouterComposite env p tokenRouterProgram =
     (let tokenRouterEmitter = findProgramAddress env [ascii ''emitter''] tokenRouterProgram
      in bnd (associatedTokenAddress env (me_mint p) tokenRouterEmitter True) (\<lambda>mintRecipient.
         Inr (Group
           [(''tokenRouterProgram'', Key tokenRouterProgram),
            (''tokenRouterEmitter'', Key tokenRouterEmitter),
            (''tokenRouterMintRecipient'', Key mintRecipient)])))"

definition me_activeAuctionComposite :: "env \<Rightarrow> meProgram \<Rightarrow> pubkey \<Rightarrow> pubkey option \<Rightarrow> pubkey option \<Rightarrow>
    auctionInfo option \<Rightarrow> acct result" where
  "me_activeAuctionComposite env p auction config bestOfferToken cachedInfo =
     bnd (case (config, bestOfferToken) of
            (Some c, Some b) \<Rightarrow> Inr (c, b)
          | _ \<Rightarrow>
              bnd (orElseM cachedInfo
                    (bnd (me_fetchAuction env p (AtAddress auction)) (\<lambda>a.
                     case au_info a of
                       None \<Rightarrow> Inl (Error ''Auction info not found'')
                     | Some info \<Rightarrow> Inr info))) (\<lambda>auctionInfo.
              bnd (orElseM config (me_auctionConfigAddress env p (ai_configId auctionInfo))) (\<lambda>c.
              Inr (c, orElse bestOfferToken (ai_bestOfferToken auctionInfo)))))
     (\<lambda>(c, b). Inr (Group
       [(''custodyToken'', Key (me_auctionCustodyTokenAddress env p auction)),
        (''auction'', Key auction),
        (''config'', Key c),
        (''bestOfferToken'', Key b)]))"

definition me_closePreparedOrderResponseComposite :: "env \<Rightarrow> meProgram \<Rightarrow> pubkey \<Rightarrow> pubkey \<Rightarrow> acct" where
  "me_closePreparedOrderResponseComposite env p by' orderResponse =
     Group [(''by'', Key by'), (''orderResponse'', Key orderResponse),
            (''custodyToken'', Key (me_preparedCustodyTokenAddress env p orderResponse))]"

definition me_liveRouterPathComposite :: "pubkey \<Rightarrow> pubkey \<Rightarrow> acct" where
  "me_liveRouterPathComposite fromEndpoint toEndpoint =
     Group [(''fromEndpoint'', Group [(''endpoint'', Key fromEndpoint)]),
            (''toEndpoint'', Group [(''endpoint'', Key toEndpoint)])]"

definition me_fastOrderPathComposite :: "pubkey \<Rightarrow> pubkey \<Rightarrow> pubkey \<Rightarrow> acct" where
  "me_fastOrderPathComposite fastVaa fromEndpoint toEndpoint =
     Group [(''fastVaa'', Group [(''vaa'', Key fastVaa)]),
            (''path'', me_liveRouterPathComposite fromEndpoint toEndpoint)]"

definition me_cctpMintRecipientComposite :: "env \<Rightarrow> meProgram \<Rightarrow> acct result" where
  "me_cctpMintRecipientComposite env p =
     bnd (me_cctpMintRecipientAddress env p) (\<lambda>r. Inr (Group [(''mintRecipient'', Key r)]))"

definition me_requiredSysvarsComposite :: "env \<Rightarrow> acct" where
  "me_requiredSysvarsComposite env =
     Group [(''rent'', Key (sysvarRent env)), (''clock'', Key (sysvarClock env))]"

section \<open>Accounts for publishing, burning and redeeming\<close>

record publishMessageAccounts =
  pm_custodian :: pubkey
  pm_coreMessage :: pubkey
  pm_coreBridgeConfig :: pubkey
  pm_coreEmitterSequence :: pubkey
  pm_coreFeeCollector :: pubkey
  pm_coreBridgeProgram :: pubkey

definition me_publishMessageAccounts :: "env \<Rightarrow> meProgram \<Rightarrow> pubkey \<Rightarrow> publishMessageAccounts result" where
  "me_publishMessageAccounts env p auction =
     (let coreMessage = me_coreMessageAddress env p auction in
      bnd (me_coreBridgeProgramId env p) (\<lambda>coreBridgeProgram.
      let custodian = me_custodianAddress env p in Inr \<lparr>
        pm_custodian = custodian,
        pm_coreMessage = coreMessage,
        pm_coreBridgeConfig = findProgramAddress env [ascii ''Bridge''] coreBridgeProgram,
        pm_coreEmitterSequence = findProgramAddress env [ascii ''Sequence'', custodian] coreBridgeProgram,
        pm_coreFeeCollector = findProgramAddress env [ascii ''fee_collector''] coreBridgeProgram,
        pm_coreBridgeProgram = coreBridgeProgram\<rparr>))"

record burnAndPublishAccounts =
  bp_custodian :: pubkey
  bp_routerEndpoint :: pubkey
  bp_coreMessage :: pubkey
  bp_cctpMessage :: pubkey
  bp_coreBridgeConfig :: pubkey
  bp_coreEmitterSequence :: pubkey
  bp_coreFeeCollector :: pubkey
  bp_coreBridgeProgram :: pubkey
  bp_tokenMessengerMinterSenderAuthority :: pubkey
  bp_messageTransmitterConfig :: pubkey
  bp_tokenMessenger :: pubkey
  bp_remoteTokenMessenger :: pubkey
  bp_tokenMinter :: pubkey
  bp_localToken :: pubkey
  bp_tokenMessengerMinterEventAuthority :: pubkey
  bp_messageTransmitterProgram :: pubkey
  bp_tokenMessengerMinterProgram :: pubkey

definition me_burnAndPublishAccounts ::
  "env \<Rightarrow> meProgram \<Rightarrow> pubkey \<Rightarrow> int \<Rightarrow> int option \<Rightarrow> burnAndPublishAccounts result" where
  "me_burnAndPublishAccounts env p auction targetChain destinationCctpDomain =
     bnd (orElseM destinationCctpDomain
            (bnd (me_fetchRouterEndpointInfo env p (Derived targetChain)) (\<lambda>info.
             case ei_protocol info of
               CctpProtocol domain \<Rightarrow> Inr domain
             | _ \<Rightarrow> Inl (Error ''not CCTP endpoint'')))) (\<lambda>domain.
     let db = tmm_depositForBurnWithCallerAccounts env me_tokenMessengerMinterProgram (me_mint p) domain in
     bnd (me_publishMessageAccounts env p auction) (\<lambda>pm.
     bnd (me_routerEndpointAddress env p targetChain) (\<lambda>routerEndpoint. Inr \<lparr>
       bp_custodian = pm_custodian pm,
       bp_routerEndpoint = routerEndpoint,
       bp_coreMessage = pm_coreMessage pm,
       bp_cctpMessage = me_cctpMessageAddress env p auction,
       bp_coreBridgeConfig = pm_coreBridgeConfig pm,
       bp_coreEmitterSequence = pm_coreEmitterSequence pm,
       bp_coreFeeCollector = pm_coreFeeCollector pm,
       bp_coreBridgeProgram = pm_coreBridgeProgram pm,
       bp_tokenMessengerMinterSenderAuthority = db_senderAuthority db,
       bp_messageTransmitterConfig = db_messageTransmitterConfig db,
       bp_tokenMessenger = db_tokenMessenger db,
       bp_remoteTokenMessenger = db_remoteTokenMessenger db,
       bp_tokenMinter = db_tokenMinter db,
       bp_localToken = db_localToken db,
       bp_tokenMessengerMinterEventAuthority = db_tokenMessengerMinterEventAuthority db,
       bp_messageTransmitterProgram = db_messageTransmitterProgram db,
       bp_tokenMessengerMinterProgram = db_tokenMessengerMinterProgram db\<rparr>)))"

record redeemFastFillAccounts =
  rf_custodian :: pubkey
  rf_fromRouterEndpoint :: pubkey
  rf_toRouterEndpoint :: pubkey
  rf_localCustodyToken :: pubkey
  rf_eventAuthority :: pubkey
  rf_matchingEngineProgram :: pubkey

definition me_redeemFastFillAccounts :: "env \<Rightarrow> meProgram \<Rightarrow> pubkey \<Rightarrow> redeemFastFillAccounts result" where
  "me_redeemFastFillAccounts env p fastFill =
     bnd (me_fetchFastFill env p (AtAddress fastFill)) (\<lambda>acct.
     let sourceChain = fs_sourceChain (ff_seeds acct) in
     bnd (throwIf (\<not> isChainId env sourceChain) (Error ''invalid source chain'')) (\<lambda>_.
     bnd (me_routerEndpointAddress env p sourceChain) (\<lambda>fromEndpoint.
     bnd (toChainId env ''Solana'') (\<lambda>solana.
     bnd (me_routerEndpointAddress env p solana) (\<lambda>toEndpoint.
     bnd (me_localCustodyTokenAddress env p sourceChain) (\<lambda>localCustodyToken. Inr \<lparr>
       rf_custodian = me_custodianAddress env p,
       rf_fromRouterEndpoint = fromEndpoint,
       rf_toRouterEndpoint = toEndpoint,
       rf_localCustodyToken = localCustodyToken,
       rf_eventAuthority = me_eventAuthorityAddress env p,
       rf_matchingEngineProgram = me_ID env p\<rparr>))))))"

record matchingEngineCommonAccounts =
  mm_matchingEngineProgram :: pubkey
  mm_systemProgram :: pubkey
  mm_rent :: pubkey
  mm_clock :: pubkey
  mm_custodian :: pubkey
  mm_cctpMintRecipient :: pubkey
  mm_coreBridgeConfig :: pubkey
  mm_coreEmitterSequence :: pubkey
  mm_coreFeeCollector :: pubkey
  mm_coreBridgeProgram :: pubkey
  mm_tokenMessenger :: pubkey
  mm_tokenMinter :: pubkey
  mm_tokenMessengerMinterSenderAuthority :: pubkey
  mm_tokenMessengerMinterProgram :: pubkey
  mm_messageTransmitterAuthority :: pubkey
  mm_messageTransmitterConfig :: pubkey
  mm_messageTransmitterProgram :: pubkey
  mm_tokenProgram :: pubkey
  mm_mint :: pubkey
  mm_localToken :: pubkey
  mm_tokenMessengerMinterCustodyToken :: pubkey

definition me_commonAccounts :: "env \<Rightarrow> meProgram \<Rightarrow> matchingEngineCommonAccounts result" where
  "me_commonAccounts env p =
     bnd (me_publishMessageAccounts env p (defaultPublicKey env)) (\<lambda>pm.
     bnd (me_cctpMintRecipientAddress env p) (\<lambda>cctpMintRecipient.
     let tmm = me_tokenMessengerMinterProgram; mt = me_messageTransmitterProgram in Inr \<lparr>
       mm_matchingEngineProgram = me_ID env p,
       mm_systemProgram = systemProgramId env,
       mm_rent = sysvarRent env,
       mm_clock = sysvarClock env,
       mm_custodian = me_custodianAddress env p,
       mm_cctpMintRecipient = cctpMintRecipient,
       mm_coreBridgeConfig = pm_coreBridgeConfig pm,
       mm_coreEmitterSequence = pm_coreEmitterSequence pm,
       mm_coreFeeCollector = pm_coreFeeCollector pm,
       mm_coreBridgeProgram = pm_coreBridgeProgram pm,
       mm_tokenMessenger = tmm_tokenMessengerAddress env tmm,
       mm_tokenMinter = tmm_tokenMinterAddress env tmm,
       mm_tokenMessengerMinterSenderAuthority = tmm_senderAuthorityAddress env tmm,
       mm_tokenMessengerMinterProgram = tmm_ID env tmm,
       mm_messageTransmitterAuthority = mt_authorityAddress env mt (tmm_ID env tmm),
       mm_messageTransmitterConfig = mt_messageTransmitterConfigAddress env mt,
       mm_messageTransmitterProgram = mt_ID env mt,
       mm_tokenProgram = tokenProgramId env,
       mm_mint = me_mint p,
       mm_localToken = tmm_localTokenAddress env tmm (me_mint p),
       mm_tokenMessengerMinterCustodyToken = tmm_custodyTokenAddress env tmm (me_mint p)\<rparr>))"

section \<open>Account groups shared by the instructions\<close>

text \<open>\<open>wormhole: {...}\<close> and \<open>cctp: {...}\<close> of the instructions that burn and publish.\<close>

definition wormholeGroup :: "burnAndPublishAccounts \<Rightarrow> acct" where
  "wormholeGroup b = Group
     [(''config'', Key (bp_coreBridgeConfig b)),
      (''emitterSequence'', Key (bp_coreEmitterSequence b)),
      (''feeCollector'', Key (bp_coreFeeCollector b)),
      (''coreBridgeProgram'', Key (bp_coreBridgeProgram b))]"

definition cctpBurnGroup :: "pubkey \<Rightarrow> burnAndPublishAccounts \<Rightarrow> acct" where
  "cctpBurnGroup mint b = Group
     [(''mint'', Key mint),
      (''tokenMessengerMinterSenderAuthority'', Key (bp_tokenMessengerMinterSenderAuthority b)),
      (''messageTransmitterConfig'', Key (bp_messageTransmitterConfig b)),
      (''tokenMessenger'', Key (bp_tokenMessenger b)),
      (''remoteTokenMessenger'', Key (bp_remoteTokenMessenger b)),
      (''tokenMinter'', Key (bp_tokenMinter b)),
      (''localToken'', Key (bp_localToken b)),
      (''tokenMessengerMinterEventAuthority'', Key (bp_tokenMessengerMinterEventAuthority b)),
      (''tokenMessengerMinterProgram'', Key (bp_tokenMessengerMinterProgram b)),
      (''messageTransmitterProgram'', Key (bp_messageTransmitterProgram b))]"

text \<open>The order inside a fast VAA: \<open>LiquidityLayerMessage.decode(vaaAccount.payload())\<close>.\<close>

definition fastMarketOrderOf :: "env \<Rightarrow> vaaAccount \<Rightarrow> fastMarketOrder result" where
  "fastMarketOrderOf env v =
     bnd (vaaAccount_payload env v) (\<lambda>payload.
     bnd (liquidityLayerMessage_decode env payload) (\<lambda>m.
     case ll_fastMarketOrder m of
       None \<Rightarrow> Inl (Error ''Message not FastMarketOrder'')
     | Some order \<Rightarrow> Inr order))"

end
