(* ===== verification/Me_History.thy ===== *)
theory Me_History
  imports Me_Program
begin

text \<open>
  \<open>fetchAuctionHistory\<close> and \<open>fetchAuctionHistoryHeader\<close> of \<open>MatchingEngineProgram\<close>: the hand-written
  reader of the auction history account, and the account's Borsh encoding as the program's types define
  it (\<open>programs/matching-engine/src/state/auction_history.rs\<close>, \<open>auction.rs\<close>). The reader recovers
  histories whose entries carry no destination asset; for the others it does not.
\<close>

section \<open>The reader\<close>

definition AUCTION_HISTORY_DISCRIMINATOR :: "byte list" where
  "AUCTION_HISTORY_DISCRIMINATOR = [149, 208, 45, 154, 47, 248, 102, 245]"

text \<open>\<open>uint64ToBN(data.readBigUInt64LE(offset))\<close>.\<close>

definition readBN :: "byte list \<Rightarrow> nat \<Rightarrow> int result" where
  "readBN data offset = bnd (readLE 8 data offset) (\<lambda>v. uint64ToBN (UBigint (int v)))"

text \<open>The body of the loop: the entry at an offset, and the offset after it.\<close>

definition parseAuctionEntry :: "byte list \<Rightarrow> nat \<Rightarrow> (auctionEntry \<times> nat) result" where
  "parseAuctionEntry data offset =
     (let vaaHash = subarray data offset (offset + 32) in
      bnd (readLE 4 data (offset + 32)) (\<lambda>vaaTimestamp.
      bnd (readLE 4 data (offset + 36)) (\<lambda>configId.
      bnd (readLE 1 data (offset + 40)) (\<lambda>custodyTokenBump.
      bnd (readBN data (offset + 41)) (\<lambda>vaaSequence.
      bnd (readLE 2 data (offset + 49)) (\<lambda>sourceChain.
      let bestOfferToken = subarray data (offset + 51) (offset + 83);
          initialOfferToken = subarray data (offset + 83) (offset + 115) in
      bnd (readBN data (offset + 115)) (\<lambda>startSlot.
      bnd (readBN data (offset + 123)) (\<lambda>amountIn.
      bnd (readBN data (offset + 131)) (\<lambda>securityDeposit.
      bnd (readBN data (offset + 139)) (\<lambda>offerPrice.
      bnd (readLE 2 data (offset + 147)) (\<lambda>redeemerMessageLen.
      bnd (if at data (offset + 149) = Some 1 then
             bnd (readLE 1 data (offset + 150)) (\<lambda>bump.
             bnd (readBN data (offset + 150)) (\<lambda>amountOut.
             Inr (Some \<lparr>da_custodyTokenBump = int bump, da_amountOut = amountOut\<rparr>)))
           else Inr None) (\<lambda>destinationAssetInfo.
      Inr (\<lparr>ae_vaaHash = vaaHash, ae_vaaTimestamp = int vaaTimestamp,
             ae_info = \<lparr>
               ai_configId = int configId,
               ai_custodyTokenBump = int custodyTokenBump,
               ai_vaaSequence = vaaSequence,
               ai_sourceChain = int sourceChain,
               ai_bestOfferToken = bestOfferToken,
               ai_initialOfferToken = initialOfferToken,
               ai_startSlot = startSlot,
               ai_amountIn = amountIn,
               ai_securityDeposit = securityDeposit,
               ai_offerPrice = offerPrice,
               ai_redeemerMessageLen = int redeemerMessageLen,
               ai_destinationAssetInfo = destinationAssetInfo\<rparr>\<rparr>,
           offset + 150)))))))))))))"

fun parseAuctionEntries :: "nat \<Rightarrow> byte list \<Rightarrow> nat \<Rightarrow> auctionEntry list result" where
  "parseAuctionEntries 0 data offset = Inr []"
| "parseAuctionEntries (Suc n) data offset =
     bnd (parseAuctionEntry data offset) (\<lambda>(entry, offset').
     bnd (parseAuctionEntries n data offset') (\<lambda>entries. Inr (entry # entries)))"

definition parseAuctionHistory :: "byte list \<Rightarrow> auctionHistory result" where
  "parseAuctionHistory data =
     (if subarray data 0 8 \<noteq> AUCTION_HISTORY_DISCRIMINATOR
      then Inl (Error ''Invalid account history discriminator'')
      else
        bnd (readBN data 8) (\<lambda>id'.
        bnd (if at data 16 = Some 1 then bnd (readLE 4 data 17) (\<lambda>t. Inr (Some (int t))) else Inr None)
          (\<lambda>minTimestamp.
        bnd (if at data 21 = Some 1 then bnd (readLE 4 data 22) (\<lambda>t. Inr (Some (int t))) else Inr None)
          (\<lambda>maxTimestamp.
        bnd (readLE 4 data 26) (\<lambda>numEntries.
        bnd (parseAuctionEntries numEntries data 30) (\<lambda>entries.
        Inr \<lparr>ah_header = \<lparr>ah_id = id', ah_minTimestamp = minTimestamp, ah_maxTimestamp = maxTimestamp\<rparr>,
             ah_data = entries\<rparr>))))))"

text \<open>An argument \<open>Uint64 | { address: PublicKey }\<close>.\<close>

fun auctionHistoryInput :: "env \<Rightarrow> meProgram \<Rightarrow> uint64 fetchInput \<Rightarrow> pubkey result" where
  "auctionHistoryInput env p (AtAddress a) = Inr a"
| "auctionHistoryInput env p (Derived i) = me_auctionHistoryAddress env p i"

definition me_fetchAuctionHistory :: "env \<Rightarrow> meProgram \<Rightarrow> uint64 fetchInput \<Rightarrow> auctionHistory result" where
  "me_fetchAuctionHistory env p input =
     bnd (auctionHistoryInput env p input) (\<lambda>addr.
     bnd (getAccountInfo env addr) (\<lambda>accInfo.
     case accInfo of
       None \<Rightarrow> Inl (Error ''Auction history not found'')
     | Some data \<Rightarrow> parseAuctionHistory data))"

text \<open>The header is read from the first 30 bytes of the account (\<open>dataSlice\<close>).\<close>

definition me_fetchAuctionHistoryHeader ::
  "env \<Rightarrow> meProgram \<Rightarrow> uint64 fetchInput \<Rightarrow> (auctionHistoryHeader \<times> nat) result" where
  "me_fetchAuctionHistoryHeader env p input =
     bnd (auctionHistoryInput env p input) (\<lambda>addr.
     bnd (getAccountInfo env addr) (\<lambda>accInfo.
     case accInfo of
       None \<Rightarrow> Inl (Error ''Auction history not found'')
     | Some account \<Rightarrow>
         let data = take 30 account in
         if subarray data 0 8 \<noteq> AUCTION_HISTORY_DISCRIMINATOR
         then Inl (Error ''Invalid account history discriminator'')
         else
           bnd (readBN data 8) (\<lambda>id'.
           let hasMinTimestamp = (at data 16 = Some 1) in
           bnd (if hasMinTimestamp then bnd (readLE 4 data 17) (\<lambda>t. Inr (Some (int t))) else Inr None)
             (\<lambda>minTimestamp.
           let hasMaxTimestamp = (at data 21 = Some 1) in
           bnd (if hasMaxTimestamp then bnd (readLE 4 data 22) (\<lambda>t. Inr (Some (int t))) else Inr None)
             (\<lambda>maxTimestamp.
           bnd (readLE 4 data 26) (\<lambda>numEntries.
           Inr (\<lparr>ah_id = id', ah_minTimestamp = minTimestamp, ah_maxTimestamp = maxTimestamp\<rparr>, numEntries)))))))"

section \<open>The header and the history agree\<close>

lemma readLE_take: "off + n \<le> k \<Longrightarrow> k \<le> length b \<Longrightarrow> readLE n (take k b) off = readLE n b off"
  by (simp add: readLE_def min_def flip: take_drop) (simp add: drop_take min_def)

lemma readBN_take: "off + 8 \<le> k \<Longrightarrow> k \<le> length b \<Longrightarrow> readBN (take k b) off = readBN b off"
  by (simp add: readBN_def readLE_take)

lemma at_take: "i < k \<Longrightarrow> at (take k b) i = at b i"
  by (simp add: at_def)

lemma subarray_take: "j \<le> k \<Longrightarrow> subarray (take k b) i j = subarray b i j"
  by (simp add: subarray_def drop_take min_def)

lemma readLE_defined: "readLE n b off = Inr v \<Longrightarrow> off + n \<le> length b"
  by (auto simp: readLE_def split: if_splits)

lemma length_parseAuctionEntries: "parseAuctionEntries n data off = Inr es \<Longrightarrow> length es = n"
  by (induction n data off arbitrary: es rule: parseAuctionEntries.induct) (auto simp: bnd_eq_Inr_iff)

text \<open>
  The header read from the first 30 bytes is the header of the whole history: whenever the full
  reader succeeds, the header reader returns the same id and timestamps together with the number of
  the entries that the full reader returns.
\<close>

theorem auction_history_header_agrees:
  assumes "me_fetchAuctionHistory env p input = Inr h"
  shows "me_fetchAuctionHistoryHeader env p input = Inr (ah_header h, length (ah_data h))"
proof -
  from assms obtain addr data where inp: "auctionHistoryInput env p input = Inr addr"
      "getAccountInfo env addr = Inr (Some data)" and parse: "parseAuctionHistory data = Inr h"
    by (auto simp: me_fetchAuctionHistory_def bnd_eq_Inr_iff split: option.splits)
  from parse obtain n where n: "readLE 4 data 26 = Inr n"
    by (auto simp: parseAuctionHistory_def bnd_eq_Inr_iff split: if_splits)
  then have len: "30 \<le> length data" using readLE_defined by fastforce
  show ?thesis
    using parse inp len
    by (auto simp: parseAuctionHistory_def me_fetchAuctionHistoryHeader_def bnd_eq_Inr_iff readLE_take
        readBN_take at_take subarray_take Let_def split: if_splits dest: length_parseAuctionEntries)
qed

section \<open>The account's encoding\<close>

text \<open>Borsh: little-endian integers, a tag byte before an optional value, a length before a vector.\<close>

definition optBytes :: "('a \<Rightarrow> byte list) \<Rightarrow> 'a option \<Rightarrow> byte list" where
  "optBytes f x = (case x of None \<Rightarrow> [0] | Some v \<Rightarrow> 1 # f v)"

definition destinationAssetBytes :: "auctionDestinationAssetInfo \<Rightarrow> byte list" where
  "destinationAssetBytes d = leBytes 1 (nat (da_custodyTokenBump d)) @ leBytes 8 (nat (da_amountOut d))"

definition auctionEntryPrefix :: "auctionEntry \<Rightarrow> byte list" where
  "auctionEntryPrefix e = (let i = ae_info e in
     ae_vaaHash e @ leBytes 4 (nat (ae_vaaTimestamp e)) @ leBytes 4 (nat (ai_configId i)) @
     leBytes 1 (nat (ai_custodyTokenBump i)) @ leBytes 8 (nat (ai_vaaSequence i)) @
     leBytes 2 (nat (ai_sourceChain i)) @ ai_bestOfferToken i @ ai_initialOfferToken i @
     leBytes 8 (nat (ai_startSlot i)) @ leBytes 8 (nat (ai_amountIn i)) @
     leBytes 8 (nat (ai_securityDeposit i)) @ leBytes 8 (nat (ai_offerPrice i)) @
     leBytes 2 (nat (ai_redeemerMessageLen i)))"

definition auctionEntryBytes :: "auctionEntry \<Rightarrow> byte list" where
  "auctionEntryBytes e =
     auctionEntryPrefix e @ optBytes destinationAssetBytes (ai_destinationAssetInfo (ae_info e))"

definition fits :: "nat \<Rightarrow> int \<Rightarrow> bool" where
  "fits n v \<longleftrightarrow> 0 \<le> v \<and> v < 256 ^ n"

definition auctionEntry_wf :: "auctionEntry \<Rightarrow> bool" where
  "auctionEntry_wf e \<longleftrightarrow> (let i = ae_info e in
     length (ae_vaaHash e) = 32 \<and> fits 4 (ae_vaaTimestamp e) \<and> fits 4 (ai_configId i) \<and>
     fits 1 (ai_custodyTokenBump i) \<and> fits 8 (ai_vaaSequence i) \<and> fits 2 (ai_sourceChain i) \<and>
     length (ai_bestOfferToken i) = 32 \<and> length (ai_initialOfferToken i) = 32 \<and>
     fits 8 (ai_startSlot i) \<and> fits 8 (ai_amountIn i) \<and> fits 8 (ai_securityDeposit i) \<and>
     fits 8 (ai_offerPrice i) \<and> fits 2 (ai_redeemerMessageLen i) \<and>
     (\<forall>d. ai_destinationAssetInfo i = Some d \<longrightarrow> fits 1 (da_custodyTokenBump d) \<and> fits 8 (da_amountOut d)))"

text \<open>A history with entries has both timestamps; a new one has neither, and zeros follow it.\<close>

definition auctionHistoryBytes :: "auctionHistory \<Rightarrow> byte list" where
  "auctionHistoryBytes h = AUCTION_HISTORY_DISCRIMINATOR @ leBytes 8 (nat (ah_id (ah_header h))) @
     optBytes (\<lambda>t. leBytes 4 (nat t)) (ah_minTimestamp (ah_header h)) @
     optBytes (\<lambda>t. leBytes 4 (nat t)) (ah_maxTimestamp (ah_header h)) @
     leBytes 4 (length (ah_data h)) @ concat (map auctionEntryBytes (ah_data h)) @
     (if ah_data h = [] then replicate 8 0 else [])"

definition auctionHistory_wf :: "auctionHistory \<Rightarrow> bool" where
  "auctionHistory_wf h \<longleftrightarrow> fits 8 (ah_id (ah_header h)) \<and>
     (\<forall>e\<in>set (ah_data h). auctionEntry_wf e) \<and> length (ah_data h) < 256 ^ 4 \<and>
     (if ah_data h = [] then ah_minTimestamp (ah_header h) = None \<and> ah_maxTimestamp (ah_header h) = None
      else (\<exists>a b. ah_minTimestamp (ah_header h) = Some a \<and> ah_maxTimestamp (ah_header h) = Some b \<and>
        fits 4 a \<and> fits 4 b))"

subsection \<open>Reading at an offset\<close>

lemma readBN_eq: "readBN b off = map_sum id int (readLE 8 b off)"
proof (cases "readLE 8 b off")
  case (Inr v)
  then have "v < 256 ^ 8" by (rule readLE_less)
  then have "uint64ToBN (UBigint (int v)) = Inr (int v)"
    by (simp add: uint64ToBN_eq_Inr)
  with Inr show ?thesis by (simp add: readBN_def)
qed (simp add: readBN_def)

lemma readLE_at_off: "readLE n (pre @ b) (length pre + k) = readLE n b k"
  by (simp add: readLE_Cons_part)

lemma subarray_at_off: "i \<le> j \<Longrightarrow> subarray (pre @ b) (length pre + i) (length pre + j) = subarray b i j"
  by (simp add: subarray_Cons_part)

lemma at_at_off: "at (pre @ b) (length pre + k) = at b k"
  by (simp add: at_skip)

definition advanceEntry :: "nat \<Rightarrow> auctionEntry \<times> nat \<Rightarrow> auctionEntry \<times> nat" where
  "advanceEntry k r = (fst r, k + snd r)"

lemma map_sum_bnd: "map_sum id g (bnd m f) = bnd m (\<lambda>x. map_sum id g (f x))"
  by (cases m) simp_all

lemma parseAuctionEntry_shift:
  "parseAuctionEntry (pre @ b) (length pre) = map_sum id (advanceEntry (length pre)) (parseAuctionEntry b 0)"
  by (simp add: parseAuctionEntry_def Let_def map_sum_bnd readBN_eq readLE_at_off at_at_off
      subarray_at_off [where i = 0, simplified] subarray_at_off advanceEntry_def)

lemma length_auctionEntryPrefix: "auctionEntry_wf e \<Longrightarrow> length (auctionEntryPrefix e) = 149"
  by (simp add: auctionEntryPrefix_def auctionEntry_wf_def Let_def)

lemma leNat_leBytes_byte: "0 \<le> v \<Longrightarrow> v < 256 \<Longrightarrow> leNat (leBytes (Suc 0) (nat v)) = nat v"
  using leNat_leBytes_id [of "nat v" 1] by (simp add: nat_less_iff)

lemma auctionEntry_update:
  "e\<lparr>ae_info := (ae_info e)\<lparr>ai_destinationAssetInfo := d\<rparr>\<rparr> =
    \<lparr>ae_vaaHash = ae_vaaHash e, ae_vaaTimestamp = ae_vaaTimestamp e, ae_info = \<lparr>
      ai_configId = ai_configId (ae_info e),
      ai_custodyTokenBump = ai_custodyTokenBump (ae_info e),
      ai_vaaSequence = ai_vaaSequence (ae_info e),
      ai_sourceChain = ai_sourceChain (ae_info e),
      ai_bestOfferToken = ai_bestOfferToken (ae_info e),
      ai_initialOfferToken = ai_initialOfferToken (ae_info e),
      ai_startSlot = ai_startSlot (ae_info e),
      ai_amountIn = ai_amountIn (ae_info e),
      ai_securityDeposit = ai_securityDeposit (ae_info e),
      ai_offerPrice = ai_offerPrice (ae_info e),
      ai_redeemerMessageLen = ai_redeemerMessageLen (ae_info e),
      ai_destinationAssetInfo = d\<rparr>\<rparr>"
  by (cases e; cases "ae_info e") simp

text \<open>The fixed part of an entry is read back; the optional part is what the bytes at 149 say.\<close>

lemma parseAuctionEntry_prefix:
  assumes "auctionEntry_wf e"
  shows "parseAuctionEntry (auctionEntryPrefix e @ tail) 0 =
    bnd (if at tail 0 = Some 1 then
           bnd (readLE 1 tail 1) (\<lambda>bump. bnd (readBN tail 1) (\<lambda>amountOut.
           Inr (Some \<lparr>da_custodyTokenBump = int bump, da_amountOut = amountOut\<rparr>)))
         else Inr None) (\<lambda>d.
    Inr (e\<lparr>ae_info := (ae_info e)\<lparr>ai_destinationAssetInfo := d\<rparr>\<rparr>, 150))"
proof -
  have tail: "readLE n (auctionEntryPrefix e @ tail) (149 + k) = readLE n tail k"
    "at (auctionEntryPrefix e @ tail) (149 + k) = at tail k" for n k
    using readLE_at_off [of n "auctionEntryPrefix e" tail k] at_at_off [of "auctionEntryPrefix e" tail k]
      length_auctionEntryPrefix [OF assms] by simp_all
  have parts: "readLE 4 (auctionEntryPrefix e @ tail) 32 = Inr (nat (ae_vaaTimestamp e))"
    "readLE 4 (auctionEntryPrefix e @ tail) 36 = Inr (nat (ai_configId (ae_info e)))"
    "readLE 1 (auctionEntryPrefix e @ tail) 40 = Inr (nat (ai_custodyTokenBump (ae_info e)))"
    "readLE 8 (auctionEntryPrefix e @ tail) 41 = Inr (nat (ai_vaaSequence (ae_info e)))"
    "readLE 2 (auctionEntryPrefix e @ tail) 49 = Inr (nat (ai_sourceChain (ae_info e)))"
    "readLE 8 (auctionEntryPrefix e @ tail) 115 = Inr (nat (ai_startSlot (ae_info e)))"
    "readLE 8 (auctionEntryPrefix e @ tail) 123 = Inr (nat (ai_amountIn (ae_info e)))"
    "readLE 8 (auctionEntryPrefix e @ tail) 131 = Inr (nat (ai_securityDeposit (ae_info e)))"
    "readLE 8 (auctionEntryPrefix e @ tail) 139 = Inr (nat (ai_offerPrice (ae_info e)))"
    "readLE 2 (auctionEntryPrefix e @ tail) 147 = Inr (nat (ai_redeemerMessageLen (ae_info e)))"
    "subarray (auctionEntryPrefix e @ tail) 0 32 = ae_vaaHash e"
    "subarray (auctionEntryPrefix e @ tail) 51 83 = ai_bestOfferToken (ae_info e)"
    "subarray (auctionEntryPrefix e @ tail) 83 115 = ai_initialOfferToken (ae_info e)"
    using assms
    by (simp_all add: auctionEntryPrefix_def auctionEntry_wf_def Let_def read_parts fits_def leNat_leBytes_id
        leNat_leBytes_byte nat_less_256_pow del: power_numeral)
  have ids: "0 \<le> v \<Longrightarrow> int (nat v) = v" for v by simp
  show ?thesis
    using assms tail(1) [of _ 0] tail(1) [of _ 1] tail(2) [of 0]
    by (auto simp: parseAuctionEntry_def readBN_eq parts Let_def auctionEntry_wf_def fits_def ids
        auctionEntry_update simp del: One_nat_def)
qed

lemma parseAuctionEntry_none:
  assumes "auctionEntry_wf e" "ai_destinationAssetInfo (ae_info e) = None"
  shows "parseAuctionEntry (pre @ auctionEntryBytes e @ rest) (length pre) =
    Inr (e, length pre + length (auctionEntryBytes e))"
proof -
  have "e\<lparr>ae_info := (ae_info e)\<lparr>ai_destinationAssetInfo := None\<rparr>\<rparr> = e"
    using assms(2) by (cases e; cases "ae_info e") simp
  then have "parseAuctionEntry (auctionEntryPrefix e @ 0 # rest) 0 = Inr (e, 150)"
    using parseAuctionEntry_prefix [OF assms(1), of "0 # rest"] by (simp add: at_def)
  then show ?thesis
    using assms(2) length_auctionEntryPrefix [OF assms(1)]
    by (simp add: parseAuctionEntry_shift auctionEntryBytes_def optBytes_def advanceEntry_def)
qed

lemma parseAuctionEntries_none:
  "\<forall>e\<in>set es. auctionEntry_wf e \<and> ai_destinationAssetInfo (ae_info e) = None \<Longrightarrow>
   parseAuctionEntries (length es) (pre @ concat (map auctionEntryBytes es) @ rest) (length pre) = Inr es"
proof (induction es arbitrary: pre)
  case (Cons e es)
  then have "parseAuctionEntry (pre @ auctionEntryBytes e @ concat (map auctionEntryBytes es) @ rest) (length pre) =
      Inr (e, length pre + length (auctionEntryBytes e))"
    by (intro parseAuctionEntry_none) simp_all
  moreover have "parseAuctionEntries (length es)
      ((pre @ auctionEntryBytes e) @ concat (map auctionEntryBytes es) @ rest) (length (pre @ auctionEntryBytes e)) = Inr es"
    using Cons by (intro Cons.IH) simp
  ultimately show ?case by simp
qed simp

lemma leNat_zeros [simp]: "leNat (replicate n 0) = 0"
  by (induction n) simp_all

lemma readLE_zeros: "off + n \<le> m \<Longrightarrow> readLE n (replicate m 0) off = Inr 0"
  by (simp add: readLE_def min_def)

lemma at_zeros: "i < m \<Longrightarrow> at (replicate m 0) i = Some 0"
  by (simp add: at_def)

lemma leBytes_zero: "leBytes n 0 = replicate n 0"
  by (induction n) (simp_all add: leBytes_Suc)

lemma take_leBytes: "take k (leBytes (k + m) n) = leBytes k n"
  by (induction k arbitrary: n) (simp_all add: leBytes_Suc)

text \<open>The header as the reader sees it: 30 bytes, whether the timestamps are there or not.\<close>

lemma history_head:
  assumes "auctionHistory_wf h"
  shows "\<exists>pre rest. auctionHistoryBytes h = pre @ concat (map auctionEntryBytes (ah_data h)) @ rest \<and>
    length pre = 30 \<and> parseAuctionHistory (auctionHistoryBytes h) =
      bnd (parseAuctionEntries (length (ah_data h)) (auctionHistoryBytes h) 30) (\<lambda>entries.
      Inr \<lparr>ah_header = ah_header h, ah_data = entries\<rparr>)"
proof -
  have disc: "length AUCTION_HISTORY_DISCRIMINATOR = 8" by (simp add: AUCTION_HISTORY_DISCRIMINATOR_def)
  show ?thesis
  proof (cases "ah_data h = []")
    case True
    let ?id = "leBytes 8 (nat (ah_id (ah_header h)))"
    have "replicate 14 (0 :: byte) = 0 # 0 # replicate 4 0 @ replicate 8 0"
      by (simp flip: replicate_add replicate_Suc)
    then have b: "auctionHistoryBytes h = AUCTION_HISTORY_DISCRIMINATOR @ ?id @ replicate 14 0"
      using assms True
      by (simp add: auctionHistoryBytes_def auctionHistory_wf_def optBytes_def leBytes_zero)
    have fit: "fits 8 (ah_id (ah_header h))" and none: "ah_minTimestamp (ah_header h) = None"
      "ah_maxTimestamp (ah_header h) = None"
      using assms True by (simp_all add: auctionHistory_wf_def)
    have parts: "subarray (auctionHistoryBytes h) 0 8 = AUCTION_HISTORY_DISCRIMINATOR"
      "readLE 8 (auctionHistoryBytes h) 8 = Inr (nat (ah_id (ah_header h)))"
      "at (auctionHistoryBytes h) 16 = Some 0" "at (auctionHistoryBytes h) 21 = Some 0"
      "readLE 4 (auctionHistoryBytes h) 26 = Inr 0"
      unfolding b using fit
      by (simp_all add: account_parts disc fits_def leNat_leBytes_id nat_less_256_pow readLE_zeros at_zeros
          del: power_numeral)
    have "ah_header h = \<lparr>ah_id = ah_id (ah_header h), ah_minTimestamp = None, ah_maxTimestamp = None\<rparr>"
      using none by (cases "ah_header h") simp
    with fit have "parseAuctionHistory (auctionHistoryBytes h) = Inr \<lparr>ah_header = ah_header h, ah_data = []\<rparr>"
      by (simp add: parseAuctionHistory_def readBN_eq parts fits_def)
    with True b disc show ?thesis
      by (intro exI [of _ "auctionHistoryBytes h"] exI [of _ "[]"]) simp
  next
    case False
    then obtain a c where ts: "ah_minTimestamp (ah_header h) = Some a" "ah_maxTimestamp (ah_header h) = Some c"
      and fit: "fits 4 a" "fits 4 c" "fits 8 (ah_id (ah_header h))" "length (ah_data h) < 256 ^ 4"
      using assms by (auto simp: auctionHistory_wf_def)
    let ?pre = "AUCTION_HISTORY_DISCRIMINATOR @ leBytes 8 (nat (ah_id (ah_header h))) @ 1 # leBytes 4 (nat a) @
      1 # leBytes 4 (nat c) @ leBytes 4 (length (ah_data h))"
    have b: "auctionHistoryBytes h = ?pre @ concat (map auctionEntryBytes (ah_data h)) @ []"
      using False ts by (simp add: auctionHistoryBytes_def optBytes_def)
    have parts: "subarray (auctionHistoryBytes h) 0 8 = AUCTION_HISTORY_DISCRIMINATOR"
      "readLE 8 (auctionHistoryBytes h) 8 = Inr (nat (ah_id (ah_header h)))"
      "at (auctionHistoryBytes h) 16 = Some 1" "readLE 4 (auctionHistoryBytes h) 17 = Inr (nat a)"
      "at (auctionHistoryBytes h) 21 = Some 1" "readLE 4 (auctionHistoryBytes h) 22 = Inr (nat c)"
      "readLE 4 (auctionHistoryBytes h) 26 = Inr (length (ah_data h))"
      unfolding b using fit
      by (simp_all add: account_parts disc fits_def leNat_leBytes_id nat_less_256_pow del: power_numeral)
    have "ah_header h = \<lparr>ah_id = ah_id (ah_header h), ah_minTimestamp = Some a, ah_maxTimestamp = Some c\<rparr>"
      using ts by (cases "ah_header h") simp
    with fit have "parseAuctionHistory (auctionHistoryBytes h) =
      bnd (parseAuctionEntries (length (ah_data h)) (auctionHistoryBytes h) 30) (\<lambda>entries.
      Inr \<lparr>ah_header = ah_header h, ah_data = entries\<rparr>)"
      by (simp add: parseAuctionHistory_def readBN_eq parts fits_def)
    with b disc show ?thesis by (intro exI [of _ ?pre] exI [of _ "[]"]) simp
  qed
qed

text \<open>
  C25. The hand-written reader recovers the history: for every well-formed history account of which no
  entry has a destination asset (one entry or many, or a new account without timestamps), fetching it
  returns exactly that history.
\<close>

theorem auction_history_read_back:
  assumes "auctionHistory_wf h" "\<forall>e\<in>set (ah_data h). ai_destinationAssetInfo (ae_info e) = None"
    and "getAccountInfo env addr = Inr (Some (auctionHistoryBytes h))"
  shows "me_fetchAuctionHistory env p (AtAddress addr) = Inr h"
proof -
  obtain pre rest where b: "auctionHistoryBytes h = pre @ concat (map auctionEntryBytes (ah_data h)) @ rest"
    and len: "length pre = 30" and parse: "parseAuctionHistory (auctionHistoryBytes h) =
      bnd (parseAuctionEntries (length (ah_data h)) (auctionHistoryBytes h) 30) (\<lambda>entries.
      Inr \<lparr>ah_header = ah_header h, ah_data = entries\<rparr>)"
    using history_head [OF assms(1)] by blast
  have "\<forall>e\<in>set (ah_data h). auctionEntry_wf e \<and> ai_destinationAssetInfo (ae_info e) = None"
    using assms by (simp add: auctionHistory_wf_def)
  then have "parseAuctionEntries (length (ah_data h)) (auctionHistoryBytes h) 30 = Inr (ah_data h)"
    using parseAuctionEntries_none [of "ah_data h" pre rest] b len by simp
  with parse assms(3) show ?thesis by (simp add: me_fetchAuctionHistory_def)
qed

definition demoEntry :: "auctionDestinationAssetInfo option \<Rightarrow> auctionEntry" where
  "demoEntry d = \<lparr>ae_vaaHash = replicate 32 7, ae_vaaTimestamp = 77, ae_info = \<lparr>
     ai_configId = 1, ai_custodyTokenBump = 254, ai_vaaSequence = 5, ai_sourceChain = 2,
     ai_bestOfferToken = replicate 32 8, ai_initialOfferToken = replicate 32 9,
     ai_startSlot = 1000, ai_amountIn = 500, ai_securityDeposit = 50, ai_offerPrice = 3,
     ai_redeemerMessageLen = 12, ai_destinationAssetInfo = d\<rparr>\<rparr>"

definition demoHistory :: auctionHistory where
  "demoHistory = \<lparr>ah_header = \<lparr>ah_id = 3, ah_minTimestamp = Some 70, ah_maxTimestamp = Some 80\<rparr>,
     ah_data = [demoEntry None, demoEntry None]\<rparr>"

lemma demoHistory_wf: "auctionHistory_wf demoHistory"
  by (simp add: auctionHistory_wf_def demoHistory_def demoEntry_def auctionEntry_wf_def fits_def)

theorem auction_history_read_back_witness:
  "\<forall>env p. me_fetchAuctionHistory (env\<lparr>getAccountInfo := \<lambda>_. Inr (Some (auctionHistoryBytes demoHistory))\<rparr>) p
     (AtAddress []) = Inr demoHistory"
  by (intro allI auction_history_read_back demoHistory_wf)
    (simp_all add: demoHistory_def demoEntry_def)

theorem auction_history_header_agrees_witness:
  "\<forall>env p. me_fetchAuctionHistoryHeader
     (env\<lparr>getAccountInfo := \<lambda>_. Inr (Some (auctionHistoryBytes demoHistory))\<rparr>) p (AtAddress []) =
     Inr (ah_header demoHistory, 2)"
proof (intro allI)
  fix env :: env and p
  let ?env = "env\<lparr>getAccountInfo := \<lambda>_. Inr (Some (auctionHistoryBytes demoHistory))\<rparr>"
  have "parseAuctionHistory (auctionHistoryBytes demoHistory) = Inr demoHistory"
  proof -
    obtain pre rest where b: "auctionHistoryBytes demoHistory =
        pre @ concat (map auctionEntryBytes (ah_data demoHistory)) @ rest"
      and len: "length pre = 30" and parse: "parseAuctionHistory (auctionHistoryBytes demoHistory) =
        bnd (parseAuctionEntries (length (ah_data demoHistory)) (auctionHistoryBytes demoHistory) 30) (\<lambda>entries.
        Inr \<lparr>ah_header = ah_header demoHistory, ah_data = entries\<rparr>)"
      using history_head [OF demoHistory_wf] by blast
    have "parseAuctionEntries (length (ah_data demoHistory)) (auctionHistoryBytes demoHistory) 30 =
        Inr (ah_data demoHistory)"
      using parseAuctionEntries_none [of "ah_data demoHistory" pre rest] b len demoHistory_wf
      by (simp add: auctionHistory_wf_def) (simp add: demoHistory_def demoEntry_def)
    with parse show ?thesis by simp
  qed
  then have "me_fetchAuctionHistory ?env p (AtAddress []) = Inr demoHistory"
    by (simp add: me_fetchAuctionHistory_def)
  from auction_history_header_agrees [OF this]
  show "me_fetchAuctionHistoryHeader ?env p (AtAddress []) = Inr (ah_header demoHistory, 2)"
    by (simp add: demoHistory_def)
qed

text \<open>
  The reader misreads a destination asset: for every well-formed entry that has one, it takes the
  amount out from the offset of the bump, so that the amount is the bump plus 256 times the low seven
  bytes of the real amount, and it continues nine bytes before the end of the entry.
\<close>

theorem auction_entry_destination_asset_misread:
  assumes "auctionEntry_wf e" "ai_destinationAssetInfo (ae_info e) = Some d"
  shows "\<exists>e'. parseAuctionEntry (auctionEntryBytes e) 0 = Inr (e', length (auctionEntryBytes e) - 9) \<and>
    ai_destinationAssetInfo (ae_info e') = Some \<lparr>da_custodyTokenBump = da_custodyTokenBump d,
      da_amountOut = da_custodyTokenBump d + 256 * (da_amountOut d mod 256 ^ 7)\<rparr>"
proof -
  have fit: "fits 1 (da_custodyTokenBump d)" "fits 8 (da_amountOut d)"
    using assms by (auto simp: auctionEntry_wf_def Let_def)
  let ?tail = "1 # destinationAssetBytes d"
  have bytes: "auctionEntryBytes e = auctionEntryPrefix e @ ?tail"
    using assms(2) by (simp add: auctionEntryBytes_def optBytes_def)
  have len: "length (auctionEntryBytes e) = 159"
    using length_auctionEntryPrefix [OF assms(1)] by (simp add: bytes destinationAssetBytes_def)
  have bump: "readLE 1 ?tail 1 = Inr (nat (da_custodyTokenBump d))"
    using fit by (simp add: destinationAssetBytes_def account_parts fits_def leNat_leBytes_byte)
  have take: "take 7 (leBytes 8 n) = leBytes 7 n" for n
    using take_leBytes [of 7 1 n] by simp
  have "leNat (take 8 (destinationAssetBytes d)) = nat (da_custodyTokenBump d) + 256 * leNat (leBytes 7 (nat (da_amountOut d)))"
    using fit leNat_leBytes_byte [of "da_custodyTokenBump d"]
    by (simp add: destinationAssetBytes_def leBytes_Suc [of 0] fits_def take)
  then have "readLE 8 ?tail 1 = Inr (nat (da_custodyTokenBump d) + 256 * (nat (da_amountOut d) mod 256 ^ 7))"
    by (simp add: readLE_def destinationAssetBytes_def leNat_leBytes)
  moreover have "int (nat (da_amountOut d) mod 256 ^ 7) = da_amountOut d mod 256 ^ 7"
    using fit by (simp add: fits_def zmod_int)
  ultimately have amount: "readBN ?tail 1 = Inr (da_custodyTokenBump d + 256 * (da_amountOut d mod 256 ^ 7))"
    using fit by (simp add: readBN_eq fits_def)
  have "at ?tail 0 = Some 1" by (simp add: at_def)
  then show ?thesis
    using parseAuctionEntry_prefix [OF assms(1), of ?tail] bump amount fit len
    by (simp add: bytes fits_def)
qed

theorem auction_entry_destination_asset_misread_witness:
  "\<exists>e'. parseAuctionEntry (auctionEntryBytes (demoEntry (Some \<lparr>da_custodyTokenBump = 255, da_amountOut = 1\<rparr>))) 0 =
      Inr (e', 150) \<and> ai_destinationAssetInfo (ae_info e') = Some \<lparr>da_custodyTokenBump = 255, da_amountOut = 511\<rparr>"
proof -
  let ?d = "\<lparr>da_custodyTokenBump = 255, da_amountOut = 1\<rparr>"
  have wf: "auctionEntry_wf (demoEntry (Some ?d))"
    by (simp add: demoEntry_def auctionEntry_wf_def fits_def)
  have "length (auctionEntryBytes (demoEntry (Some ?d))) = 159"
    using length_auctionEntryPrefix [OF wf]
    by (simp add: auctionEntryBytes_def optBytes_def destinationAssetBytes_def demoEntry_def)
  then show ?thesis
    using auction_entry_destination_asset_misread [OF wf, of ?d] by (simp add: demoEntry_def)
qed

end
