(* ===== verification/Me_Fees.thy ===== *)
theory Me_Fees
  imports Me_Program
begin

text \<open>
  The auction arithmetic of \<open>MatchingEngineProgram\<close> (\<open>computeDepositPenalty\<close>, \<open>computeMinOfferDelta\<close>,
  \<open>computeNotionalSecurityDeposit\<close>), on unbounded integers, and the arithmetic of the program on chain
  that it predicts (\<open>programs/matching-engine/src/utils/auction.rs\<close>), on 64-bit integers with
  saturation. The off-chain amounts are those of the program, for every parameter set the program
  accepts.
\<close>

section \<open>Off chain\<close>

definition FEE_PRECISION_MAX :: int where
  "FEE_PRECISION_MAX = 1000000"

text \<open>Division of two bigints: truncated, and it throws for a zero divisor.\<close>

definition bigDiv :: "int \<Rightarrow> int \<Rightarrow> int result" where
  "bigDiv a b = (if b = 0 then Inl RangeError else Inr (a sdiv b))"

definition me_computeDepositPenalty ::
  "env \<Rightarrow> meProgram \<Rightarrow> auctionInfo \<Rightarrow> uint64 \<Rightarrow> int option \<Rightarrow> (int \<times> int) result" where
  "me_computeDepositPenalty env p auctionInfo currentSlot configId =
     bnd (me_fetchAuctionParameters env p configId) (\<lambda>auctionParams.
     let gracePeriod = ap_gracePeriod auctionParams in
     bnd (uint64ToBigInt currentSlot) (\<lambda>slot.
     bnd (uint64ToBigInt (UBN (ai_startSlot auctionInfo))) (\<lambda>startSlot.
     let slotsElapsed = slot - startSlot - ap_duration auctionParams in
     if slotsElapsed \<le> gracePeriod then Inr (0, 0)
     else
       bnd (uint64ToBigInt (UBN (ai_securityDeposit auctionInfo))) (\<lambda>amount.
       let penaltyPeriod = slotsElapsed - gracePeriod;
           auctionPenaltySlots = ap_penaltyPeriod auctionParams;
           initialPenaltyBps = ap_initialPenaltyBps auctionParams;
           userPenaltyRewardBps = ap_userPenaltyRewardBps auctionParams
       in if penaltyPeriod \<ge> auctionPenaltySlots \<or> initialPenaltyBps = FEE_PRECISION_MAX then
            bnd (bigDiv (amount * userPenaltyRewardBps) FEE_PRECISION_MAX) (\<lambda>userReward.
            Inr (amount - userReward, userReward))
          else
            bnd (bigDiv (amount * initialPenaltyBps) FEE_PRECISION_MAX) (\<lambda>basePenalty.
            bnd (bigDiv ((amount - basePenalty) * penaltyPeriod) auctionPenaltySlots) (\<lambda>scaled.
            let penalty = basePenalty + scaled in
            bnd (bigDiv (penalty * userPenaltyRewardBps) FEE_PRECISION_MAX) (\<lambda>userReward.
            Inr (penalty - userReward, userReward))))))))"

definition me_computeMinOfferDelta :: "env \<Rightarrow> meProgram \<Rightarrow> uint64 \<Rightarrow> int result" where
  "me_computeMinOfferDelta env p offerPrice =
     bnd (me_fetchAuctionParameters env p None) (\<lambda>params.
     bnd (uint64ToBigInt offerPrice) (\<lambda>price.
     bnd (bigDiv (price * ap_minOfferDeltaBps params) FEE_PRECISION_MAX) (\<lambda>delta.
     Inr (delta + 1))))"

definition me_computeNotionalSecurityDeposit :: "env \<Rightarrow> meProgram \<Rightarrow> uint64 \<Rightarrow> int option \<Rightarrow> int result" where
  "me_computeNotionalSecurityDeposit env p amountIn configId =
     bnd (me_fetchAuctionParameters env p configId) (\<lambda>params.
     bnd (uint64ToBigInt (UBN (ap_securityDepositBase params))) (\<lambda>base.
     bnd (uint64ToBigInt amountIn) (\<lambda>amount.
     bnd (bigDiv (amount * ap_securityDepositBps params) FEE_PRECISION_MAX) (\<lambda>part.
     Inr (base + part)))))"

section \<open>On chain\<close>

text \<open>
  Unsigned integers of the program are naturals below their bound: subtraction stops at zero,
  \<open>satAdd64\<close> and \<open>satMul128\<close> stop at the largest value, \<open>asU64\<close> cuts.
\<close>

definition satAdd64 :: "nat \<Rightarrow> nat \<Rightarrow> nat" where
  "satAdd64 a b = min (a + b) (2 ^ 64 - 1)"

definition satMul128 :: "nat \<Rightarrow> nat \<Rightarrow> nat" where
  "satMul128 a b = min (a * b) (2 ^ 128 - 1)"

definition asU64 :: "nat \<Rightarrow> nat" where
  "asU64 n = n mod 2 ^ 64"

record auctionParametersU =
  pu_user_penalty_reward_bps :: nat
  pu_initial_penalty_bps :: nat
  pu_duration :: nat
  pu_grace_period :: nat
  pu_penalty_period :: nat
  pu_min_offer_delta_bps :: nat
  pu_security_deposit_base :: nat
  pu_security_deposit_bps :: nat

definition mul_bps_unsafe :: "nat \<Rightarrow> nat \<Rightarrow> nat" where
  "mul_bps_unsafe amount bps = asU64 (satMul128 amount bps div 1000000)"

definition auction_end_slot :: "nat \<Rightarrow> auctionParametersU \<Rightarrow> nat" where
  "auction_end_slot start_slot params = satAdd64 start_slot (pu_duration params)"

definition grace_period_end_slot :: "nat \<Rightarrow> auctionParametersU \<Rightarrow> nat option \<Rightarrow> nat" where
  "grace_period_end_slot start_slot params additional =
     satAdd64 (satAdd64 (auction_end_slot start_slot params) (pu_grace_period params)) (orElse additional 0)"

definition penalty_period_end_slot :: "nat \<Rightarrow> auctionParametersU \<Rightarrow> nat option \<Rightarrow> nat" where
  "penalty_period_end_slot start_slot params additional =
     satAdd64 (grace_period_end_slot start_slot params additional) (pu_penalty_period params)"

definition split_user_penalty_reward :: "auctionParametersU \<Rightarrow> nat \<Rightarrow> nat \<times> nat" where
  "split_user_penalty_reward params amount =
     (let user_reward = mul_bps_unsafe amount (pu_user_penalty_reward_bps params)
      in (amount - user_reward, user_reward))"

definition compute_deposit_penalty :: "auctionParametersU \<Rightarrow> nat \<Rightarrow> nat \<Rightarrow> nat \<Rightarrow> nat option \<Rightarrow> nat \<times> nat" where
  "compute_deposit_penalty params start_slot security_deposit current_slot additional =
     (let grace_slot = grace_period_end_slot start_slot params additional
      in if current_slot \<le> grace_slot then (0, 0)
         else if current_slot \<ge> penalty_period_end_slot start_slot params additional
              \<or> pu_initial_penalty_bps params = 1000000
         then split_user_penalty_reward params security_deposit
         else
           let base_penalty = mul_bps_unsafe security_deposit (pu_initial_penalty_bps params);
               scaled = satMul128 (security_deposit - base_penalty) (current_slot - grace_slot)
                 div pu_penalty_period params
           in split_user_penalty_reward params (satAdd64 base_penalty (asU64 scaled)))"

text \<open>
  The penalty of an execution: an auction whose order stays on this chain has a longer grace period
  (\<open>execute_fast_order/mod.rs\<close>).
\<close>

definition EXECUTE_FAST_ORDER_LOCAL_ADDITIONAL_GRACE_PERIOD :: nat where
  "EXECUTE_FAST_ORDER_LOCAL_ADDITIONAL_GRACE_PERIOD = 5"

definition additional_grace_period :: "messageProtocol \<Rightarrow> nat option" where
  "additional_grace_period target_protocol =
     (case target_protocol of
        LocalProtocol _ \<Rightarrow> Some EXECUTE_FAST_ORDER_LOCAL_ADDITIONAL_GRACE_PERIOD
      | _ \<Rightarrow> None)"

definition execution_penalty :: "auctionParametersU \<Rightarrow> messageProtocol \<Rightarrow> nat \<Rightarrow> nat \<Rightarrow> nat \<Rightarrow> nat \<times> nat" where
  "execution_penalty params target_protocol start_slot security_deposit current_slot =
     compute_deposit_penalty params start_slot security_deposit current_slot (additional_grace_period target_protocol)"

definition compute_min_allowed_offer :: "auctionParametersU \<Rightarrow> nat \<Rightarrow> nat" where
  "compute_min_allowed_offer params offer_price =
     offer_price - mul_bps_unsafe offer_price (pu_min_offer_delta_bps params)"

definition compute_notional_security_deposit :: "auctionParametersU \<Rightarrow> nat \<Rightarrow> nat" where
  "compute_notional_security_deposit params notional =
     satAdd64 (pu_security_deposit_base params) (mul_bps_unsafe notional (pu_security_deposit_bps params))"

definition require_valid_parameters :: "auctionParametersU \<Rightarrow> bool" where
  "require_valid_parameters params \<longleftrightarrow>
     pu_duration params > 0 \<and> pu_grace_period params > 0 \<and> pu_penalty_period params > 0 \<and>
     pu_user_penalty_reward_bps params \<le> 1000000 \<and> pu_initial_penalty_bps params \<le> 1000000 \<and>
     pu_min_offer_delta_bps params \<le> 1000000 \<and> pu_security_deposit_base params > 0 \<and>
     pu_security_deposit_bps params \<le> 1000000"

text \<open>The widths of the fields, and the parameters as the account decoder hands them to the SDK.\<close>

definition params_fit :: "auctionParametersU \<Rightarrow> bool" where
  "params_fit params \<longleftrightarrow> pu_duration params < 2 ^ 16 \<and> pu_grace_period params < 2 ^ 16 \<and>
     pu_penalty_period params < 2 ^ 16 \<and> pu_security_deposit_base params < 2 ^ 64"

definition decodedParameters :: "auctionParametersU \<Rightarrow> auctionParameters" where
  "decodedParameters u = \<lparr>
     ap_userPenaltyRewardBps = int (pu_user_penalty_reward_bps u),
     ap_initialPenaltyBps = int (pu_initial_penalty_bps u),
     ap_duration = int (pu_duration u),
     ap_gracePeriod = int (pu_grace_period u),
     ap_penaltyPeriod = int (pu_penalty_period u),
     ap_minOfferDeltaBps = int (pu_min_offer_delta_bps u),
     ap_securityDepositBase = int (pu_security_deposit_base u),
     ap_securityDepositBps = int (pu_security_deposit_bps u)\<rparr>"

section \<open>Arithmetic\<close>

definition bpsOf :: "nat \<Rightarrow> nat \<Rightarrow> nat" where
  "bpsOf amount bps = amount * bps div 1000000"

lemma bpsOf_le: "bps \<le> 1000000 \<Longrightarrow> bpsOf amount bps \<le> amount"
  unfolding bpsOf_def by (metis div_le_mono div_mult_self_is_m mult_le_mono2 zero_less_numeral)

lemma bpsOf_mono: "amount \<le> amount' \<Longrightarrow> bpsOf amount bps \<le> bpsOf amount' bps"
  by (simp add: bpsOf_def div_le_mono)

lemma mul_bps_eq: "amount < 2 ^ 64 \<Longrightarrow> bps \<le> 1000000 \<Longrightarrow> mul_bps_unsafe amount bps = bpsOf amount bps"
proof -
  assume a: "amount < 2 ^ 64" and b: "bps \<le> 1000000"
  then have "amount * bps \<le> 2 ^ 64 * 1000000" by (intro mult_mono) auto
  then have "satMul128 amount bps = amount * bps" by (simp add: satMul128_def)
  moreover have "bpsOf amount bps < 2 ^ 64" using a bpsOf_le [OF b, of amount] by simp
  ultimately show ?thesis by (simp add: mul_bps_unsafe_def asU64_def bpsOf_def)
qed

lemma bigDiv_nat [simp]: "0 < b \<Longrightarrow> bigDiv (int a) (int b) = Inr (int (a div b))"
  by (simp add: bigDiv_def sdiv_nonneg zdiv_int)

lemma bigDiv_bps: "bigDiv (int amount * int bps) FEE_PRECISION_MAX = Inr (int (bpsOf amount bps))"
  using bigDiv_nat [of 1000000 "amount * bps"] by (simp add: FEE_PRECISION_MAX_def bpsOf_def)

lemma bn_nat: "n < 2 ^ 64 \<Longrightarrow> uint64ToBigInt (UBN (int n)) = Inr (int n)"
  by (subst uint64ToBigInt_BN) simp

text \<open>The grace slot of an auction whose slots do not reach the end of the 64-bit range.\<close>

lemma end_slots:
  assumes "params_fit params" "start_slot + 4 * 2 ^ 16 < 2 ^ 64" "orElse additional 0 < 2 ^ 16"
  shows "grace_period_end_slot start_slot params additional =
      start_slot + pu_duration params + pu_grace_period params + orElse additional 0"
    and "penalty_period_end_slot start_slot params additional =
      start_slot + pu_duration params + pu_grace_period params + orElse additional 0 + pu_penalty_period params"
  using assms
  by (auto simp: penalty_period_end_slot_def grace_period_end_slot_def auction_end_slot_def satAdd64_def
      params_fit_def min_def)

text \<open>The total penalty before it is split with the user, as a function of the slots past the grace period.\<close>

definition rawPenalty :: "auctionParametersU \<Rightarrow> nat \<Rightarrow> nat \<Rightarrow> nat" where
  "rawPenalty params deposit late =
     (if late \<ge> pu_penalty_period params \<or> pu_initial_penalty_bps params = 1000000 then deposit
      else bpsOf deposit (pu_initial_penalty_bps params) +
        (deposit - bpsOf deposit (pu_initial_penalty_bps params)) * late div pu_penalty_period params)"

lemma rawPenalty_le: "require_valid_parameters params \<Longrightarrow> rawPenalty params deposit late \<le> deposit"
proof (cases "late \<ge> pu_penalty_period params \<or> pu_initial_penalty_bps params = 1000000")
  case False
  assume v: "require_valid_parameters params"
  let ?b = "bpsOf deposit (pu_initial_penalty_bps params)" and ?k = "pu_penalty_period params"
  have "?b \<le> deposit" using v by (simp add: bpsOf_le require_valid_parameters_def)
  moreover have "(deposit - ?b) * late div ?k \<le> (deposit - ?b) * ?k div ?k"
    using False by (intro div_le_mono mult_le_mono2) simp
  moreover have "(deposit - ?b) * ?k div ?k = deposit - ?b"
    using v by (simp add: require_valid_parameters_def)
  ultimately show ?thesis using False by (simp add: rawPenalty_def)
qed (simp add: rawPenalty_def)

lemma rawPenalty_mono:
  assumes "require_valid_parameters params" "late \<le> late'"
  shows "rawPenalty params deposit late \<le> rawPenalty params deposit late'"
proof (cases "late' \<ge> pu_penalty_period params \<or> pu_initial_penalty_bps params = 1000000")
  case True
  then have "rawPenalty params deposit late' = deposit" by (auto simp: rawPenalty_def)
  then show ?thesis using rawPenalty_le [OF assms(1)] by simp
next
  case False
  with assms(2) show ?thesis by (auto simp: rawPenalty_def intro: div_le_mono)
qed

lemma compute_deposit_penalty_eq:
  assumes v: "require_valid_parameters params" and fit: "params_fit params"
    and st: "start_slot + 4 * 2 ^ 16 < 2 ^ 64" "orElse additional 0 < 2 ^ 16" and dep: "deposit < 2 ^ 64"
  shows "compute_deposit_penalty params start_slot deposit current_slot additional =
    (let grace = start_slot + pu_duration params + pu_grace_period params + orElse additional 0
     in if current_slot \<le> grace then (0, 0)
        else let t = rawPenalty params deposit (current_slot - grace);
                 r = bpsOf t (pu_user_penalty_reward_bps params)
             in (t - r, r))"
proof (cases "current_slot \<le> start_slot + pu_duration params + pu_grace_period params + orElse additional 0")
  case True
  then show ?thesis
    by (simp add: compute_deposit_penalty_def end_slots [OF fit st] Let_def)
next
  case late: False
  define grace where "grace = start_slot + pu_duration params + pu_grace_period params + orElse additional 0"
  define late where "late = current_slot - grace"
  let ?b = "bpsOf deposit (pu_initial_penalty_bps params)" and ?k = "pu_penalty_period params"
  have bps: "pu_initial_penalty_bps params \<le> 1000000" "pu_user_penalty_reward_bps params \<le> 1000000" "0 < ?k"
    using v by (auto simp: require_valid_parameters_def)
  have b: "mul_bps_unsafe deposit (pu_initial_penalty_bps params) = ?b" "?b \<le> deposit"
    using bps dep by (simp_all add: mul_bps_eq bpsOf_le)
  have total: "rawPenalty params deposit late < 2 ^ 64"
    using rawPenalty_le [OF v] dep by (rule le_less_trans)
  have full: "current_slot \<ge> grace + ?k \<longleftrightarrow> late \<ge> ?k"
    using late by (auto simp: late_def grace_def)
  have scaled: "satAdd64 ?b (asU64 (satMul128 (deposit - ?b) late div ?k)) = rawPenalty params deposit late"
    if part: "\<not> (late \<ge> ?k \<or> pu_initial_penalty_bps params = 1000000)"
  proof -
    have "late < 2 ^ 16" using part fit by (simp add: params_fit_def)
    then have "(deposit - ?b) * late \<le> 2 ^ 64 * 2 ^ 16" using dep by (intro mult_mono) auto
    then have sat: "satMul128 (deposit - ?b) late = (deposit - ?b) * late" by (simp add: satMul128_def)
    have raw: "rawPenalty params deposit late = ?b + (deposit - ?b) * late div ?k"
      using part by (simp add: rawPenalty_def)
    with total have "(deposit - ?b) * late div ?k < 2 ^ 64" by simp
    with sat raw total show ?thesis by (simp add: satAdd64_def asU64_def)
  qed
  have split: "split_user_penalty_reward params (rawPenalty params deposit late) =
      (let t = rawPenalty params deposit late; r = bpsOf t (pu_user_penalty_reward_bps params) in (t - r, r))"
    using total bps by (simp add: split_user_penalty_reward_def mul_bps_eq Let_def)
  show ?thesis
  proof (cases "late \<ge> ?k \<or> pu_initial_penalty_bps params = 1000000")
    case True
    then have "rawPenalty params deposit late = deposit" by (auto simp: rawPenalty_def)
    with True split late show ?thesis
      by (simp add: compute_deposit_penalty_def end_slots [OF fit st] Let_def
          full [unfolded grace_def late_def] late_def grace_def)
  next
    case False
    with scaled split late b show ?thesis
      by (simp add: compute_deposit_penalty_def end_slots [OF fit st] Let_def
          full [unfolded grace_def late_def] late_def grace_def)
  qed
qed

lemma me_computeDepositPenalty_eq:
  assumes v: "require_valid_parameters params" and fit: "params_fit params"
    and par: "me_fetchAuctionParameters env p configId = Inr (decodedParameters params)"
    and st: "start_slot < 2 ^ 64" and dep: "deposit < 2 ^ 64"
    and info: "ai_startSlot info = int start_slot" "ai_securityDeposit info = int deposit"
    and slot: "uint64ToBigInt currentSlot = Inr (int current_slot)"
  shows "me_computeDepositPenalty env p info currentSlot configId =
    (let grace = start_slot + pu_duration params + pu_grace_period params
     in if current_slot \<le> grace then Inr (0, 0)
        else let t = rawPenalty params deposit (current_slot - grace);
                 r = bpsOf t (pu_user_penalty_reward_bps params)
             in Inr (int (t - r), int r))"
proof -
  define grace where "grace = start_slot + pu_duration params + pu_grace_period params"
  define late where "late = current_slot - grace"
  let ?b = "bpsOf deposit (pu_initial_penalty_bps params)" and ?k = "pu_penalty_period params"
  have bps: "pu_initial_penalty_bps params \<le> 1000000" "pu_user_penalty_reward_bps params \<le> 1000000" "0 < ?k"
    using v by (auto simp: require_valid_parameters_def)
  have grace_iff: "int current_slot - int start_slot - int (pu_duration params) \<le> int (pu_grace_period params)
      \<longleftrightarrow> current_slot \<le> grace"
    by (auto simp: grace_def)
  have b: "?b \<le> deposit" using bps by (simp add: bpsOf_le)
  have reward: "bpsOf t (pu_user_penalty_reward_bps params) \<le> t" for t
    using bps by (simp add: bpsOf_le)
  show ?thesis
  proof (cases "current_slot \<le> grace")
    case True
    then show ?thesis
      using par slot info st
      by (simp add: me_computeDepositPenalty_def bn_nat decodedParameters_def grace_iff grace_def [symmetric] Let_def
          del: uint64ToBigInt.simps)
  next
    case False
    then have late_int: "int current_slot - int start_slot - int (pu_duration params) - int (pu_grace_period params)
        = int late"
      by (auto simp: late_def grace_def)
    have full: "rawPenalty params deposit late = deposit"
      if "int ?k \<le> int late \<or> int (pu_initial_penalty_bps params) = FEE_PRECISION_MAX"
      using that by (auto simp: rawPenalty_def FEE_PRECISION_MAX_def)
    have part: "rawPenalty params deposit late = ?b + (deposit - ?b) * late div ?k"
      if "\<not> (int ?k \<le> int late \<or> int (pu_initial_penalty_bps params) = FEE_PRECISION_MAX)"
      using that by (auto simp: rawPenalty_def FEE_PRECISION_MAX_def)
    have scaled: "bigDiv ((int deposit - int ?b) * int late) (int ?k) = Inr (int ((deposit - ?b) * late div ?k))"
      using bigDiv_nat [of ?k "(deposit - ?b) * late"] bps b by (simp add: of_nat_diff)
    define q where "q = (deposit - ?b) * late div ?k"
    have total: "bigDiv ((int ?b + int q) * int (pu_user_penalty_reward_bps params)) FEE_PRECISION_MAX =
        Inr (int (bpsOf (?b + q) (pu_user_penalty_reward_bps params)))"
      using bigDiv_bps [of "?b + q"] by simp
    have diff: "int (t - bpsOf t (pu_user_penalty_reward_bps params)) =
        int t - int (bpsOf t (pu_user_penalty_reward_bps params))" for t
      using reward [of t] by (simp add: of_nat_diff)
    have rhs: "(let grace = start_slot + pu_duration params + pu_grace_period params
        in if current_slot \<le> grace then Inr (0, 0)
           else let t = rawPenalty params deposit (current_slot - grace);
                    r = bpsOf t (pu_user_penalty_reward_bps params)
                in Inr (int (t - r), int r)) =
        (Inr (int (rawPenalty params deposit late -
            bpsOf (rawPenalty params deposit late) (pu_user_penalty_reward_bps params)),
          int (bpsOf (rawPenalty params deposit late) (pu_user_penalty_reward_bps params))) :: (int \<times> int) result)"
      using False by (simp add: Let_def late_def grace_def)
    show ?thesis
      unfolding rhs
      using False par slot info st dep
      by (auto simp: me_computeDepositPenalty_def bn_nat decodedParameters_def grace_iff Let_def late_int
          bigDiv_bps scaled full part diff q_def [symmetric] total simp del: uint64ToBigInt.simps)
  qed
qed

section \<open>The off-chain amounts are the program's\<close>

lemma additional_grace_small: "orElse (additional_grace_period target_protocol) 0 < 2 ^ 16"
  by (simp add: additional_grace_period_def EXECUTE_FAST_ORDER_LOCAL_ADDITIONAL_GRACE_PERIOD_def split: messageProtocol.splits)

text \<open>
  C4. The deposit penalty that the SDK computes for a slot is the one that the program takes from an execution in that
  slot if the order leaves the chain, and the one it takes five slots later if the order stays on
  this chain, where the SDK does not know the longer grace period: for parameters the program accepts, an
  auction whose slots stay in the 64-bit range and any slot, \<open>computeDepositPenalty\<close> on unbounded
  integers returns the penalty and the user's reward that the program computes with saturating 64-bit arithmetic.
  It never underestimates what is taken in the same slot.
\<close>

theorem deposit_penalty_agrees:
  assumes "require_valid_parameters params" "params_fit params"
    and "me_fetchAuctionParameters env p configId = Inr (decodedParameters params)"
    and "start_slot + 4 * 2 ^ 16 < 2 ^ 64" "deposit < 2 ^ 64"
    and "ai_startSlot info = int start_slot" "ai_securityDeposit info = int deposit"
    and "uint64ToBigInt currentSlot = Inr (int current_slot)"
  shows "me_computeDepositPenalty env p info currentSlot configId =
      Inr (map_prod int int (execution_penalty params target_protocol start_slot deposit
        (current_slot + (case target_protocol of LocalProtocol _ \<Rightarrow> 5 | _ \<Rightarrow> 0)))) \<and>
    (\<exists>pen rew. me_computeDepositPenalty env p info currentSlot configId = Inr (pen, rew) \<and>
      int (fst (execution_penalty params target_protocol start_slot deposit current_slot)) +
      int (snd (execution_penalty params target_protocol start_slot deposit current_slot)) \<le> pen + rew)"
proof -
  let ?a = "orElse (additional_grace_period target_protocol) 0"
  let ?g = "start_slot + pu_duration params + pu_grace_period params"
  define r where "r t = bpsOf t (pu_user_penalty_reward_bps params)" for t
  define raw where "raw s = (if s \<le> ?g then 0 else rawPenalty params deposit (s - ?g))" for s
  have st: "start_slot < 2 ^ 64" using assms(4) by simp
  have a: "?a = (case target_protocol of LocalProtocol _ \<Rightarrow> 5 | _ \<Rightarrow> 0)"
    by (simp add: additional_grace_period_def EXECUTE_FAST_ORDER_LOCAL_ADDITIONAL_GRACE_PERIOD_def split: messageProtocol.splits)
  have r: "r t \<le> t" for t
    using assms(1) by (simp add: r_def bpsOf_le require_valid_parameters_def)
  have sdk: "me_computeDepositPenalty env p info currentSlot configId =
      Inr (int (raw current_slot - r (raw current_slot)), int (r (raw current_slot)))"
    using me_computeDepositPenalty_eq [OF assms(1-3) st assms(5-8)] by (simp add: Let_def raw_def r_def bpsOf_def)
  have chain: "execution_penalty params target_protocol start_slot deposit s =
      (raw (s - ?a) - r (raw (s - ?a)), r (raw (s - ?a)))" for s
    using compute_deposit_penalty_eq [OF assms(1,2,4) additional_grace_small assms(5)]
    by (auto simp: execution_penalty_def Let_def raw_def r_def bpsOf_def add.commute)
  have mono: "raw (current_slot - ?a) \<le> raw current_slot"
    using rawPenalty_mono [OF assms(1), of "current_slot - ?a - ?g" "current_slot - ?g" deposit]
    by (auto simp: raw_def)
  have "fst (execution_penalty params target_protocol start_slot deposit current_slot) +
      snd (execution_penalty params target_protocol start_slot deposit current_slot) \<le> raw current_slot"
    using mono r by (simp add: chain)
  moreover have "int (raw current_slot - r (raw current_slot)) + int (r (raw current_slot)) = int (raw current_slot)"
    using r [of "raw current_slot"] by (simp add: of_nat_diff)
  ultimately show ?thesis
    by (simp add: sdk chain a [symmetric] flip: of_nat_add)
qed

text \<open>A concrete environment for the witnesses: one custodian and one parameter set.\<close>

definition demoParams :: auctionParametersU where
  "demoParams = \<lparr>pu_user_penalty_reward_bps = 250000, pu_initial_penalty_bps = 100000, pu_duration = 2,
     pu_grace_period = 4, pu_penalty_period = 10, pu_min_offer_delta_bps = 50000,
     pu_security_deposit_base = 4200000, pu_security_deposit_bps = 5000\<rparr>"

definition demoEnv :: "env \<Rightarrow> env" where
  "demoEnv env = env\<lparr>
     acctMeCustodian := \<lambda>_. Inr \<lparr>mc_owner = [], mc_pendingOwner = None, mc_paused = False, mc_pausedSetBy = None,
       mc_ownerAssistant = [], mc_feeRecipientToken = [], mc_auctionConfigId = 0, mc_nextProposalId = 0\<rparr>,
     acctAuctionConfig := \<lambda>_. Inr \<lparr>ac_id = 0, ac_parameters = decodedParameters demoParams\<rparr>\<rparr>"

lemma demo_valid: "require_valid_parameters demoParams" "params_fit demoParams"
  by (simp_all add: demoParams_def require_valid_parameters_def params_fit_def)

lemma demo_fetch: "me_fetchAuctionParameters (demoEnv env) p None = Inr (decodedParameters demoParams)"
  by (simp add: me_fetchAuctionParameters_def me_fetchCustodian_def demoEnv_def
      me_auctionConfigAddress_def auctionConfig_address_def auctionConfig_seeds_def writeBE_alloc)

definition demoInfo :: auctionInfo where
  "demoInfo = \<lparr>ai_configId = 0, ai_custodyTokenBump = 0, ai_vaaSequence = 0, ai_sourceChain = 2,
     ai_bestOfferToken = [], ai_initialOfferToken = [], ai_startSlot = 100, ai_amountIn = 1,
     ai_securityDeposit = 10000, ai_offerPrice = 1, ai_redeemerMessageLen = 0,
     ai_destinationAssetInfo = None\<rparr>"

theorem deposit_penalty_agrees_witness:
  "\<forall>env p. me_computeDepositPenalty (demoEnv env) p demoInfo (UNumber (Whole 111)) None = Inr (4125, 1375) \<and>
     execution_penalty demoParams (CctpProtocol 0) 100 10000 111 = (4125, 1375) \<and>
     execution_penalty demoParams (LocalProtocol []) 100 10000 116 = (4125, 1375)"
proof (intro allI)
  fix env p
  have run: "execution_penalty demoParams (CctpProtocol 0) 100 10000 111 = (4125, 1375)"
    "execution_penalty demoParams (LocalProtocol []) 100 10000 116 = (4125, 1375)"
    by (simp_all add: execution_penalty_def additional_grace_period_def EXECUTE_FAST_ORDER_LOCAL_ADDITIONAL_GRACE_PERIOD_def
        compute_deposit_penalty_def demoParams_def grace_period_end_slot_def auction_end_slot_def
        penalty_period_end_slot_def satAdd64_def split_user_penalty_reward_def mul_bps_unsafe_def
        satMul128_def asU64_def Let_def)
  have "me_computeDepositPenalty (demoEnv env) p demoInfo (UNumber (Whole 111)) None =
      Inr (map_prod int int (execution_penalty demoParams (LocalProtocol []) 100 10000
        (111 + (case LocalProtocol [] of LocalProtocol _ \<Rightarrow> 5 | _ \<Rightarrow> 0))))"
    by (rule deposit_penalty_agrees [OF demo_valid demo_fetch, THEN conjunct1]) (simp_all add: demoInfo_def)
  with run show "me_computeDepositPenalty (demoEnv env) p demoInfo (UNumber (Whole 111)) None = Inr (4125, 1375) \<and>
     execution_penalty demoParams (CctpProtocol 0) 100 10000 111 = (4125, 1375) \<and>
     execution_penalty demoParams (LocalProtocol []) 100 10000 116 = (4125, 1375)"
    by simp
qed

text \<open>
  C5. The penalty stays within the security deposit and grows with time: for accepted parameters the
  computation always returns, the penalty and the user's reward are not negative, their sum is at
  most the deposit, is zero through the grace period and the whole deposit once the penalty period is
  over, and a later slot never has a smaller sum. The grace period counts from the end of the
  auction's duration, as it does on chain, although the comment on the field says that it includes the duration.
\<close>

theorem deposit_penalty_bounds:
  assumes "require_valid_parameters params" "params_fit params"
    and "me_fetchAuctionParameters env p configId = Inr (decodedParameters params)"
    and "start_slot < 2 ^ 64" "deposit < 2 ^ 64"
    and "ai_startSlot info = int start_slot" "ai_securityDeposit info = int deposit"
    and "grace = start_slot + pu_duration params + pu_grace_period params" "slot \<le> slot'"
  shows "\<exists>pen rew pen' rew'.
    me_computeDepositPenalty env p info (UBigint (int slot)) configId = Inr (pen, rew) \<and>
    me_computeDepositPenalty env p info (UBigint (int slot')) configId = Inr (pen', rew') \<and>
    0 \<le> pen \<and> 0 \<le> rew \<and> pen + rew \<le> int deposit \<and> pen + rew \<le> pen' + rew' \<and>
    (slot \<le> grace \<longrightarrow> pen = 0 \<and> rew = 0) \<and>
    (grace + pu_penalty_period params \<le> slot \<longrightarrow> pen + rew = int deposit)"
proof -
  define t where "t s = (if s \<le> grace then 0 else rawPenalty params deposit (s - grace))" for s
  define r where "r s = bpsOf (t s) (pu_user_penalty_reward_bps params)" for s
  have run: "me_computeDepositPenalty env p info (UBigint (int s)) configId = Inr (int (t s - r s), int (r s))" for s
    using me_computeDepositPenalty_eq [OF assms(1-7), of "UBigint (int s)" s] assms(8)
    by (simp add: Let_def t_def r_def bpsOf_def)
  have "r s \<le> t s" for s
    using assms(1) unfolding r_def by (intro bpsOf_le) (simp add: require_valid_parameters_def)
  then have sum: "int (t s - r s) + int (r s) = int (t s)" for s
    by (simp add: of_nat_diff)
  have mono: "t slot \<le> t slot'"
    using assms(9) rawPenalty_mono [OF assms(1), of "slot - grace" "slot' - grace"] by (auto simp: t_def)
  have cap: "t slot \<le> deposit"
    using rawPenalty_le [OF assms(1)] by (simp add: t_def)
  have full: "t slot = deposit" if "grace + pu_penalty_period params \<le> slot"
    using that assms(1) by (auto simp: t_def rawPenalty_def require_valid_parameters_def)
  have none: "t slot = 0 \<and> r slot = 0" if "slot \<le> grace"
    using that by (simp add: t_def r_def bpsOf_def)
  show ?thesis
    by (intro exI conjI, rule run, rule run)
      (use sum [of slot] sum [of slot'] mono cap full none in auto)
qed

theorem deposit_penalty_bounds_witness:
  "\<forall>env p. \<exists>pen rew pen' rew'.
    me_computeDepositPenalty (demoEnv env) p demoInfo (UBigint 111) None = Inr (pen, rew) \<and>
    me_computeDepositPenalty (demoEnv env) p demoInfo (UBigint 200) None = Inr (pen', rew') \<and>
    pen + rew \<le> 10000 \<and> pen + rew \<le> pen' + rew'"
proof (intro allI)
  fix env p
  have "\<exists>pen rew pen' rew'.
    me_computeDepositPenalty (demoEnv env) p demoInfo (UBigint (int 111)) None = Inr (pen, rew) \<and>
    me_computeDepositPenalty (demoEnv env) p demoInfo (UBigint (int 200)) None = Inr (pen', rew') \<and>
    0 \<le> pen \<and> 0 \<le> rew \<and> pen + rew \<le> int 10000 \<and> pen + rew \<le> pen' + rew' \<and>
    (111 \<le> 100 + pu_duration demoParams + pu_grace_period demoParams \<longrightarrow> pen = 0 \<and> rew = 0) \<and>
    (100 + pu_duration demoParams + pu_grace_period demoParams + pu_penalty_period demoParams \<le> 111 \<longrightarrow>
      pen + rew = int 10000)"
    by (rule deposit_penalty_bounds [OF demo_valid demo_fetch _ _ _ _ refl]) (simp_all add: demoInfo_def)
  then show "\<exists>pen rew pen' rew'.
    me_computeDepositPenalty (demoEnv env) p demoInfo (UBigint 111) None = Inr (pen, rew) \<and>
    me_computeDepositPenalty (demoEnv env) p demoInfo (UBigint 200) None = Inr (pen', rew') \<and>
    pen + rew \<le> 10000 \<and> pen + rew \<le> pen' + rew'" by auto
qed

text \<open>
  C32. The minimum offer delta is tight: an offer improves the best price on chain (it is below
  \<open>compute_min_allowed_offer\<close>) exactly when it is at most the best price less the delta computed off
  chain, and the off-chain notional security deposit is the program's whenever that does not
  saturate.
\<close>

theorem min_offer_delta_tight:
  assumes "require_valid_parameters params" "params_fit params"
    and "me_fetchAuctionParameters env p None = Inr (decodedParameters params)"
    and "price < 2 ^ 64"
  shows "\<exists>delta deposit. me_computeMinOfferDelta env p (UBigint (int price)) = Inr delta \<and>
    1 \<le> delta \<and> (\<forall>offer. offer < compute_min_allowed_offer params price \<longleftrightarrow> int offer \<le> int price - delta) \<and>
    me_computeNotionalSecurityDeposit env p (UBigint (int price)) None = Inr deposit \<and>
    int (compute_notional_security_deposit params price) = min deposit (2 ^ 64 - 1)"
proof -
  let ?d = "bpsOf price (pu_min_offer_delta_bps params)"
  have bps: "pu_min_offer_delta_bps params \<le> 1000000" "pu_security_deposit_bps params \<le> 1000000"
    using assms(1) by (auto simp: require_valid_parameters_def)
  have delta: "me_computeMinOfferDelta env p (UBigint (int price)) = Inr (int ?d + 1)"
    using assms(3) by (simp add: me_computeMinOfferDelta_def decodedParameters_def bigDiv_bps)
  have min: "compute_min_allowed_offer params price = price - ?d" "?d \<le> price"
    using bps assms(4) by (simp_all add: compute_min_allowed_offer_def mul_bps_eq bpsOf_le)
  have dep: "me_computeNotionalSecurityDeposit env p (UBigint (int price)) None =
      Inr (int (pu_security_deposit_base params + bpsOf price (pu_security_deposit_bps params)))"
    using assms(2,3)
    by (simp add: me_computeNotionalSecurityDeposit_def decodedParameters_def bigDiv_bps bn_nat params_fit_def
        del: uint64ToBigInt.simps(3))
  have "compute_notional_security_deposit params price =
      min (pu_security_deposit_base params + bpsOf price (pu_security_deposit_bps params)) (2 ^ 64 - 1)"
    using bps assms(4) by (simp add: compute_notional_security_deposit_def satAdd64_def mul_bps_eq)
  with delta dep min show ?thesis by auto
qed

theorem min_offer_delta_tight_witness:
  "\<forall>env p. me_computeMinOfferDelta (demoEnv env) p (UBigint 1000) = Inr 51 \<and>
     949 < compute_min_allowed_offer demoParams 1000 \<and> \<not> 950 < compute_min_allowed_offer demoParams 1000"
proof (intro allI)
  fix env p
  obtain delta where d: "me_computeMinOfferDelta (demoEnv env) p (UBigint (int 1000)) = Inr delta"
    and off: "\<And>offer. offer < compute_min_allowed_offer demoParams 1000 \<longleftrightarrow> int offer \<le> int 1000 - delta"
    using min_offer_delta_tight [OF demo_valid demo_fetch, of 1000 env p] by auto
  have "me_computeMinOfferDelta (demoEnv env) p (UBigint (int 1000)) = Inr 51"
    by (simp add: me_computeMinOfferDelta_def demo_fetch decodedParameters_def demoParams_def bigDiv_def
        FEE_PRECISION_MAX_def sdiv_nonneg)
  with d have "delta = 51" by simp
  with off [of 949] off [of 950] d
  show "me_computeMinOfferDelta (demoEnv env) p (UBigint 1000) = Inr 51 \<and>
     949 < compute_min_allowed_offer demoParams 1000 \<and> \<not> 950 < compute_min_allowed_offer demoParams 1000"
    by simp
qed

end
