(* ===== verification/Me_Offers.thy ===== *)
theory Me_Offers
  imports Me_Fees
begin

text \<open>
  The auction instructions of \<open>MatchingEngineProgram\<close> up to the settlement
  (\<open>solana/ts/src/matchingEngine/index.ts\<close>): the approval of a transfer authority, placing an initial
  offer, improving it, and preparing the order response; with the transactions that wrap them.
\<close>

section \<open>Transactions\<close>

text \<open>The \<open>PreparedTransaction\<close> that every \<open>...Tx\<close> method returns; a signer is its public key.\<close>

definition preparedTx :: "instruction list \<Rightarrow> pubkey list \<Rightarrow> preparedTransactionOptions \<Rightarrow> string \<Rightarrow>
    confirmOptions option \<Rightarrow> preparedTransaction" where
  "preparedTx ixs signers opts txName confirm = \<lparr>
     pt_ixs = ixs,
     pt_signers = signers,
     pt_computeUnits = to_computeUnits opts,
     pt_feeMicroLamports = to_feeMicroLamports opts,
     pt_nonceAccount = to_nonceAccount opts,
     pt_addressLookupTableAccounts = to_addressLookupTableAccounts opts,
     pt_txName = Some txName,
     pt_confirmOptions = confirm\<rparr>"

section \<open>Approval\<close>

definition me_approveTransferAuthorityIx :: "env \<Rightarrow> meProgram \<Rightarrow> pubkey \<Rightarrow> pubkey \<Rightarrow> uint64 \<Rightarrow> uint64 \<Rightarrow>
    (pubkey \<times> instruction) result" where
  "me_approveTransferAuthorityIx env p auction owner offerPrice totalDeposit =
     bnd (me_transferAuthorityAddress env p auction offerPrice) (\<lambda>transferAuthority.
     bnd (associatedTokenAddress env (me_mint p) owner False) (\<lambda>account.
     bnd (uint64ToBigInt totalDeposit) (\<lambda>amount.
     Inr (transferAuthority, SplApprove account transferAuthority owner amount))))"

section \<open>Initial offer\<close>

record initialOfferAccounts =
  io_payer :: pubkey
  io_feePayer :: "pubkey option"
  io_fastVaa :: pubkey
  io_offerToken :: "pubkey option"
  io_auction :: "pubkey option"
  io_auctionConfig :: "pubkey option"
  io_fromRouterEndpoint :: "pubkey option"
  io_toRouterEndpoint :: "pubkey option"

text \<open>What the method looks up in the fast VAA when an account or the deposit is not given.\<close>

record initialOfferLookup =
  il_auction :: pubkey
  il_fromRouterEndpoint :: pubkey
  il_toRouterEndpoint :: pubkey
  il_totalDeposit :: uint64
  il_fetchedConfigId :: "int option"

definition me_initialOfferLookup ::
  "env \<Rightarrow> meProgram \<Rightarrow> initialOfferAccounts \<Rightarrow> uint64 option \<Rightarrow> initialOfferLookup result" where
  "me_initialOfferLookup env p accts totalDeposit =
     (case (io_auction accts, io_fromRouterEndpoint accts, io_toRouterEndpoint accts, totalDeposit) of
        (Some auction, Some fromEndpoint, Some toEndpoint, Some deposit) \<Rightarrow>
          Inr \<lparr>il_auction = auction, il_fromRouterEndpoint = fromEndpoint, il_toRouterEndpoint = toEndpoint,
               il_totalDeposit = deposit, il_fetchedConfigId = None\<rparr>
      | _ \<Rightarrow>
          bnd (vaaAccount_fetch env (io_fastVaa accts)) (\<lambda>vaaAccount.
          bnd (orElseM (io_auction accts)
                (bnd (vaaAccount_digest env vaaAccount) (\<lambda>digest.
                 Inr (me_auctionAddress env p (HashUint8Array digest))))) (\<lambda>auction.
          bnd (orElseM (io_fromRouterEndpoint accts)
                (bnd (vaaAccount_emitterInfo env vaaAccount) (\<lambda>info.
                 me_routerEndpointAddress env p (ef_chain info)))) (\<lambda>fromEndpoint.
          bnd (fastMarketOrderOf env vaaAccount) (\<lambda>order.
          bnd (orElseM (io_toRouterEndpoint accts)
                (bnd (toChainId env (fm_targetChain order)) (me_routerEndpointAddress env p))) (\<lambda>toEndpoint.
          bnd (me_fetchCustodian env p None) (\<lambda>custodianData.
          let fetchedConfigId = mc_auctionConfigId custodianData in
          bnd (me_computeNotionalSecurityDeposit env p (UBigint (fm_amountIn order)) (Some fetchedConfigId))
            (\<lambda>notionalDeposit.
          Inr \<lparr>il_auction = auction, il_fromRouterEndpoint = fromEndpoint, il_toRouterEndpoint = toEndpoint,
               il_totalDeposit = orElse totalDeposit
                 (UBigint (fm_amountIn order + fm_maxFee order + notionalDeposit)),
               il_fetchedConfigId = Some fetchedConfigId\<rparr>))))))))"

definition me_placeInitialOfferCctpIx :: "env \<Rightarrow> meProgram \<Rightarrow> initialOfferAccounts \<Rightarrow> uint64 \<Rightarrow> uint64 option \<Rightarrow>
    instruction list result" where
  "me_placeInitialOfferCctpIx env p accts offerPrice totalDeposit =
     bnd (orElseM (io_offerToken accts) (associatedTokenAddress env (me_mint p) (io_payer accts) False))
       (\<lambda>offerToken.
     bnd (me_initialOfferLookup env p accts totalDeposit) (\<lambda>l.
     bnd (orElseM (io_auctionConfig accts)
            (bnd (orElseM (il_fetchedConfigId l)
                   (bnd (me_fetchCustodian env p None) (\<lambda>c. Inr (mc_auctionConfigId c))))
             (me_auctionConfigAddress env p))) (\<lambda>auctionConfig.
     let auctionCustodyToken = me_auctionCustodyTokenAddress env p (il_auction l) in
     bnd (me_approveTransferAuthorityIx env p (il_auction l) (io_payer accts) offerPrice (il_totalDeposit l))
       (\<lambda>(transferAuthority, approveIx).
     bnd (uint64ToBN offerPrice) (\<lambda>price.
     Inr [approveIx,
       AnchorCall (me_ID env p) ''placeInitialOfferCctp'' [ArgBN price]
         [(''payer'', Key (orElse (io_feePayer accts) (io_payer accts))),
          (''transferAuthority'', Key transferAuthority),
          (''custodian'', me_checkedCustodianComposite env p None),
          (''auctionConfig'', Key auctionConfig),
          (''auction'', Key (il_auction l)),
          (''fastOrderPath'', me_fastOrderPathComposite (io_fastVaa accts) (il_fromRouterEndpoint l)
             (il_toRouterEndpoint l)),
          (''offerToken'', Key offerToken),
          (''auctionCustodyToken'', Key auctionCustodyToken),
          (''usdc'', me_usdcComposite p None),
          (''tokenProgram'', Key (tokenProgramId env)),
          (''systemProgram'', Key (systemProgramId env)),
          (''eventAuthority'', Key (me_eventAuthorityAddress env p)),
          (''program'', Key (me_ID env p))]])))))"

definition me_placeInitialOfferTx :: "env \<Rightarrow> meProgram \<Rightarrow> pubkey \<Rightarrow> pubkey \<Rightarrow> pubkey \<Rightarrow> pubkey \<Rightarrow> pubkey \<Rightarrow>
    uint64 \<Rightarrow> uint64 \<Rightarrow> pubkey list \<Rightarrow> preparedTransactionOptions \<Rightarrow> confirmOptions option \<Rightarrow>
    preparedTransaction result" where
  "me_placeInitialOfferTx env p payer fastVaa fromRouterEndpoint toRouterEndpoint auction
     offerPrice totalDeposit signers opts confirm =
     bnd (me_placeInitialOfferCctpIx env p \<lparr>
            io_payer = payer,
            io_feePayer = (case signers of [] \<Rightarrow> None | s # _ \<Rightarrow> Some s),
            io_fastVaa = fastVaa,
            io_offerToken = None,
            io_auction = Some auction,
            io_auctionConfig = None,
            io_fromRouterEndpoint = Some fromRouterEndpoint,
            io_toRouterEndpoint = Some toRouterEndpoint\<rparr> offerPrice (Some totalDeposit)) (\<lambda>ixs.
     Inr (preparedTx ixs signers opts ''placeInitialOffer'' confirm))"

section \<open>Improved offer\<close>

definition me_improveOfferIx :: "env \<Rightarrow> meProgram \<Rightarrow> pubkey \<Rightarrow> pubkey \<Rightarrow> pubkey option \<Rightarrow> pubkey option \<Rightarrow>
    uint64 \<Rightarrow> uint64 option \<Rightarrow> instruction list result" where
  "me_improveOfferIx env p participant auction auctionConfig bestOfferToken offerPrice totalDeposit =
     bnd (case totalDeposit of
            Some deposit \<Rightarrow> Inr (deposit, None)
          | None \<Rightarrow>
              bnd (me_fetchAuction env p (AtAddress auction)) (\<lambda>a.
              case au_info a of
                None \<Rightarrow> Inl (Error ''no auction info found'')
              | Some info \<Rightarrow> Inr (UBigint (ai_amountIn info + ai_securityDeposit info), Some info)))
       (\<lambda>(deposit, auctionInfo).
     bnd (me_approveTransferAuthorityIx env p auction participant offerPrice deposit)
       (\<lambda>(transferAuthority, approveIx).
     bnd (uint64ToBN offerPrice) (\<lambda>price.
     bnd (me_activeAuctionComposite env p auction auctionConfig bestOfferToken auctionInfo) (\<lambda>activeAuction.
     bnd (associatedTokenAddress env (me_mint p) participant False) (\<lambda>offerToken.
     Inr [approveIx,
       AnchorCall (me_ID env p) ''improveOffer'' [ArgBN price]
         [(''transferAuthority'', Key transferAuthority),
          (''activeAuction'', activeAuction),
          (''offerToken'', Key offerToken),
          (''tokenProgram'', Key (tokenProgramId env)),
          (''eventAuthority'', Key (me_eventAuthorityAddress env p)),
          (''program'', Key (me_ID env p))]])))))"

definition me_improveOfferTx :: "env \<Rightarrow> meProgram \<Rightarrow> pubkey \<Rightarrow> pubkey \<Rightarrow> pubkey \<Rightarrow> pubkey \<Rightarrow>
    uint64 \<Rightarrow> uint64 \<Rightarrow> pubkey list \<Rightarrow> preparedTransactionOptions \<Rightarrow> confirmOptions option \<Rightarrow>
    preparedTransaction result" where
  "me_improveOfferTx env p participant auction auctionConfig bestOfferToken offerPrice totalDeposit
     signers opts confirm =
     bnd (me_improveOfferIx env p participant auction (Some auctionConfig) (Some bestOfferToken)
            offerPrice (Some totalDeposit)) (\<lambda>ixs.
     Inr (preparedTx ixs signers opts ''improveOffer'' confirm))"

section \<open>Order response\<close>

record cctpMessageArgs =
  cm_encodedCctpMessage :: "byte list"
  cm_cctpAttestation :: "byte list"

definition argCctpMessage :: "cctpMessageArgs \<Rightarrow> arg" where
  "argCctpMessage args = ArgObject
     [(''encodedCctpMessage'', ArgBytes (cm_encodedCctpMessage args)),
      (''cctpAttestation'', ArgBytes (cm_cctpAttestation args))]"

definition me_prepareOrderResponseCctpIx :: "env \<Rightarrow> meProgram \<Rightarrow> pubkey \<Rightarrow> pubkey \<Rightarrow> pubkey \<Rightarrow> pubkey option \<Rightarrow>
    cctpMessageArgs \<Rightarrow> instruction result" where
  "me_prepareOrderResponseCctpIx env p payer fastVaa finalizedVaa baseFeeToken args =
     bnd (orElseM baseFeeToken (associatedTokenAddress env (me_mint p) payer False)) (\<lambda>baseFeeToken.
     bnd (vaaAccount_fetch env fastVaa) (\<lambda>fastVaaAcct.
     bnd (vaaAccount_emitterInfo env fastVaaAcct) (\<lambda>info.
     bnd (me_routerEndpointAddress env p (ef_chain info)) (\<lambda>fromEndpoint.
     bnd (fastMarketOrderOf env fastVaaAcct) (\<lambda>order.
     bnd (toChainId env (fm_targetChain order)) (\<lambda>targetChain.
     bnd (me_routerEndpointAddress env p targetChain) (\<lambda>toEndpoint.
     bnd (mt_receiveTokenMessengerMinterMessageAccounts env me_messageTransmitterProgram (me_mint p)
            (BurnMessageBuffer (cm_encodedCctpMessage args))) (\<lambda>r.
     bnd (vaaAccount_digest env fastVaaAcct) (\<lambda>digest.
     let preparedOrderResponse = me_preparedOrderResponseAddress env p (HashUint8Array digest) in
     bnd (me_cctpMintRecipientComposite env p) (\<lambda>mintRecipient.
     Inr (AnchorCall (me_ID env p) ''prepareOrderResponseCctp'' [argCctpMessage args]
       [(''payer'', Key payer),
        (''custodian'', me_checkedCustodianComposite env p None),
        (''fastOrderPath'', me_fastOrderPathComposite fastVaa fromEndpoint toEndpoint),
        (''finalizedVaa'', me_liquidityLayerVaaComposite finalizedVaa),
        (''preparedOrderResponse'', Key preparedOrderResponse),
        (''preparedCustodyToken'', Key (me_preparedCustodyTokenAddress env p preparedOrderResponse)),
        (''baseFeeToken'', Key baseFeeToken),
        (''usdc'', me_usdcComposite p None),
        (''cctp'', Group
           [(''mintRecipient'', mintRecipient),
            (''messageTransmitterAuthority'', Key (rm_authority r)),
            (''messageTransmitterConfig'', Key (rm_messageTransmitterConfig r)),
            (''usedNonces'', Key (rm_usedNonces r)),
            (''messageTransmitterEventAuthority'', Key (rm_messageTransmitterEventAuthority r)),
            (''tokenMessenger'', Key (rm_tokenMessenger r)),
            (''remoteTokenMessenger'', Key (rm_remoteTokenMessenger r)),
            (''tokenMinter'', Key (rm_tokenMinter r)),
            (''localToken'', Key (rm_localToken r)),
            (''tokenPair'', Key (rm_tokenPair r)),
            (''tokenMessengerMinterCustodyToken'', Key (rm_custodyToken r)),
            (''tokenMessengerMinterEventAuthority'', Key (rm_tokenMessengerMinterEventAuthority r)),
            (''tokenMessengerMinterProgram'', Key (rm_tokenMessengerMinterProgram r)),
            (''messageTransmitterProgram'', Key (rm_messageTransmitterProgram r))]),
        (''tokenProgram'', Key (tokenProgramId env)),
        (''systemProgram'', Key (systemProgramId env))])))))))))))"

end
