(* ===== verification/Me_Settle.thy ===== *)
theory Me_Settle
  imports Me_Offers
begin

text \<open>
  The settlement instructions of \<open>MatchingEngineProgram\<close> (\<open>solana/ts/src/matchingEngine/index.ts\<close>):
  settling a completed auction, settling an order that had no auction (locally or through CCTP), and
  closing an auction; with the transactions that wrap them.
\<close>

section \<open>A completed auction\<close>

definition me_settleAuctionCompleteIx :: "env \<Rightarrow> meProgram \<Rightarrow> pubkey \<Rightarrow> pubkey option \<Rightarrow> pubkey option \<Rightarrow>
    pubkey option \<Rightarrow> pubkey option \<Rightarrow> instruction result" where
  "me_settleAuctionCompleteIx env p preparedOrderResponse auction beneficiary baseFeeToken bestOfferToken =
     bnd (case (auction, beneficiary, baseFeeToken) of
            (Some a, Some b, Some f) \<Rightarrow> Inr (a, b, f)
          | _ \<Rightarrow>
              bnd (me_fetchPreparedOrderResponse env p (AtAddress preparedOrderResponse)) (\<lambda>r.
              Inr (orElse auction (me_auctionAddress env p
                     (HashUint8Array (ps_fastVaaHash (pr_seeds r)))),
                   orElse beneficiary (pi_preparedBy (pr_info r)),
                   orElse baseFeeToken (pi_baseFeeToken (pr_info r)))))
       (\<lambda>(auction, beneficiary, baseFeeToken).
     bnd (orElseM bestOfferToken
            (bnd (me_fetchAuction env p (AtAddress auction)) (\<lambda>a.
             case au_info a of
               None \<Rightarrow> Inl (Error ''no auction info found'')
             | Some info \<Rightarrow> Inr (ai_bestOfferToken info)))) (\<lambda>bestOfferToken.
     Inr (AnchorCall (me_ID env p) ''settleAuctionComplete'' []
       [(''beneficiary'', Key beneficiary),
        (''baseFeeToken'', Key baseFeeToken),
        (''preparedOrderResponse'', Key preparedOrderResponse),
        (''preparedCustodyToken'', Key (me_preparedCustodyTokenAddress env p preparedOrderResponse)),
        (''auction'', Key auction),
        (''bestOfferToken'', Key bestOfferToken),
        (''tokenProgram'', Key (tokenProgramId env)),
        (''eventAuthority'', Key (me_eventAuthorityAddress env p)),
        (''program'', Key (me_ID env p))])))"

definition me_settleAuctionCompleteTx :: "env \<Rightarrow> meProgram \<Rightarrow> pubkey \<Rightarrow> pubkey \<Rightarrow> pubkey \<Rightarrow> pubkey \<Rightarrow> pubkey \<Rightarrow>
    cctpMessageArgs \<Rightarrow> pubkey list \<Rightarrow> preparedTransactionOptions \<Rightarrow> confirmOptions option \<Rightarrow>
    preparedTransaction result" where
  "me_settleAuctionCompleteTx env p executor fastVaa finalizedVaa bestOfferToken auction args signers opts confirm =
     bnd (me_prepareOrderResponseCctpIx env p executor fastVaa finalizedVaa (Some bestOfferToken) args)
       (\<lambda>prepareOrderResponseIx.
     bnd (vaaAccount_fetch env fastVaa) (\<lambda>fastVaaAccount.
     bnd (vaaAccount_digest env fastVaaAccount) (\<lambda>digest.
     let preparedOrderResponse = me_preparedOrderResponseAddress env p (HashUint8Array digest) in
     bnd (me_fetchAuction env p (AtAddress auction)) (\<lambda>a.
     bnd (case au_status a of
            Completed _ None \<Rightarrow> bnd (getTokenAccount env bestOfferToken) (\<lambda>token. Inr (ta_owner token))
          | _ \<Rightarrow> Inr executor) (\<lambda>executor.
     bnd (me_settleAuctionCompleteIx env p preparedOrderResponse (Some auction) (Some executor)
            (Some bestOfferToken) (Some bestOfferToken)) (\<lambda>settleAuctionCompletedIx.
     Inr (preparedTx [prepareOrderResponseIx, settleAuctionCompletedIx] signers opts
       ''settleAuctionComplete'' confirm)))))))"

section \<open>No auction\<close>

record fastFillOpts =
  fx_sourceChain :: "int option"
  fx_orderSender :: "byte list option"
  fx_sequence :: "uint64 option"

definition noFastFillOpts :: fastFillOpts where
  "noFastFillOpts = \<lparr>fx_sourceChain = None, fx_orderSender = None, fx_sequence = None\<rparr>"

text \<open>
  The check of the source chain is made on the fetched seeds, whenever anything is fetched, even if the
  caller gave the chain.
\<close>

definition me_settleAuctionNoneLocalIx :: "env \<Rightarrow> meProgram \<Rightarrow> pubkey \<Rightarrow> pubkey \<Rightarrow> pubkey option \<Rightarrow>
    pubkey option \<Rightarrow> fastFillOpts \<Rightarrow> instruction result" where
  "me_settleAuctionNoneLocalIx env p payer reservedSequence preparedOrderResponse auction opts =
     bnd (case (auction, preparedOrderResponse, fx_sourceChain opts, fx_orderSender opts, fx_sequence opts) of
            (Some a, Some r, Some c, Some s, Some q) \<Rightarrow> Inr (a, r, c, s, q)
          | _ \<Rightarrow>
              bnd (me_fetchReservedFastFillSequence env p (AtAddress reservedSequence)) (\<lambda>rs.
              let fastVaaHash = HashUint8Array (rq_fastVaaHash (rs_seeds rs));
                  seeds = rs_fastFillSeeds rs
              in bnd (throwIf (\<not> isChainId env (fs_sourceChain seeds)) (Error ''Invalid source chain'')) (\<lambda>_.
                 Inr (orElse auction (me_auctionAddress env p fastVaaHash),
                      orElse preparedOrderResponse (me_preparedOrderResponseAddress env p fastVaaHash),
                      orElse (fx_sourceChain opts) (fs_sourceChain seeds),
                      orElse (fx_orderSender opts) (fs_orderSender seeds),
                      orElse (fx_sequence opts) (UBN (fs_sequence seeds))))))
       (\<lambda>(auction, preparedOrderResponse, sourceChain, orderSender, sequence).
     bnd (me_fetchCustodian env p None) (\<lambda>custodian.
     bnd (me_fastFillAddress env p sourceChain orderSender sequence) (\<lambda>fastFill.
     bnd (me_localCustodyTokenAddress env p sourceChain) (\<lambda>localCustodyToken.
     Inr (AnchorCall (me_ID env p) ''settleAuctionNoneLocal'' []
       [(''payer'', Key payer),
        (''custodian'', me_checkedCustodianComposite env p None),
        (''feeRecipientToken'', Key (mc_feeRecipientToken custodian)),
        (''prepared'', me_closePreparedOrderResponseComposite env p payer preparedOrderResponse),
        (''auction'', Key auction),
        (''reservedSequence'', Key reservedSequence),
        (''fastFill'', Key fastFill),
        (''eventAuthority'', Key (me_eventAuthorityAddress env p)),
        (''program'', Key (me_ID env p)),
        (''localCustodyToken'', Key localCustodyToken),
        (''tokenProgram'', Key (tokenProgramId env)),
        (''systemProgram'', Key (systemProgramId env)),
        (''sysvars'', me_requiredSysvarsComposite env)])))))"

definition me_settleAuctionNoneCctpIx :: "env \<Rightarrow> meProgram \<Rightarrow> pubkey \<Rightarrow> pubkey \<Rightarrow> pubkey option \<Rightarrow>
    pubkey option \<Rightarrow> int option \<Rightarrow> int option \<Rightarrow> instruction result" where
  "me_settleAuctionNoneCctpIx env p payer fastVaa preparedOrderResponse auction sourceChain targetChain =
     bnd (case (auction, preparedOrderResponse) of
            (Some a, Some r) \<Rightarrow> Inr (a, r, None)
          | _ \<Rightarrow>
              bnd (vaaAccount_fetch env fastVaa) (\<lambda>v.
              bnd (orElseM auction (bnd (vaaAccount_digest env v) (\<lambda>d.
                     Inr (me_auctionAddress env p (HashUint8Array d))))) (\<lambda>a.
              bnd (orElseM preparedOrderResponse (bnd (vaaAccount_digest env v) (\<lambda>d.
                     Inr (me_preparedOrderResponseAddress env p (HashUint8Array d))))) (\<lambda>r.
              Inr (a, r, Some v)))))
       (\<lambda>(auction, preparedOrderResponse, fetched).
     bnd (case (sourceChain, targetChain) of
            (Some _, Some t) \<Rightarrow> Inr t
          | _ \<Rightarrow>
              bnd (orElseM fetched (vaaAccount_fetch env fastVaa)) (\<lambda>v.
              bnd (orElseM sourceChain (bnd (vaaAccount_emitterInfo env v) (\<lambda>i. Inr (ef_chain i)))) (\<lambda>_.
              bnd (fastMarketOrderOf env v) (\<lambda>order.
              orElseM targetChain (toChainId env (fm_targetChain order)))))) (\<lambda>targetChain.
     bnd (me_burnAndPublishAccounts env p auction targetChain None) (\<lambda>b.
     bnd (me_fetchCustodian env p None) (\<lambda>custodian.
     Inr (AnchorCall (me_ID env p) ''settleAuctionNoneCctp'' []
       [(''payer'', Key payer),
        (''coreMessage'', Key (bp_coreMessage b)),
        (''cctpMessage'', Key (bp_cctpMessage b)),
        (''custodian'', me_checkedCustodianComposite env p (Some (bp_custodian b))),
        (''feeRecipientToken'', Key (mc_feeRecipientToken custodian)),
        (''prepared'', me_closePreparedOrderResponseComposite env p payer preparedOrderResponse),
        (''auction'', Key auction),
        (''wormhole'', wormholeGroup b),
        (''cctp'', cctpBurnGroup (me_mint p) b),
        (''tokenProgram'', Key (tokenProgramId env)),
        (''systemProgram'', Key (systemProgramId env)),
        (''sysvars'', me_requiredSysvarsComposite env),
        (''eventAuthority'', Key (me_eventAuthorityAddress env p)),
        (''program'', Key (me_ID env p))])))))"

text \<open>
  The transaction for an order without an auction: local if the order's target is Solana, through CCTP
  otherwise. The CCTP instruction is built without the auction that the caller may have given.
\<close>

definition me_settleAuctionNoneTx :: "env \<Rightarrow> meProgram \<Rightarrow> pubkey \<Rightarrow> pubkey \<Rightarrow> pubkey \<Rightarrow> pubkey option \<Rightarrow>
    cctpMessageArgs \<Rightarrow> pubkey list \<Rightarrow> preparedTransactionOptions \<Rightarrow> confirmOptions option \<Rightarrow>
    preparedTransaction result" where
  "me_settleAuctionNoneTx env p executor fastVaa finalizedVaa auction args signers opts confirm =
     bnd (me_fetchCustodian env p None) (\<lambda>custodian.
     bnd (me_prepareOrderResponseCctpIx env p executor fastVaa finalizedVaa
            (Some (mc_feeRecipientToken custodian)) args) (\<lambda>prepareOrderResponseIx.
     bnd (vaaAccount_fetch env fastVaa) (\<lambda>fastVaaAccount.
     bnd (fastMarketOrderOf env fastVaaAccount) (\<lambda>order.
     bnd (vaaAccount_digest env fastVaaAccount) (\<lambda>digest.
     let fastVaaHash = HashUint8Array digest;
         preparedOrderResponse = me_preparedOrderResponseAddress env p fastVaaHash in
     bnd (if fm_targetChain order = ''Solana'' then
            me_settleAuctionNoneLocalIx env p executor (me_reservedFastFillSequenceAddress env p fastVaaHash)
              (Some preparedOrderResponse) auction noFastFillOpts
          else
            bnd (toChainId env (fm_targetChain order)) (\<lambda>targetChain.
            me_settleAuctionNoneCctpIx env p executor fastVaa (Some preparedOrderResponse) None
              None (Some targetChain))) (\<lambda>settleAuctionNoneIx.
     Inr (preparedTx [prepareOrderResponseIx, settleAuctionNoneIx] signers opts
       ''settleAuctionComplete'' confirm)))))))"

section \<open>Closing an auction\<close>

definition me_closeAuctionIx :: "env \<Rightarrow> meProgram \<Rightarrow> pubkey \<Rightarrow> pubkey option \<Rightarrow> instruction result" where
  "me_closeAuctionIx env p auction beneficiary =
     bnd (orElseM beneficiary
            (bnd (me_fetchAuction env p (AtAddress auction)) (\<lambda>a. Inr (au_preparedBy a)))) (\<lambda>beneficiary.
     Inr (AnchorCall (me_ID env p) ''closeAuction'' []
       [(''auction'', Key auction),
        (''beneficiary'', Key beneficiary),
        (''eventAuthority'', Key (me_eventAuthorityAddress env p)),
        (''program'', Key (me_ID env p))]))"

definition me_closeAuctionTx :: "env \<Rightarrow> meProgram \<Rightarrow> pubkey \<Rightarrow> pubkey \<Rightarrow> pubkey list \<Rightarrow>
    preparedTransactionOptions \<Rightarrow> confirmOptions option \<Rightarrow> preparedTransaction result" where
  "me_closeAuctionTx env p auction beneficiary signers opts confirm =
     bnd (me_closeAuctionIx env p auction (Some beneficiary)) (\<lambda>closeAuctionIx.
     Inr (preparedTx [closeAuctionIx] signers opts ''closeAuction'' confirm))"

end
