(* ===== verification/Me_Execute.thy ===== *)
theory Me_Execute
  imports Me_Settle
begin

text \<open>
  Executing a fast order (\<open>solana/ts/src/matchingEngine/index.ts\<close>): reserving the sequence of a fast
  fill for an order with or without an active auction, executing the order locally or through CCTP, and
  the transaction that chooses between the two by the order's target chain.
\<close>

section \<open>Reserving a fast fill sequence\<close>

record reserveOpts =
  ro_fastVaaHash :: "vaaHash option"
  ro_sourceChain :: "int option"
  ro_orderSender :: "byte list option"
  ro_targetChain :: "int option"

record reserveComposite =
  rc_accounts :: "(string \<times> acct) list"
  rc_auction :: pubkey
  rc_fastVaaHash :: vaaHash
  rc_sourceChain :: int
  rc_orderSender :: "byte list"
  rc_targetChain :: int

definition me_reserveFastFillSequenceComposite :: "env \<Rightarrow> meProgram \<Rightarrow> pubkey \<Rightarrow> pubkey \<Rightarrow> pubkey option \<Rightarrow>
    pubkey option \<Rightarrow> pubkey option \<Rightarrow> pubkey option \<Rightarrow> pubkey option \<Rightarrow> reserveOpts \<Rightarrow> reserveComposite result" where
  "me_reserveFastFillSequenceComposite env p payer fastVaa fromEndpoint toEndpoint sequencer reserved auction opts =
     bnd (case (ro_fastVaaHash opts, ro_sourceChain opts, ro_orderSender opts, ro_targetChain opts) of
            (Some h, Some c, Some s, Some t) \<Rightarrow> Inr (h, c, s, t)
          | _ \<Rightarrow>
              bnd (vaaAccount_fetch env fastVaa) (\<lambda>v.
              bnd (orElseM (ro_fastVaaHash opts)
                    (bnd (vaaAccount_digest env v) (\<lambda>d. Inr (HashUint8Array d)))) (\<lambda>h.
              bnd (orElseM (ro_sourceChain opts)
                    (bnd (vaaAccount_emitterInfo env v) (\<lambda>i. Inr (ef_chain i)))) (\<lambda>c.
              bnd (fastMarketOrderOf env v) (\<lambda>order.
              bnd (orElseM (ro_targetChain opts) (toChainId env (fm_targetChain order))) (\<lambda>t.
              Inr (h, c, orElse (ro_orderSender opts) (fm_sender order), t)))))))
       (\<lambda>(fastVaaHash, sourceChain, orderSender, targetChain).
     bnd (orElseM fromEndpoint (me_routerEndpointAddress env p sourceChain)) (\<lambda>fromEndpoint.
     bnd (orElseM toEndpoint (me_routerEndpointAddress env p targetChain)) (\<lambda>toEndpoint.
     bnd (orElseM sequencer (me_fastFillSequencerAddress env p sourceChain orderSender)) (\<lambda>sequencer.
     let reserved = orElse reserved (me_reservedFastFillSequenceAddress env p fastVaaHash);
         auction = orElse auction (me_auctionAddress env p fastVaaHash)
     in Inr \<lparr>
       rc_accounts =
         [(''payer'', Key payer),
          (''fastOrderPath'', me_fastOrderPathComposite fastVaa fromEndpoint toEndpoint),
          (''sequencer'', Key sequencer),
          (''reserved'', Key reserved),
          (''auction'', Key auction),
          (''systemProgram'', Key (systemProgramId env))],
       rc_auction = auction,
       rc_fastVaaHash = fastVaaHash, rc_sourceChain = sourceChain, rc_orderSender = orderSender,
       rc_targetChain = targetChain\<rparr>))))"

definition me_reserveFastFillSequenceActiveAuctionIx :: "env \<Rightarrow> meProgram \<Rightarrow> pubkey \<Rightarrow> pubkey \<Rightarrow> pubkey option \<Rightarrow>
    pubkey option \<Rightarrow> pubkey option \<Rightarrow> pubkey option \<Rightarrow> pubkey option \<Rightarrow> pubkey option \<Rightarrow> reserveOpts \<Rightarrow>
    instruction result" where
  "me_reserveFastFillSequenceActiveAuctionIx env p payer fastVaa fromEndpoint toEndpoint fastFillSequencer
     reservedSequence auction auctionConfig opts =
     bnd (me_reserveFastFillSequenceComposite env p payer fastVaa fromEndpoint toEndpoint fastFillSequencer
            reservedSequence auction opts) (\<lambda>rc.
     bnd (orElseM auctionConfig
            (bnd (me_fetchAuction env p (AtAddress (rc_auction rc))) (\<lambda>a.
             case au_info a of
               None \<Rightarrow> Inl (Error ''no auction info found'')
             | Some info \<Rightarrow> me_auctionConfigAddress env p (ai_configId info)))) (\<lambda>auctionConfig.
     Inr (AnchorCall (me_ID env p) ''reserveFastFillSequenceActiveAuction'' []
       [(''reserveSequence'', Group (rc_accounts rc)),
        (''auctionConfig'', Key auctionConfig),
        (''eventAuthority'', Key (me_eventAuthorityAddress env p)),
        (''program'', Key (me_ID env p))])))"

text \<open>
  Without an auction the composite is built without the caller's auction, which is only assigned to a
  local variable that nothing reads.
\<close>

definition me_reserveFastFillSequenceNoAuctionIx :: "env \<Rightarrow> meProgram \<Rightarrow> pubkey \<Rightarrow> pubkey \<Rightarrow> pubkey option \<Rightarrow>
    pubkey option \<Rightarrow> pubkey option \<Rightarrow> pubkey option \<Rightarrow> pubkey option \<Rightarrow> pubkey option \<Rightarrow> reserveOpts \<Rightarrow>
    instruction result" where
  "me_reserveFastFillSequenceNoAuctionIx env p payer fastVaa fromEndpoint toEndpoint fastFillSequencer
     reservedSequence auction preparedOrderResponse opts =
     bnd (me_reserveFastFillSequenceComposite env p payer fastVaa fromEndpoint toEndpoint fastFillSequencer
            reservedSequence None opts) (\<lambda>rc.
     Inr (AnchorCall (me_ID env p) ''reserveFastFillSequenceNoAuction'' []
       [(''reserveSequence'', Group (rc_accounts rc)),
        (''preparedOrderResponse'', Key (orElse preparedOrderResponse
           (me_preparedOrderResponseAddress env p (rc_fastVaaHash rc)))),
        (''eventAuthority'', Key (me_eventAuthorityAddress env p)),
        (''program'', Key (me_ID env p))]))"

section \<open>Executing an order\<close>

text \<open>\<open>executeOrder: {...}\<close> of both instructions.\<close>

definition executeOrderGroup :: "pubkey \<Rightarrow> acct \<Rightarrow> pubkey \<Rightarrow> pubkey \<Rightarrow> pubkey \<Rightarrow> acct" where
  "executeOrderGroup fastVaa activeAuction executorToken initialOfferToken initialParticipant = Group
     [(''fastVaa'', me_liquidityLayerVaaComposite fastVaa),
      (''activeAuction'', activeAuction),
      (''executorToken'', Key executorToken),
      (''initialOfferToken'', Key initialOfferToken),
      (''initialParticipant'', Key initialParticipant)]"

text \<open>The initial offer token and participant, read from the auction if either is missing.\<close>

definition me_initialOffer :: "env \<Rightarrow> meProgram \<Rightarrow> pubkey \<Rightarrow> pubkey option \<Rightarrow> pubkey option \<Rightarrow>
    (pubkey \<times> pubkey \<times> auctionInfo option) result" where
  "me_initialOffer env p auction initialOfferToken initialParticipant =
     (case (initialOfferToken, initialParticipant) of
        (Some t, Some i) \<Rightarrow> Inr (t, i, None)
      | _ \<Rightarrow>
          bnd (me_fetchAuction env p (AtAddress auction)) (\<lambda>a.
          case au_info a of
            None \<Rightarrow> Inl (Error ''no auction info found'')
          | Some info \<Rightarrow>
              Inr (orElse initialOfferToken (ai_initialOfferToken info),
                   orElse initialParticipant (au_preparedBy a), Some info)))"

definition me_executeFastOrderCctpIx :: "env \<Rightarrow> meProgram \<Rightarrow> pubkey \<Rightarrow> pubkey \<Rightarrow> pubkey option \<Rightarrow> pubkey option \<Rightarrow>
    pubkey option \<Rightarrow> pubkey option \<Rightarrow> pubkey option \<Rightarrow> pubkey option \<Rightarrow> int option \<Rightarrow> instruction result" where
  "me_executeFastOrderCctpIx env p payer fastVaa executorToken auction auctionConfig bestOfferToken
     initialOfferToken initialParticipant targetChain =
     bnd (orElseM executorToken (associatedTokenAddress env (me_mint p) payer False)) (\<lambda>executorToken.
     bnd (case auction of
            Some a \<Rightarrow> Inr (a, None)
          | None \<Rightarrow>
              bnd (vaaAccount_fetch env fastVaa) (\<lambda>v.
              bnd (vaaAccount_digest env v) (\<lambda>d.
              Inr (me_auctionAddress env p (HashUint8Array d), Some v)))) (\<lambda>(auction, fetched).
     bnd (orElseM targetChain
            (bnd (orElseM fetched (vaaAccount_fetch env fastVaa)) (\<lambda>v.
             bnd (fastMarketOrderOf env v) (\<lambda>order. toChainId env (fm_targetChain order))))) (\<lambda>targetChain.
     bnd (me_initialOffer env p auction initialOfferToken initialParticipant)
       (\<lambda>(initialOfferToken, initialParticipant, auctionInfo).
     bnd (me_burnAndPublishAccounts env p auction targetChain None) (\<lambda>b.
     bnd (me_activeAuctionComposite env p auction auctionConfig bestOfferToken auctionInfo) (\<lambda>activeAuction.
     Inr (AnchorCall (me_ID env p) ''executeFastOrderCctp'' []
       [(''payer'', Key payer),
        (''coreMessage'', Key (bp_coreMessage b)),
        (''cctpMessage'', Key (bp_cctpMessage b)),
        (''executeOrder'', executeOrderGroup fastVaa activeAuction executorToken initialOfferToken
           initialParticipant),
        (''toRouterEndpoint'', me_routerEndpointComposite (bp_routerEndpoint b)),
        (''custodian'', me_checkedCustodianComposite env p (Some (bp_custodian b))),
        (''wormhole'', wormholeGroup b),
        (''cctp'', cctpBurnGroup (me_mint p) b),
        (''tokenProgram'', Key (tokenProgramId env)),
        (''systemProgram'', Key (systemProgramId env)),
        (''sysvars'', me_requiredSysvarsComposite env),
        (''eventAuthority'', Key (me_eventAuthorityAddress env p)),
        (''program'', Key (me_ID env p))])))))))"

record executeLocalAccounts =
  xl_payer :: pubkey
  xl_fastVaa :: pubkey
  xl_reservedSequence :: "pubkey option"
  xl_executorToken :: "pubkey option"
  xl_auction :: "pubkey option"
  xl_auctionConfig :: "pubkey option"
  xl_bestOfferToken :: "pubkey option"
  xl_initialOfferToken :: "pubkey option"
  xl_initialParticipant :: "pubkey option"
  xl_reserveBeneficiary :: "pubkey option"

definition me_executeFastOrderLocalIx ::
  "env \<Rightarrow> meProgram \<Rightarrow> executeLocalAccounts \<Rightarrow> fastFillOpts \<Rightarrow> instruction result" where
  "me_executeFastOrderLocalIx env p accts opts =
     bnd (orElseM (xl_executorToken accts) (associatedTokenAddress env (me_mint p) (xl_payer accts) False))
       (\<lambda>executorToken.
     bnd (case (xl_auction accts, xl_reservedSequence accts, fx_sourceChain opts, fx_orderSender opts) of
            (Some a, Some r, Some c, Some s) \<Rightarrow> Inr (a, r, c, s)
          | _ \<Rightarrow>
              bnd (vaaAccount_fetch env (xl_fastVaa accts)) (\<lambda>v.
              bnd (vaaAccount_digest env v) (\<lambda>d.
              let fastVaaHash = HashUint8Array d in
              bnd (orElseM (fx_sourceChain opts)
                    (bnd (vaaAccount_emitterInfo env v) (\<lambda>i. Inr (ef_chain i)))) (\<lambda>c.
              bnd (fastMarketOrderOf env v) (\<lambda>order.
              Inr (orElse (xl_auction accts) (me_auctionAddress env p fastVaaHash),
                   orElse (xl_reservedSequence accts) (me_reservedFastFillSequenceAddress env p fastVaaHash),
                   c, orElse (fx_orderSender opts) (fm_sender order)))))))
       (\<lambda>(auction, reservedSequence, sourceChain, orderSender).
     bnd (case (fx_sequence opts, xl_reserveBeneficiary accts) of
            (Some q, Some b) \<Rightarrow> Inr (q, b)
          | _ \<Rightarrow>
              bnd (me_fetchReservedFastFillSequence env p (AtAddress reservedSequence)) (\<lambda>rs.
              Inr (orElse (fx_sequence opts) (UBN (fs_sequence (rs_fastFillSeeds rs))),
                   orElse (xl_reserveBeneficiary accts) (rs_beneficiary rs))))
       (\<lambda>(sequence, reserveBeneficiary).
     bnd (me_initialOffer env p auction (xl_initialOfferToken accts) (xl_initialParticipant accts))
       (\<lambda>(initialOfferToken, initialParticipant, auctionInfo).
     bnd (me_activeAuctionComposite env p auction (xl_auctionConfig accts) (xl_bestOfferToken accts) auctionInfo)
       (\<lambda>activeAuction.
     bnd (me_fastFillAddress env p sourceChain orderSender sequence) (\<lambda>fastFill.
     bnd (me_localCustodyTokenAddress env p sourceChain) (\<lambda>localCustodyToken.
     Inr (AnchorCall (me_ID env p) ''executeFastOrderLocal'' []
       [(''payer'', Key (xl_payer accts)),
        (''custodian'', me_checkedCustodianComposite env p None),
        (''executeOrder'', executeOrderGroup (xl_fastVaa accts) activeAuction executorToken initialOfferToken
           initialParticipant),
        (''reservedSequence'', Key reservedSequence),
        (''reserveBeneficiary'', Key reserveBeneficiary),
        (''fastFill'', Key fastFill),
        (''eventAuthority'', Key (me_eventAuthorityAddress env p)),
        (''program'', Key (me_ID env p)),
        (''localCustodyToken'', Key localCustodyToken),
        (''tokenProgram'', Key (tokenProgramId env)),
        (''systemProgram'', Key (systemProgramId env)),
        (''sysvars'', me_requiredSysvarsComposite env)]))))))))"

text \<open>
  The transaction. If the auction or the reserved sequence is missing, both are overwritten with the
  addresses derived from the VAA.
\<close>

definition me_executeFastOrderTx :: "env \<Rightarrow> meProgram \<Rightarrow> pubkey \<Rightarrow> pubkey \<Rightarrow> pubkey option \<Rightarrow> pubkey option \<Rightarrow>
    pubkey option \<Rightarrow> pubkey list \<Rightarrow> preparedTransactionOptions \<Rightarrow> confirmOptions option \<Rightarrow>
    preparedTransaction result" where
  "me_executeFastOrderTx env p payer fastVaa auction executorToken reservedSequence signers opts confirm =
     bnd (case (auction, reservedSequence) of
            (Some a, Some r) \<Rightarrow>
              bnd (vaaAccount_fetch env fastVaa) (\<lambda>v.
              bnd (fastMarketOrderOf env v) (\<lambda>order.
              bnd (toChainId env (fm_targetChain order)) (\<lambda>t. Inr (a, r, t))))
          | _ \<Rightarrow>
              bnd (vaaAccount_fetch env fastVaa) (\<lambda>v.
              bnd (vaaAccount_digest env v) (\<lambda>d.
              let fastVaaHash = HashUint8Array d in
              bnd (fastMarketOrderOf env v) (\<lambda>order.
              bnd (toChainId env (fm_targetChain order)) (\<lambda>t.
              Inr (me_auctionAddress env p fastVaaHash,
                   me_reservedFastFillSequenceAddress env p fastVaaHash, t))))))
       (\<lambda>(auction, reservedSequence, targetChain).
     bnd (toChainId env ''Solana'') (\<lambda>solana.
     bnd (if targetChain = solana then
            me_executeFastOrderLocalIx env p \<lparr>
              xl_payer = payer, xl_fastVaa = fastVaa, xl_reservedSequence = Some reservedSequence,
              xl_executorToken = executorToken, xl_auction = Some auction, xl_auctionConfig = None,
              xl_bestOfferToken = None, xl_initialOfferToken = None, xl_initialParticipant = None,
              xl_reserveBeneficiary = None\<rparr> noFastFillOpts
          else
            me_executeFastOrderCctpIx env p payer fastVaa executorToken (Some auction) None None None None
              (Some targetChain)) (\<lambda>executeOrderIx.
     Inr (preparedTx [executeOrderIx] signers opts ''executeOrder'' confirm))))"

end
