(* ===== verification/Me_Admin.thy ===== *)
theory Me_Admin
  imports Me_Program
begin

text \<open>
  The administrative instructions of \<open>MatchingEngineProgram\<close>
  (\<open>solana/ts/src/matchingEngine/index.ts\<close>): initialization, pause, ownership, router endpoints, auction
  parameter proposals and the fee recipient. Each builder is a function from its accounts and arguments
  to the Anchor call it hands over, or to the error it throws on the way. Optional accounts are options;
  the order of the accounts is the order of the code's object literals.
\<close>

definition me_initializeIx :: "env \<Rightarrow> meProgram \<Rightarrow> pubkey \<Rightarrow> pubkey \<Rightarrow> pubkey \<Rightarrow> pubkey option \<Rightarrow>
    auctionParameters \<Rightarrow> instruction result" where
  "me_initializeIx env p owner ownerAssistant feeRecipient mint auctionParams =
     bnd (me_upgradeManagerProgram p) (\<lambda>upgradeManager.
     bnd (me_auctionConfigAddress env p 0) (\<lambda>auctionConfig.
     bnd (associatedTokenAddress env (me_mint p) feeRecipient False) (\<lambda>feeRecipientToken.
     bnd (me_cctpMintRecipientAddress env p) (\<lambda>cctpMintRecipient.
     Inr (AnchorCall (me_ID env p) ''initialize''
       [ArgObject [(''auctionParams'', argAuctionParameters auctionParams)]]
       [(''owner'', Key owner),
        (''custodian'', Key (me_custodianAddress env p)),
        (''auctionConfig'', Key auctionConfig),
        (''ownerAssistant'', Key ownerAssistant),
        (''feeRecipient'', Key feeRecipient),
        (''feeRecipientToken'', Key feeRecipientToken),
        (''cctpMintRecipient'', Key cctpMintRecipient),
        (''usdc'', me_usdcComposite p mint),
        (''programData'', Key (programDataAddress env (me_ID env p))),
        (''upgradeManagerAuthority'', Key (um_upgradeAuthorityAddress env upgradeManager)),
        (''upgradeManagerProgram'', Key (um_ID env upgradeManager)),
        (''bpfLoaderUpgradeableProgram'', Key (BPF_LOADER_UPGRADEABLE_PROGRAM_ID env)),
        (''associatedTokenProgram'', Key (associatedTokenProgramId env)),
        (''tokenProgram'', Key (tokenProgramId env)),
        (''systemProgram'', Key (systemProgramId env))])))))"

definition me_setPauseIx :: "env \<Rightarrow> meProgram \<Rightarrow> pubkey \<Rightarrow> pubkey option \<Rightarrow> bool \<Rightarrow> instruction" where
  "me_setPauseIx env p ownerOrAssistant custodian paused =
     AnchorCall (me_ID env p) ''setPause'' [ArgBool paused]
       [(''admin'', me_adminMutComposite env p ownerOrAssistant custodian)]"

definition me_submitOwnershipTransferIx ::
  "env \<Rightarrow> meProgram \<Rightarrow> pubkey \<Rightarrow> pubkey \<Rightarrow> pubkey option \<Rightarrow> instruction" where
  "me_submitOwnershipTransferIx env p owner newOwner custodian =
     AnchorCall (me_ID env p) ''submitOwnershipTransferRequest'' []
       [(''admin'', me_ownerOnlyMutComposite env p owner custodian),
        (''newOwner'', Key newOwner)]"

definition me_confirmOwnershipTransferIx ::
  "env \<Rightarrow> meProgram \<Rightarrow> pubkey \<Rightarrow> pubkey option \<Rightarrow> instruction" where
  "me_confirmOwnershipTransferIx env p pendingOwner custodian =
     AnchorCall (me_ID env p) ''confirmOwnershipTransferRequest'' []
       [(''pendingOwner'', Key pendingOwner),
        (''custodian'', Key (orElse custodian (me_custodianAddress env p)))]"

definition me_cancelOwnershipTransferIx ::
  "env \<Rightarrow> meProgram \<Rightarrow> pubkey \<Rightarrow> pubkey option \<Rightarrow> instruction" where
  "me_cancelOwnershipTransferIx env p owner custodian =
     AnchorCall (me_ID env p) ''cancelOwnershipTransferRequest'' []
       [(''admin'', me_ownerOnlyMutComposite env p owner custodian)]"

definition me_updateOwnerAssistantIx ::
  "env \<Rightarrow> meProgram \<Rightarrow> pubkey \<Rightarrow> pubkey \<Rightarrow> pubkey option \<Rightarrow> instruction" where
  "me_updateOwnerAssistantIx env p owner newOwnerAssistant custodian =
     AnchorCall (me_ID env p) ''updateOwnerAssistant'' []
       [(''admin'', me_ownerOnlyMutComposite env p owner custodian),
        (''newOwnerAssistant'', Key newOwnerAssistant)]"

section \<open>Router endpoints\<close>

record addCctpRouterEndpointArgs =
  ra_chain :: int
  ra_cctpDomain :: int
  ra_address :: "byte list"
  ra_mintRecipient :: "byte list option"

definition argCctpRouterEndpoint :: "addCctpRouterEndpointArgs \<Rightarrow> arg" where
  "argCctpRouterEndpoint args = ArgObject
     [(''chain'', ArgNum (ra_chain args)),
      (''cctpDomain'', ArgNum (ra_cctpDomain args)),
      (''address'', ArgBytes (ra_address args)),
      (''mintRecipient'', case ra_mintRecipient args of None \<Rightarrow> ArgNull | Some m \<Rightarrow> ArgBytes m)]"

definition me_addCctpRouterEndpointIx :: "env \<Rightarrow> meProgram \<Rightarrow> pubkey \<Rightarrow> pubkey option \<Rightarrow> pubkey option \<Rightarrow>
    pubkey option \<Rightarrow> pubkey option \<Rightarrow> addCctpRouterEndpointArgs \<Rightarrow> instruction result" where
  "me_addCctpRouterEndpointIx env p ownerOrAssistant payer custodian routerEndpoint remoteTokenMessenger args =
     bnd (orElseM routerEndpoint (me_routerEndpointAddress env p (ra_chain args))) (\<lambda>endpoint.
     bnd (me_localCustodyTokenAddress env p (ra_chain args)) (\<lambda>localCustodyToken.
     Inr (AnchorCall (me_ID env p) ''addCctpRouterEndpoint'' [argCctpRouterEndpoint args]
       [(''payer'', Key (orElse payer ownerOrAssistant)),
        (''admin'', me_adminComposite env p ownerOrAssistant custodian),
        (''routerEndpoint'', Key endpoint),
        (''localCustodyToken'', Key localCustodyToken),
        (''remoteTokenMessenger'', Key (orElse remoteTokenMessenger
           (tmm_remoteTokenMessengerAddress env me_tokenMessengerMinterProgram (ra_cctpDomain args)))),
        (''usdc'', me_usdcComposite p None),
        (''tokenProgram'', Key (tokenProgramId env)),
        (''systemProgram'', Key (systemProgramId env))])))"

definition me_updateCctpRouterEndpointIx :: "env \<Rightarrow> meProgram \<Rightarrow> pubkey \<Rightarrow> pubkey option \<Rightarrow>
    pubkey option \<Rightarrow> pubkey option \<Rightarrow> addCctpRouterEndpointArgs \<Rightarrow> instruction result" where
  "me_updateCctpRouterEndpointIx env p owner custodian routerEndpoint remoteTokenMessenger args =
     bnd (orElseM routerEndpoint (me_routerEndpointAddress env p (ra_chain args))) (\<lambda>endpoint.
     Inr (AnchorCall (me_ID env p) ''updateCctpRouterEndpoint'' [argCctpRouterEndpoint args]
       [(''admin'', me_ownerOnlyComposite env p owner custodian),
        (''routerEndpoint'', me_routerEndpointComposite endpoint),
        (''remoteTokenMessenger'', Key (orElse remoteTokenMessenger
           (tmm_remoteTokenMessengerAddress env me_tokenMessengerMinterProgram (ra_cctpDomain args))))]))"

definition me_addLocalRouterEndpointIx :: "env \<Rightarrow> meProgram \<Rightarrow> pubkey \<Rightarrow> pubkey \<Rightarrow> pubkey option \<Rightarrow>
    pubkey option \<Rightarrow> pubkey option \<Rightarrow> instruction result" where
  "me_addLocalRouterEndpointIx env p ownerOrAssistant tokenRouterProgram payer custodian routerEndpoint =
     bnd (orElseM routerEndpoint (bnd (toChainId env ''Solana'') (me_routerEndpointAddress env p))) (\<lambda>endpoint.
     bnd (me_localTokenRouterComposite env p tokenRouterProgram) (\<lambda>local.
     Inr (AnchorCall (me_ID env p) ''addLocalRouterEndpoint'' []
       [(''payer'', Key (orElse payer ownerOrAssistant)),
        (''admin'', me_adminComposite env p ownerOrAssistant custodian),
        (''routerEndpoint'', Key endpoint),
        (''local'', local),
        (''systemProgram'', Key (systemProgramId env))])))"

definition me_updateLocalRouterEndpointIx :: "env \<Rightarrow> meProgram \<Rightarrow> pubkey \<Rightarrow> pubkey \<Rightarrow> pubkey option \<Rightarrow>
    pubkey option \<Rightarrow> instruction result" where
  "me_updateLocalRouterEndpointIx env p owner tokenRouterProgram custodian routerEndpoint =
     bnd (orElseM routerEndpoint (bnd (toChainId env ''Solana'') (me_routerEndpointAddress env p))) (\<lambda>endpoint.
     bnd (me_localTokenRouterComposite env p tokenRouterProgram) (\<lambda>local.
     Inr (AnchorCall (me_ID env p) ''updateLocalRouterEndpoint'' []
       [(''admin'', me_ownerOnlyComposite env p owner custodian),
        (''routerEndpoint'', me_routerEndpointComposite endpoint),
        (''local'', local)])))"

definition me_disableRouterEndpointIx :: "env \<Rightarrow> meProgram \<Rightarrow> pubkey \<Rightarrow> pubkey option \<Rightarrow> pubkey option \<Rightarrow>
    int \<Rightarrow> instruction result" where
  "me_disableRouterEndpointIx env p owner custodian routerEndpoint chain =
     bnd (orElseM routerEndpoint (me_routerEndpointAddress env p chain)) (\<lambda>endpoint.
     Inr (AnchorCall (me_ID env p) ''disableRouterEndpoint'' []
       [(''admin'', me_ownerOnlyComposite env p owner custodian),
        (''routerEndpoint'', me_routerEndpointComposite endpoint)]))"

section \<open>Auction parameter proposals\<close>

definition me_proposeAuctionParametersIx :: "env \<Rightarrow> meProgram \<Rightarrow> pubkey \<Rightarrow> pubkey option \<Rightarrow> pubkey option \<Rightarrow>
    pubkey option \<Rightarrow> auctionParameters \<Rightarrow> uint64 option \<Rightarrow> instruction result" where
  "me_proposeAuctionParametersIx env p ownerOrAssistant payer custodian proposal parameters proposalId =
     bnd (orElseM proposal (me_proposalAddress env p proposalId)) (\<lambda>proposal.
     Inr (AnchorCall (me_ID env p) ''proposeAuctionParameters'' [argAuctionParameters parameters]
       [(''payer'', Key (orElse payer ownerOrAssistant)),
        (''admin'', Group [(''ownerOrAssistant'', Key ownerOrAssistant),
           (''custodian'', me_checkedCustodianComposite env p custodian)]),
        (''proposal'', Key proposal),
        (''epochSchedule'', Key (sysvarEpochSchedule env)),
        (''systemProgram'', Key (systemProgramId env)),
        (''eventAuthority'', Key (me_eventAuthorityAddress env p)),
        (''program'', Key (me_ID env p))]))"

definition me_closeProposalIx :: "env \<Rightarrow> meProgram \<Rightarrow> pubkey \<Rightarrow> pubkey option \<Rightarrow> uint64 option \<Rightarrow>
    instruction result" where
  "me_closeProposalIx env p ownerOrAssistant proposal proposalId =
     bnd (orElseM proposal (me_proposalAddress env p proposalId)) (\<lambda>proposal.
     bnd (me_fetchProposal env p (Some proposal)) (\<lambda>fetched.
     Inr (AnchorCall (me_ID env p) ''closeProposal'' []
       [(''admin'', me_adminComposite env p ownerOrAssistant None),
        (''proposedBy'', Key (pp_by fetched)),
        (''proposal'', Key proposal)])))"

definition me_updateAuctionParametersIx :: "env \<Rightarrow> meProgram \<Rightarrow> pubkey \<Rightarrow> pubkey option \<Rightarrow> pubkey option \<Rightarrow>
    pubkey option \<Rightarrow> pubkey option \<Rightarrow> uint64 option \<Rightarrow> instruction result" where
  "me_updateAuctionParametersIx env p owner payer custodian proposal auctionConfig proposalId =
     bnd (orElseM proposal (me_proposalAddress env p proposalId)) (\<lambda>proposal.
     bnd (orElseM auctionConfig
            (bnd (me_fetchCustodian env p None) (\<lambda>c.
             me_auctionConfigAddress env p (mc_auctionConfigId c + 1)))) (\<lambda>config.
     Inr (AnchorCall (me_ID env p) ''updateAuctionParameters'' []
       [(''payer'', Key (orElse payer owner)),
        (''admin'', me_ownerOnlyMutComposite env p owner custodian),
        (''proposal'', Key proposal),
        (''auctionConfig'', Key config),
        (''systemProgram'', Key (systemProgramId env)),
        (''eventAuthority'', Key (me_eventAuthorityAddress env p)),
        (''program'', Key (me_ID env p))])))"

definition me_updateFeeRecipientIx :: "env \<Rightarrow> meProgram \<Rightarrow> pubkey \<Rightarrow> pubkey \<Rightarrow> pubkey option \<Rightarrow>
    instruction result" where
  "me_updateFeeRecipientIx env p ownerOrAssistant newFeeRecipient custodian =
     bnd (associatedTokenAddress env (me_mint p) newFeeRecipient False) (\<lambda>newFeeRecipientToken.
     Inr (AnchorCall (me_ID env p) ''updateFeeRecipient'' []
       [(''admin'', me_adminMutComposite env p ownerOrAssistant custodian),
        (''newFeeRecipient'', Key newFeeRecipient),
        (''newFeeRecipientToken'', Key newFeeRecipientToken)]))"

end
