(* ===== verification/Tr_Program.thy ===== *)
theory Tr_Program
  imports Me_Program
begin

text \<open>
  \<open>TokenRouterProgram\<close> of \<open>solana/ts/src/tokenRouter/index.ts\<close>: the program object, its addresses and
  fetching methods, the account groups of its instructions, the programs it talks to, and the
  administrative instructions. Market orders and fills are in \<open>Tr_Orders\<close>.
\<close>

section \<open>The program object\<close>

definition TR_PROGRAM_IDS :: "string list" where
  "TR_PROGRAM_IDS =
     [''TokenRouter11111111111111111111111111111111'',
      ''tD8RmtdcV7bzBeuFgyrFc8wvayj988ChccEzRQzo6md'',
      ''28topqjtJzMnPaGFmmZk68tzGmj9W9aMntaEK3QkgtRe'']"

definition tr_mainnet :: string where
  "tr_mainnet = ''28topqjtJzMnPaGFmmZk68tzGmj9W9aMntaEK3QkgtRe''"

definition tr_testnet :: string where
  "tr_testnet = ''tD8RmtdcV7bzBeuFgyrFc8wvayj988ChccEzRQzo6md''"

definition tr_localnet :: string where
  "tr_localnet = ''TokenRouter11111111111111111111111111111111''"

record trProgram =
  tr_programId :: string
  tr_mint :: pubkey

definition tr_ID :: "env \<Rightarrow> trProgram \<Rightarrow> pubkey" where
  "tr_ID env p = newPublicKey env (tr_programId p)"

section \<open>Programs it talks to\<close>

definition tr_upgradeManagerProgram :: "trProgram \<Rightarrow> string result" where
  "tr_upgradeManagerProgram p =
     (if tr_programId p = tr_testnet then Inr ''ucdP9ktgrXgEUnn6roqD2SfdGMR2JSiWHUKv23oXwxt''
      else if tr_programId p = tr_localnet then Inr ''UpgradeManager11111111111111111111111111111''
      else Inl (Error ''unsupported network''))"

definition tr_tokenMessengerMinterProgram :: string where
  "tr_tokenMessengerMinterProgram =
     newTokenMessengerMinterProgram (Some ''CCTPiPYPc6AsJuwueEnWgSgucamXDZwBd53dQ11YiKX3'')"

definition tr_messageTransmitterProgram :: string where
  "tr_messageTransmitterProgram =
     newMessageTransmitterProgram (Some ''CCTPmbSD7gX1bxKPAmg77w8oFzNFpaQiQUWD43TKaecd'')"

definition tr_matchingEngineProgram :: "trProgram \<Rightarrow> meProgram result" where
  "tr_matchingEngineProgram p =
     (if tr_programId p = tr_mainnet then Inr \<lparr>me_programId = me_mainnet, me_mint = tr_mint p\<rparr>
      else if tr_programId p = tr_testnet then Inr \<lparr>me_programId = me_testnet, me_mint = tr_mint p\<rparr>
      else if tr_programId p = tr_localnet then Inr \<lparr>me_programId = me_localnet, me_mint = tr_mint p\<rparr>
      else Inl (Error ''unsupported network''))"

definition tr_coreBridgeProgramId :: "env \<Rightarrow> trProgram \<Rightarrow> pubkey result" where
  "tr_coreBridgeProgramId env p =
     (if tr_programId p = tr_mainnet
      then Inr (newPublicKey env ''worm2ZoG2kUd4vFXhvjh93UUH596ayRfgQ2MgjNMTth'')
      else if tr_programId p = tr_testnet
      then Inr (newPublicKey env ''3u8hJUVTA4jH1wYAyUur7FFZVQ8H635K3tSHHF4ssjQ5'')
      else if tr_programId p = tr_localnet
      then Inr (newPublicKey env ''worm2ZoG2kUd4vFXhvjh93UUH596ayRfgQ2MgjNMTth'')
      else Inl (Error ''unsupported network''))"

section \<open>Addresses and fetched accounts\<close>

definition tr_custodianAddress :: "env \<Rightarrow> trProgram \<Rightarrow> pubkey" where
  "tr_custodianAddress env p = custodian_address env (tr_ID env p)"

definition tr_fetchCustodian :: "env \<Rightarrow> trProgram \<Rightarrow> pubkey option \<Rightarrow> tr_custodian result" where
  "tr_fetchCustodian env p input = acctTrCustodian env (orElse input (tr_custodianAddress env p))"

definition tr_cctpMintRecipientAddress :: "env \<Rightarrow> trProgram \<Rightarrow> pubkey result" where
  "tr_cctpMintRecipientAddress env p = associatedTokenAddress env (tr_mint p) (tr_custodianAddress env p) True"

definition tr_preparedCustodyTokenAddress :: "env \<Rightarrow> trProgram \<Rightarrow> pubkey \<Rightarrow> pubkey" where
  "tr_preparedCustodyTokenAddress env p preparedAccount =
     findProgramAddress env (preparedCustodyToken_seeds preparedAccount) (tr_ID env p)"

definition tr_coreMessageAddress :: "env \<Rightarrow> trProgram \<Rightarrow> pubkey \<Rightarrow> pubkey" where
  "tr_coreMessageAddress env p preparedOrder = coreMessageAddress env (tr_ID env p) preparedOrder"

definition tr_cctpMessageAddress :: "env \<Rightarrow> trProgram \<Rightarrow> pubkey \<Rightarrow> pubkey" where
  "tr_cctpMessageAddress env p preparedOrder = cctpMessageAddress env (tr_ID env p) preparedOrder"

definition tr_reclaimCctpMessageIx :: "env \<Rightarrow> trProgram \<Rightarrow> pubkey \<Rightarrow> pubkey \<Rightarrow> byte list \<Rightarrow> instruction" where
  "tr_reclaimCctpMessageIx env p payer cctpMessage cctpAttestation =
     reclaimCctpMessageIx env tr_messageTransmitterProgram payer cctpMessage cctpAttestation"

definition tr_fetchPreparedOrder :: "env \<Rightarrow> pubkey \<Rightarrow> preparedOrder result" where
  "tr_fetchPreparedOrder env addr = acctPreparedOrder env addr"

definition tr_preparedFillAddress :: "env \<Rightarrow> trProgram \<Rightarrow> pubkey \<Rightarrow> pubkey" where
  "tr_preparedFillAddress env p fillSource = preparedFill_address env (tr_ID env p) fillSource"

definition tr_fetchPreparedFill :: "env \<Rightarrow> pubkey \<Rightarrow> preparedFill result" where
  "tr_fetchPreparedFill env addr = acctPreparedFill env addr"

section \<open>Composites\<close>

definition tr_checkedCustodianComposite :: "env \<Rightarrow> trProgram \<Rightarrow> pubkey option \<Rightarrow> acct" where
  "tr_checkedCustodianComposite env p addr =
     Group [(''custodian'', Key (orElse addr (tr_custodianAddress env p)))]"

definition tr_adminComposite :: "env \<Rightarrow> trProgram \<Rightarrow> pubkey \<Rightarrow> pubkey option \<Rightarrow> acct" where
  "tr_adminComposite env p ownerOrAssistant custodian =
     Group [(''ownerOrAssistant'', Key ownerOrAssistant),
            (''custodian'', tr_checkedCustodianComposite env p custodian)]"

definition tr_adminMutComposite :: "env \<Rightarrow> trProgram \<Rightarrow> pubkey \<Rightarrow> pubkey option \<Rightarrow> acct" where
  "tr_adminMutComposite env p ownerOrAssistant custodian =
     Group [(''ownerOrAssistant'', Key ownerOrAssistant),
            (''custodian'', Key (orElse custodian (tr_custodianAddress env p)))]"

definition tr_ownerOnlyComposite :: "env \<Rightarrow> trProgram \<Rightarrow> pubkey \<Rightarrow> pubkey option \<Rightarrow> acct" where
  "tr_ownerOnlyComposite env p owner custodian =
     Group [(''owner'', Key owner), (''custodian'', tr_checkedCustodianComposite env p custodian)]"

definition tr_ownerOnlyMutComposite :: "env \<Rightarrow> trProgram \<Rightarrow> pubkey \<Rightarrow> pubkey option \<Rightarrow> acct" where
  "tr_ownerOnlyMutComposite env p owner custodian =
     Group [(''owner'', Key owner),
            (''custodian'', Key (orElse custodian (tr_custodianAddress env p)))]"

text \<open>The endpoint itself; the composite is the group of it alone.\<close>

definition tr_registeredEndpoint :: "env \<Rightarrow> trProgram \<Rightarrow> int option \<Rightarrow> pubkey option \<Rightarrow> pubkey result" where
  "tr_registeredEndpoint env p chain endpoint =
     (case (chain, endpoint) of
        (_, Some e) \<Rightarrow> Inr e
      | (None, None) \<Rightarrow> Inl (Error ''chain or endpoint must be provided'')
      | (Some c, None) \<Rightarrow> bnd (tr_matchingEngineProgram p) (\<lambda>me. me_routerEndpointAddress env me c))"

definition endpointGroup :: "pubkey \<Rightarrow> acct" where
  "endpointGroup e = Group [(''endpoint'', Key e)]"

definition tr_liquidityLayerVaaComposite :: "pubkey \<Rightarrow> acct" where
  "tr_liquidityLayerVaaComposite vaa = Group [(''vaa'', Key vaa)]"

definition tr_usdcComposite :: "trProgram \<Rightarrow> pubkey option \<Rightarrow> acct" where
  "tr_usdcComposite p mint = Group [(''mint'', Key (orElse mint (tr_mint p)))]"

definition tr_initIfNeededPreparedFillComposite ::
  "env \<Rightarrow> trProgram \<Rightarrow> pubkey \<Rightarrow> pubkey \<Rightarrow> pubkey \<Rightarrow> acct" where
  "tr_initIfNeededPreparedFillComposite env p payer vaa preparedFill =
     Group
       [(''payer'', Key payer),
        (''fillVaa'', tr_liquidityLayerVaaComposite vaa),
        (''preparedFill'', Key preparedFill),
        (''custodyToken'', Key (tr_preparedCustodyTokenAddress env p preparedFill)),
        (''usdc'', tr_usdcComposite p None),
        (''tokenProgram'', Key (tokenProgramId env)),
        (''systemProgram'', Key (systemProgramId env))]"

section \<open>Accounts\<close>

record tr_publishAccounts =
  tp_coreBridgeConfig :: pubkey
  tp_coreEmitterSequence :: pubkey
  tp_coreFeeCollector :: pubkey
  tp_coreBridgeProgram :: pubkey

definition tr_publishMessageAccounts :: "env \<Rightarrow> trProgram \<Rightarrow> pubkey \<Rightarrow> tr_publishAccounts result" where
  "tr_publishMessageAccounts env p emitter =
     bnd (tr_coreBridgeProgramId env p) (\<lambda>coreBridgeProgram. Inr \<lparr>
       tp_coreBridgeConfig = findProgramAddress env [ascii ''Bridge''] coreBridgeProgram,
       tp_coreEmitterSequence = findProgramAddress env [ascii ''Sequence'', emitter] coreBridgeProgram,
       tp_coreFeeCollector = findProgramAddress env [ascii ''fee_collector''] coreBridgeProgram,
       tp_coreBridgeProgram = coreBridgeProgram\<rparr>)"

record tokenRouterCommonAccounts =
  tm_tokenRouterProgram :: pubkey
  tm_systemProgram :: pubkey
  tm_rent :: pubkey
  tm_clock :: pubkey
  tm_custodian :: pubkey
  tm_cctpMintRecipient :: pubkey
  tm_coreBridgeConfig :: pubkey
  tm_coreEmitterSequence :: pubkey
  tm_coreFeeCollector :: pubkey
  tm_coreBridgeProgram :: pubkey
  tm_tokenMessenger :: pubkey
  tm_tokenMinter :: pubkey
  tm_tokenMessengerMinterSenderAuthority :: pubkey
  tm_tokenMessengerMinterProgram :: pubkey
  tm_messageTransmitterAuthority :: pubkey
  tm_messageTransmitterConfig :: pubkey
  tm_messageTransmitterProgram :: pubkey
  tm_tokenProgram :: pubkey
  tm_mint :: pubkey
  tm_localToken :: pubkey
  tm_tokenMessengerMinterCustodyToken :: pubkey
  tm_matchingEngineProgram :: pubkey
  tm_matchingEngineCustodian :: pubkey
  tm_matchingEngineCctpMintRecipient :: pubkey

definition tr_commonAccounts :: "env \<Rightarrow> trProgram \<Rightarrow> tokenRouterCommonAccounts result" where
  "tr_commonAccounts env p =
     (let custodian = tr_custodianAddress env p in
      bnd (tr_publishMessageAccounts env p custodian) (\<lambda>pm.
      bnd (tr_cctpMintRecipientAddress env p) (\<lambda>cctpMintRecipient.
      bnd (tr_matchingEngineProgram p) (\<lambda>matchingEngine.
      bnd (me_cctpMintRecipientAddress env matchingEngine) (\<lambda>meMintRecipient.
      let tmm = tr_tokenMessengerMinterProgram; mt = tr_messageTransmitterProgram in Inr \<lparr>
        tm_tokenRouterProgram = tr_ID env p,
        tm_systemProgram = systemProgramId env,
        tm_rent = sysvarRent env,
        tm_clock = sysvarClock env,
        tm_custodian = custodian,
        tm_cctpMintRecipient = cctpMintRecipient,
        tm_coreBridgeConfig = tp_coreBridgeConfig pm,
        tm_coreEmitterSequence = tp_coreEmitterSequence pm,
        tm_coreFeeCollector = tp_coreFeeCollector pm,
        tm_coreBridgeProgram = tp_coreBridgeProgram pm,
        tm_tokenMessenger = tmm_tokenMessengerAddress env tmm,
        tm_tokenMinter = tmm_tokenMinterAddress env tmm,
        tm_tokenMessengerMinterSenderAuthority = tmm_senderAuthorityAddress env tmm,
        tm_tokenMessengerMinterProgram = tmm_ID env tmm,
        tm_messageTransmitterAuthority = mt_authorityAddress env mt (tmm_ID env tmm),
        tm_messageTransmitterConfig = mt_messageTransmitterConfigAddress env mt,
        tm_messageTransmitterProgram = mt_ID env mt,
        tm_tokenProgram = tokenProgramId env,
        tm_mint = tr_mint p,
        tm_localToken = tmm_localTokenAddress env tmm (tr_mint p),
        tm_tokenMessengerMinterCustodyToken = tmm_custodyTokenAddress env tmm (tr_mint p),
        tm_matchingEngineProgram = me_ID env matchingEngine,
        tm_matchingEngineCustodian = me_custodianAddress env matchingEngine,
        tm_matchingEngineCctpMintRecipient = meMintRecipient\<rparr>)))))"

section \<open>Administration\<close>

definition tr_initializeIx :: "env \<Rightarrow> trProgram \<Rightarrow> pubkey \<Rightarrow> pubkey \<Rightarrow> pubkey option \<Rightarrow> instruction result" where
  "tr_initializeIx env p owner ownerAssistant inputMint =
     bnd (tr_upgradeManagerProgram p) (\<lambda>upgradeManager.
     bnd (tr_cctpMintRecipientAddress env p) (\<lambda>cctpMintRecipient.
     Inr (AnchorCall (tr_ID env p) ''initialize'' []
       [(''owner'', Key owner),
        (''custodian'', Key (tr_custodianAddress env p)),
        (''ownerAssistant'', Key ownerAssistant),
        (''mint'', tr_usdcComposite p inputMint),
        (''cctpMintRecipient'', Key cctpMintRecipient),
        (''programData'', Key (programDataAddress env (tr_ID env p))),
        (''upgradeManagerAuthority'', Key (um_upgradeAuthorityAddress env upgradeManager)),
        (''upgradeManagerProgram'', Key (um_ID env upgradeManager)),
        (''bpfLoaderUpgradeableProgram'', Key (BPF_LOADER_UPGRADEABLE_PROGRAM_ID env)),
        (''associatedTokenProgram'', Key (associatedTokenProgramId env)),
        (''tokenProgram'', Key (tokenProgramId env)),
        (''systemProgram'', Key (systemProgramId env))])))"

definition tr_setPauseIx :: "env \<Rightarrow> trProgram \<Rightarrow> pubkey \<Rightarrow> pubkey option \<Rightarrow> bool \<Rightarrow> instruction" where
  "tr_setPauseIx env p ownerOrAssistant inputCustodian paused =
     AnchorCall (tr_ID env p) ''setPause'' [ArgBool paused]
       [(''admin'', tr_adminMutComposite env p ownerOrAssistant inputCustodian)]"

definition tr_submitOwnershipTransferIx ::
  "env \<Rightarrow> trProgram \<Rightarrow> pubkey \<Rightarrow> pubkey \<Rightarrow> pubkey option \<Rightarrow> instruction" where
  "tr_submitOwnershipTransferIx env p owner newOwner inputCustodian =
     AnchorCall (tr_ID env p) ''submitOwnershipTransferRequest'' []
       [(''admin'', tr_ownerOnlyMutComposite env p owner inputCustodian),
        (''newOwner'', Key newOwner)]"

definition tr_confirmOwnershipTransferIx ::
  "env \<Rightarrow> trProgram \<Rightarrow> pubkey \<Rightarrow> pubkey option \<Rightarrow> instruction" where
  "tr_confirmOwnershipTransferIx env p pendingOwner inputCustodian =
     AnchorCall (tr_ID env p) ''confirmOwnershipTransferRequest'' []
       [(''pendingOwner'', Key pendingOwner),
        (''custodian'', Key (orElse inputCustodian (tr_custodianAddress env p)))]"

definition tr_cancelOwnershipTransferIx ::
  "env \<Rightarrow> trProgram \<Rightarrow> pubkey \<Rightarrow> pubkey option \<Rightarrow> instruction" where
  "tr_cancelOwnershipTransferIx env p owner inputCustodian =
     AnchorCall (tr_ID env p) ''cancelOwnershipTransferRequest'' []
       [(''admin'', tr_ownerOnlyMutComposite env p owner inputCustodian)]"

definition tr_updateOwnerAssistantIx ::
  "env \<Rightarrow> trProgram \<Rightarrow> pubkey \<Rightarrow> pubkey \<Rightarrow> pubkey option \<Rightarrow> instruction" where
  "tr_updateOwnerAssistantIx env p owner newOwnerAssistant inputCustodian =
     AnchorCall (tr_ID env p) ''updateOwnerAssistant'' []
       [(''admin'', tr_ownerOnlyMutComposite env p owner inputCustodian),
        (''newOwnerAssistant'', Key newOwnerAssistant)]"

end
