(* ===== verification/Tr_Orders.thy ===== *)
theory Tr_Orders
  imports Tr_Program Me_Offers
begin

text \<open>
  Market orders and fills of \<open>TokenRouterProgram\<close> (\<open>solana/ts/src/tokenRouter/index.ts\<close>): the transfer
  authority, which commits to the order's arguments through a Keccak digest, the instructions that
  prepare, close and place an order, and those that redeem and consume a fill. The digest of the
  program on chain (\<open>programs/token-router/src/processor/market_order/prepare.rs\<close>) is modelled
  beside it.
\<close>

section \<open>The transfer authority\<close>

record prepareMarketOrderArgs =
  oa_amountIn :: int
  oa_minAmountOut :: "int option"
  oa_targetChain :: int
  oa_redeemer :: "byte list"
  oa_redeemerMessage :: "byte list"

text \<open>The bytes the hasher is fed, in its order.\<close>

definition orderPreimage :: "prepareMarketOrderArgs \<Rightarrow> byte list result" where
  "orderPreimage args =
     bnd (uint64ToBN (UBigint (oa_amountIn args))) (\<lambda>amountIn.
     bnd (case oa_minAmountOut args of
            None \<Rightarrow> Inr []
          | Some m \<Rightarrow> bnd (uint64ToBN (UBigint m)) (\<lambda>n. Inr (beBytes 8 (nat n)))) (\<lambda>minAmountOut.
     bnd (writeBE 2 (alloc 2) (oa_targetChain args) 0) (\<lambda>targetChain.
     Inr (beBytes 8 (nat amountIn) @ minAmountOut @ targetChain @ oa_redeemer args @ oa_redeemerMessage args))))"

definition tr_transferAuthorityAddress ::
  "env \<Rightarrow> trProgram \<Rightarrow> pubkey \<Rightarrow> prepareMarketOrderArgs \<Rightarrow> pubkey \<Rightarrow> pubkey result" where
  "tr_transferAuthorityAddress env p preparedOrder args refundToken =
     bnd (orderPreimage args) (\<lambda>preimage.
     Inr (findProgramAddress env
       (trTransferAuthority_seeds preparedOrder (keccak256 env preimage) refundToken) (tr_ID env p)))"

definition tr_approveTransferAuthorityIx :: "env \<Rightarrow> trProgram \<Rightarrow> pubkey \<Rightarrow> pubkey \<Rightarrow> pubkey \<Rightarrow> pubkey option \<Rightarrow>
    prepareMarketOrderArgs \<Rightarrow> (pubkey \<times> instruction) result" where
  "tr_approveTransferAuthorityIx env p preparedOrder senderToken refundToken senderTokenAuthority args =
     bnd (orElseM senderTokenAuthority
            (bnd (getTokenAccount env senderToken) (\<lambda>tokenAccount. Inr (ta_owner tokenAccount)))) (\<lambda>authority.
     bnd (tr_transferAuthorityAddress env p preparedOrder args refundToken) (\<lambda>transferAuthority.
     Inr (transferAuthority, SplApprove senderToken transferAuthority authority (oa_amountIn args))))"

section \<open>Market orders\<close>

text \<open>
  \<open>programTransferAuthority\<close> and \<open>sender\<close> may be absent, \<open>null\<close> or a key: an option of an option.
  The argument object spreads \<open>args\<close>, so it carries \<open>useTransferAuthority\<close> where that was given.
\<close>

record prepareMarketOrderAccounts =
  mo_payer :: pubkey
  mo_preparedOrder :: pubkey
  mo_senderToken :: pubkey
  mo_senderTokenAuthority :: "pubkey option"
  mo_refundToken :: "pubkey option"
  mo_programTransferAuthority :: "pubkey option option"
  mo_sender :: "pubkey option option"
  mo_targetRouterEndpoint :: "pubkey option"

definition tr_prepareMarketOrderIx :: "env \<Rightarrow> trProgram \<Rightarrow> prepareMarketOrderAccounts \<Rightarrow> bool option \<Rightarrow>
    prepareMarketOrderArgs \<Rightarrow> (instruction option \<times> instruction) result" where
  "tr_prepareMarketOrderIx env p accts useTransferAuthority args =
     (let refundToken = orElse (mo_refundToken accts) (mo_senderToken accts);
          sender = orElse (mo_sender accts) None in
      bnd (case mo_programTransferAuthority accts of
             Some authority \<Rightarrow> Inr (authority, None)
           | None \<Rightarrow>
               if orElse useTransferAuthority True then
                 bnd (tr_approveTransferAuthorityIx env p (mo_preparedOrder accts) (mo_senderToken accts)
                        refundToken (mo_senderTokenAuthority accts) args) (\<lambda>(transferAuthority, ix).
                 Inr (Some transferAuthority, Some ix))
               else Inr (None, None)) (\<lambda>(programTransferAuthority, approveIx).
      bnd (tr_registeredEndpoint env p (Some (oa_targetChain args)) (mo_targetRouterEndpoint accts))
        (\<lambda>targetRouterEndpoint.
      bnd (uint64ToBN (UBigint (oa_amountIn args))) (\<lambda>amountIn.
      bnd (case oa_minAmountOut args of
             None \<Rightarrow> Inr ArgNull
           | Some m \<Rightarrow> bnd (uint64ToBN (UBigint m)) (\<lambda>n. Inr (ArgBN n))) (\<lambda>minAmountOut.
      Inr (approveIx,
        AnchorCall (tr_ID env p) ''prepareMarketOrder''
          [ArgObject
            ((case useTransferAuthority of None \<Rightarrow> [] | Some u \<Rightarrow> [(''useTransferAuthority'', ArgBool u)]) @
             [(''amountIn'', ArgBN amountIn),
              (''minAmountOut'', minAmountOut),
              (''targetChain'', ArgNum (oa_targetChain args)),
              (''redeemer'', ArgBytes (oa_redeemer args)),
              (''redeemerMessage'', ArgBytes (oa_redeemerMessage args))])]
          [(''payer'', Key (mo_payer accts)),
           (''custodian'', tr_checkedCustodianComposite env p None),
           (''programTransferAuthority'', keyOrNull programTransferAuthority),
           (''sender'', keyOrNull sender),
           (''preparedOrder'', Key (mo_preparedOrder accts)),
           (''senderToken'', Key (mo_senderToken accts)),
           (''refundToken'', Key refundToken),
           (''preparedCustodyToken'', Key (tr_preparedCustodyTokenAddress env p (mo_preparedOrder accts))),
           (''usdc'', tr_usdcComposite p None),
           (''targetRouterEndpoint'', endpointGroup targetRouterEndpoint),
           (''tokenProgram'', Key (tokenProgramId env)),
           (''systemProgram'', Key (systemProgramId env))]))))))"

definition tr_closePreparedOrderIx :: "env \<Rightarrow> trProgram \<Rightarrow> pubkey \<Rightarrow> pubkey option \<Rightarrow> pubkey option \<Rightarrow>
    pubkey option \<Rightarrow> instruction result" where
  "tr_closePreparedOrderIx env p preparedOrder preparedBy orderSender refundToken =
     bnd (case (preparedBy, orderSender, refundToken) of
            (Some b, Some s, Some r) \<Rightarrow> Inr (b, s, r)
          | _ \<Rightarrow>
              bnd (tr_fetchPreparedOrder env preparedOrder) (\<lambda>fetched.
              let info = po_info fetched in
              Inr (orElse preparedBy (po_preparedBy info), orElse orderSender (po_orderSender info),
                   orElse refundToken (po_refundToken info))))
       (\<lambda>(preparedBy, orderSender, refundToken).
     Inr (AnchorCall (tr_ID env p) ''closePreparedOrder'' []
       [(''preparedBy'', Key preparedBy),
        (''custodian'', tr_checkedCustodianComposite env p None),
        (''orderSender'', Key orderSender),
        (''preparedOrder'', Key preparedOrder),
        (''refundToken'', Key refundToken),
        (''preparedCustodyToken'', Key (tr_preparedCustodyTokenAddress env p preparedOrder)),
        (''tokenProgram'', Key (tokenProgramId env))]))"

definition tr_consumePreparedFillIx ::
  "env \<Rightarrow> trProgram \<Rightarrow> pubkey \<Rightarrow> pubkey \<Rightarrow> pubkey \<Rightarrow> pubkey \<Rightarrow> instruction" where
  "tr_consumePreparedFillIx env p preparedFill redeemer dstToken beneficiary =
     AnchorCall (tr_ID env p) ''consumePreparedFill'' []
       [(''redeemer'', Key redeemer),
        (''beneficiary'', Key beneficiary),
        (''preparedFill'', Key preparedFill),
        (''dstToken'', Key dstToken),
        (''preparedCustodyToken'', Key (tr_preparedCustodyTokenAddress env p preparedFill)),
        (''tokenProgram'', Key (tokenProgramId env))]"

text \<open>A failing fetch of the prepared order is turned into the method's own error.\<close>

definition tr_placeMarketOrderCctpIx :: "env \<Rightarrow> trProgram \<Rightarrow> pubkey \<Rightarrow> pubkey \<Rightarrow> pubkey option \<Rightarrow> pubkey option \<Rightarrow>
    int option \<Rightarrow> int option \<Rightarrow> instruction result" where
  "tr_placeMarketOrderCctpIx env p payer preparedOrder preparedBy endpoint targetChain destinationDomain =
     bnd (case (preparedBy, targetChain) of
            (Some b, Some t) \<Rightarrow> Inr (b, t)
          | _ \<Rightarrow>
              bnd (case tr_fetchPreparedOrder env preparedOrder of
                     Inl _ \<Rightarrow> Inl (Error ''Cannot find prepared order'')
                   | Inr fetched \<Rightarrow> Inr (po_info fetched)) (\<lambda>info.
              bnd (throwIf (\<not> isChainId env (po_targetChain info))
                     (Error ''Invalid chain found in prepared order'')) (\<lambda>_.
              Inr (orElse preparedBy (po_preparedBy info), orElse targetChain (po_targetChain info)))))
       (\<lambda>(preparedBy, targetChain).
     bnd (tr_matchingEngineProgram p) (\<lambda>matchingEngine.
     let coreMessage = tr_coreMessageAddress env p preparedOrder;
         cctpMessage = tr_cctpMessageAddress env p preparedOrder in
     bnd (tr_registeredEndpoint env p (Some targetChain) endpoint) (\<lambda>targetRouterEndpoint.
     bnd (orElseM destinationDomain
            (bnd (me_fetchRouterEndpointInfo env matchingEngine (AtAddress targetRouterEndpoint)) (\<lambda>info.
             case ei_protocol info of
               CctpProtocol domain \<Rightarrow> Inr domain
             | _ \<Rightarrow> Inl (Error ''invalid router endpoint'')))) (\<lambda>destinationDomain.
     let db = tmm_depositForBurnWithCallerAccounts env tr_tokenMessengerMinterProgram (tr_mint p)
           destinationDomain in
     bnd (tr_publishMessageAccounts env p (tr_custodianAddress env p)) (\<lambda>pm.
     Inr (AnchorCall (tr_ID env p) ''placeMarketOrderCctp'' []
       [(''payer'', Key payer),
        (''preparedBy'', Key preparedBy),
        (''custodian'', tr_checkedCustodianComposite env p None),
        (''preparedOrder'', Key preparedOrder),
        (''mint'', Key (tr_mint p)),
        (''preparedCustodyToken'', Key (tr_preparedCustodyTokenAddress env p preparedOrder)),
        (''targetRouterEndpoint'', endpointGroup targetRouterEndpoint),
        (''coreBridgeConfig'', Key (tp_coreBridgeConfig pm)),
        (''coreMessage'', Key coreMessage),
        (''cctpMessage'', Key cctpMessage),
        (''coreEmitterSequence'', Key (tp_coreEmitterSequence pm)),
        (''coreFeeCollector'', Key (tp_coreFeeCollector pm)),
        (''tokenMessengerMinterSenderAuthority'', Key (db_senderAuthority db)),
        (''messageTransmitterConfig'', Key (db_messageTransmitterConfig db)),
        (''tokenMessenger'', Key (db_tokenMessenger db)),
        (''remoteTokenMessenger'', Key (db_remoteTokenMessenger db)),
        (''tokenMinter'', Key (db_tokenMinter db)),
        (''localToken'', Key (db_localToken db)),
        (''tokenMessengerMinterEventAuthority'', Key (db_tokenMessengerMinterEventAuthority db)),
        (''coreBridgeProgram'', Key (tp_coreBridgeProgram pm)),
        (''tokenMessengerMinterProgram'', Key (db_tokenMessengerMinterProgram db)),
        (''messageTransmitterProgram'', Key (db_messageTransmitterProgram db)),
        (''tokenProgram'', Key (tokenProgramId env)),
        (''systemProgram'', Key (systemProgramId env)),
        (''rent'', Key (sysvarRent env)),
        (''clock'', Key (sysvarClock env))]))))))"

section \<open>Fills\<close>

record redeemFillCctpAccounts =
  rd_custodian :: pubkey
  rd_preparedFill :: pubkey
  rd_cctpMintRecipient :: pubkey
  rd_sourceRouterEndpoint :: pubkey
  rd_receive :: receiveTokenMessengerMinterMessageAccounts

text \<open>
  The thirteen accounts of the CCTP message come unchanged from \<open>receiveTokenMessengerMinterMessageAccounts\<close>,
  under other names for two of them; they are kept as that record.
\<close>

definition tr_redeemCctpFillAccounts ::
  "env \<Rightarrow> trProgram \<Rightarrow> pubkey \<Rightarrow> burnMessageInput \<Rightarrow> redeemFillCctpAccounts result" where
  "tr_redeemCctpFillAccounts env p fillVaa cctpMessage =
     bnd (cctpTokenBurnMessage_from cctpMessage) (\<lambda>msg.
     bnd (tr_cctpMintRecipientAddress env p) (\<lambda>cctpMintRecipient.
     bnd (vaaAccount_fetch env fillVaa) (\<lambda>vaaAccount.
     bnd (vaaAccount_emitterInfo env vaaAccount) (\<lambda>info.
     let preparedFill = tr_preparedFillAddress env p fillVaa in
     bnd (mt_receiveTokenMessengerMinterMessageAccounts env tr_messageTransmitterProgram (tr_mint p)
            (BurnMessageObject msg)) (\<lambda>r.
     bnd (tr_matchingEngineProgram p) (\<lambda>me.
     bnd (me_routerEndpointAddress env me (ef_chain info)) (\<lambda>sourceRouterEndpoint.
     Inr \<lparr>rd_custodian = tr_custodianAddress env p, rd_preparedFill = preparedFill,
          rd_cctpMintRecipient = cctpMintRecipient, rd_sourceRouterEndpoint = sourceRouterEndpoint,
          rd_receive = r\<rparr>)))))))"

definition tr_redeemCctpFillIx :: "env \<Rightarrow> trProgram \<Rightarrow> pubkey \<Rightarrow> pubkey \<Rightarrow> pubkey option \<Rightarrow> cctpMessageArgs \<Rightarrow>
    instruction result" where
  "tr_redeemCctpFillIx env p payer vaa endpoint args =
     bnd (tr_redeemCctpFillAccounts env p vaa (BurnMessageBuffer (cm_encodedCctpMessage args))) (\<lambda>a.
     let r = rd_receive a in
     bnd (tr_registeredEndpoint env p None (Some (orElse endpoint (rd_sourceRouterEndpoint a))))
       (\<lambda>sourceRouterEndpoint.
     Inr (AnchorCall (tr_ID env p) ''redeemCctpFill'' [argCctpMessage args]
       [(''payer'', Key payer),
        (''custodian'', tr_checkedCustodianComposite env p None),
        (''fillVaa'', tr_liquidityLayerVaaComposite vaa),
        (''preparedFill'', Key (rd_preparedFill a)),
        (''preparedCustodyToken'', Key (tr_preparedCustodyTokenAddress env p (rd_preparedFill a))),
        (''usdc'', tr_usdcComposite p None),
        (''sourceRouterEndpoint'', endpointGroup sourceRouterEndpoint),
        (''cctp'', Group
           [(''mintRecipient'', Group [(''mintRecipient'', Key (rd_cctpMintRecipient a))]),
            (''messageTransmitterAuthority'', Key (rm_authority r)),
            (''messageTransmitterConfig'', Key (rm_messageTransmitterConfig r)),
            (''usedNonces'', Key (rm_usedNonces r)),
            (''messageTransmitterEventAuthority'', Key (rm_messageTransmitterEventAuthority r)),
            (''tokenMessenger'', Key (rm_tokenMessenger r)),
            (''remoteTokenMessenger'', Key (rm_remoteTokenMessenger r)),
            (''tokenMinter'', Key (rm_tokenMinter r)),
            (''localToken'', Key (rm_localToken r)),
            (''tokenPair'', Key (rm_tokenPair r)),
            (''tokenMessengerMinterCustodyToken'', Key (rm_custodyToken r)),
            (''tokenMessengerMinterEventAuthority'', Key (rm_tokenMessengerMinterEventAuthority r)),
            (''tokenMessengerMinterProgram'', Key (rm_tokenMessengerMinterProgram r)),
            (''messageTransmitterProgram'', Key (rm_messageTransmitterProgram r))]),
        (''tokenProgram'', Key (tokenProgramId env)),
        (''systemProgram'', Key (systemProgramId env))])))"

record tr_redeemFastFillAccounts =
  tf_custodian :: pubkey
  tf_preparedFill :: pubkey
  tf_cctpMintRecipient :: pubkey
  tf_matchingEngineCustodian :: pubkey
  tf_matchingEngineFromEndpoint :: pubkey
  tf_matchingEngineToEndpoint :: pubkey
  tf_matchingEngineLocalCustodyToken :: pubkey
  tf_matchingEngineEventAuthority :: pubkey
  tf_matchingEngineProgram :: pubkey

definition tr_redeemFastFillAccounts_of :: "env \<Rightarrow> trProgram \<Rightarrow> pubkey \<Rightarrow> tr_redeemFastFillAccounts result" where
  "tr_redeemFastFillAccounts_of env p fastFill =
     bnd (tr_matchingEngineProgram p) (\<lambda>me.
     bnd (me_redeemFastFillAccounts env me fastFill) (\<lambda>a.
     bnd (tr_cctpMintRecipientAddress env p) (\<lambda>cctpMintRecipient. Inr \<lparr>
       tf_custodian = tr_custodianAddress env p,
       tf_preparedFill = tr_preparedFillAddress env p fastFill,
       tf_cctpMintRecipient = cctpMintRecipient,
       tf_matchingEngineCustodian = rf_custodian a,
       tf_matchingEngineFromEndpoint = rf_fromRouterEndpoint a,
       tf_matchingEngineToEndpoint = rf_toRouterEndpoint a,
       tf_matchingEngineLocalCustodyToken = rf_localCustodyToken a,
       tf_matchingEngineEventAuthority = rf_eventAuthority a,
       tf_matchingEngineProgram = rf_matchingEngineProgram a\<rparr>)))"

definition tr_redeemFastFillIx :: "env \<Rightarrow> trProgram \<Rightarrow> pubkey \<Rightarrow> pubkey \<Rightarrow> instruction result" where
  "tr_redeemFastFillIx env p payer fastFill =
     bnd (tr_redeemFastFillAccounts_of env p fastFill) (\<lambda>a.
     Inr (AnchorCall (tr_ID env p) ''redeemFastFill'' []
       [(''payer'', Key payer),
        (''custodian'', tr_checkedCustodianComposite env p None),
        (''fastFill'', Key fastFill),
        (''preparedFill'', Key (tf_preparedFill a)),
        (''preparedCustodyToken'', Key (tr_preparedCustodyTokenAddress env p (tf_preparedFill a))),
        (''usdc'', tr_usdcComposite p None),
        (''matchingEngineCustodian'', Key (tf_matchingEngineCustodian a)),
        (''matchingEngineFromEndpoint'', Key (tf_matchingEngineFromEndpoint a)),
        (''matchingEngineToEndpoint'', Key (tf_matchingEngineToEndpoint a)),
        (''matchingEngineLocalCustodyToken'', Key (tf_matchingEngineLocalCustodyToken a)),
        (''matchingEngineEventAuthority'', Key (tf_matchingEngineEventAuthority a)),
        (''matchingEngineProgram'', Key (tf_matchingEngineProgram a)),
        (''tokenProgram'', Key (tokenProgramId env)),
        (''systemProgram'', Key (systemProgramId env))]))"

section \<open>The digest of an order\<close>

text \<open>The program's digest (\<open>PrepareMarketOrderArgs::hash\<close>): the same bytes, by cases on the minimum.\<close>

definition programOrderPreimage :: "nat \<Rightarrow> nat option \<Rightarrow> nat \<Rightarrow> byte list \<Rightarrow> byte list \<Rightarrow> byte list" where
  "programOrderPreimage amount_in min_amount_out target_chain redeemer redeemer_message =
     (case min_amount_out of
        Some m \<Rightarrow> beBytes 8 amount_in @ beBytes 8 m @ beBytes 2 target_chain @ redeemer @ redeemer_message
      | None \<Rightarrow> beBytes 8 amount_in @ beBytes 2 target_chain @ redeemer @ redeemer_message)"

definition orderArgs_wf :: "prepareMarketOrderArgs \<Rightarrow> bool" where
  "orderArgs_wf a \<longleftrightarrow> 0 \<le> oa_amountIn a \<and> oa_amountIn a < 256 ^ 8 \<and>
     (\<forall>m. oa_minAmountOut a = Some m \<longrightarrow> 0 \<le> m \<and> m < 256 ^ 8) \<and>
     0 \<le> oa_targetChain a \<and> oa_targetChain a < 256 ^ 2 \<and> length (oa_redeemer a) = 32"

lemma orderPreimage_eq:
  assumes "orderArgs_wf a"
  shows "orderPreimage a = Inr (programOrderPreimage (nat (oa_amountIn a)) (map_option nat (oa_minAmountOut a))
    (nat (oa_targetChain a)) (oa_redeemer a) (oa_redeemerMessage a))"
proof -
  have bn: "uint64ToBN (UBigint v) = Inr v" if "0 \<le> v" "v < 256 ^ 8" for v
    using that by (simp add: uint64ToBN_eq_Inr)
  show ?thesis
    using assms
    by (cases "oa_minAmountOut a")
      (simp_all add: orderPreimage_def orderArgs_wf_def bn writeBE_alloc programOrderPreimage_def del: power_numeral)
qed

text \<open>
  C31. Among well-formed orders that both have a minimum amount, or both have none, the transfer authority commits to
  the whole order: the digest's preimage is the one the program hashes, and two such orders have equal
  preimages exactly if they are equal. Both orders having, or both lacking, a minimum amount is needed: between an order with a minimum and one
  without the digest does not tell.
\<close>

theorem order_preimage_commits:
  assumes "orderArgs_wf a" "orderArgs_wf b"
    and "(oa_minAmountOut a = None) = (oa_minAmountOut b = None)"
  shows "orderPreimage a = Inr (programOrderPreimage (nat (oa_amountIn a)) (map_option nat (oa_minAmountOut a))
      (nat (oa_targetChain a)) (oa_redeemer a) (oa_redeemerMessage a)) \<and>
    (orderPreimage a = orderPreimage b \<longleftrightarrow> a = b)"
proof -
  have inj: "i = j" if "beBytes n (nat i) = beBytes n (nat j)" "0 \<le> i" "i < 256 ^ n" "0 \<le> j" "j < 256 ^ n" for n i j
    using that by (simp add: nat_beBytes_inject del: power_numeral)
  have "a = b" if same: "orderPreimage a = orderPreimage b"
  proof -
    have eq: "programOrderPreimage (nat (oa_amountIn a)) (map_option nat (oa_minAmountOut a))
        (nat (oa_targetChain a)) (oa_redeemer a) (oa_redeemerMessage a) =
      programOrderPreimage (nat (oa_amountIn b)) (map_option nat (oa_minAmountOut b))
        (nat (oa_targetChain b)) (oa_redeemer b) (oa_redeemerMessage b)"
      using same orderPreimage_eq [OF assms(1)] orderPreimage_eq [OF assms(2)] by simp
    have len: "length (oa_redeemer a) = 32" "length (oa_redeemer b) = 32"
      using assms by (simp_all add: orderArgs_wf_def)
    have parts: "beBytes 8 (nat (oa_amountIn a)) = beBytes 8 (nat (oa_amountIn b)) \<and>
        map_option (\<lambda>m. beBytes 8 (nat m)) (oa_minAmountOut a) = map_option (\<lambda>m. beBytes 8 (nat m)) (oa_minAmountOut b) \<and>
        beBytes 2 (nat (oa_targetChain a)) = beBytes 2 (nat (oa_targetChain b)) \<and>
        oa_redeemer a = oa_redeemer b \<and> oa_redeemerMessage a = oa_redeemerMessage b"
      using eq assms(3) len
      by (cases "oa_minAmountOut a"; cases "oa_minAmountOut b")
        (simp_all add: programOrderPreimage_def append_eq_append_conv del: beBytes.simps)
    have amt: "oa_amountIn a = oa_amountIn b" and chain: "oa_targetChain a = oa_targetChain b"
      using parts assms by (auto simp: orderArgs_wf_def intro: inj simp del: beBytes.simps power_numeral)
    have "oa_minAmountOut a = oa_minAmountOut b"
      using parts assms
      by (cases "oa_minAmountOut a"; cases "oa_minAmountOut b")
        (auto simp: orderArgs_wf_def intro: inj simp del: beBytes.simps power_numeral)
    with amt chain parts show ?thesis by (cases a; cases b) simp
  qed
  with orderPreimage_eq [OF assms(1)] show ?thesis by blast
qed

definition demoOrder :: prepareMarketOrderArgs where
  "demoOrder = \<lparr>oa_amountIn = 5, oa_minAmountOut = Some 4, oa_targetChain = 2,
     oa_redeemer = replicate 32 1, oa_redeemerMessage = [7]\<rparr>"

lemma demoOrder_wf: "orderArgs_wf demoOrder"
  by (simp add: demoOrder_def orderArgs_wf_def)

theorem order_preimage_commits_witness:
  "orderPreimage demoOrder = Inr (programOrderPreimage 5 (Some 4) 2 (replicate 32 1) [7]) \<and>
   orderPreimage demoOrder \<noteq> orderPreimage (demoOrder\<lparr>oa_minAmountOut := Some 3\<rparr>)"
proof -
  define o3 where "o3 = demoOrder\<lparr>oa_minAmountOut := Some 3\<rparr>"
  have 3: "orderArgs_wf o3" "(oa_minAmountOut demoOrder = None) = (oa_minAmountOut o3 = None)" "demoOrder \<noteq> o3"
    by (simp_all add: o3_def demoOrder_def orderArgs_wf_def)
  note r = order_preimage_commits [OF demoOrder_wf 3(1,2)]
  from r 3(3) have "orderPreimage demoOrder \<noteq> orderPreimage o3" by blast
  moreover have "orderPreimage demoOrder = Inr (programOrderPreimage 5 (Some 4) 2 (replicate 32 1) [7])"
    using r [THEN conjunct1] by (simp add: demoOrder_def)
  ultimately show ?thesis unfolding o3_def by (rule conjI [rotated])
qed

text \<open>
  C37. The transfer authority does not commit to the shape of the order: for every well-formed order with
  a minimum amount there is a well-formed order without one, for the same amount, that has the same
  transfer authority, because the optional minimum is hashed without a tag. The order without a minimum takes its target chain from the first two
  bytes of the minimum, so the program accepts it only if that chain has a registered endpoint.
\<close>

theorem order_minimum_not_committed:
  assumes "orderArgs_wf b" "oa_minAmountOut b = Some m"
  shows "\<exists>a. orderArgs_wf a \<and> oa_minAmountOut a = None \<and> oa_amountIn a = oa_amountIn b \<and>
    tr_transferAuthorityAddress env p preparedOrder a refundToken =
    tr_transferAuthorityAddress env p preparedOrder b refundToken"
proof -
  define X where "X = beBytes 8 (nat m) @ beBytes 2 (nat (oa_targetChain b)) @ oa_redeemer b @ oa_redeemerMessage b"
  define a where "a = \<lparr>oa_amountIn = oa_amountIn b, oa_minAmountOut = None, oa_targetChain = int (beNat (take 2 X)),
    oa_redeemer = take 32 (drop 2 X), oa_redeemerMessage = drop 34 X\<rparr>"
  have len: "42 \<le> length X"
    using assms(1) by (simp add: X_def orderArgs_wf_def)
  then have "beNat (take 2 X) < 256 ^ 2"
    using beNat_bound [of "take 2 X"] by (simp add: min_def)
  with assms(1) len have wf: "orderArgs_wf a"
    by (simp add: orderArgs_wf_def a_def)
  have "beBytes 2 (beNat (take 2 X)) @ take 32 (drop 2 X) @ drop 34 X = X"
  proof -
    have "beBytes 2 (beNat (take 2 X)) = take 2 X" using len by (simp add: beBytes_beNat)
    moreover have "take 32 (drop 2 X) @ drop 34 X = drop 2 X" by (rule take_drop_join) simp
    ultimately show ?thesis by (simp only: append_take_drop_id)
  qed
  then have "orderPreimage a = orderPreimage b"
    using assms(2)
    by (simp add: orderPreimage_eq [OF wf] orderPreimage_eq [OF assms(1)] programOrderPreimage_def)
      (simp add: a_def X_def)
  with wf show ?thesis
    by (intro exI [of _ a]) (simp add: tr_transferAuthorityAddress_def a_def)
qed

theorem order_minimum_not_committed_witness:
  "\<forall>env p. \<exists>a. oa_minAmountOut a = None \<and>
     tr_transferAuthorityAddress env p [1] a [2] = tr_transferAuthorityAddress env p [1] demoOrder [2]"
proof (intro allI)
  fix env p
  have "oa_minAmountOut demoOrder = Some 4" by (simp add: demoOrder_def)
  from order_minimum_not_committed [OF demoOrder_wf this, of env p "[1]" "[2]"]
  show "\<exists>a. oa_minAmountOut a = None \<and>
     tr_transferAuthorityAddress env p [1] a [2] = tr_transferAuthorityAddress env p [1] demoOrder [2]"
    by blast
qed

end
