(* ===== verification/Upgrade_Manager.thy ===== *)
theory Upgrade_Manager
  imports Tr_Program
begin

text \<open>
  The instructions of \<open>UpgradeManagerProgram\<close> (\<open>solana/ts/src/upgradeManager/index.ts\<close>): executing and
  committing an upgrade of the Matching Engine or of the Token Router. The program objects of the two
  are looked up by network, with the default public key for the mint; there is no case for mainnet.
\<close>

definition um_matchingEngineProgram :: "env \<Rightarrow> string \<Rightarrow> meProgram result" where
  "um_matchingEngineProgram env p =
     (if p = um_testnet then Inr \<lparr>me_programId = me_testnet, me_mint = defaultPublicKey env\<rparr>
      else if p = um_localnet then Inr \<lparr>me_programId = me_localnet, me_mint = defaultPublicKey env\<rparr>
      else Inl (Error ''unsupported network''))"

definition um_tokenRouterProgram :: "env \<Rightarrow> string \<Rightarrow> trProgram result" where
  "um_tokenRouterProgram env p =
     (if p = um_testnet then Inr \<lparr>tr_programId = tr_testnet, tr_mint = defaultPublicKey env\<rparr>
      else if p = um_localnet then Inr \<lparr>tr_programId = tr_localnet, tr_mint = defaultPublicKey env\<rparr>
      else Inl (Error ''unsupported network''))"

definition um_executeMatchingEngineUpgradeIx ::
  "env \<Rightarrow> string \<Rightarrow> pubkey \<Rightarrow> pubkey \<Rightarrow> pubkey option \<Rightarrow> instruction result" where
  "um_executeMatchingEngineUpgradeIx env p owner matchingEngineBuffer payer =
     bnd (um_matchingEngineProgram env p) (\<lambda>matchingEngine.
     Inr (AnchorCall (um_ID env p) ''executeMatchingEngineUpgrade'' []
       [(''matchingEngineCustodian'', Key (me_custodianAddress env matchingEngine)),
        (''executeUpgrade'', um_executeUpgradeComposite env p owner (me_ID env matchingEngine)
           matchingEngineBuffer payer)]))"

definition um_commitMatchingEngineUpgradeIx ::
  "env \<Rightarrow> string \<Rightarrow> pubkey \<Rightarrow> pubkey option \<Rightarrow> instruction result" where
  "um_commitMatchingEngineUpgradeIx env p owner recipient =
     bnd (um_matchingEngineProgram env p) (\<lambda>matchingEngine.
     Inr (AnchorCall (um_ID env p) ''commitMatchingEngineUpgrade'' []
       [(''matchingEngineCustodian'', Key (me_custodianAddress env matchingEngine)),
        (''commitUpgrade'', um_commitUpgradeComposite env p owner (me_ID env matchingEngine) recipient)]))"

definition um_executeTokenRouterUpgradeIx ::
  "env \<Rightarrow> string \<Rightarrow> pubkey \<Rightarrow> pubkey \<Rightarrow> pubkey option \<Rightarrow> instruction result" where
  "um_executeTokenRouterUpgradeIx env p owner tokenRouterBuffer payer =
     bnd (um_tokenRouterProgram env p) (\<lambda>tokenRouter.
     Inr (AnchorCall (um_ID env p) ''executeTokenRouterUpgrade'' []
       [(''tokenRouterCustodian'', Key (tr_custodianAddress env tokenRouter)),
        (''executeUpgrade'', um_executeUpgradeComposite env p owner (tr_ID env tokenRouter)
           tokenRouterBuffer payer)]))"

definition um_commitTokenRouterUpgradeIx ::
  "env \<Rightarrow> string \<Rightarrow> pubkey \<Rightarrow> pubkey option \<Rightarrow> instruction result" where
  "um_commitTokenRouterUpgradeIx env p owner recipient =
     bnd (um_tokenRouterProgram env p) (\<lambda>tokenRouter.
     Inr (AnchorCall (um_ID env p) ''commitTokenRouterUpgrade'' []
       [(''tokenRouterCustodian'', Key (tr_custodianAddress env tokenRouter)),
        (''commitUpgrade'', um_commitUpgradeComposite env p owner (tr_ID env tokenRouter) recipient)]))"

end
