(* ===== verification/Idl_Types.thy ===== *)
theory Idl_Types
  imports Chain_Env
begin

text \<open>
  The interface descriptions of the programs (\<open>solana/ts/src/idl/ts\<close>, \<open>solana/ts/src/cctp/types\<close>) as data: of
  each instruction its name, its discriminator, its accounts with their flags and composites, and its
  arguments with their types; and the types that they name. \<open>conforms\<close> is what a caller of
  \<open>program.methods\<close> has to supply: the instruction exists, every argument has the kind of its declared
  type, and the account tree has exactly the declared accounts, composites for composites, with
  \<open>null\<close> only for an optional account.
\<close>

section \<open>Descriptions\<close>

datatype idlType =
    TBool
  | TUInt nat
  | TInt nat
  | TPubkey
  | TBytes
  | TArray idlType nat
  | TVec idlType
  | TOption idlType
  | TDefined string

datatype idlTypeDef =
    StructDef "(string \<times> idlType) list"
  | EnumDef "(string \<times> (string \<times> idlType) list) list"

type_synonym idlTypes = "(string \<times> idlTypeDef) list"

datatype idlAccount =
    IdlAccount string bool bool bool  \<comment> \<open>name, writable, signer, optional\<close>
  | IdlComposite string "idlAccount list"

text \<open>Descriptions in the older format do not list the discriminator.\<close>

record idlInstruction =
  ix_name :: string
  ix_discriminator :: "byte list option"
  ix_accounts :: "idlAccount list"
  ix_args :: "(string \<times> idlType) list"
  ix_returns :: "idlType option"

section \<open>Conforming to a description\<close>

text \<open>
  The kinds of values: integers up to 32 bits are numbers, wider ones \<open>BN\<close>; an absent option is \<open>null\<close>; a
  structure is an object that has the fields of the declared type (others are ignored).
\<close>

definition hasFields :: "(string \<times> idlType) list \<Rightarrow> (string \<times> arg) list \<Rightarrow> bool" where
  "hasFields flds fs \<longleftrightarrow> list_all (\<lambda>k. k \<in> set (map fst fs)) (map fst flds) \<and> distinct (map fst fs)"

fun argFits :: "idlTypes \<Rightarrow> idlType \<Rightarrow> arg \<Rightarrow> bool" where
  "argFits ts TBool a = (case a of ArgBool b \<Rightarrow> True | _ \<Rightarrow> False)"
| "argFits ts (TUInt w) a = (case a of ArgNum n \<Rightarrow> w \<le> 32 | ArgBN n \<Rightarrow> 32 < w | _ \<Rightarrow> False)"
| "argFits ts (TInt w) a = (case a of ArgNum n \<Rightarrow> w \<le> 32 | ArgBN n \<Rightarrow> 32 < w | _ \<Rightarrow> False)"
| "argFits ts TPubkey a = False"
| "argFits ts TBytes a = (case a of ArgBytes b \<Rightarrow> True | _ \<Rightarrow> False)"
| "argFits ts (TArray t n) a = (case a of ArgBytes b \<Rightarrow> t = TUInt 8 | _ \<Rightarrow> False)"
| "argFits ts (TVec t) a = False"
| "argFits ts (TOption t) a = (a = ArgNull \<or> argFits ts t a)"
| "argFits ts (TDefined n) (ArgObject fs) =
     (case map_of ts n of
        Some (StructDef flds) \<Rightarrow> hasFields flds fs \<and>
          list_all (\<lambda>(k, a). case map_of flds k of Some t \<Rightarrow> argFits ts t a | None \<Rightarrow> True) fs
      | Some (EnumDef variants) \<Rightarrow>
          (case fs of
             [(v, ArgObject inner)] \<Rightarrow>
               (case map_of variants v of
                  Some flds \<Rightarrow> hasFields flds inner \<and>
                    list_all (\<lambda>(k, a). case map_of flds k of Some t \<Rightarrow> argFits ts t a | None \<Rightarrow> True) inner
                | None \<Rightarrow> False)
           | _ \<Rightarrow> False)
      | None \<Rightarrow> False)"
| "argFits ts (TDefined n) a = False"

fun idlName :: "idlAccount \<Rightarrow> string" where
  "idlName (IdlAccount n w s opt) = n"
| "idlName (IdlComposite n subs) = n"

fun suppliedFor :: "idlAccount \<Rightarrow> acct option \<Rightarrow> bool" where
  "suppliedFor (IdlAccount n w s opt) a = (case a of Some (Key _) \<Rightarrow> True | Some NullAcct \<Rightarrow> opt | _ \<Rightarrow> False)"
| "suppliedFor (IdlComposite n subs) a =
     (case a of
        Some (Group accts) \<Rightarrow> length accts = length subs \<and>
          list_all (\<lambda>sub. suppliedFor sub (map_of accts (idlName sub))) subs
      | _ \<Rightarrow> False)"

fun conforms :: "idlTypes \<Rightarrow> idlInstruction list \<Rightarrow> pubkey \<Rightarrow> instruction \<Rightarrow> bool" where
  "conforms ts idl program (AnchorCall program' method args accts) =
     (program' = program \<and>
      (case find (\<lambda>i. ix_name i = method) idl of
         None \<Rightarrow> False
       | Some i \<Rightarrow> list_all2 (argFits ts) (map snd (ix_args i)) args \<and>
           suppliedFor (IdlComposite method (ix_accounts i)) (Some (Group accts))))"
| "conforms ts idl program (SplApprove account delegate owner amount) = False"
| "conforms ts idl program (RawIx p keys data) = False"

text \<open>The accounts of a tree that the description marks as signers, in order.\<close>

fun signerKeys :: "idlAccount \<Rightarrow> acct option \<Rightarrow> pubkey list" where
  "signerKeys (IdlAccount n w s opt) a = (case a of Some (Key k) \<Rightarrow> if s then [k] else [] | _ \<Rightarrow> [])"
| "signerKeys (IdlComposite n subs) a =
     (case a of
        Some (Group accts) \<Rightarrow> concat (map (\<lambda>sub. signerKeys sub (map_of accts (idlName sub))) subs)
      | _ \<Rightarrow> [])"

fun requiredSigners :: "idlInstruction list \<Rightarrow> instruction \<Rightarrow> pubkey list" where
  "requiredSigners idl (AnchorCall program method args accts) =
     (case find (\<lambda>i. ix_name i = method) idl of
        None \<Rightarrow> []
      | Some i \<Rightarrow> signerKeys (IdlComposite method (ix_accounts i)) (Some (Group accts)))"
| "requiredSigners idl (SplApprove account delegate owner amount) = [owner]"
| "requiredSigners idl (RawIx p keys data) = map fst (filter (\<lambda>(k, isSigner, isWritable). isSigner) keys)"

end
