(* ===== verification/Idl_Matching_Engine.thy ===== *)
theory Idl_Matching_Engine
  imports Idl_Types
begin

text \<open>The instructions of the Matching Engine, as \<open>solana/ts/src/idl/ts/matching_engine.ts\<close> declares them.\<close>

definition idl_me_addAuctionHistoryEntry :: idlInstruction where
  "idl_me_addAuctionHistoryEntry = \<lparr>
     ix_name = ''addAuctionHistoryEntry'',
     ix_discriminator = Some [158, 73, 252, 70, 4, 234, 186, 49],
     ix_accounts =
     [IdlAccount ''dummy'' False False False],
     ix_args = [],
     ix_returns = None\<rparr>"

definition idl_me_addCctpRouterEndpoint :: idlInstruction where
  "idl_me_addCctpRouterEndpoint = \<lparr>
     ix_name = ''addCctpRouterEndpoint'',
     ix_discriminator = Some [21, 58, 235, 71, 68, 47, 52, 80],
     ix_accounts =
     [IdlAccount ''payer'' True True False,
      IdlComposite ''admin''
        [IdlAccount ''ownerOrAssistant'' False True False,
         IdlComposite ''custodian''
           [IdlAccount ''custodian'' False False False]],
      IdlAccount ''routerEndpoint'' True False False,
      IdlAccount ''localCustodyToken'' True False False,
      IdlComposite ''usdc''
        [IdlAccount ''mint'' False False False],
      IdlAccount ''remoteTokenMessenger'' False False False,
      IdlAccount ''tokenProgram'' False False False,
      IdlAccount ''systemProgram'' False False False],
     ix_args = [(''args'', TDefined ''addCctpRouterEndpointArgs'')],
     ix_returns = None\<rparr>"

definition idl_me_addLocalRouterEndpoint :: idlInstruction where
  "idl_me_addLocalRouterEndpoint = \<lparr>
     ix_name = ''addLocalRouterEndpoint'',
     ix_discriminator = Some [198, 42, 183, 17, 125, 218, 182, 136],
     ix_accounts =
     [IdlAccount ''payer'' True True False,
      IdlComposite ''admin''
        [IdlAccount ''ownerOrAssistant'' False True False,
         IdlComposite ''custodian''
           [IdlAccount ''custodian'' False False False]],
      IdlAccount ''routerEndpoint'' True False False,
      IdlComposite ''local''
        [IdlAccount ''tokenRouterProgram'' False False False,
         IdlAccount ''tokenRouterEmitter'' False False False,
         IdlAccount ''tokenRouterMintRecipient'' False False False],
      IdlAccount ''systemProgram'' False False False],
     ix_args = [],
     ix_returns = None\<rparr>"

definition idl_me_cancelOwnershipTransferRequest :: idlInstruction where
  "idl_me_cancelOwnershipTransferRequest = \<lparr>
     ix_name = ''cancelOwnershipTransferRequest'',
     ix_discriminator = Some [167, 61, 9, 35, 192, 41, 64, 178],
     ix_accounts =
     [IdlComposite ''admin''
        [IdlAccount ''owner'' False True False,
         IdlAccount ''custodian'' True False False]],
     ix_args = [],
     ix_returns = None\<rparr>"

definition idl_me_closeAuction :: idlInstruction where
  "idl_me_closeAuction = \<lparr>
     ix_name = ''closeAuction'',
     ix_discriminator = Some [225, 129, 91, 48, 215, 73, 203, 172],
     ix_accounts =
     [IdlAccount ''auction'' True False False,
      IdlAccount ''beneficiary'' True False False,
      IdlAccount ''eventAuthority'' False False False,
      IdlAccount ''program'' False False False],
     ix_args = [],
     ix_returns = None\<rparr>"

definition idl_me_closeProposal :: idlInstruction where
  "idl_me_closeProposal = \<lparr>
     ix_name = ''closeProposal'',
     ix_discriminator = Some [213, 178, 139, 19, 50, 191, 82, 245],
     ix_accounts =
     [IdlComposite ''admin''
        [IdlAccount ''ownerOrAssistant'' False True False,
         IdlComposite ''custodian''
           [IdlAccount ''custodian'' False False False]],
      IdlAccount ''proposedBy'' True False False,
      IdlAccount ''proposal'' True False False],
     ix_args = [],
     ix_returns = None\<rparr>"

definition idl_me_closeRedeemedFastFill :: idlInstruction where
  "idl_me_closeRedeemedFastFill = \<lparr>
     ix_name = ''closeRedeemedFastFill'',
     ix_discriminator = Some [44, 104, 207, 178, 224, 7, 28, 219],
     ix_accounts =
     [IdlAccount ''preparedBy'' True False False,
      IdlAccount ''fastFill'' True False False],
     ix_args = [],
     ix_returns = None\<rparr>"

definition idl_me_completeFastFill :: idlInstruction where
  "idl_me_completeFastFill = \<lparr>
     ix_name = ''completeFastFill'',
     ix_discriminator = Some [113, 252, 68, 134, 84, 61, 113, 203],
     ix_accounts =
     [IdlComposite ''custodian''
        [IdlAccount ''custodian'' False False False],
      IdlAccount ''fastFill'' True False False,
      IdlAccount ''tokenRouterEmitter'' False True False,
      IdlAccount ''tokenRouterCustodyToken'' True False False,
      IdlComposite ''path''
        [IdlComposite ''fromEndpoint''
           [IdlAccount ''endpoint'' False False False],
         IdlComposite ''toEndpoint''
           [IdlAccount ''endpoint'' False False False]],
      IdlAccount ''localCustodyToken'' True False False,
      IdlAccount ''tokenProgram'' False False False,
      IdlAccount ''eventAuthority'' False False False,
      IdlAccount ''program'' False False False],
     ix_args = [],
     ix_returns = None\<rparr>"

definition idl_me_confirmOwnershipTransferRequest :: idlInstruction where
  "idl_me_confirmOwnershipTransferRequest = \<lparr>
     ix_name = ''confirmOwnershipTransferRequest'',
     ix_discriminator = Some [118, 148, 109, 68, 201, 30, 139, 53],
     ix_accounts =
     [IdlAccount ''pendingOwner'' False True False,
      IdlAccount ''custodian'' True False False],
     ix_args = [],
     ix_returns = None\<rparr>"

definition idl_me_createFirstAuctionHistory :: idlInstruction where
  "idl_me_createFirstAuctionHistory = \<lparr>
     ix_name = ''createFirstAuctionHistory'',
     ix_discriminator = Some [225, 203, 74, 36, 233, 11, 54, 75],
     ix_accounts =
     [IdlAccount ''dummy'' False False False],
     ix_args = [],
     ix_returns = None\<rparr>"

definition idl_me_createNewAuctionHistory :: idlInstruction where
  "idl_me_createNewAuctionHistory = \<lparr>
     ix_name = ''createNewAuctionHistory'',
     ix_discriminator = Some [63, 157, 83, 157, 231, 58, 207, 227],
     ix_accounts =
     [IdlAccount ''dummy'' False False False],
     ix_args = [],
     ix_returns = None\<rparr>"

definition idl_me_disableRouterEndpoint :: idlInstruction where
  "idl_me_disableRouterEndpoint = \<lparr>
     ix_name = ''disableRouterEndpoint'',
     ix_discriminator = Some [119, 145, 105, 95, 65, 77, 61, 69],
     ix_accounts =
     [IdlComposite ''admin''
        [IdlAccount ''owner'' False True False,
         IdlComposite ''custodian''
           [IdlAccount ''custodian'' False False False]],
      IdlComposite ''routerEndpoint''
        [IdlAccount ''endpoint'' True False False]],
     ix_args = [],
     ix_returns = None\<rparr>"

definition idl_me_executeFastOrderCctp :: idlInstruction where
  "idl_me_executeFastOrderCctp = \<lparr>
     ix_name = ''executeFastOrderCctp'',
     ix_discriminator = Some [176, 38, 30, 17, 230, 78, 206, 157],
     ix_accounts =
     [IdlAccount ''payer'' True True False,
      IdlAccount ''coreMessage'' True False False,
      IdlAccount ''cctpMessage'' True False False,
      IdlComposite ''custodian''
        [IdlAccount ''custodian'' False False False],
      IdlComposite ''executeOrder''
        [IdlComposite ''fastVaa''
           [IdlAccount ''vaa'' False False False],
         IdlComposite ''activeAuction''
           [IdlAccount ''auction'' True False False,
            IdlAccount ''custodyToken'' True False False,
            IdlAccount ''config'' False False False,
            IdlAccount ''bestOfferToken'' True False False],
         IdlAccount ''executorToken'' True False False,
         IdlAccount ''initialOfferToken'' True False False,
         IdlAccount ''initialParticipant'' True False False],
      IdlComposite ''toRouterEndpoint''
        [IdlAccount ''endpoint'' False False False],
      IdlComposite ''wormhole''
        [IdlAccount ''config'' True False False,
         IdlAccount ''emitterSequence'' True False False,
         IdlAccount ''feeCollector'' True False False,
         IdlAccount ''coreBridgeProgram'' False False False],
      IdlComposite ''cctp''
        [IdlAccount ''mint'' True False False,
         IdlAccount ''tokenMessengerMinterSenderAuthority'' False False False,
         IdlAccount ''messageTransmitterConfig'' True False False,
         IdlAccount ''tokenMessenger'' False False False,
         IdlAccount ''remoteTokenMessenger'' False False False,
         IdlAccount ''tokenMinter'' False False False,
         IdlAccount ''localToken'' True False False,
         IdlAccount ''tokenMessengerMinterEventAuthority'' False False False,
         IdlAccount ''tokenMessengerMinterProgram'' False False False,
         IdlAccount ''messageTransmitterProgram'' False False False],
      IdlAccount ''systemProgram'' False False False,
      IdlAccount ''tokenProgram'' False False False,
      IdlComposite ''sysvars''
        [IdlAccount ''clock'' False False False,
         IdlAccount ''rent'' False False False],
      IdlAccount ''eventAuthority'' False False False,
      IdlAccount ''program'' False False False],
     ix_args = [],
     ix_returns = None\<rparr>"

definition idl_me_executeFastOrderLocal :: idlInstruction where
  "idl_me_executeFastOrderLocal = \<lparr>
     ix_name = ''executeFastOrderLocal'',
     ix_discriminator = Some [140, 206, 26, 243, 243, 66, 24, 240],
     ix_accounts =
     [IdlAccount ''payer'' True True False,
      IdlComposite ''custodian''
        [IdlAccount ''custodian'' False False False],
      IdlComposite ''executeOrder''
        [IdlComposite ''fastVaa''
           [IdlAccount ''vaa'' False False False],
         IdlComposite ''activeAuction''
           [IdlAccount ''auction'' True False False,
            IdlAccount ''custodyToken'' True False False,
            IdlAccount ''config'' False False False,
            IdlAccount ''bestOfferToken'' True False False],
         IdlAccount ''executorToken'' True False False,
         IdlAccount ''initialOfferToken'' True False False,
         IdlAccount ''initialParticipant'' True False False],
      IdlAccount ''reservedSequence'' True False False,
      IdlAccount ''reserveBeneficiary'' True False False,
      IdlAccount ''fastFill'' True False False,
      IdlAccount ''localCustodyToken'' True False False,
      IdlAccount ''systemProgram'' False False False,
      IdlAccount ''tokenProgram'' False False False,
      IdlComposite ''sysvars''
        [IdlAccount ''clock'' False False False,
         IdlAccount ''rent'' False False False],
      IdlAccount ''eventAuthority'' False False False,
      IdlAccount ''program'' False False False],
     ix_args = [],
     ix_returns = None\<rparr>"

definition idl_me_improveOffer :: idlInstruction where
  "idl_me_improveOffer = \<lparr>
     ix_name = ''improveOffer'',
     ix_discriminator = Some [171, 112, 46, 172, 194, 135, 23, 102],
     ix_accounts =
     [IdlAccount ''transferAuthority'' False False False,
      IdlComposite ''activeAuction''
        [IdlAccount ''auction'' True False False,
         IdlAccount ''custodyToken'' True False False,
         IdlAccount ''config'' False False False,
         IdlAccount ''bestOfferToken'' True False False],
      IdlAccount ''offerToken'' False False False,
      IdlAccount ''tokenProgram'' False False False,
      IdlAccount ''eventAuthority'' False False False,
      IdlAccount ''program'' False False False],
     ix_args = [(''offerPrice'', TUInt 64)],
     ix_returns = None\<rparr>"

definition idl_me_initialize :: idlInstruction where
  "idl_me_initialize = \<lparr>
     ix_name = ''initialize'',
     ix_discriminator = Some [175, 175, 109, 31, 13, 152, 155, 237],
     ix_accounts =
     [IdlAccount ''owner'' True True False,
      IdlAccount ''custodian'' True False False,
      IdlAccount ''auctionConfig'' True False False,
      IdlAccount ''ownerAssistant'' False False False,
      IdlAccount ''feeRecipient'' False False False,
      IdlAccount ''feeRecipientToken'' False False False,
      IdlAccount ''cctpMintRecipient'' True False False,
      IdlComposite ''usdc''
        [IdlAccount ''mint'' False False False],
      IdlAccount ''programData'' True False False,
      IdlAccount ''upgradeManagerAuthority'' False False False,
      IdlAccount ''upgradeManagerProgram'' False False False,
      IdlAccount ''bpfLoaderUpgradeableProgram'' False False False,
      IdlAccount ''systemProgram'' False False False,
      IdlAccount ''tokenProgram'' False False False,
      IdlAccount ''associatedTokenProgram'' False False False],
     ix_args = [(''args'', TDefined ''initializeArgs'')],
     ix_returns = None\<rparr>"

definition idl_me_migrate :: idlInstruction where
  "idl_me_migrate = \<lparr>
     ix_name = ''migrate'',
     ix_discriminator = Some [155, 234, 231, 146, 236, 158, 162, 30],
     ix_accounts =
     [IdlComposite ''admin''
        [IdlAccount ''owner'' False True False,
         IdlComposite ''custodian''
           [IdlAccount ''custodian'' False False False]]],
     ix_args = [],
     ix_returns = None\<rparr>"

definition idl_me_placeInitialOfferCctp :: idlInstruction where
  "idl_me_placeInitialOfferCctp = \<lparr>
     ix_name = ''placeInitialOfferCctp'',
     ix_discriminator = Some [157, 156, 175, 35, 91, 249, 1, 129],
     ix_accounts =
     [IdlAccount ''payer'' True True False,
      IdlAccount ''transferAuthority'' False False False,
      IdlComposite ''custodian''
        [IdlAccount ''custodian'' False False False],
      IdlAccount ''auctionConfig'' False False False,
      IdlComposite ''fastOrderPath''
        [IdlComposite ''fastVaa''
           [IdlAccount ''vaa'' False False False],
         IdlComposite ''path''
           [IdlComposite ''fromEndpoint''
              [IdlAccount ''endpoint'' False False False],
            IdlComposite ''toEndpoint''
              [IdlAccount ''endpoint'' False False False]]],
      IdlAccount ''auction'' True False False,
      IdlAccount ''offerToken'' False False False,
      IdlAccount ''auctionCustodyToken'' True False False,
      IdlComposite ''usdc''
        [IdlAccount ''mint'' False False False],
      IdlAccount ''systemProgram'' False False False,
      IdlAccount ''tokenProgram'' False False False,
      IdlAccount ''eventAuthority'' False False False,
      IdlAccount ''program'' False False False],
     ix_args = [(''offerPrice'', TUInt 64)],
     ix_returns = None\<rparr>"

definition idl_me_prepareOrderResponseCctp :: idlInstruction where
  "idl_me_prepareOrderResponseCctp = \<lparr>
     ix_name = ''prepareOrderResponseCctp'',
     ix_discriminator = Some [221, 178, 184, 43, 247, 248, 90, 160],
     ix_accounts =
     [IdlAccount ''payer'' True True False,
      IdlComposite ''custodian''
        [IdlAccount ''custodian'' False False False],
      IdlComposite ''fastOrderPath''
        [IdlComposite ''fastVaa''
           [IdlAccount ''vaa'' False False False],
         IdlComposite ''path''
           [IdlComposite ''fromEndpoint''
              [IdlAccount ''endpoint'' False False False],
            IdlComposite ''toEndpoint''
              [IdlAccount ''endpoint'' False False False]]],
      IdlComposite ''finalizedVaa''
        [IdlAccount ''vaa'' False False False],
      IdlAccount ''preparedOrderResponse'' True False False,
      IdlAccount ''preparedCustodyToken'' True False False,
      IdlAccount ''baseFeeToken'' False False False,
      IdlComposite ''usdc''
        [IdlAccount ''mint'' False False False],
      IdlComposite ''cctp''
        [IdlComposite ''mintRecipient''
           [IdlAccount ''mintRecipient'' True False False],
         IdlAccount ''messageTransmitterAuthority'' False False False,
         IdlAccount ''messageTransmitterConfig'' False False False,
         IdlAccount ''usedNonces'' True False False,
         IdlAccount ''messageTransmitterEventAuthority'' False False False,
         IdlAccount ''tokenMessenger'' False False False,
         IdlAccount ''remoteTokenMessenger'' False False False,
         IdlAccount ''tokenMinter'' False False False,
         IdlAccount ''localToken'' True False False,
         IdlAccount ''tokenPair'' False False False,
         IdlAccount ''tokenMessengerMinterCustodyToken'' True False False,
         IdlAccount ''tokenMessengerMinterEventAuthority'' False False False,
         IdlAccount ''tokenMessengerMinterProgram'' False False False,
         IdlAccount ''messageTransmitterProgram'' False False False],
      IdlAccount ''tokenProgram'' False False False,
      IdlAccount ''systemProgram'' False False False],
     ix_args = [(''args'', TDefined ''cctpMessageArgs'')],
     ix_returns = None\<rparr>"

definition idl_me_proposeAuctionParameters :: idlInstruction where
  "idl_me_proposeAuctionParameters = \<lparr>
     ix_name = ''proposeAuctionParameters'',
     ix_discriminator = Some [86, 19, 21, 43, 32, 106, 249, 80],
     ix_accounts =
     [IdlAccount ''payer'' True True False,
      IdlComposite ''admin''
        [IdlAccount ''ownerOrAssistant'' False True False,
         IdlComposite ''custodian''
           [IdlAccount ''custodian'' False False False]],
      IdlAccount ''proposal'' True False False,
      IdlAccount ''systemProgram'' False False False,
      IdlAccount ''epochSchedule'' False False False,
      IdlAccount ''eventAuthority'' False False False,
      IdlAccount ''program'' False False False],
     ix_args = [(''params'', TDefined ''auctionParameters'')],
     ix_returns = None\<rparr>"

definition idl_me_reserveFastFillSequenceActiveAuction :: idlInstruction where
  "idl_me_reserveFastFillSequenceActiveAuction = \<lparr>
     ix_name = ''reserveFastFillSequenceActiveAuction'',
     ix_discriminator = Some [206, 255, 241, 68, 224, 129, 210, 187],
     ix_accounts =
     [IdlComposite ''reserveSequence''
        [IdlAccount ''payer'' True True False,
         IdlComposite ''fastOrderPath''
           [IdlComposite ''fastVaa''
              [IdlAccount ''vaa'' False False False],
            IdlComposite ''path''
              [IdlComposite ''fromEndpoint''
                 [IdlAccount ''endpoint'' False False False],
               IdlComposite ''toEndpoint''
                 [IdlAccount ''endpoint'' False False False]]],
         IdlAccount ''sequencer'' True False False,
         IdlAccount ''reserved'' True False False,
         IdlAccount ''auction'' True False False,
         IdlAccount ''systemProgram'' False False False],
      IdlAccount ''auctionConfig'' False False False,
      IdlAccount ''eventAuthority'' False False False,
      IdlAccount ''program'' False False False],
     ix_args = [],
     ix_returns = None\<rparr>"

definition idl_me_reserveFastFillSequenceNoAuction :: idlInstruction where
  "idl_me_reserveFastFillSequenceNoAuction = \<lparr>
     ix_name = ''reserveFastFillSequenceNoAuction'',
     ix_discriminator = Some [61, 148, 140, 87, 186, 87, 212, 239],
     ix_accounts =
     [IdlComposite ''reserveSequence''
        [IdlAccount ''payer'' True True False,
         IdlComposite ''fastOrderPath''
           [IdlComposite ''fastVaa''
              [IdlAccount ''vaa'' False False False],
            IdlComposite ''path''
              [IdlComposite ''fromEndpoint''
                 [IdlAccount ''endpoint'' False False False],
               IdlComposite ''toEndpoint''
                 [IdlAccount ''endpoint'' False False False]]],
         IdlAccount ''sequencer'' True False False,
         IdlAccount ''reserved'' True False False,
         IdlAccount ''auction'' True False False,
         IdlAccount ''systemProgram'' False False False],
      IdlAccount ''preparedOrderResponse'' False False False,
      IdlAccount ''eventAuthority'' False False False,
      IdlAccount ''program'' False False False],
     ix_args = [],
     ix_returns = None\<rparr>"

definition idl_me_setPause :: idlInstruction where
  "idl_me_setPause = \<lparr>
     ix_name = ''setPause'',
     ix_discriminator = Some [63, 32, 154, 2, 56, 103, 79, 45],
     ix_accounts =
     [IdlComposite ''admin''
        [IdlAccount ''ownerOrAssistant'' False True False,
         IdlAccount ''custodian'' True False False]],
     ix_args = [(''pause'', TBool)],
     ix_returns = None\<rparr>"

definition idl_me_settleAuctionComplete :: idlInstruction where
  "idl_me_settleAuctionComplete = \<lparr>
     ix_name = ''settleAuctionComplete'',
     ix_discriminator = Some [84, 39, 0, 132, 21, 101, 222, 137],
     ix_accounts =
     [IdlAccount ''beneficiary'' True False False,
      IdlAccount ''baseFeeToken'' True False False,
      IdlAccount ''bestOfferToken'' True False False,
      IdlAccount ''preparedOrderResponse'' True False False,
      IdlAccount ''preparedCustodyToken'' True False False,
      IdlAccount ''auction'' True False False,
      IdlAccount ''tokenProgram'' False False False,
      IdlAccount ''eventAuthority'' False False False,
      IdlAccount ''program'' False False False],
     ix_args = [],
     ix_returns = None\<rparr>"

definition idl_me_settleAuctionNoneCctp :: idlInstruction where
  "idl_me_settleAuctionNoneCctp = \<lparr>
     ix_name = ''settleAuctionNoneCctp'',
     ix_discriminator = Some [120, 236, 82, 121, 242, 118, 74, 161],
     ix_accounts =
     [IdlAccount ''payer'' True True False,
      IdlAccount ''coreMessage'' True False False,
      IdlAccount ''cctpMessage'' True False False,
      IdlComposite ''custodian''
        [IdlAccount ''custodian'' False False False],
      IdlAccount ''feeRecipientToken'' True False False,
      IdlComposite ''prepared''
        [IdlAccount ''by'' True False False,
         IdlAccount ''orderResponse'' True False False,
         IdlAccount ''custodyToken'' True False False],
      IdlAccount ''auction'' True False False,
      IdlComposite ''wormhole''
        [IdlAccount ''config'' True False False,
         IdlAccount ''emitterSequence'' True False False,
         IdlAccount ''feeCollector'' True False False,
         IdlAccount ''coreBridgeProgram'' False False False],
      IdlComposite ''cctp''
        [IdlAccount ''mint'' True False False,
         IdlAccount ''tokenMessengerMinterSenderAuthority'' False False False,
         IdlAccount ''messageTransmitterConfig'' True False False,
         IdlAccount ''tokenMessenger'' False False False,
         IdlAccount ''remoteTokenMessenger'' False False False,
         IdlAccount ''tokenMinter'' False False False,
         IdlAccount ''localToken'' True False False,
         IdlAccount ''tokenMessengerMinterEventAuthority'' False False False,
         IdlAccount ''tokenMessengerMinterProgram'' False False False,
         IdlAccount ''messageTransmitterProgram'' False False False],
      IdlAccount ''tokenProgram'' False False False,
      IdlAccount ''systemProgram'' False False False,
      IdlComposite ''sysvars''
        [IdlAccount ''clock'' False False False,
         IdlAccount ''rent'' False False False],
      IdlAccount ''eventAuthority'' False False False,
      IdlAccount ''program'' False False False],
     ix_args = [],
     ix_returns = None\<rparr>"

definition idl_me_settleAuctionNoneLocal :: idlInstruction where
  "idl_me_settleAuctionNoneLocal = \<lparr>
     ix_name = ''settleAuctionNoneLocal'',
     ix_discriminator = Some [253, 213, 132, 148, 31, 119, 215, 162],
     ix_accounts =
     [IdlAccount ''payer'' True True False,
      IdlComposite ''custodian''
        [IdlAccount ''custodian'' False False False],
      IdlAccount ''feeRecipientToken'' True False False,
      IdlComposite ''prepared''
        [IdlAccount ''by'' True False False,
         IdlAccount ''orderResponse'' True False False,
         IdlAccount ''custodyToken'' True False False],
      IdlAccount ''auction'' True False False,
      IdlAccount ''reservedSequence'' True False False,
      IdlAccount ''fastFill'' True False False,
      IdlAccount ''localCustodyToken'' True False False,
      IdlAccount ''tokenProgram'' False False False,
      IdlAccount ''systemProgram'' False False False,
      IdlComposite ''sysvars''
        [IdlAccount ''clock'' False False False,
         IdlAccount ''rent'' False False False],
      IdlAccount ''eventAuthority'' False False False,
      IdlAccount ''program'' False False False],
     ix_args = [],
     ix_returns = None\<rparr>"

definition idl_me_submitOwnershipTransferRequest :: idlInstruction where
  "idl_me_submitOwnershipTransferRequest = \<lparr>
     ix_name = ''submitOwnershipTransferRequest'',
     ix_discriminator = Some [215, 13, 88, 199, 48, 195, 19, 225],
     ix_accounts =
     [IdlComposite ''admin''
        [IdlAccount ''owner'' False True False,
         IdlAccount ''custodian'' True False False],
      IdlAccount ''newOwner'' False False False],
     ix_args = [],
     ix_returns = None\<rparr>"

definition idl_me_updateAuctionParameters :: idlInstruction where
  "idl_me_updateAuctionParameters = \<lparr>
     ix_name = ''updateAuctionParameters'',
     ix_discriminator = Some [10, 33, 10, 75, 17, 63, 21, 245],
     ix_accounts =
     [IdlAccount ''payer'' True True False,
      IdlComposite ''admin''
        [IdlAccount ''owner'' False True False,
         IdlAccount ''custodian'' True False False],
      IdlAccount ''proposal'' True False False,
      IdlAccount ''auctionConfig'' True False False,
      IdlAccount ''systemProgram'' False False False,
      IdlAccount ''eventAuthority'' False False False,
      IdlAccount ''program'' False False False],
     ix_args = [],
     ix_returns = None\<rparr>"

definition idl_me_updateCctpRouterEndpoint :: idlInstruction where
  "idl_me_updateCctpRouterEndpoint = \<lparr>
     ix_name = ''updateCctpRouterEndpoint'',
     ix_discriminator = Some [34, 122, 31, 38, 73, 126, 94, 127],
     ix_accounts =
     [IdlComposite ''admin''
        [IdlAccount ''owner'' False True False,
         IdlComposite ''custodian''
           [IdlAccount ''custodian'' False False False]],
      IdlComposite ''routerEndpoint''
        [IdlAccount ''endpoint'' True False False],
      IdlAccount ''remoteTokenMessenger'' False False False],
     ix_args = [(''args'', TDefined ''addCctpRouterEndpointArgs'')],
     ix_returns = None\<rparr>"

definition idl_me_updateFeeRecipient :: idlInstruction where
  "idl_me_updateFeeRecipient = \<lparr>
     ix_name = ''updateFeeRecipient'',
     ix_discriminator = Some [249, 0, 198, 35, 183, 123, 57, 188],
     ix_accounts =
     [IdlComposite ''admin''
        [IdlAccount ''ownerOrAssistant'' False True False,
         IdlAccount ''custodian'' True False False],
      IdlAccount ''newFeeRecipientToken'' False False False,
      IdlAccount ''newFeeRecipient'' False False False],
     ix_args = [],
     ix_returns = None\<rparr>"

definition idl_me_updateLocalRouterEndpoint :: idlInstruction where
  "idl_me_updateLocalRouterEndpoint = \<lparr>
     ix_name = ''updateLocalRouterEndpoint'',
     ix_discriminator = Some [222, 237, 142, 228, 88, 3, 49, 102],
     ix_accounts =
     [IdlComposite ''admin''
        [IdlAccount ''owner'' False True False,
         IdlComposite ''custodian''
           [IdlAccount ''custodian'' False False False]],
      IdlComposite ''routerEndpoint''
        [IdlAccount ''endpoint'' True False False],
      IdlComposite ''local''
        [IdlAccount ''tokenRouterProgram'' False False False,
         IdlAccount ''tokenRouterEmitter'' False False False,
         IdlAccount ''tokenRouterMintRecipient'' False False False]],
     ix_args = [],
     ix_returns = None\<rparr>"

definition idl_me_updateOwnerAssistant :: idlInstruction where
  "idl_me_updateOwnerAssistant = \<lparr>
     ix_name = ''updateOwnerAssistant'',
     ix_discriminator = Some [153, 83, 175, 53, 168, 34, 131, 22],
     ix_accounts =
     [IdlComposite ''admin''
        [IdlAccount ''owner'' False True False,
         IdlAccount ''custodian'' True False False],
      IdlAccount ''newOwnerAssistant'' False False False],
     ix_args = [],
     ix_returns = None\<rparr>"

definition me_idl :: "idlInstruction list" where
  "me_idl =
    [idl_me_addAuctionHistoryEntry,
     idl_me_addCctpRouterEndpoint,
     idl_me_addLocalRouterEndpoint,
     idl_me_cancelOwnershipTransferRequest,
     idl_me_closeAuction,
     idl_me_closeProposal,
     idl_me_closeRedeemedFastFill,
     idl_me_completeFastFill,
     idl_me_confirmOwnershipTransferRequest,
     idl_me_createFirstAuctionHistory,
     idl_me_createNewAuctionHistory,
     idl_me_disableRouterEndpoint,
     idl_me_executeFastOrderCctp,
     idl_me_executeFastOrderLocal,
     idl_me_improveOffer,
     idl_me_initialize,
     idl_me_migrate,
     idl_me_placeInitialOfferCctp,
     idl_me_prepareOrderResponseCctp,
     idl_me_proposeAuctionParameters,
     idl_me_reserveFastFillSequenceActiveAuction,
     idl_me_reserveFastFillSequenceNoAuction,
     idl_me_setPause,
     idl_me_settleAuctionComplete,
     idl_me_settleAuctionNoneCctp,
     idl_me_settleAuctionNoneLocal,
     idl_me_submitOwnershipTransferRequest,
     idl_me_updateAuctionParameters,
     idl_me_updateCctpRouterEndpoint,
     idl_me_updateFeeRecipient,
     idl_me_updateLocalRouterEndpoint,
     idl_me_updateOwnerAssistant]"

lemmas me_idl_defs = me_idl_def
  idl_me_addAuctionHistoryEntry_def idl_me_addCctpRouterEndpoint_def idl_me_addLocalRouterEndpoint_def
  idl_me_cancelOwnershipTransferRequest_def idl_me_closeAuction_def idl_me_closeProposal_def
  idl_me_closeRedeemedFastFill_def idl_me_completeFastFill_def idl_me_confirmOwnershipTransferRequest_def
  idl_me_createFirstAuctionHistory_def idl_me_createNewAuctionHistory_def idl_me_disableRouterEndpoint_def
  idl_me_executeFastOrderCctp_def idl_me_executeFastOrderLocal_def idl_me_improveOffer_def
  idl_me_initialize_def idl_me_migrate_def idl_me_placeInitialOfferCctp_def
  idl_me_prepareOrderResponseCctp_def idl_me_proposeAuctionParameters_def
  idl_me_reserveFastFillSequenceActiveAuction_def idl_me_reserveFastFillSequenceNoAuction_def
  idl_me_setPause_def idl_me_settleAuctionComplete_def idl_me_settleAuctionNoneCctp_def
  idl_me_settleAuctionNoneLocal_def idl_me_submitOwnershipTransferRequest_def
  idl_me_updateAuctionParameters_def idl_me_updateCctpRouterEndpoint_def idl_me_updateFeeRecipient_def
  idl_me_updateLocalRouterEndpoint_def idl_me_updateOwnerAssistant_def

end
