(* ===== verification/Idl_Token_Router.thy ===== *)
theory Idl_Token_Router
  imports Idl_Types
begin

text \<open>
  The instructions of the Token Router and of the Upgrade Manager, as
  \<open>solana/ts/src/idl/ts/token_router.ts\<close> and \<open>upgrade_manager.ts\<close> declare them.
\<close>

section \<open>Token Router\<close>

definition idl_tr_cancelOwnershipTransferRequest :: idlInstruction where
  "idl_tr_cancelOwnershipTransferRequest = \<lparr>
     ix_name = ''cancelOwnershipTransferRequest'',
     ix_discriminator = Some [167, 61, 9, 35, 192, 41, 64, 178],
     ix_accounts =
     [IdlComposite ''admin''
        [IdlAccount ''owner'' False True False,
         IdlAccount ''custodian'' True False False]],
     ix_args = [],
     ix_returns = None\<rparr>"

definition idl_tr_closePreparedOrder :: idlInstruction where
  "idl_tr_closePreparedOrder = \<lparr>
     ix_name = ''closePreparedOrder'',
     ix_discriminator = Some [80, 86, 214, 135, 92, 228, 169, 130],
     ix_accounts =
     [IdlComposite ''custodian''
        [IdlAccount ''custodian'' False False False],
      IdlAccount ''orderSender'' False True False,
      IdlAccount ''preparedOrder'' True False False,
      IdlAccount ''preparedBy'' True False False,
      IdlAccount ''refundToken'' True False False,
      IdlAccount ''preparedCustodyToken'' True False False,
      IdlAccount ''tokenProgram'' False False False],
     ix_args = [],
     ix_returns = None\<rparr>"

definition idl_tr_confirmOwnershipTransferRequest :: idlInstruction where
  "idl_tr_confirmOwnershipTransferRequest = \<lparr>
     ix_name = ''confirmOwnershipTransferRequest'',
     ix_discriminator = Some [118, 148, 109, 68, 201, 30, 139, 53],
     ix_accounts =
     [IdlAccount ''pendingOwner'' False True False,
      IdlAccount ''custodian'' True False False],
     ix_args = [],
     ix_returns = None\<rparr>"

definition idl_tr_consumePreparedFill :: idlInstruction where
  "idl_tr_consumePreparedFill = \<lparr>
     ix_name = ''consumePreparedFill'',
     ix_discriminator = Some [190, 236, 129, 230, 103, 120, 195, 167],
     ix_accounts =
     [IdlAccount ''redeemer'' False True False,
      IdlAccount ''beneficiary'' True False False,
      IdlAccount ''preparedFill'' True False False,
      IdlAccount ''dstToken'' True False False,
      IdlAccount ''preparedCustodyToken'' True False False,
      IdlAccount ''tokenProgram'' False False False],
     ix_args = [],
     ix_returns = None\<rparr>"

definition idl_tr_initialize :: idlInstruction where
  "idl_tr_initialize = \<lparr>
     ix_name = ''initialize'',
     ix_discriminator = Some [175, 175, 109, 31, 13, 152, 155, 237],
     ix_accounts =
     [IdlAccount ''owner'' True True False,
      IdlAccount ''custodian'' True False False,
      IdlAccount ''ownerAssistant'' False False False,
      IdlAccount ''cctpMintRecipient'' True False False,
      IdlComposite ''mint''
        [IdlAccount ''mint'' False False False],
      IdlAccount ''programData'' True False False,
      IdlAccount ''upgradeManagerAuthority'' False False False,
      IdlAccount ''upgradeManagerProgram'' False False False,
      IdlAccount ''bpfLoaderUpgradeableProgram'' False False False,
      IdlAccount ''systemProgram'' False False False,
      IdlAccount ''tokenProgram'' False False False,
      IdlAccount ''associatedTokenProgram'' False False False],
     ix_args = [],
     ix_returns = None\<rparr>"

definition idl_tr_migrate :: idlInstruction where
  "idl_tr_migrate = \<lparr>
     ix_name = ''migrate'',
     ix_discriminator = Some [155, 234, 231, 146, 236, 158, 162, 30],
     ix_accounts =
     [IdlComposite ''admin''
        [IdlAccount ''owner'' False True False,
         IdlComposite ''custodian''
           [IdlAccount ''custodian'' False False False]]],
     ix_args = [],
     ix_returns = None\<rparr>"

definition idl_tr_placeMarketOrderCctp :: idlInstruction where
  "idl_tr_placeMarketOrderCctp = \<lparr>
     ix_name = ''placeMarketOrderCctp'',
     ix_discriminator = Some [166, 53, 183, 130, 108, 24, 173, 152],
     ix_accounts =
     [IdlAccount ''payer'' True True False,
      IdlAccount ''preparedBy'' True False False,
      IdlComposite ''custodian''
        [IdlAccount ''custodian'' False False False],
      IdlAccount ''preparedOrder'' True False False,
      IdlAccount ''mint'' True False False,
      IdlAccount ''preparedCustodyToken'' True False False,
      IdlComposite ''targetRouterEndpoint''
        [IdlAccount ''endpoint'' False False False],
      IdlAccount ''coreBridgeConfig'' True False False,
      IdlAccount ''coreMessage'' True False False,
      IdlAccount ''cctpMessage'' True False False,
      IdlAccount ''coreEmitterSequence'' True False False,
      IdlAccount ''coreFeeCollector'' True False False,
      IdlAccount ''tokenMessengerMinterSenderAuthority'' False False False,
      IdlAccount ''messageTransmitterConfig'' True False False,
      IdlAccount ''tokenMessenger'' False False False,
      IdlAccount ''remoteTokenMessenger'' False False False,
      IdlAccount ''tokenMinter'' False False False,
      IdlAccount ''localToken'' True False False,
      IdlAccount ''tokenMessengerMinterEventAuthority'' False False False,
      IdlAccount ''coreBridgeProgram'' False False False,
      IdlAccount ''tokenMessengerMinterProgram'' False False False,
      IdlAccount ''messageTransmitterProgram'' False False False,
      IdlAccount ''tokenProgram'' False False False,
      IdlAccount ''systemProgram'' False False False,
      IdlAccount ''clock'' False False False,
      IdlAccount ''rent'' False False False],
     ix_args = [],
     ix_returns = None\<rparr>"

definition idl_tr_prepareMarketOrder :: idlInstruction where
  "idl_tr_prepareMarketOrder = \<lparr>
     ix_name = ''prepareMarketOrder'',
     ix_discriminator = Some [19, 157, 161, 196, 88, 176, 70, 21],
     ix_accounts =
     [IdlAccount ''payer'' True True False,
      IdlComposite ''custodian''
        [IdlAccount ''custodian'' False False False],
      IdlAccount ''programTransferAuthority'' False False True,
      IdlAccount ''sender'' False True True,
      IdlAccount ''preparedOrder'' True True False,
      IdlAccount ''senderToken'' True False False,
      IdlAccount ''refundToken'' False False False,
      IdlAccount ''preparedCustodyToken'' True False False,
      IdlComposite ''usdc''
        [IdlAccount ''mint'' False False False],
      IdlComposite ''targetRouterEndpoint''
        [IdlAccount ''endpoint'' False False False],
      IdlAccount ''tokenProgram'' False False False,
      IdlAccount ''systemProgram'' False False False],
     ix_args = [(''args'', TDefined ''prepareMarketOrderArgs'')],
     ix_returns = None\<rparr>"

definition idl_tr_redeemCctpFill :: idlInstruction where
  "idl_tr_redeemCctpFill = \<lparr>
     ix_name = ''redeemCctpFill'',
     ix_discriminator = Some [61, 85, 136, 127, 30, 118, 37, 126],
     ix_accounts =
     [IdlAccount ''payer'' True True False,
      IdlComposite ''custodian''
        [IdlAccount ''custodian'' False False False],
      IdlComposite ''fillVaa''
        [IdlAccount ''vaa'' False False False],
      IdlAccount ''preparedFill'' True False False,
      IdlAccount ''preparedCustodyToken'' True False False,
      IdlComposite ''usdc''
        [IdlAccount ''mint'' False False False],
      IdlComposite ''sourceRouterEndpoint''
        [IdlAccount ''endpoint'' False False False],
      IdlComposite ''cctp''
        [IdlComposite ''mintRecipient''
           [IdlAccount ''mintRecipient'' True False False],
         IdlAccount ''messageTransmitterAuthority'' False False False,
         IdlAccount ''messageTransmitterConfig'' False False False,
         IdlAccount ''usedNonces'' True False False,
         IdlAccount ''messageTransmitterEventAuthority'' False False False,
         IdlAccount ''tokenMessenger'' False False False,
         IdlAccount ''remoteTokenMessenger'' False False False,
         IdlAccount ''tokenMinter'' False False False,
         IdlAccount ''localToken'' True False False,
         IdlAccount ''tokenPair'' False False False,
         IdlAccount ''tokenMessengerMinterCustodyToken'' True False False,
         IdlAccount ''tokenMessengerMinterEventAuthority'' False False False,
         IdlAccount ''tokenMessengerMinterProgram'' False False False,
         IdlAccount ''messageTransmitterProgram'' False False False],
      IdlAccount ''tokenProgram'' False False False,
      IdlAccount ''systemProgram'' False False False],
     ix_args = [(''args'', TDefined ''cctpMessageArgs'')],
     ix_returns = None\<rparr>"

definition idl_tr_redeemFastFill :: idlInstruction where
  "idl_tr_redeemFastFill = \<lparr>
     ix_name = ''redeemFastFill'',
     ix_discriminator = Some [11, 52, 181, 5, 101, 194, 200, 15],
     ix_accounts =
     [IdlAccount ''payer'' True True False,
      IdlComposite ''custodian''
        [IdlAccount ''custodian'' False False False],
      IdlAccount ''fastFill'' True False False,
      IdlAccount ''preparedFill'' True False False,
      IdlAccount ''preparedCustodyToken'' True False False,
      IdlComposite ''usdc''
        [IdlAccount ''mint'' False False False],
      IdlAccount ''matchingEngineCustodian'' False False False,
      IdlAccount ''matchingEngineFromEndpoint'' False False False,
      IdlAccount ''matchingEngineToEndpoint'' False False False,
      IdlAccount ''matchingEngineLocalCustodyToken'' True False False,
      IdlAccount ''matchingEngineEventAuthority'' False False False,
      IdlAccount ''matchingEngineProgram'' False False False,
      IdlAccount ''tokenProgram'' False False False,
      IdlAccount ''systemProgram'' False False False],
     ix_args = [],
     ix_returns = None\<rparr>"

definition idl_tr_setPause :: idlInstruction where
  "idl_tr_setPause = \<lparr>
     ix_name = ''setPause'',
     ix_discriminator = Some [63, 32, 154, 2, 56, 103, 79, 45],
     ix_accounts =
     [IdlComposite ''admin''
        [IdlAccount ''ownerOrAssistant'' False True False,
         IdlAccount ''custodian'' True False False]],
     ix_args = [(''paused'', TBool)],
     ix_returns = None\<rparr>"

definition idl_tr_submitOwnershipTransferRequest :: idlInstruction where
  "idl_tr_submitOwnershipTransferRequest = \<lparr>
     ix_name = ''submitOwnershipTransferRequest'',
     ix_discriminator = Some [215, 13, 88, 199, 48, 195, 19, 225],
     ix_accounts =
     [IdlComposite ''admin''
        [IdlAccount ''owner'' False True False,
         IdlAccount ''custodian'' True False False],
      IdlAccount ''newOwner'' False False False],
     ix_args = [],
     ix_returns = None\<rparr>"

definition idl_tr_updateOwnerAssistant :: idlInstruction where
  "idl_tr_updateOwnerAssistant = \<lparr>
     ix_name = ''updateOwnerAssistant'',
     ix_discriminator = Some [153, 83, 175, 53, 168, 34, 131, 22],
     ix_accounts =
     [IdlComposite ''admin''
        [IdlAccount ''owner'' False True False,
         IdlAccount ''custodian'' True False False],
      IdlAccount ''newOwnerAssistant'' False False False],
     ix_args = [],
     ix_returns = None\<rparr>"

definition tr_idl :: "idlInstruction list" where
  "tr_idl =
    [idl_tr_cancelOwnershipTransferRequest,
     idl_tr_closePreparedOrder,
     idl_tr_confirmOwnershipTransferRequest,
     idl_tr_consumePreparedFill,
     idl_tr_initialize,
     idl_tr_migrate,
     idl_tr_placeMarketOrderCctp,
     idl_tr_prepareMarketOrder,
     idl_tr_redeemCctpFill,
     idl_tr_redeemFastFill,
     idl_tr_setPause,
     idl_tr_submitOwnershipTransferRequest,
     idl_tr_updateOwnerAssistant]"

lemmas tr_idl_defs = tr_idl_def
  idl_tr_cancelOwnershipTransferRequest_def idl_tr_closePreparedOrder_def
  idl_tr_confirmOwnershipTransferRequest_def idl_tr_consumePreparedFill_def idl_tr_initialize_def
  idl_tr_migrate_def idl_tr_placeMarketOrderCctp_def idl_tr_prepareMarketOrder_def idl_tr_redeemCctpFill_def
  idl_tr_redeemFastFill_def idl_tr_setPause_def idl_tr_submitOwnershipTransferRequest_def
  idl_tr_updateOwnerAssistant_def

section \<open>Upgrade Manager\<close>

definition idl_um_commitMatchingEngineUpgrade :: idlInstruction where
  "idl_um_commitMatchingEngineUpgrade = \<lparr>
     ix_name = ''commitMatchingEngineUpgrade'',
     ix_discriminator = Some [120, 241, 248, 175, 251, 140, 252, 166],
     ix_accounts =
     [IdlAccount ''matchingEngineCustodian'' True False False,
      IdlComposite ''commitUpgrade''
        [IdlComposite ''admin''
           [IdlAccount ''owner'' False True False,
            IdlAccount ''upgradeAuthority'' False False False],
         IdlAccount ''recipient'' True False False,
         IdlAccount ''receipt'' True False False,
         IdlAccount ''program'' False False False,
         IdlAccount ''programData'' False False False]],
     ix_args = [],
     ix_returns = None\<rparr>"

definition idl_um_commitTokenRouterUpgrade :: idlInstruction where
  "idl_um_commitTokenRouterUpgrade = \<lparr>
     ix_name = ''commitTokenRouterUpgrade'',
     ix_discriminator = Some [181, 179, 155, 150, 72, 230, 172, 236],
     ix_accounts =
     [IdlAccount ''tokenRouterCustodian'' True False False,
      IdlComposite ''commitUpgrade''
        [IdlComposite ''admin''
           [IdlAccount ''owner'' False True False,
            IdlAccount ''upgradeAuthority'' False False False],
         IdlAccount ''recipient'' True False False,
         IdlAccount ''receipt'' True False False,
         IdlAccount ''program'' False False False,
         IdlAccount ''programData'' False False False]],
     ix_args = [],
     ix_returns = None\<rparr>"

definition idl_um_executeMatchingEngineUpgrade :: idlInstruction where
  "idl_um_executeMatchingEngineUpgrade = \<lparr>
     ix_name = ''executeMatchingEngineUpgrade'',
     ix_discriminator = Some [157, 131, 66, 64, 73, 90, 39, 235],
     ix_accounts =
     [IdlAccount ''matchingEngineCustodian'' True False False,
      IdlComposite ''executeUpgrade''
        [IdlAccount ''payer'' True True False,
         IdlComposite ''admin''
           [IdlAccount ''owner'' False True False,
            IdlAccount ''upgradeAuthority'' False False False],
         IdlAccount ''receipt'' True False False,
         IdlAccount ''buffer'' True False False,
         IdlAccount ''programData'' True False False,
         IdlAccount ''program'' True False False,
         IdlAccount ''bpfLoaderUpgradeableProgram'' False False False,
         IdlAccount ''systemProgram'' False False False,
         IdlComposite ''sysvars''
           [IdlAccount ''clock'' False False False,
            IdlAccount ''rent'' False False False]]],
     ix_args = [],
     ix_returns = None\<rparr>"

definition idl_um_executeTokenRouterUpgrade :: idlInstruction where
  "idl_um_executeTokenRouterUpgrade = \<lparr>
     ix_name = ''executeTokenRouterUpgrade'',
     ix_discriminator = Some [143, 237, 202, 123, 91, 113, 172, 43],
     ix_accounts =
     [IdlAccount ''tokenRouterCustodian'' True False False,
      IdlComposite ''executeUpgrade''
        [IdlAccount ''payer'' True True False,
         IdlComposite ''admin''
           [IdlAccount ''owner'' False True False,
            IdlAccount ''upgradeAuthority'' False False False],
         IdlAccount ''receipt'' True False False,
         IdlAccount ''buffer'' True False False,
         IdlAccount ''programData'' True False False,
         IdlAccount ''program'' True False False,
         IdlAccount ''bpfLoaderUpgradeableProgram'' False False False,
         IdlAccount ''systemProgram'' False False False,
         IdlComposite ''sysvars''
           [IdlAccount ''clock'' False False False,
            IdlAccount ''rent'' False False False]]],
     ix_args = [],
     ix_returns = None\<rparr>"

definition um_idl :: "idlInstruction list" where
  "um_idl =
    [idl_um_commitMatchingEngineUpgrade,
     idl_um_commitTokenRouterUpgrade,
     idl_um_executeMatchingEngineUpgrade,
     idl_um_executeTokenRouterUpgrade]"

lemmas um_idl_defs = um_idl_def
  idl_um_commitMatchingEngineUpgrade_def idl_um_commitTokenRouterUpgrade_def
  idl_um_executeMatchingEngineUpgrade_def idl_um_executeTokenRouterUpgrade_def

end
