(* ===== verification/Idl_Me_Types.thy ===== *)
theory Idl_Me_Types
  imports Idl_Types
begin

text \<open>
  The types, accounts, events and errors of the Matching Engine, as \<open>solana/ts/src/idl/ts/matching_engine.ts\<close>
  declares them. An account or an event has the type of its name.
\<close>

section \<open>Types\<close>

definition ty_me_addCctpRouterEndpointArgs :: idlTypeDef where
  "ty_me_addCctpRouterEndpointArgs = StructDef
     [(''chain'', TUInt 16), (''cctpDomain'', TUInt 32), (''address'', TArray (TUInt 8) 32),
      (''mintRecipient'', TOption (TArray (TUInt 8) 32))]"

definition ty_me_auction :: idlTypeDef where
  "ty_me_auction = StructDef
     [(''bump'', TUInt 8), (''vaaHash'', TArray (TUInt 8) 32), (''vaaTimestamp'', TUInt 32),
      (''targetProtocol'', TDefined ''messageProtocol''), (''status'', TDefined ''auctionStatus''),
      (''preparedBy'', TPubkey), (''info'', TOption (TDefined ''auctionInfo''))]"

definition ty_me_auctionClosed :: idlTypeDef where
  "ty_me_auctionClosed = StructDef
     [(''auction'', TDefined ''auction'')]"

definition ty_me_auctionConfig :: idlTypeDef where
  "ty_me_auctionConfig = StructDef
     [(''id'', TUInt 32), (''parameters'', TDefined ''auctionParameters'')]"

definition ty_me_auctionDestinationAssetInfo :: idlTypeDef where
  "ty_me_auctionDestinationAssetInfo = StructDef
     [(''custodyTokenBump'', TUInt 8), (''amountOut'', TUInt 64)]"

definition ty_me_auctionInfo :: idlTypeDef where
  "ty_me_auctionInfo = StructDef
     [(''configId'', TUInt 32), (''custodyTokenBump'', TUInt 8), (''vaaSequence'', TUInt 64),
      (''sourceChain'', TUInt 16), (''bestOfferToken'', TPubkey), (''initialOfferToken'', TPubkey),
      (''startSlot'', TUInt 64), (''amountIn'', TUInt 64), (''securityDeposit'', TUInt 64),
      (''offerPrice'', TUInt 64), (''redeemerMessageLen'', TUInt 16),
      (''destinationAssetInfo'', TOption (TDefined ''auctionDestinationAssetInfo''))]"

definition ty_me_auctionParameters :: idlTypeDef where
  "ty_me_auctionParameters = StructDef
     [(''userPenaltyRewardBps'', TUInt 32), (''initialPenaltyBps'', TUInt 32), (''duration'', TUInt 16),
      (''gracePeriod'', TUInt 16), (''penaltyPeriod'', TUInt 16), (''minOfferDeltaBps'', TUInt 32),
      (''securityDepositBase'', TUInt 64), (''securityDepositBps'', TUInt 32)]"

definition ty_me_auctionSettled :: idlTypeDef where
  "ty_me_auctionSettled = StructDef
     [(''fastVaaHash'', TArray (TUInt 8) 32),
      (''bestOfferToken'', TOption (TDefined ''settledTokenAccountInfo'')),
      (''baseFeeToken'', TOption (TDefined ''settledTokenAccountInfo'')),
      (''withExecute'', TOption (TDefined ''messageProtocol''))]"

definition ty_me_auctionStatus :: idlTypeDef where
  "ty_me_auctionStatus = EnumDef
     [(''notStarted'', []), (''active'', []),
      (''completed'', [(''slot'', TUInt 64), (''executePenalty'', TOption (TUInt 64))]),
      (''settled'', [(''fee'', TUInt 64), (''totalPenalty'', TOption (TUInt 64))])]"

definition ty_me_auctionUpdated :: idlTypeDef where
  "ty_me_auctionUpdated = StructDef
     [(''configId'', TUInt 32), (''fastVaaHash'', TArray (TUInt 8) 32), (''vaa'', TOption TPubkey),
      (''sourceChain'', TUInt 16), (''targetProtocol'', TDefined ''messageProtocol''),
      (''redeemerMessageLen'', TUInt 16), (''endSlot'', TUInt 64), (''bestOfferToken'', TPubkey),
      (''tokenBalanceBefore'', TUInt 64), (''amountIn'', TUInt 64), (''totalDeposit'', TUInt 64),
      (''maxOfferPriceAllowed'', TOption (TUInt 64))]"

definition ty_me_cctpMessageArgs :: idlTypeDef where
  "ty_me_cctpMessageArgs = StructDef
     [(''encodedCctpMessage'', TBytes), (''cctpAttestation'', TBytes)]"

definition ty_me_custodian :: idlTypeDef where
  "ty_me_custodian = StructDef
     [(''owner'', TPubkey), (''pendingOwner'', TOption TPubkey), (''paused'', TBool),
      (''pausedSetBy'', TPubkey), (''ownerAssistant'', TPubkey), (''feeRecipientToken'', TPubkey),
      (''auctionConfigId'', TUInt 32), (''nextProposalId'', TUInt 64)]"

definition ty_me_enacted :: idlTypeDef where
  "ty_me_enacted = StructDef
     [(''action'', TDefined ''proposalAction'')]"

definition ty_me_endpointInfo :: idlTypeDef where
  "ty_me_endpointInfo = StructDef
     [(''chain'', TUInt 16), (''address'', TArray (TUInt 8) 32),
      (''mintRecipient'', TArray (TUInt 8) 32), (''protocol'', TDefined ''messageProtocol'')]"

definition ty_me_fastFill :: idlTypeDef where
  "ty_me_fastFill = StructDef
     [(''seeds'', TDefined ''fastFillSeeds''), (''redeemed'', TBool),
      (''info'', TDefined ''fastFillInfo''), (''redeemerMessage'', TBytes)]"

definition ty_me_fastFillInfo :: idlTypeDef where
  "ty_me_fastFillInfo = StructDef
     [(''preparedBy'', TPubkey), (''amount'', TUInt 64), (''redeemer'', TPubkey), (''timestamp'', TInt 64)]"

definition ty_me_fastFillRedeemed :: idlTypeDef where
  "ty_me_fastFillRedeemed = StructDef
     [(''preparedBy'', TPubkey), (''fastFill'', TDefined ''fastFillSeeds'')]"

definition ty_me_fastFillSeeds :: idlTypeDef where
  "ty_me_fastFillSeeds = StructDef
     [(''sourceChain'', TUInt 16), (''orderSender'', TArray (TUInt 8) 32), (''sequence'', TUInt 64),
      (''bump'', TUInt 8)]"

definition ty_me_fastFillSequenceReserved :: idlTypeDef where
  "ty_me_fastFillSequenceReserved = StructDef
     [(''fastVaaHash'', TArray (TUInt 8) 32), (''fastFill'', TDefined ''fastFillSeeds'')]"

definition ty_me_fastFillSequencer :: idlTypeDef where
  "ty_me_fastFillSequencer = StructDef
     [(''seeds'', TDefined ''fastFillSequencerSeeds''), (''nextSequence'', TUInt 64)]"

definition ty_me_fastFillSequencerSeeds :: idlTypeDef where
  "ty_me_fastFillSequencerSeeds = StructDef
     [(''sourceChain'', TUInt 16), (''sender'', TArray (TUInt 8) 32), (''bump'', TUInt 8)]"

definition ty_me_initializeArgs :: idlTypeDef where
  "ty_me_initializeArgs = StructDef
     [(''auctionParams'', TDefined ''auctionParameters'')]"

definition ty_me_localFastOrderFilled :: idlTypeDef where
  "ty_me_localFastOrderFilled = StructDef
     [(''seeds'', TDefined ''fastFillSeeds''), (''info'', TDefined ''fastFillInfo''),
      (''auction'', TOption TPubkey)]"

definition ty_me_messageProtocol :: idlTypeDef where
  "ty_me_messageProtocol = EnumDef
     [(''none'', []), (''local'', [(''programId'', TPubkey)]), (''cctp'', [(''domain'', TUInt 32)])]"

definition ty_me_orderExecuted :: idlTypeDef where
  "ty_me_orderExecuted = StructDef
     [(''fastVaaHash'', TArray (TUInt 8) 32), (''vaa'', TPubkey), (''sourceChain'', TUInt 16),
      (''targetProtocol'', TDefined ''messageProtocol''), (''penalized'', TBool)]"

definition ty_me_preparedOrderResponse :: idlTypeDef where
  "ty_me_preparedOrderResponse = StructDef
     [(''seeds'', TDefined ''preparedOrderResponseSeeds''),
      (''info'', TDefined ''preparedOrderResponseInfo''), (''toEndpoint'', TDefined ''endpointInfo''),
      (''redeemerMessage'', TBytes)]"

definition ty_me_preparedOrderResponseInfo :: idlTypeDef where
  "ty_me_preparedOrderResponseInfo = StructDef
     [(''preparedBy'', TPubkey), (''baseFeeToken'', TPubkey), (''fastVaaTimestamp'', TUInt 32),
      (''sourceChain'', TUInt 16), (''baseFee'', TUInt 64), (''initAuctionFee'', TUInt 64),
      (''sender'', TArray (TUInt 8) 32), (''redeemer'', TArray (TUInt 8) 32), (''amountIn'', TUInt 64)]"

definition ty_me_preparedOrderResponseSeeds :: idlTypeDef where
  "ty_me_preparedOrderResponseSeeds = StructDef
     [(''fastVaaHash'', TArray (TUInt 8) 32), (''bump'', TUInt 8)]"

definition ty_me_proposal :: idlTypeDef where
  "ty_me_proposal = StructDef
     [(''id'', TUInt 64), (''bump'', TUInt 8), (''action'', TDefined ''proposalAction''),
      (''by'', TPubkey), (''owner'', TPubkey), (''slotProposedAt'', TUInt 64),
      (''slotEnactDelay'', TUInt 64), (''slotEnactedAt'', TOption (TUInt 64))]"

definition ty_me_proposalAction :: idlTypeDef where
  "ty_me_proposalAction = EnumDef
     [(''none'', []),
      (''updateAuctionParameters'', [(''id'', TUInt 32), (''parameters'', TDefined ''auctionParameters'')])]"

definition ty_me_proposed :: idlTypeDef where
  "ty_me_proposed = StructDef
     [(''action'', TDefined ''proposalAction'')]"

definition ty_me_remoteTokenMessenger :: idlTypeDef where
  "ty_me_remoteTokenMessenger = StructDef
     [(''domain'', TUInt 32), (''tokenMessenger'', TArray (TUInt 8) 32)]"

definition ty_me_reservedFastFillSequence :: idlTypeDef where
  "ty_me_reservedFastFillSequence = StructDef
     [(''seeds'', TDefined ''reservedFastFillSequenceSeeds''), (''beneficiary'', TPubkey),
      (''fastFillSeeds'', TDefined ''fastFillSeeds'')]"

definition ty_me_reservedFastFillSequenceSeeds :: idlTypeDef where
  "ty_me_reservedFastFillSequenceSeeds = StructDef
     [(''fastVaaHash'', TArray (TUInt 8) 32), (''bump'', TUInt 8)]"

definition ty_me_routerEndpoint :: idlTypeDef where
  "ty_me_routerEndpoint = StructDef
     [(''bump'', TUInt 8), (''info'', TDefined ''endpointInfo'')]"

definition ty_me_settledTokenAccountInfo :: idlTypeDef where
  "ty_me_settledTokenAccountInfo = StructDef
     [(''key'', TPubkey), (''balanceAfter'', TUInt 64)]"

definition me_types :: idlTypes where
  "me_types =
     [(''addCctpRouterEndpointArgs'', ty_me_addCctpRouterEndpointArgs), (''auction'', ty_me_auction),
      (''auctionClosed'', ty_me_auctionClosed), (''auctionConfig'', ty_me_auctionConfig),
      (''auctionDestinationAssetInfo'', ty_me_auctionDestinationAssetInfo),
      (''auctionInfo'', ty_me_auctionInfo), (''auctionParameters'', ty_me_auctionParameters),
      (''auctionSettled'', ty_me_auctionSettled), (''auctionStatus'', ty_me_auctionStatus),
      (''auctionUpdated'', ty_me_auctionUpdated), (''cctpMessageArgs'', ty_me_cctpMessageArgs),
      (''custodian'', ty_me_custodian), (''enacted'', ty_me_enacted),
      (''endpointInfo'', ty_me_endpointInfo), (''fastFill'', ty_me_fastFill),
      (''fastFillInfo'', ty_me_fastFillInfo), (''fastFillRedeemed'', ty_me_fastFillRedeemed),
      (''fastFillSeeds'', ty_me_fastFillSeeds),
      (''fastFillSequenceReserved'', ty_me_fastFillSequenceReserved),
      (''fastFillSequencer'', ty_me_fastFillSequencer),
      (''fastFillSequencerSeeds'', ty_me_fastFillSequencerSeeds),
      (''initializeArgs'', ty_me_initializeArgs), (''localFastOrderFilled'', ty_me_localFastOrderFilled),
      (''messageProtocol'', ty_me_messageProtocol), (''orderExecuted'', ty_me_orderExecuted),
      (''preparedOrderResponse'', ty_me_preparedOrderResponse),
      (''preparedOrderResponseInfo'', ty_me_preparedOrderResponseInfo),
      (''preparedOrderResponseSeeds'', ty_me_preparedOrderResponseSeeds), (''proposal'', ty_me_proposal),
      (''proposalAction'', ty_me_proposalAction), (''proposed'', ty_me_proposed),
      (''remoteTokenMessenger'', ty_me_remoteTokenMessenger),
      (''reservedFastFillSequence'', ty_me_reservedFastFillSequence),
      (''reservedFastFillSequenceSeeds'', ty_me_reservedFastFillSequenceSeeds),
      (''routerEndpoint'', ty_me_routerEndpoint),
      (''settledTokenAccountInfo'', ty_me_settledTokenAccountInfo)]"

section \<open>Accounts, events, errors\<close>

definition me_accounts :: "(string \<times> byte list) list" where
  "me_accounts =
     [(''auction'', [218, 94, 247, 242, 126, 233, 131, 81]),
      (''auctionConfig'', [195, 54, 8, 51, 28, 231, 33, 142]),
      (''custodian'', [132, 228, 139, 184, 112, 228, 108, 240]),
      (''fastFill'', [89, 120, 166, 41, 106, 227, 218, 121]),
      (''fastFillSequencer'', [70, 193, 18, 127, 227, 183, 46, 177]),
      (''preparedOrderResponse'', [20, 123, 155, 182, 141, 189, 18, 173]),
      (''proposal'', [26, 94, 189, 187, 116, 136, 53, 33]),
      (''remoteTokenMessenger'', [105, 115, 174, 34, 95, 233, 138, 252]),
      (''reservedFastFillSequence'', [77, 151, 219, 66, 126, 238, 151, 179]),
      (''routerEndpoint'', [217, 148, 188, 203, 183, 105, 154, 205])]"

definition me_events :: "(string \<times> byte list) list" where
  "me_events =
     [(''auctionClosed'', [104, 72, 168, 177, 241, 79, 231, 167]),
      (''auctionSettled'', [61, 151, 131, 170, 95, 203, 219, 147]),
      (''auctionUpdated'', [67, 35, 50, 236, 108, 230, 253, 111]),
      (''enacted'', [200, 226, 146, 0, 188, 24, 141, 143]),
      (''fastFillRedeemed'', [192, 96, 201, 180, 102, 112, 34, 102]),
      (''fastFillSequenceReserved'', [6, 154, 159, 87, 13, 183, 211, 152]),
      (''localFastOrderFilled'', [131, 247, 217, 194, 154, 179, 238, 193]),
      (''orderExecuted'', [74, 135, 231, 5, 168, 106, 194, 117]),
      (''proposed'', [216, 37, 138, 141, 130, 208, 180, 153])]"

definition me_errors :: "(nat \<times> string \<times> string option) list" where
  "me_errors =
     [(6002, ''ownerOnly'', None), (6004, ''ownerOrAssistantOnly'', None), (6016, ''u64Overflow'', None),
      (6018, ''u32Overflow'', None), (6032, ''sameEndpoint'', None), (6034, ''invalidEndpoint'', None),
      (6048, ''invalidVaa'', None), (6066, ''invalidDeposit'', None),
      (6068, ''invalidDepositMessage'', None), (6070, ''invalidPayloadId'', None),
      (6072, ''invalidDepositPayloadId'', None), (6074, ''notFastMarketOrder'', None),
      (6076, ''vaaMismatch'', None), (6078, ''redeemerMessageTooLarge'', None),
      (6096, ''invalidSourceRouter'', None), (6098, ''invalidTargetRouter'', None),
      (6100, ''endpointDisabled'', None), (6102, ''invalidCctpEndpoint'', None),
      (6128, ''paused'', None), (6256, ''assistantZeroPubkey'', None),
      (6257, ''feeRecipientZeroPubkey'', None), (6258, ''immutableProgram'', None),
      (6260, ''zeroDuration'', None), (6262, ''zeroGracePeriod'', None),
      (6263, ''zeroPenaltyPeriod'', None),
      (6264, ''userPenaltyRewardBpsTooLarge'', Some ''Value exceeds 1000000''),
      (6266, ''initialPenaltyBpsTooLarge'', Some ''Value exceeds 1000000''),
      (6268, ''minOfferDeltaBpsTooLarge'', Some ''Value exceeds 1000000''),
      (6270, ''zeroSecurityDepositBase'', None),
      (6271, ''securityDepositBpsTooLarge'', Some ''Value exceeds 1000000''),
      (6514, ''invalidNewOwner'', None), (6516, ''alreadyOwner'', None),
      (6518, ''noTransferOwnershipRequest'', None), (6520, ''notPendingOwner'', None),
      (6524, ''invalidChain'', None), (6576, ''chainNotAllowed'', None),
      (6578, ''invalidMintRecipient'', None), (6768, ''proposalAlreadyEnacted'', None),
      (6770, ''proposalDelayNotExpired'', None), (6772, ''invalidProposal'', None),
      (6832, ''auctionConfigMismatch'', None), (7024, ''fastMarketOrderExpired'', None),
      (7026, ''offerPriceTooHigh'', None), (7032, ''auctionNotActive'', None),
      (7034, ''auctionPeriodExpired'', None), (7036, ''auctionPeriodNotExpired'', None),
      (7044, ''executorTokenMismatch'', None), (7050, ''auctionNotCompleted'', None),
      (7054, ''carpingNotAllowed'', None), (7056, ''auctionNotSettled'', None),
      (7058, ''executorNotPreparedBy'', None), (7060, ''invalidOfferToken'', None),
      (7062, ''fastFillTooLarge'', None), (7064, ''auctionExists'', None), (7065, ''noAuction'', None),
      (7066, ''bestOfferTokenMismatch'', None), (7068, ''bestOfferTokenRequired'', None),
      (7070, ''preparedByMismatch'', None), (7071, ''preparedOrderResponseNotRequired'', None),
      (7072, ''auctionConfigNotRequired'', None), (7073, ''bestOfferTokenNotRequired'', None),
      (7076, ''fastFillAlreadyRedeemed'', None), (7077, ''fastFillNotRedeemed'', None),
      (7080, ''reservedSequenceMismatch'', None), (7082, ''auctionAlreadySettled'', None),
      (7084, ''invalidBaseFeeToken'', None), (7086, ''baseFeeTokenRequired'', None),
      (7280, ''cannotCloseAuctionYet'', None), (7282, ''auctionHistoryNotFull'', None),
      (7284, ''auctionHistoryFull'', None)]"

end
