(* ===== verification/Idl_Tr_Types.thy ===== *)
theory Idl_Tr_Types
  imports Idl_Types
begin

text \<open>
  The types, accounts and errors of the Token Router and of the Upgrade Manager, as
  \<open>solana/ts/src/idl/ts/token_router.ts\<close> and \<open>upgrade_manager.ts\<close> declare them.
\<close>

section \<open>Token Router\<close>

definition ty_tr_cctpMessageArgs :: idlTypeDef where
  "ty_tr_cctpMessageArgs = StructDef
     [(''encodedCctpMessage'', TBytes), (''cctpAttestation'', TBytes)]"

definition ty_tr_custodian :: idlTypeDef where
  "ty_tr_custodian = StructDef
     [(''paused'', TBool), (''owner'', TPubkey), (''pendingOwner'', TOption TPubkey),
      (''ownerAssistant'', TPubkey), (''pausedSetBy'', TPubkey)]"

definition ty_tr_endpointInfo :: idlTypeDef where
  "ty_tr_endpointInfo = StructDef
     [(''chain'', TUInt 16), (''address'', TArray (TUInt 8) 32),
      (''mintRecipient'', TArray (TUInt 8) 32), (''protocol'', TDefined ''messageProtocol'')]"

definition ty_tr_fastFill :: idlTypeDef where
  "ty_tr_fastFill = StructDef
     [(''seeds'', TDefined ''fastFillSeeds''), (''redeemed'', TBool),
      (''info'', TDefined ''fastFillInfo''), (''redeemerMessage'', TBytes)]"

definition ty_tr_fastFillInfo :: idlTypeDef where
  "ty_tr_fastFillInfo = StructDef
     [(''preparedBy'', TPubkey), (''amount'', TUInt 64), (''redeemer'', TPubkey), (''timestamp'', TInt 64)]"

definition ty_tr_fastFillSeeds :: idlTypeDef where
  "ty_tr_fastFillSeeds = StructDef
     [(''sourceChain'', TUInt 16), (''orderSender'', TArray (TUInt 8) 32), (''sequence'', TUInt 64),
      (''bump'', TUInt 8)]"

definition ty_tr_fillType :: idlTypeDef where
  "ty_tr_fillType = EnumDef
     [(''unset'', []), (''wormholeCctpDeposit'', []), (''fastFill'', [])]"

definition ty_tr_messageProtocol :: idlTypeDef where
  "ty_tr_messageProtocol = EnumDef
     [(''none'', []), (''local'', [(''programId'', TPubkey)]), (''cctp'', [(''domain'', TUInt 32)])]"

definition ty_tr_orderType :: idlTypeDef where
  "ty_tr_orderType = EnumDef
     [(''market'', [(''minAmountOut'', TOption (TUInt 64))])]"

definition ty_tr_prepareMarketOrderArgs :: idlTypeDef where
  "ty_tr_prepareMarketOrderArgs = StructDef
     [(''amountIn'', TUInt 64), (''minAmountOut'', TOption (TUInt 64)), (''targetChain'', TUInt 16),
      (''redeemer'', TArray (TUInt 8) 32), (''redeemerMessage'', TBytes)]"

definition ty_tr_preparedFill :: idlTypeDef where
  "ty_tr_preparedFill = StructDef
     [(''seeds'', TDefined ''preparedFillSeeds''), (''info'', TDefined ''preparedFillInfo''),
      (''redeemerMessage'', TBytes)]"

definition ty_tr_preparedFillInfo :: idlTypeDef where
  "ty_tr_preparedFillInfo = StructDef
     [(''preparedCustodyTokenBump'', TUInt 8), (''preparedBy'', TPubkey),
      (''fillType'', TDefined ''fillType''), (''sourceChain'', TUInt 16),
      (''orderSender'', TArray (TUInt 8) 32), (''redeemer'', TPubkey), (''timestamp'', TInt 64)]"

definition ty_tr_preparedFillSeeds :: idlTypeDef where
  "ty_tr_preparedFillSeeds = StructDef
     [(''fillSource'', TPubkey), (''bump'', TUInt 8)]"

definition ty_tr_preparedOrder :: idlTypeDef where
  "ty_tr_preparedOrder = StructDef
     [(''info'', TDefined ''preparedOrderInfo''), (''redeemerMessage'', TBytes)]"

definition ty_tr_preparedOrderInfo :: idlTypeDef where
  "ty_tr_preparedOrderInfo = StructDef
     [(''preparedCustodyTokenBump'', TUInt 8), (''orderSender'', TPubkey), (''preparedBy'', TPubkey),
      (''orderType'', TDefined ''orderType''), (''srcToken'', TPubkey), (''refundToken'', TPubkey),
      (''targetChain'', TUInt 16), (''redeemer'', TArray (TUInt 8) 32)]"

definition ty_tr_routerEndpoint :: idlTypeDef where
  "ty_tr_routerEndpoint = StructDef
     [(''bump'', TUInt 8), (''info'', TDefined ''endpointInfo'')]"

definition tr_types :: idlTypes where
  "tr_types =
     [(''cctpMessageArgs'', ty_tr_cctpMessageArgs), (''custodian'', ty_tr_custodian),
      (''endpointInfo'', ty_tr_endpointInfo), (''fastFill'', ty_tr_fastFill),
      (''fastFillInfo'', ty_tr_fastFillInfo), (''fastFillSeeds'', ty_tr_fastFillSeeds),
      (''fillType'', ty_tr_fillType), (''messageProtocol'', ty_tr_messageProtocol),
      (''orderType'', ty_tr_orderType), (''prepareMarketOrderArgs'', ty_tr_prepareMarketOrderArgs),
      (''preparedFill'', ty_tr_preparedFill), (''preparedFillInfo'', ty_tr_preparedFillInfo),
      (''preparedFillSeeds'', ty_tr_preparedFillSeeds), (''preparedOrder'', ty_tr_preparedOrder),
      (''preparedOrderInfo'', ty_tr_preparedOrderInfo), (''routerEndpoint'', ty_tr_routerEndpoint)]"

definition tr_accounts :: "(string \<times> byte list) list" where
  "tr_accounts =
     [(''custodian'', [132, 228, 139, 184, 112, 228, 108, 240]),
      (''fastFill'', [89, 120, 166, 41, 106, 227, 218, 121]),
      (''preparedFill'', [202, 241, 65, 186, 110, 235, 238, 80]),
      (''preparedOrder'', [3, 21, 13, 182, 167, 149, 128, 118]),
      (''routerEndpoint'', [217, 148, 188, 203, 183, 105, 154, 205])]"

definition tr_errors :: "(nat \<times> string \<times> string option) list" where
  "tr_errors =
     [(6002, ''ownerOnly'', None), (6004, ''ownerOrAssistantOnly'', None), (6016, ''u64Overflow'', None),
      (6048, ''invalidVaa'', None), (6068, ''invalidDepositMessage'', None),
      (6070, ''invalidPayloadId'', None), (6072, ''invalidDepositPayloadId'', None),
      (6078, ''redeemerMessageTooLarge'', None), (6096, ''invalidSourceRouter'', None),
      (6098, ''invalidTargetRouter'', None), (6100, ''endpointDisabled'', None),
      (6102, ''invalidCctpEndpoint'', None), (6128, ''paused'', None),
      (6256, ''assistantZeroPubkey'', None), (6258, ''immutableProgram'', None),
      (6514, ''invalidNewOwner'', None), (6516, ''alreadyOwner'', None),
      (6518, ''noTransferOwnershipRequest'', None), (6520, ''notPendingOwner'', None),
      (6522, ''eitherSenderOrProgramTransferAuthority'', None),
      (6524, ''delegatedAmountMismatch'', None), (7024, ''insufficientAmount'', None),
      (7026, ''minAmountOutTooHigh'', None), (7028, ''invalidRedeemer'', None),
      (7030, ''preparedFillTooLarge'', None)]"

section \<open>Upgrade Manager\<close>

definition ty_um_upgradeReceipt :: idlTypeDef where
  "ty_um_upgradeReceipt = StructDef
     [(''bump'', TUInt 8), (''programDataBump'', TUInt 8), (''owner'', TPubkey),
      (''status'', TDefined ''upgradeStatus'')]"

definition ty_um_upgradeStatus :: idlTypeDef where
  "ty_um_upgradeStatus = EnumDef
     [(''none'', []), (''uncommitted'', [(''buffer'', TPubkey), (''slot'', TUInt 64)])]"

definition um_types :: idlTypes where
  "um_types =
     [(''upgradeReceipt'', ty_um_upgradeReceipt), (''upgradeStatus'', ty_um_upgradeStatus)]"

definition um_accounts :: "(string \<times> byte list) list" where
  "um_accounts =
     [(''upgradeReceipt'', [157, 218, 157, 144, 110, 49, 42, 111])]"

definition um_errors :: "(nat \<times> string \<times> string option) list" where
  "um_errors =
     [(6016, ''notUpgraded'', None), (6018, ''programDataMismatch'', None),
      (6020, ''ownerMismatch'', None)]"

end
