(* ===== verification/Idl_Message_Transmitter.thy ===== *)
theory Idl_Message_Transmitter
  imports Idl_Types
begin

text \<open>
  Circle's Message Transmitter as \<open>solana/ts/src/cctp/types/message_transmitter.ts\<close> describes it, in the older format of Anchor:
  discriminators are derived from names and not listed, accounts and events come with their types.
\<close>

section \<open>Instructions\<close>

definition idl_mt_initialize :: idlInstruction where
  "idl_mt_initialize = \<lparr>
     ix_name = ''initialize'',
     ix_discriminator = None,
     ix_accounts =
     [IdlAccount ''payer'' True True False,
      IdlAccount ''upgradeAuthority'' False True False,
      IdlAccount ''messageTransmitter'' True False False,
      IdlAccount ''messageTransmitterProgramData'' False False False,
      IdlAccount ''messageTransmitterProgram'' False False False,
      IdlAccount ''systemProgram'' False False False,
      IdlAccount ''eventAuthority'' False False False,
      IdlAccount ''program'' False False False],
     ix_args = [(''params'', TDefined ''InitializeParams'')],
     ix_returns = None\<rparr>"

definition idl_mt_transferOwnership :: idlInstruction where
  "idl_mt_transferOwnership = \<lparr>
     ix_name = ''transferOwnership'',
     ix_discriminator = None,
     ix_accounts =
     [IdlAccount ''owner'' False True False,
      IdlAccount ''messageTransmitter'' True False False,
      IdlAccount ''eventAuthority'' False False False,
      IdlAccount ''program'' False False False],
     ix_args = [(''params'', TDefined ''TransferOwnershipParams'')],
     ix_returns = None\<rparr>"

definition idl_mt_acceptOwnership :: idlInstruction where
  "idl_mt_acceptOwnership = \<lparr>
     ix_name = ''acceptOwnership'',
     ix_discriminator = None,
     ix_accounts =
     [IdlAccount ''pendingOwner'' False True False,
      IdlAccount ''messageTransmitter'' True False False,
      IdlAccount ''eventAuthority'' False False False,
      IdlAccount ''program'' False False False],
     ix_args = [(''params'', TDefined ''AcceptOwnershipParams'')],
     ix_returns = None\<rparr>"

definition idl_mt_updatePauser :: idlInstruction where
  "idl_mt_updatePauser = \<lparr>
     ix_name = ''updatePauser'',
     ix_discriminator = None,
     ix_accounts =
     [IdlAccount ''owner'' False True False,
      IdlAccount ''messageTransmitter'' True False False,
      IdlAccount ''eventAuthority'' False False False,
      IdlAccount ''program'' False False False],
     ix_args = [(''params'', TDefined ''UpdatePauserParams'')],
     ix_returns = None\<rparr>"

definition idl_mt_updateAttesterManager :: idlInstruction where
  "idl_mt_updateAttesterManager = \<lparr>
     ix_name = ''updateAttesterManager'',
     ix_discriminator = None,
     ix_accounts =
     [IdlAccount ''owner'' False True False,
      IdlAccount ''messageTransmitter'' True False False,
      IdlAccount ''eventAuthority'' False False False,
      IdlAccount ''program'' False False False],
     ix_args = [(''params'', TDefined ''UpdateAttesterManagerParams'')],
     ix_returns = None\<rparr>"

definition idl_mt_pause :: idlInstruction where
  "idl_mt_pause = \<lparr>
     ix_name = ''pause'',
     ix_discriminator = None,
     ix_accounts =
     [IdlAccount ''pauser'' False True False,
      IdlAccount ''messageTransmitter'' True False False,
      IdlAccount ''eventAuthority'' False False False,
      IdlAccount ''program'' False False False],
     ix_args = [(''params'', TDefined ''PauseParams'')],
     ix_returns = None\<rparr>"

definition idl_mt_unpause :: idlInstruction where
  "idl_mt_unpause = \<lparr>
     ix_name = ''unpause'',
     ix_discriminator = None,
     ix_accounts =
     [IdlAccount ''pauser'' False True False,
      IdlAccount ''messageTransmitter'' True False False,
      IdlAccount ''eventAuthority'' False False False,
      IdlAccount ''program'' False False False],
     ix_args = [(''params'', TDefined ''UnpauseParams'')],
     ix_returns = None\<rparr>"

definition idl_mt_setMaxMessageBodySize :: idlInstruction where
  "idl_mt_setMaxMessageBodySize = \<lparr>
     ix_name = ''setMaxMessageBodySize'',
     ix_discriminator = None,
     ix_accounts =
     [IdlAccount ''owner'' False True False,
      IdlAccount ''messageTransmitter'' True False False,
      IdlAccount ''eventAuthority'' False False False,
      IdlAccount ''program'' False False False],
     ix_args = [(''params'', TDefined ''SetMaxMessageBodySizeParams'')],
     ix_returns = None\<rparr>"

definition idl_mt_enableAttester :: idlInstruction where
  "idl_mt_enableAttester = \<lparr>
     ix_name = ''enableAttester'',
     ix_discriminator = None,
     ix_accounts =
     [IdlAccount ''payer'' True True False,
      IdlAccount ''attesterManager'' False True False,
      IdlAccount ''messageTransmitter'' True False False,
      IdlAccount ''systemProgram'' False False False,
      IdlAccount ''eventAuthority'' False False False,
      IdlAccount ''program'' False False False],
     ix_args = [(''params'', TDefined ''EnableAttesterParams'')],
     ix_returns = None\<rparr>"

definition idl_mt_disableAttester :: idlInstruction where
  "idl_mt_disableAttester = \<lparr>
     ix_name = ''disableAttester'',
     ix_discriminator = None,
     ix_accounts =
     [IdlAccount ''payer'' True True False,
      IdlAccount ''attesterManager'' False True False,
      IdlAccount ''messageTransmitter'' True False False,
      IdlAccount ''systemProgram'' False False False,
      IdlAccount ''eventAuthority'' False False False,
      IdlAccount ''program'' False False False],
     ix_args = [(''params'', TDefined ''DisableAttesterParams'')],
     ix_returns = None\<rparr>"

definition idl_mt_setSignatureThreshold :: idlInstruction where
  "idl_mt_setSignatureThreshold = \<lparr>
     ix_name = ''setSignatureThreshold'',
     ix_discriminator = None,
     ix_accounts =
     [IdlAccount ''attesterManager'' False True False,
      IdlAccount ''messageTransmitter'' True False False,
      IdlAccount ''eventAuthority'' False False False,
      IdlAccount ''program'' False False False],
     ix_args = [(''params'', TDefined ''SetSignatureThresholdParams'')],
     ix_returns = None\<rparr>"

definition idl_mt_sendMessage :: idlInstruction where
  "idl_mt_sendMessage = \<lparr>
     ix_name = ''sendMessage'',
     ix_discriminator = None,
     ix_accounts =
     [IdlAccount ''eventRentPayer'' True True False,
      IdlAccount ''senderAuthorityPda'' False True False,
      IdlAccount ''messageTransmitter'' True False False,
      IdlAccount ''messageSentEventData'' True True False,
      IdlAccount ''senderProgram'' False False False,
      IdlAccount ''systemProgram'' False False False],
     ix_args = [(''params'', TDefined ''SendMessageParams'')],
     ix_returns = Some (TUInt 64)\<rparr>"

definition idl_mt_sendMessageWithCaller :: idlInstruction where
  "idl_mt_sendMessageWithCaller = \<lparr>
     ix_name = ''sendMessageWithCaller'',
     ix_discriminator = None,
     ix_accounts =
     [IdlAccount ''eventRentPayer'' True True False,
      IdlAccount ''senderAuthorityPda'' False True False,
      IdlAccount ''messageTransmitter'' True False False,
      IdlAccount ''messageSentEventData'' True True False,
      IdlAccount ''senderProgram'' False False False,
      IdlAccount ''systemProgram'' False False False],
     ix_args = [(''params'', TDefined ''SendMessageWithCallerParams'')],
     ix_returns = Some (TUInt 64)\<rparr>"

definition idl_mt_replaceMessage :: idlInstruction where
  "idl_mt_replaceMessage = \<lparr>
     ix_name = ''replaceMessage'',
     ix_discriminator = None,
     ix_accounts =
     [IdlAccount ''eventRentPayer'' True True False,
      IdlAccount ''senderAuthorityPda'' False True False,
      IdlAccount ''messageTransmitter'' True False False,
      IdlAccount ''messageSentEventData'' True True False,
      IdlAccount ''senderProgram'' False False False,
      IdlAccount ''systemProgram'' False False False],
     ix_args = [(''params'', TDefined ''ReplaceMessageParams'')],
     ix_returns = Some (TUInt 64)\<rparr>"

definition idl_mt_receiveMessage :: idlInstruction where
  "idl_mt_receiveMessage = \<lparr>
     ix_name = ''receiveMessage'',
     ix_discriminator = None,
     ix_accounts =
     [IdlAccount ''payer'' True True False,
      IdlAccount ''caller'' False True False,
      IdlAccount ''authorityPda'' False False False,
      IdlAccount ''messageTransmitter'' False False False,
      IdlAccount ''usedNonces'' True False False,
      IdlAccount ''receiver'' False False False,
      IdlAccount ''systemProgram'' False False False,
      IdlAccount ''eventAuthority'' False False False,
      IdlAccount ''program'' False False False],
     ix_args = [(''params'', TDefined ''ReceiveMessageParams'')],
     ix_returns = None\<rparr>"

definition idl_mt_reclaimEventAccount :: idlInstruction where
  "idl_mt_reclaimEventAccount = \<lparr>
     ix_name = ''reclaimEventAccount'',
     ix_discriminator = None,
     ix_accounts =
     [IdlAccount ''payee'' True True False,
      IdlAccount ''messageTransmitter'' True False False,
      IdlAccount ''messageSentEventData'' True False False],
     ix_args = [(''params'', TDefined ''ReclaimEventAccountParams'')],
     ix_returns = None\<rparr>"

definition idl_mt_getNoncePda :: idlInstruction where
  "idl_mt_getNoncePda = \<lparr>
     ix_name = ''getNoncePda'',
     ix_discriminator = None,
     ix_accounts =
     [IdlAccount ''messageTransmitter'' False False False],
     ix_args = [(''params'', TDefined ''GetNoncePDAParams'')],
     ix_returns = Some TPubkey\<rparr>"

definition idl_mt_isNonceUsed :: idlInstruction where
  "idl_mt_isNonceUsed = \<lparr>
     ix_name = ''isNonceUsed'',
     ix_discriminator = None,
     ix_accounts =
     [IdlAccount ''usedNonces'' False False False],
     ix_args = [(''params'', TDefined ''IsNonceUsedParams'')],
     ix_returns = Some TBool\<rparr>"

definition mt_idl :: "idlInstruction list" where
  "mt_idl =
     [idl_mt_initialize, idl_mt_transferOwnership, idl_mt_acceptOwnership, idl_mt_updatePauser,
      idl_mt_updateAttesterManager, idl_mt_pause, idl_mt_unpause, idl_mt_setMaxMessageBodySize,
      idl_mt_enableAttester, idl_mt_disableAttester, idl_mt_setSignatureThreshold, idl_mt_sendMessage,
      idl_mt_sendMessageWithCaller, idl_mt_replaceMessage, idl_mt_receiveMessage,
      idl_mt_reclaimEventAccount, idl_mt_getNoncePda, idl_mt_isNonceUsed]"

section \<open>Accounts and types\<close>

definition ty_mt_messageSent :: idlTypeDef where
  "ty_mt_messageSent = StructDef
     [(''rentPayer'', TPubkey), (''message'', TBytes)]"

definition ty_mt_messageTransmitter :: idlTypeDef where
  "ty_mt_messageTransmitter = StructDef
     [(''owner'', TPubkey), (''pendingOwner'', TPubkey), (''attesterManager'', TPubkey),
      (''pauser'', TPubkey), (''paused'', TBool), (''localDomain'', TUInt 32), (''version'', TUInt 32),
      (''signatureThreshold'', TUInt 32), (''enabledAttesters'', TVec TPubkey),
      (''maxMessageBodySize'', TUInt 64), (''nextAvailableNonce'', TUInt 64)]"

definition ty_mt_usedNonces :: idlTypeDef where
  "ty_mt_usedNonces = StructDef
     [(''remoteDomain'', TUInt 32), (''firstNonce'', TUInt 64), (''usedNonces'', TArray (TUInt 64) 100)]"

definition ty_mt_AcceptOwnershipParams :: idlTypeDef where
  "ty_mt_AcceptOwnershipParams = StructDef
     []"

definition ty_mt_DisableAttesterParams :: idlTypeDef where
  "ty_mt_DisableAttesterParams = StructDef
     [(''attester'', TPubkey)]"

definition ty_mt_EnableAttesterParams :: idlTypeDef where
  "ty_mt_EnableAttesterParams = StructDef
     [(''newAttester'', TPubkey)]"

definition ty_mt_GetNoncePDAParams :: idlTypeDef where
  "ty_mt_GetNoncePDAParams = StructDef
     [(''nonce'', TUInt 64), (''sourceDomain'', TUInt 32)]"

definition ty_mt_InitializeParams :: idlTypeDef where
  "ty_mt_InitializeParams = StructDef
     [(''localDomain'', TUInt 32), (''attester'', TPubkey), (''maxMessageBodySize'', TUInt 64),
      (''version'', TUInt 32)]"

definition ty_mt_IsNonceUsedParams :: idlTypeDef where
  "ty_mt_IsNonceUsedParams = StructDef
     [(''nonce'', TUInt 64)]"

definition ty_mt_PauseParams :: idlTypeDef where
  "ty_mt_PauseParams = StructDef
     []"

definition ty_mt_ReceiveMessageParams :: idlTypeDef where
  "ty_mt_ReceiveMessageParams = StructDef
     [(''message'', TBytes), (''attestation'', TBytes)]"

definition ty_mt_HandleReceiveMessageParams :: idlTypeDef where
  "ty_mt_HandleReceiveMessageParams = StructDef
     [(''remoteDomain'', TUInt 32), (''sender'', TPubkey), (''messageBody'', TBytes),
      (''authorityBump'', TUInt 8)]"

definition ty_mt_ReclaimEventAccountParams :: idlTypeDef where
  "ty_mt_ReclaimEventAccountParams = StructDef
     [(''attestation'', TBytes)]"

definition ty_mt_ReplaceMessageParams :: idlTypeDef where
  "ty_mt_ReplaceMessageParams = StructDef
     [(''originalMessage'', TBytes), (''originalAttestation'', TBytes), (''newMessageBody'', TBytes),
      (''newDestinationCaller'', TPubkey)]"

definition ty_mt_SendMessageWithCallerParams :: idlTypeDef where
  "ty_mt_SendMessageWithCallerParams = StructDef
     [(''destinationDomain'', TUInt 32), (''recipient'', TPubkey), (''messageBody'', TBytes),
      (''destinationCaller'', TPubkey)]"

definition ty_mt_SendMessageParams :: idlTypeDef where
  "ty_mt_SendMessageParams = StructDef
     [(''destinationDomain'', TUInt 32), (''recipient'', TPubkey), (''messageBody'', TBytes)]"

definition ty_mt_SetMaxMessageBodySizeParams :: idlTypeDef where
  "ty_mt_SetMaxMessageBodySizeParams = StructDef
     [(''newMaxMessageBodySize'', TUInt 64)]"

definition ty_mt_SetSignatureThresholdParams :: idlTypeDef where
  "ty_mt_SetSignatureThresholdParams = StructDef
     [(''newSignatureThreshold'', TUInt 32)]"

definition ty_mt_TransferOwnershipParams :: idlTypeDef where
  "ty_mt_TransferOwnershipParams = StructDef
     [(''newOwner'', TPubkey)]"

definition ty_mt_UnpauseParams :: idlTypeDef where
  "ty_mt_UnpauseParams = StructDef
     []"

definition ty_mt_UpdateAttesterManagerParams :: idlTypeDef where
  "ty_mt_UpdateAttesterManagerParams = StructDef
     [(''newAttesterManager'', TPubkey)]"

definition ty_mt_UpdatePauserParams :: idlTypeDef where
  "ty_mt_UpdatePauserParams = StructDef
     [(''newPauser'', TPubkey)]"

definition ty_mt_MathError :: idlTypeDef where
  "ty_mt_MathError = EnumDef
     [(''MathOverflow'', []), (''MathUnderflow'', []), (''ErrorInDivision'', [])]"

definition mt_accountTypes :: idlTypes where
  "mt_accountTypes =
     [(''messageSent'', ty_mt_messageSent), (''messageTransmitter'', ty_mt_messageTransmitter),
      (''usedNonces'', ty_mt_usedNonces)]"

definition mt_types :: idlTypes where
  "mt_types =
     [(''AcceptOwnershipParams'', ty_mt_AcceptOwnershipParams),
      (''DisableAttesterParams'', ty_mt_DisableAttesterParams),
      (''EnableAttesterParams'', ty_mt_EnableAttesterParams),
      (''GetNoncePDAParams'', ty_mt_GetNoncePDAParams), (''InitializeParams'', ty_mt_InitializeParams),
      (''IsNonceUsedParams'', ty_mt_IsNonceUsedParams), (''PauseParams'', ty_mt_PauseParams),
      (''ReceiveMessageParams'', ty_mt_ReceiveMessageParams),
      (''HandleReceiveMessageParams'', ty_mt_HandleReceiveMessageParams),
      (''ReclaimEventAccountParams'', ty_mt_ReclaimEventAccountParams),
      (''ReplaceMessageParams'', ty_mt_ReplaceMessageParams),
      (''SendMessageWithCallerParams'', ty_mt_SendMessageWithCallerParams),
      (''SendMessageParams'', ty_mt_SendMessageParams),
      (''SetMaxMessageBodySizeParams'', ty_mt_SetMaxMessageBodySizeParams),
      (''SetSignatureThresholdParams'', ty_mt_SetSignatureThresholdParams),
      (''TransferOwnershipParams'', ty_mt_TransferOwnershipParams),
      (''UnpauseParams'', ty_mt_UnpauseParams),
      (''UpdateAttesterManagerParams'', ty_mt_UpdateAttesterManagerParams),
      (''UpdatePauserParams'', ty_mt_UpdatePauserParams), (''MathError'', ty_mt_MathError)]"

section \<open>Events and errors\<close>

definition ev_mt_OwnershipTransferStarted :: idlTypeDef where
  "ev_mt_OwnershipTransferStarted = StructDef
     [(''previousOwner'', TPubkey), (''newOwner'', TPubkey)]"

definition ev_mt_OwnershipTransferred :: idlTypeDef where
  "ev_mt_OwnershipTransferred = StructDef
     [(''previousOwner'', TPubkey), (''newOwner'', TPubkey)]"

definition ev_mt_PauserChanged :: idlTypeDef where
  "ev_mt_PauserChanged = StructDef
     [(''newAddress'', TPubkey)]"

definition ev_mt_AttesterManagerUpdated :: idlTypeDef where
  "ev_mt_AttesterManagerUpdated = StructDef
     [(''previousAttesterManager'', TPubkey), (''newAttesterManager'', TPubkey)]"

definition ev_mt_MessageReceived :: idlTypeDef where
  "ev_mt_MessageReceived = StructDef
     [(''caller'', TPubkey), (''sourceDomain'', TUInt 32), (''nonce'', TUInt 64), (''sender'', TPubkey),
      (''messageBody'', TBytes)]"

definition ev_mt_SignatureThresholdUpdated :: idlTypeDef where
  "ev_mt_SignatureThresholdUpdated = StructDef
     [(''oldSignatureThreshold'', TUInt 32), (''newSignatureThreshold'', TUInt 32)]"

definition ev_mt_AttesterEnabled :: idlTypeDef where
  "ev_mt_AttesterEnabled = StructDef
     [(''attester'', TPubkey)]"

definition ev_mt_AttesterDisabled :: idlTypeDef where
  "ev_mt_AttesterDisabled = StructDef
     [(''attester'', TPubkey)]"

definition ev_mt_MaxMessageBodySizeUpdated :: idlTypeDef where
  "ev_mt_MaxMessageBodySizeUpdated = StructDef
     [(''newMaxMessageBodySize'', TUInt 64)]"

definition ev_mt_Pause :: idlTypeDef where
  "ev_mt_Pause = StructDef
     []"

definition ev_mt_Unpause :: idlTypeDef where
  "ev_mt_Unpause = StructDef
     []"

definition mt_eventTypes :: idlTypes where
  "mt_eventTypes =
     [(''OwnershipTransferStarted'', ev_mt_OwnershipTransferStarted),
      (''OwnershipTransferred'', ev_mt_OwnershipTransferred), (''PauserChanged'', ev_mt_PauserChanged),
      (''AttesterManagerUpdated'', ev_mt_AttesterManagerUpdated),
      (''MessageReceived'', ev_mt_MessageReceived),
      (''SignatureThresholdUpdated'', ev_mt_SignatureThresholdUpdated),
      (''AttesterEnabled'', ev_mt_AttesterEnabled), (''AttesterDisabled'', ev_mt_AttesterDisabled),
      (''MaxMessageBodySizeUpdated'', ev_mt_MaxMessageBodySizeUpdated), (''Pause'', ev_mt_Pause),
      (''Unpause'', ev_mt_Unpause)]"

definition mt_errors :: "(nat \<times> string \<times> string option) list" where
  "mt_errors =
     [(6000, ''InvalidAuthority'', Some ''Invalid authority''),
      (6001, ''ProgramPaused'', Some ''Instruction is not allowed at this time''),
      (6002, ''InvalidMessageTransmitterState'', Some ''Invalid message transmitter state''),
      (6003, ''InvalidSignatureThreshold'', Some ''Invalid signature threshold''),
      (6004, ''SignatureThresholdAlreadySet'', Some ''Signature threshold already set''),
      (6005, ''InvalidOwner'', Some ''Invalid owner''),
      (6006, ''InvalidPauser'', Some ''Invalid pauser''),
      (6007, ''InvalidAttesterManager'', Some ''Invalid attester manager''),
      (6008, ''InvalidAttester'', Some ''Invalid attester''),
      (6009, ''AttesterAlreadyEnabled'', Some ''Attester already enabled''),
      (6010, ''TooFewEnabledAttesters'', Some ''Too few enabled attesters''),
      (6011, ''SignatureThresholdTooLow'', Some ''Signature threshold is too low''),
      (6012, ''AttesterAlreadyDisabled'', Some ''Attester already disabled''),
      (6013, ''MessageBodyLimitExceeded'', Some ''Message body exceeds max size''),
      (6014, ''InvalidDestinationCaller'', Some ''Invalid destination caller''),
      (6015, ''InvalidRecipient'', Some ''Invalid message recipient''),
      (6016, ''SenderNotPermitted'', Some ''Sender is not permitted''),
      (6017, ''InvalidSourceDomain'', Some ''Invalid source domain''),
      (6018, ''InvalidDestinationDomain'', Some ''Invalid destination domain''),
      (6019, ''InvalidMessageVersion'', Some ''Invalid message version''),
      (6020, ''InvalidUsedNoncesAccount'', Some ''Invalid used nonces account''),
      (6021, ''InvalidRecipientProgram'', Some ''Invalid recipient program''),
      (6022, ''InvalidNonce'', Some ''Invalid nonce''),
      (6023, ''NonceAlreadyUsed'', Some ''Nonce already used''),
      (6024, ''MessageTooShort'', Some ''Message is too short''),
      (6025, ''MalformedMessage'', Some ''Malformed message''),
      (6026, ''InvalidSignatureOrderOrDupe'', Some ''Invalid signature order or dupe''),
      (6027, ''InvalidAttesterSignature'', Some ''Invalid attester signature''),
      (6028, ''InvalidAttestationLength'', Some ''Invalid attestation length''),
      (6029, ''InvalidSignatureRecoveryId'', Some ''Invalid signature recovery ID''),
      (6030, ''InvalidSignatureSValue'', Some ''Invalid signature S value''),
      (6031, ''InvalidMessageHash'', Some ''Invalid message hash'')]"

end
