(* ===== verification/Idl_Token_Messenger.thy ===== *)
theory Idl_Token_Messenger
  imports Idl_Types
begin

text \<open>
  Circle's Token Messenger Minter as \<open>solana/ts/src/cctp/types/token_messenger_minter.ts\<close> describes it, in the older format of Anchor:
  discriminators are derived from names and not listed, accounts and events come with their types.
\<close>

section \<open>Instructions\<close>

definition idl_tm_initialize :: idlInstruction where
  "idl_tm_initialize = \<lparr>
     ix_name = ''initialize'',
     ix_discriminator = None,
     ix_accounts =
     [IdlAccount ''payer'' True True False,
      IdlAccount ''upgradeAuthority'' False True False,
      IdlAccount ''authorityPda'' False False False,
      IdlAccount ''tokenMessenger'' True False False,
      IdlAccount ''tokenMinter'' True False False,
      IdlAccount ''tokenMessengerMinterProgramData'' False False False,
      IdlAccount ''tokenMessengerMinterProgram'' False False False,
      IdlAccount ''systemProgram'' False False False,
      IdlAccount ''eventAuthority'' False False False,
      IdlAccount ''program'' False False False],
     ix_args = [(''params'', TDefined ''InitializeParams'')],
     ix_returns = None\<rparr>"

definition idl_tm_transferOwnership :: idlInstruction where
  "idl_tm_transferOwnership = \<lparr>
     ix_name = ''transferOwnership'',
     ix_discriminator = None,
     ix_accounts =
     [IdlAccount ''owner'' False True False,
      IdlAccount ''tokenMessenger'' True False False,
      IdlAccount ''eventAuthority'' False False False,
      IdlAccount ''program'' False False False],
     ix_args = [(''params'', TDefined ''TransferOwnershipParams'')],
     ix_returns = None\<rparr>"

definition idl_tm_acceptOwnership :: idlInstruction where
  "idl_tm_acceptOwnership = \<lparr>
     ix_name = ''acceptOwnership'',
     ix_discriminator = None,
     ix_accounts =
     [IdlAccount ''pendingOwner'' False True False,
      IdlAccount ''tokenMessenger'' True False False,
      IdlAccount ''eventAuthority'' False False False,
      IdlAccount ''program'' False False False],
     ix_args = [(''params'', TDefined ''AcceptOwnershipParams'')],
     ix_returns = None\<rparr>"

definition idl_tm_addRemoteTokenMessenger :: idlInstruction where
  "idl_tm_addRemoteTokenMessenger = \<lparr>
     ix_name = ''addRemoteTokenMessenger'',
     ix_discriminator = None,
     ix_accounts =
     [IdlAccount ''payer'' True True False,
      IdlAccount ''owner'' False True False,
      IdlAccount ''tokenMessenger'' False False False,
      IdlAccount ''remoteTokenMessenger'' True False False,
      IdlAccount ''systemProgram'' False False False,
      IdlAccount ''eventAuthority'' False False False,
      IdlAccount ''program'' False False False],
     ix_args = [(''params'', TDefined ''AddRemoteTokenMessengerParams'')],
     ix_returns = None\<rparr>"

definition idl_tm_removeRemoteTokenMessenger :: idlInstruction where
  "idl_tm_removeRemoteTokenMessenger = \<lparr>
     ix_name = ''removeRemoteTokenMessenger'',
     ix_discriminator = None,
     ix_accounts =
     [IdlAccount ''payee'' True True False,
      IdlAccount ''owner'' False True False,
      IdlAccount ''tokenMessenger'' False False False,
      IdlAccount ''remoteTokenMessenger'' True False False,
      IdlAccount ''eventAuthority'' False False False,
      IdlAccount ''program'' False False False],
     ix_args = [(''params'', TDefined ''RemoveRemoteTokenMessengerParams'')],
     ix_returns = None\<rparr>"

definition idl_tm_depositForBurn :: idlInstruction where
  "idl_tm_depositForBurn = \<lparr>
     ix_name = ''depositForBurn'',
     ix_discriminator = None,
     ix_accounts =
     [IdlAccount ''owner'' False True False,
      IdlAccount ''eventRentPayer'' True True False,
      IdlAccount ''senderAuthorityPda'' False False False,
      IdlAccount ''burnTokenAccount'' True False False,
      IdlAccount ''messageTransmitter'' True False False,
      IdlAccount ''tokenMessenger'' False False False,
      IdlAccount ''remoteTokenMessenger'' False False False,
      IdlAccount ''tokenMinter'' False False False,
      IdlAccount ''localToken'' True False False,
      IdlAccount ''burnTokenMint'' True False False,
      IdlAccount ''messageSentEventData'' True True False,
      IdlAccount ''messageTransmitterProgram'' False False False,
      IdlAccount ''tokenMessengerMinterProgram'' False False False,
      IdlAccount ''tokenProgram'' False False False,
      IdlAccount ''systemProgram'' False False False,
      IdlAccount ''eventAuthority'' False False False,
      IdlAccount ''program'' False False False],
     ix_args = [(''params'', TDefined ''DepositForBurnParams'')],
     ix_returns = Some (TUInt 64)\<rparr>"

definition idl_tm_depositForBurnWithCaller :: idlInstruction where
  "idl_tm_depositForBurnWithCaller = \<lparr>
     ix_name = ''depositForBurnWithCaller'',
     ix_discriminator = None,
     ix_accounts =
     [IdlAccount ''owner'' False True False,
      IdlAccount ''eventRentPayer'' True True False,
      IdlAccount ''senderAuthorityPda'' False False False,
      IdlAccount ''burnTokenAccount'' True False False,
      IdlAccount ''messageTransmitter'' True False False,
      IdlAccount ''tokenMessenger'' False False False,
      IdlAccount ''remoteTokenMessenger'' False False False,
      IdlAccount ''tokenMinter'' False False False,
      IdlAccount ''localToken'' True False False,
      IdlAccount ''burnTokenMint'' True False False,
      IdlAccount ''messageSentEventData'' True True False,
      IdlAccount ''messageTransmitterProgram'' False False False,
      IdlAccount ''tokenMessengerMinterProgram'' False False False,
      IdlAccount ''tokenProgram'' False False False,
      IdlAccount ''systemProgram'' False False False,
      IdlAccount ''eventAuthority'' False False False,
      IdlAccount ''program'' False False False],
     ix_args = [(''params'', TDefined ''DepositForBurnWithCallerParams'')],
     ix_returns = Some (TUInt 64)\<rparr>"

definition idl_tm_replaceDepositForBurn :: idlInstruction where
  "idl_tm_replaceDepositForBurn = \<lparr>
     ix_name = ''replaceDepositForBurn'',
     ix_discriminator = None,
     ix_accounts =
     [IdlAccount ''owner'' False True False,
      IdlAccount ''eventRentPayer'' True True False,
      IdlAccount ''senderAuthorityPda'' False False False,
      IdlAccount ''messageTransmitter'' True False False,
      IdlAccount ''tokenMessenger'' False False False,
      IdlAccount ''messageSentEventData'' True True False,
      IdlAccount ''messageTransmitterProgram'' False False False,
      IdlAccount ''tokenMessengerMinterProgram'' False False False,
      IdlAccount ''systemProgram'' False False False,
      IdlAccount ''eventAuthority'' False False False,
      IdlAccount ''program'' False False False],
     ix_args = [(''params'', TDefined ''ReplaceDepositForBurnParams'')],
     ix_returns = Some (TUInt 64)\<rparr>"

definition idl_tm_handleReceiveMessage :: idlInstruction where
  "idl_tm_handleReceiveMessage = \<lparr>
     ix_name = ''handleReceiveMessage'',
     ix_discriminator = None,
     ix_accounts =
     [IdlAccount ''authorityPda'' False True False,
      IdlAccount ''tokenMessenger'' False False False,
      IdlAccount ''remoteTokenMessenger'' False False False,
      IdlAccount ''tokenMinter'' False False False,
      IdlAccount ''localToken'' True False False,
      IdlAccount ''tokenPair'' False False False,
      IdlAccount ''recipientTokenAccount'' True False False,
      IdlAccount ''custodyTokenAccount'' True False False,
      IdlAccount ''tokenProgram'' False False False,
      IdlAccount ''eventAuthority'' False False False,
      IdlAccount ''program'' False False False],
     ix_args = [(''params'', TDefined ''HandleReceiveMessageParams'')],
     ix_returns = None\<rparr>"

definition idl_tm_setTokenController :: idlInstruction where
  "idl_tm_setTokenController = \<lparr>
     ix_name = ''setTokenController'',
     ix_discriminator = None,
     ix_accounts =
     [IdlAccount ''owner'' False True False,
      IdlAccount ''tokenMessenger'' False False False,
      IdlAccount ''tokenMinter'' True False False,
      IdlAccount ''eventAuthority'' False False False,
      IdlAccount ''program'' False False False],
     ix_args = [(''params'', TDefined ''SetTokenControllerParams'')],
     ix_returns = None\<rparr>"

definition idl_tm_pause :: idlInstruction where
  "idl_tm_pause = \<lparr>
     ix_name = ''pause'',
     ix_discriminator = None,
     ix_accounts =
     [IdlAccount ''pauser'' False True False,
      IdlAccount ''tokenMinter'' True False False,
      IdlAccount ''eventAuthority'' False False False,
      IdlAccount ''program'' False False False],
     ix_args = [(''params'', TDefined ''PauseParams'')],
     ix_returns = None\<rparr>"

definition idl_tm_unpause :: idlInstruction where
  "idl_tm_unpause = \<lparr>
     ix_name = ''unpause'',
     ix_discriminator = None,
     ix_accounts =
     [IdlAccount ''pauser'' False True False,
      IdlAccount ''tokenMinter'' True False False,
      IdlAccount ''eventAuthority'' False False False,
      IdlAccount ''program'' False False False],
     ix_args = [(''params'', TDefined ''UnpauseParams'')],
     ix_returns = None\<rparr>"

definition idl_tm_updatePauser :: idlInstruction where
  "idl_tm_updatePauser = \<lparr>
     ix_name = ''updatePauser'',
     ix_discriminator = None,
     ix_accounts =
     [IdlAccount ''owner'' False True False,
      IdlAccount ''tokenMessenger'' False False False,
      IdlAccount ''tokenMinter'' True False False,
      IdlAccount ''eventAuthority'' False False False,
      IdlAccount ''program'' False False False],
     ix_args = [(''params'', TDefined ''UpdatePauserParams'')],
     ix_returns = None\<rparr>"

definition idl_tm_setMaxBurnAmountPerMessage :: idlInstruction where
  "idl_tm_setMaxBurnAmountPerMessage = \<lparr>
     ix_name = ''setMaxBurnAmountPerMessage'',
     ix_discriminator = None,
     ix_accounts =
     [IdlAccount ''tokenController'' False True False,
      IdlAccount ''tokenMinter'' False False False,
      IdlAccount ''localToken'' True False False,
      IdlAccount ''eventAuthority'' False False False,
      IdlAccount ''program'' False False False],
     ix_args = [(''params'', TDefined ''SetMaxBurnAmountPerMessageParams'')],
     ix_returns = None\<rparr>"

definition idl_tm_addLocalToken :: idlInstruction where
  "idl_tm_addLocalToken = \<lparr>
     ix_name = ''addLocalToken'',
     ix_discriminator = None,
     ix_accounts =
     [IdlAccount ''payer'' True True False,
      IdlAccount ''tokenController'' False True False,
      IdlAccount ''tokenMinter'' False False False,
      IdlAccount ''localToken'' True False False,
      IdlAccount ''custodyTokenAccount'' True False False,
      IdlAccount ''localTokenMint'' False False False,
      IdlAccount ''tokenProgram'' False False False,
      IdlAccount ''systemProgram'' False False False,
      IdlAccount ''eventAuthority'' False False False,
      IdlAccount ''program'' False False False],
     ix_args = [(''params'', TDefined ''AddLocalTokenParams'')],
     ix_returns = None\<rparr>"

definition idl_tm_removeLocalToken :: idlInstruction where
  "idl_tm_removeLocalToken = \<lparr>
     ix_name = ''removeLocalToken'',
     ix_discriminator = None,
     ix_accounts =
     [IdlAccount ''payee'' True True False,
      IdlAccount ''tokenController'' False True False,
      IdlAccount ''tokenMinter'' False False False,
      IdlAccount ''localToken'' True False False,
      IdlAccount ''custodyTokenAccount'' True False False,
      IdlAccount ''tokenProgram'' False False False,
      IdlAccount ''eventAuthority'' False False False,
      IdlAccount ''program'' False False False],
     ix_args = [(''params'', TDefined ''RemoveLocalTokenParams'')],
     ix_returns = None\<rparr>"

definition idl_tm_linkTokenPair :: idlInstruction where
  "idl_tm_linkTokenPair = \<lparr>
     ix_name = ''linkTokenPair'',
     ix_discriminator = None,
     ix_accounts =
     [IdlAccount ''payer'' True True False,
      IdlAccount ''tokenController'' False True False,
      IdlAccount ''tokenMinter'' False False False,
      IdlAccount ''tokenPair'' True False False,
      IdlAccount ''systemProgram'' False False False,
      IdlAccount ''eventAuthority'' False False False,
      IdlAccount ''program'' False False False],
     ix_args = [(''params'', TDefined ''LinkTokenPairParams'')],
     ix_returns = None\<rparr>"

definition idl_tm_unlinkTokenPair :: idlInstruction where
  "idl_tm_unlinkTokenPair = \<lparr>
     ix_name = ''unlinkTokenPair'',
     ix_discriminator = None,
     ix_accounts =
     [IdlAccount ''payee'' True True False,
      IdlAccount ''tokenController'' False True False,
      IdlAccount ''tokenMinter'' False False False,
      IdlAccount ''tokenPair'' True False False,
      IdlAccount ''eventAuthority'' False False False,
      IdlAccount ''program'' False False False],
     ix_args = [(''params'', TDefined ''UninkTokenPairParams'')],
     ix_returns = None\<rparr>"

definition idl_tm_burnTokenCustody :: idlInstruction where
  "idl_tm_burnTokenCustody = \<lparr>
     ix_name = ''burnTokenCustody'',
     ix_discriminator = None,
     ix_accounts =
     [IdlAccount ''payee'' True True False,
      IdlAccount ''tokenController'' False True False,
      IdlAccount ''tokenMinter'' False False False,
      IdlAccount ''localToken'' False False False,
      IdlAccount ''custodyTokenAccount'' True False False,
      IdlAccount ''custodyTokenMint'' True False False,
      IdlAccount ''tokenProgram'' False False False,
      IdlAccount ''eventAuthority'' False False False,
      IdlAccount ''program'' False False False],
     ix_args = [(''params'', TDefined ''BurnTokenCustodyParams'')],
     ix_returns = None\<rparr>"

definition tm_idl :: "idlInstruction list" where
  "tm_idl =
     [idl_tm_initialize, idl_tm_transferOwnership, idl_tm_acceptOwnership,
      idl_tm_addRemoteTokenMessenger, idl_tm_removeRemoteTokenMessenger, idl_tm_depositForBurn,
      idl_tm_depositForBurnWithCaller, idl_tm_replaceDepositForBurn, idl_tm_handleReceiveMessage,
      idl_tm_setTokenController, idl_tm_pause, idl_tm_unpause, idl_tm_updatePauser,
      idl_tm_setMaxBurnAmountPerMessage, idl_tm_addLocalToken, idl_tm_removeLocalToken,
      idl_tm_linkTokenPair, idl_tm_unlinkTokenPair, idl_tm_burnTokenCustody]"

section \<open>Accounts and types\<close>

definition ty_tm_tokenMessenger :: idlTypeDef where
  "ty_tm_tokenMessenger = StructDef
     [(''owner'', TPubkey), (''pendingOwner'', TPubkey), (''localMessageTransmitter'', TPubkey),
      (''messageBodyVersion'', TUInt 32), (''authorityBump'', TUInt 8)]"

definition ty_tm_remoteTokenMessenger :: idlTypeDef where
  "ty_tm_remoteTokenMessenger = StructDef
     [(''domain'', TUInt 32), (''tokenMessenger'', TPubkey)]"

definition ty_tm_tokenMinter :: idlTypeDef where
  "ty_tm_tokenMinter = StructDef
     [(''tokenController'', TPubkey), (''pauser'', TPubkey), (''paused'', TBool), (''bump'', TUInt 8)]"

definition ty_tm_tokenPair :: idlTypeDef where
  "ty_tm_tokenPair = StructDef
     [(''remoteDomain'', TUInt 32), (''remoteToken'', TPubkey), (''localToken'', TPubkey),
      (''bump'', TUInt 8)]"

definition ty_tm_localToken :: idlTypeDef where
  "ty_tm_localToken = StructDef
     [(''custody'', TPubkey), (''mint'', TPubkey), (''burnLimitPerMessage'', TUInt 64),
      (''messagesSent'', TUInt 64), (''messagesReceived'', TUInt 64), (''amountSent'', TUInt 128),
      (''amountReceived'', TUInt 128), (''bump'', TUInt 8), (''custodyBump'', TUInt 8)]"

definition ty_tm_AcceptOwnershipParams :: idlTypeDef where
  "ty_tm_AcceptOwnershipParams = StructDef
     []"

definition ty_tm_AddRemoteTokenMessengerParams :: idlTypeDef where
  "ty_tm_AddRemoteTokenMessengerParams = StructDef
     [(''domain'', TUInt 32), (''tokenMessenger'', TPubkey)]"

definition ty_tm_DepositForBurnWithCallerParams :: idlTypeDef where
  "ty_tm_DepositForBurnWithCallerParams = StructDef
     [(''amount'', TUInt 64), (''destinationDomain'', TUInt 32), (''mintRecipient'', TPubkey),
      (''destinationCaller'', TPubkey)]"

definition ty_tm_DepositForBurnParams :: idlTypeDef where
  "ty_tm_DepositForBurnParams = StructDef
     [(''amount'', TUInt 64), (''destinationDomain'', TUInt 32), (''mintRecipient'', TPubkey)]"

definition ty_tm_HandleReceiveMessageParams :: idlTypeDef where
  "ty_tm_HandleReceiveMessageParams = StructDef
     [(''remoteDomain'', TUInt 32), (''sender'', TPubkey), (''messageBody'', TBytes),
      (''authorityBump'', TUInt 8)]"

definition ty_tm_InitializeParams :: idlTypeDef where
  "ty_tm_InitializeParams = StructDef
     [(''tokenController'', TPubkey), (''localMessageTransmitter'', TPubkey),
      (''messageBodyVersion'', TUInt 32)]"

definition ty_tm_RemoveRemoteTokenMessengerParams :: idlTypeDef where
  "ty_tm_RemoveRemoteTokenMessengerParams = StructDef
     []"

definition ty_tm_ReplaceDepositForBurnParams :: idlTypeDef where
  "ty_tm_ReplaceDepositForBurnParams = StructDef
     [(''originalMessage'', TBytes), (''originalAttestation'', TBytes),
      (''newDestinationCaller'', TPubkey), (''newMintRecipient'', TPubkey)]"

definition ty_tm_TransferOwnershipParams :: idlTypeDef where
  "ty_tm_TransferOwnershipParams = StructDef
     [(''newOwner'', TPubkey)]"

definition ty_tm_AddLocalTokenParams :: idlTypeDef where
  "ty_tm_AddLocalTokenParams = StructDef
     []"

definition ty_tm_BurnTokenCustodyParams :: idlTypeDef where
  "ty_tm_BurnTokenCustodyParams = StructDef
     [(''amount'', TUInt 64)]"

definition ty_tm_LinkTokenPairParams :: idlTypeDef where
  "ty_tm_LinkTokenPairParams = StructDef
     [(''localToken'', TPubkey), (''remoteDomain'', TUInt 32), (''remoteToken'', TPubkey)]"

definition ty_tm_PauseParams :: idlTypeDef where
  "ty_tm_PauseParams = StructDef
     []"

definition ty_tm_RemoveLocalTokenParams :: idlTypeDef where
  "ty_tm_RemoveLocalTokenParams = StructDef
     []"

definition ty_tm_SetMaxBurnAmountPerMessageParams :: idlTypeDef where
  "ty_tm_SetMaxBurnAmountPerMessageParams = StructDef
     [(''burnLimitPerMessage'', TUInt 64)]"

definition ty_tm_SetTokenControllerParams :: idlTypeDef where
  "ty_tm_SetTokenControllerParams = StructDef
     [(''tokenController'', TPubkey)]"

definition ty_tm_UninkTokenPairParams :: idlTypeDef where
  "ty_tm_UninkTokenPairParams = StructDef
     []"

definition ty_tm_UnpauseParams :: idlTypeDef where
  "ty_tm_UnpauseParams = StructDef
     []"

definition ty_tm_UpdatePauserParams :: idlTypeDef where
  "ty_tm_UpdatePauserParams = StructDef
     [(''newPauser'', TPubkey)]"

definition ty_tm_TokenMinterError :: idlTypeDef where
  "ty_tm_TokenMinterError = EnumDef
     [(''InvalidAuthority'', []), (''InvalidTokenMinterState'', []), (''ProgramPaused'', []),
      (''InvalidTokenPairState'', []), (''InvalidLocalTokenState'', []), (''InvalidPauser'', []),
      (''InvalidTokenController'', []), (''BurnAmountExceeded'', []), (''InvalidAmount'', [])]"

definition tm_accountTypes :: idlTypes where
  "tm_accountTypes =
     [(''tokenMessenger'', ty_tm_tokenMessenger), (''remoteTokenMessenger'', ty_tm_remoteTokenMessenger),
      (''tokenMinter'', ty_tm_tokenMinter), (''tokenPair'', ty_tm_tokenPair),
      (''localToken'', ty_tm_localToken)]"

definition tm_types :: idlTypes where
  "tm_types =
     [(''AcceptOwnershipParams'', ty_tm_AcceptOwnershipParams),
      (''AddRemoteTokenMessengerParams'', ty_tm_AddRemoteTokenMessengerParams),
      (''DepositForBurnWithCallerParams'', ty_tm_DepositForBurnWithCallerParams),
      (''DepositForBurnParams'', ty_tm_DepositForBurnParams),
      (''HandleReceiveMessageParams'', ty_tm_HandleReceiveMessageParams),
      (''InitializeParams'', ty_tm_InitializeParams),
      (''RemoveRemoteTokenMessengerParams'', ty_tm_RemoveRemoteTokenMessengerParams),
      (''ReplaceDepositForBurnParams'', ty_tm_ReplaceDepositForBurnParams),
      (''TransferOwnershipParams'', ty_tm_TransferOwnershipParams),
      (''AddLocalTokenParams'', ty_tm_AddLocalTokenParams),
      (''BurnTokenCustodyParams'', ty_tm_BurnTokenCustodyParams),
      (''LinkTokenPairParams'', ty_tm_LinkTokenPairParams), (''PauseParams'', ty_tm_PauseParams),
      (''RemoveLocalTokenParams'', ty_tm_RemoveLocalTokenParams),
      (''SetMaxBurnAmountPerMessageParams'', ty_tm_SetMaxBurnAmountPerMessageParams),
      (''SetTokenControllerParams'', ty_tm_SetTokenControllerParams),
      (''UninkTokenPairParams'', ty_tm_UninkTokenPairParams), (''UnpauseParams'', ty_tm_UnpauseParams),
      (''UpdatePauserParams'', ty_tm_UpdatePauserParams), (''TokenMinterError'', ty_tm_TokenMinterError)]"

section \<open>Events and errors\<close>

definition ev_tm_OwnershipTransferStarted :: idlTypeDef where
  "ev_tm_OwnershipTransferStarted = StructDef
     [(''previousOwner'', TPubkey), (''newOwner'', TPubkey)]"

definition ev_tm_OwnershipTransferred :: idlTypeDef where
  "ev_tm_OwnershipTransferred = StructDef
     [(''previousOwner'', TPubkey), (''newOwner'', TPubkey)]"

definition ev_tm_DepositForBurn :: idlTypeDef where
  "ev_tm_DepositForBurn = StructDef
     [(''nonce'', TUInt 64), (''burnToken'', TPubkey), (''amount'', TUInt 64), (''depositor'', TPubkey),
      (''mintRecipient'', TPubkey), (''destinationDomain'', TUInt 32),
      (''destinationTokenMessenger'', TPubkey), (''destinationCaller'', TPubkey)]"

definition ev_tm_MintAndWithdraw :: idlTypeDef where
  "ev_tm_MintAndWithdraw = StructDef
     [(''mintRecipient'', TPubkey), (''amount'', TUInt 64), (''mintToken'', TPubkey)]"

definition ev_tm_RemoteTokenMessengerAdded :: idlTypeDef where
  "ev_tm_RemoteTokenMessengerAdded = StructDef
     [(''domain'', TUInt 32), (''tokenMessenger'', TPubkey)]"

definition ev_tm_RemoteTokenMessengerRemoved :: idlTypeDef where
  "ev_tm_RemoteTokenMessengerRemoved = StructDef
     [(''domain'', TUInt 32), (''tokenMessenger'', TPubkey)]"

definition ev_tm_SetTokenController :: idlTypeDef where
  "ev_tm_SetTokenController = StructDef
     [(''tokenController'', TPubkey)]"

definition ev_tm_PauserChanged :: idlTypeDef where
  "ev_tm_PauserChanged = StructDef
     [(''newAddress'', TPubkey)]"

definition ev_tm_SetBurnLimitPerMessage :: idlTypeDef where
  "ev_tm_SetBurnLimitPerMessage = StructDef
     [(''token'', TPubkey), (''burnLimitPerMessage'', TUInt 64)]"

definition ev_tm_LocalTokenAdded :: idlTypeDef where
  "ev_tm_LocalTokenAdded = StructDef
     [(''custody'', TPubkey), (''mint'', TPubkey)]"

definition ev_tm_LocalTokenRemoved :: idlTypeDef where
  "ev_tm_LocalTokenRemoved = StructDef
     [(''custody'', TPubkey), (''mint'', TPubkey)]"

definition ev_tm_TokenPairLinked :: idlTypeDef where
  "ev_tm_TokenPairLinked = StructDef
     [(''localToken'', TPubkey), (''remoteDomain'', TUInt 32), (''remoteToken'', TPubkey)]"

definition ev_tm_TokenPairUnlinked :: idlTypeDef where
  "ev_tm_TokenPairUnlinked = StructDef
     [(''localToken'', TPubkey), (''remoteDomain'', TUInt 32), (''remoteToken'', TPubkey)]"

definition ev_tm_Pause :: idlTypeDef where
  "ev_tm_Pause = StructDef
     []"

definition ev_tm_Unpause :: idlTypeDef where
  "ev_tm_Unpause = StructDef
     []"

definition ev_tm_TokenCustodyBurned :: idlTypeDef where
  "ev_tm_TokenCustodyBurned = StructDef
     [(''custodyTokenAccount'', TPubkey), (''amount'', TUInt 64)]"

definition tm_eventTypes :: idlTypes where
  "tm_eventTypes =
     [(''OwnershipTransferStarted'', ev_tm_OwnershipTransferStarted),
      (''OwnershipTransferred'', ev_tm_OwnershipTransferred), (''DepositForBurn'', ev_tm_DepositForBurn),
      (''MintAndWithdraw'', ev_tm_MintAndWithdraw),
      (''RemoteTokenMessengerAdded'', ev_tm_RemoteTokenMessengerAdded),
      (''RemoteTokenMessengerRemoved'', ev_tm_RemoteTokenMessengerRemoved),
      (''SetTokenController'', ev_tm_SetTokenController), (''PauserChanged'', ev_tm_PauserChanged),
      (''SetBurnLimitPerMessage'', ev_tm_SetBurnLimitPerMessage),
      (''LocalTokenAdded'', ev_tm_LocalTokenAdded), (''LocalTokenRemoved'', ev_tm_LocalTokenRemoved),
      (''TokenPairLinked'', ev_tm_TokenPairLinked), (''TokenPairUnlinked'', ev_tm_TokenPairUnlinked),
      (''Pause'', ev_tm_Pause), (''Unpause'', ev_tm_Unpause),
      (''TokenCustodyBurned'', ev_tm_TokenCustodyBurned)]"

definition tm_errors :: "(nat \<times> string \<times> string option) list" where
  "tm_errors =
     [(6000, ''InvalidAuthority'', Some ''Invalid authority''),
      (6001, ''InvalidTokenMessengerState'', Some ''Invalid token messenger state''),
      (6002, ''InvalidTokenMessenger'', Some ''Invalid token messenger''),
      (6003, ''InvalidOwner'', Some ''Invalid owner''),
      (6004, ''MalformedMessage'', Some ''Malformed message''),
      (6005, ''InvalidMessageBodyVersion'', Some ''Invalid message body version''),
      (6006, ''InvalidAmount'', Some ''Invalid amount''),
      (6007, ''InvalidDestinationDomain'', Some ''Invalid destination domain''),
      (6008, ''InvalidDestinationCaller'', Some ''Invalid destination caller''),
      (6009, ''InvalidMintRecipient'', Some ''Invalid mint recipient''),
      (6010, ''InvalidSender'', Some ''Invalid sender''),
      (6011, ''InvalidTokenPair'', Some ''Invalid token pair''),
      (6012, ''InvalidTokenMint'', Some ''Invalid token mint'')]"

end
