(* ===== verification/Conformance.thy ===== *)
theory Conformance
  imports Me_Execute Me_Admin Tr_Orders Upgrade_Manager Idl_Matching_Engine Idl_Token_Router Idl_Me_Types Idl_Tr_Types
    Idl_Message_Transmitter Idl_Token_Messenger
begin

text \<open>
  Every instruction that the SDK's classes build conforms to the interface description of its program:
  the method exists, the number of arguments is right, and the account tree has exactly the declared
  accounts. The instructions a class can build are an inductive predicate with one rule per builder.
\<close>

section \<open>Looking up the descriptions\<close>

lemma me_names:
  shows "ix_name idl_me_addAuctionHistoryEntry = ''addAuctionHistoryEntry''"
    "ix_name idl_me_addCctpRouterEndpoint = ''addCctpRouterEndpoint''"
    "ix_name idl_me_addLocalRouterEndpoint = ''addLocalRouterEndpoint''"
    "ix_name idl_me_cancelOwnershipTransferRequest = ''cancelOwnershipTransferRequest''"
    "ix_name idl_me_closeAuction = ''closeAuction''"
    "ix_name idl_me_closeProposal = ''closeProposal''"
    "ix_name idl_me_closeRedeemedFastFill = ''closeRedeemedFastFill''"
    "ix_name idl_me_completeFastFill = ''completeFastFill''"
    "ix_name idl_me_confirmOwnershipTransferRequest = ''confirmOwnershipTransferRequest''"
    "ix_name idl_me_createFirstAuctionHistory = ''createFirstAuctionHistory''"
    "ix_name idl_me_createNewAuctionHistory = ''createNewAuctionHistory''"
    "ix_name idl_me_disableRouterEndpoint = ''disableRouterEndpoint''"
    "ix_name idl_me_executeFastOrderCctp = ''executeFastOrderCctp''"
    "ix_name idl_me_executeFastOrderLocal = ''executeFastOrderLocal''"
    "ix_name idl_me_improveOffer = ''improveOffer''"
    "ix_name idl_me_initialize = ''initialize''"
    "ix_name idl_me_migrate = ''migrate''"
    "ix_name idl_me_placeInitialOfferCctp = ''placeInitialOfferCctp''"
    "ix_name idl_me_prepareOrderResponseCctp = ''prepareOrderResponseCctp''"
    "ix_name idl_me_proposeAuctionParameters = ''proposeAuctionParameters''"
    "ix_name idl_me_reserveFastFillSequenceActiveAuction = ''reserveFastFillSequenceActiveAuction''"
    "ix_name idl_me_reserveFastFillSequenceNoAuction = ''reserveFastFillSequenceNoAuction''"
    "ix_name idl_me_setPause = ''setPause''"
    "ix_name idl_me_settleAuctionComplete = ''settleAuctionComplete''"
    "ix_name idl_me_settleAuctionNoneCctp = ''settleAuctionNoneCctp''"
    "ix_name idl_me_settleAuctionNoneLocal = ''settleAuctionNoneLocal''"
    "ix_name idl_me_submitOwnershipTransferRequest = ''submitOwnershipTransferRequest''"
    "ix_name idl_me_updateAuctionParameters = ''updateAuctionParameters''"
    "ix_name idl_me_updateCctpRouterEndpoint = ''updateCctpRouterEndpoint''"
    "ix_name idl_me_updateFeeRecipient = ''updateFeeRecipient''"
    "ix_name idl_me_updateLocalRouterEndpoint = ''updateLocalRouterEndpoint''"
    "ix_name idl_me_updateOwnerAssistant = ''updateOwnerAssistant''"
  by (simp_all add: idl_me_addAuctionHistoryEntry_def idl_me_addCctpRouterEndpoint_def idl_me_addLocalRouterEndpoint_def idl_me_cancelOwnershipTransferRequest_def idl_me_closeAuction_def idl_me_closeProposal_def idl_me_closeRedeemedFastFill_def idl_me_completeFastFill_def idl_me_confirmOwnershipTransferRequest_def idl_me_createFirstAuctionHistory_def idl_me_createNewAuctionHistory_def idl_me_disableRouterEndpoint_def idl_me_executeFastOrderCctp_def idl_me_executeFastOrderLocal_def idl_me_improveOffer_def idl_me_initialize_def idl_me_migrate_def idl_me_placeInitialOfferCctp_def idl_me_prepareOrderResponseCctp_def idl_me_proposeAuctionParameters_def idl_me_reserveFastFillSequenceActiveAuction_def idl_me_reserveFastFillSequenceNoAuction_def idl_me_setPause_def idl_me_settleAuctionComplete_def idl_me_settleAuctionNoneCctp_def idl_me_settleAuctionNoneLocal_def idl_me_submitOwnershipTransferRequest_def idl_me_updateAuctionParameters_def idl_me_updateCctpRouterEndpoint_def idl_me_updateFeeRecipient_def idl_me_updateLocalRouterEndpoint_def idl_me_updateOwnerAssistant_def)

lemma me_find:
  shows "find (\<lambda>i. ix_name i = ''addAuctionHistoryEntry'') me_idl = Some idl_me_addAuctionHistoryEntry"
    "find (\<lambda>i. ix_name i = ''addCctpRouterEndpoint'') me_idl = Some idl_me_addCctpRouterEndpoint"
    "find (\<lambda>i. ix_name i = ''addLocalRouterEndpoint'') me_idl = Some idl_me_addLocalRouterEndpoint"
    "find (\<lambda>i. ix_name i = ''cancelOwnershipTransferRequest'') me_idl = Some idl_me_cancelOwnershipTransferRequest"
    "find (\<lambda>i. ix_name i = ''closeAuction'') me_idl = Some idl_me_closeAuction"
    "find (\<lambda>i. ix_name i = ''closeProposal'') me_idl = Some idl_me_closeProposal"
    "find (\<lambda>i. ix_name i = ''closeRedeemedFastFill'') me_idl = Some idl_me_closeRedeemedFastFill"
    "find (\<lambda>i. ix_name i = ''completeFastFill'') me_idl = Some idl_me_completeFastFill"
    "find (\<lambda>i. ix_name i = ''confirmOwnershipTransferRequest'') me_idl = Some idl_me_confirmOwnershipTransferRequest"
    "find (\<lambda>i. ix_name i = ''createFirstAuctionHistory'') me_idl = Some idl_me_createFirstAuctionHistory"
    "find (\<lambda>i. ix_name i = ''createNewAuctionHistory'') me_idl = Some idl_me_createNewAuctionHistory"
    "find (\<lambda>i. ix_name i = ''disableRouterEndpoint'') me_idl = Some idl_me_disableRouterEndpoint"
    "find (\<lambda>i. ix_name i = ''executeFastOrderCctp'') me_idl = Some idl_me_executeFastOrderCctp"
    "find (\<lambda>i. ix_name i = ''executeFastOrderLocal'') me_idl = Some idl_me_executeFastOrderLocal"
    "find (\<lambda>i. ix_name i = ''improveOffer'') me_idl = Some idl_me_improveOffer"
    "find (\<lambda>i. ix_name i = ''initialize'') me_idl = Some idl_me_initialize"
    "find (\<lambda>i. ix_name i = ''migrate'') me_idl = Some idl_me_migrate"
    "find (\<lambda>i. ix_name i = ''placeInitialOfferCctp'') me_idl = Some idl_me_placeInitialOfferCctp"
    "find (\<lambda>i. ix_name i = ''prepareOrderResponseCctp'') me_idl = Some idl_me_prepareOrderResponseCctp"
    "find (\<lambda>i. ix_name i = ''proposeAuctionParameters'') me_idl = Some idl_me_proposeAuctionParameters"
    "find (\<lambda>i. ix_name i = ''reserveFastFillSequenceActiveAuction'') me_idl = Some idl_me_reserveFastFillSequenceActiveAuction"
    "find (\<lambda>i. ix_name i = ''reserveFastFillSequenceNoAuction'') me_idl = Some idl_me_reserveFastFillSequenceNoAuction"
    "find (\<lambda>i. ix_name i = ''setPause'') me_idl = Some idl_me_setPause"
    "find (\<lambda>i. ix_name i = ''settleAuctionComplete'') me_idl = Some idl_me_settleAuctionComplete"
    "find (\<lambda>i. ix_name i = ''settleAuctionNoneCctp'') me_idl = Some idl_me_settleAuctionNoneCctp"
    "find (\<lambda>i. ix_name i = ''settleAuctionNoneLocal'') me_idl = Some idl_me_settleAuctionNoneLocal"
    "find (\<lambda>i. ix_name i = ''submitOwnershipTransferRequest'') me_idl = Some idl_me_submitOwnershipTransferRequest"
    "find (\<lambda>i. ix_name i = ''updateAuctionParameters'') me_idl = Some idl_me_updateAuctionParameters"
    "find (\<lambda>i. ix_name i = ''updateCctpRouterEndpoint'') me_idl = Some idl_me_updateCctpRouterEndpoint"
    "find (\<lambda>i. ix_name i = ''updateFeeRecipient'') me_idl = Some idl_me_updateFeeRecipient"
    "find (\<lambda>i. ix_name i = ''updateLocalRouterEndpoint'') me_idl = Some idl_me_updateLocalRouterEndpoint"
    "find (\<lambda>i. ix_name i = ''updateOwnerAssistant'') me_idl = Some idl_me_updateOwnerAssistant"
  by (simp_all add: me_idl_def me_names)

lemma tr_names:
  shows "ix_name idl_tr_cancelOwnershipTransferRequest = ''cancelOwnershipTransferRequest''"
    "ix_name idl_tr_closePreparedOrder = ''closePreparedOrder''"
    "ix_name idl_tr_confirmOwnershipTransferRequest = ''confirmOwnershipTransferRequest''"
    "ix_name idl_tr_consumePreparedFill = ''consumePreparedFill''"
    "ix_name idl_tr_initialize = ''initialize''"
    "ix_name idl_tr_migrate = ''migrate''"
    "ix_name idl_tr_placeMarketOrderCctp = ''placeMarketOrderCctp''"
    "ix_name idl_tr_prepareMarketOrder = ''prepareMarketOrder''"
    "ix_name idl_tr_redeemCctpFill = ''redeemCctpFill''"
    "ix_name idl_tr_redeemFastFill = ''redeemFastFill''"
    "ix_name idl_tr_setPause = ''setPause''"
    "ix_name idl_tr_submitOwnershipTransferRequest = ''submitOwnershipTransferRequest''"
    "ix_name idl_tr_updateOwnerAssistant = ''updateOwnerAssistant''"
  by (simp_all add: idl_tr_cancelOwnershipTransferRequest_def idl_tr_closePreparedOrder_def idl_tr_confirmOwnershipTransferRequest_def idl_tr_consumePreparedFill_def idl_tr_initialize_def idl_tr_migrate_def idl_tr_placeMarketOrderCctp_def idl_tr_prepareMarketOrder_def idl_tr_redeemCctpFill_def idl_tr_redeemFastFill_def idl_tr_setPause_def idl_tr_submitOwnershipTransferRequest_def idl_tr_updateOwnerAssistant_def)

lemma tr_find:
  shows "find (\<lambda>i. ix_name i = ''cancelOwnershipTransferRequest'') tr_idl = Some idl_tr_cancelOwnershipTransferRequest"
    "find (\<lambda>i. ix_name i = ''closePreparedOrder'') tr_idl = Some idl_tr_closePreparedOrder"
    "find (\<lambda>i. ix_name i = ''confirmOwnershipTransferRequest'') tr_idl = Some idl_tr_confirmOwnershipTransferRequest"
    "find (\<lambda>i. ix_name i = ''consumePreparedFill'') tr_idl = Some idl_tr_consumePreparedFill"
    "find (\<lambda>i. ix_name i = ''initialize'') tr_idl = Some idl_tr_initialize"
    "find (\<lambda>i. ix_name i = ''migrate'') tr_idl = Some idl_tr_migrate"
    "find (\<lambda>i. ix_name i = ''placeMarketOrderCctp'') tr_idl = Some idl_tr_placeMarketOrderCctp"
    "find (\<lambda>i. ix_name i = ''prepareMarketOrder'') tr_idl = Some idl_tr_prepareMarketOrder"
    "find (\<lambda>i. ix_name i = ''redeemCctpFill'') tr_idl = Some idl_tr_redeemCctpFill"
    "find (\<lambda>i. ix_name i = ''redeemFastFill'') tr_idl = Some idl_tr_redeemFastFill"
    "find (\<lambda>i. ix_name i = ''setPause'') tr_idl = Some idl_tr_setPause"
    "find (\<lambda>i. ix_name i = ''submitOwnershipTransferRequest'') tr_idl = Some idl_tr_submitOwnershipTransferRequest"
    "find (\<lambda>i. ix_name i = ''updateOwnerAssistant'') tr_idl = Some idl_tr_updateOwnerAssistant"
  by (simp_all add: tr_idl_def tr_names)

lemma um_names:
  shows "ix_name idl_um_commitMatchingEngineUpgrade = ''commitMatchingEngineUpgrade''"
    "ix_name idl_um_commitTokenRouterUpgrade = ''commitTokenRouterUpgrade''"
    "ix_name idl_um_executeMatchingEngineUpgrade = ''executeMatchingEngineUpgrade''"
    "ix_name idl_um_executeTokenRouterUpgrade = ''executeTokenRouterUpgrade''"
  by (simp_all add: idl_um_commitMatchingEngineUpgrade_def idl_um_commitTokenRouterUpgrade_def idl_um_executeMatchingEngineUpgrade_def idl_um_executeTokenRouterUpgrade_def)

lemma um_find:
  shows "find (\<lambda>i. ix_name i = ''commitMatchingEngineUpgrade'') um_idl = Some idl_um_commitMatchingEngineUpgrade"
    "find (\<lambda>i. ix_name i = ''commitTokenRouterUpgrade'') um_idl = Some idl_um_commitTokenRouterUpgrade"
    "find (\<lambda>i. ix_name i = ''executeMatchingEngineUpgrade'') um_idl = Some idl_um_executeMatchingEngineUpgrade"
    "find (\<lambda>i. ix_name i = ''executeTokenRouterUpgrade'') um_idl = Some idl_um_executeTokenRouterUpgrade"
  by (simp_all add: um_idl_def um_names)

lemma mt_find: "find (\<lambda>i. ix_name i = ''reclaimEventAccount'') mt_idl = Some idl_mt_reclaimEventAccount"
  by (simp add: mt_idl_def idl_mt_initialize_def idl_mt_transferOwnership_def idl_mt_acceptOwnership_def idl_mt_updatePauser_def
      idl_mt_updateAttesterManager_def idl_mt_pause_def idl_mt_unpause_def idl_mt_setMaxMessageBodySize_def
      idl_mt_enableAttester_def idl_mt_disableAttester_def idl_mt_setSignatureThreshold_def idl_mt_sendMessage_def
      idl_mt_sendMessageWithCaller_def idl_mt_replaceMessage_def idl_mt_receiveMessage_def idl_mt_reclaimEventAccount_def)

text \<open>The types of arguments.\<close>

lemma me_argTypes:
  "map_of me_types ''addCctpRouterEndpointArgs'' = Some ty_me_addCctpRouterEndpointArgs"
  "map_of me_types ''auctionParameters'' = Some ty_me_auctionParameters"
  "map_of me_types ''cctpMessageArgs'' = Some ty_me_cctpMessageArgs"
  "map_of me_types ''initializeArgs'' = Some ty_me_initializeArgs"
  by (simp_all add: me_types_def)

lemma tr_argTypes:
  "map_of tr_types ''cctpMessageArgs'' = Some ty_tr_cctpMessageArgs"
  "map_of tr_types ''prepareMarketOrderArgs'' = Some ty_tr_prepareMarketOrderArgs"
  by (simp_all add: tr_types_def)

lemma mt_argTypes: "map_of mt_types ''ReclaimEventAccountParams'' = Some ty_mt_ReclaimEventAccountParams"
  by (simp add: mt_types_def)

lemma fits_auctionParameters: "argFits me_types (TDefined ''auctionParameters'') (argAuctionParameters ps)"
  by (simp add: argAuctionParameters_def me_argTypes ty_me_auctionParameters_def hasFields_def)

lemma fits_cctpMessage: "argFits me_types (TDefined ''cctpMessageArgs'') (argCctpMessage m)"
  "argFits tr_types (TDefined ''cctpMessageArgs'') (argCctpMessage m)"
  by (simp_all add: argCctpMessage_def me_argTypes tr_argTypes ty_me_cctpMessageArgs_def ty_tr_cctpMessageArgs_def hasFields_def)

lemma fits_cctpRouterEndpoint: "argFits me_types (TDefined ''addCctpRouterEndpointArgs'') (argCctpRouterEndpoint a)"
  by (simp add: argCctpRouterEndpoint_def me_argTypes ty_me_addCctpRouterEndpointArgs_def hasFields_def split: option.split)

lemma fits_prepareMarketOrder:
  "m = ArgNull \<or> (\<exists>n. m = ArgBN n) \<Longrightarrow> argFits tr_types (TDefined ''prepareMarketOrderArgs'')
    (ArgObject ((case u of None \<Rightarrow> [] | Some b \<Rightarrow> [(''useTransferAuthority'', ArgBool b)]) @
      [(''amountIn'', ArgBN a), (''minAmountOut'', m), (''targetChain'', ArgNum c), (''redeemer'', ArgBytes r),
       (''redeemerMessage'', ArgBytes b)]))"
  by (cases u) (auto simp: tr_argTypes ty_tr_prepareMarketOrderArgs_def hasFields_def)

text \<open>The minimum amount is \<open>null\<close> or a \<open>BN\<close>.\<close>

lemma ok_minAmountOut:
  assumes "\<And>a. a = ArgNull \<or> (\<exists>n. a = ArgBN n) \<Longrightarrow> ok P (f a)"
  shows "ok P (bnd (case m of None \<Rightarrow> Inr ArgNull | Some m \<Rightarrow> bnd (uint64ToBN (g m)) (\<lambda>n. Inr (ArgBN n))) f)"
  by (rule ok_bnd_via [where R = "\<lambda>a. a = ArgNull \<or> (\<exists>n. a = ArgBN n)"])
    (use assms in \<open>auto split: option.split intro!: ok_bnd\<close>)

lemmas me_fits = fits_auctionParameters fits_cctpMessage fits_cctpRouterEndpoint me_argTypes ty_me_initializeArgs_def hasFields_def

section \<open>The composites as groups\<close>

text \<open>A composite that is computed has the shape of its group, whatever its accounts are.\<close>

lemma ok_activeAuction:
  assumes "\<And>k a c b. ok P (f (Group [(''custodyToken'', Key k), (''auction'', Key a), (''config'', Key c),
    (''bestOfferToken'', Key b)]))"
  shows "ok P (bnd (me_activeAuctionComposite env p auction config token info) f)"
  by (rule ok_bnd_via [where R = "\<lambda>g. \<exists>k a c b. g = Group [(''custodyToken'', Key k), (''auction'', Key a),
      (''config'', Key c), (''bestOfferToken'', Key b)]"])
    (unfold me_activeAuctionComposite_def case_prod_unfold, rule ok_bnd, use assms in auto)

lemma ok_localTokenRouter:
  assumes "\<And>t e r. ok P (f (Group [(''tokenRouterProgram'', Key t), (''tokenRouterEmitter'', Key e),
    (''tokenRouterMintRecipient'', Key r)]))"
  shows "ok P (bnd (me_localTokenRouterComposite env p router) f)"
  by (rule ok_bnd_via [where R = "\<lambda>g. \<exists>t e r. g = Group [(''tokenRouterProgram'', Key t),
      (''tokenRouterEmitter'', Key e), (''tokenRouterMintRecipient'', Key r)]"])
    (unfold me_localTokenRouterComposite_def Let_def, rule ok_bnd, use assms in auto)

lemma ok_cctpMintRecipient:
  assumes "\<And>r. ok P (f (Group [(''mintRecipient'', Key r)]))"
  shows "ok P (bnd (me_cctpMintRecipientComposite env p) f)"
  by (rule ok_bnd_via [where R = "\<lambda>g. \<exists>r. g = Group [(''mintRecipient'', Key r)]"])
    (unfold me_cctpMintRecipientComposite_def, rule ok_bnd, use assms in auto)

definition reserveShape :: "reserveComposite \<Rightarrow> bool" where
  "reserveShape rc \<longleftrightarrow> (\<exists>p v f t s r a y. rc_accounts rc = [(''payer'', Key p),
     (''fastOrderPath'', me_fastOrderPathComposite v f t), (''sequencer'', Key s), (''reserved'', Key r),
     (''auction'', Key a), (''systemProgram'', Key y)])"

lemma ok_reserveComposite:
  assumes "\<And>rc. reserveShape rc \<Longrightarrow> ok P (f rc)"
  shows "ok P (bnd (me_reserveFastFillSequenceComposite env p payer fastVaa fromEnd toEnd sequencer reserved
    auction opts) f)"
  by (rule ok_bnd_via [where R = reserveShape])
    (unfold me_reserveFastFillSequenceComposite_def case_prod_unfold Let_def, (rule ok_bnd)+,
      use assms in \<open>auto simp: reserveShape_def\<close>)

lemmas me_composites = me_checkedCustodianComposite_def me_adminComposite_def me_adminMutComposite_def
  me_ownerOnlyComposite_def me_ownerOnlyMutComposite_def me_routerEndpointComposite_def
  me_liquidityLayerVaaComposite_def me_usdcComposite_def me_closePreparedOrderResponseComposite_def
  me_liveRouterPathComposite_def me_fastOrderPathComposite_def me_requiredSysvarsComposite_def
  wormholeGroup_def cctpBurnGroup_def executeOrderGroup_def Let_def

lemmas tr_composites = tr_checkedCustodianComposite_def tr_adminComposite_def tr_adminMutComposite_def
  tr_ownerOnlyComposite_def tr_ownerOnlyMutComposite_def endpointGroup_def tr_liquidityLayerVaaComposite_def
  tr_usdcComposite_def keyOrNull_def Let_def

lemmas um_composites = um_ownerOnlyComposite_def um_requiredSysvarsComposite_def
  um_executeUpgradeComposite_def um_commitUpgradeComposite_def

lemmas ok_rules = ok_activeAuction ok_localTokenRouter ok_cctpMintRecipient ok_reserveComposite ok_bnd

section \<open>Matching Engine\<close>

lemma me_initialize_conforms: "ok (conforms me_types me_idl (me_ID env p)) (me_initializeIx env p owner ownerAssistant feeRecipient mint auctionParams)"
  unfolding me_initializeIx_def Let_def case_prod_unfold
  by ((rule ok_rules)+, simp add: idl_me_initialize_def me_find me_composites me_fits)

lemma me_setPause_conforms: "conforms me_types me_idl (me_ID env p) (me_setPauseIx env p ownerOrAssistant custodian paused)"
  by (simp add: me_setPauseIx_def idl_me_setPause_def me_find me_composites)

lemma me_submitOwnershipTransfer_conforms: "conforms me_types me_idl (me_ID env p) (me_submitOwnershipTransferIx env p owner newOwner custodian)"
  by (simp add: me_submitOwnershipTransferIx_def idl_me_submitOwnershipTransferRequest_def me_find me_composites)

lemma me_confirmOwnershipTransfer_conforms: "conforms me_types me_idl (me_ID env p) (me_confirmOwnershipTransferIx env p pendingOwner custodian)"
  by (simp add: me_confirmOwnershipTransferIx_def idl_me_confirmOwnershipTransferRequest_def me_find me_composites)

lemma me_cancelOwnershipTransfer_conforms: "conforms me_types me_idl (me_ID env p) (me_cancelOwnershipTransferIx env p owner custodian)"
  by (simp add: me_cancelOwnershipTransferIx_def idl_me_cancelOwnershipTransferRequest_def me_find me_composites)

lemma me_updateOwnerAssistant_conforms: "conforms me_types me_idl (me_ID env p) (me_updateOwnerAssistantIx env p owner newOwnerAssistant custodian)"
  by (simp add: me_updateOwnerAssistantIx_def idl_me_updateOwnerAssistant_def me_find me_composites)

lemma me_addCctpRouterEndpoint_conforms: "ok (conforms me_types me_idl (me_ID env p)) (me_addCctpRouterEndpointIx env p ownerOrAssistant payer custodian endpoint messenger args)"
  unfolding me_addCctpRouterEndpointIx_def Let_def case_prod_unfold
  by ((rule ok_rules)+, simp add: idl_me_addCctpRouterEndpoint_def me_find me_composites me_fits)

lemma me_updateCctpRouterEndpoint_conforms: "ok (conforms me_types me_idl (me_ID env p)) (me_updateCctpRouterEndpointIx env p owner custodian endpoint messenger args)"
  unfolding me_updateCctpRouterEndpointIx_def Let_def case_prod_unfold
  by ((rule ok_rules)+, simp add: idl_me_updateCctpRouterEndpoint_def me_find me_composites me_fits)

lemma me_addLocalRouterEndpoint_conforms: "ok (conforms me_types me_idl (me_ID env p)) (me_addLocalRouterEndpointIx env p ownerOrAssistant router payer custodian endpoint)"
  unfolding me_addLocalRouterEndpointIx_def Let_def case_prod_unfold
  by ((rule ok_rules)+, simp add: idl_me_addLocalRouterEndpoint_def me_find me_composites)

lemma me_updateLocalRouterEndpoint_conforms: "ok (conforms me_types me_idl (me_ID env p)) (me_updateLocalRouterEndpointIx env p owner router custodian endpoint)"
  unfolding me_updateLocalRouterEndpointIx_def Let_def case_prod_unfold
  by ((rule ok_rules)+, simp add: idl_me_updateLocalRouterEndpoint_def me_find me_composites)

lemma me_disableRouterEndpoint_conforms: "ok (conforms me_types me_idl (me_ID env p)) (me_disableRouterEndpointIx env p owner custodian endpoint chain)"
  unfolding me_disableRouterEndpointIx_def Let_def case_prod_unfold
  by ((rule ok_rules)+, simp add: idl_me_disableRouterEndpoint_def me_find me_composites)

lemma me_proposeAuctionParameters_conforms: "ok (conforms me_types me_idl (me_ID env p)) (me_proposeAuctionParametersIx env p ownerOrAssistant payer custodian proposal params proposalId)"
  unfolding me_proposeAuctionParametersIx_def Let_def case_prod_unfold
  by ((rule ok_rules)+, simp add: idl_me_proposeAuctionParameters_def me_find me_composites me_fits)

lemma me_closeProposal_conforms: "ok (conforms me_types me_idl (me_ID env p)) (me_closeProposalIx env p ownerOrAssistant proposal proposalId)"
  unfolding me_closeProposalIx_def Let_def case_prod_unfold
  by ((rule ok_rules)+, simp add: idl_me_closeProposal_def me_find me_composites)

lemma me_updateAuctionParameters_conforms: "ok (conforms me_types me_idl (me_ID env p)) (me_updateAuctionParametersIx env p owner payer custodian proposal config proposalId)"
  unfolding me_updateAuctionParametersIx_def Let_def case_prod_unfold
  by ((rule ok_rules)+, simp add: idl_me_updateAuctionParameters_def me_find me_composites)

lemma me_updateFeeRecipient_conforms: "ok (conforms me_types me_idl (me_ID env p)) (me_updateFeeRecipientIx env p ownerOrAssistant newFeeRecipient custodian)"
  unfolding me_updateFeeRecipientIx_def Let_def case_prod_unfold
  by ((rule ok_rules)+, simp add: idl_me_updateFeeRecipient_def me_find me_composites)

lemma me_placeInitialOffer_conforms: "ok (\<lambda>ixs. conforms me_types me_idl (me_ID env p) (last ixs)) (me_placeInitialOfferCctpIx env p accts offerPrice deposit)"
  unfolding me_placeInitialOfferCctpIx_def Let_def case_prod_unfold
  by ((rule ok_rules)+, simp add: idl_me_placeInitialOfferCctp_def me_find me_composites)

lemma me_improveOffer_conforms: "ok (\<lambda>ixs. conforms me_types me_idl (me_ID env p) (last ixs)) (me_improveOfferIx env p participant auction config token offerPrice deposit)"
  unfolding me_improveOfferIx_def Let_def case_prod_unfold
  by ((rule ok_rules)+, simp add: idl_me_improveOffer_def me_find me_composites)

lemma me_prepareOrderResponse_conforms: "ok (conforms me_types me_idl (me_ID env p)) (me_prepareOrderResponseCctpIx env p payer fastVaa finalizedVaa feeToken msgArgs)"
  unfolding me_prepareOrderResponseCctpIx_def Let_def case_prod_unfold
  by ((rule ok_rules)+, simp add: idl_me_prepareOrderResponseCctp_def me_find me_composites me_fits)

lemma me_settleAuctionComplete_conforms: "ok (conforms me_types me_idl (me_ID env p)) (me_settleAuctionCompleteIx env p response auctionOpt beneficiary feeToken token)"
  unfolding me_settleAuctionCompleteIx_def Let_def case_prod_unfold
  by ((rule ok_rules)+, simp add: idl_me_settleAuctionComplete_def me_find me_composites)

lemma me_settleAuctionNoneLocal_conforms: "ok (conforms me_types me_idl (me_ID env p)) (me_settleAuctionNoneLocalIx env p payer reserved responseOpt auctionOpt fillOpts)"
  unfolding me_settleAuctionNoneLocalIx_def Let_def case_prod_unfold
  by ((rule ok_rules)+, simp add: idl_me_settleAuctionNoneLocal_def me_find me_composites)

lemma me_settleAuctionNoneCctp_conforms: "ok (conforms me_types me_idl (me_ID env p)) (me_settleAuctionNoneCctpIx env p payer fastVaa responseOpt auctionOpt sourceChain targetChain)"
  unfolding me_settleAuctionNoneCctpIx_def Let_def case_prod_unfold
  by ((rule ok_rules)+, simp add: idl_me_settleAuctionNoneCctp_def me_find me_composites)

lemma me_reserveActiveAuction_conforms: "ok (conforms me_types me_idl (me_ID env p)) (me_reserveFastFillSequenceActiveAuctionIx env p payer fastVaa fromEnd toEnd sequencer reservedOpt auctionOpt config rOpts)"
  unfolding me_reserveFastFillSequenceActiveAuctionIx_def Let_def case_prod_unfold
  by ((rule ok_rules)+, auto simp: idl_me_reserveFastFillSequenceActiveAuction_def me_find me_composites reserveShape_def)

lemma me_reserveNoAuction_conforms: "ok (conforms me_types me_idl (me_ID env p)) (me_reserveFastFillSequenceNoAuctionIx env p payer fastVaa fromEnd toEnd sequencer reservedOpt auctionOpt responseOpt rOpts)"
  unfolding me_reserveFastFillSequenceNoAuctionIx_def Let_def case_prod_unfold
  by ((rule ok_rules)+, auto simp: idl_me_reserveFastFillSequenceNoAuction_def me_find me_composites reserveShape_def)

lemma me_executeFastOrderCctp_conforms: "ok (conforms me_types me_idl (me_ID env p)) (me_executeFastOrderCctpIx env p payer fastVaa executorToken auctionOpt config token initialToken initialParticipant targetChain)"
  unfolding me_executeFastOrderCctpIx_def Let_def case_prod_unfold
  by ((rule ok_rules)+, simp add: idl_me_executeFastOrderCctp_def me_find me_composites)

lemma me_executeFastOrderLocal_conforms: "ok (conforms me_types me_idl (me_ID env p)) (me_executeFastOrderLocalIx env p xAccts fillOpts)"
  unfolding me_executeFastOrderLocalIx_def Let_def case_prod_unfold
  by ((rule ok_rules)+, simp add: idl_me_executeFastOrderLocal_def me_find me_composites)

lemma me_closeAuction_conforms: "ok (conforms me_types me_idl (me_ID env p)) (me_closeAuctionIx env p auction beneficiary)"
  unfolding me_closeAuctionIx_def Let_def case_prod_unfold
  by ((rule ok_rules)+, simp add: idl_me_closeAuction_def me_find me_composites)

lemma me_placeInitialOffer_second: "me_placeInitialOfferCctpIx env p accts offerPrice deposit = Inr [approveIx, ix] \<Longrightarrow> conforms me_types me_idl (me_ID env p) ix"
  by (drule me_placeInitialOffer_conforms [THEN okD]) simp

lemma me_improveOffer_second: "me_improveOfferIx env p participant auction config token offerPrice deposit = Inr [approveIx, ix] \<Longrightarrow> conforms me_types me_idl (me_ID env p) ix"
  by (drule me_improveOffer_conforms [THEN okD]) simp

lemmas me_conforms = me_initialize_conforms [THEN okD]
  me_addCctpRouterEndpoint_conforms [THEN okD]
  me_updateCctpRouterEndpoint_conforms [THEN okD]
  me_addLocalRouterEndpoint_conforms [THEN okD]
  me_updateLocalRouterEndpoint_conforms [THEN okD]
  me_disableRouterEndpoint_conforms [THEN okD]
  me_proposeAuctionParameters_conforms [THEN okD]
  me_closeProposal_conforms [THEN okD]
  me_updateAuctionParameters_conforms [THEN okD]
  me_updateFeeRecipient_conforms [THEN okD]
  me_prepareOrderResponse_conforms [THEN okD]
  me_settleAuctionComplete_conforms [THEN okD]
  me_settleAuctionNoneLocal_conforms [THEN okD]
  me_settleAuctionNoneCctp_conforms [THEN okD]
  me_reserveActiveAuction_conforms [THEN okD]
  me_reserveNoAuction_conforms [THEN okD]
  me_executeFastOrderCctp_conforms [THEN okD]
  me_executeFastOrderLocal_conforms [THEN okD]
  me_closeAuction_conforms [THEN okD]
  me_placeInitialOffer_second
  me_improveOffer_second
lemmas me_total_conforms = me_setPause_conforms
  me_submitOwnershipTransfer_conforms
  me_confirmOwnershipTransfer_conforms
  me_cancelOwnershipTransfer_conforms
  me_updateOwnerAssistant_conforms

inductive meBuilt :: "env \<Rightarrow> meProgram \<Rightarrow> instruction \<Rightarrow> bool" for env p where
  initialize: "me_initializeIx env p owner ownerAssistant feeRecipient mint auctionParams = Inr ix \<Longrightarrow> meBuilt env p ix"
| setPause: "ix = me_setPauseIx env p ownerOrAssistant custodian paused \<Longrightarrow> meBuilt env p ix"
| submitOwnershipTransfer: "ix = me_submitOwnershipTransferIx env p owner newOwner custodian \<Longrightarrow> meBuilt env p ix"
| confirmOwnershipTransfer: "ix = me_confirmOwnershipTransferIx env p pendingOwner custodian \<Longrightarrow> meBuilt env p ix"
| cancelOwnershipTransfer: "ix = me_cancelOwnershipTransferIx env p owner custodian \<Longrightarrow> meBuilt env p ix"
| updateOwnerAssistant: "ix = me_updateOwnerAssistantIx env p owner newOwnerAssistant custodian \<Longrightarrow> meBuilt env p ix"
| addCctpRouterEndpoint: "me_addCctpRouterEndpointIx env p ownerOrAssistant payer custodian endpoint messenger args = Inr ix \<Longrightarrow> meBuilt env p ix"
| updateCctpRouterEndpoint: "me_updateCctpRouterEndpointIx env p owner custodian endpoint messenger args = Inr ix \<Longrightarrow> meBuilt env p ix"
| addLocalRouterEndpoint: "me_addLocalRouterEndpointIx env p ownerOrAssistant router payer custodian endpoint = Inr ix \<Longrightarrow> meBuilt env p ix"
| updateLocalRouterEndpoint: "me_updateLocalRouterEndpointIx env p owner router custodian endpoint = Inr ix \<Longrightarrow> meBuilt env p ix"
| disableRouterEndpoint: "me_disableRouterEndpointIx env p owner custodian endpoint chain = Inr ix \<Longrightarrow> meBuilt env p ix"
| proposeAuctionParameters: "me_proposeAuctionParametersIx env p ownerOrAssistant payer custodian proposal params proposalId = Inr ix \<Longrightarrow> meBuilt env p ix"
| closeProposal: "me_closeProposalIx env p ownerOrAssistant proposal proposalId = Inr ix \<Longrightarrow> meBuilt env p ix"
| updateAuctionParameters: "me_updateAuctionParametersIx env p owner payer custodian proposal config proposalId = Inr ix \<Longrightarrow> meBuilt env p ix"
| updateFeeRecipient: "me_updateFeeRecipientIx env p ownerOrAssistant newFeeRecipient custodian = Inr ix \<Longrightarrow> meBuilt env p ix"
| placeInitialOffer: "me_placeInitialOfferCctpIx env p accts offerPrice deposit = Inr [approveIx, ix] \<Longrightarrow> meBuilt env p ix"
| improveOffer: "me_improveOfferIx env p participant auction config token offerPrice deposit = Inr [approveIx, ix] \<Longrightarrow> meBuilt env p ix"
| prepareOrderResponse: "me_prepareOrderResponseCctpIx env p payer fastVaa finalizedVaa feeToken msgArgs = Inr ix \<Longrightarrow> meBuilt env p ix"
| settleAuctionComplete: "me_settleAuctionCompleteIx env p response auctionOpt beneficiary feeToken token = Inr ix \<Longrightarrow> meBuilt env p ix"
| settleAuctionNoneLocal: "me_settleAuctionNoneLocalIx env p payer reserved responseOpt auctionOpt fillOpts = Inr ix \<Longrightarrow> meBuilt env p ix"
| settleAuctionNoneCctp: "me_settleAuctionNoneCctpIx env p payer fastVaa responseOpt auctionOpt sourceChain targetChain = Inr ix \<Longrightarrow> meBuilt env p ix"
| reserveActiveAuction: "me_reserveFastFillSequenceActiveAuctionIx env p payer fastVaa fromEnd toEnd sequencer reservedOpt auctionOpt config rOpts = Inr ix \<Longrightarrow> meBuilt env p ix"
| reserveNoAuction: "me_reserveFastFillSequenceNoAuctionIx env p payer fastVaa fromEnd toEnd sequencer reservedOpt auctionOpt responseOpt rOpts = Inr ix \<Longrightarrow> meBuilt env p ix"
| executeFastOrderCctp: "me_executeFastOrderCctpIx env p payer fastVaa executorToken auctionOpt config token initialToken initialParticipant targetChain = Inr ix \<Longrightarrow> meBuilt env p ix"
| executeFastOrderLocal: "me_executeFastOrderLocalIx env p xAccts fillOpts = Inr ix \<Longrightarrow> meBuilt env p ix"
| closeAuction: "me_closeAuctionIx env p auction beneficiary = Inr ix \<Longrightarrow> meBuilt env p ix"

section \<open>Token Router\<close>

lemma tr_initialize_conforms: "ok (conforms tr_types tr_idl (tr_ID env p)) (tr_initializeIx env p owner ownerAssistant mint)"
  unfolding tr_initializeIx_def Let_def case_prod_unfold
  by ((rule ok_rules)+, simp add: idl_tr_initialize_def tr_find tr_composites)

lemma tr_setPause_conforms: "conforms tr_types tr_idl (tr_ID env p) (tr_setPauseIx env p ownerOrAssistant custodian paused)"
  by (simp add: tr_setPauseIx_def idl_tr_setPause_def tr_find tr_composites)

lemma tr_submitOwnershipTransfer_conforms: "conforms tr_types tr_idl (tr_ID env p) (tr_submitOwnershipTransferIx env p owner newOwner custodian)"
  by (simp add: tr_submitOwnershipTransferIx_def idl_tr_submitOwnershipTransferRequest_def tr_find tr_composites)

lemma tr_confirmOwnershipTransfer_conforms: "conforms tr_types tr_idl (tr_ID env p) (tr_confirmOwnershipTransferIx env p pendingOwner custodian)"
  by (simp add: tr_confirmOwnershipTransferIx_def idl_tr_confirmOwnershipTransferRequest_def tr_find tr_composites)

lemma tr_cancelOwnershipTransfer_conforms: "conforms tr_types tr_idl (tr_ID env p) (tr_cancelOwnershipTransferIx env p owner custodian)"
  by (simp add: tr_cancelOwnershipTransferIx_def idl_tr_cancelOwnershipTransferRequest_def tr_find tr_composites)

lemma tr_updateOwnerAssistant_conforms: "conforms tr_types tr_idl (tr_ID env p) (tr_updateOwnerAssistantIx env p owner newOwnerAssistant custodian)"
  by (simp add: tr_updateOwnerAssistantIx_def idl_tr_updateOwnerAssistant_def tr_find tr_composites)

lemma tr_prepareMarketOrder_conforms: "ok (\<lambda>r. conforms tr_types tr_idl (tr_ID env p) (snd r)) (tr_prepareMarketOrderIx env p accts useTransferAuthority args)"
  unfolding tr_prepareMarketOrderIx_def Let_def case_prod_unfold
  by (rule ok_minAmountOut | rule ok_rules)+
    (simp add: idl_tr_prepareMarketOrder_def tr_find tr_composites fits_prepareMarketOrder del: argFits.simps split: option.split)

lemma tr_closePreparedOrder_conforms: "ok (conforms tr_types tr_idl (tr_ID env p)) (tr_closePreparedOrderIx env p preparedOrder preparedBy orderSender refundToken)"
  unfolding tr_closePreparedOrderIx_def Let_def case_prod_unfold
  by ((rule ok_rules)+, simp add: idl_tr_closePreparedOrder_def tr_find tr_composites)

lemma tr_consumePreparedFill_conforms: "conforms tr_types tr_idl (tr_ID env p) (tr_consumePreparedFillIx env p preparedFill redeemer dstToken beneficiary)"
  by (simp add: tr_consumePreparedFillIx_def idl_tr_consumePreparedFill_def tr_find tr_composites)

lemma tr_placeMarketOrder_conforms: "ok (conforms tr_types tr_idl (tr_ID env p)) (tr_placeMarketOrderCctpIx env p payer preparedOrder preparedBy endpoint targetChain domain)"
  unfolding tr_placeMarketOrderCctpIx_def Let_def case_prod_unfold
  by ((rule ok_rules)+, simp add: idl_tr_placeMarketOrderCctp_def tr_find tr_composites)

lemma tr_redeemCctpFill_conforms: "ok (conforms tr_types tr_idl (tr_ID env p)) (tr_redeemCctpFillIx env p payer vaa endpoint msgArgs)"
  unfolding tr_redeemCctpFillIx_def Let_def case_prod_unfold
  by ((rule ok_rules)+, simp add: idl_tr_redeemCctpFill_def tr_find tr_composites fits_cctpMessage)

lemma tr_redeemFastFill_conforms: "ok (conforms tr_types tr_idl (tr_ID env p)) (tr_redeemFastFillIx env p payer fastFill)"
  unfolding tr_redeemFastFillIx_def Let_def case_prod_unfold
  by ((rule ok_rules)+, simp add: idl_tr_redeemFastFill_def tr_find tr_composites)

lemma tr_prepareMarketOrder_second: "tr_prepareMarketOrderIx env p accts useTransferAuthority args = Inr (approveIx, ix) \<Longrightarrow> conforms tr_types tr_idl (tr_ID env p) ix"
  by (drule tr_prepareMarketOrder_conforms [THEN okD]) simp

lemmas tr_conforms = tr_initialize_conforms [THEN okD]
  tr_closePreparedOrder_conforms [THEN okD]
  tr_placeMarketOrder_conforms [THEN okD]
  tr_redeemCctpFill_conforms [THEN okD]
  tr_redeemFastFill_conforms [THEN okD]
  tr_prepareMarketOrder_second
lemmas tr_total_conforms = tr_setPause_conforms
  tr_submitOwnershipTransfer_conforms
  tr_confirmOwnershipTransfer_conforms
  tr_cancelOwnershipTransfer_conforms
  tr_updateOwnerAssistant_conforms
  tr_consumePreparedFill_conforms

inductive trBuilt :: "env \<Rightarrow> trProgram \<Rightarrow> instruction \<Rightarrow> bool" for env p where
  initialize: "tr_initializeIx env p owner ownerAssistant mint = Inr ix \<Longrightarrow> trBuilt env p ix"
| setPause: "ix = tr_setPauseIx env p ownerOrAssistant custodian paused \<Longrightarrow> trBuilt env p ix"
| submitOwnershipTransfer: "ix = tr_submitOwnershipTransferIx env p owner newOwner custodian \<Longrightarrow> trBuilt env p ix"
| confirmOwnershipTransfer: "ix = tr_confirmOwnershipTransferIx env p pendingOwner custodian \<Longrightarrow> trBuilt env p ix"
| cancelOwnershipTransfer: "ix = tr_cancelOwnershipTransferIx env p owner custodian \<Longrightarrow> trBuilt env p ix"
| updateOwnerAssistant: "ix = tr_updateOwnerAssistantIx env p owner newOwnerAssistant custodian \<Longrightarrow> trBuilt env p ix"
| prepareMarketOrder: "tr_prepareMarketOrderIx env p accts useTransferAuthority args = Inr (approveIx, ix) \<Longrightarrow> trBuilt env p ix"
| closePreparedOrder: "tr_closePreparedOrderIx env p preparedOrder preparedBy orderSender refundToken = Inr ix \<Longrightarrow> trBuilt env p ix"
| consumePreparedFill: "ix = tr_consumePreparedFillIx env p preparedFill redeemer dstToken beneficiary \<Longrightarrow> trBuilt env p ix"
| placeMarketOrder: "tr_placeMarketOrderCctpIx env p payer preparedOrder preparedBy endpoint targetChain domain = Inr ix \<Longrightarrow> trBuilt env p ix"
| redeemCctpFill: "tr_redeemCctpFillIx env p payer vaa endpoint msgArgs = Inr ix \<Longrightarrow> trBuilt env p ix"
| redeemFastFill: "tr_redeemFastFillIx env p payer fastFill = Inr ix \<Longrightarrow> trBuilt env p ix"

section \<open>Upgrade Manager\<close>

lemma um_executeMatchingEngine_conforms: "ok (conforms um_types um_idl (um_ID env p)) (um_executeMatchingEngineUpgradeIx env p owner buffer payer)"
  unfolding um_executeMatchingEngineUpgradeIx_def Let_def case_prod_unfold
  by ((rule ok_rules)+, simp add: idl_um_executeMatchingEngineUpgrade_def um_find um_composites)

lemma um_commitMatchingEngine_conforms: "ok (conforms um_types um_idl (um_ID env p)) (um_commitMatchingEngineUpgradeIx env p owner recipient)"
  unfolding um_commitMatchingEngineUpgradeIx_def Let_def case_prod_unfold
  by ((rule ok_rules)+, simp add: idl_um_commitMatchingEngineUpgrade_def um_find um_composites)

lemma um_executeTokenRouter_conforms: "ok (conforms um_types um_idl (um_ID env p)) (um_executeTokenRouterUpgradeIx env p owner buffer payer)"
  unfolding um_executeTokenRouterUpgradeIx_def Let_def case_prod_unfold
  by ((rule ok_rules)+, simp add: idl_um_executeTokenRouterUpgrade_def um_find um_composites)

lemma um_commitTokenRouter_conforms: "ok (conforms um_types um_idl (um_ID env p)) (um_commitTokenRouterUpgradeIx env p owner recipient)"
  unfolding um_commitTokenRouterUpgradeIx_def Let_def case_prod_unfold
  by ((rule ok_rules)+, simp add: idl_um_commitTokenRouterUpgrade_def um_find um_composites)

lemmas um_conforms = um_executeMatchingEngine_conforms [THEN okD]
  um_commitMatchingEngine_conforms [THEN okD]
  um_executeTokenRouter_conforms [THEN okD]
  um_commitTokenRouter_conforms [THEN okD]

inductive umBuilt :: "env \<Rightarrow> string \<Rightarrow> instruction \<Rightarrow> bool" for env p where
  executeMatchingEngine: "um_executeMatchingEngineUpgradeIx env p owner buffer payer = Inr ix \<Longrightarrow> umBuilt env p ix"
| commitMatchingEngine: "um_commitMatchingEngineUpgradeIx env p owner recipient = Inr ix \<Longrightarrow> umBuilt env p ix"
| executeTokenRouter: "um_executeTokenRouterUpgradeIx env p owner buffer payer = Inr ix \<Longrightarrow> umBuilt env p ix"
| commitTokenRouter: "um_commitTokenRouterUpgradeIx env p owner recipient = Inr ix \<Longrightarrow> umBuilt env p ix"

section \<open>Conformance\<close>

text \<open>
  C1. Every instruction that the SDK builds for the Matching Engine, the Token Router, the Upgrade
  Manager or Circle's Message Transmitter, by any of the builders and for any accounts and arguments,
  conforms to the interface description of that program: it is addressed to the program, names an
  instruction of it, supplies exactly the declared accounts, composites included, and has the declared
  arguments, each of the kind of its declared type: a number or a \<open>BN\<close> by its width, bytes, \<open>null\<close> only for
  an option, an object with the declared fields for a structure.
\<close>

theorem sdk_instructions_conform:
  "(meBuilt env m ix \<longrightarrow> conforms me_types me_idl (me_ID env m) ix) \<and>
   (trBuilt env t ix \<longrightarrow> conforms tr_types tr_idl (tr_ID env t) ix) \<and>
   (umBuilt env u ix \<longrightarrow> conforms um_types um_idl (um_ID env u) ix) \<and>
   conforms mt_types mt_idl (mt_ID env c) (mt_reclaimEventAccountIx env c payee eventData attestation)"
proof (intro conjI impI)
  assume "meBuilt env m ix"
  then show "conforms me_types me_idl (me_ID env m) ix"
    by cases ((rule me_conforms, assumption) | (simp only: me_total_conforms))+
next
  assume "trBuilt env t ix"
  then show "conforms tr_types tr_idl (tr_ID env t) ix"
    by cases ((rule tr_conforms, assumption) | (simp only: tr_total_conforms))+
next
  assume "umBuilt env u ix"
  then show "conforms um_types um_idl (um_ID env u) ix"
    by cases (rule um_conforms, assumption)+
next
  show "conforms mt_types mt_idl (mt_ID env c) (mt_reclaimEventAccountIx env c payee eventData attestation)"
    by (simp add: mt_reclaimEventAccountIx_def mt_find idl_mt_reclaimEventAccount_def mt_argTypes
        ty_mt_ReclaimEventAccountParams_def hasFields_def)
qed

theorem sdk_instructions_conform_witness:
  "\<forall>env m t. conforms me_types me_idl (me_ID env m) (me_setPauseIx env m [1] None True) \<and>
     conforms tr_types tr_idl (tr_ID env t) (tr_consumePreparedFillIx env t [1] [2] [3] [4])"
  using sdk_instructions_conform [THEN conjunct1, THEN mp, OF meBuilt.setPause [OF refl]]
    sdk_instructions_conform [THEN conjunct2, THEN conjunct1, THEN mp, OF trBuilt.consumePreparedFill [OF refl]]
  by blast

end
