(* ===== verification/Transactions.thy ===== *)
theory Transactions
  imports Conformance
begin

text \<open>
  What the transactions of \<open>MatchingEngineProgram\<close> promise beyond the shape of their accounts: which
  signatures they need, that the approvals they carry cover exactly the deposit that the program on
  chain takes, and which of the caller's accounts are not used. The chain of the witnesses is at the
  end of the first section.
\<close>

section \<open>A chain for the witnesses\<close>

definition demoFast :: fastMarketOrder where
  "demoFast = \<lparr>fm_amountIn = 1000, fm_minAmountOut = 0, fm_targetChain = ''Ethereum'', fm_redeemer = replicate 32 1,
     fm_sender = replicate 32 2, fm_refundAddress = replicate 32 3, fm_maxFee = 40, fm_initAuctionFee = 1,
     fm_deadline = 0, fm_redeemerMessage = []\<rparr>"

definition demoVaa :: postedVaaV1 where
  "demoVaa = \<lparr>pv_consistencyLevel = Some 1, pv_timestamp = 5, pv_signatureSet = replicate 32 0,
     pv_guardianSetIndex = 0, pv_nonce = 7, pv_sequence = 9, pv_emitterChain = 2,
     pv_emitterAddress = replicate 32 3, pv_payload = [11]\<rparr>"

definition demoAuction :: auction where
  "demoAuction = \<lparr>au_bump = 0, au_vaaHash = replicate 32 0, au_vaaTimestamp = 5, au_targetProtocol = CctpProtocol 0,
     au_status = Completed 120 None, au_preparedBy = replicate 32 6, au_info = Some demoInfo\<rparr>"

definition demoChain :: "env \<Rightarrow> env" where
  "demoChain env = (demoEnv env)\<lparr>
     getAccountInfo := \<lambda>_. Inr (Some (postedAccountBytes demoVaa)),
     isChainId := \<lambda>_. True,
     isChain := \<lambda>_. True,
     toChainId := \<lambda>c. Inr (if c = ''Solana'' then 1 else 2),
     deserializeMessage := \<lambda>_. Inr (FastMarketOrderMessage demoFast),
     keccak256 := \<lambda>b. b,
     associatedTokenAddress := \<lambda>mint owner offCurve. Inr owner,
     acctAuction := \<lambda>_. Inr demoAuction,
     acctRouterEndpoint := \<lambda>_. Inr \<lparr>re_bump = 0, re_info = \<lparr>ei_chain = 2, ei_address = replicate 32 4,
       ei_mintRecipient = replicate 32 4, ei_protocol = CctpProtocol 0\<rparr>\<rparr>\<rparr>"

lemma demo_ata [simp]: "associatedTokenAddress (demoChain env) mint owner off = Inr owner"
  by (simp add: demoChain_def)

lemma demo_account:
  "vaaAccount_fetch (demoChain env) a = Inr \<lparr>vc_encodedVaa = None, vc_postedVaaV1 = Some demoVaa\<rparr>"
proof -
  have wf: "posted_wf demoVaa" by (simp add: posted_wf_def demoVaa_def)
  have "isChainId (demoChain env) (pv_emitterChain demoVaa)" by (simp add: demoChain_def)
  with wf have "parseVaaAccount (demoChain env) (postedAccountBytes demoVaa) =
      Inr \<lparr>vc_encodedVaa = None, vc_postedVaaV1 = Some demoVaa\<rparr>"
    using posted_disc [OF wf] parsePosted_bytes [OF wf, of "demoChain env"]
    by (simp add: parseVaaAccount_def Let_def newVaaAccount_def)
  then show ?thesis by (simp add: vaaAccount_fetch_def) (simp add: demoChain_def)
qed

lemma demo_order:
  "fastMarketOrderOf (demoChain env) \<lparr>vc_encodedVaa = None, vc_postedVaaV1 = Some demoVaa\<rparr> = Inr demoFast"
  by (simp add: fastMarketOrderOf_def vaaAccount_payload_def liquidityLayerMessage_decode_def demoChain_def
      readBE_def beNat_def ID_DEPOSIT_def ID_FAST_MARKET_ORDER_def) (simp add: demoVaa_def)

section \<open>Signatures\<close>

text \<open>The signers of a list of instructions stay within a set.\<close>

definition signedWithin :: "pubkey set \<Rightarrow> instruction list \<Rightarrow> bool" where
  "signedWithin S ixs \<longleftrightarrow> (\<forall>ix\<in>set ixs. set (requiredSigners me_idl ix) \<subseteq> S)"

lemma ok_approve:
  assumes "\<And>t a n. ok P (f (t, SplApprove a t owner n))"
  shows "ok P (bnd (me_approveTransferAuthorityIx env p auction owner price deposit) f)"
  by (rule ok_bnd_via [where R = "\<lambda>r. \<exists>t a n. r = (t, SplApprove a t owner n)"])
    (unfold me_approveTransferAuthorityIx_def, (rule ok_bnd)+, use assms in auto)

lemmas sign_rules = ok_approve ok_activeAuction ok_cctpMintRecipient ok_bnd

lemma placeInitialOffer_signers:
  "ok (signedWithin {io_payer accts, orElse (io_feePayer accts) (io_payer accts)})
     (me_placeInitialOfferCctpIx env p accts price deposit)"
  unfolding me_placeInitialOfferCctpIx_def Let_def case_prod_unfold
  by ((rule sign_rules)+, simp add: signedWithin_def idl_me_placeInitialOfferCctp_def me_find me_composites)

lemma improveOffer_signers:
  "ok (signedWithin {participant}) (me_improveOfferIx env p participant auction config token price deposit)"
  unfolding me_improveOfferIx_def Let_def case_prod_unfold
  by ((rule sign_rules)+, simp add: signedWithin_def idl_me_improveOffer_def me_find me_composites)

lemma prepareOrderResponse_signers:
  "ok (\<lambda>ix. signedWithin {payer} [ix])
     (me_prepareOrderResponseCctpIx env p payer fastVaa finalizedVaa feeToken args)"
  unfolding me_prepareOrderResponseCctpIx_def Let_def case_prod_unfold
  by ((rule sign_rules)+, simp add: signedWithin_def idl_me_prepareOrderResponseCctp_def me_find me_composites)

lemma settleComplete_signers:
  "ok (\<lambda>ix. signedWithin {} [ix])
     (me_settleAuctionCompleteIx env p response auction beneficiary feeToken token)"
  unfolding me_settleAuctionCompleteIx_def Let_def case_prod_unfold
  by ((rule sign_rules)+, simp add: signedWithin_def idl_me_settleAuctionComplete_def me_find me_composites)

lemma settleNoneLocal_signers:
  "ok (\<lambda>ix. signedWithin {payer} [ix]) (me_settleAuctionNoneLocalIx env p payer reserved response auction opts)"
  unfolding me_settleAuctionNoneLocalIx_def Let_def case_prod_unfold
  by ((rule sign_rules)+, simp add: signedWithin_def idl_me_settleAuctionNoneLocal_def me_find me_composites)

lemma settleNoneCctp_signers:
  "ok (\<lambda>ix. signedWithin {payer} [ix])
     (me_settleAuctionNoneCctpIx env p payer fastVaa response auction source target)"
  unfolding me_settleAuctionNoneCctpIx_def Let_def case_prod_unfold
  by ((rule sign_rules)+, simp add: signedWithin_def idl_me_settleAuctionNoneCctp_def me_find me_composites)

lemma executeCctp_signers:
  "ok (\<lambda>ix. signedWithin {payer} [ix])
     (me_executeFastOrderCctpIx env p payer fastVaa executorToken auction config token it ip target)"
  unfolding me_executeFastOrderCctpIx_def Let_def case_prod_unfold
  by ((rule sign_rules)+, simp add: signedWithin_def idl_me_executeFastOrderCctp_def me_find me_composites)

lemma executeLocal_signers:
  "ok (\<lambda>ix. signedWithin {xl_payer accts} [ix]) (me_executeFastOrderLocalIx env p accts opts)"
  unfolding me_executeFastOrderLocalIx_def Let_def case_prod_unfold
  by ((rule sign_rules)+, simp add: signedWithin_def idl_me_executeFastOrderLocal_def me_find me_composites)

lemma closeAuction_signers: "ok (\<lambda>ix. signedWithin {} [ix]) (me_closeAuctionIx env p auction beneficiary)"
  unfolding me_closeAuctionIx_def Let_def case_prod_unfold
  by ((rule sign_rules)+, simp add: signedWithin_def idl_me_closeAuction_def me_find me_composites)

lemma signedWithin_Cons: "signedWithin S [x] \<Longrightarrow> signedWithin S xs \<Longrightarrow> signedWithin S (x # xs)"
  by (simp add: signedWithin_def)

lemma signedWithin_mono: "signedWithin S xs \<Longrightarrow> S \<subseteq> T \<Longrightarrow> signedWithin T xs"
  by (auto simp: signedWithin_def)

text \<open>The transactions, each with the key that pays for it.\<close>

inductive meTx :: "env \<Rightarrow> meProgram \<Rightarrow> pubkey \<Rightarrow> pubkey list \<Rightarrow> preparedTransaction \<Rightarrow> bool" for env p where
  placeInitialOffer: "me_placeInitialOfferTx env p payer fastVaa fromEnd toEnd auction price deposit signers opts
    confirm = Inr tx \<Longrightarrow> meTx env p payer signers tx"
| improveOffer: "me_improveOfferTx env p payer auction config token price deposit signers opts confirm = Inr tx \<Longrightarrow>
    meTx env p payer signers tx"
| settleComplete: "me_settleAuctionCompleteTx env p payer fastVaa finalizedVaa token auction args signers opts
    confirm = Inr tx \<Longrightarrow> meTx env p payer signers tx"
| settleNone: "me_settleAuctionNoneTx env p payer fastVaa finalizedVaa auctionOpt args signers opts confirm = Inr tx \<Longrightarrow>
    meTx env p payer signers tx"
| execute: "me_executeFastOrderTx env p payer fastVaa auctionOpt executorToken reserved signers opts confirm = Inr tx \<Longrightarrow>
    meTx env p payer signers tx"
| closeAuction: "me_closeAuctionTx env p auction payer signers opts confirm = Inr tx \<Longrightarrow> meTx env p payer signers tx"

definition txSigned :: "pubkey \<Rightarrow> pubkey list \<Rightarrow> preparedTransaction \<Rightarrow> bool" where
  "txSigned payer signers tx \<longleftrightarrow> pt_signers tx = signers \<and> signedWithin (insert payer (set signers)) (pt_ixs tx)"

lemma txSigned_preparedTx [simp]:
  "txSigned payer signers (preparedTx ixs signers opts name confirm) \<longleftrightarrow>
   signedWithin (insert payer (set signers)) ixs"
  by (simp add: txSigned_def preparedTx_def)

lemma placeInitialOfferTx_signers:
  "ok (txSigned payer signers)
     (me_placeInitialOfferTx env p payer fastVaa fromEnd toEnd auction price deposit signers opts confirm)"
  unfolding me_placeInitialOfferTx_def
  by (rule ok_bnd_via [OF placeInitialOffer_signers]) (cases signers; auto elim!: signedWithin_mono)

lemma improveOfferTx_signers:
  "ok (txSigned payer signers) (me_improveOfferTx env p payer auction config token price deposit signers opts confirm)"
  unfolding me_improveOfferTx_def
  by (rule ok_bnd_via [OF improveOffer_signers]) (auto elim!: signedWithin_mono)

lemma settleCompleteTx_signers:
  "ok (txSigned payer signers)
     (me_settleAuctionCompleteTx env p payer fastVaa finalizedVaa token auction args signers opts confirm)"
  unfolding me_settleAuctionCompleteTx_def Let_def case_prod_unfold
  by (((rule ok_bnd_via [OF prepareOrderResponse_signers] ok_bnd_via [OF settleComplete_signers] | rule ok_bnd)+),
      auto intro!: signedWithin_Cons elim!: signedWithin_mono)

lemma settleNoneTx_signers:
  "ok (txSigned payer signers)
     (me_settleAuctionNoneTx env p payer fastVaa finalizedVaa auctionOpt args signers opts confirm)"
proof -
  have 1: "ok (\<lambda>ix. signedWithin {payer} [ix])
      (if c then me_settleAuctionNoneLocalIx env p payer reserved response auctionOpt os
       else bnd m (\<lambda>t. me_settleAuctionNoneCctpIx env p payer fastVaa response auction' source (target t)))"
    for c reserved response os m auction' source target
    using settleNoneLocal_signers by (cases c) (auto intro: ok_bnd settleNoneCctp_signers)
  show ?thesis
    unfolding me_settleAuctionNoneTx_def Let_def
    by (((rule ok_bnd_via [OF prepareOrderResponse_signers] ok_bnd_via [OF 1] | rule ok_bnd)+),
        auto intro!: signedWithin_Cons elim!: signedWithin_mono)
qed

lemma executeTx_signers:
  "ok (txSigned payer signers)
     (me_executeFastOrderTx env p payer fastVaa auctionOpt executorToken reserved signers opts confirm)"
proof -
  have 1: "ok (\<lambda>ix. signedWithin {payer} [ix])
      (if c then me_executeFastOrderLocalIx env p accts os
       else me_executeFastOrderCctpIx env p payer fastVaa executorToken a b d e g t)"
    if "xl_payer accts = payer" for c accts os a b d e g t
    using executeLocal_signers [of accts env p os] executeCctp_signers that by simp
  show ?thesis
    unfolding me_executeFastOrderTx_def case_prod_unfold
    by (rule ok_bnd, rule ok_bnd, rule ok_bnd_via [OF 1])
      (auto intro!: signedWithin_Cons elim!: signedWithin_mono)
qed

lemma closeAuctionTx_signers:
  "ok (txSigned payer signers) (me_closeAuctionTx env p auction payer signers opts confirm)"
  unfolding me_closeAuctionTx_def
  by (rule ok_bnd_via [OF closeAuction_signers]) (auto elim!: signedWithin_mono)

lemma meTx_signed: "meTx env p payer signers tx \<Longrightarrow> txSigned payer signers tx"
  by (cases rule: meTx.cases)
    (blast intro: placeInitialOfferTx_signers [THEN okD] improveOfferTx_signers [THEN okD]
      settleCompleteTx_signers [THEN okD] settleNoneTx_signers [THEN okD] executeTx_signers [THEN okD]
      closeAuctionTx_signers [THEN okD])+

text \<open>
  C2. Whoever pays is the only one who has to sign: for each of the six transactions, if the payer's key
  is among the signers that the caller passes, then the transaction carries exactly these signers and
  they cover every account that the interface description marks as a signer in any of its
  instructions, and the owner of every token approval.
\<close>

theorem transactions_fully_signed:
  assumes "meTx env p payer signers tx" "payer \<in> set signers" "ix \<in> set (pt_ixs tx)"
  shows "pt_signers tx = signers \<and> set (requiredSigners me_idl ix) \<subseteq> set (pt_signers tx)"
  using meTx_signed [OF assms(1)] assms(2,3) by (auto simp: txSigned_def signedWithin_def)

lemma demo_improve:
  "\<exists>delegate ix. me_improveOfferTx (demoChain env) p [7] [9] [1] [2] (UBigint 5) (UBigint 50) [[7]] opts confirm =
     Inr (preparedTx [SplApprove [7] delegate [7] 50, ix] [[7]] opts ''improveOffer'' confirm)"
  by (simp add: me_improveOfferTx_def me_improveOfferIx_def me_approveTransferAuthorityIx_def
      me_transferAuthorityAddress_def meTransferAuthority_seeds_def writeUint64BE_def writeBE_alloc uint64ToBN_def
      me_activeAuctionComposite_def preparedTx_def)

theorem transactions_fully_signed_witness:
  "\<forall>env p opts confirm. \<exists>tx ix.
     me_improveOfferTx (demoChain env) p [7] [9] [1] [2] (UBigint 5) (UBigint 50) [[7]] opts confirm = Inr tx \<and>
     ix \<in> set (pt_ixs tx) \<and> requiredSigners me_idl ix = [[7]] \<and> pt_signers tx = [[7]] \<and>
     set (requiredSigners me_idl ix) \<subseteq> set (pt_signers tx)"
proof (intro allI)
  fix env p opts confirm
  obtain delegate ix' where tx: "me_improveOfferTx (demoChain env) p [7] [9] [1] [2] (UBigint 5) (UBigint 50)
      [[7]] opts confirm = Inr (preparedTx [SplApprove [7] delegate [7] 50, ix'] [[7]] opts ''improveOffer'' confirm)"
    using demo_improve by blast
  let ?ix = "SplApprove [7] delegate [7] 50"
  have "pt_signers (preparedTx [?ix, ix'] [[7]] opts ''improveOffer'' confirm) = [[7]] \<and>
      set (requiredSigners me_idl ?ix) \<subseteq> set (pt_signers (preparedTx [?ix, ix'] [[7]] opts ''improveOffer'' confirm))"
    by (rule transactions_fully_signed [OF meTx.improveOffer [OF tx]]) (simp_all add: preparedTx_def)
  moreover have "?ix \<in> set (pt_ixs (preparedTx [?ix, ix'] [[7]] opts ''improveOffer'' confirm))"
    by (simp add: preparedTx_def)
  ultimately show "\<exists>tx ix.
     me_improveOfferTx (demoChain env) p [7] [9] [1] [2] (UBigint 5) (UBigint 50) [[7]] opts confirm = Inr tx \<and>
     ix \<in> set (pt_ixs tx) \<and> requiredSigners me_idl ix = [[7]] \<and> pt_signers tx = [[7]] \<and>
     set (requiredSigners me_idl ix) \<subseteq> set (pt_signers tx)"
    using tx requiredSigners.simps(2) by blast
qed

section \<open>Deposits\<close>

text \<open>
  What the instruction on chain moves into the custody of a new auction
  (\<open>place_initial_offer_cctp\<close> in \<open>processor/auction/offer/place_initial/cctp.rs\<close>): the amount plus a security
  deposit, which is the maximum fee plus the notional deposit; the last addition is checked. The
  deposit that an outbid or improving participant moves is \<open>AuctionInfo::total_deposit\<close>.
\<close>

definition place_initial_security_deposit :: "auctionParametersU \<Rightarrow> nat \<Rightarrow> nat \<Rightarrow> nat" where
  "place_initial_security_deposit params amount_in max_fee =
     satAdd64 max_fee (compute_notional_security_deposit params amount_in)"

definition place_initial_transfer :: "auctionParametersU \<Rightarrow> nat \<Rightarrow> nat \<Rightarrow> nat option" where
  "place_initial_transfer params amount_in max_fee =
     (let sum = amount_in + place_initial_security_deposit params amount_in max_fee
      in if sum < 2 ^ 64 then Some sum else None)"

definition total_deposit :: "nat \<Rightarrow> nat \<Rightarrow> nat" where
  "total_deposit amount_in security_deposit = satAdd64 amount_in security_deposit"

lemma place_initial_transfer_eq:
  assumes "require_valid_parameters params" "0 < amount" "amount < 2 ^ 64"
  shows "place_initial_transfer params amount fee =
    (let sum = amount + (fee + (pu_security_deposit_base params + bpsOf amount (pu_security_deposit_bps params)))
     in if sum < 2 ^ 64 then Some sum else None)"
proof -
  have "pu_security_deposit_bps params \<le> 1000000"
    using assms(1) by (simp add: require_valid_parameters_def)
  then have "compute_notional_security_deposit params amount =
      min (pu_security_deposit_base params + bpsOf amount (pu_security_deposit_bps params)) (2 ^ 64 - 1)"
    using assms(3) by (simp add: compute_notional_security_deposit_def satAdd64_def mul_bps_eq)
  with assms(2) show ?thesis
    by (auto simp: place_initial_transfer_def place_initial_security_deposit_def satAdd64_def Let_def min_def)
qed

lemma approve_Inr_iff:
  "me_approveTransferAuthorityIx env p auction owner price deposit = Inr r \<longleftrightarrow>
    (\<exists>delegate account amount. me_transferAuthorityAddress env p auction price = Inr delegate \<and>
      associatedTokenAddress env (me_mint p) owner False = Inr account \<and> uint64ToBigInt deposit = Inr amount \<and>
      r = (delegate, SplApprove account delegate owner amount))"
  by (auto simp: me_approveTransferAuthorityIx_def bnd_eq_Inr_iff)

lemma initialOfferLookup_deposit:
  assumes "me_initialOfferLookup env p accts totalDeposit = Inr l"
    and "vaaAccount_fetch env (io_fastVaa accts) = Inr v" "fastMarketOrderOf env v = Inr order"
    and "me_fetchCustodian env p None = Inr custodian"
    and "me_computeNotionalSecurityDeposit env p (UBigint (fm_amountIn order)) (Some (mc_auctionConfigId custodian))
      = Inr notional"
  shows "il_totalDeposit l = orElse totalDeposit (UBigint (fm_amountIn order + fm_maxFee order + notional))"
  using assms by (auto simp: me_initialOfferLookup_def bnd_eq_Inr_iff Let_def split: option.splits)

lemma placeInitialOffer_shape:
  assumes "me_placeInitialOfferCctpIx env p accts price d = Inr ixs"
  shows "\<exists>l offerToken delegate account amount args accs.
    orElseM (io_offerToken accts) (associatedTokenAddress env (me_mint p) (io_payer accts) False) = Inr offerToken \<and>
    me_initialOfferLookup env p accts d = Inr l \<and> uint64ToBigInt (il_totalDeposit l) = Inr amount \<and>
    me_transferAuthorityAddress env p (il_auction l) price = Inr delegate \<and>
    associatedTokenAddress env (me_mint p) (io_payer accts) False = Inr account \<and>
    ixs = [SplApprove account delegate (io_payer accts) amount,
           AnchorCall (me_ID env p) ''placeInitialOfferCctp'' args accs] \<and>
    map_of accs ''transferAuthority'' = Some (Key delegate) \<and> map_of accs ''offerToken'' = Some (Key offerToken)"
  using assms
  by (auto simp: me_placeInitialOfferCctpIx_def bnd_eq_Inr_iff Let_def approve_Inr_iff)

text \<open>
  C3. The approval of an initial offer: the approve instruction lets the transfer authority that the offer instruction
  names take from the payer's associated token account, which is the account that the offer
  instruction charges unless the caller names another one. When the caller gives no deposit, the approved amount is the
  sum of the order's amount, its maximum fee and the notional security deposit, which is exactly what
  the program on chain transfers if it fits 64 bits (otherwise the program rejects the offer); a
  deposit that the caller gives is approved as it is.
\<close>

theorem initial_offer_approval_exact:
  assumes "require_valid_parameters params" "params_fit params"
    and "me_fetchCustodian env p None = Inr custodian"
    and "me_fetchAuctionParameters env p (Some (mc_auctionConfigId custodian)) = Inr (decodedParameters params)"
    and "vaaAccount_fetch env (io_fastVaa accts) = Inr v" "fastMarketOrderOf env v = Inr order"
    and "fm_amountIn order = int amount" "fm_maxFee order = int fee" "0 < amount" "amount < 2 ^ 64"
    and "me_placeInitialOfferCctpIx env p accts price totalDeposit = Inr ixs"
  shows "\<exists>account delegate approved args accs n sum.
    associatedTokenAddress env (me_mint p) (io_payer accts) False = Inr account \<and>
    ixs = [SplApprove account delegate (io_payer accts) approved,
           AnchorCall (me_ID env p) ''placeInitialOfferCctp'' args accs] \<and>
    map_of accs ''transferAuthority'' = Some (Key delegate) \<and>
    map_of accs ''offerToken'' = Some (Key (orElse (io_offerToken accts) account)) \<and>
    me_computeNotionalSecurityDeposit env p (UBigint (int amount)) (Some (mc_auctionConfigId custodian)) = Inr (int n) \<and>
    sum = amount + fee + n \<and> place_initial_transfer params amount fee = (if sum < 2 ^ 64 then Some sum else None) \<and>
    (case totalDeposit of None \<Rightarrow> approved = int sum | Some d \<Rightarrow> uint64ToBigInt d = Inr approved)"
proof -
  define n where "n = pu_security_deposit_base params + bpsOf amount (pu_security_deposit_bps params)"
  obtain l offerToken delegate account total args accs where l: "me_initialOfferLookup env p accts totalDeposit = Inr l"
    and token: "orElseM (io_offerToken accts) (associatedTokenAddress env (me_mint p) (io_payer accts) False) = Inr offerToken"
    and total: "uint64ToBigInt (il_totalDeposit l) = Inr total"
    and account: "associatedTokenAddress env (me_mint p) (io_payer accts) False = Inr account"
    and ixs: "ixs = [SplApprove account delegate (io_payer accts) total,
           AnchorCall (me_ID env p) ''placeInitialOfferCctp'' args accs]"
    and accs: "map_of accs ''transferAuthority'' = Some (Key delegate)" "map_of accs ''offerToken'' = Some (Key offerToken)"
    using placeInitialOffer_shape [OF assms(11)] by blast
  have notional: "me_computeNotionalSecurityDeposit env p (UBigint (int amount)) (Some (mc_auctionConfigId custodian)) = Inr (int n)"
    using assms(2,4)
    by (simp add: me_computeNotionalSecurityDeposit_def decodedParameters_def bigDiv_bps bn_nat params_fit_def n_def
        del: uint64ToBigInt.simps(3))
  have deposit: "il_totalDeposit l = orElse totalDeposit (UBigint (int (amount + fee + n)))"
    using initialOfferLookup_deposit [OF l assms(5,6,3)] notional assms(7,8) by simp
  have approved: "case totalDeposit of None \<Rightarrow> total = int (amount + fee + n) | Some d \<Rightarrow> uint64ToBigInt d = Inr total"
    using total deposit by (cases totalDeposit) auto
  have transfer: "place_initial_transfer params amount fee =
      (if amount + fee + n < 2 ^ 64 then Some (amount + fee + n) else None)"
    using place_initial_transfer_eq [OF assms(1,9,10), of fee] by (simp add: n_def Let_def ac_simps)
  have "offerToken = orElse (io_offerToken accts) account"
    using token account by (cases "io_offerToken accts") simp_all
  then show ?thesis using ixs accs account notional transfer approved by blast
qed

lemma demo_custodian: "me_fetchCustodian (demoChain env) p None =
    Inr \<lparr>mc_owner = [], mc_pendingOwner = None, mc_paused = False, mc_pausedSetBy = None,
       mc_ownerAssistant = [], mc_feeRecipientToken = [], mc_auctionConfigId = 0, mc_nextProposalId = 0\<rparr>"
  by (simp add: me_fetchCustodian_def demoChain_def demoEnv_def)

lemma demo_parameters: "me_fetchAuctionParameters (demoChain env) p (Some 0) = Inr (decodedParameters demoParams)"
  by (simp add: me_fetchAuctionParameters_def me_auctionConfigAddress_def auctionConfig_address_def
      auctionConfig_seeds_def writeBE_alloc) (simp add: demoChain_def demoEnv_def)

definition demoOffer :: initialOfferAccounts where
  "demoOffer = \<lparr>io_payer = [7], io_feePayer = None, io_fastVaa = [8], io_offerToken = None, io_auction = Some [9],
     io_auctionConfig = Some [1], io_fromRouterEndpoint = Some [2], io_toRouterEndpoint = Some [3]\<rparr>"

lemma demo_offer: "\<exists>ixs. me_placeInitialOfferCctpIx (demoChain env) p demoOffer (UBigint 5) None = Inr ixs"
proof -
  have "me_computeNotionalSecurityDeposit (demoChain env) p (UBigint 1000) (Some 0) = Inr 4200005"
    by (simp add: me_computeNotionalSecurityDeposit_def demo_parameters decodedParameters_def demoParams_def
        uint64ToBigInt_BN bigDiv_def FEE_PRECISION_MAX_def sdiv_nonneg del: uint64ToBigInt.simps(3))
  then have "me_initialOfferLookup (demoChain env) p demoOffer None = Inr \<lparr>il_auction = [9],
      il_fromRouterEndpoint = [2], il_toRouterEndpoint = [3], il_totalDeposit = UBigint 4201045,
      il_fetchedConfigId = Some 0\<rparr>"
    by (simp add: me_initialOfferLookup_def demoOffer_def demo_account demo_order demo_custodian demoFast_def)
  then show ?thesis
    by (simp add: me_placeInitialOfferCctpIx_def demoOffer_def me_approveTransferAuthorityIx_def
        me_transferAuthorityAddress_def meTransferAuthority_seeds_def writeUint64BE_def writeBE_alloc uint64ToBN_def)
qed

theorem initial_offer_approval_exact_witness:
  "\<forall>env p. \<exists>account delegate args accs.
     me_placeInitialOfferCctpIx (demoChain env) p demoOffer (UBigint 5) None =
       Inr [SplApprove account delegate [7] 4201045,
            AnchorCall (me_ID (demoChain env) p) ''placeInitialOfferCctp'' args accs] \<and>
     place_initial_transfer demoParams 1000 40 = Some 4201045"
proof (intro allI)
  fix env p
  have run: "place_initial_transfer demoParams 1000 40 = Some 4201045"
    by (simp add: place_initial_transfer_def place_initial_security_deposit_def satAdd64_def
        compute_notional_security_deposit_def mul_bps_unsafe_def satMul128_def asU64_def demoParams_def)
  obtain ixs where ixs: "me_placeInitialOfferCctpIx (demoChain env) p demoOffer (UBigint 5) None = Inr ixs"
    using demo_offer by blast
  have "\<exists>account delegate approved args accs n sum.
      associatedTokenAddress (demoChain env) (me_mint p) (io_payer demoOffer) False = Inr account \<and>
      ixs = [SplApprove account delegate (io_payer demoOffer) approved,
             AnchorCall (me_ID (demoChain env) p) ''placeInitialOfferCctp'' args accs] \<and>
      map_of accs ''transferAuthority'' = Some (Key delegate) \<and>
      map_of accs ''offerToken'' = Some (Key (orElse (io_offerToken demoOffer) account)) \<and>
      me_computeNotionalSecurityDeposit (demoChain env) p (UBigint (int 1000)) (Some 0) = Inr (int n) \<and>
      sum = 1000 + 40 + n \<and> place_initial_transfer demoParams 1000 40 = (if sum < 2 ^ 64 then Some sum else None) \<and>
      (case None of None \<Rightarrow> approved = int sum | Some d \<Rightarrow> uint64ToBigInt d = Inr approved)"
    using initial_offer_approval_exact [OF demo_valid demo_custodian _ demo_account demo_order _ _ _ _ ixs, where amount = 1000 and fee = 40]
    by (simp add: demo_parameters demoFast_def)
  then obtain account delegate approved args accs sum where
    r: "ixs = [SplApprove account delegate (io_payer demoOffer) approved,
             AnchorCall (me_ID (demoChain env) p) ''placeInitialOfferCctp'' args accs]"
    and "place_initial_transfer demoParams 1000 40 = (if sum < 2 ^ 64 then Some sum else None)" "approved = int sum"
    unfolding option.case by blast
  then have "approved = 4201045" using run by (auto split: if_splits)
  with run ixs r show "\<exists>account delegate args accs.
     me_placeInitialOfferCctpIx (demoChain env) p demoOffer (UBigint 5) None =
       Inr [SplApprove account delegate [7] 4201045,
            AnchorCall (me_ID (demoChain env) p) ''placeInitialOfferCctp'' args accs] \<and>
     place_initial_transfer demoParams 1000 40 = Some 4201045"
    by (auto simp: demoOffer_def)
qed

section \<open>Accounts of the caller that are not used\<close>

text \<open>
  Some accounts that the caller passes have no effect: without a reserved sequence the
  transaction that executes an order derives the auction from the VAA even if the caller gave one,
  without an auction it derives the reserved sequence even if the caller gave one, and the
  instruction that reserves a sequence without an auction never looks at the auction it is given.
\<close>

theorem caller_auction_ignored:
  "me_executeFastOrderTx env p payer fastVaa (Some auction) executorToken None signers opts confirm =
     me_executeFastOrderTx env p payer fastVaa None executorToken None signers opts confirm \<and>
   me_executeFastOrderTx env p payer fastVaa None executorToken (Some reserved) signers opts confirm =
     me_executeFastOrderTx env p payer fastVaa None executorToken None signers opts confirm \<and>
   me_reserveFastFillSequenceNoAuctionIx env p payer fastVaa fromEndpoint toEndpoint sequencer reservedOpt
     (Some auction) response ropts =
     me_reserveFastFillSequenceNoAuctionIx env p payer fastVaa fromEndpoint toEndpoint sequencer reservedOpt
       None response ropts"
  by (simp add: me_executeFastOrderTx_def me_reserveFastFillSequenceNoAuctionIx_def)

end
