(* ===== verification/Networks.thy ===== *)
theory Networks
  imports Upgrade_Manager
begin

text \<open>
  The three program classes look each other up by program id. On testnet and on localnet the lookups
  close: each program finds the others, and finds itself through them. On mainnet they do not.
\<close>

section \<open>A network\<close>

text \<open>
  All lookups between the three programs succeed and agree, and the two that post messages use the same
  core bridge.
\<close>

definition network_closed :: "env \<Rightarrow> string \<Rightarrow> string \<Rightarrow> string \<Rightarrow> bool" where
  "network_closed env me tr um \<longleftrightarrow> (\<forall>mint.
     me_upgradeManagerProgram \<lparr>me_programId = me, me_mint = mint\<rparr> = Inr um \<and>
     tr_upgradeManagerProgram \<lparr>tr_programId = tr, tr_mint = mint\<rparr> = Inr um \<and>
     tr_matchingEngineProgram \<lparr>tr_programId = tr, tr_mint = mint\<rparr> = Inr \<lparr>me_programId = me, me_mint = mint\<rparr> \<and>
     um_matchingEngineProgram env um = Inr \<lparr>me_programId = me, me_mint = defaultPublicKey env\<rparr> \<and>
     um_tokenRouterProgram env um = Inr \<lparr>tr_programId = tr, tr_mint = defaultPublicKey env\<rparr> \<and>
     (\<exists>bridge. me_coreBridgeProgramId env \<lparr>me_programId = me, me_mint = mint\<rparr> = Inr bridge \<and>
       tr_coreBridgeProgramId env \<lparr>tr_programId = tr, tr_mint = mint\<rparr> = Inr bridge))"

lemmas network_ids = me_mainnet_def me_testnet_def me_localnet_def tr_mainnet_def tr_testnet_def tr_localnet_def
  um_mainnet_def um_testnet_def um_localnet_def

lemmas network_lookups = me_upgradeManagerProgram_def tr_upgradeManagerProgram_def tr_matchingEngineProgram_def
  um_matchingEngineProgram_def um_tokenRouterProgram_def me_coreBridgeProgramId_def tr_coreBridgeProgramId_def

text \<open>
  The programs of a network find each other on testnet and on localnet, the CCTP programs that the
  Matching Engine and the Token Router use are the same, and on mainnet the Token Router and the
  Matching Engine agree on the core bridge and the Token Router finds the Matching Engine.
\<close>

theorem networks_closed:
  "network_closed env me_testnet tr_testnet um_testnet \<and>
   network_closed env me_localnet tr_localnet um_localnet \<and>
   me_tokenMessengerMinterProgram = tr_tokenMessengerMinterProgram \<and>
   me_messageTransmitterProgram = tr_messageTransmitterProgram \<and>
   tr_matchingEngineProgram \<lparr>tr_programId = tr_mainnet, tr_mint = mint\<rparr> =
     Inr \<lparr>me_programId = me_mainnet, me_mint = mint\<rparr> \<and>
   tr_coreBridgeProgramId env \<lparr>tr_programId = tr_mainnet, tr_mint = mint\<rparr> =
     me_coreBridgeProgramId env \<lparr>me_programId = me_mainnet, me_mint = mint\<rparr> \<and>
   me_upgradeManagerProgram \<lparr>me_programId = me_mainnet, me_mint = mint\<rparr> = Inr um_mainnet"
  by (simp add: network_closed_def network_lookups network_ids me_tokenMessengerMinterProgram_def
      tr_tokenMessengerMinterProgram_def me_messageTransmitterProgram_def tr_messageTransmitterProgram_def
      newTokenMessengerMinterProgram_def newMessageTransmitterProgram_def TOKEN_MESSENGER_MINTER_PROGRAM_IDS_def
      MESSAGE_TRANSMITTER_PROGRAM_IDS_def)

end
