(* ===== verification/Vaa_Spy.thy ===== *)
theory Vaa_Spy
  imports Chain_Env
begin

text \<open>
  \<open>VaaSpy\<close> (\<open>solana/ts/src/wormhole/spy.ts\<close>): the stream of signed VAAs, filtered by emitter, with duplicates
  dropped while their hash is remembered, and the timer that forgets old hashes. The stream's events
  and the timer's are steps; the time of a step is an argument, in milliseconds. Base64, the native
  address parser and the list of chains are parameters.
\<close>

section \<open>The class\<close>

record vaaFilter =
  vf_chain :: string
  vf_nativeAddress :: string

record vaaContext =
  vx_raw :: "byte list"
  vx_parsed :: vaa
  vx_chain :: "string option"
  vx_nativeAddress :: "string option"

record spyOpts =
  so_spyHost :: "string option"
  so_enableCleanup :: "bool option"
  so_vaaFilters :: "vaaFilter list option"
  so_seenThresholdMs :: "int option"
  so_intervalMs :: "int option"
  so_maxToRemove :: "int option"

text \<open>The arguments of the timer: threshold, interval, number of hashes to remove.\<close>

record cleanupTimer =
  ct_seenThresholdMs :: int
  ct_intervalMs :: int
  ct_maxToRemove :: int

text \<open>
  \<open>_seenHashes\<close> is a \<open>Map\<close>, in insertion order; it is \<open>undefined\<close> (\<open>None\<close>) until the clean-up is started.
\<close>

record vaaSpy =
  sy_spyHost :: string
  sy_enableCleanup :: bool
  sy_vaaFilters :: "vaaFilter list option"
  sy_seenHashes :: "(string \<times> int) list option"
  sy_timer :: "cleanupTimer option"

definition startCleanupProcedure :: "spyOpts \<Rightarrow> vaaSpy \<Rightarrow> vaaSpy" where
  "startCleanupProcedure args s =
     (let seenThresholdMs = orElse (so_seenThresholdMs args) 2000;
          intervalMs = orElse (so_intervalMs args) seenThresholdMs;
          maxToRemove = orElse (so_maxToRemove args) 69420
      in s\<lparr>sy_seenHashes := Some [],
           sy_timer := Some \<lparr>ct_seenThresholdMs = seenThresholdMs, ct_intervalMs = intervalMs,
             ct_maxToRemove = maxToRemove\<rparr>\<rparr>)"

definition newVaaSpy :: "spyOpts \<Rightarrow> vaaSpy" where
  "newVaaSpy opts =
     (let s = \<lparr>sy_spyHost = orElse (so_spyHost opts) ''localhost:7073'',
               sy_enableCleanup = orElse (so_enableCleanup opts) True,
               sy_vaaFilters = None, sy_seenHashes = None, sy_timer = None\<rparr>;
          s = (if so_enableCleanup opts = Some True then startCleanupProcedure opts s else s)
      in s\<lparr>sy_vaaFilters := so_vaaFilters opts\<rparr>)"

text \<open>\<open>Some\<close> context when the callback is called with it.\<close>

definition processUniqueVaa :: "(byte list \<Rightarrow> string) \<Rightarrow> int \<Rightarrow> vaaContext \<Rightarrow> vaaSpy \<Rightarrow>
    (vaaSpy \<times> vaaContext option) result" where
  "processUniqueVaa b64 now ctx s =
     (if sy_enableCleanup s then
        let hash = b64 (va_hash (vx_parsed ctx)) in
        case sy_seenHashes s of
          None \<Rightarrow> Inl TypeError
        | Some seen \<Rightarrow>
            if map_of seen hash \<noteq> None then Inr (s, None)
            else Inr (s\<lparr>sy_seenHashes := Some (seen @ [(hash, now)])\<rparr>, Some ctx)
      else Inr (s, Some ctx))"

text \<open>The first filter whose chain and address match.\<close>

fun firstMatch :: "(string \<Rightarrow> string result) \<Rightarrow> (string \<Rightarrow> string \<Rightarrow> byte list result) \<Rightarrow> vaa \<Rightarrow>
    vaaFilter list \<Rightarrow> vaaFilter option result" where
  "firstMatch toChain toUniversal v [] = Inr None"
| "firstMatch toChain toUniversal v (f # fs) =
     bnd (toChain (vf_chain f)) (\<lambda>c.
     if va_emitterChain v = c then
       bnd (toUniversal (vf_chain f) (vf_nativeAddress f)) (\<lambda>a.
       if va_emitterAddress v = a then Inr (Some f) else firstMatch toChain toUniversal v fs)
     else firstMatch toChain toUniversal v fs)"

definition onVaaData :: "env \<Rightarrow> (string \<Rightarrow> string result) \<Rightarrow> (string \<Rightarrow> string \<Rightarrow> byte list result) \<Rightarrow>
    (byte list \<Rightarrow> string) \<Rightarrow> int \<Rightarrow> byte list \<Rightarrow> vaaSpy \<Rightarrow> (vaaSpy \<times> vaaContext option) result" where
  "onVaaData env toChain toUniversal b64 now raw s =
     bnd (deserializeVaa env raw) (\<lambda>parsed.
     let ctx = \<lparr>vx_raw = raw, vx_parsed = parsed, vx_chain = None, vx_nativeAddress = None\<rparr> in
     case sy_vaaFilters s of
       None \<Rightarrow> processUniqueVaa b64 now ctx s
     | Some filters \<Rightarrow>
         bnd (firstMatch toChain toUniversal parsed filters) (\<lambda>m.
         case m of
           None \<Rightarrow> Inr (s, None)
         | Some f \<Rightarrow> processUniqueVaa b64 now
             (ctx\<lparr>vx_chain := Some (vf_chain f), vx_nativeAddress := Some (vf_nativeAddress f)\<rparr>) s))"

text \<open>The loop of the timer: old hashes are deleted, oldest insertion first, up to the limit.\<close>

fun removeOld :: "int \<Rightarrow> int \<Rightarrow> int \<Rightarrow> int \<Rightarrow> (string \<times> int) list \<Rightarrow> (string \<times> int) list" where
  "removeOld now threshold maxToRemove numRemoved [] = []"
| "removeOld now threshold maxToRemove numRemoved ((hash, seenTime) # rest) =
     (if numRemoved \<ge> maxToRemove then (hash, seenTime) # rest
      else if now - seenTime > threshold then removeOld now threshold maxToRemove (numRemoved + 1) rest
      else (hash, seenTime) # removeOld now threshold maxToRemove numRemoved rest)"

definition onTimer :: "int \<Rightarrow> vaaSpy \<Rightarrow> vaaSpy" where
  "onTimer now s =
     (case (sy_timer s, sy_seenHashes s) of
        (Some t, Some seen) \<Rightarrow>
          s\<lparr>sy_seenHashes := Some (removeOld now (ct_seenThresholdMs t) (ct_maxToRemove t) 0 seen)\<rparr>
      | _ \<Rightarrow> s)"

section \<open>Runs\<close>

text \<open>
  A run from a spy that was constructed with \<open>enableCleanup\<close> set: observations and timer events at times
  that never decrease. \<open>delivered\<close> lists the key and the time of every call of the callback.
\<close>

inductive spyRun :: "(byte list \<Rightarrow> string) \<Rightarrow> spyOpts \<Rightarrow> vaaSpy \<Rightarrow> int \<Rightarrow> (string \<times> int) list \<Rightarrow> bool"
  for b64 opts where
  start: "so_enableCleanup opts = Some True \<Longrightarrow> spyRun b64 opts (newVaaSpy opts) t []"
| dropped: "spyRun b64 opts s t ds \<Longrightarrow> t \<le> now \<Longrightarrow> processUniqueVaa b64 now ctx s = Inr (s', None) \<Longrightarrow>
    spyRun b64 opts s' now ds"
| delivered: "spyRun b64 opts s t ds \<Longrightarrow> t \<le> now \<Longrightarrow> processUniqueVaa b64 now ctx s = Inr (s', Some ctx') \<Longrightarrow>
    spyRun b64 opts s' now (ds @ [(b64 (va_hash (vx_parsed ctx)), now)])"
| timer: "spyRun b64 opts s t ds \<Longrightarrow> t \<le> now \<Longrightarrow> spyRun b64 opts (onTimer now s) now ds"

definition spyThreshold :: "spyOpts \<Rightarrow> int" where
  "spyThreshold opts = orElse (so_seenThresholdMs opts) 2000"

text \<open>
  The remembered hashes are deliveries, in the order of their times, and a delivery that is no longer
  remembered is older than the threshold.
\<close>

definition spyInv :: "spyOpts \<Rightarrow> vaaSpy \<Rightarrow> int \<Rightarrow> (string \<times> int) list \<Rightarrow> bool" where
  "spyInv opts s t ds \<longleftrightarrow> (\<exists>seen timer. sy_enableCleanup s \<and> sy_seenHashes s = Some seen \<and> sy_timer s = Some timer \<and>
     ct_seenThresholdMs timer = spyThreshold opts \<and> set seen \<subseteq> set ds \<and> sorted (map snd seen) \<and>
     (\<forall>d\<in>set ds. snd d \<le> t) \<and> (\<forall>d\<in>set ds. d \<in> set seen \<or> t - snd d > spyThreshold opts) \<and>
     sorted_wrt (\<lambda>d d'. fst d = fst d' \<longrightarrow> snd d' - snd d > spyThreshold opts) ds)"

lemma removeOld_set: "d \<in> set seen \<Longrightarrow>
    d \<in> set (removeOld now threshold mx n seen) \<or> now - snd d > threshold"
  by (induction now threshold mx n seen rule: removeOld.induct) auto

lemma removeOld_subset: "set (removeOld now threshold mx n seen) \<subseteq> set seen"
  by (induction now threshold mx n seen rule: removeOld.induct) auto

lemma removeOld_sorted: "sorted (map snd seen) \<Longrightarrow> sorted (map snd (removeOld now threshold mx n seen))"
proof (induction now threshold mx n seen rule: removeOld.induct)
  case (2 now threshold mx n hash seenTime rest)
  then show ?case
    using removeOld_subset [of now threshold mx n rest] by (auto dest!: subsetD)
qed simp

lemma spyInv_start: "so_enableCleanup opts = Some True \<Longrightarrow> spyInv opts (newVaaSpy opts) t []"
  by (simp add: spyInv_def newVaaSpy_def startCleanupProcedure_def Let_def spyThreshold_def)

lemma spyInv_later: "spyInv opts s t ds \<Longrightarrow> t \<le> now \<Longrightarrow> spyInv opts s now ds"
  unfolding spyInv_def by fastforce

lemma spyInv_deliver:
  assumes inv: "spyInv opts s t ds"
    and p: "processUniqueVaa b64 t ctx s = Inr (s', Some ctx')"
  shows "spyInv opts s' t (ds @ [(b64 (va_hash (vx_parsed ctx)), t)])"
proof -
  define h where "h = b64 (va_hash (vx_parsed ctx))"
  from inv obtain seen timer where s: "sy_enableCleanup s" "sy_seenHashes s = Some seen" "sy_timer s = Some timer"
    and timer: "ct_seenThresholdMs timer = spyThreshold opts"
    and seen: "set seen \<subseteq> set ds" "sorted (map snd seen)" "\<forall>d\<in>set ds. snd d \<le> t"
    and old: "\<forall>d\<in>set ds. d \<in> set seen \<or> t - snd d > spyThreshold opts"
    and gaps: "sorted_wrt (\<lambda>d d'. fst d = fst d' \<longrightarrow> snd d' - snd d > spyThreshold opts) ds"
    unfolding spyInv_def by blast
  from p s have new: "h \<notin> fst ` set seen" and s': "s' = s\<lparr>sy_seenHashes := Some (seen @ [(h, t)])\<rparr>"
    by (auto simp: processUniqueVaa_def Let_def h_def map_of_eq_None_iff split: if_splits)
  have "\<forall>d\<in>set ds. fst d = h \<longrightarrow> t - snd d > spyThreshold opts"
    using old new by (metis imageI)
  with gaps have "sorted_wrt (\<lambda>d d'. fst d = fst d' \<longrightarrow> snd d' - snd d > spyThreshold opts) (ds @ [(h, t)])"
    by (simp add: sorted_wrt_append)
  moreover have "sorted (map snd (seen @ [(h, t)]))"
    using seen by (auto simp: sorted_append)
  ultimately show ?thesis
    using s s' timer seen old by (auto simp: spyInv_def h_def)
qed

lemma spyInv_dropped: "spyInv opts s t ds \<Longrightarrow> processUniqueVaa b64 t ctx s = Inr (s', None) \<Longrightarrow> s' = s"
  by (auto simp: spyInv_def processUniqueVaa_def Let_def split: if_splits)

lemma spyInv_timer:
  assumes "spyInv opts s t ds"
  shows "spyInv opts (onTimer t s) t ds"
proof -
  from assms obtain seen timer where s: "sy_enableCleanup s" "sy_seenHashes s = Some seen" "sy_timer s = Some timer"
    and timer: "ct_seenThresholdMs timer = spyThreshold opts"
    and seen: "set seen \<subseteq> set ds" "sorted (map snd seen)" "\<forall>d\<in>set ds. snd d \<le> t"
    and old: "\<forall>d\<in>set ds. d \<in> set seen \<or> t - snd d > spyThreshold opts"
    and gaps: "sorted_wrt (\<lambda>d d'. fst d = fst d' \<longrightarrow> snd d' - snd d > spyThreshold opts) ds"
    unfolding spyInv_def by blast
  let ?r = "removeOld t (spyThreshold opts) (ct_maxToRemove timer) 0 seen"
  have "set ?r \<subseteq> set ds" "\<forall>d\<in>set ds. d \<in> set ?r \<or> t - snd d > spyThreshold opts"
    using removeOld_subset removeOld_set old seen(1) by blast+
  moreover have "onTimer t s = s\<lparr>sy_seenHashes := Some ?r\<rparr>"
    by (simp add: onTimer_def s timer)
  ultimately show ?thesis
    using s timer seen gaps removeOld_sorted [OF seen(2)] by (auto simp: spyInv_def)
qed

lemma spyRun_inv: "spyRun b64 opts s t ds \<Longrightarrow> spyInv opts s t ds"
proof (induction rule: spyRun.induct)
  case (start t)
  then show ?case by (rule spyInv_start)
next
  case (dropped s t ds now ctx s')
  then show ?case using spyInv_dropped spyInv_later by metis
next
  case (delivered s t ds now ctx s' ctx')
  then show ?case using spyInv_deliver spyInv_later by metis
next
  case (timer s t ds now)
  then show ?case using spyInv_timer spyInv_later by metis
qed

section \<open>Properties\<close>

lemma removeOld_sorted_drop:
  assumes "sorted (map snd seen)" "0 \<le> n"
  shows "removeOld now threshold mx n seen =
    drop (min (nat (mx - n)) (length (takeWhile (\<lambda>d. now - snd d > threshold) seen))) seen"
  using assms
proof (induction now threshold mx n seen rule: removeOld.induct)
  case (2 now threshold mx n hash seenTime rest)
  show ?case
  proof (cases "n < mx \<and> now - seenTime > threshold")
    case True
    then have "nat (mx - n) = Suc (nat (mx - (n + 1)))" by arith
    with True 2 show ?thesis by simp
  next
    case False
    have "removeOld now threshold mx n rest = rest" if "\<not> now - seenTime > threshold"
    proof -
      have "\<forall>d\<in>set rest. \<not> now - snd d > threshold"
        using 2(3) that by auto
      then show ?thesis by (induction rest) auto
    qed
    with False show ?thesis by auto
  qed
qed simp

lemma dropWhile_sorted_filter:
  assumes "sorted (map snd seen)"
  shows "dropWhile (\<lambda>d. now - snd d > threshold) seen = filter (\<lambda>d. now - snd d \<le> (threshold :: int)) seen"
  using assms
proof (induction seen)
  case (Cons d rest)
  show ?case
  proof (cases "now - snd d > threshold")
    case True
    with Cons show ?thesis by simp
  next
    case False
    with Cons.prems have "\<forall>x\<in>set (d # rest). now - snd x \<le> threshold" by auto
    then have "filter (\<lambda>d. now - snd d \<le> threshold) (d # rest) = d # rest" by (rule filter_True)
    with False show ?thesis by simp
  qed
qed simp

text \<open>
  C8. No VAA is delivered twice within the threshold, and none is lost: in every run of a spy with
  clean-up, two deliveries of the same hash are more than the threshold apart, in the order of their
  times, and an observation whose hash was never delivered is delivered.
\<close>

theorem spy_delivers_once:
  assumes "spyRun b64 opts s t ds"
  shows "sorted_wrt (\<lambda>d d'. fst d = fst d' \<longrightarrow> snd d' - snd d > spyThreshold opts) ds \<and>
    (\<forall>ctx now. b64 (va_hash (vx_parsed ctx)) \<notin> fst ` set ds \<longrightarrow>
      (\<exists>s'. processUniqueVaa b64 now ctx s = Inr (s', Some ctx)))"
proof -
  from spyRun_inv [OF assms] obtain seen where s: "sy_enableCleanup s" "sy_seenHashes s = Some seen"
    and seen: "set seen \<subseteq> set ds"
    and gaps: "sorted_wrt (\<lambda>d d'. fst d = fst d' \<longrightarrow> snd d' - snd d > spyThreshold opts) ds"
    unfolding spyInv_def by blast
  have "map_of seen h = None" if "h \<notin> fst ` set ds" for h
    using that seen by (auto simp: map_of_eq_None_iff)
  with s gaps show ?thesis by (auto simp: processUniqueVaa_def Let_def)
qed

definition demoSpyOpts :: spyOpts where
  "demoSpyOpts = \<lparr>so_spyHost = None, so_enableCleanup = Some True, so_vaaFilters = None, so_seenThresholdMs = None,
     so_intervalMs = None, so_maxToRemove = None\<rparr>"

definition demoContext :: vaaContext where
  "demoContext = \<lparr>vx_raw = [], vx_parsed = \<lparr>va_emitterChain = ''Solana'', va_emitterAddress = [], va_sequence = 1,
     va_timestamp = 1, va_consistencyLevel = 1, va_payload = [], va_hash = [7]\<rparr>, vx_chain = None,
     vx_nativeAddress = None\<rparr>"

definition demoSpy :: vaaSpy where
  "demoSpy = (newVaaSpy demoSpyOpts)\<lparr>sy_seenHashes := Some [(''a'', 0)]\<rparr>"

lemma demo_spyRun: "spyRun (\<lambda>b. if b = [7] then ''a'' else ''b'') demoSpyOpts demoSpy 1000 [(''a'', 0)]"
proof -
  let ?b64 = "\<lambda>b. if b = [7] then ''a'' else ''b''"
  have b: "spyRun ?b64 demoSpyOpts (newVaaSpy demoSpyOpts) 0 []"
    by (rule spyRun.start) (simp add: demoSpyOpts_def)
  have p: "processUniqueVaa ?b64 0 demoContext (newVaaSpy demoSpyOpts) = Inr (demoSpy, Some demoContext)"
    by (simp add: processUniqueVaa_def newVaaSpy_def startCleanupProcedure_def demoSpyOpts_def demoContext_def
        demoSpy_def)
  have d: "spyRun ?b64 demoSpyOpts demoSpy 0 [(''a'', 0)]"
    using spyRun.delivered [OF b _ p] by (simp add: demoContext_def)
  have q: "processUniqueVaa ?b64 1000 demoContext demoSpy = Inr (demoSpy, None)"
    by (simp add: processUniqueVaa_def newVaaSpy_def startCleanupProcedure_def demoSpyOpts_def demoContext_def
        demoSpy_def)
  show ?thesis by (rule spyRun.dropped [OF d _ q]) simp
qed

theorem spy_delivers_once_witness:
  "\<exists>s'. processUniqueVaa (\<lambda>b. if b = [7] then ''a'' else ''b'') 1500 (demoContext\<lparr>vx_parsed :=
       (vx_parsed demoContext)\<lparr>va_hash := [8]\<rparr>\<rparr>) demoSpy =
   Inr (s', Some (demoContext\<lparr>vx_parsed := (vx_parsed demoContext)\<lparr>va_hash := [8]\<rparr>\<rparr>))"
  using spy_delivers_once [OF demo_spyRun] by simp

text \<open>
  The timer removes the oldest expired hashes and nothing else: in every run, one timer event
  drops a prefix of the remembered hashes, as long as the run of expired hashes at their front but at
  most \<open>maxToRemove\<close>; with the limit at least the number of remembered hashes, what remains is exactly
  what is not expired.
\<close>

theorem spy_timer_removes_oldest:
  assumes "spyRun b64 opts s t ds" "sy_timer s = Some timer" "sy_seenHashes s = Some seen" "t \<le> now"
  shows "\<exists>n. sy_seenHashes (onTimer now s) = Some (drop n seen) \<and> n \<le> nat (ct_maxToRemove timer) \<and>
    (\<forall>d\<in>set (take n seen). now - snd d > spyThreshold opts) \<and>
    (int (length seen) \<le> ct_maxToRemove timer \<longrightarrow>
      drop n seen = filter (\<lambda>d. now - snd d \<le> spyThreshold opts) seen)"
proof -
  from spyRun_inv [OF assms(1)] assms(2,3)
  have timer: "ct_seenThresholdMs timer = spyThreshold opts" and sorted: "sorted (map snd seen)"
    by (auto simp: spyInv_def)
  define e where "e = takeWhile (\<lambda>d. now - snd d > spyThreshold opts) seen"
  define n where "n = min (nat (ct_maxToRemove timer)) (length e)"
  have seen: "seen = e @ dropWhile (\<lambda>d. now - snd d > spyThreshold opts) seen"
    by (simp add: e_def)
  have "sy_seenHashes (onTimer now s) = Some (drop n seen)"
    using assms(2,3) removeOld_sorted_drop [OF sorted, of 0] by (simp add: onTimer_def timer n_def e_def)
  moreover have "\<forall>d\<in>set (take n seen). now - snd d > spyThreshold opts"
  proof -
    have "take n seen = take n e" by (subst seen) (simp add: n_def)
    then show ?thesis using set_take_subset set_takeWhileD by (metis e_def subsetD)
  qed
  moreover have "drop n seen = filter (\<lambda>d. now - snd d \<le> spyThreshold opts) seen"
    if "int (length seen) \<le> ct_maxToRemove timer"
  proof -
    have "length e \<le> length seen" by (simp add: e_def length_takeWhile_le)
    with that have "n = length e" by (simp add: n_def)
    then have "drop n seen = dropWhile (\<lambda>d. now - snd d > spyThreshold opts) seen"
      by (metis e_def dropWhile_eq_drop)
    also have "\<dots> = filter (\<lambda>d. now - snd d \<le> spyThreshold opts) seen"
      by (rule dropWhile_sorted_filter [OF sorted])
    finally show ?thesis .
  qed
  ultimately show ?thesis by (intro exI [of _ n]) (simp add: n_def)
qed

theorem spy_timer_removes_oldest_witness:
  "sy_seenHashes (onTimer 2000 demoSpy) = Some [(''a'', 0)] \<and> sy_seenHashes (onTimer 2001 demoSpy) = Some []"
proof -
  have d: "sy_seenHashes demoSpy = Some [(''a'', 0)]" "sy_timer demoSpy = Some \<lparr>ct_seenThresholdMs = 2000,
      ct_intervalMs = 2000, ct_maxToRemove = 69420\<rparr>"
    by (simp_all add: demoSpy_def newVaaSpy_def startCleanupProcedure_def demoSpyOpts_def)
  have th: "spyThreshold demoSpyOpts = 2000" by (simp add: spyThreshold_def demoSpyOpts_def)
  from spy_timer_removes_oldest [OF demo_spyRun d(2,1), of 2000] spy_timer_removes_oldest [OF demo_spyRun d(2,1), of 2001]
  show ?thesis by (auto simp: th)
qed

text \<open>
  A spy constructed without \<open>enableCleanup\<close> delivers nothing: the option defaults to true, but the
  map of seen hashes is only created when the option is given, so every observation that passes the
  filter throws.
\<close>

theorem spy_default_delivers_nothing:
  "processUniqueVaa b64 now ctx (newVaaSpy (opts\<lparr>so_enableCleanup := None\<rparr>)) = Inl TypeError \<and>
   onVaaData env toChain toUniversal b64 now raw (newVaaSpy (opts\<lparr>so_enableCleanup := None, so_vaaFilters := None\<rparr>)) =
     bnd (deserializeVaa env raw) (\<lambda>_. Inl TypeError)"
  by (simp add: processUniqueVaa_def onVaaData_def newVaaSpy_def Let_def)

end
