(* ===== verification/Solver_Pricing.thy ===== *)
theory Solver_Pricing
  imports Liquidity_Messages
begin

text \<open>
  When the solver makes an offer: \<open>isFeeHighEnough\<close> (\<open>solver/src/utils/placeInitialOffer.ts\<close>) for an initial
  one and \<open>shouldImproveOffer\<close> (\<open>solver/src/improveOffer/app.ts\<close>) for a better one. Probability and edge are
  JavaScript numbers, so their product with the precision is rounded to a double before it becomes a
  \<open>bigint\<close>, which throws if it is not an integer.
\<close>

section \<open>Doubles\<close>

text \<open>
  A finite double is \<open>m * 2 ^ e\<close>. Products are rounded to 53 significant bits, ties to even. The exponent
  is not bounded: products of the numbers used here are far from overflow and underflow.
\<close>

datatype double = Dbl (mantissa: int) (exponent: int)

fun bitLen :: "nat \<Rightarrow> nat" where
  "bitLen n = (if n = 0 then 0 else Suc (bitLen (n div 2)))"

declare bitLen.simps [simp del]

definition roundEven :: "nat \<Rightarrow> nat \<Rightarrow> nat" where
  "roundEven m k =
     (let q = m div 2 ^ k; r = m mod 2 ^ k
      in if 2 * r > 2 ^ k \<or> (2 * r = 2 ^ k \<and> odd q) then q + 1 else q)"

definition roundDouble :: "int \<Rightarrow> int \<Rightarrow> double" where
  "roundDouble m e =
     (let k = bitLen (nat \<bar>m\<bar>) - 53
      in Dbl (sgn m * int (roundEven (nat \<bar>m\<bar>) k)) (e + int k))"

definition mulDouble :: "double \<Rightarrow> double \<Rightarrow> double" where
  "mulDouble x y = roundDouble (mantissa x * mantissa y) (exponent x + exponent y)"

definition doubleOfInt :: "int \<Rightarrow> double" where
  "doubleOfInt n = Dbl n 0"

definition doubleLe :: "double \<Rightarrow> double \<Rightarrow> bool" where
  "doubleLe x y \<longleftrightarrow> (let d = min (exponent x) (exponent y)
     in mantissa x * 2 ^ nat (exponent x - d) \<le> mantissa y * 2 ^ nat (exponent y - d))"

text \<open>\<open>BigInt(x)\<close> for a number.\<close>

definition bigIntOfDouble :: "double \<Rightarrow> int result" where
  "bigIntOfDouble x =
     (if 0 \<le> exponent x then Inr (mantissa x * 2 ^ nat (exponent x))
      else if mantissa x mod 2 ^ nat (- exponent x) = 0 then Inr (mantissa x div 2 ^ nat (- exponent x))
      else Inl RangeError)"

section \<open>The rules\<close>

record pricingParameters =
  pp_chain :: string
  pp_probability :: double
  pp_edgePctOfFv :: double

text \<open>\<open>bigint\<close> division truncates; the precision is not zero.\<close>

definition isFeeHighEnough :: "fastMarketOrder \<Rightarrow> pricingParameters \<Rightarrow> (bool \<times> int) result" where
  "isFeeHighEnough fastOrder pricing =
     (let precision = 10000 in
      bnd (bigIntOfDouble (mulDouble (pp_probability pricing) (doubleOfInt precision))) (\<lambda>probability.
      let fairValue = (fm_amountIn fastOrder * probability) sdiv precision in
      bnd (bigIntOfDouble (mulDouble (pp_edgePctOfFv pricing) (doubleOfInt precision))) (\<lambda>edge.
      let fairValueWithEdge = fairValue + (fairValue * edge) sdiv precision in
      if fairValueWithEdge > fm_maxFee fastOrder then Inr (False, fairValueWithEdge)
      else Inr (True, fairValueWithEdge))))"

definition shouldImproveOffer :: "uint64 \<Rightarrow> uint64 \<Rightarrow> pricingParameters \<Rightarrow> bool result" where
  "shouldImproveOffer amountIn maxOfferPriceAllowed pricingParameters =
     (let PRECISION = 10000 in
      bnd (uint64ToBigInt amountIn) (\<lambda>amount.
      bnd (bigIntOfDouble (mulDouble (pp_probability pricingParameters) (doubleOfInt PRECISION))) (\<lambda>probability.
      let fairValue = (amount * probability) sdiv PRECISION in
      bnd (bigIntOfDouble (mulDouble (pp_edgePctOfFv pricingParameters) (doubleOfInt PRECISION))) (\<lambda>edge.
      let fairValueWithEdge = fairValue + (fairValue * edge) sdiv PRECISION in
      bnd (uint64ToBigInt maxOfferPriceAllowed) (\<lambda>price.
      Inr (fairValueWithEdge \<le> price))))))"

section \<open>What rounding keeps\<close>

lemma roundEven_le:
  assumes "m \<le> n * 2 ^ k"
  shows "roundEven m k \<le> n"
proof (cases "m = n * 2 ^ k")
  case True
  then show ?thesis by (simp add: roundEven_def Let_def)
next
  case False
  with assms have "m < n * 2 ^ k" by simp
  then have "m div 2 ^ k < n" by (simp add: less_mult_imp_div_less)
  then show ?thesis by (simp add: roundEven_def Let_def)
qed

lemma bitLen_0 [simp]: "bitLen 0 = 0"
  by (subst bitLen.simps) simp

lemma bitLen_pos: "0 < n \<Longrightarrow> bitLen n = Suc (bitLen (n div 2))"
  by (subst bitLen.simps) simp

lemma bitLen_bound: "0 < n \<Longrightarrow> 2 ^ bitLen n \<le> 2 * n"
proof (induction n rule: bitLen.induct)
  case (1 n)
  show ?case
  proof (cases "n div 2 = 0")
    case True
    then have "bitLen n = Suc 0" using bitLen_pos [OF 1(2)] by simp
    with 1(2) show ?thesis by simp
  next
    case False
    with 1 have "2 ^ bitLen (n div 2) \<le> 2 * (n div 2)" by simp
    also have "\<dots> \<le> n" by simp
    finally show ?thesis unfolding bitLen_pos [OF 1(2)] by simp
  qed
qed

text \<open>A product that is at most a small number is still so after rounding.\<close>

lemma bigIntOfDouble_round_bounds:
  assumes "0 \<le> m" and le: "doubleLe (Dbl m e) (Dbl n 0)" and n: "0 \<le> n" "n < 2 ^ 52"
    and r: "bigIntOfDouble (roundDouble m e) = Inr v"
  shows "0 \<le> v \<and> v \<le> n"
proof -
  define k where "k = bitLen (nat m) - 53"
  define q where "q = int (roundEven (nat m) k)"
  have sgn: "sgn m * int (roundEven (nat m) k) = q"
    using assms(1) by (cases "m = 0") (simp_all add: q_def roundEven_def Let_def)
  then have v: "bigIntOfDouble (Dbl q (e + int k)) = Inr v"
    using r assms(1) by (simp add: roundDouble_def Let_def k_def)
  have q0: "0 \<le> q" by (simp add: q_def)
  show ?thesis
  proof (cases "0 \<le> e + int k")
    case True
    have "k = 0"
    proof (rule ccontr)
      assume "k \<noteq> 0"
      then have len: "bitLen (nat m) = k + 53" by (simp add: k_def)
      then have "0 < nat m" by (cases "nat m") simp_all
      from bitLen_bound [OF this] len have "2 * 2 ^ (k + 52) \<le> 2 * nat m"
        by (simp add: power_add)
      then have "2 ^ (k + 52) \<le> nat m" by simp
      then have m: "(2 :: int) ^ (k + 52) \<le> m" using assms(1) by (simp add: le_nat_iff)
      show False
      proof (cases "0 \<le> e")
        case True
        have "m * 1 \<le> m * 2 ^ nat e" using assms(1) by (intro mult_left_mono) simp_all
        moreover have "m * 2 ^ nat e \<le> n" using le True by (simp add: doubleLe_def Let_def min_def split: if_splits)
        moreover have "(2 :: int) ^ 52 \<le> 2 ^ (k + 52)" by (intro power_increasing) simp_all
        ultimately show ?thesis using m n by linarith
      next
        case False
        then have "m \<le> n * 2 ^ nat (- e)" using le by (simp add: doubleLe_def Let_def)
        also have "\<dots> \<le> n * 2 ^ k"
          using True n by (intro mult_left_mono power_increasing) auto
        also have "\<dots> < 2 ^ 52 * 2 ^ k" using n by (intro mult_strict_right_mono) simp_all
        finally show ?thesis using m by (simp add: power_add mult.commute)
      qed
    qed
    with True have e: "0 \<le> e" "q = m"
      using assms(1) by (simp_all add: q_def roundEven_def Let_def)
    with v \<open>k = 0\<close> have "v = m * 2 ^ nat e" by (simp add: bigIntOfDouble_def)
    moreover have "m * 2 ^ nat e \<le> n" using le e by (simp add: doubleLe_def Let_def min_def split: if_splits)
    ultimately show ?thesis using assms(1) by simp
  next
    case False
    define j where "j = nat (- (e + int k))"
    have e: "e < 0" "nat (- e) = k + j" using False by (auto simp: j_def)
    have "m \<le> n * 2 ^ (k + j)" using le e by (simp add: doubleLe_def Let_def)
    then have "nat m \<le> nat n * 2 ^ j * 2 ^ k"
      using n by (simp add: nat_le_iff power_add mult_ac)
    then have "roundEven (nat m) k \<le> nat n * 2 ^ j" by (rule roundEven_le)
    then have "int (roundEven (nat m) k) \<le> int (nat n * 2 ^ j)" by (simp only: of_nat_le_iff)
    then have q: "q \<le> n * 2 ^ j" using n by (simp add: q_def)
    have "v = q div 2 ^ j" using v False by (simp add: bigIntOfDouble_def j_def split: if_splits)
    moreover have "q div 2 ^ j \<le> n * 2 ^ j div 2 ^ j" using q by (intro zdiv_mono1) simp_all
    ultimately show ?thesis using q0 by (simp add: pos_imp_zdiv_nonneg_iff)
  qed
qed

lemma bigIntOfDouble_nonneg:
  assumes "bigIntOfDouble (Dbl q x) = Inr v" "0 \<le> q"
  shows "0 \<le> v"
  using assms by (auto simp: bigIntOfDouble_def pos_imp_zdiv_nonneg_iff split: if_splits)

lemma bigIntOfDouble_round_nonneg:
  assumes "0 \<le> m" "bigIntOfDouble (roundDouble m e) = Inr v"
  shows "0 \<le> v"
  using assms(2) unfolding roundDouble_def Let_def
  by (rule bigIntOfDouble_nonneg) (use assms(1) in \<open>simp add: sgn_if\<close>)

section \<open>Properties\<close>

text \<open>What the configuration accepts: a probability in (0, 1] and an edge that is not negative.\<close>

definition pricingValid :: "pricingParameters \<Rightarrow> bool" where
  "pricingValid pricing \<longleftrightarrow> 0 < mantissa (pp_probability pricing) \<and> doubleLe (pp_probability pricing) (Dbl 1 0) \<and>
     0 \<le> mantissa (pp_edgePctOfFv pricing)"

lemma pricing_factors:
  assumes "pricingValid pricing"
  shows "bigIntOfDouble (mulDouble (pp_probability pricing) (doubleOfInt 10000)) = Inr p \<Longrightarrow> 0 \<le> p \<and> p \<le> 10000"
    and "bigIntOfDouble (mulDouble (pp_edgePctOfFv pricing) (doubleOfInt 10000)) = Inr e \<Longrightarrow> 0 \<le> e"
proof -
  obtain m x where p: "pp_probability pricing = Dbl m x" by (cases "pp_probability pricing")
  have "doubleLe (Dbl (m * 10000) x) (Dbl 10000 0)" "0 \<le> m"
    using assms by (auto simp: pricingValid_def p doubleLe_def Let_def min_def split: if_splits)
  then show "bigIntOfDouble (mulDouble (pp_probability pricing) (doubleOfInt 10000)) = Inr p \<Longrightarrow> 0 \<le> p \<and> p \<le> 10000"
    using bigIntOfDouble_round_bounds [of "m * 10000" x 10000 p]
    by (simp add: mulDouble_def doubleOfInt_def p)
  show "bigIntOfDouble (mulDouble (pp_edgePctOfFv pricing) (doubleOfInt 10000)) = Inr e \<Longrightarrow> 0 \<le> e"
    using bigIntOfDouble_round_nonneg [of "mantissa (pp_edgePctOfFv pricing) * 10000"
      "exponent (pp_edgePctOfFv pricing)" e] assms
    by (simp add: mulDouble_def doubleOfInt_def pricingValid_def)
qed

lemma bitLen_eq: "2 ^ k \<le> n \<Longrightarrow> n < 2 ^ Suc k \<Longrightarrow> bitLen n = Suc k"
proof (induction k arbitrary: n)
  case 0
  then have "n = 1" by simp
  then show ?case by (simp add: bitLen_pos)
next
  case (Suc k)
  have "0 < n" using Suc.prems(1) by (metis gr0I le_zero_eq power_not_zero zero_neq_numeral)
  moreover have "bitLen (n div 2) = Suc k"
    using Suc.prems by (intro Suc.IH) simp_all
  ultimately show ?case by (simp add: bitLen_pos)
qed

text \<open>
  A configured probability of 0.69 stops the solver: it is accepted, but its double times 10000 is
  rounded to a number that is not an integer, so both rules throw on every order.
\<close>

theorem valid_probability_throws:
  "pricingValid \<lparr>pp_chain = chain, pp_probability = Dbl 1553741871442821 (- 51), pp_edgePctOfFv = Dbl 0 0\<rparr> \<and>
   2 * \<bar>100 * 1553741871442821 - 69 * 2 ^ 51\<bar> \<le> (100 :: int) \<and>
   isFeeHighEnough order \<lparr>pp_chain = chain, pp_probability = Dbl 1553741871442821 (- 51), pp_edgePctOfFv = Dbl 0 0\<rparr> =
     Inl RangeError \<and>
   shouldImproveOffer (UBigint amount) price
     \<lparr>pp_chain = chain, pp_probability = Dbl 1553741871442821 (- 51), pp_edgePctOfFv = Dbl 0 0\<rparr> = Inl RangeError"
proof -
  have b: "bitLen 15537418714428210000 = 64"
    using bitLen_eq [of 63 15537418714428210000] by simp
  have "bigIntOfDouble (mulDouble (Dbl 1553741871442821 (- 51)) (doubleOfInt 10000)) = Inl RangeError"
    by (simp add: mulDouble_def doubleOfInt_def roundDouble_def b roundEven_def bigIntOfDouble_def)
  then show ?thesis
    by (simp add: pricingValid_def doubleLe_def isFeeHighEnough_def shouldImproveOffer_def)
qed

end
