(* ===== verification/Solver_Rules.thy ===== *)
theory Solver_Rules
  imports Complex_Main Solver_Pricing
begin

text \<open>
  What the solver's two rules for offers decide, over the real numbers: the error of a product of doubles, the
  truncating divisions of the fair value and of the edge, and the price from which both rules offer.
\<close>

section \<open>Rounding errors\<close>

text \<open>The number that a double stands for, and the relative error of a rounded product.\<close>

definition doubleValue :: "double \<Rightarrow> real" where
  "doubleValue d = of_int (mantissa d) * 2 powi exponent d"

lemma roundEven_error: "\<bar>real (roundEven m k) * 2 ^ k - real m\<bar> \<le> 2 ^ k / 2"
proof -
  define q r where "q = m div 2 ^ k" and "r = m mod 2 ^ k"
  have "m = q * 2 ^ k + r" by (simp only: q_def r_def div_mult_mod_eq)
  then have m: "real m = real q * 2 ^ k + real r" by simp
  have r: "r < 2 ^ k" by (simp add: r_def)
  show ?thesis
  proof (cases "2 * r > 2 ^ k \<or> (2 * r = 2 ^ k \<and> odd q)")
    case True
    then have "2 ^ k \<le> 2 * r" by auto
    then have "(2 :: real) ^ k \<le> 2 * real r" by (metis of_nat_le_iff of_nat_mult of_nat_numeral of_nat_power)
    moreover have "real r < 2 ^ k" using r by (metis of_nat_less_iff of_nat_numeral of_nat_power)
    moreover have "real (roundEven m k) = real q + 1" using True by (simp add: roundEven_def Let_def q_def r_def)
    ultimately have "real (roundEven m k) * 2 ^ k - real m = 2 ^ k - real r" "0 \<le> 2 ^ k - real r" "2 ^ k - real r \<le> 2 ^ k / 2"
      unfolding m by (simp_all add: distrib_right)
    then show ?thesis by linarith
  next
    case False
    then have "2 * r \<le> 2 ^ k" by auto
    then have "2 * real r \<le> 2 ^ k" by (metis of_nat_le_iff of_nat_mult of_nat_numeral of_nat_power)
    moreover have "real (roundEven m k) = real q" using False by (auto simp: roundEven_def Let_def q_def r_def)
    ultimately show ?thesis unfolding m by simp
  qed
qed

lemma roundDouble_error:
  assumes "0 \<le> m"
  shows "\<bar>doubleValue (roundDouble m e) - of_int m * 2 powi e\<bar> \<le> of_int m * 2 powi e / 2 ^ 53"
proof -
  define k where "k = bitLen (nat m) - 53"
  let ?n = "nat m" and ?e = "(2 :: real) powi e"
  have v: "doubleValue (roundDouble m e) = real (roundEven ?n k) * 2 ^ k * ?e"
  proof (cases "m = 0")
    case True
    then show ?thesis by (simp add: doubleValue_def roundDouble_def Let_def roundEven_def k_def)
  next
    case False
    then have "sgn m = 1" using assms by simp
    then show ?thesis
      using assms by (simp add: doubleValue_def roundDouble_def Let_def k_def power_int_add)
  qed
  have m: "of_int m = real ?n" using assms by simp
  have e: "0 \<le> ?e" by simp
  have "\<bar>real (roundEven ?n k) * 2 ^ k - real ?n\<bar> \<le> real ?n / 2 ^ 53"
  proof (cases "k = 0")
    case True
    then show ?thesis by (simp add: roundEven_def Let_def)
  next
    case False
    then have len: "bitLen ?n = k + 53" by (simp add: k_def)
    then have "0 < ?n" by (cases ?n) simp_all
    from bitLen_bound [OF this] len have "2 ^ (k + 53) \<le> 2 * ?n" by simp
    then have "(2 :: real) ^ (k + 53) \<le> 2 * real ?n" by (metis of_nat_le_iff of_nat_mult of_nat_numeral of_nat_power)
    then have "(2 :: real) ^ k / 2 \<le> real ?n / 2 ^ 53" by (simp add: power_add field_simps)
    with roundEven_error [of ?n k] show ?thesis by linarith
  qed
  then have "\<bar>real (roundEven ?n k) * 2 ^ k - real ?n\<bar> * ?e \<le> real ?n / 2 ^ 53 * ?e"
    using e by (rule mult_right_mono)
  moreover have "real (roundEven ?n k) * 2 ^ k * ?e - real ?n * ?e = (real (roundEven ?n k) * 2 ^ k - real ?n) * ?e"
    by (simp only: left_diff_distrib)
  ultimately show ?thesis by (simp only: v m abs_mult abs_of_nonneg [OF e]) (simp add: mult.commute)
qed

lemma bigIntOfDouble_value: "bigIntOfDouble x = Inr v \<Longrightarrow> real_of_int v = doubleValue x"
proof -
  assume b: "bigIntOfDouble x = Inr v"
  show "real_of_int v = doubleValue x"
  proof (cases "0 \<le> exponent x")
    case True
    with b show ?thesis by (auto simp: bigIntOfDouble_def doubleValue_def power_int_def)
  next
    case False
    define k where "k = nat (- exponent x)"
    have "mantissa x mod 2 ^ k = 0" "v = mantissa x div 2 ^ k"
      using b False by (auto simp: bigIntOfDouble_def k_def split: if_splits)
    then have "mantissa x = v * 2 ^ k" using div_mult_mod_eq [of "mantissa x" "2 ^ k"] by simp
    then have "real_of_int (mantissa x) = real_of_int v * 2 ^ k" by simp
    moreover have "(2 :: real) powi exponent x = inverse (2 ^ k)"
      using False by (simp add: power_int_def k_def power_one_over inverse_eq_divide)
    ultimately show ?thesis by (simp add: doubleValue_def)
  qed
qed

text \<open>The bigint of a factor times the precision.\<close>

lemma scaled_value:
  assumes "bigIntOfDouble (mulDouble d (doubleOfInt 10000)) = Inr v" "0 \<le> mantissa d"
  shows "\<bar>real_of_int v / 10000 - doubleValue d\<bar> \<le> doubleValue d / 2 ^ 53"
proof -
  have "real_of_int v = doubleValue (roundDouble (mantissa d * 10000) (exponent d))"
    using bigIntOfDouble_value [OF assms(1)] by (simp add: mulDouble_def doubleOfInt_def)
  moreover have "0 \<le> mantissa d * 10000" using assms(2) by simp
  ultimately have "\<bar>real_of_int v - doubleValue d * 10000\<bar> \<le> doubleValue d * 10000 / 2 ^ 53"
    using roundDouble_error [of "mantissa d * 10000" "exponent d"] by (simp add: doubleValue_def mult_ac)
  then show ?thesis by (simp add: abs_le_iff field_simps)
qed

text \<open>The two truncating divisions.\<close>

lemma fair_value_bounds:
  fixes a p e :: int and P E u :: real
  assumes "0 \<le> a" "0 \<le> p" "0 \<le> e"
    and p: "\<bar>real_of_int p / 10000 - P\<bar> \<le> P * u" and e: "\<bar>real_of_int e / 10000 - E\<bar> \<le> E * u"
    and "0 \<le> P" "0 \<le> E" "0 \<le> u" "u \<le> 1"
    and fair: "fair = (a * p) sdiv 10000" and fv: "fv = fair + (fair * e) sdiv 10000"
  shows "(a * P * (1 - u) - 1) * (1 + E * (1 - u)) - 1 < real_of_int fv"
    and "real_of_int fv \<le> a * P * (1 + u) * (1 + E * (1 + u))"
proof -
  have fair': "fair = a * p div 10000" using assms by (simp add: sdiv_nonneg)
  have f0: "0 \<le> fair" unfolding fair' using assms(1,2) by (simp add: pos_imp_zdiv_nonneg_iff)
  have prem: "fv = fair + fair * e div 10000" using assms f0 by (simp add: sdiv_nonneg fv)
  have quot: "real_of_int x / 10000 - 1 < real_of_int (x div 10000)" "real_of_int (x div 10000) \<le> real_of_int x / 10000" for x :: int
    by (simp_all add: floor_divide_of_int_eq [symmetric, of x 10000] flip: floor_less_iff) linarith
  have pl: "P * (1 - u) \<le> real_of_int p / 10000" and pu: "real_of_int p / 10000 \<le> P * (1 + u)"
    using p by (simp_all add: abs_le_iff algebra_simps)
  have el: "E * (1 - u) \<le> real_of_int e / 10000" and eu: "real_of_int e / 10000 \<le> E * (1 + u)"
    using e by (simp_all add: abs_le_iff algebra_simps)
  have "real_of_int a * (P * (1 - u)) \<le> real_of_int a * (real_of_int p / 10000)"
    using pl assms(1) by (intro mult_left_mono) simp_all
  then have "a * P * (1 - u) \<le> real_of_int (a * p) / 10000" by (simp only: mult.assoc of_int_mult times_divide_eq_right)
  then have fl: "a * P * (1 - u) - 1 < real_of_int fair" using quot(1) [of "a * p"] unfolding fair' by linarith
  have "real_of_int a * (real_of_int p / 10000) \<le> real_of_int a * (P * (1 + u))"
    using pu assms(1) by (intro mult_left_mono) simp_all
  then have "real_of_int (a * p) / 10000 \<le> a * P * (1 + u)" by (simp only: mult.assoc of_int_mult times_divide_eq_right)
  then have fu: "real_of_int fair \<le> a * P * (1 + u)" using quot(2) [of "a * p"] unfolding fair' by linarith
  have "real_of_int fair * (E * (1 - u)) \<le> real_of_int fair * (real_of_int e / 10000)"
    using el f0 by (intro mult_left_mono) simp_all
  then have "real_of_int fair * (E * (1 - u)) \<le> real_of_int (fair * e) / 10000" by (simp only: of_int_mult times_divide_eq_right)
  then have "real_of_int fair * (1 + E * (1 - u)) - 1 < real_of_int fv"
    using quot(1) [of "fair * e"] unfolding prem of_int_add distrib_left mult_1_right by linarith
  moreover have "(a * P * (1 - u) - 1) * (1 + E * (1 - u)) \<le> real_of_int fair * (1 + E * (1 - u))"
    using fl assms by (intro mult_right_mono) simp_all
  ultimately show "(a * P * (1 - u) - 1) * (1 + E * (1 - u)) - 1 < real_of_int fv" by linarith
  have "real_of_int fair * (real_of_int e / 10000) \<le> real_of_int fair * (E * (1 + u))"
    using eu f0 by (intro mult_left_mono) simp_all
  then have "real_of_int (fair * e) / 10000 \<le> real_of_int fair * (E * (1 + u))" by (simp only: of_int_mult times_divide_eq_right)
  then have "real_of_int fv \<le> real_of_int fair * (1 + E * (1 + u))"
    using quot(2) [of "fair * e"] unfolding prem of_int_add distrib_left mult_1_right by linarith
  also have "\<dots> \<le> a * P * (1 + u) * (1 + E * (1 + u))"
    using fu assms by (intro mult_right_mono) simp_all
  finally show "real_of_int fv \<le> a * P * (1 + u) * (1 + E * (1 + u))" .
qed

text \<open>
  C10. The two rules for offers, which the solver has in two copies, decide alike; and with a configuration that was
  accepted each decides, when it does not throw, to offer exactly if the price reaches a value that is
  the amount times the configured probability, plus that times the configured edge, up to the two truncations to whole
  units and the rounding of two products of doubles (a relative error of \<open>2 ^ -53\<close> each).
\<close>

theorem offer_rules_sound:
  fixes A P E u :: real
  assumes "pricingValid pricing" "0 \<le> fm_amountIn order"
    and "A = of_int (fm_amountIn order)" "P = doubleValue (pp_probability pricing)"
    and "E = doubleValue (pp_edgePctOfFv pricing)" "u = 1 / 2 ^ 53"
  shows "shouldImproveOffer (UBigint (fm_amountIn order)) (UBigint (fm_maxFee order)) pricing =
      bnd (isFeeHighEnough order pricing) (\<lambda>r. Inr (fst r)) \<and>
    ok (\<lambda>(offer, fv). (offer \<longleftrightarrow> fv \<le> fm_maxFee order) \<and>
      (A * P * (1 - u) - 1) * (1 + E * (1 - u)) - 1 < of_int fv \<and>
      of_int fv \<le> A * P * (1 + u) * (1 + E * (1 + u))) (isFeeHighEnough order pricing)"
proof -
  have bounds: "(A * P * (1 - u) - 1) * (1 + E * (1 - u)) - 1 < of_int fv \<and>
      of_int fv \<le> A * P * (1 + u) * (1 + E * (1 + u))"
    if p: "bigIntOfDouble (mulDouble (pp_probability pricing) (doubleOfInt 10000)) = Inr p"
      and e: "bigIntOfDouble (mulDouble (pp_edgePctOfFv pricing) (doubleOfInt 10000)) = Inr e"
      and fv: "fv = (fm_amountIn order * p) sdiv 10000 + ((fm_amountIn order * p) sdiv 10000 * e) sdiv 10000"
    for p e fv
  proof -
    have pos: "0 \<le> mantissa (pp_probability pricing)" "0 \<le> mantissa (pp_edgePctOfFv pricing)"
      using assms(1) by (auto simp: pricingValid_def)
    have "0 \<le> p" "0 \<le> e" using pricing_factors [OF assms(1)] p e by auto
    moreover have "\<bar>real_of_int p / 10000 - P\<bar> \<le> P * u" "\<bar>real_of_int e / 10000 - E\<bar> \<le> E * u"
      using scaled_value [OF p pos(1)] scaled_value [OF e pos(2)] by (simp_all add: assms(4-6))
    moreover have "0 \<le> P" "0 \<le> E" "0 \<le> u" "u \<le> 1"
      using pos by (simp_all add: assms(4-6) doubleValue_def)
    ultimately show ?thesis
      using fair_value_bounds [OF assms(2) _ _ _ _ _ _ _ _ refl fv] unfolding assms(3) by blast
  qed
  show ?thesis
  proof (cases "bigIntOfDouble (mulDouble (pp_probability pricing) (doubleOfInt 10000))")
    case Inl
    then show ?thesis by (simp add: shouldImproveOffer_def isFeeHighEnough_def)
  next
    case p: (Inr p)
    show ?thesis
    proof (cases "bigIntOfDouble (mulDouble (pp_edgePctOfFv pricing) (doubleOfInt 10000))")
      case Inl
      with p show ?thesis by (simp add: shouldImproveOffer_def isFeeHighEnough_def)
    next
      case e: (Inr e)
      from bounds [OF p e refl] p e show ?thesis
        by (simp add: shouldImproveOffer_def isFeeHighEnough_def Let_def)
    qed
  qed
qed

definition demoPricing :: pricingParameters where
  "demoPricing = \<lparr>pp_chain = ''Ethereum'', pp_probability = Dbl 4278419646001971 (- 52),
     pp_edgePctOfFv = Dbl 3602879701896397 (- 56)\<rparr>"

lemma demo_factors:
  "bigIntOfDouble (mulDouble (pp_probability demoPricing) (doubleOfInt 10000)) = Inr 9500"
  "bigIntOfDouble (mulDouble (pp_edgePctOfFv demoPricing) (doubleOfInt 10000)) = Inr 500"
proof -
  have b: "bitLen 42784196460019710000 = 66" "bitLen 36028797018963970000 = 65"
    using bitLen_eq [of 65 42784196460019710000] bitLen_eq [of 64 36028797018963970000] by simp_all
  show "bigIntOfDouble (mulDouble (pp_probability demoPricing) (doubleOfInt 10000)) = Inr 9500"
    "bigIntOfDouble (mulDouble (pp_edgePctOfFv demoPricing) (doubleOfInt 10000)) = Inr 500"
    by (simp_all add: demoPricing_def mulDouble_def doubleOfInt_def roundDouble_def b roundEven_def bigIntOfDouble_def)
qed

text \<open>The two doubles are those of 0.95 and 0.05.\<close>

theorem offer_rules_sound_witness:
  "isFeeHighEnough (\<lparr>fm_amountIn = 1000000, fm_minAmountOut = 0, fm_targetChain = ''Ethereum'', fm_redeemer = [],
      fm_sender = [], fm_refundAddress = [], fm_maxFee = 997500, fm_initAuctionFee = 0, fm_deadline = 0,
      fm_redeemerMessage = []\<rparr>) demoPricing = Inr (True, 997500) \<and>
   shouldImproveOffer (UBigint 1000000) (UBigint 997500) demoPricing = Inr True"
proof -
  let ?o = "\<lparr>fm_amountIn = 1000000, fm_minAmountOut = 0, fm_targetChain = ''Ethereum'', fm_redeemer = [],
      fm_sender = [], fm_refundAddress = [], fm_maxFee = 997500, fm_initAuctionFee = 0, fm_deadline = 0,
      fm_redeemerMessage = []\<rparr>"
  have "isFeeHighEnough ?o demoPricing = Inr (True, 997500)"
    by (simp add: isFeeHighEnough_def demo_factors sdiv_nonneg)
  moreover have "pricingValid demoPricing"
    by (simp add: pricingValid_def demoPricing_def doubleLe_def)
  then have "shouldImproveOffer (UBigint (fm_amountIn ?o)) (UBigint (fm_maxFee ?o)) demoPricing =
      bnd (isFeeHighEnough ?o demoPricing) (\<lambda>r. Inr (fst r))"
    using offer_rules_sound [of demoPricing ?o, OF _ _ refl refl refl refl] by simp
  ultimately show ?thesis by simp
qed

end
