(* ===== verification/Solver_Config.thy ===== *)
theory Solver_Config
  imports Solver_Pricing Vaa_Spy
begin

text \<open>
  The solver's configuration (\<open>solver/src/utils/config.ts\<close>): the checks of \<open>validateEnvironmentConfig\<close> on the
  value that \<open>JSON.parse\<close> returned, in their order, and the class \<open>AppConfig\<close> with its accessors. A
  property that is \<open>undefined\<close> is \<open>None\<close>. What the code never checks keeps its type, JSON.
\<close>

section \<open>JSON values\<close>

text \<open>Numbers are finite doubles; the keys of an object are distinct.\<close>

datatype json =
    JNull
  | JBool bool
  | JNum double
  | JStr string
  | JArr "json list"
  | JObj "(string \<times> json) list"

definition natString :: "nat \<Rightarrow> string" where
  "natString n = map (\<lambda>d. char_of (48 + d)) (decDigits n)"

definition indexKeys :: "'a list \<Rightarrow> string list" where
  "indexKeys xs = map natString [0..<length xs]"

text \<open>\<open>v[k]\<close> and \<open>Object.keys(v)\<close>, which throw on \<open>undefined\<close> and \<open>null\<close>.\<close>

fun jget :: "json option \<Rightarrow> string \<Rightarrow> json option result" where
  "jget None k = Inl TypeError"
| "jget (Some JNull) k = Inl TypeError"
| "jget (Some (JBool b)) k = Inr None"
| "jget (Some (JNum d)) k = Inr None"
| "jget (Some (JStr s)) k =
     Inr (if k = ''length'' then Some (JNum (doubleOfInt (int (length s))))
          else map_of (zip (indexKeys s) (map (\<lambda>c. JStr [c]) s)) k)"
| "jget (Some (JArr xs)) k =
     Inr (if k = ''length'' then Some (JNum (doubleOfInt (int (length xs)))) else map_of (zip (indexKeys xs) xs) k)"
| "jget (Some (JObj members)) k = Inr (map_of members k)"

text \<open>
  JavaScript lists the keys of an object that are array indices (canonical decimals below \<open>2 ^ 32 - 1\<close>) in
  ascending order first, then the others in the order in which they were added.
\<close>

definition isDigit :: "char \<Rightarrow> bool" where
  "isDigit c \<longleftrightarrow> 48 \<le> (of_char c :: nat) \<and> (of_char c :: nat) \<le> 57"

definition decValue :: "string \<Rightarrow> nat" where
  "decValue s = foldl (\<lambda>n c. 10 * n + (of_char c - 48)) 0 s"

definition arrayIndex :: "string \<Rightarrow> nat option" where
  "arrayIndex s =
     (if s \<noteq> [] \<and> list_all isDigit s \<and> (hd s = CHR ''0'' \<longrightarrow> tl s = []) \<and> decValue s < 2 ^ 32 - 1
      then Some (decValue s) else None)"

definition objectOrder :: "string list \<Rightarrow> string list" where
  "objectOrder keys =
     sort_key (\<lambda>k. the (arrayIndex k)) (filter (\<lambda>k. arrayIndex k \<noteq> None) keys) @
     filter (\<lambda>k. arrayIndex k = None) keys"

fun objectKeys :: "json option \<Rightarrow> string list result" where
  "objectKeys None = Inl TypeError"
| "objectKeys (Some JNull) = Inl TypeError"
| "objectKeys (Some (JBool b)) = Inr []"
| "objectKeys (Some (JNum d)) = Inr []"
| "objectKeys (Some (JStr s)) = Inr (indexKeys s)"
| "objectKeys (Some (JArr xs)) = Inr (indexKeys xs)"
| "objectKeys (Some (JObj members)) = Inr (objectOrder (map fst members))"

primrec forEach :: "('a \<Rightarrow> unit result) \<Rightarrow> 'a list \<Rightarrow> unit result" where
  "forEach f [] = Inr ()"
| "forEach f (x # xs) = bnd (f x) (\<lambda>_. forEach f xs)"

lemma objectOrder_spec:
  "\<exists>indices others. objectOrder keys = indices @ others \<and> sorted (map (\<lambda>k. the (arrayIndex k)) indices) \<and>
     set indices = {k \<in> set keys. arrayIndex k \<noteq> None} \<and> (distinct keys \<longrightarrow> distinct indices) \<and>
     others = filter (\<lambda>k. arrayIndex k = None) keys"
  unfolding objectOrder_def by (rule exI, rule exI, rule conjI, rule refl) simp

section \<open>Third-party functions\<close>

text \<open>
  \<open>new PublicKey(v)\<close>, \<open>ethers.utils.getAddress\<close> (which accepts strings only), \<open>toNative(chain, a).toString()\<close>,
  \<open>chainToPlatform\<close>, \<open>contracts.coreBridge.get(environment, chain)\<close>, and the text of a number.
\<close>

record solverEnv =
  parsePublicKey :: "json option \<Rightarrow> pubkey result"
  getAddress :: "json \<Rightarrow> string result"
  checkNative :: "string \<Rightarrow> string \<Rightarrow> unit result"
  chainToPlatform :: "string \<Rightarrow> string"
  coreBridgeContract :: "string \<Rightarrow> string \<Rightarrow> string option"
  numberToString :: "double \<Rightarrow> string"

text \<open>\<open>${v}\<close>. The elements of an array are joined by commas, \<open>null\<close> as nothing.\<close>

fun joinComma :: "string list \<Rightarrow> string" where
  "joinComma [] = []"
| "joinComma [s] = s"
| "joinComma (s # t # ss) = s @ '','' @ joinComma (t # ss)"

fun jsonText :: "solverEnv \<Rightarrow> json \<Rightarrow> string" where
  "jsonText senv JNull = ''null''"
| "jsonText senv (JBool b) = (if b then ''true'' else ''false'')"
| "jsonText senv (JNum d) = numberToString senv d"
| "jsonText senv (JStr s) = s"
| "jsonText senv (JArr xs) = joinComma (map (\<lambda>x. if x = JNull then [] else jsonText senv x) xs)"
| "jsonText senv (JObj members) = ''[object Object]''"

section \<open>The configuration\<close>

datatype chainType = Evm | Solana

record inputEndpointChainConfig =
  ie_chain :: string
  ie_chainType :: chainType
  ie_rpc :: json
  ie_endpoint :: string

record sourceTxHashConfig =
  sh_maxRetries :: "json option"
  sh_retryBackoff :: "json option"

record solanaConnectionConfig =
  sc_rpc :: "json option"
  sc_ws :: "json option"
  sc_commitment :: "json option"
  sc_nonceAccount :: "json option"
  sc_addressLookupTable :: "json option"

record loggingConfig =
  lc_app :: "json option"
  lc_logic :: "json option"

record computeUnitsConfig =
  cu_verifySignatures :: "json option"
  cu_postVaa :: "json option"
  cu_settleAuctionNoneCctp :: "json option"
  cu_settleAuctionNoneLocal :: "json option"
  cu_settleAuctionComplete :: "json option"
  cu_initiateAuction :: "json option"

record environmentConfig =
  ec_environment :: string
  ec_logging :: loggingConfig
  ec_connection :: solanaConnectionConfig
  ec_sourceTxHash :: sourceTxHashConfig
  ec_computeUnits :: computeUnitsConfig
  ec_pricing :: "pricingParameters list"
  ec_endpointConfig :: "inputEndpointChainConfig list"
  ec_knownAtaOwners :: "json list"

section \<open>Validation\<close>

text \<open>The loop over the keys of an object, with the prefix that the messages give its keys.\<close>

definition checkKeys :: "string \<Rightarrow> string list \<Rightarrow> json option \<Rightarrow> unit result" where
  "checkKeys prefix allowed v =
     bnd (objectKeys v) (\<lambda>keys.
     forEach (\<lambda>key.
       bnd (throwIf (key \<notin> set allowed) (Error (''unexpected key: '' @ prefix @ key))) (\<lambda>_.
       bnd (jget v key) (\<lambda>x. throwIf (x = None) (Error (prefix @ key @ '' is required''))))) keys)"

definition isChainJson :: "env \<Rightarrow> json \<Rightarrow> bool" where
  "isChainJson env v = (case v of JStr s \<Rightarrow> isChain env s | _ \<Rightarrow> False)"

definition requiredField :: "json \<Rightarrow> string \<Rightarrow> string \<Rightarrow> json result" where
  "requiredField v part key =
     bnd (jget (Some v) key) (\<lambda>x. case x of None \<Rightarrow> Inl (Error (part @ ''.'' @ key @ '' is required'')) | Some y \<Rightarrow> Inr y)"

definition checkedChain :: "solverEnv \<Rightarrow> env \<Rightarrow> json \<Rightarrow> string result" where
  "checkedChain senv env v =
     (case v of
        JStr s \<Rightarrow> if isChainJson env v then Inr s else Inl (Error (''invalid chain: '' @ jsonText senv v))
      | _ \<Rightarrow> Inl (Error (''invalid chain: '' @ jsonText senv v)))"

definition checkedProbability :: "json \<Rightarrow> double result" where
  "checkedProbability v =
     (case v of
        JNum p \<Rightarrow> if doubleLe p (Dbl 0 0) \<or> \<not> doubleLe p (Dbl 1 0)
          then Inl (Error ''pricingParameter.probability must be in (0, 1]'') else Inr p
      | _ \<Rightarrow> Inl (Error ''pricingParameter.probability must be a number''))"

definition checkedEdge :: "json \<Rightarrow> double result" where
  "checkedEdge v =
     (case v of
        JNum e \<Rightarrow> if \<not> doubleLe (Dbl 0 0) e
          then Inl (Error ''pricingParameter.edgePctOfFv must be non-negative'') else Inr e
      | _ \<Rightarrow> Inl (Error ''pricingParameter.edgePctOfFv must be a number''))"

text \<open>One turn of the loop over \<open>cfg.pricing\<close>.\<close>

definition checkPricing :: "solverEnv \<Rightarrow> env \<Rightarrow> json \<Rightarrow> pricingParameters result" where
  "checkPricing senv env v =
     bnd (requiredField v ''pricingParameter'' ''chain'') (\<lambda>chain.
     bnd (checkedChain senv env chain) (\<lambda>chain.
     bnd (requiredField v ''pricingParameter'' ''probability'') (\<lambda>probability.
     bnd (checkedProbability probability) (\<lambda>probability.
     bnd (requiredField v ''pricingParameter'' ''edgePctOfFv'') (\<lambda>edge.
     bnd (checkedEdge edge) (\<lambda>edge.
     Inr \<lparr>pp_chain = chain, pp_probability = probability, pp_edgePctOfFv = edge\<rparr>))))))"

definition checkedChainType :: "json \<Rightarrow> chainType result" where
  "checkedChainType v =
     (case v of
        JNum d \<Rightarrow>
          if doubleLe d (Dbl 0 0) \<and> doubleLe (Dbl 0 0) d then Inr Evm
          else if doubleLe d (Dbl 1 0) \<and> doubleLe (Dbl 1 0) d then Inr Solana
          else Inl (Error ''endpointConfig.chainType must be either Evm or Solana'')
      | _ \<Rightarrow> Inl (Error ''endpointConfig.chainType must be either Evm or Solana''))"

text \<open>One turn of the loop over \<open>cfg.endpointConfig\<close>.\<close>

definition checkEndpoint :: "solverEnv \<Rightarrow> env \<Rightarrow> json \<Rightarrow> inputEndpointChainConfig result" where
  "checkEndpoint senv env v =
     bnd (requiredField v ''endpointConfig'' ''chain'') (\<lambda>chain.
     bnd (checkedChain senv env chain) (\<lambda>chain.
     bnd (requiredField v ''endpointConfig'' ''chainType'') (\<lambda>chainType.
     bnd (checkedChainType chainType) (\<lambda>chainType.
     bnd (requiredField v ''endpointConfig'' ''rpc'') (\<lambda>rpc.
     bnd (requiredField v ''endpointConfig'' ''endpoint'') (\<lambda>endpoint.
     bnd (getAddress senv endpoint) (\<lambda>address.
     bnd (throwIf (endpoint \<noteq> JStr address)
            (Error (''chain='' @ chain @ '' address must be check-summed: '' @ address))) (\<lambda>_.
     bnd (checkNative senv chain address) (\<lambda>_.
     Inr \<lparr>ie_chain = chain, ie_chainType = chainType, ie_rpc = rpc, ie_endpoint = address\<rparr>)))))))))"

definition checkedEnvironment :: "json option \<Rightarrow> string result" where
  "checkedEnvironment v =
     (if v = Some (JStr ''Mainnet'') then Inr ''Mainnet''
      else if v = Some (JStr ''Testnet'') then Inr ''Testnet''
      else Inl (Error ''environment must be either Mainnet or Testnet''))"

definition checkedArray :: "string \<Rightarrow> json option \<Rightarrow> json list result" where
  "checkedArray name v = (case v of Some (JArr xs) \<Rightarrow> Inr xs | _ \<Rightarrow> Inl (Error (name @ '' must be an array'')))"

text \<open>\<open>cfg.knownAtaOwners === undefined || cfg.knownAtaOwners.length === 0\<close>\<close>

definition checkOwnersNonEmpty :: "json option \<Rightarrow> unit result" where
  "checkOwnersNonEmpty owners =
     bnd (case owners of
            None \<Rightarrow> Inr True
          | Some v \<Rightarrow> bnd (jget (Some v) ''length'') (\<lambda>n.
              Inr (case n of Some (JNum d) \<Rightarrow> mantissa d = 0 | _ \<Rightarrow> False))) (\<lambda>bad.
     throwIf bad (Error ''knownAtaOwners must be a non-empty array''))"

definition validateEnvironmentConfig :: "solverEnv \<Rightarrow> env \<Rightarrow> json \<Rightarrow> environmentConfig result" where
  "validateEnvironmentConfig senv env input =
     (let cfg = Some input in
     bnd (checkKeys '''' [''environment'', ''connection'', ''logging'', ''sourceTxHash'', ''computeUnits'',
            ''endpointConfig'', ''pricing'', ''knownAtaOwners''] cfg) (\<lambda>_.
     bnd (jget cfg ''environment'') (\<lambda>environment.
     bnd (checkedEnvironment environment) (\<lambda>environment.
     bnd (jget cfg ''connection'') (\<lambda>connection.
     bnd (checkKeys ''connection.'' [''rpc'', ''ws'', ''commitment'', ''nonceAccount'', ''addressLookupTable'']
            connection) (\<lambda>_.
     bnd (jget connection ''nonceAccount'') (\<lambda>nonceAccount.
     bnd (case nonceAccount of None \<Rightarrow> Inr () | Some n \<Rightarrow> bnd (parsePublicKey senv (Some n)) (\<lambda>_. Inr ())) (\<lambda>_.
     bnd (jget connection ''addressLookupTable'') (\<lambda>addressLookupTable.
     bnd (parsePublicKey senv addressLookupTable) (\<lambda>_.
     bnd (jget cfg ''knownAtaOwners'') (\<lambda>knownAtaOwners.
     bnd (checkOwnersNonEmpty knownAtaOwners) (\<lambda>_.
     bnd (jget cfg ''logging'') (\<lambda>logging.
     bnd (checkKeys ''logging.'' [''app'', ''logic''] logging) (\<lambda>_.
     bnd (jget cfg ''sourceTxHash'') (\<lambda>sourceTxHash.
     bnd (checkKeys ''sourceTxHash.'' [''maxRetries'', ''retryBackoff''] sourceTxHash) (\<lambda>_.
     bnd (jget cfg ''computeUnits'') (\<lambda>computeUnits.
     bnd (checkKeys ''computeUnits.'' [''verifySignatures'', ''postVaa'', ''settleAuctionNoneCctp'',
            ''settleAuctionNoneLocal'', ''settleAuctionComplete'', ''initiateAuction'', ''improveOffer'']
            computeUnits) (\<lambda>_.
     bnd (jget cfg ''pricing'') (\<lambda>pricing.
     bnd (checkedArray ''pricing'' pricing) (\<lambda>pricing.
     bnd (mapM (checkPricing senv env) pricing) (\<lambda>pricing.
     bnd (checkedArray ''knownAtaOwners'' knownAtaOwners) (\<lambda>knownAtaOwners.
     bnd (mapM (\<lambda>o'. parsePublicKey senv (Some o')) knownAtaOwners) (\<lambda>_.
     bnd (jget cfg ''endpointConfig'') (\<lambda>endpointConfig.
     bnd (checkedArray ''endpointConfig'' endpointConfig) (\<lambda>endpointConfig.
     bnd (throwIf (endpointConfig = []) (Error ''endpointConfig must contain at least one element'')) (\<lambda>_.
     bnd (mapM (checkEndpoint senv env) endpointConfig) (\<lambda>endpointConfig.
     bnd (jget connection ''rpc'') (\<lambda>rpc.
     bnd (jget connection ''commitment'') (\<lambda>commitment.
     bnd (jget logging ''app'') (\<lambda>app.
     bnd (jget logging ''logic'') (\<lambda>logic.
     bnd (jget sourceTxHash ''maxRetries'') (\<lambda>maxRetries.
     bnd (jget sourceTxHash ''retryBackoff'') (\<lambda>retryBackoff.
     bnd (jget computeUnits ''verifySignatures'') (\<lambda>verifySignatures.
     bnd (jget computeUnits ''postVaa'') (\<lambda>postVaa.
     bnd (jget computeUnits ''settleAuctionNoneCctp'') (\<lambda>settleAuctionNoneCctp.
     bnd (jget computeUnits ''settleAuctionNoneLocal'') (\<lambda>settleAuctionNoneLocal.
     bnd (jget computeUnits ''settleAuctionComplete'') (\<lambda>settleAuctionComplete.
     bnd (jget computeUnits ''initiateAuction'') (\<lambda>initiateAuction.
     Inr \<lparr>ec_environment = environment,
       ec_logging = \<lparr>lc_app = app, lc_logic = logic\<rparr>,
       ec_connection = \<lparr>sc_rpc = rpc, sc_ws = None, sc_commitment = commitment, sc_nonceAccount = nonceAccount,
         sc_addressLookupTable = addressLookupTable\<rparr>,
       ec_sourceTxHash = \<lparr>sh_maxRetries = maxRetries, sh_retryBackoff = retryBackoff\<rparr>,
       ec_computeUnits = \<lparr>cu_verifySignatures = verifySignatures, cu_postVaa = postVaa,
         cu_settleAuctionNoneCctp = settleAuctionNoneCctp, cu_settleAuctionNoneLocal = settleAuctionNoneLocal,
         cu_settleAuctionComplete = settleAuctionComplete, cu_initiateAuction = initiateAuction\<rparr>,
       ec_pricing = pricing, ec_endpointConfig = endpointConfig, ec_knownAtaOwners = knownAtaOwners\<rparr>)))))))))))))))))))))))))))))))))))))))"

section \<open>The class\<close>

record chainConfig =
  cc_input :: inputEndpointChainConfig
  cc_fastConsistencyLevel :: "int option"

record appConfig =
  ac_cfg :: environmentConfig
  ac_chainCfgs :: "int \<Rightarrow> chainConfig option"
  ac_core :: "string \<Rightarrow> string option"  \<comment> \<open>_wormholeAddresses[chain].core\<close>

definition EVM_FAST_CONSISTENCY_LEVEL :: int where
  "EVM_FAST_CONSISTENCY_LEVEL = 200"

definition chainConfigOf :: "solverEnv \<Rightarrow> inputEndpointChainConfig \<Rightarrow> chainConfig" where
  "chainConfigOf senv cfg = \<lparr>cc_input = cfg,
     cc_fastConsistencyLevel =
       (if chainToPlatform senv (ie_chain cfg) = ''Evm'' then Some EVM_FAST_CONSISTENCY_LEVEL else None)\<rparr>"

text \<open>The reduction over the endpoints: a later endpoint of the same chain replaces an earlier one.\<close>

fun chainCfgsFrom :: "env \<Rightarrow> chainConfig list \<Rightarrow> (int \<Rightarrow> chainConfig option) \<Rightarrow> (int \<Rightarrow> chainConfig option) result" where
  "chainCfgsFrom env [] acc = Inr acc"
| "chainCfgsFrom env (cfg # cfgs) acc =
     bnd (toChainId env (ie_chain (cc_input cfg))) (\<lambda>i. chainCfgsFrom env cfgs (acc(i \<mapsto> cfg)))"

definition newAppConfig :: "solverEnv \<Rightarrow> env \<Rightarrow> json \<Rightarrow> appConfig result" where
  "newAppConfig senv env input =
     bnd (validateEnvironmentConfig senv env input) (\<lambda>cfg.
     bnd (chainCfgsFrom env (map (chainConfigOf senv) (ec_endpointConfig cfg)) (\<lambda>_. None)) (\<lambda>chainCfgs.
     Inr \<lparr>ac_cfg = cfg, ac_chainCfgs = chainCfgs, ac_core = coreBridgeContract senv (ec_environment cfg)\<rparr>))"

section \<open>Accessors\<close>

definition appLogLevel :: "appConfig \<Rightarrow> json option" where
  "appLogLevel c = lc_app (ec_logging (ac_cfg c))"

definition logicLogLevel :: "appConfig \<Rightarrow> json option" where
  "logicLogLevel c = lc_logic (ec_logging (ac_cfg c))"

definition sourceTxHash :: "appConfig \<Rightarrow> sourceTxHashConfig" where
  "sourceTxHash c = ec_sourceTxHash (ac_cfg c)"

text \<open>The arguments of \<open>new Connection\<close>: endpoint, commitment and web socket.\<close>

definition solanaConnection :: "appConfig \<Rightarrow> json option \<times> json option \<times> json option" where
  "solanaConnection c =
     (sc_rpc (ec_connection (ac_cfg c)), sc_commitment (ec_connection (ac_cfg c)), sc_ws (ec_connection (ac_cfg c)))"

definition solanaRpc :: "appConfig \<Rightarrow> json option" where
  "solanaRpc c = sc_rpc (ec_connection (ac_cfg c))"

definition solanaCommitment :: "appConfig \<Rightarrow> json option" where
  "solanaCommitment c = sc_commitment (ec_connection (ac_cfg c))"

definition solanaNonceAccount :: "solverEnv \<Rightarrow> appConfig \<Rightarrow> pubkey result" where
  "solanaNonceAccount senv c =
     (case sc_nonceAccount (ec_connection (ac_cfg c)) of
        None \<Rightarrow> Inl (Error ''nonceAccount is not configured'')
      | Some n \<Rightarrow> parsePublicKey senv (Some n))"

definition solanaAddressLookupTable :: "solverEnv \<Rightarrow> appConfig \<Rightarrow> pubkey result" where
  "solanaAddressLookupTable senv c = parsePublicKey senv (sc_addressLookupTable (ec_connection (ac_cfg c)))"

definition verifySignaturesComputeUnits :: "appConfig \<Rightarrow> json option" where
  "verifySignaturesComputeUnits c = cu_verifySignatures (ec_computeUnits (ac_cfg c))"

definition postVaaComputeUnits :: "appConfig \<Rightarrow> json option" where
  "postVaaComputeUnits c = cu_postVaa (ec_computeUnits (ac_cfg c))"

definition settleAuctionNoneCctpComputeUnits :: "appConfig \<Rightarrow> json option" where
  "settleAuctionNoneCctpComputeUnits c = cu_settleAuctionNoneCctp (ec_computeUnits (ac_cfg c))"

definition settleAuctionNoneLocalComputeUnits :: "appConfig \<Rightarrow> json option" where
  "settleAuctionNoneLocalComputeUnits c = cu_settleAuctionNoneLocal (ec_computeUnits (ac_cfg c))"

definition settleAuctionCompleteComputeUnits :: "appConfig \<Rightarrow> json option" where
  "settleAuctionCompleteComputeUnits c = cu_settleAuctionComplete (ec_computeUnits (ac_cfg c))"

definition initiateAuctionComputeUnits :: "appConfig \<Rightarrow> json option" where
  "initiateAuctionComputeUnits c = cu_initiateAuction (ec_computeUnits (ac_cfg c))"

definition knownAtaOwners :: "solverEnv \<Rightarrow> appConfig \<Rightarrow> pubkey list result" where
  "knownAtaOwners senv c = mapM (\<lambda>k. parsePublicKey senv (Some k)) (ec_knownAtaOwners (ac_cfg c))"

text \<open>The mint is the constant of the test helpers, not the one of the Matching Engine.\<close>

definition USDC_MINT_ADDRESS :: "env \<Rightarrow> pubkey" where
  "USDC_MINT_ADDRESS env = newPublicKey env ''EPjFWdd5AufqSSqeM2qN1xzybapC8G4wEGGkZwyTDt1v''"

definition recognizedTokenAccounts :: "solverEnv \<Rightarrow> env \<Rightarrow> appConfig \<Rightarrow> pubkey list result" where
  "recognizedTokenAccounts senv env c =
     bnd (knownAtaOwners senv c) (mapM (\<lambda>key. associatedTokenAddress env (USDC_MINT_ADDRESS env) key False))"

definition isRecognizedTokenAccount :: "solverEnv \<Rightarrow> env \<Rightarrow> appConfig \<Rightarrow> pubkey \<Rightarrow> bool result" where
  "isRecognizedTokenAccount senv env c tokenAccount =
     bnd (recognizedTokenAccounts senv env c) (\<lambda>keys. Inr (tokenAccount \<in> set keys))"

fun findPricing :: "env \<Rightarrow> int \<Rightarrow> pricingParameters list \<Rightarrow> pricingParameters option result" where
  "findPricing env chain [] = Inr None"
| "findPricing env chain (p # ps) =
     bnd (toChainId env (pp_chain p)) (\<lambda>i. if i = chain then Inr (Some p) else findPricing env chain ps)"

definition pricingParametersFor :: "env \<Rightarrow> appConfig \<Rightarrow> int \<Rightarrow> pricingParameters option result" where
  "pricingParametersFor env c chain = findPricing env chain (ec_pricing (ac_cfg c))"

record unsafeChainConfig =
  uc_coreBridgeAddress :: "string option"
  uc_config :: chainConfig

definition unsafeChainCfg :: "appConfig \<Rightarrow> int \<Rightarrow> unsafeChainConfig result" where
  "unsafeChainCfg c chain =
     (case ac_chainCfgs c chain of
        None \<Rightarrow> Inl TypeError
      | Some cfg \<Rightarrow> Inr \<lparr>uc_coreBridgeAddress = ac_core c (ie_chain (cc_input cfg)), uc_config = cfg\<rparr>)"

definition cctpAttestationEndpoint :: "appConfig \<Rightarrow> string" where
  "cctpAttestationEndpoint c =
     (if ec_environment (ac_cfg c) = ''Mainnet'' then ''https://iris-api.circle.com''
      else ''https://iris-api-sandbox.circle.com'')"

definition wormholeScanVaaEndpoint :: "appConfig \<Rightarrow> string" where
  "wormholeScanVaaEndpoint c =
     (if ec_environment (ac_cfg c) = ''Mainnet'' then ''https://api.wormholescan.io/api/v1/vaas/''
      else ''https://api.testnet.wormholescan.io/api/v1/vaas/'')"

definition emitterFilterForSpy :: "appConfig \<Rightarrow> vaaFilter list" where
  "emitterFilterForSpy c =
     map (\<lambda>cfg. \<lparr>vf_chain = ie_chain cfg, vf_nativeAddress = ie_endpoint cfg\<rparr>) (ec_endpointConfig (ac_cfg c))"

definition isFastFinality :: "env \<Rightarrow> appConfig \<Rightarrow> vaa \<Rightarrow> bool result" where
  "isFastFinality env c v =
     bnd (toChainId env (va_emitterChain v)) (\<lambda>i.
     Inr (Some (va_consistencyLevel v) = (case ac_chainCfgs c i of None \<Rightarrow> None | Some cfg \<Rightarrow> cc_fastConsistencyLevel cfg)))"

section \<open>What validation establishes\<close>

text \<open>
  A configuration is well typed if its environment is known, its chains exist, its prices are acceptable to
  the offer rules, its endpoints are check-summed addresses, and its keys are keys.
\<close>

definition endpointTyped :: "solverEnv \<Rightarrow> env \<Rightarrow> inputEndpointChainConfig \<Rightarrow> bool" where
  "endpointTyped senv env e \<longleftrightarrow> isChain env (ie_chain e) \<and> getAddress senv (JStr (ie_endpoint e)) = Inr (ie_endpoint e) \<and>
     checkNative senv (ie_chain e) (ie_endpoint e) = Inr ()"

definition configTyped :: "solverEnv \<Rightarrow> env \<Rightarrow> environmentConfig \<Rightarrow> bool" where
  "configTyped senv env cfg \<longleftrightarrow> ec_environment cfg \<in> {''Mainnet'', ''Testnet''} \<and>
     (\<forall>p\<in>set (ec_pricing cfg). isChain env (pp_chain p) \<and> pricingValid p) \<and>
     ec_endpointConfig cfg \<noteq> [] \<and> (\<forall>e\<in>set (ec_endpointConfig cfg). endpointTyped senv env e) \<and>
     ec_knownAtaOwners cfg \<noteq> [] \<and> (\<forall>k\<in>set (ec_knownAtaOwners cfg). \<exists>key. parsePublicKey senv (Some k) = Inr key) \<and>
     (\<exists>key. parsePublicKey senv (sc_addressLookupTable (ec_connection cfg)) = Inr key) \<and>
     (\<forall>n. sc_nonceAccount (ec_connection cfg) = Some n \<longrightarrow> (\<exists>key. parsePublicKey senv (Some n) = Inr key)) \<and>
     sc_ws (ec_connection cfg) = None"

lemma mapM_Inr_all: "mapM f xs = Inr ys \<Longrightarrow> (\<And>x y. f x = Inr y \<Longrightarrow> P y) \<Longrightarrow> \<forall>y\<in>set ys. P y"
  by (induction xs arbitrary: ys) (auto simp: bnd_eq_Inr_iff)

lemma mapM_Inr_defined: "mapM f xs = Inr ys \<Longrightarrow> \<forall>x\<in>set xs. \<exists>y. f x = Inr y"
  by (induction xs arbitrary: ys) (auto simp: bnd_eq_Inr_iff)

lemma mapM_total: "\<forall>x\<in>set xs. \<exists>y. f x = Inr y \<Longrightarrow> \<exists>ys. mapM f xs = Inr ys"
  by (induction xs) auto

lemma mapM_length: "mapM f xs = Inr ys \<Longrightarrow> length ys = length xs"
  by (induction xs arbitrary: ys) (auto simp: bnd_eq_Inr_iff)

lemma checkedChain_isChain: "checkedChain senv env v = Inr s \<Longrightarrow> isChain env s"
  by (auto simp: checkedChain_def isChainJson_def split: json.splits if_splits)

lemma checkedProbability_range: "checkedProbability v = Inr p \<Longrightarrow> 0 < mantissa p \<and> doubleLe p (Dbl 1 0)"
  by (auto simp: checkedProbability_def doubleLe_def Let_def mult_le_0_iff split: json.splits if_splits)

lemma checkedEdge_range: "checkedEdge v = Inr e \<Longrightarrow> 0 \<le> mantissa e"
  by (auto simp: checkedEdge_def doubleLe_def Let_def zero_le_mult_iff split: json.splits if_splits)

lemma checkPricing_valid: "checkPricing senv env v = Inr p \<Longrightarrow> isChain env (pp_chain p) \<and> pricingValid p"
  by (auto simp: checkPricing_def bnd_eq_Inr_iff pricingValid_def
      dest!: checkedChain_isChain checkedProbability_range checkedEdge_range)

lemma checkEndpoint_typed: "checkEndpoint senv env v = Inr e \<Longrightarrow> endpointTyped senv env e"
  by (auto simp: checkEndpoint_def bnd_eq_Inr_iff endpointTyped_def js_simps dest!: checkedChain_isChain)

lemma checkedEnvironment_known: "checkedEnvironment v = Inr e \<Longrightarrow> e \<in> {''Mainnet'', ''Testnet''}"
  by (auto simp: checkedEnvironment_def split: if_splits)

lemma checkOwnersNonEmpty_array:
  assumes "checkOwnersNonEmpty owners = Inr u" "checkedArray name owners = Inr xs"
  shows "xs \<noteq> []"
proof
  assume "xs = []"
  with assms(2) have "owners = Some (JArr [])"
    by (simp add: checkedArray_def split: option.splits json.splits)
  with assms(1) show False by (simp add: checkOwnersNonEmpty_def doubleOfInt_def)
qed

lemma mapM_nonempty: "throwIf (xs = []) e = Inr u \<Longrightarrow> mapM f xs = Inr ys \<Longrightarrow> ys \<noteq> []"
  by (cases xs) (auto simp: bnd_eq_Inr_iff js_simps)

lemma checkedNonce:
  "(case nonce of None \<Rightarrow> Inr () | Some n \<Rightarrow> bnd (parsePublicKey senv (Some n)) (\<lambda>_. Inr ())) = Inr u \<Longrightarrow>
   \<forall>n. nonce = Some n \<longrightarrow> (\<exists>key. parsePublicKey senv (Some n) = Inr key)"
  by (auto simp: bnd_eq_Inr_iff)

lemma validate_typed:
  assumes "validateEnvironmentConfig senv env input = Inr cfg"
  shows "configTyped senv env cfg"
  using assms unfolding validateEnvironmentConfig_def Let_def bnd_eq_Inr_iff
  apply (elim exE conjE)
  apply (simp only: sum.inject)
  apply hypsubst
  apply (unfold configTyped_def)
  apply (simp (no_asm) only: environmentConfig.simps solanaConnectionConfig.simps)
  apply (intro conjI)
  apply (erule checkedEnvironment_known)
  apply (erule mapM_Inr_all, erule checkPricing_valid)
  apply (erule (1) mapM_nonempty)
  apply (erule mapM_Inr_all, erule checkEndpoint_typed)
  apply (erule (1) checkOwnersNonEmpty_array)
  apply (erule mapM_Inr_defined)
  apply (rule exI, assumption)
  apply (erule checkedNonce)
  apply (rule refl)
  done

section \<open>The chain configurations\<close>

lemma chainCfgsFrom_ids:
  assumes "chainCfgsFrom env cfgs acc = Inr m" "\<And>i cfg. acc i = Some cfg \<Longrightarrow> toChainId env (ie_chain (cc_input cfg)) = Inr i"
    and "m i = Some cfg"
  shows "toChainId env (ie_chain (cc_input cfg)) = Inr i"
  using assms
proof (induction env cfgs acc rule: chainCfgsFrom.induct)
  case (2 env c cfgs acc)
  then obtain j where "toChainId env (ie_chain (cc_input c)) = Inr j" "chainCfgsFrom env cfgs (acc(j \<mapsto> c)) = Inr m"
    by (auto simp: bnd_eq_Inr_iff)
  with 2 show ?case by (metis fun_upd_apply option.inject)
qed auto

lemma chainCfgsFrom_mono: "chainCfgsFrom env cfgs acc = Inr m \<Longrightarrow> acc i \<noteq> None \<Longrightarrow> m i \<noteq> None"
  by (induction env cfgs acc rule: chainCfgsFrom.induct) (fastforce simp: bnd_eq_Inr_iff split: if_splits)+

lemma chainCfgsFrom_defined:
  "chainCfgsFrom env cfgs acc = Inr m \<Longrightarrow> cfg \<in> set cfgs \<Longrightarrow>
   \<exists>i. toChainId env (ie_chain (cc_input cfg)) = Inr i \<and> m i \<noteq> None"
proof (induction env cfgs acc rule: chainCfgsFrom.induct)
  case (2 env c cfgs acc)
  from 2(2) obtain j where j: "toChainId env (ie_chain (cc_input c)) = Inr j"
    and m: "chainCfgsFrom env cfgs (acc(j \<mapsto> c)) = Inr m"
    by (auto simp: bnd_eq_Inr_iff)
  show ?case
  proof (cases "cfg = c")
    case True
    with j chainCfgsFrom_mono [OF m, of j] show ?thesis by simp
  next
    case False
    with 2(3) have "cfg \<in> set cfgs" by simp
    with 2(1) [OF j m] show ?thesis .
  qed
qed simp

lemma findPricing_spec:
  "findPricing env chain ps = Inr (Some p) \<Longrightarrow> p \<in> set ps \<and> toChainId env (pp_chain p) = Inr chain"
  by (induction ps) (auto simp: bnd_eq_Inr_iff split: if_splits)

lemma findPricing_None:
  "findPricing env chain ps = Inr None \<Longrightarrow> \<forall>p\<in>set ps. toChainId env (pp_chain p) \<noteq> Inr chain"
  by (induction ps) (auto simp: bnd_eq_Inr_iff split: if_splits)

lemma findPricing_total:
  "\<forall>p\<in>set ps. \<exists>i. toChainId env (pp_chain p) = Inr i \<Longrightarrow> \<exists>r. findPricing env chain ps = Inr r"
  by (induction ps) auto

text \<open>What is handed on without a check.\<close>

lemma validate_handed_on:
  assumes "validateEnvironmentConfig senv env input = Inr cfg"
  shows "\<exists>connection computeUnits. jget (Some input) ''connection'' = Inr connection \<and>
    jget (Some input) ''computeUnits'' = Inr computeUnits \<and>
    jget connection ''rpc'' = Inr (sc_rpc (ec_connection cfg)) \<and>
    jget connection ''commitment'' = Inr (sc_commitment (ec_connection cfg)) \<and>
    jget connection ''nonceAccount'' = Inr (sc_nonceAccount (ec_connection cfg)) \<and>
    jget computeUnits ''verifySignatures'' = Inr (cu_verifySignatures (ec_computeUnits cfg)) \<and>
    jget computeUnits ''postVaa'' = Inr (cu_postVaa (ec_computeUnits cfg)) \<and>
    jget computeUnits ''settleAuctionNoneCctp'' = Inr (cu_settleAuctionNoneCctp (ec_computeUnits cfg)) \<and>
    jget computeUnits ''settleAuctionNoneLocal'' = Inr (cu_settleAuctionNoneLocal (ec_computeUnits cfg)) \<and>
    jget computeUnits ''settleAuctionComplete'' = Inr (cu_settleAuctionComplete (ec_computeUnits cfg)) \<and>
    jget computeUnits ''initiateAuction'' = Inr (cu_initiateAuction (ec_computeUnits cfg))"
  using assms unfolding validateEnvironmentConfig_def Let_def bnd_eq_Inr_iff
  apply (elim exE conjE)
  apply (simp only: sum.inject)
  apply hypsubst
  apply (simp (no_asm) only: environmentConfig.simps solanaConnectionConfig.simps computeUnitsConfig.simps)
  apply (intro exI conjI)
  apply (rule refl)+
  apply assumption+
  done

section \<open>Properties\<close>

text \<open>
  C14. What validation establishes and what it does not. In a configuration that is accepted the environment
  is known, the chains of prices and endpoints exist, the prices are acceptable to the offer rules,
  the endpoints are check-summed, the owners and the lookup table are keys. On it the accessors that
  parse or look up do the following, provided that every chain has an id: those of owners, lookup table and pricing parameters never
  throw; pricing parameters are found for a chain exactly if it is configured; every configured endpoint's
  chain has a chain configuration under its own id; but the accessor of the nonce account throws exactly if the account
  is left out, which validation accepts. The accessors of RPC endpoint, commitment and compute units return the
  members of the file as they are, missing ones as undefined: their values and types are never checked.
\<close>

theorem config_well_typed:
  assumes "newAppConfig senv env input = Inr c"
    and "\<And>chain. isChain env chain \<Longrightarrow> \<exists>i. toChainId env chain = Inr i"
  shows "configTyped senv env (ac_cfg c) \<and>
    (\<exists>keys. knownAtaOwners senv c = Inr keys) \<and> (\<exists>key. solanaAddressLookupTable senv c = Inr key) \<and>
    (\<forall>chain. \<exists>found. pricingParametersFor env c chain = Inr found \<and>
      (case found of
         None \<Rightarrow> \<forall>p\<in>set (ec_pricing (ac_cfg c)). toChainId env (pp_chain p) \<noteq> Inr chain
       | Some p \<Rightarrow> p \<in> set (ec_pricing (ac_cfg c)) \<and> pricingValid p \<and> toChainId env (pp_chain p) = Inr chain)) \<and>
    (\<forall>e\<in>set (ec_endpointConfig (ac_cfg c)). \<exists>i u. toChainId env (ie_chain e) = Inr i \<and> unsafeChainCfg c i = Inr u \<and>
      toChainId env (ie_chain (cc_input (uc_config u))) = Inr i) \<and>
    (\<exists>connection computeUnits. jget (Some input) ''connection'' = Inr connection \<and>
      jget (Some input) ''computeUnits'' = Inr computeUnits \<and>
      (if jget connection ''nonceAccount'' = Inr None
       then solanaNonceAccount senv c = Inl (Error ''nonceAccount is not configured'')
       else \<exists>key. solanaNonceAccount senv c = Inr key) \<and>
      jget connection ''rpc'' = Inr (solanaRpc c) \<and> jget connection ''commitment'' = Inr (solanaCommitment c) \<and>
      jget computeUnits ''verifySignatures'' = Inr (verifySignaturesComputeUnits c) \<and>
      jget computeUnits ''postVaa'' = Inr (postVaaComputeUnits c) \<and>
      jget computeUnits ''settleAuctionNoneCctp'' = Inr (settleAuctionNoneCctpComputeUnits c) \<and>
      jget computeUnits ''settleAuctionNoneLocal'' = Inr (settleAuctionNoneLocalComputeUnits c) \<and>
      jget computeUnits ''settleAuctionComplete'' = Inr (settleAuctionCompleteComputeUnits c) \<and>
      jget computeUnits ''initiateAuction'' = Inr (initiateAuctionComputeUnits c))"
proof -
  from assms(1) obtain cfg where v: "validateEnvironmentConfig senv env input = Inr cfg" "ac_cfg c = cfg"
    and m: "chainCfgsFrom env (map (chainConfigOf senv) (ec_endpointConfig cfg)) (\<lambda>_. None) = Inr (ac_chainCfgs c)"
    by (auto simp: newAppConfig_def bnd_eq_Inr_iff)
  have t: "configTyped senv env cfg" by (rule validate_typed [OF v(1)])
  have owners: "\<exists>keys. knownAtaOwners senv c = Inr keys"
    using t by (auto simp: knownAtaOwners_def v(2) configTyped_def intro: mapM_total)
  have endpoints: "\<exists>i u. toChainId env (ie_chain e) = Inr i \<and> unsafeChainCfg c i = Inr u \<and>
      toChainId env (ie_chain (cc_input (uc_config u))) = Inr i" if "e \<in> set (ec_endpointConfig cfg)" for e
  proof -
    from that chainCfgsFrom_defined [OF m, of "chainConfigOf senv e"]
    obtain i cfg' where i: "toChainId env (ie_chain e) = Inr i" "ac_chainCfgs c i = Some cfg'"
      by (auto simp: chainConfigOf_def)
    with chainCfgsFrom_ids [OF m _ i(2)] show ?thesis by (auto simp: unsafeChainCfg_def)
  qed
  have prices: "\<forall>p\<in>set (ec_pricing cfg). pricingValid p \<and> (\<exists>i. toChainId env (pp_chain p) = Inr i)"
    using t assms(2) by (auto simp: configTyped_def)
  have pricing: "\<exists>found. pricingParametersFor env c chain = Inr found \<and>
      (case found of
         None \<Rightarrow> \<forall>p\<in>set (ec_pricing cfg). toChainId env (pp_chain p) \<noteq> Inr chain
       | Some p \<Rightarrow> p \<in> set (ec_pricing cfg) \<and> pricingValid p \<and> toChainId env (pp_chain p) = Inr chain)" for chain
  proof -
    obtain found where f: "findPricing env chain (ec_pricing cfg) = Inr found"
      using findPricing_total prices by blast
    then show ?thesis
      using prices findPricing_None [of env chain "ec_pricing cfg"] findPricing_spec [of env chain "ec_pricing cfg"]
      by (cases found) (auto simp: pricingParametersFor_def v(2))
  qed
  have table: "\<exists>key. solanaAddressLookupTable senv c = Inr key"
    using t by (simp add: solanaAddressLookupTable_def v(2) configTyped_def)
  have nonce: "if sc_nonceAccount (ec_connection cfg) = None
      then solanaNonceAccount senv c = Inl (Error ''nonceAccount is not configured'')
      else \<exists>key. solanaNonceAccount senv c = Inr key"
    using t by (auto simp: solanaNonceAccount_def v(2) configTyped_def)
  from validate_handed_on [OF v(1)] obtain connection computeUnits where
    on: "jget (Some input) ''connection'' = Inr connection" "jget (Some input) ''computeUnits'' = Inr computeUnits"
      "jget connection ''rpc'' = Inr (solanaRpc c)" "jget connection ''commitment'' = Inr (solanaCommitment c)"
      "jget connection ''nonceAccount'' = Inr (sc_nonceAccount (ec_connection cfg))"
      "jget computeUnits ''verifySignatures'' = Inr (verifySignaturesComputeUnits c)"
      "jget computeUnits ''postVaa'' = Inr (postVaaComputeUnits c)"
      "jget computeUnits ''settleAuctionNoneCctp'' = Inr (settleAuctionNoneCctpComputeUnits c)"
      "jget computeUnits ''settleAuctionNoneLocal'' = Inr (settleAuctionNoneLocalComputeUnits c)"
      "jget computeUnits ''settleAuctionComplete'' = Inr (settleAuctionCompleteComputeUnits c)"
      "jget computeUnits ''initiateAuction'' = Inr (initiateAuctionComputeUnits c)"
    unfolding solanaRpc_def solanaCommitment_def verifySignaturesComputeUnits_def postVaaComputeUnits_def
      settleAuctionNoneCctpComputeUnits_def settleAuctionNoneLocalComputeUnits_def settleAuctionCompleteComputeUnits_def
      initiateAuctionComputeUnits_def v(2) by blast
  from nonce have nonce': "if jget connection ''nonceAccount'' = Inr None
      then solanaNonceAccount senv c = Inl (Error ''nonceAccount is not configured'')
      else \<exists>key. solanaNonceAccount senv c = Inr key" by (simp only: on(5) sum.inject)
  show ?thesis
    unfolding v(2) using t owners table pricing endpoints on(1-4,6-11) nonce' by blast
qed

definition demoSolverEnv :: solverEnv where
  "demoSolverEnv = \<lparr>parsePublicKey = (\<lambda>v. case v of Some (JStr s) \<Rightarrow> Inr (ascii s) | _ \<Rightarrow> Inl (Error ''Invalid public key input'')),
     getAddress = (\<lambda>v. case v of JStr s \<Rightarrow> Inr s | _ \<Rightarrow> Inl (Error ''invalid address'')),
     checkNative = (\<lambda>_ _. Inr ()), chainToPlatform = (\<lambda>_. ''Evm''), coreBridgeContract = (\<lambda>_ _. Some ''0x4a8b''),
     numberToString = (\<lambda>_. ''0'')\<rparr>"

definition demoChains :: "env \<Rightarrow> env" where
  "demoChains env = env\<lparr>isChain := (\<lambda>s. s = ''Sepolia''), toChainId := (\<lambda>_. Inr 10002)\<rparr>"

definition demoConfigJson :: json where
  "demoConfigJson = JObj
     [(''environment'', JStr ''Testnet''),
      (''connection'', JObj [(''rpc'', JStr ''http''), (''ws'', JStr ''ws''), (''commitment'', JStr ''confirmed''),
         (''addressLookupTable'', JStr ''Table'')]),
      (''logging'', JObj [(''app'', JStr ''info''), (''logic'', JStr ''info'')]),
      (''sourceTxHash'', JObj [(''retryBackoff'', JNum (Dbl 500 0))]),
      (''computeUnits'', JObj []),
      (''pricing'', JArr [JObj [(''chain'', JStr ''Sepolia''), (''probability'', JNum (Dbl 1 0)), (''edgePctOfFv'', JNum (Dbl 0 0))]]),
      (''endpointConfig'', JArr [JObj [(''chain'', JStr ''Sepolia''), (''chainType'', JNum (Dbl 0 0)), (''rpc'', JStr ''http''),
         (''endpoint'', JStr ''0x6C'')]]),
      (''knownAtaOwners'', JArr [JStr ''Owner''])]"

definition demoConfig :: environmentConfig where
  "demoConfig = \<lparr>ec_environment = ''Testnet'', ec_logging = \<lparr>lc_app = Some (JStr ''info''), lc_logic = Some (JStr ''info'')\<rparr>,
     ec_connection = \<lparr>sc_rpc = Some (JStr ''http''), sc_ws = None, sc_commitment = Some (JStr ''confirmed''),
       sc_nonceAccount = None, sc_addressLookupTable = Some (JStr ''Table'')\<rparr>,
     ec_sourceTxHash = \<lparr>sh_maxRetries = None, sh_retryBackoff = Some (JNum (Dbl 500 0))\<rparr>,
     ec_computeUnits = \<lparr>cu_verifySignatures = None, cu_postVaa = None, cu_settleAuctionNoneCctp = None,
       cu_settleAuctionNoneLocal = None, cu_settleAuctionComplete = None, cu_initiateAuction = None\<rparr>,
     ec_pricing = [\<lparr>pp_chain = ''Sepolia'', pp_probability = Dbl 1 0, pp_edgePctOfFv = Dbl 0 0\<rparr>],
     ec_endpointConfig = [\<lparr>ie_chain = ''Sepolia'', ie_chainType = Evm, ie_rpc = JStr ''http'', ie_endpoint = ''0x6C''\<rparr>],
     ec_knownAtaOwners = [JStr ''Owner'']\<rparr>"

lemma demo_validates: "validateEnvironmentConfig demoSolverEnv (demoChains env) demoConfigJson = Inr demoConfig"
  by (simp add: validateEnvironmentConfig_def demoConfigJson_def demoConfig_def demoSolverEnv_def demoChains_def
      checkKeys_def objectOrder_def arrayIndex_def isDigit_def checkedEnvironment_def checkOwnersNonEmpty_def checkedArray_def checkPricing_def
      checkEndpoint_def requiredField_def checkedChain_def checkedChainType_def isChainJson_def
      checkedProbability_def checkedEdge_def doubleOfInt_def doubleLe_def)

theorem config_well_typed_witness:
  "\<forall>env. \<exists>c. newAppConfig demoSolverEnv (demoChains env) demoConfigJson = Inr c \<and>
     (\<exists>keys. knownAtaOwners demoSolverEnv c = Inr keys) \<and> configTyped demoSolverEnv (demoChains env) (ac_cfg c) \<and>
     solanaNonceAccount demoSolverEnv c = Inl (Error ''nonceAccount is not configured'') \<and> postVaaComputeUnits c = None"
proof
  fix env
  have ids: "toChainId (demoChains env) chain = Inr 10002" for chain by (simp add: demoChains_def)
  then obtain c where c: "newAppConfig demoSolverEnv (demoChains env) demoConfigJson = Inr c"
    by (auto simp: newAppConfig_def demo_validates demoConfig_def)
  have *: "\<And>chain. isChain (demoChains env) chain \<Longrightarrow> \<exists>i. toChainId (demoChains env) chain = Inr i" by (simp add: ids)
  from config_well_typed [OF c *] obtain connection computeUnits where
    "jget (Some demoConfigJson) ''connection'' = Inr connection" "jget (Some demoConfigJson) ''computeUnits'' = Inr computeUnits"
    "if jget connection ''nonceAccount'' = Inr None
       then solanaNonceAccount demoSolverEnv c = Inl (Error ''nonceAccount is not configured'')
       else \<exists>key. solanaNonceAccount demoSolverEnv c = Inr key"
    "jget computeUnits ''postVaa'' = Inr (postVaaComputeUnits c)"
    "\<exists>keys. knownAtaOwners demoSolverEnv c = Inr keys" "configTyped demoSolverEnv (demoChains env) (ac_cfg c)"
    by blast
  with c show "\<exists>c. newAppConfig demoSolverEnv (demoChains env) demoConfigJson = Inr c \<and>
     (\<exists>keys. knownAtaOwners demoSolverEnv c = Inr keys) \<and> configTyped demoSolverEnv (demoChains env) (ac_cfg c) \<and>
     solanaNonceAccount demoSolverEnv c = Inl (Error ''nonceAccount is not configured'') \<and> postVaaComputeUnits c = None"
    by (intro exI [of _ c]) (auto simp: demoConfigJson_def)
qed

end
