(* ===== verification/Solver_Send.thy ===== *)
theory Solver_Send
  imports Solver_Config Me_Execute
begin

text \<open>
  How the solver sends transactions: \<open>sendTx\<close> and \<open>sendTxBatch\<close> (\<open>solver/src/utils/sendTx.ts\<close>), the
  transactions that post a VAA (\<open>preparePostVaaTx.ts\<close>), the cached blockhash and the offer token
  (\<open>solver/src/containers\<close>) and the retries of the executor (\<open>executeOrder/app.ts\<close>).

  The connection is a record of effects on an arbitrary world \<open>'w\<close>: every request returns or rejects
  and leaves another world, so nothing is assumed about how the chain moves on between requests. What
  a snapshot of the chain answers is the environment of the world.
\<close>

section \<open>Effects\<close>

type_synonym ('w, 'a) eff = "'w \<Rightarrow> 'a result \<times> 'w"

definition thenE :: "('w, 'a) eff \<Rightarrow> ('a \<Rightarrow> ('w, 'b) eff) \<Rightarrow> ('w, 'b) eff" where
  "thenE m f = (\<lambda>w. case m w of (Inl e, w) \<Rightarrow> (Inl e, w) | (Inr x, w) \<Rightarrow> f x w)"

definition liftE :: "'a result \<Rightarrow> ('w, 'a) eff" where
  "liftE r = (\<lambda>w. (r, w))"

definition retE :: "'a \<Rightarrow> ('w, 'a) eff" where
  "retE x = liftE (Inr x)"

text \<open>\<open>P.catch\<close>: a rejection becomes a value.\<close>

definition catchE :: "('w, 'a) eff \<Rightarrow> 'a \<Rightarrow> ('w, 'a) eff" where
  "catchE m d = (\<lambda>w. case m w of (Inl e, w) \<Rightarrow> (Inr d, w) | r \<Rightarrow> r)"

lemma thenE_liftE [simp]: "thenE (liftE (Inr x)) f = f x" "thenE (liftE (Inl e)) f = liftE (Inl e)"
  by (simp_all add: thenE_def liftE_def)

lemma thenE_retE [simp]: "thenE (retE x) f = f x"
  by (simp add: retE_def)

section \<open>The connection\<close>

record blockhash =
  bh_blockhash :: string
  bh_lastValidBlockHeight :: int

text \<open>The instructions of a transaction: those of the web3 library around the caller's.\<close>

datatype txInstruction =
    NonceAdvance pubkey pubkey  \<comment> \<open>authorized, nonce account\<close>
  | ComputeUnitLimit int
  | ComputeUnitPrice int
  | UserIx instruction

datatype confirmStrategy = ByBlockhash blockhash | ByNonce int pubkey string

record txMessage =
  tm_payerKey :: pubkey
  tm_recentBlockhash :: string
  tm_instructions :: "txInstruction list"
  tm_lookupTables :: "pubkey list option"

text \<open>\<open>context.slot\<close>, and \<open>value.nonce\<close> with \<open>value.authorizedPubkey\<close>.\<close>

record nonceResponse =
  nr_context :: "int option"
  nr_value :: "(string \<times> pubkey) option"

text \<open>
  \<open>cn_later\<close> is the world after a request whose answer is in the environment. Compiling and signing are the
  library's. A confirmation that resolves carries the error of a transaction that failed on chain.
\<close>

record 'w connection =
  cn_env :: "'w \<Rightarrow> env"
  cn_later :: "'w \<Rightarrow> 'w"
  cn_getLatestBlockhash :: "('w, blockhash) eff"
  cn_getNonceAndContext :: "pubkey \<Rightarrow> ('w, nonceResponse) eff"
  cn_compile :: "txMessage \<Rightarrow> unit result"
  cn_sign :: "txMessage \<Rightarrow> pubkey list \<Rightarrow> unit result"
  cn_sendTransaction :: "txMessage \<Rightarrow> pubkey list \<Rightarrow> confirmOptions option \<Rightarrow> ('w, string) eff"
  cn_confirmTransaction :: "string \<Rightarrow> confirmStrategy \<Rightarrow> string \<Rightarrow> ('w, string option) eff"

text \<open>A computation that reads the chain.\<close>

definition readE :: "'w connection \<Rightarrow> (env \<Rightarrow> 'a result) \<Rightarrow> ('w, 'a) eff" where
  "readE conn f = (\<lambda>w. (f (cn_env conn w), cn_later conn w))"

section \<open>Sending a transaction\<close>

record nonceAccountData =
  na_nonce :: string
  na_recentSlot :: int
  na_advanceIxs :: "txInstruction list"

definition getNonceAccountData :: "'w connection \<Rightarrow> pubkey \<Rightarrow> ('w, nonceAccountData) eff" where
  "getNonceAccountData conn nonceAccount =
     thenE (cn_getNonceAndContext conn nonceAccount) (\<lambda>r.
     case (nr_context r, nr_value r) of
       (Some slot, Some (nonce, authorized)) \<Rightarrow>
         retE \<lparr>na_nonce = nonce, na_recentSlot = slot, na_advanceIxs = [NonceAdvance authorized nonceAccount]\<rparr>
     | _ \<Rightarrow> liftE (Inl (Error ''Failed to fetch nonce account data'')))"

text \<open>\<open>signers[0].publicKey\<close>\<close>

definition payerKey :: "pubkey list \<Rightarrow> pubkey result" where
  "payerKey signers = (case signers of [] \<Rightarrow> Inl TypeError | payer # _ \<Rightarrow> Inr payer)"

text \<open>Uptick the nonce account, or fetch a recent block hash.\<close>

definition sendMessage :: "'w connection \<Rightarrow> preparedTransaction \<Rightarrow> blockhash option \<Rightarrow>
    ('w, txMessage \<times> confirmStrategy) eff" where
  "sendMessage conn pt cachedBlockhash =
     (let ixs = ComputeUnitLimit (pt_computeUnits pt) # ComputeUnitPrice (pt_feeMicroLamports pt) # map UserIx (pt_ixs pt);
          tables = pt_addressLookupTableAccounts pt
      in case pt_nonceAccount pt of
        None \<Rightarrow>
          thenE (case cachedBlockhash of Some b \<Rightarrow> retE b | None \<Rightarrow> cn_getLatestBlockhash conn) (\<lambda>latest.
          thenE (liftE (payerKey (pt_signers pt))) (\<lambda>payer.
          let msg = \<lparr>tm_payerKey = payer, tm_recentBlockhash = bh_blockhash latest, tm_instructions = ixs,
                     tm_lookupTables = tables\<rparr>
          in thenE (liftE (cn_compile conn msg)) (\<lambda>_. retE (msg, ByBlockhash latest))))
      | Some nonceAccount \<Rightarrow>
          thenE (getNonceAccountData conn nonceAccount) (\<lambda>n.
          thenE (liftE (payerKey (pt_signers pt))) (\<lambda>payer.
          let msg = \<lparr>tm_payerKey = payer, tm_recentBlockhash = na_nonce n, tm_instructions = na_advanceIxs n @ ixs,
                     tm_lookupTables = tables\<rparr>
          in thenE (liftE (cn_compile conn msg)) (\<lambda>_.
             retE (msg, ByNonce (na_recentSlot n) nonceAccount (na_nonce n))))))"

record sendResponse =
  sr_success :: bool
  sr_txSig :: "string option"

definition sendTx :: "'w connection \<Rightarrow> preparedTransaction \<Rightarrow> blockhash option \<Rightarrow> ('w, sendResponse) eff" where
  "sendTx conn pt cachedBlockhash =
     thenE (sendMessage conn pt cachedBlockhash) (\<lambda>(msg, confirmStrategy).
     thenE (liftE (cn_sign conn msg (pt_signers pt))) (\<lambda>_.
     catchE
       (thenE (cn_sendTransaction conn msg (pt_signers pt) (pt_confirmOptions pt)) (\<lambda>signature.
        thenE (case Option.bind (pt_confirmOptions pt) co_commitment of
                 None \<Rightarrow> retE None
               | Some commitment \<Rightarrow> cn_confirmTransaction conn signature confirmStrategy commitment) (\<lambda>_.
        retE \<lparr>sr_success = True, sr_txSig = Some signature\<rparr>)))
       \<lparr>sr_success = False, sr_txSig = None\<rparr>))"

text \<open>
  The inner loop of \<open>sendTxBatch\<close>: \<open>n\<close> attempts are left. A transaction that skips the preflight is tried once
  and never counts as a success.
\<close>

definition skipsPreflight :: "preparedTransaction \<Rightarrow> bool" where
  "skipsPreflight pt = orElse (Option.bind (pt_confirmOptions pt) co_skipPreflight) False"

primrec sendRetry :: "'w connection \<Rightarrow> preparedTransaction \<Rightarrow> blockhash option \<Rightarrow> nat \<Rightarrow> ('w, bool) eff" where
  "sendRetry conn pt cached 0 = retE False"
| "sendRetry conn pt cached (Suc n) =
     thenE (sendTx conn pt cached) (\<lambda>response.
     if skipsPreflight pt then retE False
     else if sr_success response then retE True
     else sendRetry conn pt cached n)"

fun sendTxBatch :: "'w connection \<Rightarrow> preparedTransaction list \<Rightarrow> int option \<Rightarrow> blockhash option \<Rightarrow> ('w, unit) eff" where
  "sendTxBatch conn [] retryCount cached = retE ()"
| "sendTxBatch conn (pt # pts) retryCount cached =
     thenE (sendRetry conn pt cached (nat (orElse retryCount 5))) (\<lambda>success.
     if success then sendTxBatch conn pts retryCount cached else retE ())"

section \<open>Posting a VAA\<close>

text \<open>
  The core bridge's library: the pairs of instructions that verify signatures (the first of a pair is one
  of the secp256k1 program, given by its program, keys and data), the posting instruction, and the
  address of a posted VAA. A compute unit limit must be an integer.
\<close>

type_synonym rawIx = "pubkey \<times> (pubkey \<times> bool \<times> bool) list \<times> byte list"

record 'w coreUtils =
  createVerifySignaturesInstructions :: "pubkey \<Rightarrow> pubkey \<Rightarrow> vaa \<Rightarrow> pubkey \<Rightarrow> ('w, (rawIx \<times> instruction) list) eff"
  createPostVaaInstruction :: "pubkey \<Rightarrow> pubkey \<Rightarrow> vaa \<Rightarrow> pubkey \<Rightarrow> instruction result"
  derivePostedVaaKey :: "pubkey \<Rightarrow> byte list \<Rightarrow> pubkey"

definition unitsOf :: "json option \<Rightarrow> int result" where
  "unitsOf v = (case v of Some (JNum d) \<Rightarrow> bigIntOfDouble d | _ \<Rightarrow> Inl TypeError)"

fun fixIndices :: "int \<Rightarrow> nat list \<Rightarrow> byte list \<Rightarrow> byte list result" where
  "fixIndices sigVerifyIxIndex [] data = Inr data"
| "fixIndices sigVerifyIxIndex (i # is) data =
     bnd (writeBE 1 data sigVerifyIxIndex (3 + i * 11)) (\<lambda>data.
     bnd (writeBE 1 data sigVerifyIxIndex (6 + i * 11)) (\<lambda>data.
     bnd (writeBE 1 data sigVerifyIxIndex (11 + i * 11)) (\<lambda>data.
     fixIndices sigVerifyIxIndex is data)))"

definition unsafeFixSigVerifyIx :: "rawIx \<Rightarrow> int \<Rightarrow> rawIx result" where
  "unsafeFixSigVerifyIx ix sigVerifyIxIndex =
     (case ix of (program, keys, data) \<Rightarrow>
       bnd (readBE 1 data 0) (\<lambda>numSignatures.
       bnd (fixIndices sigVerifyIxIndex [0..<numSignatures] data) (\<lambda>data.
       Inr (program, keys, data))))"

definition rawInstruction :: "rawIx \<Rightarrow> instruction" where
  "rawInstruction ix = (case ix of (program, keys, data) \<Rightarrow> RawIx program keys data)"

definition postingTx :: "instruction list \<Rightarrow> pubkey list \<Rightarrow> int \<Rightarrow> string \<Rightarrow> confirmOptions option \<Rightarrow> preparedTransaction" where
  "postingTx ixs signers units name confirm = \<lparr>pt_ixs = ixs, pt_signers = signers, pt_computeUnits = units,
     pt_feeMicroLamports = 10, pt_nonceAccount = None, pt_addressLookupTableAccounts = None,
     pt_txName = Some name, pt_confirmOptions = confirm\<rparr>"

text \<open>The loop: the list was reversed, so popping takes the pairs in their order.\<close>

fun postingTxs :: "appConfig \<Rightarrow> pubkey \<Rightarrow> pubkey \<Rightarrow> instruction \<Rightarrow> confirmOptions option \<Rightarrow>
    (rawIx \<times> instruction) list \<Rightarrow> preparedTransaction list result" where
  "postingTxs cfg payer vaaSignatureSet vaaPostIx confirm [] = Inr []"
| "postingTxs cfg payer vaaSignatureSet vaaPostIx confirm ((sigVerifyIx, verifySigsIx) # rest) =
     bnd (unsafeFixSigVerifyIx sigVerifyIx 2) (\<lambda>sigVerifyIx.
     bnd (unitsOf (verifySignaturesComputeUnits cfg)) (\<lambda>verifyUnits.
     bnd (unitsOf (postVaaComputeUnits cfg)) (\<lambda>postUnits.
     bnd (postingTxs cfg payer vaaSignatureSet vaaPostIx confirm rest) (\<lambda>txs.
     Inr (postingTx [rawInstruction sigVerifyIx, verifySigsIx] [payer, vaaSignatureSet] verifyUnits ''verifySignatures'' confirm
          # postingTx [vaaPostIx] [payer] postUnits ''postVAA'' confirm # txs)))))"

definition preparePostVaaTxs :: "'w connection \<Rightarrow> 'w coreUtils \<Rightarrow> appConfig \<Rightarrow> meProgram \<Rightarrow> pubkey \<Rightarrow> pubkey \<Rightarrow> vaa \<Rightarrow>
    confirmOptions option \<Rightarrow> ('w, preparedTransaction list) eff" where
  "preparePostVaaTxs conn core cfg me payer vaaSignatureSet vaa confirm =
     thenE (readE conn (\<lambda>env. me_coreBridgeProgramId env me)) (\<lambda>bridge.
     thenE (createVerifySignaturesInstructions core bridge payer vaa vaaSignatureSet) (\<lambda>pairs.
     thenE (liftE (createPostVaaInstruction core bridge payer vaa vaaSignatureSet)) (\<lambda>vaaPostIx.
     liftE (postingTxs cfg payer vaaSignatureSet vaaPostIx confirm pairs))))"

section \<open>Containers\<close>

text \<open>
  \<open>CachedBlockhash\<close>: the latest blockhash and a counter that makes fees unique. A slot notification asks for a
  new blockhash every so many slots, and at every slot after a request that failed.
\<close>

record cachedBlockhash =
  cb_cached :: "blockhash option"
  cb_noise :: int
  cb_tryAgain :: bool

definition newCachedBlockhash :: cachedBlockhash where
  "newCachedBlockhash = \<lparr>cb_cached = None, cb_noise = 0, cb_tryAgain = False\<rparr>"

definition updateBlockhash :: "blockhash \<Rightarrow> cachedBlockhash \<Rightarrow> cachedBlockhash" where
  "updateBlockhash fetched c = c\<lparr>cb_cached := Some fetched, cb_noise := 0\<rparr>"

definition latestBlockhash :: "cachedBlockhash \<Rightarrow> blockhash option" where
  "latestBlockhash c = cb_cached c"

definition addNoise :: "int \<Rightarrow> cachedBlockhash \<Rightarrow> int \<times> cachedBlockhash" where
  "addNoise v c = (v + cb_noise c, c\<lparr>cb_noise := cb_noise c + 1\<rparr>)"

definition wantsBlockhash :: "int \<Rightarrow> int \<Rightarrow> cachedBlockhash \<Rightarrow> bool" where
  "wantsBlockhash updateBlockhashFrequency slot c \<longleftrightarrow> cb_tryAgain c \<or> slot mod updateBlockhashFrequency = 0"

definition onBlockhash :: "blockhash result \<Rightarrow> cachedBlockhash \<Rightarrow> cachedBlockhash" where
  "onBlockhash r c =
     (case r of
        Inl e \<Rightarrow> c\<lparr>cb_tryAgain := True\<rparr>
      | Inr fetched \<Rightarrow> (updateBlockhash fetched c)\<lparr>cb_tryAgain := False\<rparr>)"

text \<open>\<open>OfferToken\<close>.\<close>

record offerToken =
  ot_authority :: pubkey
  ot_address :: pubkey
  ot_balance :: int

definition newOfferToken :: "env \<Rightarrow> meProgram \<Rightarrow> pubkey \<Rightarrow> offerToken result" where
  "newOfferToken env me authority =
     bnd (associatedTokenAddress env (me_mint me) authority False) (\<lambda>address.
     Inr \<lparr>ot_authority = authority, ot_address = address, ot_balance = 0\<rparr>)"

definition fetchOfferBalance :: "env \<Rightarrow> offerToken \<Rightarrow> offerToken result" where
  "fetchOfferBalance env t = bnd (getTokenAccount env (ot_address t)) (\<lambda>token. Inr (t\<lparr>ot_balance := ta_amount token\<rparr>))"

definition initializeOfferToken :: "env \<Rightarrow> meProgram \<Rightarrow> pubkey \<Rightarrow> offerToken result" where
  "initializeOfferToken env me authority = bnd (newOfferToken env me authority) (fetchOfferBalance env)"

definition updateOfferBalance :: "int \<Rightarrow> offerToken \<Rightarrow> offerToken" where
  "updateOfferBalance tokenBalance t = t\<lparr>ot_balance := tokenBalance\<rparr>"

section \<open>Executing with retries\<close>

text \<open>
  One turn of the loop of \<open>executeOrderWithRetry\<close>: whatever \<open>sendTx\<close> returns counts as a success, only a
  rejection is retried. The loop may run forever, so it is a partial function.
\<close>

definition executeAttempt :: "'w connection \<Rightarrow> ('w \<Rightarrow> blockhash option) \<Rightarrow> meProgram \<Rightarrow> pubkey \<Rightarrow> pubkey \<Rightarrow> pubkey \<Rightarrow>
    ('w, sendResponse) eff" where
  "executeAttempt conn latest me payer auction fastVaa =
     thenE (readE conn (\<lambda>env. me_executeFastOrderTx env me payer fastVaa (Some auction) None None [payer]
         \<lparr>to_feeMicroLamports = 69420, to_computeUnits = 290000, to_nonceAccount = None,
          to_addressLookupTableAccounts = None\<rparr>
         (Some \<lparr>co_skipPreflight = Some True, co_commitment = None\<rparr>))) (\<lambda>preppedTx w.
     sendTx conn preppedTx (latest w) w)"

partial_function (option) retryLoop :: "('w, 'a) eff \<Rightarrow> 'w \<Rightarrow> 'w option" where
  "retryLoop attempt w =
     (case attempt w of
        (Inl err, w) \<Rightarrow> retryLoop attempt w
      | (Inr response, w) \<Rightarrow> Some w)"

definition executeOrderWithRetry :: "'w connection \<Rightarrow> ('w \<Rightarrow> blockhash option) \<Rightarrow> meProgram \<Rightarrow> pubkey \<Rightarrow>
    pubkey \<Rightarrow> pubkey \<Rightarrow> 'w \<Rightarrow> 'w option" where
  "executeOrderWithRetry conn latest me payer auction fastVaa =
     retryLoop (executeAttempt conn latest me payer auction fastVaa)"

section \<open>Recording what is submitted\<close>

text \<open>The same connection with a log of the messages handed to \<open>sendTransaction\<close>.\<close>

definition keepLog :: "('w, 'a) eff \<Rightarrow> ('w \<times> txMessage list, 'a) eff" where
  "keepLog m = (\<lambda>(w, l). case m w of (r, w) \<Rightarrow> (r, w, l))"

definition recorded :: "'w connection \<Rightarrow> ('w \<times> txMessage list) connection" where
  "recorded conn = \<lparr>cn_env = (\<lambda>(w, l). cn_env conn w), cn_later = (\<lambda>(w, l). (cn_later conn w, l)),
     cn_getLatestBlockhash = keepLog (cn_getLatestBlockhash conn),
     cn_getNonceAndContext = (\<lambda>k. keepLog (cn_getNonceAndContext conn k)),
     cn_compile = cn_compile conn, cn_sign = cn_sign conn,
     cn_sendTransaction = (\<lambda>msg signers opts (w, l).
       case cn_sendTransaction conn msg signers opts w of (r, w) \<Rightarrow> (r, w, l @ [msg])),
     cn_confirmTransaction = (\<lambda>sig strategy commitment. keepLog (cn_confirmTransaction conn sig strategy commitment))\<rparr>"

text \<open>The caller's instructions in a message.\<close>

fun userIxsOf :: "txInstruction list \<Rightarrow> instruction list" where
  "userIxsOf [] = []"
| "userIxsOf (UserIx ix # is) = ix # userIxsOf is"
| "userIxsOf (_ # is) = userIxsOf is"

definition userIxs :: "txMessage \<Rightarrow> instruction list" where
  "userIxs msg = userIxsOf (tm_instructions msg)"

lemma userIxsOf_map [simp]: "userIxsOf (map UserIx ixs) = ixs"
  by (induction ixs) auto

lemma userIxs_UserIx: "ix \<in> set (userIxs msg) \<longleftrightarrow> UserIx ix \<in> set (tm_instructions msg)"
proof -
  have "ix \<in> set (userIxsOf is) \<longleftrightarrow> UserIx ix \<in> set is" for "is"
    by (induction "is" rule: userIxsOf.induct) auto
  then show ?thesis by (simp add: userIxs_def)
qed

text \<open>A property of effects: what it leaves of a state, and what it returns.\<close>

definition triple :: "('w \<Rightarrow> bool) \<Rightarrow> ('w, 'a) eff \<Rightarrow> ('a result \<Rightarrow> 'w \<Rightarrow> bool) \<Rightarrow> bool" where
  "triple P m Q \<longleftrightarrow> (\<forall>w. P w \<longrightarrow> (case m w of (r, w) \<Rightarrow> Q r w))"

lemma tripleD: "triple P m Q \<Longrightarrow> P w \<Longrightarrow> m w = (r, w') \<Longrightarrow> Q r w'"
  by (force simp: triple_def)

lemma triple_thenE:
  assumes "triple P m R" "\<And>x. triple (R (Inr x)) (f x) Q" "\<And>e w. R (Inl e) w \<Longrightarrow> Q (Inl e) w"
  shows "triple P (thenE m f) Q"
  unfolding triple_def
proof (intro allI impI)
  fix w
  assume "P w"
  obtain r w' where m: "m w = (r, w')" by force
  from tripleD [OF assms(1) \<open>P w\<close> m] have "R r w'" .
  with assms(2,3) m show "case thenE m f w of (r, w) \<Rightarrow> Q r w"
    by (cases r) (auto simp: thenE_def triple_def)
qed

lemma triple_liftE: "(\<And>w. P w \<Longrightarrow> Q r w) \<Longrightarrow> triple P (liftE r) Q"
  by (simp add: triple_def liftE_def)

lemma triple_retE: "(\<And>w. P w \<Longrightarrow> Q (Inr x) w) \<Longrightarrow> triple P (retE x) Q"
  by (simp add: retE_def triple_liftE)

lemma triple_catchE:
  assumes "triple P m R" "\<And>x w. R (Inr x) w \<Longrightarrow> Q (Inr x) w" "\<And>e w. R (Inl e) w \<Longrightarrow> Q (Inr d) w"
  shows "triple P (catchE m d) Q"
  unfolding triple_def
proof (intro allI impI)
  fix w
  assume "P w"
  obtain r w' where m: "m w = (r, w')" by force
  from tripleD [OF assms(1) \<open>P w\<close> m] have "R r w'" .
  with assms(2,3) m show "case catchE m d w of (r, w) \<Rightarrow> Q r w"
    by (cases r) (auto simp: catchE_def)
qed

lemma triple_weaken: "triple P m R \<Longrightarrow> (\<And>r w. R r w \<Longrightarrow> Q r w) \<Longrightarrow> triple P m Q"
  by (force simp: triple_def)

lemma triple_pre: "triple P' m Q \<Longrightarrow> (\<And>w. P w \<Longrightarrow> P' w) \<Longrightarrow> triple P m Q"
  by (force simp: triple_def)

lemma triple_pure: "(F \<Longrightarrow> triple P m Q) \<Longrightarrow> triple (\<lambda>w. P w \<and> F) m Q"
  by (auto simp: triple_def)

section \<open>The message of a transaction\<close>

text \<open>
  Whatever state predicate the fetching requests keep, building the message keeps; the message has the
  caller's instructions, behind two compute budget instructions unless there is a nonce account.
\<close>

definition messageOf :: "preparedTransaction \<Rightarrow> txMessage \<Rightarrow> bool" where
  "messageOf pt msg \<longleftrightarrow> userIxs msg = pt_ixs pt \<and>
     (pt_nonceAccount pt = None \<longrightarrow> drop 2 (tm_instructions msg) = map UserIx (pt_ixs pt))"

lemma sendMessage_triple:
  assumes "triple P (cn_getLatestBlockhash conn) (\<lambda>_. P)" "\<And>k. triple P (cn_getNonceAndContext conn k) (\<lambda>_. P)"
  shows "triple P (sendMessage conn pt cached)
    (\<lambda>r w. P w \<and> (case r of Inl e \<Rightarrow> True | Inr (msg, strategy) \<Rightarrow> messageOf pt msg))"
proof (cases "pt_nonceAccount pt")
  case None
  show ?thesis
    unfolding sendMessage_def None Let_def option.case
    by (rule triple_thenE [where R = "\<lambda>_. P"], cases cached)
      (auto simp: None messageOf_def userIxs_def intro!: assms(1) triple_retE triple_liftE
        triple_thenE [where R = "\<lambda>_. P"])
next
  case (Some k)
  have nonce: "triple P (getNonceAccountData conn k)
      (\<lambda>r w. P w \<and> (case r of Inl e \<Rightarrow> True | Inr n \<Rightarrow> \<exists>a b. na_advanceIxs n = [NonceAdvance a b]))"
    unfolding getNonceAccountData_def
    by (rule triple_thenE [where R = "\<lambda>_. P"])
      (auto intro!: assms(2) triple_retE triple_liftE split: option.splits)
  show ?thesis
    unfolding sendMessage_def Some Let_def option.case
    by (rule triple_thenE [OF nonce], simp only: sum.case, rule triple_pure)
      (auto simp: Some messageOf_def userIxs_def intro!: triple_retE triple_liftE
        triple_thenE [where R = "\<lambda>_. P"])
qed

text \<open>
  \<open>sendTx\<close> rejects only before anything is submitted; otherwise one message has been handed to the
  connection, which accepted it if the response is a success.
\<close>

lemma sendTx_triple:
  assumes "triple P (cn_getLatestBlockhash conn) (\<lambda>_. P)" "\<And>k. triple P (cn_getNonceAndContext conn k) (\<lambda>_. P)"
    and send: "\<And>msg. messageOf pt msg \<Longrightarrow> triple P (cn_sendTransaction conn msg (pt_signers pt) (pt_confirmOptions pt))
      (\<lambda>r. case r of Inl e \<Rightarrow> J | Inr sig \<Rightarrow> A)"
    and confirm: "\<And>sig strategy commitment. triple A (cn_confirmTransaction conn sig strategy commitment) (\<lambda>_. A)"
  shows "triple P (sendTx conn pt cached)
    (\<lambda>r w. case r of Inl e \<Rightarrow> P w | Inr response \<Rightarrow> A w \<or> J w \<and> \<not> sr_success response)"
proof -
  let ?Q = "\<lambda>r w. case r of Inl e \<Rightarrow> P w | Inr response \<Rightarrow> A w \<or> J w \<and> \<not> sr_success response"
  have "triple P (catchE (thenE (cn_sendTransaction conn msg (pt_signers pt) (pt_confirmOptions pt)) (\<lambda>signature.
        thenE (case Option.bind (pt_confirmOptions pt) co_commitment of
                 None \<Rightarrow> retE None
               | Some commitment \<Rightarrow> cn_confirmTransaction conn signature strategy commitment) (\<lambda>_.
        retE \<lparr>sr_success = True, sr_txSig = Some signature\<rparr>))) \<lparr>sr_success = False, sr_txSig = None\<rparr>) ?Q"
    if msg: "messageOf pt msg" for msg strategy
  proof (rule triple_catchE [where R = "\<lambda>r w. A w \<or> J w \<and> (\<exists>e. r = Inl e)"])
    show "triple P (thenE (cn_sendTransaction conn msg (pt_signers pt) (pt_confirmOptions pt)) (\<lambda>signature.
        thenE (case Option.bind (pt_confirmOptions pt) co_commitment of
                 None \<Rightarrow> retE None
               | Some commitment \<Rightarrow> cn_confirmTransaction conn signature strategy commitment) (\<lambda>_.
        retE \<lparr>sr_success = True, sr_txSig = Some signature\<rparr>))) (\<lambda>r w. A w \<or> J w \<and> (\<exists>e. r = Inl e))"
      by (rule triple_thenE [OF send [OF msg]])
        (auto intro!: triple_retE confirm triple_thenE [where P = A and R = "\<lambda>_. A"] split: option.splits)
  qed auto
  then show ?thesis
    unfolding sendTx_def
    by (intro triple_thenE [OF sendMessage_triple [OF assms(1,2)]])
      (auto intro!: triple_pure triple_liftE triple_thenE [where R = "\<lambda>_. P"] split: prod.splits)
qed

text \<open>On a recorded connection: a rejected call leaves the log, a response adds one message.\<close>

lemma keepLog_triple: "triple (\<lambda>(w, l). L l) (keepLog m) (\<lambda>r (w, l). L l)"
  by (auto simp: triple_def keepLog_def split: prod.splits)

lemma sendTx_recorded:
  assumes "sendTx (recorded conn) pt cached (w, l) = (r, w', l')"
  shows "case r of Inl e \<Rightarrow> l' = l | Inr response \<Rightarrow> \<exists>msg. l' = l @ [msg] \<and> messageOf pt msg"
proof -
  have "triple (\<lambda>(w, l'). l' = l) (sendTx (recorded conn) pt cached)
     (\<lambda>r w. case r of Inl e \<Rightarrow> (\<lambda>(w, l'). l' = l) w | Inr response \<Rightarrow>
        (\<lambda>(w, l'). \<exists>msg. l' = l @ [msg] \<and> messageOf pt msg) w \<or>
        (\<lambda>(w, l'). \<exists>msg. l' = l @ [msg] \<and> messageOf pt msg) w \<and> \<not> sr_success response)"
    by (rule sendTx_triple)
      (auto simp: recorded_def triple_def keepLog_def split: sum.splits prod.splits)
  from tripleD [OF this _ assms] show ?thesis by (cases r) auto
qed

text \<open>
  The same connection with a log of the messages handed to \<open>sendTransaction\<close> and whether each was sent and, if the
  caller asked for it, confirmed without an error.
\<close>

definition withOutcomes :: "'w connection \<Rightarrow> ('w \<times> (txMessage \<times> bool) list) connection" where
  "withOutcomes conn = \<lparr>cn_env = (\<lambda>(w, l). cn_env conn w), cn_later = (\<lambda>(w, l). (cn_later conn w, l)),
     cn_getLatestBlockhash = (\<lambda>(w, l). case cn_getLatestBlockhash conn w of (r, w) \<Rightarrow> (r, w, l)),
     cn_getNonceAndContext = (\<lambda>k (w, l). case cn_getNonceAndContext conn k w of (r, w) \<Rightarrow> (r, w, l)),
     cn_compile = cn_compile conn, cn_sign = cn_sign conn,
     cn_sendTransaction = (\<lambda>msg signers opts (w, l).
       case cn_sendTransaction conn msg signers opts w of (r, w) \<Rightarrow> (r, w, l @ [(msg, \<exists>sig. r = Inr sig)])),
     cn_confirmTransaction = (\<lambda>sig strategy commitment (w, l).
       case cn_confirmTransaction conn sig strategy commitment w of (r, w) \<Rightarrow>
         (r, w, butlast l @ [(fst (last l), \<exists>x. r = Inr x)]))\<rparr>"

text \<open>One attempt submits one message, and its response says whether that succeeded; if it throws, nothing was submitted.\<close>

lemma sendTx_outcome:
  assumes "sendTx (withOutcomes conn) pt cached (w, l) = (r, w', l')"
  shows "case r of Inl e \<Rightarrow> l' = l
    | Inr response \<Rightarrow> \<exists>msg. l' = l @ [(msg, sr_success response)] \<and> userIxs msg = pt_ixs pt"
proof -
  have msg: "triple (\<lambda>(w, l'). l' = l) (sendMessage (withOutcomes conn) pt cached)
    (\<lambda>r w. (\<lambda>(w, l'). l' = l) w \<and> (case r of Inl e \<Rightarrow> True | Inr (msg, strategy) \<Rightarrow> messageOf pt msg))"
    by (rule sendMessage_triple) (auto simp: withOutcomes_def triple_def split: prod.splits)
  obtain r1 w1 l1 where m: "sendMessage (withOutcomes conn) pt cached (w, l) = (r1, w1, l1)" by (metis prod.exhaust)
  from tripleD [OF msg _ m] have l1: "l1 = l" and
    "case r1 of Inl e \<Rightarrow> True | Inr (msg, strategy) \<Rightarrow> messageOf pt msg" by auto
  show ?thesis
  proof (cases r1)
    case (Inl e)
    with assms m l1 show ?thesis by (auto simp: sendTx_def thenE_def)
  next
    case (Inr p)
    then obtain msg strategy where p: "r1 = Inr (msg, strategy)" by (cases p) auto
    with \<open>case r1 of Inl e \<Rightarrow> True | Inr (msg, strategy) \<Rightarrow> messageOf pt msg\<close> have ixs: "userIxs msg = pt_ixs pt"
      by (simp add: messageOf_def)
    show ?thesis
      using assms ixs unfolding sendTx_def thenE_def m p l1
      by (auto simp: liftE_def catchE_def retE_def withOutcomes_def thenE_def split: sum.splits prod.splits option.splits)
  qed
qed

text \<open>
  The attempts at one transaction: at most \<open>n\<close> (one if it skips the preflight), each with its instructions, all but the last
  failed.
\<close>

definition attemptsAt :: "nat \<Rightarrow> preparedTransaction \<Rightarrow> (txMessage \<times> bool) list \<Rightarrow> bool" where
  "attemptsAt n pt run \<longleftrightarrow> length run \<le> n \<and> (skipsPreflight pt \<longrightarrow> length run \<le> 1) \<and>
     list_all (\<lambda>(msg, sent). userIxs msg = pt_ixs pt) run \<and> list_all (\<lambda>(msg, sent). \<not> sent) (butlast run)"

definition succeededAt :: "preparedTransaction \<Rightarrow> (txMessage \<times> bool) list \<Rightarrow> bool" where
  "succeededAt pt run \<longleftrightarrow> \<not> skipsPreflight pt \<and> run \<noteq> [] \<and> snd (last run)"

lemma sendRetry_outcome:
  "sendRetry (withOutcomes conn) pt cached n (w, l) = (r, w', l') \<Longrightarrow>
   \<exists>run. l' = l @ run \<and> attemptsAt n pt run \<and>
     (case r of Inl e \<Rightarrow> \<not> succeededAt pt run
      | Inr success \<Rightarrow> success = succeededAt pt run \<and>
          (\<not> success \<longrightarrow> length run = (if skipsPreflight pt then min n 1 else n)))"
proof (induction n arbitrary: w l)
  case 0
  then show ?case by (auto simp: retE_def liftE_def attemptsAt_def succeededAt_def)
next
  case (Suc n)
  obtain r1 w1 l1 where s: "sendTx (withOutcomes conn) pt cached (w, l) = (r1, w1, l1)" by (metis prod.exhaust)
  note sent = sendTx_outcome [OF s]
  show ?case
  proof (cases r1)
    case (Inl e)
    with sent s Suc.prems have "r = Inl e" "l' = l @ []" by (auto simp: thenE_def)
    then show ?thesis by (intro exI [of _ "[]"]) (simp add: attemptsAt_def succeededAt_def)
  next
    case (Inr response)
    with sent obtain msg where l1: "l1 = l @ [(msg, sr_success response)]" "userIxs msg = pt_ixs pt" by auto
    show ?thesis
    proof (cases "skipsPreflight pt \<or> sr_success response")
      case True
      with Inr s l1 Suc.prems have "l' = l @ [(msg, sr_success response)]" "r = Inr (\<not> skipsPreflight pt)"
        by (auto simp: thenE_def retE_def liftE_def split: if_splits)
      with True l1(2) show ?thesis
        by (intro exI [of _ "[(msg, sr_success response)]"]) (auto simp: attemptsAt_def succeededAt_def)
    next
      case False
      with Inr s Suc.prems have "sendRetry (withOutcomes conn) pt cached n (w1, l1) = (r, w', l')"
        by (simp add: thenE_def)
      from Suc.IH [OF this] obtain run where run: "l' = l1 @ run" "attemptsAt n pt run"
        "case r of Inl e \<Rightarrow> \<not> succeededAt pt run
         | Inr success \<Rightarrow> success = succeededAt pt run \<and>
             (\<not> success \<longrightarrow> length run = (if skipsPreflight pt then min n 1 else n))" by blast
      have "attemptsAt (Suc n) pt ((msg, False) # run)" "succeededAt pt ((msg, False) # run) = succeededAt pt run"
        using run(2) l1(2) False by (auto simp: attemptsAt_def succeededAt_def)
      with run False l1(1) show ?thesis by (intro exI [of _ "(msg, False) # run"]) (auto split: sum.splits)
    qed
  qed
qed

section \<open>Properties\<close>

text \<open>
  C15. A batch is sent in order, within bounds, and stops at the first transaction that fails: whatever the chain
  answers, the messages that \<open>sendTxBatch\<close> submits fall into one run for each of the first transactions of the batch.
  A run has the instructions of its transaction, at most as many attempts as the retry count (five by
  default; one for a transaction that skips the preflight), and an attempt follows only a failed one. Every
  run but the last ends in an attempt that succeeded and does not skip the preflight, so nothing is submitted after a
  transaction that did not succeed; and if the batch returns before its end, the last run has used up its attempts
  without a success.
\<close>

theorem batch_in_order_bounded:
  assumes "sendTxBatch (withOutcomes conn) pts retryCount cached (w, []) = (r, w', log)"
    and "n = nat (orElse retryCount 5)"
  shows "\<exists>runs. log = concat runs \<and> length runs \<le> length pts \<and>
    list_all2 (attemptsAt n) (take (length runs) pts) runs \<and>
    list_all2 succeededAt (take (length (butlast runs)) pts) (butlast runs) \<and>
    (r = Inr () \<and> length runs < length pts \<longrightarrow>
       runs \<noteq> [] \<and> \<not> succeededAt (pts ! (length runs - 1)) (last runs) \<and>
       length (last runs) = (if skipsPreflight (pts ! (length runs - 1)) then min n 1 else n))"
proof -
  have "\<exists>runs. l' = l @ concat runs \<and> length runs \<le> length pts \<and>
      list_all2 (attemptsAt n) (take (length runs) pts) runs \<and>
      list_all2 succeededAt (take (length (butlast runs)) pts) (butlast runs) \<and>
      (r = Inr () \<and> length runs < length pts \<longrightarrow>
         runs \<noteq> [] \<and> \<not> succeededAt (pts ! (length runs - 1)) (last runs) \<and>
         length (last runs) = (if skipsPreflight (pts ! (length runs - 1)) then min n 1 else n))"
    if "sendTxBatch (withOutcomes conn) pts retryCount cached (w, l) = (r, w', l')" for r w' l' w l
    using that
  proof (induction pts arbitrary: w l)
    case Nil
    then show ?case by (auto simp: retE_def liftE_def)
  next
    case (Cons pt pts)
    obtain r1 w1 l1 where s: "sendRetry (withOutcomes conn) pt cached n (w, l) = (r1, w1, l1)"
      by (metis prod.exhaust)
    from sendRetry_outcome [OF s] obtain run where run: "l1 = l @ run" "attemptsAt n pt run"
      "case r1 of Inl e \<Rightarrow> \<not> succeededAt pt run
       | Inr success \<Rightarrow> success = succeededAt pt run \<and>
           (\<not> success \<longrightarrow> length run = (if skipsPreflight pt then min n 1 else n))" by blast
    show ?case
    proof (cases "r1 = Inr True")
      case True
      with s Cons.prems have "sendTxBatch (withOutcomes conn) pts retryCount cached (w1, l1) = (r, w', l')"
        by (simp add: thenE_def assms(2))
      from Cons.IH [OF this] obtain runs where runs: "l' = l1 @ concat runs" "length runs \<le> length pts"
        "list_all2 (attemptsAt n) (take (length runs) pts) runs"
        "list_all2 succeededAt (take (length (butlast runs)) pts) (butlast runs)"
        "r = Inr () \<and> length runs < length pts \<longrightarrow>
           runs \<noteq> [] \<and> \<not> succeededAt (pts ! (length runs - 1)) (last runs) \<and>
           length (last runs) = (if skipsPreflight (pts ! (length runs - 1)) then min n 1 else n)" by blast
      have ok: "succeededAt pt run" using run(3) True by simp
      show ?thesis
      proof (cases runs)
        case Nil
        with runs have "r = Inr () \<Longrightarrow> pts = []" by auto
        with Nil runs(1) run(1,2) show ?thesis by (intro exI [of _ "[run]"]) auto
      next
        case (Cons run' runs')
        with runs run(1,2) ok show ?thesis by (intro exI [of _ "run # runs"]) auto
      qed
    next
      case False
      with s Cons.prems have l': "l' = l1" "r = Inr () \<Longrightarrow> r1 = Inr False"
        by (cases r1; auto simp: thenE_def retE_def liftE_def assms(2))+
      have "\<not> succeededAt pt run \<and> length run = (if skipsPreflight pt then min n 1 else n)" if "r = Inr ()"
        using run(3) l'(2) [OF that] by simp
      with l'(1) run(1,2) show ?thesis by (intro exI [of _ "[run]"]) auto
    qed
  qed
  from this [OF assms(1)] show ?thesis by simp
qed

lemma executeAttempt_recorded:
  assumes "executeAttempt (recorded conn) latest me payer auction fastVaa (w, l) = (r, w', l')"
  shows "case r of Inl e \<Rightarrow> l' = l | Inr response \<Rightarrow> \<exists>msg. l' = l @ [msg]"
proof -
  obtain r1 where r1: "readE (recorded conn) (\<lambda>env. me_executeFastOrderTx env me payer fastVaa (Some auction) None None [payer]
         \<lparr>to_feeMicroLamports = 69420, to_computeUnits = 290000, to_nonceAccount = None,
          to_addressLookupTableAccounts = None\<rparr>
         (Some \<lparr>co_skipPreflight = Some True, co_commitment = None\<rparr>)) (w, l) = (r1, cn_later conn w, l)"
    by (simp add: readE_def recorded_def)
  show ?thesis
  proof (cases r1)
    case (Inl e)
    with assms r1 show ?thesis by (auto simp: executeAttempt_def thenE_def)
  next
    case (Inr pt)
    with assms r1 have "sendTx (recorded conn) pt (latest (cn_later conn w, l)) (cn_later conn w, l) = (r, w', l')"
      by (simp add: executeAttempt_def thenE_def)
    from sendTx_recorded [OF this] show ?thesis by (auto split: sum.splits)
  qed
qed

text \<open>\<open>retries m w w'\<close>: attempts from \<open>w\<close> that all threw led to \<open>w'\<close>.\<close>

inductive retries :: "('w, 'a) eff \<Rightarrow> 'w \<Rightarrow> 'w \<Rightarrow> bool" for m where
  none: "retries m w w"
| again: "m w = (Inl e, w1) \<Longrightarrow> retries m w1 w2 \<Longrightarrow> retries m w w2"

lemma retryLoop_runs:
  assumes "retryLoop m w = Some v"
  shows "\<exists>w1 x. retries m w w1 \<and> m w1 = (Inr x, v)"
proof (rule retryLoop.raw_induct [OF _ assms])
  fix loop :: "('a, 'b) eff \<Rightarrow> 'a \<Rightarrow> 'a option" and m :: "('a, 'b) eff" and w v
  assume IH: "\<And>m w v. loop m w = Some v \<Longrightarrow> \<exists>w1 x. retries m w w1 \<and> m w1 = (Inr x, v)"
    and run: "(case m w of (Inl err, w) \<Rightarrow> loop m w | (Inr response, w) \<Rightarrow> Some w) = Some v"
  obtain r w' where a: "m w = (r, w')" by force
  show "\<exists>w1 x. retries m w w1 \<and> m w1 = (Inr x, v)"
  proof (cases r)
    case (Inr x)
    with run a show ?thesis by (auto intro: retries.none)
  next
    case (Inl e)
    with run a have "loop m w' = Some v" by simp
    with IH a Inl show ?thesis by (blast intro: retries.again)
  qed
qed

lemma retryLoop_returns: "retries m w w1 \<Longrightarrow> m w1 = (Inr x, v) \<Longrightarrow> retryLoop m w = Some v"
  by (induction rule: retries.induct) (simp_all add: retryLoop.simps)

lemma retries_log:
  assumes "retries (executeAttempt (recorded conn) latest me payer auction fastVaa) w w'"
  shows "snd w' = snd w"
  using assms
proof (induction rule: retries.induct)
  case (again w e w1 w2)
  then show ?case
    using executeAttempt_recorded [of conn latest me payer auction fastVaa "fst w" "snd w" "Inl e" "fst w1" "snd w1"]
    by simp
qed simp

text \<open>
  C16. The executor's loop returns exactly if some attempt, after attempts that all threw, does not throw, and
  then it has submitted exactly one transaction: the first one that could be built and signed, whether
  or not it succeeded.
\<close>

theorem executeOrder_submits_once:
  "executeOrderWithRetry (recorded conn) latest me payer auction fastVaa (w, l) = Some (w', l') \<longleftrightarrow>
    (\<exists>w1 response msg. retries (executeAttempt (recorded conn) latest me payer auction fastVaa) (w, l) (w1, l) \<and>
      executeAttempt (recorded conn) latest me payer auction fastVaa (w1, l) = (Inr response, w', l') \<and>
      l' = l @ [msg])"
proof
  assume "executeOrderWithRetry (recorded conn) latest me payer auction fastVaa (w, l) = Some (w', l')"
  then obtain w1 l1 response where
    r: "retries (executeAttempt (recorded conn) latest me payer auction fastVaa) (w, l) (w1, l1)" and
    a: "executeAttempt (recorded conn) latest me payer auction fastVaa (w1, l1) = (Inr response, w', l')"
    unfolding executeOrderWithRetry_def using retryLoop_runs by (metis prod.exhaust)
  from retries_log [OF r] have "l1 = l" by simp
  moreover from executeAttempt_recorded [OF a] obtain msg where "l' = l1 @ [msg]" by auto
  ultimately show "\<exists>w1 response msg. retries (executeAttempt (recorded conn) latest me payer auction fastVaa) (w, l) (w1, l) \<and>
      executeAttempt (recorded conn) latest me payer auction fastVaa (w1, l) = (Inr response, w', l') \<and>
      l' = l @ [msg]" using r a by auto
qed (auto simp: executeOrderWithRetry_def intro: retryLoop_returns)

section \<open>Where the signature verification ends up\<close>

lemma at_writeBE_1:
  assumes "writeBE 1 data v off = Inr data'"
  shows "length data' = length data \<and> off < length data \<and> 0 \<le> v \<and> v < 256 \<and>
    (\<forall>j. data' ! j = (if j = off then word_of_int v else data ! j))"
proof -
  from assms have v: "0 \<le> v" "v < 256" and off: "off < length data"
    and d: "data' = splice data off [word_of_nat (nat v mod 256)]"
    by (auto simp: writeBE_def bufSet_def not_le split: if_splits)
  have "word_of_nat (nat v mod 256) = (word_of_int v :: byte)" using v by simp
  moreover have "splice data off [b] ! j = (if j = off then b else data ! j)" for b j
    using off by (auto simp: splice_def nth_append nth_Cons')
  ultimately show ?thesis using v off by (simp add: d length_splice)
qed

lemma fixIndices_spec:
  "fixIndices v is data = Inr data' \<Longrightarrow> length data' = length data \<and>
   (\<forall>i\<in>set is. 11 + i * 11 < length data) \<and>
   (\<forall>j. data' ! j = (if \<exists>i\<in>set is. j \<in> {3 + i * 11, 6 + i * 11, 11 + i * 11} then word_of_int v else data ! j))"
proof (induction v "is" data rule: fixIndices.induct)
  case (2 v i "is" data)
  then obtain d1 d2 d3 where w: "writeBE 1 data v (3 + i * 11) = Inr d1" "writeBE 1 d1 v (6 + i * 11) = Inr d2"
    "writeBE 1 d2 v (11 + i * 11) = Inr d3" and r: "fixIndices v is d3 = Inr data'"
    by (auto simp: bnd_eq_Inr_iff)
  from 2(1) [OF w r] at_writeBE_1 [OF w(1)] at_writeBE_1 [OF w(2)] at_writeBE_1 [OF w(3)]
  show ?case by auto
qed simp

lemma sendMessage_messageOf:
  assumes "sendMessage conn pt cached w = (Inr (msg, strategy), w')"
  shows "messageOf pt msg"
proof -
  have "triple (\<lambda>_. True) (sendMessage conn pt cached)
    (\<lambda>r w. True \<and> (case r of Inl e \<Rightarrow> True | Inr (msg, strategy) \<Rightarrow> messageOf pt msg))"
    by (rule sendMessage_triple) (simp_all add: triple_def)
  from tripleD [OF this _ assms] show ?thesis by simp
qed

lemma postingTxs_nth:
  "postingTxs cfg payer vaaSignatureSet post confirm pairs = Inr txs \<Longrightarrow> i < length pairs \<Longrightarrow>
   \<exists>fixed verifyUnits postUnits. unsafeFixSigVerifyIx (fst (pairs ! i)) 2 = Inr fixed \<and>
     length txs = 2 * length pairs \<and>
     txs ! (2 * i) = postingTx [rawInstruction fixed, snd (pairs ! i)] [payer, vaaSignatureSet] verifyUnits ''verifySignatures'' confirm \<and>
     txs ! (2 * i + 1) = postingTx [post] [payer] postUnits ''postVAA'' confirm"
proof (induction cfg payer vaaSignatureSet post confirm pairs arbitrary: txs i rule: postingTxs.induct)
  case (2 cfg payer vaaSignatureSet post confirm sig verify rest)
  from 2(2) obtain fixed u1 u2 txs' where f: "unsafeFixSigVerifyIx sig 2 = Inr fixed"
    "unitsOf (verifySignaturesComputeUnits cfg) = Inr u1" "unitsOf (postVaaComputeUnits cfg) = Inr u2"
    and r: "postingTxs cfg payer vaaSignatureSet post confirm rest = Inr txs'"
    and txs: "txs = postingTx [rawInstruction fixed, verify] [payer, vaaSignatureSet] u1 ''verifySignatures'' confirm #
      postingTx [post] [payer] u2 ''postVAA'' confirm # txs'"
    by (auto simp: bnd_eq_Inr_iff)
  have len: "length txs' = 2 * length rest"
  proof (cases rest)
    case Nil
    with r show ?thesis by simp
  next
    case (Cons p ps)
    with 2(1) [OF f r, of 0] show ?thesis by auto
  qed
  show ?case
  proof (cases i)
    case 0
    with f txs len show ?thesis by auto
  next
    case (Suc j)
    with 2(1) [OF f r, of j] 2(3) txs len show ?thesis by auto
  qed
qed simp

section \<open>Posting between verifications\<close>

text \<open>
  \<open>executed w\<close> are the instructions that the chain has executed in the world \<open>w\<close>: a rejected message adds none,
  an accepted one at most its own, nothing else adds any.
\<close>

definition chainRecords :: "'w connection \<Rightarrow> ('w \<Rightarrow> instruction set) \<Rightarrow> bool" where
  "chainRecords conn executed \<longleftrightarrow>
     (\<forall>w. executed (snd (cn_getLatestBlockhash conn w)) \<subseteq> executed w) \<and>
     (\<forall>k w. executed (snd (cn_getNonceAndContext conn k w)) \<subseteq> executed w) \<and>
     (\<forall>sig strategy commitment w. executed (snd (cn_confirmTransaction conn sig strategy commitment w)) \<subseteq> executed w) \<and>
     (\<forall>msg signers opts w. case cn_sendTransaction conn msg signers opts w of
        (Inl e, w') \<Rightarrow> executed w' \<subseteq> executed w
      | (Inr sig, w') \<Rightarrow> executed w' \<subseteq> executed w \<union> set (userIxs msg))"

lemma triple_subset:
  assumes "\<forall>w. executed (snd (m w)) \<subseteq> executed w"
  shows "triple (\<lambda>w. F \<and> executed w \<subseteq> S) m (\<lambda>_ w. F \<and> executed w \<subseteq> S)"
  unfolding triple_def
proof (intro allI impI)
  fix w
  assume "F \<and> executed w \<subseteq> S"
  with assms have "F \<and> executed (snd (m w)) \<subseteq> S" by blast
  then show "case m w of (r, w) \<Rightarrow> F \<and> executed w \<subseteq> S" by (simp add: case_prod_beta)
qed

lemma sendTx_records:
  assumes "chainRecords conn executed"
    and send: "\<And>msg w. messageOf pt msg \<Longrightarrow> executed w \<subseteq> S \<Longrightarrow>
      (case cn_sendTransaction conn msg (pt_signers pt) (pt_confirmOptions pt) w of
        (Inl e, w') \<Rightarrow> True | (Inr sig, w') \<Rightarrow> accepted)"
  shows "triple (\<lambda>w. executed w \<subseteq> S) (sendTx conn pt cached)
    (\<lambda>r w. case r of Inl e \<Rightarrow> executed w \<subseteq> S
       | Inr response \<Rightarrow> accepted \<and> executed w \<subseteq> S \<union> set (pt_ixs pt) \<or> executed w \<subseteq> S \<and> \<not> sr_success response)"
proof (rule sendTx_triple)
  show "triple (\<lambda>w. executed w \<subseteq> S) (cn_getLatestBlockhash conn) (\<lambda>_ w. executed w \<subseteq> S)"
    using assms(1) triple_subset [of executed "cn_getLatestBlockhash conn" True S] unfolding chainRecords_def by simp
  show "triple (\<lambda>w. executed w \<subseteq> S) (cn_getNonceAndContext conn k) (\<lambda>_ w. executed w \<subseteq> S)" for k
    using assms(1) triple_subset [of executed "cn_getNonceAndContext conn k" True S] unfolding chainRecords_def by simp
  show "triple (\<lambda>w. accepted \<and> executed w \<subseteq> S \<union> set (pt_ixs pt))
       (cn_confirmTransaction conn sig strategy commitment) (\<lambda>_ w. accepted \<and> executed w \<subseteq> S \<union> set (pt_ixs pt))"
    for sig strategy commitment
    by (rule triple_subset) (use assms(1) in \<open>simp add: chainRecords_def\<close>)
  fix msg
  assume msg: "messageOf pt msg"
  show "triple (\<lambda>w. executed w \<subseteq> S) (cn_sendTransaction conn msg (pt_signers pt) (pt_confirmOptions pt))
    (\<lambda>r. case r of Inl e \<Rightarrow> \<lambda>w. executed w \<subseteq> S | Inr sig \<Rightarrow> \<lambda>w. accepted \<and> executed w \<subseteq> S \<union> set (pt_ixs pt))"
    unfolding triple_def
  proof (intro allI impI)
    fix w
    assume w: "executed w \<subseteq> S"
    obtain r w' where s: "cn_sendTransaction conn msg (pt_signers pt) (pt_confirmOptions pt) w = (r, w')" by force
    have rec: "case cn_sendTransaction conn msg (pt_signers pt) (pt_confirmOptions pt) w of
        (Inl e, w') \<Rightarrow> executed w' \<subseteq> executed w
      | (Inr sig, w') \<Rightarrow> executed w' \<subseteq> executed w \<union> set (userIxs msg)"
      using assms(1) [unfolded chainRecords_def, THEN conjunct2, THEN conjunct2, THEN conjunct2] by (elim allE)
    show "case cn_sendTransaction conn msg (pt_signers pt) (pt_confirmOptions pt) w of (r, w) \<Rightarrow>
        (case r of Inl e \<Rightarrow> \<lambda>w. executed w \<subseteq> S | Inr sig \<Rightarrow> \<lambda>w. accepted \<and> executed w \<subseteq> S \<union> set (pt_ixs pt)) w"
    proof (cases r)
      case (Inl e)
      with rec s w show ?thesis by auto
    next
      case (Inr sig)
      with rec s w msg have "executed w' \<subseteq> S \<union> set (pt_ixs pt)" by (auto simp: messageOf_def)
      with send [OF msg w] s Inr show ?thesis by simp
    qed
  qed
qed

lemma sendRetry_records:
  assumes "chainRecords conn executed"
  shows "triple (\<lambda>w. executed w \<subseteq> S) (sendRetry conn pt cached n) (\<lambda>_ w. executed w \<subseteq> S \<union> set (pt_ixs pt))"
proof -
  have "triple (\<lambda>w. executed w \<subseteq> S \<union> set (pt_ixs pt)) (sendRetry conn pt cached n)
      (\<lambda>_ w. executed w \<subseteq> S \<union> set (pt_ixs pt))"
  proof (induction n)
    case (Suc n)
    have "triple (\<lambda>w. executed w \<subseteq> S \<union> set (pt_ixs pt)) (sendTx conn pt cached)
        (\<lambda>r w. executed w \<subseteq> S \<union> set (pt_ixs pt))"
      by (rule triple_weaken [OF sendTx_records [OF assms, where accepted = True]])
        (auto split: sum.splits prod.splits)
    then show ?case
      unfolding sendRetry.simps by (rule triple_thenE) (auto intro: triple_retE Suc)
  qed (auto intro: triple_retE)
  then show ?thesis by (rule triple_pre) auto
qed

lemma sendRetry_rejected:
  assumes "chainRecords conn executed"
    and "\<And>msg signers opts w. messageOf pt msg \<Longrightarrow> executed w \<subseteq> S \<Longrightarrow>
      \<exists>e w'. cn_sendTransaction conn msg signers opts w = (Inl e, w')"
  shows "triple (\<lambda>w. executed w \<subseteq> S) (sendRetry conn pt cached n) (\<lambda>r w. executed w \<subseteq> S \<and> r \<noteq> Inr True)"
proof (induction n)
  case (Suc n)
  have "triple (\<lambda>w. executed w \<subseteq> S) (sendTx conn pt cached)
      (\<lambda>r w. case r of Inl e \<Rightarrow> executed w \<subseteq> S
       | Inr response \<Rightarrow> False \<and> executed w \<subseteq> S \<union> set (pt_ixs pt) \<or> executed w \<subseteq> S \<and> \<not> sr_success response)"
  proof (rule sendTx_records [OF assms(1)])
    fix msg w
    assume "messageOf pt msg" "executed w \<subseteq> S"
    from assms(2) [OF this] obtain e w' where
      "cn_sendTransaction conn msg (pt_signers pt) (pt_confirmOptions pt) w = (Inl e, w')" by blast
    then show "case cn_sendTransaction conn msg (pt_signers pt) (pt_confirmOptions pt) w of
        (Inl e, w') \<Rightarrow> True | (Inr sig, w') \<Rightarrow> False" by simp
  qed
  then show ?case
    unfolding sendRetry.simps by (rule triple_thenE) (auto intro!: triple_retE triple_pure Suc)
qed (auto intro: triple_retE)

section \<open>Properties of posting\<close>

text \<open>
  C17. Every signature verification names itself: in the message that \<open>sendTx\<close> compiles for a verifying
  transaction, the secp256k1 instruction is at position two, and in its data the three instruction
  indices of each of its signatures are two while nothing else has changed.
\<close>

theorem sig_verify_names_itself:
  assumes "postingTxs cfg payer vaaSignatureSet post confirm pairs = Inr txs"
    and "i < length pairs" "fst (pairs ! i) = (program, keys, data)"
    and "sendMessage conn (txs ! (2 * i)) cached w = (Inr (msg, strategy), w')"
  shows "\<exists>data'. tm_instructions msg ! 2 = UserIx (RawIx program keys data') \<and> length data' = length data \<and>
    (\<forall>j. data' ! j = (if \<exists>k<unat (data ! 0). j \<in> {3 + k * 11, 6 + k * 11, 11 + k * 11} then 2 else data ! j))"
proof -
  from postingTxs_nth [OF assms(1,2)] obtain fixed verifyUnits where
    fixed: "unsafeFixSigVerifyIx (program, keys, data) 2 = Inr fixed" and
    tx: "txs ! (2 * i) = postingTx [rawInstruction fixed, snd (pairs ! i)] [payer, vaaSignatureSet] verifyUnits ''verifySignatures'' confirm"
    by (auto simp: assms(3))
  from fixed obtain n data' where n: "readBE 1 data 0 = Inr n" and d: "fixIndices 2 [0..<n] data = Inr data'"
    and f: "fixed = (program, keys, data')"
    by (auto simp: unsafeFixSigVerifyIx_def bnd_eq_Inr_iff)
  from n have "n = unat (data ! 0)"
    by (cases data) (auto simp: readBE_def beNat_def split: if_splits)
  moreover from sendMessage_messageOf [OF assms(4)] have "drop 2 (tm_instructions msg) =
      [UserIx (RawIx program keys data'), UserIx (snd (pairs ! i))]"
    by (simp add: tx postingTx_def messageOf_def f rawInstruction_def)
  then have "tm_instructions msg ! 2 = UserIx (RawIx program keys data')"
    by (metis drop_eq_Nil hd_drop_conv_nth linorder_not_less list.sel(1) list.discI)
  ultimately show ?thesis using fixIndices_spec [OF d] by (intro exI [of _ data']) (auto simp: atLeast0LessThan)
qed

text \<open>
  C35. A VAA whose signatures need more than one verification is never posted: as the posting transaction is
  put after every verification and is rejected until the last one has been executed, the batch ends
  at the first posting transaction, and only the first verification has been executed, not the other
  ones and not what comes after, such as the initial offer.
\<close>

theorem post_before_last_verification_stalls:
  assumes "chainRecords conn executed"
    and "\<And>msg signers opts w. post \<in> set (userIxs msg) \<Longrightarrow> verify \<notin> executed w \<Longrightarrow>
      \<exists>e w'. cn_sendTransaction conn msg signers opts w = (Inl e, w')"
    and "postingTxs cfg payer vaaSignatureSet post confirm (first # (sig, verify) # pairs) = Inr txs"
    and "verify \<notin> executed w" "verify \<notin> set (pt_ixs (txs ! 0))"
  shows "executed (snd (sendTxBatch conn (txs @ later) retryCount cached w)) \<subseteq> executed w \<union> set (pt_ixs (txs ! 0))"
proof -
  let ?n = "nat (orElse retryCount 5)" and ?S = "executed w \<union> set (pt_ixs (txs ! 0))"
  from postingTxs_nth [OF assms(3), of 0] obtain tx1 tx2 rest where txs: "txs = tx1 # tx2 # rest" and tx2: "pt_ixs tx2 = [post]"
    by (cases txs; cases "tl txs") (auto simp: postingTx_def)
  have 1: "triple (\<lambda>x. executed x \<subseteq> executed w) (sendRetry conn tx1 cached ?n) (\<lambda>_ x. executed x \<subseteq> ?S)"
    using sendRetry_records [OF assms(1), of "executed w" tx1] by (simp add: txs)
  have 2: "triple (\<lambda>x. executed x \<subseteq> ?S) (sendRetry conn tx2 cached ?n) (\<lambda>r x. executed x \<subseteq> ?S \<and> r \<noteq> Inr True)"
  proof (rule sendRetry_rejected [OF assms(1)])
    fix msg signers opts x
    assume "messageOf tx2 msg" "executed x \<subseteq> ?S"
    with assms(4,5) have "post \<in> set (userIxs msg)" "verify \<notin> executed x"
      by (auto simp: messageOf_def tx2)
    then show "\<exists>e w'. cn_sendTransaction conn msg signers opts x = (Inl e, w')" by (rule assms(2))
  qed
  have 3: "triple (\<lambda>x. executed x \<subseteq> ?S) (sendTxBatch conn (tx2 # rest @ later) retryCount cached) (\<lambda>_ x. executed x \<subseteq> ?S)"
    unfolding sendTxBatch.simps by (rule triple_thenE [OF 2]) (auto simp: triple_def retE_def liftE_def)
  have "triple (\<lambda>x. executed x \<subseteq> executed w) (sendTxBatch conn (txs @ later) retryCount cached) (\<lambda>_ x. executed x \<subseteq> ?S)"
    unfolding txs append_Cons sendTxBatch.simps(2) [of conn tx1]
    by (rule triple_thenE [OF 1 [unfolded txs]])
      (use 3 in \<open>auto simp: txs intro!: triple_retE split: if_splits\<close>)
  then show ?thesis by (simp add: triple_def case_prod_beta)
qed

section \<open>An example chain\<close>

text \<open>The world is the set of executed instructions; \<open>rejects\<close> says which messages the chain refuses.\<close>

definition demoConn :: "env \<Rightarrow> (instruction set \<Rightarrow> txMessage \<Rightarrow> bool) \<Rightarrow> instruction set connection" where
  "demoConn env rejects = \<lparr>cn_env = (\<lambda>_. env), cn_later = (\<lambda>w. w),
     cn_getLatestBlockhash = retE \<lparr>bh_blockhash = ''hash'', bh_lastValidBlockHeight = 1\<rparr>,
     cn_getNonceAndContext = (\<lambda>_. liftE (Inl RpcError)), cn_compile = (\<lambda>_. Inr ()), cn_sign = (\<lambda>_ _. Inr ()),
     cn_sendTransaction = (\<lambda>msg _ _ w. if rejects w msg then (Inl RpcError, w) else (Inr ''signature'', w \<union> set (userIxs msg))),
     cn_confirmTransaction = (\<lambda>_ _ _. retE None)\<rparr>"

definition demoApp :: appConfig where
  "demoApp = \<lparr>ac_cfg = demoConfig\<lparr>ec_computeUnits := \<lparr>cu_verifySignatures = Some (JNum (Dbl 360000 0)),
       cu_postVaa = Some (JNum (Dbl 100000 0)), cu_settleAuctionNoneCctp = None,
       cu_settleAuctionNoneLocal = None, cu_settleAuctionComplete = None, cu_initiateAuction = None\<rparr>\<rparr>,
     ac_chainCfgs = (\<lambda>_. None), ac_core = (\<lambda>_. None)\<rparr>"

definition demoIx :: "byte \<Rightarrow> instruction" where
  "demoIx b = RawIx [b] [] []"

definition demoPairs :: "(rawIx \<times> instruction) list" where
  "demoPairs = [(([1], [], [0]), demoIx 2), (([1], [], [0]), demoIx 3)]"

definition demoPosting :: "preparedTransaction list" where
  "demoPosting =
     [postingTx [RawIx [1] [] [0], demoIx 2] [[8], [9]] 360000 ''verifySignatures'' None,
      postingTx [demoIx 4] [[8]] 100000 ''postVAA'' None,
      postingTx [RawIx [1] [] [0], demoIx 3] [[8], [9]] 360000 ''verifySignatures'' None,
      postingTx [demoIx 4] [[8]] 100000 ''postVAA'' None]"

lemma demo_posting: "postingTxs demoApp [8] [9] (demoIx 4) None demoPairs = Inr demoPosting"
  by (simp add: demoPairs_def demoPosting_def unsafeFixSigVerifyIx_def readBE_def beNat_def unitsOf_def demoApp_def
      verifySignaturesComputeUnits_def postVaaComputeUnits_def bigIntOfDouble_def rawInstruction_def)

lemma demo_records: "chainRecords (demoConn env rejects) (\<lambda>w. w)"
  by (simp add: chainRecords_def demoConn_def retE_def liftE_def)

theorem post_before_last_verification_stalls_witness:
  "\<forall>env. snd (sendTxBatch (demoConn env (\<lambda>w msg. demoIx 4 \<in> set (userIxs msg) \<and> demoIx 3 \<notin> w))
     (demoPosting @ [postingTx [demoIx 5] [[8]] 0 ''placeInitialOffer'' None]) None None {})
   \<subseteq> {RawIx [1] [] [0], demoIx 2}"
proof
  fix env
  let ?conn = "demoConn env (\<lambda>w msg. demoIx 4 \<in> set (userIxs msg) \<and> demoIx 3 \<notin> w)"
  let ?txs = "demoPosting @ [postingTx [demoIx 5] [[8]] 0 ''placeInitialOffer'' None]"
  have "postingTxs demoApp [8] [9] (demoIx 4) None ((([1], [], [0]), demoIx 2) # (([1], [], [0]), demoIx 3) # []) =
      Inr demoPosting"
    using demo_posting by (simp add: demoPairs_def)
  then have "snd (sendTxBatch ?conn ?txs None None {}) \<subseteq> {} \<union> set (pt_ixs (demoPosting ! 0))"
    by (rule post_before_last_verification_stalls [OF demo_records, rotated])
      (simp_all add: demoPosting_def postingTx_def demoIx_def demoConn_def)
  then show "snd (sendTxBatch ?conn ?txs None None {}) \<subseteq> {RawIx [1] [] [0], demoIx 2}"
    by (simp add: demoPosting_def postingTx_def)
qed

theorem sig_verify_names_itself_witness:
  "\<forall>env. \<exists>msg strategy w' data'.
     sendMessage (demoConn env (\<lambda>_ _. False)) (demoPosting ! 2) None {} = (Inr (msg, strategy), w') \<and>
     tm_instructions msg ! 2 = UserIx (RawIx [1] [] data') \<and> length data' = 1"
proof
  fix env
  obtain msg strategy w' where run:
    "sendMessage (demoConn env (\<lambda>_ _. False)) (demoPosting ! (2 * 1)) None {} = (Inr (msg, strategy), w')"
    by (simp add: demoPosting_def postingTx_def sendMessage_def demoConn_def payerKey_def retE_def liftE_def thenE_def)
  from sig_verify_names_itself [OF demo_posting _ _ run, of "[1]" "[]" "[0]"]
  have "\<exists>data'. tm_instructions msg ! 2 = UserIx (RawIx [1] [] data') \<and> length data' = 1"
    by (auto simp: demoPairs_def)
  with run show "\<exists>msg strategy w' data'.
     sendMessage (demoConn env (\<lambda>_ _. False)) (demoPosting ! 2) None {} = (Inr (msg, strategy), w') \<and>
     tm_instructions msg ! 2 = UserIx (RawIx [1] [] data') \<and> length data' = 1" by auto
qed

text \<open>On a chain that rejects everything the first transaction of a batch is tried five times, and nothing else is.\<close>

theorem batch_in_order_bounded_witness:
  "\<forall>env. \<exists>r w' log. sendTxBatch (withOutcomes (demoConn env (\<lambda>_ _. True))) demoPosting None None ({}, []) = (r, w', log) \<and>
     r = Inr () \<and> length log = 5 \<and> list_all (\<lambda>(msg, sent). userIxs msg = [RawIx [1] [] [0], demoIx 2]) log"
proof
  fix env
  let ?conn = "demoConn env (\<lambda>_ _. True)"
  obtain r w' log where run: "sendTxBatch (withOutcomes ?conn) demoPosting None None ({}, []) = (r, w', log)"
    by (metis prod.exhaust)
  have eval: "r = Inr () \<and> map snd log = replicate 5 False"
    using run by (simp add: demoPosting_def postingTx_def numeral_eq_Suc sendTx_def sendMessage_def withOutcomes_def demoConn_def
        payerKey_def thenE_def retE_def liftE_def catchE_def skipsPreflight_def) auto
  from batch_in_order_bounded [OF run, of 5] obtain runs where runs: "log = concat runs" "length runs \<le> length demoPosting"
    "list_all2 (attemptsAt 5) (take (length runs) demoPosting) runs"
    "list_all2 succeededAt (take (length (butlast runs)) demoPosting) (butlast runs)" by auto
  have first: "list_all (\<lambda>(msg, sent). userIxs msg = [RawIx [1] [] [0], demoIx 2]) log"
  proof (cases runs)
    case (Cons run1 rest)
    have "rest = []"
    proof (rule ccontr)
      assume "rest \<noteq> []"
      with runs(4) Cons have "succeededAt (demoPosting ! 0) run1"
        by (cases rest) (auto simp: demoPosting_def)
      then have "True \<in> set (map snd log)" using runs(1) Cons by (auto simp: succeededAt_def image_iff intro!: bexI [of _ "last run1"])
      with eval show False by simp
    qed
    with runs Cons show ?thesis by (simp add: demoPosting_def postingTx_def attemptsAt_def)
  qed (simp add: runs(1))
  from eval have "length log = 5" by (metis length_map length_replicate)
  with run eval first show "\<exists>r w' log. sendTxBatch (withOutcomes ?conn) demoPosting None None ({}, []) = (r, w', log) \<and>
     r = Inr () \<and> length log = 5 \<and> list_all (\<lambda>(msg, sent). userIxs msg = [RawIx [1] [] [0], demoIx 2]) log" by blast
qed

end
