(* ===== verification/Solver_Slots.thy ===== *)
theory Solver_Slots
  imports Cctp_Programs "HOL-Library.List_Lexorder"
begin

text \<open>
  The order executor of the solver (\<open>solver/src/executeOrder/app.ts\<close>): auctions are kept by the slot after
  their end, and when the chain reaches that slot, those that our token accounts won are executed. The
  class \<open>SlotOrderedAuctions\<close>, the two callbacks, and what they achieve: if no slot notification is missed
  and all slots have the same number of decimal digits, every auction is executed in its slot. Neither
  condition can be dropped, because the slots are sorted as strings and only the first one is ever
  compared with the current slot.
\<close>

section \<open>SlotOrderedAuctions\<close>

record auctionDetails =
  ad_slot :: int
  ad_fastVaa :: pubkey
  ad_execute :: bool

text \<open>The maps are keyed by slot and by auction; a stringified key stands for the key.\<close>

record slotOrderedAuctions =
  sa_slots :: "int list"
  sa_auctionsPerSlot :: "int \<Rightarrow> pubkey list option"
  sa_auctions :: "pubkey \<Rightarrow> auctionDetails option"

definition newSlotOrderedAuctions :: slotOrderedAuctions where
  "newSlotOrderedAuctions = \<lparr>sa_slots = [], sa_auctionsPerSlot = Map.empty, sa_auctions = Map.empty\<rparr>"

text \<open>\<open>Array.prototype.sort\<close> without a comparison function orders by the decimal strings.\<close>

definition sortSlots :: "int list \<Rightarrow> int list" where
  "sortSlots slots = sort_key decInt slots"

definition addAuction :: "uint64 \<Rightarrow> pubkey \<Rightarrow> pubkey \<Rightarrow> bool \<Rightarrow> slotOrderedAuctions \<Rightarrow> slotOrderedAuctions result" where
  "addAuction endSlot auction fastVaa execute s =
     bnd (uint64ToBigInt endSlot) (\<lambda>e.
     let slot = e + 1;
         s = (if slot \<in> set (sa_slots s) then s
              else s\<lparr>sa_slots := sortSlots (sa_slots s @ [slot]),
                     sa_auctionsPerSlot := (sa_auctionsPerSlot s)(slot \<mapsto> [])\<rparr>)
     in case sa_auctionsPerSlot s slot of
          None \<Rightarrow> Inl TypeError
        | Some l \<Rightarrow> Inr (s\<lparr>
            sa_auctionsPerSlot := (sa_auctionsPerSlot s)(slot \<mapsto> l @ [auction]),
            sa_auctions := (sa_auctions s)(auction \<mapsto>
              \<lparr>ad_slot = slot, ad_fastVaa = fastVaa, ad_execute = execute\<rparr>)\<rparr>))"

definition updateAuction :: "pubkey \<Rightarrow> bool \<Rightarrow> slotOrderedAuctions \<Rightarrow> slotOrderedAuctions \<times> bool" where
  "updateAuction auction execute s =
     (case sa_auctions s auction of
        None \<Rightarrow> (s, False)
      | Some d \<Rightarrow> (s\<lparr>sa_auctions := (sa_auctions s)(auction \<mapsto> d\<lparr>ad_execute := execute\<rparr>)\<rparr>, True))"

definition headSlot :: "slotOrderedAuctions \<Rightarrow> int option" where
  "headSlot s = (case sa_slots s of [] \<Rightarrow> None | slot # _ \<Rightarrow> Some slot)"

text \<open>The \<open>map\<close> of \<open>dequeue\<close>: each auction's details are looked up and deleted.\<close>

fun takeDetails :: "pubkey list \<Rightarrow> (pubkey \<Rightarrow> auctionDetails option) \<Rightarrow>
    (pubkey \<times> auctionDetails option) list \<times> (pubkey \<Rightarrow> auctionDetails option)" where
  "takeDetails [] m = ([], m)"
| "takeDetails (a # as) m =
     (let (rest, m') = takeDetails as (m(a := None)) in ((a, m a) # rest, m'))"

text \<open>Its \<open>filter\<close>: what has no details, or is not to be executed, is left out.\<close>

fun executing :: "pubkey \<times> auctionDetails option \<Rightarrow> (pubkey \<times> auctionDetails) option" where
  "executing (a, None) = None"
| "executing (a, Some d) = (if ad_execute d then Some (a, d) else None)"

definition dequeueAuctions :: "slotOrderedAuctions \<Rightarrow> (slotOrderedAuctions \<times> (pubkey \<times> auctionDetails) list) result" where
  "dequeueAuctions s =
     (case sa_slots s of
        [] \<Rightarrow> Inl (Error ''No auctions to dequeue'')
      | slot # slots \<Rightarrow>
          (case sa_auctionsPerSlot s slot of
             None \<Rightarrow> Inl TypeError
           | Some l \<Rightarrow>
               let (details, m) = takeDetails l (sa_auctions s)
               in Inr (s\<lparr>sa_slots := slots, sa_auctionsPerSlot := (sa_auctionsPerSlot s)(slot := None),
                         sa_auctions := m\<rparr>,
                       List.map_filter executing details)))"

section \<open>The callbacks\<close>

text \<open>\<open>onSlotChange\<close>: the auctions for which \<open>executeOrderWithRetry\<close> is called.\<close>

definition onSlot :: "int \<Rightarrow> slotOrderedAuctions \<Rightarrow> (slotOrderedAuctions \<times> (pubkey \<times> auctionDetails) list) result" where
  "onSlot currentSlot s =
     (if headSlot s = Some currentSlot then dequeueAuctions s else Inr (s, []))"

text \<open>
  The event \<open>AuctionUpdated\<close>. The callback also takes a property \<open>auction\<close> from it, which neither the type nor
  the interface description of the program has: it is \<open>undefined\<close>, \<open>None\<close>, on the events that are emitted.
\<close>

record auctionUpdated =
  up_configId :: int
  up_fastVaaHash :: "byte list"
  up_vaa :: "pubkey option"
  up_sourceChain :: int
  up_targetProtocol :: messageProtocol
  up_redeemerMessageLen :: int
  up_endSlot :: int
  up_bestOfferToken :: pubkey
  up_tokenBalanceBefore :: int
  up_amountIn :: int
  up_totalDeposit :: int
  up_maxOfferPriceAllowed :: "int option"
  up_auction :: "pubkey option"

text \<open>Both branches begin by logging \<open>auction.toString()\<close>.\<close>

definition onUpdated :: "pubkey list \<Rightarrow> auctionUpdated \<Rightarrow> slotOrderedAuctions \<Rightarrow> slotOrderedAuctions result" where
  "onUpdated ourTokenAccounts event s =
     (let execute = up_bestOfferToken event \<in> set ourTokenAccounts
      in case up_auction event of
           None \<Rightarrow> Inl TypeError
         | Some auction \<Rightarrow>
             (case up_vaa event of
                Some vaa \<Rightarrow> addAuction (UBN (up_endSlot event)) auction vaa execute s
              | None \<Rightarrow> Inr (fst (updateAuction auction execute s))))"

section \<open>Decimal order\<close>

lemma digitsNat_Cons: "digitsNat (d # ds) = d * 10 ^ length ds + digitsNat ds"
proof -
  define F where "F a ds = foldl (\<lambda>a d. 10 * a + d) (a :: nat) ds" for a ds
  have F_snoc: "F a (xs @ [x]) = 10 * F a xs + x" for a x xs by (simp add: F_def)
  have "F a ds = a * 10 ^ length ds + F 0 ds" for a
  proof (induction ds rule: rev_induct)
    case (snoc x xs)
    have "F a (xs @ [x]) = 10 * F a xs + x" by (rule F_snoc)
    also have "F a xs = a * 10 ^ length xs + F 0 xs" by (rule snoc)
    also have "10 * (a * 10 ^ length xs + F 0 xs) + x = a * 10 ^ length (xs @ [x]) + (10 * F 0 xs + x)"
      by (simp add: distrib_left)
    also have "10 * F 0 xs + x = F 0 (xs @ [x])" by (rule F_snoc [symmetric])
    finally show ?case .
  qed (simp add: F_def)
  from this [of d] have "F d ds = d * 10 ^ length ds + F 0 ds" .
  moreover have "digitsNat (d # ds) = F d ds" "digitsNat ds = F 0 ds" by (simp_all add: digitsNat_def F_def)
  ultimately show ?thesis by simp
qed

lemma digitsNat_less: "\<forall>d\<in>set ds. d < 10 \<Longrightarrow> digitsNat ds < 10 ^ length ds"
proof (induction ds)
  case (Cons d ds)
  then have "digitsNat ds < 10 ^ length ds" "d \<le> 9" by auto
  moreover from this have "d * 10 ^ length ds \<le> 9 * 10 ^ length ds" by (intro mult_le_mono1)
  moreover have "10 ^ length (d # ds) = (10 :: nat) * 10 ^ length ds" by simp
  ultimately show ?case unfolding digitsNat_Cons by linarith
qed (simp add: digitsNat_def)

lemma digitByte_less: "d < 10 \<Longrightarrow> e < 10 \<Longrightarrow> digitByte d < digitByte e \<longleftrightarrow> d < e"
  by (simp add: digitByte_def word_less_nat_alt unat_of_nat take_bit_eq_mod flip: of_nat_add)

lemma digits_lex:
  assumes "length ds = length es" "\<forall>d\<in>set ds. d < 10" "\<forall>e\<in>set es. e < 10"
  shows "map digitByte ds < map digitByte es \<longleftrightarrow> digitsNat ds < digitsNat es"
  using assms
proof (induction ds es rule: list_induct2)
  case (Cons d ds e es)
  then have b: "digitsNat ds < 10 ^ length es" "digitsNat es < 10 ^ length es"
    using digitsNat_less [of ds] digitsNat_less [of es] by auto
  consider "d < e" | "d = e" | "e < d" by linarith
  then show ?case
  proof cases
    case 1
    then have "(d + 1) * 10 ^ length es \<le> e * 10 ^ length es" by (intro mult_le_mono1) simp
    with 1 b Cons show ?thesis by (simp add: digitByte_less digitsNat_Cons)
  next
    case 2
    with Cons show ?thesis by (simp add: digitsNat_Cons)
  next
    case 3
    then have "(e + 1) * 10 ^ length es \<le> d * 10 ^ length es" by (intro mult_le_mono1) simp
    with 3 b Cons digitByte_less [of d e] digitByte_inject [of d e] show ?thesis by (simp add: digitsNat_Cons)
  qed
qed simp

lemma decInt_less:
  assumes "0 \<le> x" "0 \<le> y" "length (decInt x) = length (decInt y)"
  shows "decInt x < decInt y \<longleftrightarrow> x < y"
proof -
  have "decInt x < decInt y \<longleftrightarrow> digitsNat (decDigits (nat x)) < digitsNat (decDigits (nat y))"
    using assms by (simp add: decInt_def decBytes_def digits_lex decDigits_less10)
  then show ?thesis using assms(1,2) by (auto simp: digitsNat_decDigits)
qed

text \<open>Slots with a given number of digits are sorted as numbers.\<close>

definition sameDigits :: "nat \<Rightarrow> int \<Rightarrow> bool" where
  "sameDigits d x \<longleftrightarrow> 0 \<le> x \<and> length (decInt x) = d"

lemma sortSlots_sorted:
  assumes "\<forall>x\<in>set slots. sameDigits d x"
  shows "sorted (sortSlots slots)"
proof -
  have 1: "sorted_wrt (\<lambda>x y. decInt x \<le> decInt y) (sort_key decInt slots)"
    using sorted_sort_key [of decInt slots] unfolding sorted_map .
  have 2: "x \<le> y" if "x \<in> set slots" "y \<in> set slots" "decInt x \<le> decInt y" for x y
  proof (rule ccontr)
    assume "\<not> x \<le> y"
    then have "decInt y < decInt x" using decInt_less [of y x] that assms unfolding sameDigits_def by auto
    with that(3) show False by (metis leD)
  qed
  show ?thesis
    unfolding sortSlots_def by (rule sorted_wrt_mono_rel [OF _ 1]) (rule 2; simp)
qed

lemma set_sortSlots [simp]: "set (sortSlots slots) = set slots"
  by (simp add: sortSlots_def)

lemma distinct_sortSlots [simp]: "distinct (sortSlots slots) = distinct slots"
  by (simp add: sortSlots_def)

section \<open>On time\<close>

text \<open>
  Runs in which the slot notifications come one by one, every auction is added once and before its
  slot, and all slots have \<open>d\<close> decimal digits.
\<close>

inductive punctual :: "nat \<Rightarrow> int \<Rightarrow> slotOrderedAuctions \<Rightarrow> bool" for d where
  start: "punctual d now newSlotOrderedAuctions"
| slot: "punctual d now s \<Longrightarrow> onSlot (now + 1) s = Inr (s', out) \<Longrightarrow> punctual d (now + 1) s'"
| add: "punctual d now s \<Longrightarrow> uint64ToBigInt endSlot = Inr e \<Longrightarrow> now \<le> e \<Longrightarrow> sameDigits d (e + 1) \<Longrightarrow>
    sa_auctions s auction = None \<Longrightarrow> addAuction endSlot auction fastVaa execute s = Inr s' \<Longrightarrow> punctual d now s'"
| update: "punctual d now s \<Longrightarrow> punctual d now (fst (updateAuction auction execute s))"

definition slotsInv :: "nat \<Rightarrow> int \<Rightarrow> slotOrderedAuctions \<Rightarrow> bool" where
  "slotsInv d now s \<longleftrightarrow> distinct (sa_slots s) \<and> sorted (sa_slots s) \<and>
     (\<forall>x\<in>set (sa_slots s). now < x \<and> sameDigits d x) \<and> dom (sa_auctionsPerSlot s) = set (sa_slots s) \<and>
     (\<forall>x l. sa_auctionsPerSlot s x = Some l \<longrightarrow> distinct l \<and>
       (\<forall>a\<in>set l. \<exists>dt. sa_auctions s a = Some dt \<and> ad_slot dt = x)) \<and>
     (\<forall>a dt. sa_auctions s a = Some dt \<longrightarrow> (\<exists>l. sa_auctionsPerSlot s (ad_slot dt) = Some l \<and> a \<in> set l))"

lemma slotsInvD:
  assumes "slotsInv d now s"
  shows "distinct (sa_slots s)" "sorted (sa_slots s)" "\<And>x. x \<in> set (sa_slots s) \<Longrightarrow> now < x \<and> sameDigits d x"
    "dom (sa_auctionsPerSlot s) = set (sa_slots s)"
    "\<And>x l. sa_auctionsPerSlot s x = Some l \<Longrightarrow> distinct l"
    "\<And>x l a. sa_auctionsPerSlot s x = Some l \<Longrightarrow> a \<in> set l \<Longrightarrow> \<exists>dt. sa_auctions s a = Some dt \<and> ad_slot dt = x"
    "\<And>a dt. sa_auctions s a = Some dt \<Longrightarrow> \<exists>l. sa_auctionsPerSlot s (ad_slot dt) = Some l \<and> a \<in> set l"
  using assms unfolding slotsInv_def by blast+

lemma takeDetails_distinct:
  "distinct l \<Longrightarrow> takeDetails l m = (map (\<lambda>a. (a, m a)) l, m |` (- set l))"
proof (induction l arbitrary: m)
  case (Cons a l)
  then have "map (\<lambda>b. (b, (m(a := None)) b)) l = map (\<lambda>b. (b, m b)) l" by auto
  moreover have "(m(a := None)) |` (- set l) = m |` (- set (a # l))" by (auto simp: restrict_map_def)
  ultimately show ?case using Cons by simp
qed (simp add: restrict_map_def)

lemma executing_known:
  "\<forall>a\<in>set l. m a \<noteq> None \<Longrightarrow> List.map_filter executing (map (\<lambda>a. (a, m a)) l) =
    map (\<lambda>a. (a, the (m a))) (filter (\<lambda>a. ad_execute (the (m a))) l)"
  by (induction l) (auto simp: map_filter_simps)

lemma slotsInv_start: "slotsInv d now newSlotOrderedAuctions"
  by (simp add: slotsInv_def newSlotOrderedAuctions_def)

lemma slotsInv_update:
  assumes inv: "slotsInv d now s"
  shows "slotsInv d now (fst (updateAuction auction execute s))"
proof (cases "sa_auctions s auction")
  case None
  with inv show ?thesis by (simp add: updateAuction_def)
next
  case (Some dt)
  let ?m = "(sa_auctions s)(auction \<mapsto> dt\<lparr>ad_execute := execute\<rparr>)"
  have "\<exists>dt'. ?m a = Some dt' \<and> ad_slot dt' = x" if "sa_auctions s a = Some dt'" "ad_slot dt' = x" for a dt' x
    using that Some by auto
  moreover have "\<exists>dt''. sa_auctions s a = Some dt'' \<and> ad_slot dt'' = ad_slot dt'" if "?m a = Some dt'" for a dt'
    using that Some by (auto split: if_splits)
  moreover have "fst (updateAuction auction execute s) = s\<lparr>sa_auctions := ?m\<rparr>"
    by (simp add: updateAuction_def Some)
  ultimately show ?thesis using inv unfolding slotsInv_def by (simp del: fun_upd_apply) metis
qed

text \<open>One slot: exactly the auctions of this slot leave, and those to execute are returned.\<close>

definition dueAuctions :: "int \<Rightarrow> slotOrderedAuctions \<Rightarrow> (pubkey \<times> auctionDetails) set" where
  "dueAuctions slot s = {(a, dt). sa_auctions s a = Some dt \<and> ad_slot dt = slot \<and> ad_execute dt}"

definition laterAuctions :: "int \<Rightarrow> slotOrderedAuctions \<Rightarrow> pubkey \<Rightarrow> auctionDetails option" where
  "laterAuctions slot s a = (case sa_auctions s a of
     Some dt \<Rightarrow> if ad_slot dt = slot then None else Some dt | None \<Rightarrow> None)"

lemma onSlot_spec:
  assumes inv: "slotsInv d now s"
  shows "\<exists>s' out. onSlot (now + 1) s = Inr (s', out) \<and> distinct out \<and> set out = dueAuctions (now + 1) s \<and>
    sa_auctions s' = laterAuctions (now + 1) s \<and> slotsInv d (now + 1) s'"
proof (cases "headSlot s = Some (now + 1)")
  case False
  have none: "now + 1 \<notin> set (sa_slots s)"
  proof
    assume i: "now + 1 \<in> set (sa_slots s)"
    then obtain h slots where h: "sa_slots s = h # slots" by (cases "sa_slots s") auto
    with slotsInvD(2) [OF inv] i have "h \<le> now + 1" by auto
    moreover have "now < h" using slotsInvD(3) [OF inv] h by auto
    ultimately show False using False h by (simp add: headSlot_def)
  qed
  then have no: "ad_slot dt \<noteq> now + 1" if "sa_auctions s a = Some dt" for a dt
    using slotsInvD(4,7) [OF inv] that by (metis domI)
  have "laterAuctions (now + 1) s = sa_auctions s"
    using no by (auto simp: laterAuctions_def fun_eq_iff split: option.splits)
  moreover have "slotsInv d (now + 1) s"
    using inv none unfolding slotsInv_def by (metis add1_zle_eq order_le_less)
  ultimately show ?thesis
    using False no by (auto simp: onSlot_def dueAuctions_def)
next
  case True
  then obtain slots where h: "sa_slots s = (now + 1) # slots"
    by (auto simp: headSlot_def split: list.splits)
  then obtain l where l: "sa_auctionsPerSlot s (now + 1) = Some l"
    using slotsInvD(4) [OF inv] by force
  have dl: "distinct l" by (rule slotsInvD(5) [OF inv l])
  have in_l: "a \<in> set l \<longleftrightarrow> (\<exists>dt. sa_auctions s a = Some dt \<and> ad_slot dt = now + 1)" for a
    using slotsInvD(6,7) [OF inv] l by (metis option.inject)
  have known: "\<forall>a\<in>set l. sa_auctions s a \<noteq> None" using in_l by auto
  define out where "out = map (\<lambda>a. (a, the (sa_auctions s a))) (filter (\<lambda>a. ad_execute (the (sa_auctions s a))) l)"
  define s' where "s' = s\<lparr>sa_slots := slots, sa_auctionsPerSlot := (sa_auctionsPerSlot s)(now + 1 := None),
      sa_auctions := sa_auctions s |` (- set l)\<rparr>"
  have step: "onSlot (now + 1) s = Inr (s', out)"
    using True
    by (simp add: onSlot_def dequeueAuctions_def h l takeDetails_distinct [OF dl] s'_def out_def
        executing_known [OF known])
  have "distinct out"
    using dl by (simp add: out_def distinct_map inj_on_def)
  moreover have "set out = dueAuctions (now + 1) s"
    using in_l by (fastforce simp: out_def dueAuctions_def)
  moreover have later: "sa_auctions s' a = laterAuctions (now + 1) s a" for a
    using in_l [of a] by (auto simp: s'_def laterAuctions_def restrict_map_def split: option.splits)
  moreover have "slotsInv d (now + 1) s'"
  proof -
    have slots: "distinct slots" "sorted slots" "now + 1 \<notin> set slots" "\<And>x. x \<in> set slots \<Longrightarrow> now + 1 \<le> x"
      using slotsInvD(1,2) [OF inv] by (auto simp: h)
    have x: "now + 1 < x \<and> sameDigits d x" if "x \<in> set slots" for x
      using that slots(3,4) slotsInvD(3) [OF inv, of x] by (auto simp: h order_le_less)
    have dom: "dom (sa_auctionsPerSlot s') = set slots"
      using slotsInvD(4) [OF inv] slots(3) by (auto simp: s'_def h)
    have per: "distinct l' \<and> (\<forall>a\<in>set l'. \<exists>dt. sa_auctions s' a = Some dt \<and> ad_slot dt = y)"
      if "sa_auctionsPerSlot s' y = Some l'" for y l'
    proof -
      from that have y: "sa_auctionsPerSlot s y = Some l'" "y \<noteq> now + 1" by (auto simp: s'_def split: if_splits)
      have "\<exists>dt. sa_auctions s' a = Some dt \<and> ad_slot dt = y" if "a \<in> set l'" for a
        using slotsInvD(6) [OF inv y(1) that] y(2) by (auto simp: later laterAuctions_def)
      with slotsInvD(5) [OF inv y(1)] show ?thesis by blast
    qed
    have bk: "\<exists>l'. sa_auctionsPerSlot s' (ad_slot dt) = Some l' \<and> a \<in> set l'" if "sa_auctions s' a = Some dt" for a dt
    proof -
      from that have "sa_auctions s a = Some dt" "ad_slot dt \<noteq> now + 1"
        by (auto simp: later laterAuctions_def split: option.splits if_splits)
      with slotsInvD(7) [OF inv] show ?thesis by (auto simp: s'_def)
    qed
    have "sa_slots s' = slots" by (simp add: s'_def)
    with slots x dom per bk show ?thesis unfolding slotsInv_def by simp
  qed
  moreover have "sa_auctions s' = laterAuctions (now + 1) s" using later by (rule ext)
  ultimately show ?thesis using step by blast
qed

lemma slotsInv_add:
  assumes inv: "slotsInv d now s" and e: "uint64ToBigInt endSlot = Inr e" "now \<le> e" "sameDigits d (e + 1)"
    and new: "sa_auctions s auction = None"
  shows "\<exists>s'. addAuction endSlot auction fastVaa execute s = Inr s' \<and>
    sa_auctions s' = (sa_auctions s)(auction \<mapsto> \<lparr>ad_slot = e + 1, ad_fastVaa = fastVaa, ad_execute = execute\<rparr>) \<and>
    slotsInv d now s'"
proof -
  define t where "t = (if e + 1 \<in> set (sa_slots s) then s
      else s\<lparr>sa_slots := sortSlots (sa_slots s @ [e + 1]), sa_auctionsPerSlot := (sa_auctionsPerSlot s)(e + 1 \<mapsto> [])\<rparr>)"
  have auctions_t: "sa_auctions t = sa_auctions s" by (simp add: t_def)
  have dom: "dom (sa_auctionsPerSlot s) = set (sa_slots s)" by (rule slotsInvD(4) [OF inv])
  have sorted: "sorted (sortSlots (sa_slots s @ [e + 1]))"
    using slotsInvD(3) [OF inv] e(3) by (intro sortSlots_sorted [of _ d]) auto
  have inv_t: "slotsInv d now t"
  proof (cases "e + 1 \<in> set (sa_slots s)")
    case True
    with inv show ?thesis by (simp add: t_def)
  next
    case False
    with dom have none: "sa_auctionsPerSlot s (e + 1) = None" by (metis domIff)
    have "\<exists>l. sa_auctionsPerSlot t (ad_slot dt) = Some l \<and> a \<in> set l" if "sa_auctions s a = Some dt" for a dt
      using slotsInvD(7) [OF inv that] none False by (auto simp: t_def)
    moreover have "distinct l \<and> (\<forall>a\<in>set l. \<exists>dt. sa_auctions s a = Some dt \<and> ad_slot dt = x)"
      if "sa_auctionsPerSlot t x = Some l" for x l
      using that slotsInvD(5,6) [OF inv] False by (auto simp: t_def split: if_splits)
    ultimately show ?thesis
      using slotsInvD(1,3) [OF inv] False e dom sorted auctions_t
      unfolding slotsInv_def by (auto simp: t_def)
  qed
  obtain l where l: "sa_auctionsPerSlot t (e + 1) = Some l"
  proof (cases "e + 1 \<in> set (sa_slots s)")
    case True
    with dom that show ?thesis by (auto simp: t_def)
  qed (auto simp: t_def intro: that)
  define s' where "s' = t\<lparr>sa_auctionsPerSlot := (sa_auctionsPerSlot t)(e + 1 \<mapsto> l @ [auction]),
      sa_auctions := (sa_auctions t)(auction \<mapsto> \<lparr>ad_slot = e + 1, ad_fastVaa = fastVaa, ad_execute = execute\<rparr>)\<rparr>"
  have "addAuction endSlot auction fastVaa execute s = Inr s'"
    using e l by (simp add: addAuction_def Let_def s'_def flip: t_def)
  moreover have "slotsInv d now s'"
  proof -
    have fresh: "auction \<notin> set l'" if "sa_auctionsPerSlot t x = Some l'" for x l'
      using slotsInvD(6) [OF inv_t that] new auctions_t by fastforce
    have "distinct l' \<and> (\<forall>a\<in>set l'. \<exists>dt. sa_auctions s' a = Some dt \<and> ad_slot dt = x)"
      if "sa_auctionsPerSlot s' x = Some l'" for x l'
    proof (cases "x = e + 1")
      case True
      with that have "l' = l @ [auction]" by (simp add: s'_def)
      with True fresh [OF l] slotsInvD(5,6) [OF inv_t l] show ?thesis by (auto simp: s'_def)
    next
      case False
      with that have "sa_auctionsPerSlot t x = Some l'" by (simp add: s'_def)
      with fresh slotsInvD(5,6) [OF inv_t this] show ?thesis by (auto simp: s'_def)
    qed
    moreover have "\<exists>l'. sa_auctionsPerSlot s' (ad_slot dt) = Some l' \<and> a \<in> set l'"
      if "sa_auctions s' a = Some dt" for a dt
      using that slotsInvD(7) [OF inv_t] l by (fastforce simp: s'_def split: if_splits)
    moreover have "dom (sa_auctionsPerSlot s') = set (sa_slots s')" "sa_slots s' = sa_slots t"
      using slotsInvD(4) [OF inv_t] l by (auto simp: s'_def)
    ultimately show ?thesis
      using slotsInvD(1,2,3) [OF inv_t] unfolding slotsInv_def by simp
  qed
  moreover have "sa_auctions s' = (sa_auctions s)(auction \<mapsto>
      \<lparr>ad_slot = e + 1, ad_fastVaa = fastVaa, ad_execute = execute\<rparr>)"
    by (simp add: s'_def auctions_t)
  ultimately show ?thesis by blast
qed

lemma punctual_inv: "punctual d now s \<Longrightarrow> slotsInv d now s"
proof (induction rule: punctual.induct)
  case (start now)
  show ?case by (rule slotsInv_start)
next
  case (slot now s s' out)
  with onSlot_spec [OF slot.IH] show ?case by auto
next
  case (add now s endSlot e auction fastVaa execute s')
  with slotsInv_add [OF add.IH add.hyps(2-5), of fastVaa execute] show ?case by auto
next
  case (update now s auction execute)
  then show ?case by (intro slotsInv_update)
qed

section \<open>Stuck\<close>

text \<open>The notifications of a solver in any order, and the auctions executed.\<close>

datatype solverEvent = SlotNotification int | AuctionNotification auctionUpdated

fun solverRun :: "pubkey list \<Rightarrow> solverEvent list \<Rightarrow> slotOrderedAuctions \<Rightarrow>
    (slotOrderedAuctions \<times> (pubkey \<times> auctionDetails) list) result" where
  "solverRun ours [] s = Inr (s, [])"
| "solverRun ours (SlotNotification n # evs) s =
     bnd (onSlot n s) (\<lambda>(s, out). bnd (solverRun ours evs s) (\<lambda>(s, out'). Inr (s, out @ out')))"
| "solverRun ours (AuctionNotification u # evs) s = bnd (onUpdated ours u s) (solverRun ours evs)"

text \<open>The head is the least slot, which only this slot's notification can remove.\<close>

definition headIs :: "nat \<Rightarrow> int \<Rightarrow> slotOrderedAuctions \<Rightarrow> bool" where
  "headIs d h s \<longleftrightarrow> headSlot s = Some h \<and> (\<forall>x\<in>set (sa_slots s). sameDigits d x \<and> h \<le> x)"

lemma headIs_sorted:
  assumes "\<forall>x\<in>set slots. sameDigits d x \<and> h \<le> x" "h \<in> set slots"
  shows "headSlot (s\<lparr>sa_slots := sortSlots slots\<rparr>) = Some h"
proof -
  have "sorted (sortSlots slots)" using assms(1) by (intro sortSlots_sorted) auto
  moreover obtain y ys where y: "sortSlots slots = y # ys"
    using assms(2) by (metis list.set_cases set_sortSlots)
  moreover have "h \<in> set (y # ys)" "\<forall>x\<in>set (y # ys). h \<le> x"
    using assms by (simp_all flip: y)
  ultimately have "y = h" by auto
  then show ?thesis by (simp add: headSlot_def y)
qed

lemma headSlot_cong: "sa_slots s = sa_slots t \<Longrightarrow> headSlot s = headSlot t"
  by (simp add: headSlot_def)

lemma headIs_in: "headIs d h s \<Longrightarrow> h \<in> set (sa_slots s)"
  by (auto simp: headIs_def headSlot_def split: list.splits)

lemma headIs_add:
  assumes h: "headIs d h s" and add: "addAuction endSlot auction fastVaa execute s = Inr s'"
    and e: "\<forall>e. uint64ToBigInt endSlot = Inr e \<longrightarrow> h \<le> e + 1 \<and> sameDigits d (e + 1)"
  shows "headIs d h s'"
proof -
  from add obtain e where e1: "uint64ToBigInt endSlot = Inr e"
    by (auto simp: addAuction_def bnd_eq_Inr_iff)
  then have slots: "sa_slots s' = (if e + 1 \<in> set (sa_slots s) then sa_slots s else sortSlots (sa_slots s @ [e + 1]))"
    using add by (auto simp: addAuction_def Let_def split: option.splits)
  have all: "\<forall>x\<in>set (sa_slots s @ [e + 1]). sameDigits d x \<and> h \<le> x"
    using h e e1 by (auto simp: headIs_def)
  show ?thesis
  proof (cases "e + 1 \<in> set (sa_slots s)")
    case True
    with slots h headSlot_cong [of s' s] show ?thesis by (simp add: headIs_def)
  next
    case False
    have "headSlot s' = headSlot (s\<lparr>sa_slots := sortSlots (sa_slots s @ [e + 1])\<rparr>)"
      using slots False by (intro headSlot_cong) simp
    also have "\<dots> = Some h" using headIs_in [OF h] by (intro headIs_sorted [OF all]) simp
    finally show ?thesis using all slots False by (simp add: headIs_def)
  qed
qed

lemma headIs_updated:
  assumes "headIs d h s" "onUpdated ours u s = Inr s'"
    and "\<forall>e. up_vaa u \<noteq> None \<and> uint64ToBigInt (UBN (up_endSlot u)) = Inr e \<longrightarrow> h \<le> e + 1 \<and> sameDigits d (e + 1)"
  shows "headIs d h s'"
proof (cases "up_vaa u")
  case None
  with assms(2) have "sa_slots s' = sa_slots s"
    by (auto simp: onUpdated_def updateAuction_def Let_def split: option.splits)
  with assms(1) headSlot_cong [of s' s] show ?thesis by (simp add: headIs_def)
next
  case (Some vaa)
  with assms(2) obtain auction where
    "addAuction (UBN (up_endSlot u)) auction vaa (up_bestOfferToken u \<in> set ours) s = Inr s'"
    by (auto simp: onUpdated_def Let_def split: option.splits)
  with assms(1,3) Some show ?thesis by (auto intro: headIs_add)
qed

lemma headIs_run:
  assumes "solverRun ours evs s = Inr (s', out)" "headIs d h s"
    and "\<And>n. SlotNotification n \<in> set evs \<Longrightarrow> h < n"
    and "\<And>u e. AuctionNotification u \<in> set evs \<Longrightarrow> up_vaa u \<noteq> None \<Longrightarrow> uint64ToBigInt (UBN (up_endSlot u)) = Inr e \<Longrightarrow>
      h \<le> e + 1 \<and> sameDigits d (e + 1)"
  shows "out = [] \<and> headIs d h s'"
  using assms
proof (induction ours evs s arbitrary: out rule: solverRun.induct)
  case (2 ours n evs s)
  have "h < n" by (rule 2(4)) simp
  with 2(3) have "onSlot n s = Inr (s, [])" by (simp add: onSlot_def headIs_def)
  with 2(2) have "solverRun ours evs s = Inr (s', out)" by (auto simp: bnd_eq_Inr_iff)
  from 2(1) [OF _ _ this 2(3)] 2(4,5) \<open>onSlot n s = Inr (s, [])\<close> show ?case by auto
next
  case (3 ours u evs s)
  from 3(2) obtain t where t: "onUpdated ours u s = Inr t" "solverRun ours evs t = Inr (s', out)"
    by (auto simp: bnd_eq_Inr_iff)
  have "headIs d h t"
    using 3(5) [of u] by (intro headIs_updated [OF 3(3) t(1)]) auto
  show ?case
  proof (rule 3(1) [OF t \<open>headIs d h t\<close>])
    show "h < n" if "SlotNotification n \<in> set evs" for n
      by (rule 3(4)) (simp add: that)
    show "h \<le> e + 1 \<and> sameDigits d (e + 1)" if "AuctionNotification v \<in> set evs" "up_vaa v \<noteq> None"
      "uint64ToBigInt (UBN (up_endSlot v)) = Inr e" for v e
      by (rule 3(5) [OF _ that(2,3)]) (simp add: that(1))
  qed
qed simp

section \<open>Properties\<close>



lemma demo_punctual:
  "punctual 1 5 \<lparr>sa_slots = [7], sa_auctionsPerSlot = [7 \<mapsto> [[1]]],
     sa_auctions = [[1] \<mapsto> \<lparr>ad_slot = 7, ad_fastVaa = [2], ad_execute = True\<rparr>]\<rparr>"
proof -
  have d: "decInt 7 = [digitByte 7]" by (simp add: decInt_def decBytes_def decDigits.simps)
  have "addAuction (UBigint 6) [1] [2] True newSlotOrderedAuctions = Inr \<lparr>sa_slots = [7],
      sa_auctionsPerSlot = [7 \<mapsto> [[1]]], sa_auctions = [[1] \<mapsto> \<lparr>ad_slot = 7, ad_fastVaa = [2], ad_execute = True\<rparr>]\<rparr>"
    by (simp add: addAuction_def newSlotOrderedAuctions_def sortSlots_def)
  from punctual.add [OF punctual.start [of 1 5] _ _ _ _ this, of 6] show ?thesis
    by (simp add: sameDigits_def d newSlotOrderedAuctions_def)
qed


text \<open>
  C34. One missed slot stops the solver: if after a run of \<open>punctual\<close> all further slot notifications lie behind the
  head slot, and the auctions that are added end no earlier than the slot before it, with slots of the same number of
  digits, then in a run in which no callback throws no auction is executed any more and the head never
  changes, because the current slot is only ever compared with the head. (A slot with one more digit
  would be sorted first and become the head.)
\<close>

theorem missed_slot_stops_solver:
  assumes "punctual d now s" "headSlot s = Some h"
    and "solverRun ours evs s = Inr (s', executed)"
    and "\<And>n. SlotNotification n \<in> set evs \<Longrightarrow> h < n"
    and "\<And>u e. AuctionNotification u \<in> set evs \<Longrightarrow> up_vaa u \<noteq> None \<Longrightarrow> uint64ToBigInt (UBN (up_endSlot u)) = Inr e \<Longrightarrow>
      h \<le> e + 1 \<and> sameDigits d (e + 1)"
  shows "executed = [] \<and> headSlot s' = Some h"
proof -
  have "slotsInv d now s" by (rule punctual_inv [OF assms(1)])
  with assms(2) have "headIs d h s"
    by (auto simp: slotsInv_def headIs_def headSlot_def split: list.splits)
  from headIs_run [OF assms(3) this assms(4,5)] show ?thesis by (simp add: headIs_def)
qed

definition demoUpdate :: auctionUpdated where
  "demoUpdate = \<lparr>up_configId = 0, up_fastVaaHash = [], up_vaa = Some [5], up_sourceChain = 2,
     up_targetProtocol = NoneProtocol, up_redeemerMessageLen = 0, up_endSlot = 8, up_bestOfferToken = [3],
     up_tokenBalanceBefore = 0, up_amountIn = 0, up_totalDeposit = 0, up_maxOfferPriceAllowed = None,
     up_auction = Some [4]\<rparr>"

theorem missed_slot_stops_solver_witness:
  "\<exists>s'. solverRun [[3]] [SlotNotification 8, AuctionNotification demoUpdate, SlotNotification 9]
     \<lparr>sa_slots = [7], sa_auctionsPerSlot = [7 \<mapsto> [[1]]],
      sa_auctions = [[1] \<mapsto> \<lparr>ad_slot = 7, ad_fastVaa = [2], ad_execute = True\<rparr>]\<rparr> = Inr (s', []) \<and>
     headSlot s' = Some 7"
proof -
  let ?s = "\<lparr>sa_slots = [7], sa_auctionsPerSlot = [7 \<mapsto> [[1]]],
     sa_auctions = [[1] \<mapsto> \<lparr>ad_slot = 7, ad_fastVaa = [2], ad_execute = True\<rparr>]\<rparr>"
  let ?evs = "[SlotNotification 8, AuctionNotification demoUpdate, SlotNotification 9]"
  have u: "uint64ToBigInt (UBN 8) = Inr 8" by (simp add: uint64ToBigInt_BN del: uint64ToBigInt.simps(3))
  have d: "decInt 9 = [digitByte 9]" "decInt 7 = [digitByte 7]" by (simp_all add: decInt_def decBytes_def decDigits.simps)
  have "digitByte 7 < digitByte 9" by (simp add: digitByte_less)
  then have "sortSlots [7, 9] = [7, 9]" by (simp add: sortSlots_def d)
  then obtain s' out where run: "solverRun [[3]] ?evs ?s = Inr (s', out)"
    by (simp add: onSlot_def headSlot_def onUpdated_def addAuction_def demoUpdate_def u del: uint64ToBigInt.simps(3))
  have "out = [] \<and> headSlot s' = Some 7"
    by (rule missed_slot_stops_solver [OF demo_punctual _ run]) (auto simp: headSlot_def sameDigits_def d demoUpdate_def u simp del: uint64ToBigInt.simps(3))
  with run show ?thesis by blast
qed

text \<open>
  Slots are ordered as strings: of two auctions that end on either side of a power of ten, the later
  one becomes the head, so the notification of the earlier slot executes nothing, although the
  auction is to be executed then.
\<close>

theorem slots_ordered_as_strings:
  "\<exists>s. bnd (addAuction (UBigint 999999998) [1] fastVaa True newSlotOrderedAuctions)
      (addAuction (UBigint 999999999) [2] fastVaa' True) = Inr s \<and>
     sa_auctions s [1] = Some \<lparr>ad_slot = 999999999, ad_fastVaa = fastVaa, ad_execute = True\<rparr> \<and>
     headSlot s = Some 1000000000 \<and> onSlot 999999999 s = Inr (s, [])"
proof -
  have d: "decInt 999999999 =
      [digitByte 9, digitByte 9, digitByte 9, digitByte 9, digitByte 9, digitByte 9, digitByte 9, digitByte 9, digitByte 9]"
    "decInt 1000000000 =
      [digitByte 1, digitByte 0, digitByte 0, digitByte 0, digitByte 0, digitByte 0, digitByte 0, digitByte 0, digitByte 0, digitByte 0]"
    by (simp_all add: decInt_def decBytes_def decDigits.simps)
  have "digitByte 1 < digitByte 9" by (simp add: digitByte_less)
  then have "\<not> digitByte 9 < digitByte 1" "digitByte 9 \<noteq> digitByte 1" by auto
  then have "sortSlots [999999999, 1000000000] = [1000000000, 999999999]"
    by (simp add: sortSlots_def d)
  then show ?thesis
    by (simp add: addAuction_def newSlotOrderedAuctions_def sortSlots_def headSlot_def onSlot_def)
qed

end
