(* ===== verification/Solver_Handlers.thy ===== *)
theory Solver_Handlers
  imports Solver_Send Solver_Slots Me_Settle
begin

text \<open>
  What the solver does with an observed VAA and with an auction event: \<open>handlePlaceInitialOffer\<close>
  (\<open>solver/src/utils/placeInitialOffer.ts\<close>), \<open>handleSettleAuction\<close> (\<open>settleAuction.ts\<close>) with the lookups on
  Wormholescan and on the source chain (\<open>wormscan.ts\<close>, \<open>evm/wormholeCctp.ts\<close>), the relayer's callback
  (\<open>vaaAuctionRelayer/app.ts\<close>) and the improver's (\<open>improveOffer/app.ts\<close>). All are effects on the world of the
  connection; waiting for an attestation may not end, so settling is a partial effect.
\<close>

section \<open>Partial effects\<close>

type_synonym ('w, 'a) effP = "'w \<Rightarrow> ('a result \<times> 'w) option"

definition runP :: "('w, 'a) eff \<Rightarrow> ('w, 'a) effP" where
  "runP m = (\<lambda>w. Some (m w))"

definition thenP :: "('w, 'a) effP \<Rightarrow> ('a \<Rightarrow> ('w, 'b) effP) \<Rightarrow> ('w, 'b) effP" where
  "thenP m f = (\<lambda>w. case m w of
     None \<Rightarrow> None
   | Some (Inl e, w) \<Rightarrow> Some (Inl e, w)
   | Some (Inr x, w) \<Rightarrow> f x w)"

lemma thenP_Inr: "thenP m f w = Some (Inr y, w') \<longleftrightarrow> (\<exists>x w1. m w = Some (Inr x, w1) \<and> f x w1 = Some (Inr y, w'))"
  by (auto simp: thenP_def split: option.splits sum.splits)

lemma runP_Inr: "runP m w = Some (Inr y, w') \<longleftrightarrow> m w = (Inr y, w')"
  by (simp add: runP_def)

lemma thenE_Inr: "thenE m f w = (Inr y, w') \<longleftrightarrow> (\<exists>x w1. m w = (Inr x, w1) \<and> f x w1 = (Inr y, w'))"
  by (auto simp: thenE_def split: prod.splits sum.splits)

lemma retE_Inr: "retE x w = (Inr y, w') \<longleftrightarrow> y = x \<and> w' = w"
  by (auto simp: retE_def liftE_def)

lemma liftE_Inr: "liftE r w = (Inr y, w') \<longleftrightarrow> r = Inr y \<and> w' = w"
  by (auto simp: liftE_def)

lemma readE_Inr: "readE conn f w = (Inr y, w') \<longleftrightarrow> f (cn_env conn w) = Inr y \<and> w' = cn_later conn w"
  by (auto simp: readE_def)

lemmas eff_Inr = thenP_Inr runP_Inr thenE_Inr retE_Inr liftE_Inr readE_Inr

section \<open>Other services\<close>

record evmLog =
  el_address :: string
  el_topics :: "string list"
  el_data :: string

text \<open>
  HTTP requests for JSON, base64, the text of a universal address, address lookup tables, receipts and logs of
  an EVM chain, hex strings, the hash in the attestation's address, and the key of a fresh signature set.
\<close>

record 'w services =
  sv_fetchJson :: "string \<Rightarrow> ('w, json) eff"
  sv_fromBase64 :: "json option \<Rightarrow> byte list result"
  sv_addressText :: "byte list \<Rightarrow> string"
  sv_getAddressLookupTable :: "pubkey \<Rightarrow> ('w, pubkey option) eff"
  sv_getTransactionReceipt :: "json \<Rightarrow> string \<Rightarrow> ('w, evmLog list option) eff"
  sv_parseWormholeLog :: "evmLog \<Rightarrow> int result"
  sv_parseCctpLog :: "evmLog \<Rightarrow> byte list result"
  sv_arrayify :: "json \<Rightarrow> byte list result"
  sv_keccakText :: "byte list \<Rightarrow> string"
  sv_newSignatureSet :: "'w \<Rightarrow> pubkey"

section \<open>Parsing\<close>

definition tryParseFastMarketOrder :: "env \<Rightarrow> byte list \<Rightarrow> fastMarketOrder option" where
  "tryParseFastMarketOrder env payload =
     (case liquidityLayerMessage_decode env payload of
        Inl e \<Rightarrow> None
      | Inr m \<Rightarrow> ll_fastMarketOrder m)"

text \<open>
  The payload of the deposit, if its id is that of a slow order response; the deposit's message may be of a kind
  that has no payload, which throws inside the \<open>try\<close>.
\<close>

definition tryParseSlowOrderResponse :: "env \<Rightarrow> byte list \<Rightarrow> int option" where
  "tryParseSlowOrderResponse env payload =
     (case liquidityLayerMessage_decode env payload of
        Inl e \<Rightarrow> None
      | Inr m \<Rightarrow>
          (case ll_deposit m of
             None \<Rightarrow> None
           | Some deposit \<Rightarrow>
               (case ld_message deposit of
                  CctpDepositMessage d \<Rightarrow>
                    (case cd_payload d of SlowOrderResponsePayload baseFee \<Rightarrow> Some baseFee | FillPayload f \<Rightarrow> None)
                | _ \<Rightarrow> None)))"

text \<open>\<open>commitment\<close> of the configuration, as the connection takes it.\<close>

definition commitmentOf :: "json option \<Rightarrow> string option" where
  "commitmentOf v = (case v of Some (JStr s) \<Rightarrow> Some s | _ \<Rightarrow> None)"

definition getUsdcAtaBalance :: "env \<Rightarrow> pubkey \<Rightarrow> int result" where
  "getUsdcAtaBalance env owner' =
     bnd (associatedTokenAddress env (newPublicKey env ''4zMMC9srt5Ri5X14GAgXhaHii3GnPAEERYPJgZJDncDU'') owner' False) (\<lambda>a.
     bnd (getTokenAccount env a) (\<lambda>t. Inr (ta_amount t)))"

definition isBalanceSufficient :: "env \<Rightarrow> pubkey \<Rightarrow> int \<Rightarrow> bool result" where
  "isBalanceSufficient env owner' amount = bnd (getUsdcAtaBalance env owner') (\<lambda>balance. Inr (balance \<ge> amount))"

section \<open>Placing an initial offer\<close>

record placeInitialOfferAccounts =
  pa_fastVaaAccount :: pubkey
  pa_auction :: pubkey
  pa_fromRouterEndpoint :: pubkey
  pa_toRouterEndpoint :: pubkey

definition getPlaceInitialOfferAccounts :: "'w coreUtils \<Rightarrow> env \<Rightarrow> meProgram \<Rightarrow> byte list \<Rightarrow> int \<Rightarrow> int \<Rightarrow>
    placeInitialOfferAccounts result" where
  "getPlaceInitialOfferAccounts core env me fastVaaBytes fromChain toChain =
     bnd (deserializeVaa env fastVaaBytes) (\<lambda>vaa.
     let doubleHash = keccak256 env (va_hash vaa) in
     bnd (me_coreBridgeProgramId env me) (\<lambda>bridge.
     bnd (me_routerEndpointAddress env me fromChain) (\<lambda>fromRouterEndpoint.
     bnd (me_routerEndpointAddress env me toChain) (\<lambda>toRouterEndpoint.
     Inr \<lparr>pa_fastVaaAccount = derivePostedVaaKey core bridge (va_hash vaa),
          pa_auction = me_auctionAddress env me (HashUint8Array doubleHash),
          pa_fromRouterEndpoint = fromRouterEndpoint, pa_toRouterEndpoint = toRouterEndpoint\<rparr>))))"

definition accountExists :: "'w connection \<Rightarrow> pubkey \<Rightarrow> ('w, bool) eff" where
  "accountExists conn a = readE conn (\<lambda>env. bnd (getAccountInfo env a) (\<lambda>info. Inr (info \<noteq> None)))"

text \<open>\<open>cfg.pricingParameters(chain)!\<close>, whose fields are read at once.\<close>

definition pricingOrThrow :: "env \<Rightarrow> appConfig \<Rightarrow> int \<Rightarrow> pricingParameters result" where
  "pricingOrThrow env cfg chain =
     bnd (pricingParametersFor env cfg chain) (\<lambda>p. case p of None \<Rightarrow> Inl TypeError | Some p \<Rightarrow> Inr p)"

text \<open>
  The second half of the handler: the transactions that post the VAA if it has not been posted, and the offer. A
  compute unit limit that is not an integer fails here and not only when the transaction is sent.
\<close>

definition placeOffer :: "'w connection \<Rightarrow> 'w coreUtils \<Rightarrow> 'w services \<Rightarrow> appConfig \<Rightarrow> meProgram \<Rightarrow> vaa \<Rightarrow>
    fastMarketOrder \<Rightarrow> pubkey \<Rightarrow> placeInitialOfferAccounts \<Rightarrow> int \<Rightarrow> ('w, preparedTransaction list) eff" where
  "placeOffer conn core sv cfg me fastVaa order payer accts totalDeposit =
     thenE (accountExists conn (pa_fastVaaAccount accts)) (\<lambda>isPosted.
     thenE (if isPosted then retE []
            else (\<lambda>w. preparePostVaaTxs conn core cfg me payer (sv_newSignatureSet sv w) fastVaa
              (Some \<lparr>co_skipPreflight = None, co_commitment = commitmentOf (solanaCommitment cfg)\<rparr>) w)) (\<lambda>preparedPostVaaTxs.
     thenE (liftE (unitsOf (initiateAuctionComputeUnits cfg))) (\<lambda>computeUnits.
     thenE (readE conn (\<lambda>env. me_placeInitialOfferTx env me payer (pa_fastVaaAccount accts)
         (pa_fromRouterEndpoint accts) (pa_toRouterEndpoint accts) (pa_auction accts)
         (UBigint (fm_maxFee order)) (UBigint totalDeposit) [payer]
         \<lparr>to_feeMicroLamports = 10, to_computeUnits = computeUnits, to_nonceAccount = None,
          to_addressLookupTableAccounts = None\<rparr>
         (Some \<lparr>co_skipPreflight = Some (\<not> isPosted), co_commitment = commitmentOf (solanaCommitment cfg)\<rparr>)))
       (\<lambda>initializeAuctionTx.
     retE (preparedPostVaaTxs @ [initializeAuctionTx])))))"

text \<open>
  The handler. The balance is requested, but the promise is not awaited: \<open>isSufficient\<close> is an object and so always
  true, whatever the request answers.
\<close>

definition handlePlaceInitialOffer :: "'w connection \<Rightarrow> 'w coreUtils \<Rightarrow> 'w services \<Rightarrow> appConfig \<Rightarrow> meProgram \<Rightarrow> vaa \<Rightarrow>
    byte list \<Rightarrow> fastMarketOrder \<Rightarrow> pubkey \<Rightarrow> ('w, preparedTransaction list) eff" where
  "handlePlaceInitialOffer conn core sv cfg me fastVaa rawVaa order payer =
     thenE (readE conn (\<lambda>env.
       bnd (toChainId env (va_emitterChain fastVaa)) (\<lambda>fromChain.
       bnd (toChainId env (fm_targetChain order)) (\<lambda>toChain.
       bnd (getPlaceInitialOfferAccounts core env me rawVaa fromChain toChain) (\<lambda>accts. Inr (fromChain, accts))))))
       (\<lambda>(fromChain, accts).
     thenE (accountExists conn (pa_auction accts)) (\<lambda>isAuctionStarted.
     if isAuctionStarted then retE []
     else
     thenE (readE conn (\<lambda>env. bnd (pricingOrThrow env cfg fromChain) (isFeeHighEnough order))) (\<lambda>(shouldPlaceOffer, fvWithEdge).
     if \<not> shouldPlaceOffer then retE []
     else
     thenE (readE conn (\<lambda>env. me_computeNotionalSecurityDeposit env me (UBigint (fm_amountIn order)) (Some 2)))
       (\<lambda>notionalDeposit.
     let totalDeposit = fm_amountIn order + fm_maxFee order + notionalDeposit in
     thenE (readE conn (\<lambda>env. let isSufficient = isBalanceSufficient env payer totalDeposit in Inr ())) (\<lambda>_.
     placeOffer conn core sv cfg me fastVaa order payer accts totalDeposit)))))"

section \<open>The VAA on Wormholescan\<close>

record vaaResponse =
  vr_vaa :: "byte list option"
  vr_txHash :: "string option"

text \<open>
  \<open>retries < maxRetries\<close> holds this many times from zero on; compared with what is not a number it is false (a
  string would be converted first).
\<close>

definition retriesAllowed :: "json option \<Rightarrow> nat" where
  "retriesAllowed v =
     (case v of
        Some (JNum d) \<Rightarrow>
          if 0 \<le> exponent d then nat (mantissa d * 2 ^ nat (exponent d))
          else nat (- ((- mantissa d) div 2 ^ nat (- exponent d)))
      | _ \<Rightarrow> 0)"

definition optionText :: "solverEnv \<Rightarrow> json option \<Rightarrow> string" where
  "optionText senv v = (case v of None \<Rightarrow> ''undefined'' | Some v \<Rightarrow> jsonText senv v)"

definition wormscanTurn :: "solverEnv \<Rightarrow> 'w services \<Rightarrow> string \<Rightarrow> ('w, vaaResponse) eff" where
  "wormscanTurn senv sv url =
     thenE (sv_fetchJson sv url) (\<lambda>parsedResponse.
     liftE (bnd (jget (Some parsedResponse) ''data'') (\<lambda>data.
       bnd (jget data ''txHash'') (\<lambda>txHash.
       bnd (jget data ''vaa'') (\<lambda>vaa.
       bnd (sv_fromBase64 sv vaa) (\<lambda>bytes.
       Inr \<lparr>vr_vaa = Some bytes, vr_txHash = Some (''0x'' @ optionText senv txHash)\<rparr>))))))"

text \<open>The loop, with the number of retries left.\<close>

fun wormscanLoop :: "solverEnv \<Rightarrow> 'w services \<Rightarrow> string \<Rightarrow> nat \<Rightarrow> vaaResponse \<Rightarrow> ('w, vaaResponse) eff" where
  "wormscanLoop senv sv url 0 vaaResponse = retE vaaResponse"
| "wormscanLoop senv sv url (Suc n) vaaResponse =
     (if vr_txHash vaaResponse = None \<and> vr_vaa vaaResponse = None
      then thenE (wormscanTurn senv sv url) (wormscanLoop senv sv url n)
      else retE vaaResponse)"

definition intText :: "int \<Rightarrow> string" where
  "intText i = (if i < 0 then ''-'' @ natString (nat (- i)) else natString (nat i))"

definition fetchVaaFromWormscan :: "solverEnv \<Rightarrow> 'w services \<Rightarrow> appConfig \<Rightarrow> int \<Rightarrow> int \<Rightarrow> string \<Rightarrow> ('w, vaaResponse) eff" where
  "fetchVaaFromWormscan senv sv cfg chain sequence emitter =
     (let wormscanRequest = wormholeScanVaaEndpoint cfg @ intText chain @ ''/'' @ emitter @ ''/'' @ intText sequence
      in wormscanLoop senv sv wormscanRequest (retriesAllowed (sh_maxRetries (sourceTxHash cfg)))
           \<lparr>vr_vaa = None, vr_txHash = None\<rparr>)"

section \<open>The CCTP message and its attestation\<close>

text \<open>The index of the message's log among the receipt's, counted from \<open>i\<close>.\<close>

fun findWormholeMessageIndex :: "'w services \<Rightarrow> string option \<Rightarrow> int \<Rightarrow> nat \<Rightarrow> evmLog list \<Rightarrow> nat option result" where
  "findWormholeMessageIndex sv coreBridgeAddress sequence i [] = Inr None"
| "findWormholeMessageIndex sv coreBridgeAddress sequence i (log # logs) =
     (if Some (el_address log) \<noteq> coreBridgeAddress
      then findWormholeMessageIndex sv coreBridgeAddress sequence (i + 1) logs
      else bnd (sv_parseWormholeLog sv log) (\<lambda>logged.
        if logged = sequence then Inr (Some i)
        else findWormholeMessageIndex sv coreBridgeAddress sequence (i + 1) logs))"

text \<open>
  \<open>fetchCctpAttestation\<close>: the request is repeated, after growing pauses, until its status is complete and there
  is an attestation. It may never be.
\<close>

definition attestationTurn :: "'w services \<Rightarrow> string \<Rightarrow> ('w, json option) eff" where
  "attestationTurn sv url =
     thenE (sv_fetchJson sv url) (\<lambda>response.
     liftE (bnd (jget (Some response) ''status'') (\<lambda>status.
       bnd (jget (Some response) ''attestation'') (\<lambda>attestation.
       Inr (if status \<noteq> Some (JStr ''complete'') \<or> attestation = None \<or> attestation = Some JNull
            then None else attestation)))))"

partial_function (option) attestationLoop :: "'w services \<Rightarrow> string \<Rightarrow> ('w, json) effP" where
  "attestationLoop sv url w =
     (case attestationTurn sv url w of
        (Inl e, w) \<Rightarrow> Some (Inl e, w)
      | (Inr None, w) \<Rightarrow> attestationLoop sv url w
      | (Inr (Some attestation), w) \<Rightarrow> Some (Inr attestation, w))"

definition fetchCctpAttestation :: "'w services \<Rightarrow> string \<Rightarrow> byte list \<Rightarrow> ('w, byte list) effP" where
  "fetchCctpAttestation sv attestationEndpoint encodedCctpMessage =
     thenP (attestationLoop sv (attestationEndpoint @ ''/attestations/'' @ sv_keccakText sv encodedCctpMessage)) (\<lambda>attestation.
     runP (liftE (sv_arrayify sv attestation)))"

text \<open>
  The CCTP message is taken from the log two before the Wormhole message. \<open>logs[i - 2]\<close> is \<open>undefined\<close>, on which
  \<open>parseLog\<close> throws, if the message is not found or is one of the first two.
\<close>

definition unsafeFindAssociatedCctpMessageAndAttestation :: "'w services \<Rightarrow> json \<Rightarrow> string \<Rightarrow> string option \<Rightarrow> string \<Rightarrow> vaa \<Rightarrow>
    ('w, cctpMessageArgs) effP" where
  "unsafeFindAssociatedCctpMessageAndAttestation sv rpc attestationEndpoint coreBridgeAddress txHash vaa =
     thenP (runP (sv_getTransactionReceipt sv rpc txHash)) (\<lambda>receipt.
     case receipt of
       None \<Rightarrow> runP (liftE (Inl TypeError))
     | Some logs \<Rightarrow>
         thenP (runP (liftE (bnd (findWormholeMessageIndex sv coreBridgeAddress (va_sequence vaa) 0 logs) (\<lambda>i.
           case i of
             None \<Rightarrow> Inl TypeError
           | Some i \<Rightarrow> if i < 2 then Inl TypeError else sv_parseCctpLog sv (logs ! (i - 2)))))) (\<lambda>encodedCctpMessage.
         thenP (fetchCctpAttestation sv attestationEndpoint encodedCctpMessage) (\<lambda>cctpAttestation.
         runP (retE \<lparr>cm_encodedCctpMessage = encodedCctpMessage, cm_cctpAttestation = cctpAttestation\<rparr>))))"

definition fetchCctpArgs :: "solverEnv \<Rightarrow> 'w services \<Rightarrow> appConfig \<Rightarrow> vaa \<Rightarrow> string \<Rightarrow> string \<Rightarrow> json \<Rightarrow> string option \<Rightarrow>
    ('w, cctpMessageArgs option) effP" where
  "fetchCctpArgs senv sv cfg finalizedVaa txHash fromChain rpc coreBridgeAddress =
     (if chainToPlatform senv fromChain = ''Evm'' then
        thenP (unsafeFindAssociatedCctpMessageAndAttestation sv rpc (cctpAttestationEndpoint cfg) coreBridgeAddress txHash
                 finalizedVaa) (\<lambda>args. runP (retE (Some args)))
      else runP (retE None))"

section \<open>Settling an auction\<close>

record settleAuctionAccounts =
  sa_finalizedVaaAccount :: pubkey
  sa_fastVaaAccount :: pubkey
  sa_auction :: pubkey

definition getSettleAuctionAccounts :: "'w coreUtils \<Rightarrow> env \<Rightarrow> meProgram \<Rightarrow> byte list \<Rightarrow> byte list \<Rightarrow> settleAuctionAccounts result" where
  "getSettleAuctionAccounts core env me finalizedVaaBytes fastVaaBytes =
     bnd (deserializeVaa env fastVaaBytes) (\<lambda>fastVaa.
     bnd (me_coreBridgeProgramId env me) (\<lambda>bridge.
     bnd (deserializeVaa env finalizedVaaBytes) (\<lambda>finalizedVaa.
     Inr \<lparr>sa_finalizedVaaAccount = derivePostedVaaKey core bridge (va_hash finalizedVaa),
          sa_fastVaaAccount = derivePostedVaaKey core bridge (va_hash fastVaa),
          sa_auction = me_auctionAddress env me (HashUint8Array (keccak256 env (va_hash fastVaa)))\<rparr>)))"

text \<open>
  The \<open>try\<close> around the auction: the auction and its information, if they can be read and the winner is
  recognized; any error in it ends the handler with no transactions.
\<close>

definition recognizedAuction :: "solverEnv \<Rightarrow> env \<Rightarrow> appConfig \<Rightarrow> meProgram \<Rightarrow> pubkey \<Rightarrow> (auction \<times> auctionInfo) option" where
  "recognizedAuction senv env cfg me auctionAddress =
     (case bnd (me_fetchAuction env me (AtAddress auctionAddress)) (\<lambda>auctionData.
         case au_info auctionData of
           None \<Rightarrow> Inl TypeError
         | Some info \<Rightarrow>
             bnd (isRecognizedTokenAccount senv env cfg (ai_bestOfferToken info)) (\<lambda>recognized.
             Inr (if recognized then Some (auctionData, info) else None))) of
        Inl e \<Rightarrow> None
      | Inr r \<Rightarrow> r)"

text \<open>A missing lookup table fails here and not only when the message is compiled.\<close>

definition createSettleTx :: "'w connection \<Rightarrow> solverEnv \<Rightarrow> 'w services \<Rightarrow> appConfig \<Rightarrow> meProgram \<Rightarrow> pubkey \<Rightarrow> pubkey \<Rightarrow> pubkey \<Rightarrow>
    pubkey \<Rightarrow> pubkey \<Rightarrow> cctpMessageArgs \<Rightarrow> pubkey list \<Rightarrow> ('w, preparedTransaction) eff" where
  "createSettleTx conn senv sv cfg me executor fastVaa finalizedVaa auction bestOfferToken cctpArgs signers =
     thenE (liftE (solanaAddressLookupTable senv cfg)) (\<lambda>table.
     thenE (sv_getAddressLookupTable sv table) (\<lambda>lookupTableAccount.
     thenE (liftE (unitsOf (settleAuctionCompleteComputeUnits cfg))) (\<lambda>computeUnits.
     thenE (liftE (case lookupTableAccount of None \<Rightarrow> Inl TypeError | Some t \<Rightarrow> Inr t)) (\<lambda>lookupTableAccount.
     readE conn (\<lambda>env. me_settleAuctionCompleteTx env me executor fastVaa finalizedVaa bestOfferToken auction cctpArgs signers
       \<lparr>to_feeMicroLamports = 10, to_computeUnits = computeUnits, to_nonceAccount = None,
        to_addressLookupTableAccounts = Some [lookupTableAccount]\<rparr>
       (Some \<lparr>co_skipPreflight = Some False, co_commitment = commitmentOf (solanaCommitment cfg)\<rparr>))))))"

text \<open>The part of the handler after the auction has been found complete.\<close>

definition settleCompleted :: "'w connection \<Rightarrow> 'w coreUtils \<Rightarrow> solverEnv \<Rightarrow> 'w services \<Rightarrow> appConfig \<Rightarrow> meProgram \<Rightarrow> vaa \<Rightarrow>
    string \<Rightarrow> unsafeChainConfig \<Rightarrow> settleAuctionAccounts \<Rightarrow> auctionInfo \<Rightarrow> pubkey \<Rightarrow> ('w, preparedTransaction list) effP" where
  "settleCompleted conn core senv sv cfg me parsed txHash chainCfg accts info payer =
     thenP (fetchCctpArgs senv sv cfg parsed txHash (ie_chain (cc_input (uc_config chainCfg)))
              (ie_rpc (cc_input (uc_config chainCfg))) (uc_coreBridgeAddress chainCfg)) (\<lambda>cctpArgs.
     case cctpArgs of
       None \<Rightarrow> runP (retE [])
     | Some cctpArgs \<Rightarrow>
         runP (thenE (accountExists conn (sa_finalizedVaaAccount accts)) (\<lambda>isPosted.
         thenE (if isPosted then retE []
                else (\<lambda>w. preparePostVaaTxs conn core cfg me payer (sv_newSignatureSet sv w) parsed
                  (Some \<lparr>co_skipPreflight = None, co_commitment = commitmentOf (solanaCommitment cfg)\<rparr>) w)) (\<lambda>preparedPostVaaTxs.
         thenE (createSettleTx conn senv sv cfg me payer (sa_fastVaaAccount accts) (sa_finalizedVaaAccount accts)
                  (sa_auction accts) (ai_bestOfferToken info) cctpArgs [payer]) (\<lambda>settleAuctionTx.
         retE (preparedPostVaaTxs @ [settleAuctionTx]))))))"

text \<open>
  The handler once the fast VAA is there. \<open>status.settled\<close> is never set when \<open>status.completed\<close> is, so the check
  for it has no branch.
\<close>

definition settleWithVaa :: "'w connection \<Rightarrow> 'w coreUtils \<Rightarrow> solverEnv \<Rightarrow> 'w services \<Rightarrow> appConfig \<Rightarrow> meProgram \<Rightarrow> vaa \<Rightarrow>
    byte list \<Rightarrow> pubkey \<Rightarrow> unsafeChainConfig \<Rightarrow> byte list \<Rightarrow> string \<Rightarrow> ('w, preparedTransaction list) effP" where
  "settleWithVaa conn core senv sv cfg me parsed raw payer chainCfg vaaBytes txHash =
     thenP (runP (readE conn (\<lambda>env. deserializeVaa env vaaBytes))) (\<lambda>fastVaaParsed.
     thenP (runP (readE conn (\<lambda>env. Inr (tryParseFastMarketOrder env (va_payload fastVaaParsed))))) (\<lambda>fastOrder.
     if fastOrder = None then runP (retE [])
     else
     thenP (runP (readE conn (\<lambda>env. getSettleAuctionAccounts core env me raw vaaBytes))) (\<lambda>accts.
     thenP (runP (readE conn (\<lambda>env. Inr (recognizedAuction senv env cfg me (sa_auction accts))))) (\<lambda>found.
     case found of
       None \<Rightarrow> runP (retE [])
     | Some (auctionData, info) \<Rightarrow>
         (case au_status auctionData of
            Completed slot executePenalty \<Rightarrow>
              settleCompleted conn core senv sv cfg me parsed txHash chainCfg accts info payer
          | _ \<Rightarrow> runP (retE []))))))"

text \<open>Sequences are far below \<open>2 ^ 53\<close>, so that \<open>Number\<close> keeps them.\<close>

definition handleSettleAuction :: "'w connection \<Rightarrow> 'w coreUtils \<Rightarrow> solverEnv \<Rightarrow> 'w services \<Rightarrow> appConfig \<Rightarrow> meProgram \<Rightarrow> vaa \<Rightarrow>
    byte list \<Rightarrow> pubkey \<Rightarrow> ('w, preparedTransaction list) effP" where
  "handleSettleAuction conn core senv sv cfg me parsed raw payer =
     thenP (runP (readE conn (\<lambda>env. bnd (toChainId env (va_emitterChain parsed)) (\<lambda>chain.
       bnd (unsafeChainCfg cfg chain) (\<lambda>chainCfg. Inr (chain, chainCfg)))))) (\<lambda>(chain, chainCfg).
     let fastVaaSequence = va_sequence parsed + 1 in
     thenP (runP (fetchVaaFromWormscan senv sv cfg chain fastVaaSequence (sv_addressText sv (va_emitterAddress parsed))))
       (\<lambda>vaaResponse.
     case (vr_vaa vaaResponse, vr_txHash vaaResponse) of
       (Some vaaBytes, Some txHash) \<Rightarrow>
         settleWithVaa conn core senv sv cfg me parsed raw payer chainCfg vaaBytes txHash
     | _ \<Rightarrow> runP (retE [])))"

section \<open>The relayer\<close>

definition DELAYED_VAA_THRESHOLD :: int where
  "DELAYED_VAA_THRESHOLD = 60"

text \<open>
  The callback of \<open>spy.onObservation\<close>, at \<open>now\<close> milliseconds: the batch of transactions it puts into the queue.
\<close>

definition onObservation :: "'w connection \<Rightarrow> 'w coreUtils \<Rightarrow> solverEnv \<Rightarrow> 'w services \<Rightarrow> appConfig \<Rightarrow> meProgram \<Rightarrow> pubkey \<Rightarrow> int \<Rightarrow>
    byte list \<Rightarrow> vaa \<Rightarrow> preparedTransaction list list \<Rightarrow> ('w, preparedTransaction list list) effP" where
  "onObservation conn core senv sv cfg me payer now raw parsed transactionBatchQueue =
     thenP (runP (readE conn (\<lambda>env. isFastFinality env cfg parsed))) (\<lambda>fast.
     thenP (if fast then
              let currTime = now div 1000 in
              if currTime - va_timestamp parsed > DELAYED_VAA_THRESHOLD then runP (retE [])
              else thenP (runP (readE conn (\<lambda>env. Inr (tryParseFastMarketOrder env (va_payload parsed))))) (\<lambda>fastOrder.
                case fastOrder of
                  None \<Rightarrow> runP (retE [])
                | Some order \<Rightarrow> runP (handlePlaceInitialOffer conn core sv cfg me parsed raw order payer))
            else thenP (runP (readE conn (\<lambda>env. Inr (tryParseSlowOrderResponse env (va_payload parsed))))) (\<lambda>slowOrderResponse.
              if slowOrderResponse = None then runP (retE [])
              else handleSettleAuction conn core senv sv cfg me parsed raw payer)) (\<lambda>txnBatch.
     runP (retE (if txnBatch \<noteq> [] then transactionBatchQueue @ [txnBatch] else transactionBatchQueue))))"

text \<open>One turn of the loop of \<open>spawnTransactionProcessor\<close>: the batch that is sent, without waiting for it.\<close>

definition processorTurn :: "preparedTransaction list list \<Rightarrow> preparedTransaction list list \<times> preparedTransaction list option" where
  "processorTurn preparedTransactionQueue =
     (case preparedTransactionQueue of
        [] \<Rightarrow> ([], None)
      | preparedBatch # rest \<Rightarrow> (rest, Some preparedBatch))"

section \<open>The improver\<close>

record improver =
  im_offerToken :: offerToken
  im_cachedBlockhash :: cachedBlockhash
  im_ourTokenAccounts :: "pubkey list"

definition bnToNumber :: "int \<Rightarrow> int result" where
  "bnToNumber n = (if \<bar>n\<bar> < 2 ^ 53 then Inr n else Inl (Error ''Number can only safely store up to 53 bits''))"

definition initializeImprover :: "solverEnv \<Rightarrow> env \<Rightarrow> appConfig \<Rightarrow> meProgram \<Rightarrow> pubkey \<Rightarrow> improver result" where
  "initializeImprover senv env cfg me participant =
     bnd (initializeOfferToken env me participant) (\<lambda>offerToken.
     bnd (recognizedTokenAccounts senv env cfg) (\<lambda>ours.
     Inr \<lparr>im_offerToken = offerToken, im_cachedBlockhash = newCachedBlockhash,
          im_ourTokenAccounts = (if ot_address offerToken \<in> set ours then ours else ours @ [ot_address offerToken])\<rparr>))"

text \<open>
  \<open>lten\<close> of a \<open>BN\<close> that is not negative takes a number below \<open>2 ^ 26\<close>. It answers without looking at the number
  if the \<open>BN\<close> is larger than that, and otherwise throws for a larger number.
\<close>

definition bnLten :: "int \<Rightarrow> int \<Rightarrow> bool result" where
  "bnLten a n =
     (if 0x3ffffff < a then Inr False
      else if 0x3ffffff < n then Inl (Error ''Number is too big'')
      else Inr (a \<le> n))"

text \<open>
  The callback on an auction event seen at a slot: the improver's new state and the transaction that is sent,
  without waiting for it, if any.
\<close>

definition onAuctionUpdate :: "'w connection \<Rightarrow> appConfig \<Rightarrow> meProgram \<Rightarrow> auctionUpdated \<Rightarrow> int \<Rightarrow> improver \<Rightarrow>
    ('w, improver \<times> preparedTransaction option) eff" where
  "onAuctionUpdate conn cfg me event slot im =
     thenE (readE conn (\<lambda>env. pricingParametersFor env cfg (up_sourceChain event))) (\<lambda>pricingParams.
     case pricingParams of
       None \<Rightarrow> retE (im, None)
     | Some pricingParams \<Rightarrow>
         if up_bestOfferToken event \<in> set (im_ourTokenAccounts im) then
           let tokenBalanceAfter = up_tokenBalanceBefore event - up_totalDeposit event
           in retE (if up_bestOfferToken event = ot_address (im_offerToken im)
                    then im\<lparr>im_offerToken := updateOfferBalance tokenBalanceAfter (im_offerToken im)\<rparr> else im, None)
         else
           thenE (liftE (bnLten (up_endSlot event) slot)) (\<lambda>ended.
           thenE (liftE (case up_auction event of None \<Rightarrow> Inl TypeError | Some a \<Rightarrow> Inr a)) (\<lambda>auction.
           if ended then retE (im, None)
           else
           thenE (liftE (case up_maxOfferPriceAllowed event of
                    None \<Rightarrow> bnd (shouldImproveOffer (UBN (up_amountIn event)) (UBigint 0) pricingParams) (\<lambda>_. Inl TypeError)
                  | Some price \<Rightarrow>
                      bnd (shouldImproveOffer (UBN (up_amountIn event)) (UBN price) pricingParams) (\<lambda>improve.
                      Inr (improve, price)))) (\<lambda>(improve, price).
           if \<not> improve then retE (im, None)
           else
           thenE (liftE (bnToNumber (up_amountIn event sdiv 1000000))) (\<lambda>scaled.
           let (fee, cached) = addNoise (42069 + 100 * scaled) (im_cachedBlockhash im);
               authority = ot_authority (im_offerToken im)
           in thenE (readE conn (\<lambda>env. bnd (me_auctionConfigAddress env me (up_configId event)) (\<lambda>auctionConfig.
                me_improveOfferTx env me authority auction auctionConfig (up_bestOfferToken event)
                  (UBN price) (UBN (up_totalDeposit event)) [authority]
                  \<lparr>to_feeMicroLamports = fee, to_computeUnits = 50000, to_nonceAccount = None,
                   to_addressLookupTableAccounts = None\<rparr>
                  (Some \<lparr>co_skipPreflight = Some True, co_commitment = None\<rparr>)))) (\<lambda>preppedTx.
              retE (im\<lparr>im_cachedBlockhash := cached\<rparr>, Some preppedTx)))))))"

section \<open>Lookups\<close>

text \<open>
  Wormholescan is asked at most once: whatever the number of retries in the configuration, the loop ends
  after its first turn, because a turn that does not throw always sets both fields; without a number
  of retries, which validation does not require, it is never asked and nothing is ever settled.
\<close>

theorem wormscan_never_retries:
  "fetchVaaFromWormscan senv sv cfg chain sequence emitter =
    (if retriesAllowed (sh_maxRetries (sourceTxHash cfg)) = 0 then retE \<lparr>vr_vaa = None, vr_txHash = None\<rparr>
     else wormscanTurn senv sv (wormholeScanVaaEndpoint cfg @ intText chain @ ''/'' @ emitter @ ''/'' @ intText sequence)) \<and>
   (sh_maxRetries (sourceTxHash cfg) = None \<longrightarrow>
     (\<forall>w txs w'. handleSettleAuction conn core senv sv cfg me parsed raw payer w = Some (Inr txs, w') \<longrightarrow> txs = []))"
proof -
  have turn: "thenE (wormscanTurn senv sv url) (wormscanLoop senv sv url n) = wormscanTurn senv sv url" for url n
  proof
    fix w
    obtain r w' where t: "wormscanTurn senv sv url w = (r, w')" by force
    show "thenE (wormscanTurn senv sv url) (wormscanLoop senv sv url n) w = wormscanTurn senv sv url w"
    proof (cases r)
      case (Inl e)
      with t show ?thesis by (simp add: thenE_def)
    next
      case (Inr v)
      with t have "vr_vaa v \<noteq> None"
        by (auto simp: wormscanTurn_def eff_Inr bnd_eq_Inr_iff)
      with t Inr show ?thesis by (cases n) (auto simp: thenE_def retE_def liftE_def)
    qed
  qed
  have "fetchVaaFromWormscan senv sv cfg chain sequence emitter =
    (if retriesAllowed (sh_maxRetries (sourceTxHash cfg)) = 0 then retE \<lparr>vr_vaa = None, vr_txHash = None\<rparr>
     else wormscanTurn senv sv (wormholeScanVaaEndpoint cfg @ intText chain @ ''/'' @ emitter @ ''/'' @ intText sequence))"
    for chain sequence emitter
    by (cases "retriesAllowed (sh_maxRetries (sourceTxHash cfg))") (simp_all add: fetchVaaFromWormscan_def turn)
  moreover have "retriesAllowed None = 0" by (simp add: retriesAllowed_def)
  ultimately show ?thesis
    by (auto simp: handleSettleAuction_def eff_Inr Let_def split: prod.splits)
qed

definition lonelyApp :: appConfig where
  "lonelyApp = demoApp\<lparr>ac_chainCfgs := \<lambda>_. Some (chainConfigOf demoSolverEnv
     \<lparr>ie_chain = ''Sepolia'', ie_chainType = Evm, ie_rpc = JStr ''http'', ie_endpoint = ''0x6C''\<rparr>)\<rparr>"

theorem wormscan_never_retries_witness:
  "\<forall>env core sv me parsed raw payer w.
     handleSettleAuction (demoConn (demoChains env) (\<lambda>_ _. False)) core demoSolverEnv sv lonelyApp me parsed raw payer w =
       Some (Inr [], w)"
proof (intro allI)
  fix env core sv me parsed raw payer and w :: "instruction set"
  let ?run = "handleSettleAuction (demoConn (demoChains env) (\<lambda>_ _. False)) core demoSolverEnv sv lonelyApp me parsed raw payer w"
  have none: "sh_maxRetries (sourceTxHash lonelyApp) = None"
    by (simp add: sourceTxHash_def lonelyApp_def demoApp_def demoConfig_def)
  then have "retriesAllowed (sh_maxRetries (sourceTxHash lonelyApp)) = 0" by (simp add: retriesAllowed_def)
  then have "\<exists>txs. ?run = Some (Inr txs, w)"
    by (simp add: handleSettleAuction_def fetchVaaFromWormscan_def thenP_def runP_def readE_def retE_def liftE_def demoConn_def
        unsafeChainCfg_def lonelyApp_def demoChains_def Let_def)
  moreover have "txs = []" if "?run = Some (Inr txs, w)" for txs
    by (rule wormscan_never_retries [THEN conjunct2, rule_format, OF none that])
  ultimately show "?run = Some (Inr [], w)" by blast
qed

section \<open>The balance\<close>

text \<open>A connection that answers requests for token accounts differently.\<close>

definition withTokenAccounts :: "(pubkey \<Rightarrow> tokenAccount result) \<Rightarrow> 'w connection \<Rightarrow> 'w connection" where
  "withTokenAccounts f conn = conn\<lparr>cn_env := (\<lambda>w. (cn_env conn w)\<lparr>getTokenAccount := f\<rparr>)\<rparr>"

lemma readE_withTokenAccounts:
  "(\<And>env. g (env\<lparr>getTokenAccount := f\<rparr>) = g env) \<Longrightarrow> readE (withTokenAccounts f conn) g = readE conn g"
  by (simp add: readE_def withTokenAccounts_def)

named_theorems balance_free \<comment> \<open>computations that do not read token accounts\<close>

lemma findPricing_balance [balance_free]: "findPricing (env\<lparr>getTokenAccount := f\<rparr>) chain ps = findPricing env chain ps"
  by (induction ps) (simp_all cong: if_cong)

lemma me_balance [balance_free]:
  "me_ID (env\<lparr>getTokenAccount := f\<rparr>) me = me_ID env me"
  "me_coreBridgeProgramId (env\<lparr>getTokenAccount := f\<rparr>) me = me_coreBridgeProgramId env me"
  by (simp_all add: me_ID_def me_coreBridgeProgramId_def cong: if_cong)

lemma me_addresses_balance [balance_free]:
  "me_routerEndpointAddress (env\<lparr>getTokenAccount := f\<rparr>) me c = me_routerEndpointAddress env me c"
  "me_auctionAddress (env\<lparr>getTokenAccount := f\<rparr>) me h = me_auctionAddress env me h"
  "me_custodianAddress (env\<lparr>getTokenAccount := f\<rparr>) me = me_custodianAddress env me"
  "me_auctionConfigAddress (env\<lparr>getTokenAccount := f\<rparr>) me = me_auctionConfigAddress env me"
  "me_transferAuthorityAddress (env\<lparr>getTokenAccount := f\<rparr>) me a p = me_transferAuthorityAddress env me a p"
  "me_auctionCustodyTokenAddress (env\<lparr>getTokenAccount := f\<rparr>) me a = me_auctionCustodyTokenAddress env me a"
  "me_eventAuthorityAddress (env\<lparr>getTokenAccount := f\<rparr>) me = me_eventAuthorityAddress env me"
  by (simp_all add: me_routerEndpointAddress_def routerEndpoint_address_def me_auctionAddress_def auction_address_def
      me_custodianAddress_def custodian_address_def emitterAddress_def me_auctionConfigAddress_def auctionConfig_address_def
      me_transferAuthorityAddress_def me_auctionCustodyTokenAddress_def me_eventAuthorityAddress_def balance_free
      fun_eq_iff)

lemma me_fetch_balance [balance_free]:
  "me_fetchCustodian (env\<lparr>getTokenAccount := f\<rparr>) me k = me_fetchCustodian env me k"
  "me_fetchAuctionParameters (env\<lparr>getTokenAccount := f\<rparr>) me i = me_fetchAuctionParameters env me i"
  by (simp_all add: me_fetchAuctionParameters_def me_fetchCustodian_def balance_free)

lemma me_computeNotional_balance [balance_free]:
  "me_computeNotionalSecurityDeposit (env\<lparr>getTokenAccount := f\<rparr>) me n i = me_computeNotionalSecurityDeposit env me n i"
  by (simp add: me_computeNotionalSecurityDeposit_def balance_free)

lemma me_placeInitialOfferTx_balance [balance_free]:
  "me_placeInitialOfferTx (env\<lparr>getTokenAccount := f\<rparr>) me payer fastVaa from to auction price deposit signers opts confirm =
   me_placeInitialOfferTx env me payer fastVaa from to auction price deposit signers opts confirm"
  by (simp add: me_placeInitialOfferTx_def me_placeInitialOfferCctpIx_def me_initialOfferLookup_def
      me_approveTransferAuthorityIx_def me_checkedCustodianComposite_def balance_free)

lemma handler_reads_balance [balance_free]:
  "getPlaceInitialOfferAccounts core (env\<lparr>getTokenAccount := f\<rparr>) me raw c d = getPlaceInitialOfferAccounts core env me raw c d"
  "pricingOrThrow (env\<lparr>getTokenAccount := f\<rparr>) cfg c = pricingOrThrow env cfg c"
  by (simp_all add: getPlaceInitialOfferAccounts_def pricingOrThrow_def pricingParametersFor_def balance_free)

lemma posting_balance [balance_free]:
  "accountExists (withTokenAccounts f conn) a = accountExists conn a"
  "preparePostVaaTxs (withTokenAccounts f conn) core cfg me payer sigset vaa confirm =
   preparePostVaaTxs conn core cfg me payer sigset vaa confirm"
  by (simp_all add: accountExists_def preparePostVaaTxs_def readE_withTokenAccounts balance_free)

text \<open>
  The solver's balance does not matter for its initial offers: whatever the token accounts hold, and even if
  they cannot be read, the handler prepares the same transactions, because it tests a promise instead
  of its result.
\<close>

theorem initial_offer_ignores_balance:
  "handlePlaceInitialOffer (withTokenAccounts f conn) core sv cfg me fastVaa rawVaa order payer =
   handlePlaceInitialOffer conn core sv cfg me fastVaa rawVaa order payer"
  by (simp add: handlePlaceInitialOffer_def placeOffer_def readE_withTokenAccounts balance_free cong: if_cong)

end
