(* ===== verification/Solver_Guards.thy ===== *)
theory Solver_Guards
  imports Solver_Handlers Transactions
begin

text \<open>
  When the solver acts: what has been checked before a handler hands over a transaction, and what the
  transaction commits the solver to. The handlers are those of \<open>Solver_Handlers\<close>, the transactions those of
  the Matching Engine's theories.
\<close>

section \<open>An example solver\<close>

text \<open>
  A configuration with one EVM chain, services that answer with fixed values, and a chain on which every account
  but the one at \<open>[2]\<close> exists.
\<close>

definition guardEnv :: "env \<Rightarrow> env" where
  "guardEnv env = (demoChain env)\<lparr>
     findProgramAddress := \<lambda>_ _. [2],
     deserializeVaa := \<lambda>_. Inr \<lparr>va_emitterChain = ''Ethereum'', va_emitterAddress = [3], va_sequence = 9, va_timestamp = 5,
       va_consistencyLevel = 1, va_payload = [11], va_hash = [6]\<rparr>,
     getAccountInfo := \<lambda>k. Inr (if k = [2] then None else Some (postedAccountBytes demoVaa)),
     getTokenAccount := \<lambda>_. Inr \<lparr>ta_owner = [7], ta_amount = 0\<rparr>,
     acctAuction := \<lambda>_. Inr (demoAuction\<lparr>au_info := Some (demoInfo\<lparr>ai_bestOfferToken := ascii ''Owner''\<rparr>)\<rparr>)\<rparr>"

definition guardConn :: "env \<Rightarrow> instruction set connection" where
  "guardConn env = demoConn (guardEnv env) (\<lambda>_ _. False)"

definition guardVaa :: vaa where
  "guardVaa = \<lparr>va_emitterChain = ''Ethereum'', va_emitterAddress = [3], va_sequence = 8, va_timestamp = 5,
     va_consistencyLevel = 1, va_payload = [11], va_hash = [5]\<rparr>"

definition guardApp :: appConfig where
  "guardApp = \<lparr>ac_cfg = demoConfig\<lparr>
       ec_sourceTxHash := \<lparr>sh_maxRetries = Some (JNum (Dbl 1 0)), sh_retryBackoff = None\<rparr>,
       ec_computeUnits := \<lparr>cu_verifySignatures = None, cu_postVaa = None, cu_settleAuctionNoneCctp = None,
         cu_settleAuctionNoneLocal = None, cu_settleAuctionComplete = Some (JNum (Dbl 1 0)),
         cu_initiateAuction = Some (JNum (Dbl 1 0))\<rparr>\<rparr>,
     ac_chainCfgs = (\<lambda>_. Some (chainConfigOf demoSolverEnv
       \<lparr>ie_chain = ''Ethereum'', ie_chainType = Evm, ie_rpc = JStr ''http'', ie_endpoint = ''0x6C''\<rparr>)),
     ac_core = (\<lambda>_. Some ''0x4a8b'')\<rparr>"

definition guardCore :: "'w coreUtils \<Rightarrow> 'w coreUtils" where
  "guardCore core = core\<lparr>derivePostedVaaKey := \<lambda>_ _. [8]\<rparr>"

definition guardServices :: "'w services" where
  "guardServices = \<lparr>
     sv_fetchJson = \<lambda>_. retE (JObj [(''data'', JObj [(''txHash'', JStr ''ab''), (''vaa'', JStr ''AQ'')]),
       (''status'', JStr ''complete''), (''attestation'', JStr ''0x'')]),
     sv_fromBase64 = \<lambda>_. Inr [1],
     sv_addressText = \<lambda>_. ''03'',
     sv_getAddressLookupTable = \<lambda>k. retE (Some k),
     sv_getTransactionReceipt = \<lambda>_ _. retE (Some [
       \<lparr>el_address = ''0xbd3f'', el_topics = [], el_data = ''0x''\<rparr>, \<lparr>el_address = ''0x9f3b'', el_topics = [], el_data = ''0x''\<rparr>,
       \<lparr>el_address = ''0x4a8b'', el_topics = [], el_data = ''0x''\<rparr>]),
     sv_parseWormholeLog = \<lambda>_. Inr 8,
     sv_parseCctpLog = \<lambda>_. Inr (alloc 248),
     sv_arrayify = \<lambda>_. Inr [4],
     sv_keccakText = \<lambda>_. ''0x'',
     sv_newSignatureSet = \<lambda>_. [9]\<rparr>"

definition guardMe :: meProgram where
  "guardMe = \<lparr>me_programId = me_testnet, me_mint = [1]\<rparr>"

definition guardOrder :: fastMarketOrder where
  "guardOrder = demoFast\<lparr>fm_maxFee := 1000\<rparr>"

lemma guard_bridge: "\<exists>k. me_coreBridgeProgramId env guardMe = Inr k"
  by (simp add: me_coreBridgeProgramId_def guardMe_def me_mainnet_def me_testnet_def)

lemma guard_env [simp]:
  "cn_env (guardConn env) w = guardEnv env" "cn_later (guardConn env) w = w"
  by (simp_all add: guardConn_def demoConn_def)

lemma guard_fetch [simp]:
  "findProgramAddress (guardEnv env) s p = [2]" "toChainId (guardEnv env) c = Inr (if c = ''Solana'' then 1 else 2)"
  "associatedTokenAddress (guardEnv env) m ow off = Inr ow"
  "getAccountInfo (guardEnv env) k = Inr (if k = [2] then None else Some (postedAccountBytes demoVaa))"
  by (simp_all add: guardEnv_def demoChain_def)

section \<open>Initial offers\<close>

lemma placeInitialOfferTx_shape:
  assumes "me_placeInitialOfferTx env me payer fastVaa from to auction (UBigint price) (UBigint deposit) signers opts confirm =
    Inr tx"
  shows "\<exists>account delegate accs. pt_signers tx = signers \<and> pt_confirmOptions tx = confirm \<and>
    pt_ixs tx = [SplApprove account delegate payer deposit,
      AnchorCall (me_ID env me) ''placeInitialOfferCctp'' [ArgBN price] accs] \<and>
    map_of accs ''transferAuthority'' = Some (Key delegate) \<and> map_of accs ''auction'' = Some (Key auction)"
  using assms
  by (auto simp: me_placeInitialOfferTx_def me_placeInitialOfferCctpIx_def me_initialOfferLookup_def preparedTx_def
      bnd_eq_Inr_iff Let_def approve_Inr_iff uint64ToBN_def writeUint64BE_def writeBE_alloc_Inr_iff beNat_beBytes)

lemma placeOffer_txs:
  assumes "placeOffer conn core sv cfg me fastVaa order payer accts deposit w = (Inr txs, w')"
  shows "\<exists>w1 posts opts confirm tx. txs = posts @ [tx] \<and>
    me_placeInitialOfferTx (cn_env conn w1) me payer (pa_fastVaaAccount accts)
         (pa_fromRouterEndpoint accts) (pa_toRouterEndpoint accts) (pa_auction accts)
         (UBigint (fm_maxFee order)) (UBigint deposit) [payer] opts confirm = Inr tx"
  using assms unfolding placeOffer_def eff_Inr by blast

text \<open>
  C11. An initial offer is made only for an auction that does not exist and a fee that the offer rule accepts,
  and it commits the solver to nothing else: the last transaction of the batch approves exactly the
  order's amount, its maximum fee and a notional deposit, to the transfer authority that the offer
  names, at the full fee, for the payer alone to sign.
\<close>

theorem initial_offer_guarded:
  assumes "handlePlaceInitialOffer conn core sv cfg me fastVaa rawVaa order payer w = (Inr txs, w')" "txs \<noteq> []"
  shows "\<exists>w1 w2 w3 w4 chain auction pricing fv notional account delegate accs.
    getAccountInfo (cn_env conn w1) auction = Inr None \<and>
    pricingParametersFor (cn_env conn w2) cfg chain = Inr (Some pricing) \<and>
    isFeeHighEnough order pricing = Inr (True, fv) \<and> fv \<le> fm_maxFee order \<and>
    me_computeNotionalSecurityDeposit (cn_env conn w4) me (UBigint (fm_amountIn order)) (Some 2) = Inr notional \<and>
    pt_signers (last txs) = [payer] \<and>
    pt_ixs (last txs) = [SplApprove account delegate payer (fm_amountIn order + fm_maxFee order + notional),
      AnchorCall (me_ID (cn_env conn w3) me) ''placeInitialOfferCctp'' [ArgBN (fm_maxFee order)] accs] \<and>
    map_of accs ''transferAuthority'' = Some (Key delegate) \<and> map_of accs ''auction'' = Some (Key auction)"
proof -
  from assms obtain w1 w2 w4 w5 chain accts pricing fv notional where
    1: "getAccountInfo (cn_env conn w1) (pa_auction accts) = Inr None"
    and 2: "pricingParametersFor (cn_env conn w2) cfg chain = Inr (Some pricing)" "isFeeHighEnough order pricing = Inr (True, fv)"
      "me_computeNotionalSecurityDeposit (cn_env conn w5) me (UBigint (fm_amountIn order)) (Some 2) = Inr notional"
    and 3: "placeOffer conn core sv cfg me fastVaa order payer accts (fm_amountIn order + fm_maxFee order + notional) w4 = (Inr txs, w')"
    unfolding handlePlaceInitialOffer_def Let_def case_prod_unfold
    by (auto simp: eff_Inr bnd_eq_Inr_iff pricingOrThrow_def accountExists_def split: if_splits option.splits prod.splits)
  from placeOffer_txs [OF 3] obtain w3 posts opts confirm tx where txs: "txs = posts @ [tx]" and
    "me_placeInitialOfferTx (cn_env conn w3) me payer (pa_fastVaaAccount accts) (pa_fromRouterEndpoint accts)
       (pa_toRouterEndpoint accts) (pa_auction accts) (UBigint (fm_maxFee order))
       (UBigint (fm_amountIn order + fm_maxFee order + notional)) [payer] opts confirm = Inr tx" by blast
  from placeInitialOfferTx_shape [OF this(2)] obtain account delegate accs where
    "pt_signers tx = [payer]" "pt_ixs tx = [SplApprove account delegate payer (fm_amountIn order + fm_maxFee order + notional),
      AnchorCall (me_ID (cn_env conn w3) me) ''placeInitialOfferCctp'' [ArgBN (fm_maxFee order)] accs]"
    "map_of accs ''transferAuthority'' = Some (Key delegate)" "map_of accs ''auction'' = Some (Key (pa_auction accts))" by blast
  moreover have "fv \<le> fm_maxFee order"
    using 2(2) by (auto simp: isFeeHighEnough_def Let_def bnd_eq_Inr_iff split: if_splits)
  ultimately show ?thesis using 1 2 txs by (metis last_snoc)
qed

lemma guard_notional: "me_computeNotionalSecurityDeposit (guardEnv env) p (UBigint 1000) (Some 2) = Inr 4200005"
  by (simp add: me_computeNotionalSecurityDeposit_def me_fetchAuctionParameters_def me_auctionConfigAddress_def
      auctionConfig_address_def auctionConfig_seeds_def writeBE_alloc guardEnv_def demoChain_def demoEnv_def
      decodedParameters_def demoParams_def uint64ToBigInt_BN bigDiv_def FEE_PRECISION_MAX_def sdiv_nonneg
      del: uint64ToBigInt.simps(3))

lemma guard_offer_tx:
  "\<exists>tx. me_placeInitialOfferTx (guardEnv env) p payer fastVaa from to auction (UBigint 1000) (UBigint 4202005)
     signers opts confirm = Inr tx"
  by (simp add: me_placeInitialOfferTx_def me_placeInitialOfferCctpIx_def me_initialOfferLookup_def me_fetchCustodian_def
      me_approveTransferAuthorityIx_def me_transferAuthorityAddress_def meTransferAuthority_seeds_def writeUint64BE_def
      writeBE_alloc uint64ToBN_def me_auctionConfigAddress_def auctionConfig_address_def auctionConfig_seeds_def
      guardEnv_def demoChain_def demoEnv_def Let_def)

lemma guard_accounts:
  "\<exists>accts. getPlaceInitialOfferAccounts (guardCore core) (guardEnv env) guardMe raw 2 2 = Inr accts \<and>
     pa_fastVaaAccount accts = [8] \<and> pa_auction accts = [2]"
  using guard_bridge [of "guardEnv env"]
  by (auto simp: getPlaceInitialOfferAccounts_def guardCore_def Let_def me_routerEndpointAddress_def routerEndpoint_address_def
      routerEndpoint_seeds_def writeBE_alloc me_auctionAddress_def auction_address_def)
    (simp add: guardEnv_def)

lemma guard_bits: "bitLen 10000 = 14"
  by (simp add: bitLen.simps)

lemma guard_pricing:
  "bnd (pricingOrThrow (guardEnv env) guardApp 2) (isFeeHighEnough guardOrder) = Inr (True, 1000)"
  by (simp add: pricingOrThrow_def pricingParametersFor_def guardApp_def demoConfig_def guardOrder_def demoFast_def
      isFeeHighEnough_def mulDouble_def doubleOfInt_def roundDouble_def bigIntOfDouble_def Let_def guard_bits roundEven_def sdiv_nonneg)

lemma guard_offer:
  "\<exists>tx. handlePlaceInitialOffer (guardConn env) (guardCore core) guardServices guardApp guardMe guardVaa [0] guardOrder [7] w =
     (Inr [tx], w)"
proof -
  obtain accts where accts: "getPlaceInitialOfferAccounts (guardCore core) (guardEnv env) guardMe [0] 2 2 = Inr accts"
    "pa_fastVaaAccount accts = [8]" "pa_auction accts = [2]" using guard_accounts by blast
  have units: "unitsOf (initiateAuctionComputeUnits guardApp) = Inr 1"
    by (simp add: unitsOf_def initiateAuctionComputeUnits_def guardApp_def bigIntOfDouble_def)
  let ?confirm = "Some \<lparr>co_skipPreflight = Some False, co_commitment = commitmentOf (solanaCommitment guardApp)\<rparr>"
  obtain tx where "me_placeInitialOfferTx (guardEnv env) guardMe [7] [8] (pa_fromRouterEndpoint accts)
      (pa_toRouterEndpoint accts) [2] (UBigint 1000) (UBigint 4202005) [[7]]
      \<lparr>to_feeMicroLamports = 10, to_computeUnits = 1, to_nonceAccount = None, to_addressLookupTableAccounts = None\<rparr>
      ?confirm = Inr tx" using guard_offer_tx by blast
  then have "placeOffer (guardConn env) (guardCore core) guardServices guardApp guardMe guardVaa guardOrder [7] accts 4202005 w =
      (Inr [tx], w)"
    by (simp add: placeOffer_def accountExists_def thenE_def readE_def retE_def liftE_def units accts)
      (simp add: guardOrder_def)
  moreover have "va_emitterChain guardVaa = ''Ethereum''" "fm_targetChain guardOrder = ''Ethereum''"
    "fm_amountIn guardOrder = 1000" "fm_maxFee guardOrder = 1000"
    by (simp_all add: guardVaa_def guardOrder_def demoFast_def)
  ultimately have "handlePlaceInitialOffer (guardConn env) (guardCore core) guardServices guardApp guardMe guardVaa [0] guardOrder [7] w =
      (Inr [tx], w)"
    by (simp add: handlePlaceInitialOffer_def accountExists_def thenE_def readE_def guard_pricing guard_notional accts)
  then show ?thesis by blast
qed

theorem initial_offer_guarded_witness:
  "\<forall>env core w. \<exists>tx account delegate accs.
    handlePlaceInitialOffer (guardConn env) (guardCore core) guardServices guardApp guardMe guardVaa [0] guardOrder [7] w =
      (Inr [tx], w) \<and>
    pt_ixs tx = [SplApprove account delegate [7] 4202005,
      AnchorCall (me_ID (guardEnv env) guardMe) ''placeInitialOfferCctp'' [ArgBN 1000] accs]"
proof (intro allI)
  fix env core and w :: "instruction set"
  obtain tx where run: "handlePlaceInitialOffer (guardConn env) (guardCore core) guardServices guardApp guardMe guardVaa [0]
      guardOrder [7] w = (Inr [tx], w)" using guard_offer by blast
  have o: "fm_amountIn guardOrder = 1000" "fm_maxFee guardOrder = 1000"
    by (simp_all add: guardOrder_def demoFast_def)
  from initial_offer_guarded [OF run] obtain account delegate accs where
    ixs: "pt_ixs tx = [SplApprove account delegate [7] 4202005,
      AnchorCall (me_ID (guardEnv env) guardMe) ''placeInitialOfferCctp'' [ArgBN 1000] accs]"
    by (simp add: o guard_notional) blast
  show "\<exists>tx account delegate accs.
    handlePlaceInitialOffer (guardConn env) (guardCore core) guardServices guardApp guardMe guardVaa [0] guardOrder [7] w =
      (Inr [tx], w) \<and>
    pt_ixs tx = [SplApprove account delegate [7] 4202005,
      AnchorCall (me_ID (guardEnv env) guardMe) ''placeInitialOfferCctp'' [ArgBN 1000] accs]"
    by (intro exI conjI) (rule run, rule ixs)
qed

section \<open>Settlements\<close>

lemma recognizedAuction_Some:
  assumes "recognizedAuction senv env cfg me address = Some (a, info)"
  shows "acctAuction env address = Inr a \<and> au_info a = Some info \<and>
    isRecognizedTokenAccount senv env cfg (ai_bestOfferToken info) = Inr True"
proof -
  from assms have "bnd (me_fetchAuction env me (AtAddress address)) (\<lambda>auctionData.
         case au_info auctionData of
           None \<Rightarrow> Inl TypeError
         | Some info \<Rightarrow>
             bnd (isRecognizedTokenAccount senv env cfg (ai_bestOfferToken info)) (\<lambda>recognized.
             Inr (if recognized then Some (auctionData, info) else None))) = Inr (Some (a, info))"
    by (auto simp: recognizedAuction_def split: sum.splits)
  then show ?thesis by (auto simp: bnd_eq_Inr_iff split: option.splits if_splits)
qed

lemma settleWithVaa_settles:
  assumes "settleWithVaa conn core senv sv cfg me parsed raw payer chainCfg vaaBytes txHash w = Some (Inr txs, w')" "txs \<noteq> []"
  shows "\<exists>w1 w2 a info slot penalty accts.
    recognizedAuction senv (cn_env conn w1) cfg me (sa_auction accts) = Some (a, info) \<and>
    au_status a = Completed slot penalty \<and>
    settleCompleted conn core senv sv cfg me parsed txHash chainCfg accts info payer w2 = Some (Inr txs, w')"
proof -
  from assms(1) obtain fastOrder :: "fastMarketOrder option" and w3 where
    order: "(if fastOrder = None then runP (retE []) else
       thenP (runP (readE conn (\<lambda>env. getSettleAuctionAccounts core env me raw vaaBytes))) (\<lambda>accts.
       thenP (runP (readE conn (\<lambda>env. Inr (recognizedAuction senv env cfg me (sa_auction accts))))) (\<lambda>found.
       case found of
         None \<Rightarrow> runP (retE [])
       | Some (auctionData, info) \<Rightarrow>
           (case au_status auctionData of
              Completed slot executePenalty \<Rightarrow>
                settleCompleted conn core senv sv cfg me parsed txHash chainCfg accts info payer
            | _ \<Rightarrow> runP (retE []))))) w3 = Some (Inr txs, w')"
    unfolding settleWithVaa_def thenP_Inr by (elim exE conjE) (rule that, assumption)
  show ?thesis
  proof (cases fastOrder)
    case None
    with order assms(2) show ?thesis by (simp add: eff_Inr)
  next
    case (Some r)
    with order obtain accts w4 found where found: "found = recognizedAuction senv (cn_env conn w4) cfg me (sa_auction accts)"
      and rest: "(case found of
         None \<Rightarrow> runP (retE [])
       | Some (auctionData, info) \<Rightarrow>
           (case au_status auctionData of
              Completed slot executePenalty \<Rightarrow>
                settleCompleted conn core senv sv cfg me parsed txHash chainCfg accts info payer
            | _ \<Rightarrow> runP (retE []))) (cn_later conn w4) = Some (Inr txs, w')"
      by (auto simp: thenP_Inr runP_Inr readE_Inr)
    show ?thesis
    proof (cases found)
      case None
      with rest assms(2) show ?thesis by (simp add: eff_Inr)
    next
      case (Some p)
      obtain a info where p: "p = (a, info)" by force
      with rest Some assms(2) obtain slot penalty where "au_status a = Completed slot penalty"
        by (cases "au_status a") (auto simp: eff_Inr)
      with rest Some p found show ?thesis by (simp add: eff_Inr) blast
    qed
  qed
qed

lemma handleSettleAuction_settles:
  assumes "handleSettleAuction conn core senv sv cfg me parsed raw payer w = Some (Inr txs, w')" "txs \<noteq> []"
  shows "\<exists>w1 w2 a info slot penalty txHash chainCfg accts.
    recognizedAuction senv (cn_env conn w1) cfg me (sa_auction accts) = Some (a, info) \<and>
    au_status a = Completed slot penalty \<and>
    settleCompleted conn core senv sv cfg me parsed txHash chainCfg accts info payer w2 = Some (Inr txs, w')"
proof -
  from assms(1) obtain x w0 where x: "(case x of (chain, chainCfg) \<Rightarrow>
       thenP (runP (fetchVaaFromWormscan senv sv cfg chain (va_sequence parsed + 1)
                      (sv_addressText sv (va_emitterAddress parsed)))) (\<lambda>vaaResponse.
       case (vr_vaa vaaResponse, vr_txHash vaaResponse) of
         (Some vaaBytes, Some txHash) \<Rightarrow>
           settleWithVaa conn core senv sv cfg me parsed raw payer chainCfg vaaBytes txHash
       | _ \<Rightarrow> runP (retE []))) w0 = Some (Inr txs, w')"
    unfolding handleSettleAuction_def Let_def thenP_Inr [of "runP (readE conn f)" for f]
    by (elim exE conjE) (rule that, assumption)
  obtain chain chainCfg where "x = (chain, chainCfg)" by force
  with x have "\<exists>(r::vaaResponse) w1. (case (vr_vaa r, vr_txHash r) of
       (Some vaaBytes, Some txHash) \<Rightarrow>
         settleWithVaa conn core senv sv cfg me parsed raw payer chainCfg vaaBytes txHash
     | _ \<Rightarrow> runP (retE [])) w1 = Some (Inr txs, w')"
    by (simp only: prod.case thenP_Inr) blast
  then obtain r :: vaaResponse and w1 where "(case (vr_vaa r, vr_txHash r) of
       (Some vaaBytes, Some txHash) \<Rightarrow>
         settleWithVaa conn core senv sv cfg me parsed raw payer chainCfg vaaBytes txHash
     | _ \<Rightarrow> runP (retE [])) w1 = Some (Inr txs, w')" by blast
  with assms(2) obtain vaaBytes txHash where
    "settleWithVaa conn core senv sv cfg me parsed raw payer chainCfg vaaBytes txHash w1 = Some (Inr txs, w')"
    by (cases "vr_vaa r"; cases "vr_txHash r") (auto simp: eff_Inr)
  from settleWithVaa_settles [OF this assms(2)] show ?thesis by blast
qed

lemma createSettleTx_tx:
  assumes "createSettleTx conn senv sv cfg me executor fastVaa finalizedVaa auction token args signers w = (Inr tx, w')"
  shows "\<exists>w1 opts confirm. me_settleAuctionCompleteTx (cn_env conn w1) me executor fastVaa finalizedVaa token auction args signers
    opts confirm = Inr tx"
  using assms unfolding createSettleTx_def eff_Inr by blast

lemma settleCompleted_txs:
  assumes "settleCompleted conn core senv sv cfg me parsed txHash chainCfg accts info payer w = Some (Inr txs, w')" "txs \<noteq> []"
  shows "\<exists>w1 w2 args posts tx. txs = posts @ [tx] \<and>
    createSettleTx conn senv sv cfg me payer (sa_fastVaaAccount accts) (sa_finalizedVaaAccount accts)
       (sa_auction accts) (ai_bestOfferToken info) args [payer] w1 = (Inr tx, w2)"
proof -
  from assms(1) obtain cctpArgs w1 where rest: "(case cctpArgs of
       None \<Rightarrow> runP (retE [])
     | Some cctpArgs \<Rightarrow>
         runP (thenE (accountExists conn (sa_finalizedVaaAccount accts)) (\<lambda>isPosted.
         thenE (if isPosted then retE []
                else (\<lambda>w. preparePostVaaTxs conn core cfg me payer (sv_newSignatureSet sv w) parsed
                  (Some \<lparr>co_skipPreflight = None, co_commitment = commitmentOf (solanaCommitment cfg)\<rparr>) w)) (\<lambda>preparedPostVaaTxs.
         thenE (createSettleTx conn senv sv cfg me payer (sa_fastVaaAccount accts) (sa_finalizedVaaAccount accts)
                  (sa_auction accts) (ai_bestOfferToken info) cctpArgs [payer]) (\<lambda>settleAuctionTx.
         retE (preparedPostVaaTxs @ [settleAuctionTx])))))) w1 = Some (Inr txs, w')"
    unfolding settleCompleted_def thenP_Inr by blast
  show ?thesis
  proof (cases cctpArgs)
    case None
    with rest assms(2) show ?thesis by (simp add: eff_Inr)
  next
    case (Some args)
    from rest show ?thesis unfolding Some option.case eff_Inr by blast
  qed
qed

text \<open>
  C12. Only an auction that the solver has won and that is complete is settled: if the handler hands over any
  transaction, it has read an auction whose status is completed and whose best offer is on a
  recognized token account, and the last transaction is the one that settles this auction for that
  token account, for the payer to sign.
\<close>

theorem settlement_guarded:
  assumes "handleSettleAuction conn core senv sv cfg me parsed raw payer w = Some (Inr txs, w')" "txs \<noteq> []"
  shows "\<exists>w1 w2 auction a info slot penalty fastVaa finalizedVaa args opts confirm.
    acctAuction (cn_env conn w1) auction = Inr a \<and> au_info a = Some info \<and> au_status a = Completed slot penalty \<and>
    isRecognizedTokenAccount senv (cn_env conn w1) cfg (ai_bestOfferToken info) = Inr True \<and>
    me_settleAuctionCompleteTx (cn_env conn w2) me payer fastVaa finalizedVaa (ai_bestOfferToken info) auction args [payer]
      opts confirm = Inr (last txs)"
proof -
  from handleSettleAuction_settles [OF assms] obtain w1 w2 a info slot penalty txHash chainCfg accts where
    found: "recognizedAuction senv (cn_env conn w1) cfg me (sa_auction accts) = Some (a, info)"
    and status: "au_status a = Completed slot penalty"
    and settle: "settleCompleted conn core senv sv cfg me parsed txHash chainCfg accts info payer w2 = Some (Inr txs, w')"
    by blast
  from settleCompleted_txs [OF settle assms(2)] obtain w3 w4 args posts tx where "txs = posts @ [tx]"
    "createSettleTx conn senv sv cfg me payer (sa_fastVaaAccount accts) (sa_finalizedVaaAccount accts)
       (sa_auction accts) (ai_bestOfferToken info) args [payer] w3 = (Inr tx, w4)"
    by blast
  with createSettleTx_tx recognizedAuction_Some [OF found] status show ?thesis by (metis last_snoc)
qed

definition guardArgs :: cctpMessageArgs where
  "guardArgs = \<lparr>cm_encodedCctpMessage = alloc 248, cm_cctpAttestation = [4]\<rparr>"

lemma guard_cctp: "fetchCctpArgs demoSolverEnv guardServices guardApp v hash chain rpc (Some ''0x4a8b'') w =
    (if va_sequence v = 8 then Some (Inr (Some guardArgs), w) else Some (Inl TypeError, w))"
  by (simp add: fetchCctpArgs_def demoSolverEnv_def unsafeFindAssociatedCctpMessageAndAttestation_def
      fetchCctpAttestation_def attestationTurn_def attestationLoop.simps guardServices_def guardArgs_def thenP_def runP_def
      retE_def liftE_def thenE_def)

lemma guard_wormscan: "fetchVaaFromWormscan demoSolverEnv guardServices guardApp chain seq addr w =
    (Inr \<lparr>vr_vaa = Some [1], vr_txHash = Some ''0xab''\<rparr>, w)"
  by (simp add: fetchVaaFromWormscan_def retriesAllowed_def sourceTxHash_def guardApp_def wormscanTurn_def guardServices_def
      optionText_def thenE_def retE_def liftE_def Let_def eval_nat_numeral)

lemma guard_recognized: "recognizedAuction demoSolverEnv (guardEnv env) guardApp me k =
    Some (demoAuction\<lparr>au_info := Some (demoInfo\<lparr>ai_bestOfferToken := ascii ''Owner''\<rparr>)\<rparr>,
      demoInfo\<lparr>ai_bestOfferToken := ascii ''Owner''\<rparr>)"
proof -
  have "me_fetchAuction (guardEnv env) me (AtAddress k) =
      Inr (demoAuction\<lparr>au_info := Some (demoInfo\<lparr>ai_bestOfferToken := ascii ''Owner''\<rparr>)\<rparr>)"
    by (simp add: guardEnv_def)
  then show ?thesis
    by (simp add: recognizedAuction_def isRecognizedTokenAccount_def recognizedTokenAccounts_def knownAtaOwners_def
        guardApp_def demoConfig_def demoSolverEnv_def)
qed

lemma guard_burn: "\<exists>m. cctpTokenBurnMessage_from (BurnMessageBuffer (alloc 248)) = Inr m"
  using burn_decode_encode [of "alloc 248"] by (auto simp: alloc_def)

lemma guard_posted: "posted_wf demoVaa"
  by (simp add: posted_wf_def demoVaa_def)

lemma guard_vaa: "vaaAccount_fetch (guardEnv env) [8] = Inr \<lparr>vc_encodedVaa = None, vc_postedVaaV1 = Some demoVaa\<rparr>"
proof -
  have "isChainId (guardEnv env) (pv_emitterChain demoVaa)" by (simp add: guardEnv_def demoChain_def)
  then have "parseVaaAccount (guardEnv env) (postedAccountBytes demoVaa) =
      Inr \<lparr>vc_encodedVaa = None, vc_postedVaaV1 = Some demoVaa\<rparr>"
    using posted_disc [OF guard_posted] parsePosted_bytes [OF guard_posted, of "guardEnv env"] guard_posted
    by (simp add: parseVaaAccount_def Let_def newVaaAccount_def)
  then show ?thesis by (simp add: vaaAccount_fetch_def)
qed

lemma guard_order:
  "fastMarketOrderOf (guardEnv env) \<lparr>vc_encodedVaa = None, vc_postedVaaV1 = Some demoVaa\<rparr> = Inr demoFast"
  "tryParseFastMarketOrder (guardEnv env) [11] = Some demoFast"
  by (simp_all add: fastMarketOrderOf_def vaaAccount_payload_def tryParseFastMarketOrder_def liquidityLayerMessage_decode_def
      guardEnv_def demoChain_def readBE_def beNat_def ID_DEPOSIT_def ID_FAST_MARKET_ORDER_def) (simp add: demoVaa_def)

lemma guard_digest: "\<exists>d. vaaAccount_digest (guardEnv env) \<lparr>vc_encodedVaa = None, vc_postedVaaV1 = Some demoVaa\<rparr> = Inr d"
  by (simp add: vaaAccount_digest_def vaaAccount_hash_def postedVaaBody_eq [OF guard_posted])

lemma guard_endpoints [simp]: "me_routerEndpointAddress (guardEnv env) p 2 = Inr [2]"
  by (simp add: me_routerEndpointAddress_def routerEndpoint_address_def routerEndpoint_seeds_def writeBE_alloc)

lemma guard_response:
  "\<exists>ix. me_prepareOrderResponseCctpIx (guardEnv env) guardMe payer [8] [8] (Some token) guardArgs = Inr ix"
proof -
  obtain m where m: "cctpTokenBurnMessage_decode (alloc 248) = Inr m" using guard_burn by auto
  obtain d where d: "vaaAccount_digest (guardEnv env) \<lparr>vc_encodedVaa = None, vc_postedVaaV1 = Some demoVaa\<rparr> = Inr d"
    using guard_digest by blast
  have f: "vaaAccount_emitterInfo (guardEnv env) \<lparr>vc_encodedVaa = None, vc_postedVaaV1 = Some demoVaa\<rparr> =
      Inr \<lparr>ef_chain = 2, ef_address = replicate 32 3, ef_sequence = 9\<rparr>" "fm_targetChain demoFast = ''Ethereum''"
    by (simp_all add: vaaAccount_emitterInfo_def demoVaa_def demoFast_def)
  show ?thesis
    by (simp add: me_prepareOrderResponseCctpIx_def guard_vaa guard_order guardArgs_def m d f Let_def
        mt_receiveTokenMessengerMinterMessageAccounts_def me_cctpMintRecipientComposite_def me_cctpMintRecipientAddress_def
        me_custodianAddress_def custodian_address_def)
qed

lemma guard_settle_tx:
  "\<exists>tx. me_settleAuctionCompleteTx (guardEnv env) guardMe payer [8] [8] token auction guardArgs signers opts confirm = Inr tx"
proof -
  obtain d where d: "vaaAccount_digest (guardEnv env) \<lparr>vc_encodedVaa = None, vc_postedVaaV1 = Some demoVaa\<rparr> = Inr d"
    using guard_digest by blast
  obtain ix where "me_prepareOrderResponseCctpIx (guardEnv env) guardMe payer [8] [8] (Some token) guardArgs = Inr ix"
    using guard_response by blast
  moreover have "acctAuction (guardEnv env) k = Inr (demoAuction\<lparr>au_info := Some (demoInfo\<lparr>ai_bestOfferToken := ascii ''Owner''\<rparr>)\<rparr>)"
    "getTokenAccount (guardEnv env) k = Inr \<lparr>ta_owner = [7], ta_amount = 0\<rparr>" for k by (simp_all add: guardEnv_def)
  ultimately show ?thesis
    by (simp add: me_settleAuctionCompleteTx_def me_settleAuctionCompleteIx_def guard_vaa d Let_def)
      (simp add: demoAuction_def)
qed

lemma guard_settles:
  "\<exists>tx. handleSettleAuction (guardConn env) (guardCore core) demoSolverEnv guardServices guardApp guardMe guardVaa [0] [7] w =
     Some (Inr [tx], w)"
proof -
  let ?a = "demoAuction\<lparr>au_info := Some (demoInfo\<lparr>ai_bestOfferToken := ascii ''Owner''\<rparr>)\<rparr>"
  let ?info = "demoInfo\<lparr>ai_bestOfferToken := ascii ''Owner''\<rparr>"
  have vaa: "deserializeVaa (guardEnv env) bs = Inr (guardVaa\<lparr>va_sequence := 9, va_hash := [6]\<rparr>)" for bs
    by (simp add: guardEnv_def guardVaa_def)
  define accts where "accts = \<lparr>sa_finalizedVaaAccount = [8], sa_fastVaaAccount = [8], sa_auction = [2]\<rparr>"
  have accts: "getSettleAuctionAccounts (guardCore core) (guardEnv env) guardMe [0] [1] = Inr accts"
    "sa_fastVaaAccount accts = [8]" "sa_finalizedVaaAccount accts = [8]" "sa_auction accts = [2]"
    using guard_bridge [of "guardEnv env"]
    by (auto simp: accts_def getSettleAuctionAccounts_def guardCore_def me_auctionAddress_def auction_address_def vaa)
  have cfg: "unitsOf (settleAuctionCompleteComputeUnits guardApp) = Inr 1"
    "solanaAddressLookupTable demoSolverEnv guardApp = Inr (ascii ''Table'')"
    by (simp_all add: unitsOf_def settleAuctionCompleteComputeUnits_def guardApp_def bigIntOfDouble_def
        solanaAddressLookupTable_def demoConfig_def demoSolverEnv_def)
  have table: "sv_getAddressLookupTable guardServices k = retE (Some k)" for k :: pubkey
    by (simp add: guardServices_def)
  obtain tx where "me_settleAuctionCompleteTx (guardEnv env) guardMe [7] [8] [8] (ascii ''Owner'') [2] guardArgs [[7]]
      \<lparr>to_feeMicroLamports = 10, to_computeUnits = 1, to_nonceAccount = None,
       to_addressLookupTableAccounts = Some [ascii ''Table'']\<rparr>
      (Some \<lparr>co_skipPreflight = Some False, co_commitment = commitmentOf (solanaCommitment guardApp)\<rparr>) = Inr tx"
    using guard_settle_tx by blast
  then have create: "createSettleTx (guardConn env) demoSolverEnv guardServices guardApp guardMe [7] [8] [8] [2]
      (ascii ''Owner'') guardArgs [[7]] w = (Inr tx, w)"
    by (simp add: createSettleTx_def thenE_def retE_def liftE_def readE_def cfg table)
  have app: "unsafeChainCfg guardApp 2 = Inr \<lparr>uc_coreBridgeAddress = Some ''0x4a8b'',
      uc_config = chainConfigOf demoSolverEnv
        \<lparr>ie_chain = ''Ethereum'', ie_chainType = Evm, ie_rpc = JStr ''http'', ie_endpoint = ''0x6C''\<rparr>\<rparr>"
    by (simp add: unsafeChainCfg_def guardApp_def)
  have "settleCompleted (guardConn env) (guardCore core) demoSolverEnv guardServices guardApp guardMe guardVaa ''0xab''
      \<lparr>uc_coreBridgeAddress = Some ''0x4a8b'', uc_config = cfg\<rparr> accts ?info [7] w = Some (Inr [tx], w)" for cfg
    using create
    by (simp add: settleCompleted_def guard_cctp thenP_def runP_def thenE_def retE_def liftE_def accountExists_def readE_def accts)
      (simp add: guardVaa_def)
  moreover have "va_payload guardVaa = [11]" "va_emitterChain guardVaa = ''Ethereum''" by (simp_all add: guardVaa_def)
  moreover have "au_status ?a = Completed 120 None" by (simp add: demoAuction_def)
  ultimately have "handleSettleAuction (guardConn env) (guardCore core) demoSolverEnv guardServices guardApp guardMe guardVaa [0] [7] w =
     Some (Inr [tx], w)"
    by (simp add: handleSettleAuction_def settleWithVaa_def thenP_def runP_def readE_def retE_def liftE_def guard_wormscan app accts vaa
        guard_order guard_recognized Let_def)
  then show ?thesis by blast
qed

theorem settlement_guarded_witness:
  "\<forall>env core w. \<exists>tx auction fastVaa finalizedVaa args opts confirm.
    handleSettleAuction (guardConn env) (guardCore core) demoSolverEnv guardServices guardApp guardMe guardVaa [0] [7] w =
      Some (Inr [tx], w) \<and>
    me_settleAuctionCompleteTx (guardEnv env) guardMe [7] fastVaa finalizedVaa (ascii ''Owner'') auction args [[7]] opts confirm =
      Inr tx"
proof (intro allI)
  fix env core and w :: "instruction set"
  obtain tx where run: "handleSettleAuction (guardConn env) (guardCore core) demoSolverEnv guardServices guardApp guardMe
      guardVaa [0] [7] w = Some (Inr [tx], w)" using guard_settles by blast
  have "acctAuction (guardEnv env) k = Inr a \<Longrightarrow> au_info a = Some info \<Longrightarrow> ai_bestOfferToken info = ascii ''Owner''" for k a info
    by (auto simp: guardEnv_def)
  with settlement_guarded [OF run, simplified] have "\<exists>auction fastVaa finalizedVaa args opts confirm.
    me_settleAuctionCompleteTx (guardEnv env) guardMe [7] fastVaa finalizedVaa (ascii ''Owner'') auction args [[7]] opts confirm =
      Inr tx" by metis
  with run show "\<exists>tx auction fastVaa finalizedVaa args opts confirm.
    handleSettleAuction (guardConn env) (guardCore core) demoSolverEnv guardServices guardApp guardMe guardVaa [0] [7] w =
      Some (Inr [tx], w) \<and>
    me_settleAuctionCompleteTx (guardEnv env) guardMe [7] fastVaa finalizedVaa (ascii ''Owner'') auction args [[7]] opts confirm =
      Inr tx" by blast
qed

section \<open>The mint of the recognized accounts\<close>

text \<open>
  The associated token accounts of the mint that the solver configures are none of the main network's USDC (addresses
  derived from different mints differ).
\<close>

definition mintsApart :: "'w connection \<Rightarrow> meProgram \<Rightarrow> bool" where
  "mintsApart conn me \<longleftrightarrow> (\<forall>w w' o1 o2 a.
     associatedTokenAddress (cn_env conn w) (USDC_MINT_ADDRESS (cn_env conn w)) o1 False = Inr a \<longrightarrow>
     associatedTokenAddress (cn_env conn w') (me_mint me) o2 False \<noteq> Inr a)"

lemma recognized_mint:
  assumes "recognizedTokenAccounts senv env cfg = Inr keys" "k \<in> set keys"
  shows "\<exists>o'. associatedTokenAddress env (USDC_MINT_ADDRESS env) o' False = Inr k"
proof -
  have "\<forall>k\<in>set keys. \<exists>o'. associatedTokenAddress env (USDC_MINT_ADDRESS env) o' False = Inr k"
    using assms(1) unfolding recognizedTokenAccounts_def bnd_eq_Inr_iff
    by (elim exE conjE) (erule mapM_Inr_all, blast)
  with assms(2) show ?thesis by blast
qed

lemma placeInitialOfferTx_token:
  assumes "me_placeInitialOfferTx env me payer fastVaa from to auction price deposit signers opts confirm = Inr tx"
  shows "\<exists>token args accs. last (pt_ixs tx) = AnchorCall (me_ID env me) ''placeInitialOfferCctp'' args accs \<and>
    map_of accs ''offerToken'' = Some (Key token) \<and> associatedTokenAddress env (me_mint me) payer False = Inr token"
  using assms
  by (auto simp: me_placeInitialOfferTx_def me_placeInitialOfferCctpIx_def preparedTx_def bnd_eq_Inr_iff Let_def
      approve_Inr_iff)

text \<open>
  C36. The solver does not recognize its own offers: an initial offer is made from an associated token account of the
  mint that the solver configures, and the accounts that the configuration recognizes are of the main
  network's USDC. While the two mints' accounts are apart (the solver's code names another mint), no account from which
  the solver places an initial offer is recognized, so an auction won with it is not executed by the
  executor, and whatever is settled has its best offer on another account.
\<close>

theorem own_offers_not_recognized:
  assumes "mintsApart conn me"
    and "me_placeInitialOfferTx (cn_env conn w0) me offerer fastVaa from to auction price deposit signers opts confirm = Inr tx"
  shows "\<exists>token args accs. last (pt_ixs tx) = AnchorCall (me_ID (cn_env conn w0) me) ''placeInitialOfferCctp'' args accs \<and>
    map_of accs ''offerToken'' = Some (Key token) \<and>
    (\<forall>w ours. recognizedTokenAccounts senv (cn_env conn w) cfg = Inr ours \<longrightarrow> token \<notin> set ours) \<and>
    (\<forall>w txs w'. handleSettleAuction conn core senv sv cfg me parsed raw payer w = Some (Inr txs, w') \<and> txs \<noteq> [] \<longrightarrow>
       (\<exists>w1 w2 k a info fastVaa' finalizedVaa args opts confirm. acctAuction (cn_env conn w1) k = Inr a \<and> au_info a = Some info \<and>
          ai_bestOfferToken info \<noteq> token \<and>
          me_settleAuctionCompleteTx (cn_env conn w2) me payer fastVaa' finalizedVaa (ai_bestOfferToken info) k args [payer]
            opts confirm = Inr (last txs)))"
proof -
  from placeInitialOfferTx_token [OF assms(2)] obtain token args accs where
    call: "last (pt_ixs tx) = AnchorCall (me_ID (cn_env conn w0) me) ''placeInitialOfferCctp'' args accs"
      "map_of accs ''offerToken'' = Some (Key token)"
    and token: "associatedTokenAddress (cn_env conn w0) (me_mint me) offerer False = Inr token"
    by blast
  have ours: "token \<notin> set ours" if "recognizedTokenAccounts senv (cn_env conn w) cfg = Inr ours" for w ours
    using recognized_mint [OF that] assms(1) token unfolding mintsApart_def by blast
  have settled: "\<exists>w1 w2 k a info fastVaa' finalizedVaa args opts confirm. acctAuction (cn_env conn w1) k = Inr a \<and>
      au_info a = Some info \<and> ai_bestOfferToken info \<noteq> token \<and>
      me_settleAuctionCompleteTx (cn_env conn w2) me payer fastVaa' finalizedVaa (ai_bestOfferToken info) k args [payer]
        opts confirm = Inr (last txs)"
    if run: "handleSettleAuction conn core senv sv cfg me parsed raw payer w = Some (Inr txs, w')" "txs \<noteq> []" for w txs w'
  proof -
    from handleSettleAuction_settles [OF run] obtain w1 w2 a info slot penalty txHash chainCfg accts where
      found: "recognizedAuction senv (cn_env conn w1) cfg me (sa_auction accts) = Some (a, info)"
      and settle: "settleCompleted conn core senv sv cfg me parsed txHash chainCfg accts info payer w2 = Some (Inr txs, w')"
      by blast
    from settleCompleted_txs [OF settle run(2)] obtain w3 w4 args posts tx where "txs = posts @ [tx]"
      "createSettleTx conn senv sv cfg me payer (sa_fastVaaAccount accts) (sa_finalizedVaaAccount accts)
         (sa_auction accts) (ai_bestOfferToken info) args [payer] w3 = (Inr tx, w4)"
      by blast
    moreover have "ai_bestOfferToken info \<noteq> token"
      using recognizedAuction_Some [OF found] ours by (auto simp: isRecognizedTokenAccount_def bnd_eq_Inr_iff)
    ultimately show ?thesis
      using createSettleTx_tx recognizedAuction_Some [OF found] by (metis last_snoc)
  qed
  from call ours settled show ?thesis by blast
qed

definition mintEnv :: "env \<Rightarrow> env" where
  "mintEnv env = (guardEnv env)\<lparr>newPublicKey := ascii, associatedTokenAddress := \<lambda>m ow off. Inr (take 1 m @ ow)\<rparr>"

definition mintConn :: "env \<Rightarrow> instruction set connection" where
  "mintConn env = demoConn (mintEnv env) (\<lambda>_ _. False)"

lemma mint_conn [simp]: "cn_env (mintConn env) w = mintEnv env"
  by (simp add: mintConn_def demoConn_def)

lemma mint_offer: "\<exists>tx. me_placeInitialOfferTx (mintEnv env) guardMe [7] [8] [2] [3] [9] (UBigint 5) (UBigint 50) [[7]] opts None = Inr tx"
proof -
  have "me_fetchCustodian (mintEnv env) guardMe None = me_fetchCustodian (demoChain env) guardMe None"
    by (simp add: me_fetchCustodian_def mintEnv_def guardEnv_def demoChain_def demoEnv_def)
  then show ?thesis
    by (simp add: demo_custodian me_placeInitialOfferTx_def me_placeInitialOfferCctpIx_def me_initialOfferLookup_def
        me_approveTransferAuthorityIx_def me_transferAuthorityAddress_def meTransferAuthority_seeds_def writeUint64BE_def
        writeBE_alloc uint64ToBN_def me_auctionConfigAddress_def auctionConfig_address_def auctionConfig_seeds_def)
      (simp add: mintEnv_def)
qed

theorem own_offers_not_recognized_witness:
  "\<forall>env opts. \<exists>tx args accs. me_placeInitialOfferTx (mintEnv env) guardMe [7] [8] [2] [3] [9] (UBigint 5) (UBigint 50) [[7]] opts None =
       Inr tx \<and> last (pt_ixs tx) = AnchorCall (me_ID (mintEnv env) guardMe) ''placeInitialOfferCctp'' args accs \<and>
     recognizedTokenAccounts demoSolverEnv (mintEnv env) guardApp = Inr [take 1 (ascii ''E'') @ ascii ''Owner''] \<and>
     map_of accs ''offerToken'' \<noteq> Some (Key (take 1 (ascii ''E'') @ ascii ''Owner''))"
proof (intro allI)
  fix env opts
  obtain tx where tx: "me_placeInitialOfferTx (cn_env (mintConn env) {}) guardMe [7] [8] [2] [3] [9] (UBigint 5) (UBigint 50) [[7]]
      opts None = Inr tx"
    using mint_offer by auto
  have apart: "mintsApart (mintConn env) guardMe"
    by (simp add: mintsApart_def mintEnv_def USDC_MINT_ADDRESS_def guardMe_def ascii_def)
  have ours: "recognizedTokenAccounts demoSolverEnv (mintEnv env) guardApp = Inr [take 1 (ascii ''E'') @ ascii ''Owner'']"
    by (simp add: recognizedTokenAccounts_def knownAtaOwners_def guardApp_def demoConfig_def demoSolverEnv_def mintEnv_def
        USDC_MINT_ADDRESS_def ascii_def)
  have "\<exists>token args accs. last (pt_ixs tx) = AnchorCall (me_ID (mintEnv env) guardMe) ''placeInitialOfferCctp'' args accs \<and>
      map_of accs ''offerToken'' = Some (Key token) \<and>
      (\<forall>w ours. recognizedTokenAccounts demoSolverEnv (mintEnv env) guardApp = Inr ours \<longrightarrow> token \<notin> set ours)"
    using own_offers_not_recognized [OF apart tx, of demoSolverEnv guardApp undefined undefined undefined undefined undefined,
        unfolded mint_conn] by blast
  then obtain token args accs where
    "last (pt_ixs tx) = AnchorCall (me_ID (mintEnv env) guardMe) ''placeInitialOfferCctp'' args accs"
    "map_of accs ''offerToken'' = Some (Key token)"
    "\<forall>w ours. recognizedTokenAccounts demoSolverEnv (mintEnv env) guardApp = Inr ours \<longrightarrow> token \<notin> set ours"
    by (elim exE conjE) (rule that)
  with ours tx show "\<exists>tx args accs. me_placeInitialOfferTx (mintEnv env) guardMe [7] [8] [2] [3] [9] (UBigint 5) (UBigint 50) [[7]] opts None =
       Inr tx \<and> last (pt_ixs tx) = AnchorCall (me_ID (mintEnv env) guardMe) ''placeInitialOfferCctp'' args accs \<and>
     recognizedTokenAccounts demoSolverEnv (mintEnv env) guardApp = Inr [take 1 (ascii ''E'') @ ascii ''Owner''] \<and>
     map_of accs ''offerToken'' \<noteq> Some (Key (take 1 (ascii ''E'') @ ascii ''Owner''))"
    by (intro exI [of _ tx] exI [of _ args] exI [of _ accs]) auto
qed

section \<open>Improved offers\<close>

lemma improveOfferTx_shape:
  assumes "me_improveOfferTx env me participant auction config best (UBN price) (UBN deposit) signers opts confirm = Inr tx"
  shows "\<exists>delegate account accs. pt_signers tx = signers \<and>
    associatedTokenAddress env (me_mint me) participant False = Inr account \<and>
    pt_ixs tx = [SplApprove account delegate participant deposit,
      AnchorCall (me_ID env me) ''improveOffer'' [ArgBN price] accs] \<and>
    map_of accs ''transferAuthority'' = Some (Key delegate) \<and> map_of accs ''offerToken'' = Some (Key account) \<and>
    (\<exists>activeAuction. map_of accs ''activeAuction'' = Some (Group activeAuction) \<and>
       map_of activeAuction ''auction'' = Some (Key auction))"
  using assms
  by (auto simp: me_improveOfferTx_def me_improveOfferIx_def me_activeAuctionComposite_def preparedTx_def bnd_eq_Inr_iff
      approve_Inr_iff uint64ToBN_def writeUint64BE_def writeBE_alloc_Inr_iff beNat_beBytes uint64ToBigInt_BN simp del: uint64ToBigInt.simps(3) split: if_splits)

lemma onAuctionUpdate_sends:
  assumes "onAuctionUpdate conn cfg me event slot im w = (Inr (im', Some tx), w')"
  obtains w1 w2 pricing price auction config opts confirm where
    "up_bestOfferToken event \<notin> set (im_ourTokenAccounts im)" "bnLten (up_endSlot event) slot = Inr False"
    "up_auction event = Some auction" "up_maxOfferPriceAllowed event = Some price"
    "pricingParametersFor (cn_env conn w1) cfg (up_sourceChain event) = Inr (Some pricing)"
    "shouldImproveOffer (UBN (up_amountIn event)) (UBN price) pricing = Inr True"
    "me_improveOfferTx (cn_env conn w2) me (ot_authority (im_offerToken im)) auction config (up_bestOfferToken event)
      (UBN price) (UBN (up_totalDeposit event)) [ot_authority (im_offerToken im)] opts confirm = Inr tx"
proof (cases "up_bestOfferToken event \<in> set (im_ourTokenAccounts im)")
  case True
  with assms show ?thesis by (auto simp: onAuctionUpdate_def eff_Inr Let_def split: option.splits)
next
  case False
  from assms False obtain pricing where pricing:
    "pricingParametersFor (cn_env conn w) cfg (up_sourceChain event) = Inr (Some pricing)"
    by (auto simp: onAuctionUpdate_def eff_Inr split: option.splits)
  obtain b where b: "bnLten (up_endSlot event) slot = Inr b"
    using assms False pricing by (cases "bnLten (up_endSlot event) slot") (auto simp: onAuctionUpdate_def eff_Inr)
  obtain auction where auction: "up_auction event = Some auction"
    using assms False pricing b by (cases "up_auction event") (auto simp: onAuctionUpdate_def eff_Inr)
  have ended: "bnLten (up_endSlot event) slot = Inr False"
    using assms False pricing b auction by (cases b) (auto simp: onAuctionUpdate_def eff_Inr)
  show ?thesis
  proof (cases "up_maxOfferPriceAllowed event")
    case None
    with assms False ended auction pricing show ?thesis by (auto simp: onAuctionUpdate_def eff_Inr Let_def bnd_eq_Inr_iff)
  next
    case (Some price)
    from assms ended auction False show ?thesis
      by (auto simp: onAuctionUpdate_def eff_Inr Let_def bnd_eq_Inr_iff case_prod_unfold Some pricing split: if_splits
          intro: that [OF False ended auction Some pricing])
  qed
qed

lemma bnLten_False: "bnLten a n = Inr False \<longleftrightarrow> 0x3ffffff < a \<or> (n \<le> 0x3ffffff \<and> n < a)"
  by (auto simp: bnLten_def)

text \<open>
  C13. What the improver sends: the event names its auction (as the emitted events do not), the best
  offer is not on one of the solver's accounts, the fair value with the solver's edge is at most the highest price that
  improves the offer, the offer is at that price and for that auction, and the approval moves the
  auction's whole deposit from the participant's token account to the transfer authority that the offer
  names. The auction has not ended if its last slot is below \<open>2 ^ 26\<close>; \<open>bn.js\<close> compares no larger slots with numbers, so
  for those the end is not checked at all.
\<close>

theorem improver_guarded:
  assumes "onAuctionUpdate conn cfg me event slot im w = (Inr (im', Some tx), w')"
  shows "\<exists>w1 w2 auction pricing price account delegate accs activeAuction.
    up_auction event = Some auction \<and> up_bestOfferToken event \<notin> set (im_ourTokenAccounts im) \<and>
    (slot < up_endSlot event \<or> 2 ^ 26 \<le> up_endSlot event) \<and>
    up_maxOfferPriceAllowed event = Some price \<and>
    pricingParametersFor (cn_env conn w1) cfg (up_sourceChain event) = Inr (Some pricing) \<and>
    shouldImproveOffer (UBN (up_amountIn event)) (UBN price) pricing = Inr True \<and>
    associatedTokenAddress (cn_env conn w2) (me_mint me) (ot_authority (im_offerToken im)) False = Inr account \<and>
    pt_signers tx = [ot_authority (im_offerToken im)] \<and>
    pt_ixs tx = [SplApprove account delegate (ot_authority (im_offerToken im)) (up_totalDeposit event),
      AnchorCall (me_ID (cn_env conn w2) me) ''improveOffer'' [ArgBN price] accs] \<and>
    map_of accs ''transferAuthority'' = Some (Key delegate) \<and> map_of accs ''offerToken'' = Some (Key account) \<and>
    map_of accs ''activeAuction'' = Some (Group activeAuction) \<and> map_of activeAuction ''auction'' = Some (Key auction)"
proof -
  from assms obtain w1 w2 pricing price auction config opts confirm where
    1: "up_bestOfferToken event \<notin> set (im_ourTokenAccounts im)" "bnLten (up_endSlot event) slot = Inr False"
      "up_auction event = Some auction" "up_maxOfferPriceAllowed event = Some price"
      "pricingParametersFor (cn_env conn w1) cfg (up_sourceChain event) = Inr (Some pricing)"
      "shouldImproveOffer (UBN (up_amountIn event)) (UBN price) pricing = Inr True"
    and tx: "me_improveOfferTx (cn_env conn w2) me (ot_authority (im_offerToken im)) auction config (up_bestOfferToken event)
      (UBN price) (UBN (up_totalDeposit event)) [ot_authority (im_offerToken im)] opts confirm = Inr tx"
    by (rule onAuctionUpdate_sends)
  have "slot < up_endSlot event \<or> 2 ^ 26 \<le> up_endSlot event" using 1(2) by (auto simp: bnLten_False)
  with improveOfferTx_shape [OF tx] 1 show ?thesis by blast
qed

text \<open>
  The improver does not see that an auction has ended once slots have reached \<open>2 ^ 26\<close>: what it does with an event
  does not depend on the slot any more.
\<close>

lemma late_slots_not_compared:
  "2 ^ 26 \<le> up_endSlot event \<Longrightarrow> onAuctionUpdate conn cfg me event slot im = onAuctionUpdate conn cfg me event slot' im"
proof -
  assume "2 ^ 26 \<le> up_endSlot event"
  then have "bnLten (up_endSlot event) s = Inr False" for s by (simp add: bnLten_def)
  then show ?thesis by (simp only: onAuctionUpdate_def)
qed

definition guardUpdate :: auctionUpdated where
  "guardUpdate = demoUpdate\<lparr>up_amountIn := 1000, up_totalDeposit := 50, up_maxOfferPriceAllowed := Some 1000\<rparr>"

definition guardImprover :: improver where
  "guardImprover = \<lparr>im_offerToken = \<lparr>ot_authority = [7], ot_address = [7], ot_balance = 0\<rparr>,
     im_cachedBlockhash = newCachedBlockhash, im_ourTokenAccounts = [[7]]\<rparr>"

lemma guard_improves: "\<exists>im' tx. onAuctionUpdate (guardConn env) guardApp guardMe guardUpdate 7 guardImprover w =
    (Inr (im', Some tx), w)"
proof -
  obtain p where p: "pricingParametersFor (guardEnv env) guardApp 2 = Inr (Some p)" "isFeeHighEnough guardOrder p = Inr (True, 1000)"
    using guard_pricing [of env] by (auto simp: pricingOrThrow_def bnd_eq_Inr_iff split: option.splits)
  have "shouldImproveOffer (UBN 1000) (UBN 1000) p = Inr True"
    using p(2) by (auto simp: shouldImproveOffer_def isFeeHighEnough_def uint64ToBigInt_BN guardOrder_def demoFast_def
        Let_def bnd_eq_Inr_iff simp del: uint64ToBigInt.simps(3) split: if_splits)
  moreover obtain tx where "me_improveOfferTx (guardEnv env) guardMe [7] [4] [2] [3] (UBN 1000) (UBN 50) [[7]]
      \<lparr>to_feeMicroLamports = 42069, to_computeUnits = 50000, to_nonceAccount = None, to_addressLookupTableAccounts = None\<rparr>
      (Some \<lparr>co_skipPreflight = Some True, co_commitment = None\<rparr>) = Inr tx"
    by (simp add: me_improveOfferTx_def me_improveOfferIx_def me_approveTransferAuthorityIx_def uint64ToBigInt_BN
        me_transferAuthorityAddress_def meTransferAuthority_seeds_def writeUint64BE_def writeBE_alloc uint64ToBN_def
        me_activeAuctionComposite_def del: uint64ToBigInt.simps(3))
  moreover have "me_auctionConfigAddress (guardEnv env) guardMe 0 = Inr [2]"
    by (simp add: me_auctionConfigAddress_def auctionConfig_address_def auctionConfig_seeds_def writeBE_alloc)
  moreover have "bnToNumber (1000 sdiv 1000000) = Inr 0" by (simp add: bnToNumber_def sdiv_nonneg)
  moreover have "bnLten 8 7 = Inr False" by (simp add: bnLten_def)
  ultimately show ?thesis
    by (simp add: onAuctionUpdate_def thenE_def readE_def retE_def liftE_def guardUpdate_def demoUpdate_def guardImprover_def p
        addNoise_def newCachedBlockhash_def Let_def)
qed

theorem improver_guarded_witness:
  "\<forall>env w. \<exists>im' tx account delegate accs.
    onAuctionUpdate (guardConn env) guardApp guardMe guardUpdate 7 guardImprover w = (Inr (im', Some tx), w) \<and>
    pt_ixs tx = [SplApprove account delegate [7] 50, AnchorCall (me_ID (guardEnv env) guardMe) ''improveOffer'' [ArgBN 1000] accs]"
proof (intro allI)
  fix env and w :: "instruction set"
  obtain im' tx where run: "onAuctionUpdate (guardConn env) guardApp guardMe guardUpdate 7 guardImprover w =
    (Inr (im', Some tx), w)" using guard_improves by blast
  have f: "up_maxOfferPriceAllowed guardUpdate = Some 1000" "up_totalDeposit guardUpdate = 50"
    "ot_authority (im_offerToken guardImprover) = [7]"
    by (simp_all add: guardUpdate_def guardImprover_def)
  from improver_guarded [OF run] obtain account delegate accs where
    "pt_ixs tx = [SplApprove account delegate [7] 50, AnchorCall (me_ID (guardEnv env) guardMe) ''improveOffer'' [ArgBN 1000] accs]"
    by (simp add: f) (elim exE conjE, rule that, assumption)
  with run show "\<exists>im' tx account delegate accs.
    onAuctionUpdate (guardConn env) guardApp guardMe guardUpdate 7 guardImprover w = (Inr (im', Some tx), w) \<and>
    pt_ixs tx = [SplApprove account delegate [7] 50, AnchorCall (me_ID (guardEnv env) guardMe) ''improveOffer'' [ArgBN 1000] accs]"
    by blast
qed

end
