(* ===== verification/Evm_Client.thy ===== *)
theory Evm_Client
  imports Solver_Handlers
begin

text \<open>
  The client of the EVM contracts (\<open>evm/ts/src\<close>): the message decoder, the parsing of a transaction's events
  into the messages it published, the decoder of contract errors, and the two contract clients. Calling a
  contract is a value, the call that the client hands to \<open>ethers\<close>.
\<close>

section \<open>Third-party functions\<close>

text \<open>
  Names and native addresses of chains, check-summed addresses, byte strings, Keccak in hex, the error of
  \<open>toChainId(undefined)\<close>, and the parsers of the two events; parsing throws an error with or without a
  reason.
\<close>

record publishedMessage =
  pm_sender :: string
  pm_sequence :: int
  pm_nonce :: int
  pm_payload :: string
  pm_consistencyLevel :: int

record evmEnv =
  ee_toChain :: "int \<Rightarrow> string result"
  ee_toUniversal :: "string \<Rightarrow> string \<Rightarrow> byte list result"
  ee_getAddress :: "string \<Rightarrow> string result"
  ee_arrayify :: "string \<Rightarrow> byte list result"
  ee_keccak256 :: "string \<Rightarrow> string"
  ee_noChain :: js_error
  ee_deserializePayload :: "byte list \<Rightarrow> depositPayload result"
  ee_parsePublished :: "evmLog \<Rightarrow> string option + publishedMessage"
  ee_parseMessageSent :: "evmLog \<Rightarrow> string option + string"

section \<open>Messages\<close>

record wormholeCctpDepositHeader =
  wh_token :: "byte list"
  wh_amount :: int
  wh_sourceDomain :: int
  wh_targetDomain :: int
  wh_nonce :: int
  wh_fromAddress :: "byte list"
  wh_mintRecipient :: "byte list"
  wh_payload :: depositPayload

record evmFastFill =
  ef_sourceChain :: int
  ef_orderSender :: "byte list"
  ef_redeemer :: "byte list"
  ef_redeemerMessage :: "byte list"
  ef_fillAmount :: int

record evmFastMarketOrder =
  eo_amountIn :: int
  eo_minAmountOut :: int
  eo_targetChain :: int
  eo_redeemer :: "byte list"
  eo_sender :: "byte list"
  eo_refundAddress :: "byte list"
  eo_maxFee :: int
  eo_initAuctionFee :: int
  eo_deadline :: int
  eo_redeemerMessage :: "byte list"

record evmFill =
  ei_sourceChain :: int
  ei_orderSender :: "byte list"
  ei_redeemer :: "byte list"
  ei_redeemerMessage :: "byte list"

record liquidityLayerMessageBody =
  mb_fill :: "evmFill option"
  mb_fastFill :: "evmFastFill option"
  mb_slowOrderResponse :: "int option"
  mb_fastMarketOrder :: "evmFastMarketOrder option"

record coreBridgeMessage =
  cbm_wormholeCctp :: "wormholeCctpDepositHeader option"
  cbm_body :: liquidityLayerMessageBody

definition wormholeCctpHeader_fromLayout :: "cctpDeposit \<Rightarrow> wormholeCctpDepositHeader" where
  "wormholeCctpHeader_fromLayout d = \<lparr>wh_token = cd_tokenAddress d, wh_amount = cd_amount d,
     wh_sourceDomain = cd_sourceCctpDomain d, wh_targetDomain = cd_destinationCctpDomain d, wh_nonce = cd_cctpNonce d,
     wh_fromAddress = cd_burnSource d, wh_mintRecipient = cd_mintRecipient d, wh_payload = cd_payload d\<rparr>"

definition evmFastFill_fromLayout :: "env \<Rightarrow> fastFillMessage \<Rightarrow> evmFastFill result" where
  "evmFastFill_fromLayout env f =
     bnd (toChainId env (fl_sourceChain f)) (\<lambda>chain.
     Inr \<lparr>ef_sourceChain = chain, ef_orderSender = fl_orderSender f, ef_redeemer = fl_redeemer f,
          ef_redeemerMessage = fl_redeemerMessage f, ef_fillAmount = fl_fillAmount f\<rparr>)"

definition evmFastMarketOrder_fromLayout :: "env \<Rightarrow> fastMarketOrder \<Rightarrow> evmFastMarketOrder result" where
  "evmFastMarketOrder_fromLayout env m =
     bnd (toChainId env (fm_targetChain m)) (\<lambda>chain.
     Inr \<lparr>eo_amountIn = fm_amountIn m, eo_minAmountOut = fm_minAmountOut m, eo_targetChain = chain,
          eo_redeemer = fm_redeemer m, eo_sender = fm_sender m, eo_refundAddress = fm_refundAddress m,
          eo_maxFee = fm_maxFee m, eo_initAuctionFee = fm_initAuctionFee m, eo_deadline = fm_deadline m,
          eo_redeemerMessage = fm_redeemerMessage m\<rparr>)"

definition evmFill_fromLayout :: "env \<Rightarrow> fill \<Rightarrow> evmFill result" where
  "evmFill_fromLayout env f =
     bnd (toChainId env (fp_sourceChain f)) (\<lambda>chain.
     Inr \<lparr>ei_sourceChain = chain, ei_orderSender = fp_orderSender f, ei_redeemer = fp_redeemer f,
          ei_redeemerMessage = fp_redeemerMessage f\<rparr>)"

text \<open>The guards of \<open>Message\<close> and \<open>Payload\<close> tell the types of messages apart, so they are cases here.\<close>

definition messageDecoder_decode :: "env \<Rightarrow> byte list \<Rightarrow> coreBridgeMessage result" where
  "messageDecoder_decode env vaa =
     bnd (deserializeMessage env vaa) (\<lambda>msg.
     let none = \<lparr>mb_fill = None, mb_fastFill = None, mb_slowOrderResponse = None, mb_fastMarketOrder = None\<rparr>
     in case msg of
       CctpDepositMessage d \<Rightarrow>
         bnd (case cd_payload d of FillPayload f \<Rightarrow> bnd (evmFill_fromLayout env f) (\<lambda>f. Inr (Some f)) | _ \<Rightarrow> Inr None) (\<lambda>f.
         Inr \<lparr>cbm_wormholeCctp = Some (wormholeCctpHeader_fromLayout d),
              cbm_body = none\<lparr>mb_fill := f, mb_slowOrderResponse :=
                (case cd_payload d of SlowOrderResponsePayload baseFee \<Rightarrow> Some baseFee | _ \<Rightarrow> None)\<rparr>\<rparr>)
     | FastFillMessage f \<Rightarrow>
         bnd (evmFastFill_fromLayout env f) (\<lambda>f.
         Inr \<lparr>cbm_wormholeCctp = None, cbm_body = none\<lparr>mb_fastFill := Some f\<rparr>\<rparr>)
     | FastMarketOrderMessage m \<Rightarrow>
         bnd (evmFastMarketOrder_fromLayout env m) (\<lambda>m.
         Inr \<lparr>cbm_wormholeCctp = None, cbm_body = none\<lparr>mb_fastMarketOrder := Some m\<rparr>\<rparr>))"

text \<open>The casts of the \<open>decode\<close> methods are not checked; a field of another type of message is undefined.\<close>

definition wormholeCctpHeader_decode :: "env \<Rightarrow> byte list \<Rightarrow> wormholeCctpDepositHeader result" where
  "wormholeCctpHeader_decode env buf =
     bnd (deserializeMessage env buf) (\<lambda>m.
     case m of CctpDepositMessage d \<Rightarrow> Inr (wormholeCctpHeader_fromLayout d) | _ \<Rightarrow> Inl TypeError)"

definition evmFastFill_decode :: "env \<Rightarrow> evmEnv \<Rightarrow> byte list \<Rightarrow> evmFastFill result" where
  "evmFastFill_decode env eenv payload =
     bnd (deserializeMessage env payload) (\<lambda>m.
     case m of FastFillMessage f \<Rightarrow> evmFastFill_fromLayout env f | _ \<Rightarrow> Inl (ee_noChain eenv))"

definition evmFastMarketOrder_decode :: "env \<Rightarrow> evmEnv \<Rightarrow> byte list \<Rightarrow> evmFastMarketOrder result" where
  "evmFastMarketOrder_decode env eenv payload =
     bnd (deserializeMessage env payload) (\<lambda>m.
     case m of FastMarketOrderMessage m \<Rightarrow> evmFastMarketOrder_fromLayout env m | _ \<Rightarrow> Inl (ee_noChain eenv))"

definition evmFill_decode :: "env \<Rightarrow> evmEnv \<Rightarrow> byte list \<Rightarrow> evmFill result" where
  "evmFill_decode env eenv payload =
     bnd (ee_deserializePayload eenv payload) (\<lambda>p.
     case p of FillPayload f \<Rightarrow> evmFill_fromLayout env f | _ \<Rightarrow> Inl (ee_noChain eenv))"

text \<open>A response without a base fee is constructed all the same.\<close>

definition slowOrderResponse_decode :: "evmEnv \<Rightarrow> byte list \<Rightarrow> int option result" where
  "slowOrderResponse_decode eenv payload =
     bnd (ee_deserializePayload eenv payload) (\<lambda>p.
     Inr (case p of SlowOrderResponsePayload baseFee \<Rightarrow> Some baseFee | _ \<Rightarrow> None))"

section \<open>Events\<close>

text \<open>
  The events of one contract. Only an error with the reason \<open>no matching event\<close> is passed over explicitly, but
  the handler ends there for every other error too, and the loop goes on.
\<close>

fun collectEvents :: "(evmLog \<Rightarrow> string option + 'e) \<Rightarrow> string \<Rightarrow> evmLog list \<Rightarrow> 'e list \<Rightarrow> 'e list" where
  "collectEvents parse contractAddress [] wormholeLogs = wormholeLogs"
| "collectEvents parse contractAddress (txLog # logs) wormholeLogs =
     (if el_address txLog = contractAddress then
        case parse txLog of
          Inr event \<Rightarrow> collectEvents parse contractAddress logs (wormholeLogs @ [event])
        | Inl reason \<Rightarrow> collectEvents parse contractAddress logs wormholeLogs
      else collectEvents parse contractAddress logs wormholeLogs)"

definition parseEvmEvents :: "(evmLog \<Rightarrow> string option + 'e) \<Rightarrow> evmLog list \<Rightarrow> string \<Rightarrow> 'e list result" where
  "parseEvmEvents parse logs contractAddress =
     (let wormholeLogs = collectEvents parse contractAddress logs []
      in if wormholeLogs = [] then Inl (Error ''contract address not found'') else Inr wormholeLogs)"

fun parseEvmEvent :: "(evmLog \<Rightarrow> string option + 'e) \<Rightarrow> evmLog list \<Rightarrow> string \<Rightarrow> 'e result" where
  "parseEvmEvent parse [] contractAddress = Inl (Error ''contract address not found'')"
| "parseEvmEvent parse (txLog # logs) contractAddress =
     (if el_address txLog = contractAddress then
        case parse txLog of
          Inr event \<Rightarrow> Inr event
        | Inl reason \<Rightarrow> parseEvmEvent parse logs contractAddress
      else parseEvmEvent parse logs contractAddress)"

record liquidityLayerObservation =
  lo_emitterAddress :: "byte list"
  lo_sequence :: int
  lo_nonce :: int
  lo_consistencyLevel :: int
  lo_message :: coreBridgeMessage

record transactionResult =
  lr_wormhole :: liquidityLayerObservation
  lr_circleMessage :: "byte list option"
  lr_fastMessage :: "liquidityLayerObservation option"

text \<open>The variables of the loop over the published messages.\<close>

record receiptState =
  rs_contractAddress :: string
  rs_wormhole :: "liquidityLayerObservation option"
  rs_circleMessage :: "byte list option"
  rs_fastMessage :: "liquidityLayerObservation option"

definition receiptTurn :: "env \<Rightarrow> evmEnv \<Rightarrow> string \<Rightarrow> evmLog list \<Rightarrow> string \<Rightarrow> publishedMessage \<Rightarrow> receiptState \<Rightarrow>
    receiptState result" where
  "receiptTurn env eenv chain logs circleTransmitterAddress pm s =
     bnd (ee_toUniversal eenv chain (pm_sender pm)) (\<lambda>emitterAddress.
     bnd (ee_arrayify eenv (pm_payload pm)) (\<lambda>encodedMessage.
     bnd (ee_getAddress eenv (pm_sender pm)) (\<lambda>evmEmitterAddress.
     bnd (ee_getAddress eenv (rs_contractAddress s)) (\<lambda>contractAddress.
     let s = s\<lparr>rs_contractAddress := contractAddress\<rparr> in
     if evmEmitterAddress \<noteq> contractAddress then Inl (Error ''Unrecognized emitter address.'')
     else
     bnd (messageDecoder_decode env encodedMessage) (\<lambda>decoded.
     let message = \<lparr>lo_emitterAddress = emitterAddress, lo_sequence = pm_sequence pm, lo_nonce = pm_nonce pm,
                    lo_consistencyLevel = pm_consistencyLevel pm, lo_message = decoded\<rparr>
     in if cbm_wormholeCctp decoded \<noteq> None then
          bnd (parseEvmEvent (ee_parseMessageSent eenv) logs circleTransmitterAddress) (\<lambda>sent.
          bnd (ee_arrayify eenv sent) (\<lambda>circle.
          Inr (s\<lparr>rs_wormhole := Some message, rs_circleMessage := Some circle\<rparr>)))
        else if mb_fastMarketOrder (cbm_body decoded) \<noteq> None then Inr (s\<lparr>rs_fastMessage := Some message\<rparr>)
        else Inr (s\<lparr>rs_wormhole := Some message\<rparr>))))))"

fun receiptLoop :: "env \<Rightarrow> evmEnv \<Rightarrow> string \<Rightarrow> evmLog list \<Rightarrow> string \<Rightarrow> publishedMessage list \<Rightarrow> receiptState \<Rightarrow>
    receiptState result" where
  "receiptLoop env eenv chain logs circle [] s = Inr s"
| "receiptLoop env eenv chain logs circle (pm # pms) s =
     bnd (receiptTurn env eenv chain logs circle pm s) (receiptLoop env eenv chain logs circle pms)"

definition fromEthersTransactionReceipt :: "env \<Rightarrow> evmEnv \<Rightarrow> int \<Rightarrow> string \<Rightarrow> string \<Rightarrow> evmLog list \<Rightarrow> string \<Rightarrow>
    transactionResult result" where
  "fromEthersTransactionReceipt env eenv chainId contractAddress coreBridgeAddress logs circleTransmitterAddress =
     bnd (ee_toChain eenv chainId) (\<lambda>chain.
     bnd (parseEvmEvents (ee_parsePublished eenv) logs coreBridgeAddress) (\<lambda>publishedMessages.
     bnd (receiptLoop env eenv chain logs circleTransmitterAddress publishedMessages
            \<lparr>rs_contractAddress = contractAddress, rs_wormhole = None, rs_circleMessage = None, rs_fastMessage = None\<rparr>) (\<lambda>s.
     case rs_wormhole s of
       None \<Rightarrow> Inl (Error ''Wormhole message not found'')
     | Some wormhole \<Rightarrow>
         Inr \<lparr>lr_wormhole = wormhole, lr_circleMessage = rs_circleMessage s, lr_fastMessage = rs_fastMessage s\<rparr>)))"

section \<open>Contract errors\<close>

record decodedErr =
  de_selector :: string
  de_data :: "string option"

text \<open>\<open>k in v\<close>, which throws on anything but an object.\<close>

definition hasKey :: "json option \<Rightarrow> string \<Rightarrow> bool result" where
  "hasKey v k =
     (case v of
        Some (JObj members) \<Rightarrow> Inr (k \<in> set (map fst members))
      | Some (JArr xs) \<Rightarrow> Inr (k = ''length'' \<or> k \<in> set (indexKeys xs))
      | _ \<Rightarrow> Inl TypeError)"

definition requireKey :: "json option \<Rightarrow> string \<Rightarrow> unit result" where
  "requireKey v k = bnd (hasKey v k) (\<lambda>present. if present then Inr () else Inl (Error ''not contract error''))"

definition computeSelector :: "evmEnv \<Rightarrow> string \<Rightarrow> string" where
  "computeSelector eenv methodSignature = take 10 (ee_keccak256 eenv methodSignature)"

text \<open>
  Data that is not a string has no \<open>substring\<close>; its length is looked at before. (A member \<open>length\<close> of an object
  that is not a number would be converted; \<open>ethers\<close> has no such data.)
\<close>

definition errorDecoder :: "evmEnv \<Rightarrow> json \<Rightarrow> decodedErr result" where
  "errorDecoder eenv ethersError =
     bnd (requireKey (Some ethersError) ''code'') (\<lambda>_.
     bnd (requireKey (Some ethersError) ''error'') (\<lambda>_.
     bnd (jget (Some ethersError) ''error'') (\<lambda>e1.
     bnd (requireKey e1 ''error'') (\<lambda>_.
     bnd (jget e1 ''error'') (\<lambda>e2.
     bnd (requireKey e2 ''error'') (\<lambda>_.
     bnd (jget e2 ''error'') (\<lambda>e3.
     bnd (requireKey e3 ''code'') (\<lambda>_.
     bnd (requireKey e3 ''data'') (\<lambda>_.
     bnd (jget e3 ''data'') (\<lambda>data.
     case data of
       Some (JStr data) \<Rightarrow>
         if length data < 10 \<or> take 2 data \<noteq> ''0x'' then Inl (Error ''data not custom error'')
         else
           let selector = take 10 data in
           if selector = computeSelector eenv ''ErrDeadlineExceeded()'' then
             Inr \<lparr>de_selector = ''ErrDeadlineExceeded'', de_data = None\<rparr>
           else if selector = computeSelector eenv ''ErrUnsupportedChain(uint16)'' then
             Inr \<lparr>de_selector = ''ErrUnsupportedChain'', de_data = Some (''0x'' @ drop 10 data)\<rparr>
           else if selector = computeSelector eenv ''ErrInvalidSourceRouter(bytes32,bytes32)'' then
             Inr \<lparr>de_selector = ''ErrInvalidSourceRouter'', de_data = Some (''0x'' @ drop 10 data)\<rparr>
           else Inl (Error (''unknown selector: '' @ selector))
     | Some (JArr xs) \<Rightarrow> if length xs < 10 then Inl (Error ''data not custom error'') else Inl TypeError
     | Some (JObj members) \<Rightarrow>
         (case map_of members ''length'' of
            Some (JNum d) \<Rightarrow> if \<not> doubleLe (Dbl 10 0) d then Inl (Error ''data not custom error'') else Inl TypeError
          | _ \<Rightarrow> Inl TypeError)
     | _ \<Rightarrow> Inl TypeError))))))))))"

section \<open>The contracts\<close>

datatype evmArg =
    EvInt int
  | EvBool bool
  | EvBytes "byte list"
  | EvText string
  | EvTuple "(string \<times> evmArg) list"

text \<open>A call: the contract's address, the method as the client selects it, and its arguments.\<close>

datatype evmCall = EvmCall string string "evmArg list"

record evmEndpoint =
  en_router :: evmArg
  en_mintRecipient :: evmArg

record fastTransferParameters =
  ft_enabled :: bool
  ft_maxAmount :: int
  ft_baseFee :: int
  ft_initAuctionFee :: int

record orderResponse =
  or_encodedWormholeMessage :: evmArg
  or_circleBridgeMessage :: evmArg
  or_circleAttestation :: evmArg

definition argEndpoint :: "evmEndpoint \<Rightarrow> evmArg" where
  "argEndpoint e = EvTuple [(''router'', en_router e), (''mintRecipient'', en_mintRecipient e)]"

definition argOrderResponse :: "orderResponse \<Rightarrow> evmArg" where
  "argOrderResponse r = EvTuple
     [(''encodedWormholeMessage'', or_encodedWormholeMessage r), (''circleBridgeMessage'', or_circleBridgeMessage r),
      (''circleAttestation'', or_circleAttestation r)]"

definition argFastTransferParameters :: "fastTransferParameters \<Rightarrow> evmArg" where
  "argFastTransferParameters p = EvTuple
     [(''enabled'', EvBool (ft_enabled p)), (''maxAmount'', EvInt (ft_maxAmount p)), (''baseFee'', EvInt (ft_baseFee p)),
      (''initAuctionFee'', EvInt (ft_initAuctionFee p))]"

text \<open>What the clients read from contracts and the provider; a receipt may be \<open>null\<close>.\<close>

record evmProvider =
  ep_wormhole :: "string \<Rightarrow> string result"
  ep_localMessageTransmitter :: "string \<Rightarrow> string result"
  ep_chainId :: "string \<Rightarrow> int result"
  ep_getTransactionReceipt :: "string \<Rightarrow> evmLog list option result"

record evmCache =
  ca_chainId :: int
  ca_coreBridge :: string
  ca_circleTransmitterAddress :: string

text \<open>Both clients have the addresses of their contract and of Circle's bridge, and a cache.\<close>

record evmClient =
  cl_contract :: string
  cl_circle :: string
  cl_cache :: "evmCache option"

definition newEvmClient :: "string \<Rightarrow> string \<Rightarrow> evmClient" where
  "newEvmClient contractAddress circleBridge =
     \<lparr>cl_contract = contractAddress, cl_circle = circleBridge, cl_cache = None\<rparr>"

definition evm_cacheIfNeeded :: "evmProvider \<Rightarrow> evmClient \<Rightarrow> (evmCache \<times> evmClient) result" where
  "evm_cacheIfNeeded prov c =
     (case cl_cache c of
        Some cache \<Rightarrow> Inr (cache, c)
      | None \<Rightarrow>
          bnd (ep_wormhole prov (cl_contract c)) (\<lambda>coreBridge.
          bnd (ep_localMessageTransmitter prov (cl_circle c)) (\<lambda>circleTransmitterAddress.
          bnd (ep_chainId prov coreBridge) (\<lambda>chainId.
          let cache = \<lparr>ca_chainId = chainId, ca_coreBridge = coreBridge,
                       ca_circleTransmitterAddress = circleTransmitterAddress\<rparr>
          in Inr (cache, c\<lparr>cl_cache := Some cache\<rparr>)))))"

definition evm_getTransactionResults :: "env \<Rightarrow> evmEnv \<Rightarrow> evmProvider \<Rightarrow> string \<Rightarrow> evmClient \<Rightarrow>
    (transactionResult \<times> evmClient) result" where
  "evm_getTransactionResults env eenv prov txHash c =
     bnd (evm_cacheIfNeeded prov c) (\<lambda>(cache, c).
     bnd (ep_getTransactionReceipt prov txHash) (\<lambda>txReceipt.
     case txReceipt of
       None \<Rightarrow> bnd (ee_toChain eenv (ca_chainId cache)) (\<lambda>_. Inl TypeError)
     | Some logs \<Rightarrow>
         bnd (fromEthersTransactionReceipt env eenv (ca_chainId cache) (cl_contract c) (ca_coreBridge cache) logs
                (ca_circleTransmitterAddress cache)) (\<lambda>r.
         Inr (r, c))))"

subsection \<open>EvmTokenRouter\<close>

definition evm_placeMarketOrder :: "evmClient \<Rightarrow> int \<Rightarrow> int \<Rightarrow> byte list \<Rightarrow> byte list \<Rightarrow> int option \<Rightarrow> string option \<Rightarrow> evmCall" where
  "evm_placeMarketOrder c amountIn targetChain redeemer redeemerMessage minAmountOut refundAddress =
     (case (minAmountOut, refundAddress) of
        (Some minAmountOut, Some refundAddress) \<Rightarrow>
          EvmCall (cl_contract c) ''placeMarketOrder(uint64,uint64,uint16,bytes32,bytes,address)''
            [EvInt amountIn, EvInt minAmountOut, EvInt targetChain, EvBytes redeemer, EvBytes redeemerMessage,
             EvText refundAddress]
      | _ \<Rightarrow>
          EvmCall (cl_contract c) ''placeMarketOrder(uint64,uint16,bytes32,bytes)''
            [EvInt amountIn, EvInt targetChain, EvBytes redeemer, EvBytes redeemerMessage])"

definition evm_placeFastMarketOrder :: "evmClient \<Rightarrow> int \<Rightarrow> int \<Rightarrow> byte list \<Rightarrow> byte list \<Rightarrow> int \<Rightarrow> int \<Rightarrow> int option \<Rightarrow>
    string option \<Rightarrow> evmCall" where
  "evm_placeFastMarketOrder c amountIn targetChain redeemer redeemerMessage maxFee deadline minAmountOut refundAddress =
     (case (minAmountOut, refundAddress) of
        (Some minAmountOut, Some refundAddress) \<Rightarrow>
          EvmCall (cl_contract c) ''placeFastMarketOrder(uint64,uint64,uint16,bytes32,bytes,address,uint64,uint32)''
            [EvInt amountIn, EvInt minAmountOut, EvInt targetChain, EvBytes redeemer, EvBytes redeemerMessage,
             EvText refundAddress, EvInt maxFee, EvInt deadline]
      | _ \<Rightarrow>
          EvmCall (cl_contract c) ''placeFastMarketOrder(uint64,uint16,bytes32,bytes,uint64,uint32)''
            [EvInt amountIn, EvInt targetChain, EvBytes redeemer, EvBytes redeemerMessage, EvInt maxFee, EvInt deadline])"

definition evm_redeemFill :: "evmClient \<Rightarrow> orderResponse \<Rightarrow> evmCall" where
  "evm_redeemFill c response = EvmCall (cl_contract c) ''redeemFill'' [argOrderResponse response]"

definition evm_addRouterEndpoint :: "evmClient \<Rightarrow> int \<Rightarrow> evmEndpoint \<Rightarrow> int \<Rightarrow> evmCall" where
  "evm_addRouterEndpoint c chain endpoint domain =
     EvmCall (cl_contract c) ''addRouterEndpoint'' [EvInt chain, argEndpoint endpoint, EvInt domain]"

definition evm_updateFastTransferParameters :: "evmClient \<Rightarrow> fastTransferParameters \<Rightarrow> evmCall" where
  "evm_updateFastTransferParameters c newParams =
     EvmCall (cl_contract c) ''updateFastTransferParameters'' [argFastTransferParameters newParams]"

definition evm_enableFastTransfer :: "evmClient \<Rightarrow> bool \<Rightarrow> evmCall" where
  "evm_enableFastTransfer c enable = EvmCall (cl_contract c) ''enableFastTransfers'' [EvBool enable]"

definition evm_getRouter :: "evmClient \<Rightarrow> int \<Rightarrow> evmCall" where
  "evm_getRouter c chain = EvmCall (cl_contract c) ''getRouter'' [EvInt chain]"

definition evm_getInitialAuctionFee :: "evmClient \<Rightarrow> evmCall" where
  "evm_getInitialAuctionFee c = EvmCall (cl_contract c) ''getInitialAuctionFee'' []"

subsection \<open>EvmMatchingEngine\<close>

text \<open>Connecting anew keeps the addresses and starts with an empty cache.\<close>

definition evm_connect :: "evmClient \<Rightarrow> evmClient" where
  "evm_connect c = newEvmClient (cl_contract c) (cl_circle c)"

definition evm_placeInitialBid :: "evmClient \<Rightarrow> byte list \<Rightarrow> int \<Rightarrow> evmCall" where
  "evm_placeInitialBid c fastTransferVaa feeBid =
     EvmCall (cl_contract c) ''placeInitialBid'' [EvBytes fastTransferVaa, EvInt feeBid]"

definition evm_improveBid :: "evmClient \<Rightarrow> byte list \<Rightarrow> int \<Rightarrow> evmCall" where
  "evm_improveBid c auctionId feeBid = EvmCall (cl_contract c) ''improveBid'' [EvBytes auctionId, EvInt feeBid]"

definition evm_executeFastOrder :: "evmClient \<Rightarrow> byte list \<Rightarrow> evmCall" where
  "evm_executeFastOrder c fastTransferVaa = EvmCall (cl_contract c) ''executeFastOrder'' [EvBytes fastTransferVaa]"

definition evm_executeSlowOrderAndRedeem :: "evmClient \<Rightarrow> byte list \<Rightarrow> orderResponse \<Rightarrow> evmCall" where
  "evm_executeSlowOrderAndRedeem c fastTransferVaa params =
     EvmCall (cl_contract c) ''executeSlowOrderAndRedeem'' [EvBytes fastTransferVaa, argOrderResponse params]"

definition evm_calculateDynamicPenalty :: "evmClient \<Rightarrow> byte list option \<Rightarrow> int option \<Rightarrow> int option \<Rightarrow> evmCall result" where
  "evm_calculateDynamicPenalty c auctionId amount blocksElapsed =
     (case (auctionId, amount, blocksElapsed) of
        (Some auctionId, _, _) \<Rightarrow> Inr (EvmCall (cl_contract c) ''calculateDynamicPenalty(bytes32)'' [EvBytes auctionId])
      | (None, Some amount, Some blocksElapsed) \<Rightarrow>
          Inr (EvmCall (cl_contract c) ''calculateDynamicPenalty(uint64,uint64)'' [EvInt amount, EvInt blocksElapsed])
      | _ \<Rightarrow> Inl (Error ''Invalid arguments''))"

definition evm_liveAuctionInfo :: "evmClient \<Rightarrow> byte list \<Rightarrow> evmCall" where
  "evm_liveAuctionInfo c auctionId = EvmCall (cl_contract c) ''liveAuctionInfo'' [EvBytes auctionId]"

record liveAuctionData =
  la_status :: int
  la_startBlock :: int
  la_highestBidder :: string
  la_initialBidder :: string
  la_amount :: int
  la_securityDeposit :: int
  la_bidPrice :: int

definition evm_auctionStatus :: "(evmCall \<Rightarrow> liveAuctionData result) \<Rightarrow> evmClient \<Rightarrow> byte list \<Rightarrow> int result" where
  "evm_auctionStatus read c auctionId = bnd (read (evm_liveAuctionInfo c auctionId)) (\<lambda>res. Inr (la_status res))"

text \<open>The getters without arguments, by the method of the contract.\<close>

definition evm_getter :: "string \<Rightarrow> evmClient \<Rightarrow> evmCall" where
  "evm_getter m c = EvmCall (cl_contract c) m []"

definition evm_getAuctionGracePeriod :: "evmClient \<Rightarrow> evmCall" where
  "evm_getAuctionGracePeriod = evm_getter ''getAuctionGracePeriod''"

definition evm_getAuctionDuration :: "evmClient \<Rightarrow> evmCall" where
  "evm_getAuctionDuration = evm_getter ''getAuctionDuration''"

definition evm_getPenaltyBlocks :: "evmClient \<Rightarrow> evmCall" where
  "evm_getPenaltyBlocks = evm_getter ''getAuctionPenaltyBlocks''"

definition evm_getInitialPenaltyBps :: "evmClient \<Rightarrow> evmCall" where
  "evm_getInitialPenaltyBps = evm_getter ''getInitialPenaltyBps''"

definition evm_getUserPenaltyRewardBps :: "evmClient \<Rightarrow> evmCall" where
  "evm_getUserPenaltyRewardBps = evm_getter ''getUserPenaltyRewardBps''"

definition evm_wormhole :: "evmClient \<Rightarrow> evmCall" where
  "evm_wormhole = evm_getter ''wormhole''"

section \<open>The messages of a transaction\<close>

definition isFastOrder :: "liquidityLayerObservation \<Rightarrow> bool" where
  "isFastOrder ob \<longleftrightarrow> cbm_wormholeCctp (lo_message ob) = None \<and> mb_fastMarketOrder (cbm_body (lo_message ob)) \<noteq> None"

definition isDeposit :: "liquidityLayerObservation \<Rightarrow> bool" where
  "isDeposit ob \<longleftrightarrow> cbm_wormholeCctp (lo_message ob) \<noteq> None"

text \<open>The events of a contract that can be parsed, in the order of the logs.\<close>

definition eventsOf :: "(evmLog \<Rightarrow> string option + 'e) \<Rightarrow> string \<Rightarrow> evmLog list \<Rightarrow> 'e list" where
  "eventsOf parse a logs =
     concat (map (\<lambda>l. if el_address l = a then (case parse l of Inr e \<Rightarrow> [e] | Inl _ \<Rightarrow> []) else []) logs)"

definition observes :: "env \<Rightarrow> evmEnv \<Rightarrow> string \<Rightarrow> publishedMessage \<Rightarrow> liquidityLayerObservation \<Rightarrow> bool" where
  "observes env eenv chain pm ob \<longleftrightarrow> ee_toUniversal eenv chain (pm_sender pm) = Inr (lo_emitterAddress ob) \<and>
     lo_sequence ob = pm_sequence pm \<and> lo_nonce ob = pm_nonce pm \<and> lo_consistencyLevel ob = pm_consistencyLevel pm \<and>
     (\<exists>bytes decoded. ee_arrayify eenv (pm_payload pm) = Inr bytes \<and> messageDecoder_decode env bytes = Inr decoded \<and>
       lo_message ob = decoded)"

text \<open>A check-summed address is its own check-summed address.\<close>

definition checksumStable :: "evmEnv \<Rightarrow> bool" where
  "checksumStable eenv \<longleftrightarrow> (\<forall>a b. ee_getAddress eenv a = Inr b \<longrightarrow> ee_getAddress eenv b = Inr b)"

definition circleMessageOf :: "evmEnv \<Rightarrow> evmLog list \<Rightarrow> string \<Rightarrow> byte list result" where
  "circleMessageOf eenv logs circle = bnd (parseEvmEvent (ee_parseMessageSent eenv) logs circle) (ee_arrayify eenv)"

lemma collectEvents_eq: "collectEvents parse a logs acc = acc @ eventsOf parse a logs"
  by (induction logs arbitrary: acc) (auto simp: eventsOf_def split: sum.splits)

lemma parseEvmEvent_hd: "parseEvmEvent parse logs a = Inr e \<longleftrightarrow> eventsOf parse a logs \<noteq> [] \<and> hd (eventsOf parse a logs) = e"
  by (induction logs) (auto simp: eventsOf_def split: sum.splits)

lemma receiptTurn_spec:
  assumes "receiptTurn env eenv chain logs circle pm s = Inr s'"
  shows "\<exists>ob. observes env eenv chain pm ob \<and>
    ee_getAddress eenv (rs_contractAddress s) = Inr (rs_contractAddress s') \<and>
    ee_getAddress eenv (pm_sender pm) = Inr (rs_contractAddress s') \<and>
    rs_wormhole s' = (if isFastOrder ob then rs_wormhole s else Some ob) \<and>
    rs_fastMessage s' = (if isFastOrder ob then Some ob else rs_fastMessage s) \<and>
    (if isDeposit ob then \<exists>b. circleMessageOf eenv logs circle = Inr b \<and> rs_circleMessage s' = Some b
     else rs_circleMessage s' = rs_circleMessage s)"
proof -
  from assms obtain emitter encoded a decoded where
    e: "ee_toUniversal eenv chain (pm_sender pm) = Inr emitter" "ee_arrayify eenv (pm_payload pm) = Inr encoded"
    "ee_getAddress eenv (pm_sender pm) = Inr a" "ee_getAddress eenv (rs_contractAddress s) = Inr a"
    "messageDecoder_decode env encoded = Inr decoded"
    by (auto simp: receiptTurn_def bnd_eq_Inr_iff Let_def split: if_splits)
  let ?ob = "\<lparr>lo_emitterAddress = emitter, lo_sequence = pm_sequence pm, lo_nonce = pm_nonce pm,
    lo_consistencyLevel = pm_consistencyLevel pm, lo_message = decoded\<rparr>"
  have "observes env eenv chain pm ?ob" using e by (auto simp: observes_def)
  moreover from assms e have "ee_getAddress eenv (rs_contractAddress s) = Inr (rs_contractAddress s') \<and>
    ee_getAddress eenv (pm_sender pm) = Inr (rs_contractAddress s') \<and>
    rs_wormhole s' = (if isFastOrder ?ob then rs_wormhole s else Some ?ob) \<and>
    rs_fastMessage s' = (if isFastOrder ?ob then Some ?ob else rs_fastMessage s) \<and>
    (if isDeposit ?ob then \<exists>b. circleMessageOf eenv logs circle = Inr b \<and> rs_circleMessage s' = Some b
     else rs_circleMessage s' = rs_circleMessage s)"
    by (auto simp: receiptTurn_def bnd_eq_Inr_iff Let_def isFastOrder_def isDeposit_def circleMessageOf_def split: if_splits)
  ultimately show ?thesis by blast
qed

definition lastOr :: "'a option \<Rightarrow> 'a list \<Rightarrow> 'a option" where
  "lastOr d xs = (if xs = [] then d else Some (last xs))"

lemma lastOr_Cons [simp]: "lastOr d (x # xs) = lastOr (Some x) xs" and lastOr_Nil [simp]: "lastOr d [] = d"
  by (simp_all add: lastOr_def)

lemma receiptLoop_spec:
  assumes "receiptLoop env eenv chain logs circle pms s = Inr s'" and idem: "checksumStable eenv"
  shows "\<exists>obs. list_all2 (observes env eenv chain) pms obs \<and>
    (\<forall>pm\<in>set pms. \<exists>a. ee_getAddress eenv (rs_contractAddress s) = Inr a \<and> ee_getAddress eenv (pm_sender pm) = Inr a) \<and>
    rs_wormhole s' = lastOr (rs_wormhole s) (filter (\<lambda>ob. \<not> isFastOrder ob) obs) \<and>
    rs_fastMessage s' = lastOr (rs_fastMessage s) (filter isFastOrder obs) \<and>
    (if filter isDeposit obs = [] then rs_circleMessage s' = rs_circleMessage s
     else \<exists>b. circleMessageOf eenv logs circle = Inr b \<and> rs_circleMessage s' = Some b)"
  using assms(1)
proof (induction pms arbitrary: s)
  case Nil
  then show ?case by simp
next
  case (Cons pm pms)
  then obtain s1 where t: "receiptTurn env eenv chain logs circle pm s = Inr s1"
    and l: "receiptLoop env eenv chain logs circle pms s1 = Inr s'"
    by (auto simp: bnd_eq_Inr_iff)
  from receiptTurn_spec [OF t] obtain ob where ob: "observes env eenv chain pm ob"
    "ee_getAddress eenv (rs_contractAddress s) = Inr (rs_contractAddress s1)"
    "ee_getAddress eenv (pm_sender pm) = Inr (rs_contractAddress s1)"
    "rs_wormhole s1 = (if isFastOrder ob then rs_wormhole s else Some ob)"
    "rs_fastMessage s1 = (if isFastOrder ob then Some ob else rs_fastMessage s)"
    "if isDeposit ob then \<exists>b. circleMessageOf eenv logs circle = Inr b \<and> rs_circleMessage s1 = Some b
     else rs_circleMessage s1 = rs_circleMessage s" by blast
  from Cons.IH [OF l] obtain obs where obs: "list_all2 (observes env eenv chain) pms obs"
    "\<forall>pm\<in>set pms. \<exists>a. ee_getAddress eenv (rs_contractAddress s1) = Inr a \<and> ee_getAddress eenv (pm_sender pm) = Inr a"
    "rs_wormhole s' = lastOr (rs_wormhole s1) (filter (\<lambda>ob. \<not> isFastOrder ob) obs)"
    "rs_fastMessage s' = lastOr (rs_fastMessage s1) (filter isFastOrder obs)"
    "if filter isDeposit obs = [] then rs_circleMessage s' = rs_circleMessage s1
     else \<exists>b. circleMessageOf eenv logs circle = Inr b \<and> rs_circleMessage s' = Some b" by blast
  show ?case
    by (rule exI [of _ "ob # obs"]) (use ob obs idem in \<open>auto simp: checksumStable_def split: if_splits\<close>)
qed

text \<open>
  C22. A receipt is read completely and only for the router's own messages: if reading it returns, every message
  that the core bridge published in the transaction was sent by the contract and could be decoded, the
  Wormhole message is the last of them that is not a fast order, the fast message the last fast order
  if there is one, and there is a Circle message exactly if one of them is a deposit: the first that
  Circle's contract sent, whichever deposit it belongs to.
\<close>

theorem receipt_result_spec:
  assumes "fromEthersTransactionReceipt env eenv chainId contract bridge logs circle = Inr r"
    and "checksumStable eenv"
  shows "\<exists>chain obs. ee_toChain eenv chainId = Inr chain \<and>
    list_all2 (observes env eenv chain) (eventsOf (ee_parsePublished eenv) bridge logs) obs \<and>
    (\<forall>pm\<in>set (eventsOf (ee_parsePublished eenv) bridge logs).
      \<exists>a. ee_getAddress eenv contract = Inr a \<and> ee_getAddress eenv (pm_sender pm) = Inr a) \<and>
    filter (\<lambda>ob. \<not> isFastOrder ob) obs \<noteq> [] \<and> lr_wormhole r = last (filter (\<lambda>ob. \<not> isFastOrder ob) obs) \<and>
    lr_fastMessage r = (if filter isFastOrder obs = [] then None else Some (last (filter isFastOrder obs))) \<and>
    (if filter isDeposit obs = [] then lr_circleMessage r = None
     else eventsOf (ee_parseMessageSent eenv) circle logs \<noteq> [] \<and>
       (\<exists>b. ee_arrayify eenv (hd (eventsOf (ee_parseMessageSent eenv) circle logs)) = Inr b \<and> lr_circleMessage r = Some b))"
proof -
  from assms(1) obtain chain s where chain: "ee_toChain eenv chainId = Inr chain" and
    l: "receiptLoop env eenv chain logs circle (eventsOf (ee_parsePublished eenv) bridge logs)
         \<lparr>rs_contractAddress = contract, rs_wormhole = None, rs_circleMessage = None, rs_fastMessage = None\<rparr> = Inr s" and
    r: "rs_wormhole s = Some (lr_wormhole r)" "lr_circleMessage r = rs_circleMessage s" "lr_fastMessage r = rs_fastMessage s"
    by (auto simp: fromEthersTransactionReceipt_def parseEvmEvents_def collectEvents_eq bnd_eq_Inr_iff Let_def
        split: if_splits option.splits)
  from receiptLoop_spec [OF l assms(2)] obtain obs where
    obs: "list_all2 (observes env eenv chain) (eventsOf (ee_parsePublished eenv) bridge logs) obs"
    "\<forall>pm\<in>set (eventsOf (ee_parsePublished eenv) bridge logs).
      \<exists>a. ee_getAddress eenv contract = Inr a \<and> ee_getAddress eenv (pm_sender pm) = Inr a"
    "rs_wormhole s = lastOr None (filter (\<lambda>ob. \<not> isFastOrder ob) obs)"
    "rs_fastMessage s = lastOr None (filter isFastOrder obs)"
    "if filter isDeposit obs = [] then rs_circleMessage s = None
     else \<exists>b. circleMessageOf eenv logs circle = Inr b \<and> rs_circleMessage s = Some b" by auto
  have circle: "circleMessageOf eenv logs circle = Inr b \<Longrightarrow> eventsOf (ee_parseMessageSent eenv) circle logs \<noteq> [] \<and>
      ee_arrayify eenv (hd (eventsOf (ee_parseMessageSent eenv) circle logs)) = Inr b" for b
    by (auto simp: circleMessageOf_def bnd_eq_Inr_iff parseEvmEvent_hd)
  show ?thesis
    by (rule exI [of _ chain], rule exI [of _ obs]) (use chain obs r circle in \<open>auto simp: lastOr_def split: if_splits\<close>)
qed

text \<open>A transaction that placed a fast order: Circle's message, the slow order response and the fast order.\<close>

definition demoDeposit :: cctpDeposit where
  "demoDeposit = \<lparr>cd_tokenAddress = [1], cd_amount = 5, cd_sourceCctpDomain = 0, cd_destinationCctpDomain = 5, cd_cctpNonce = 7,
     cd_burnSource = [2], cd_mintRecipient = [3], cd_payload = SlowOrderResponsePayload 1\<rparr>"

definition demoSentOrder :: fastMarketOrder where
  "demoSentOrder = \<lparr>fm_amountIn = 5, fm_minAmountOut = 0, fm_targetChain = ''Solana'', fm_redeemer = [4], fm_sender = [5],
     fm_refundAddress = [6], fm_maxFee = 2, fm_initAuctionFee = 1, fm_deadline = 0, fm_redeemerMessage = []\<rparr>"

definition receiptEnv :: "env \<Rightarrow> env" where
  "receiptEnv env = env\<lparr>toChainId := \<lambda>_. Inr 1,
     deserializeMessage := \<lambda>b. Inr (if b = [1] then CctpDepositMessage demoDeposit else FastMarketOrderMessage demoSentOrder)\<rparr>"

definition receiptEvm :: evmEnv where
  "receiptEvm = \<lparr>ee_toChain = \<lambda>_. Inr ''Sepolia'', ee_toUniversal = \<lambda>_ a. Inr (ascii a), ee_getAddress = \<lambda>a. Inr a,
     ee_arrayify = \<lambda>s. Inr (if s = ''slow'' then [1] else if s = ''fast'' then [11] else [9]),
     ee_keccak256 = \<lambda>s. s, ee_noChain = TypeError, ee_deserializePayload = \<lambda>_. Inl TypeError,
     ee_parsePublished = \<lambda>l. Inr \<lparr>pm_sender = ''router'', pm_sequence = 3, pm_nonce = 0, pm_payload = el_data l,
       pm_consistencyLevel = 1\<rparr>,
     ee_parseMessageSent = \<lambda>l. Inr (el_data l)\<rparr>"

definition receiptLogs :: "evmLog list" where
  "receiptLogs = [\<lparr>el_address = ''circle'', el_topics = [], el_data = ''burn''\<rparr>,
     \<lparr>el_address = ''bridge'', el_topics = [], el_data = ''fast''\<rparr>,
     \<lparr>el_address = ''bridge'', el_topics = [], el_data = ''slow''\<rparr>]"

lemma demo_receipt: "\<exists>r. fromEthersTransactionReceipt (receiptEnv env) receiptEvm 10002 ''router'' ''bridge'' receiptLogs ''circle'' = Inr r"
  by (simp add: fromEthersTransactionReceipt_def parseEvmEvents_def receiptTurn_def messageDecoder_decode_def receiptEvm_def
      receiptEnv_def receiptLogs_def evmFastMarketOrder_fromLayout_def demoDeposit_def Let_def)

theorem receipt_result_spec_witness:
  "\<forall>env. \<exists>r fast. fromEthersTransactionReceipt (receiptEnv env) receiptEvm 10002 ''router'' ''bridge'' receiptLogs ''circle'' = Inr r \<and>
     isDeposit (lr_wormhole r) \<and> lr_circleMessage r = Some [9] \<and> lr_fastMessage r = Some fast \<and> isFastOrder fast"
proof
  fix env
  obtain r where r: "fromEthersTransactionReceipt (receiptEnv env) receiptEvm 10002 ''router'' ''bridge'' receiptLogs ''circle'' = Inr r"
    using demo_receipt by blast
  have ev: "eventsOf (ee_parsePublished receiptEvm) ''bridge'' receiptLogs =
      [\<lparr>pm_sender = ''router'', pm_sequence = 3, pm_nonce = 0, pm_payload = ''fast'', pm_consistencyLevel = 1\<rparr>,
       \<lparr>pm_sender = ''router'', pm_sequence = 3, pm_nonce = 0, pm_payload = ''slow'', pm_consistencyLevel = 1\<rparr>]"
    "eventsOf (ee_parseMessageSent receiptEvm) ''circle'' receiptLogs = [''burn'']"
    "ee_arrayify receiptEvm ''burn'' = Inr [9]"
    by (simp_all add: eventsOf_def receiptEvm_def receiptLogs_def)
  have kinds: "observes (receiptEnv env) receiptEvm chain
      \<lparr>pm_sender = ''router'', pm_sequence = 3, pm_nonce = 0, pm_payload = ''fast'', pm_consistencyLevel = 1\<rparr> ob \<Longrightarrow>
      isFastOrder ob \<and> \<not> isDeposit ob"
    "observes (receiptEnv env) receiptEvm chain
      \<lparr>pm_sender = ''router'', pm_sequence = 3, pm_nonce = 0, pm_payload = ''slow'', pm_consistencyLevel = 1\<rparr> ob \<Longrightarrow>
      \<not> isFastOrder ob \<and> isDeposit ob" for chain ob
    by (auto simp: observes_def receiptEvm_def receiptEnv_def messageDecoder_decode_def evmFastMarketOrder_fromLayout_def
        demoDeposit_def isFastOrder_def isDeposit_def dest!: sym [of _ "lo_message ob"])
  have "checksumStable receiptEvm" by (simp add: checksumStable_def receiptEvm_def)
  from receipt_result_spec [OF r this] obtain chain obs where
    "list_all2 (observes (receiptEnv env) receiptEvm chain) (eventsOf (ee_parsePublished receiptEvm) ''bridge'' receiptLogs) obs"
    "lr_wormhole r = last (filter (\<lambda>ob. \<not> isFastOrder ob) obs)"
    "lr_fastMessage r = (if filter isFastOrder obs = [] then None else Some (last (filter isFastOrder obs)))"
    "if filter isDeposit obs = [] then lr_circleMessage r = None
     else \<exists>b. ee_arrayify receiptEvm (hd (eventsOf (ee_parseMessageSent receiptEvm) ''circle'' receiptLogs)) = Inr b \<and>
       lr_circleMessage r = Some b"
    by (auto split: if_splits)
  then have "isDeposit (lr_wormhole r) \<and> lr_circleMessage r = Some [9] \<and> (\<exists>fast. lr_fastMessage r = Some fast \<and> isFastOrder fast)"
    by (auto simp: ev list_all2_Cons1 dest!: kinds split: if_splits)
  with r show "\<exists>r fast. fromEthersTransactionReceipt (receiptEnv env) receiptEvm 10002 ''router'' ''bridge'' receiptLogs ''circle'' = Inr r \<and>
     isDeposit (lr_wormhole r) \<and> lr_circleMessage r = Some [9] \<and> lr_fastMessage r = Some fast \<and> isFastOrder fast"
    by blast
qed

section \<open>The clients\<close>

text \<open>
  A minimum amount only reaches the contract together with a refund address; without one the order is placed
  without the minimum that the caller asked for.
\<close>

lemma minimum_needs_refund:
  "evm_placeMarketOrder c amountIn chain redeemer message minAmountOut None =
   evm_placeMarketOrder c amountIn chain redeemer message None refundAddress"
  "evm_placeFastMarketOrder c amountIn chain redeemer message maxFee deadline minAmountOut None =
   evm_placeFastMarketOrder c amountIn chain redeemer message maxFee deadline None refundAddress"
  by (cases minAmountOut; simp add: evm_placeMarketOrder_def evm_placeFastMarketOrder_def)+

text \<open>
  What a client has looked up once it keeps: after one transaction has been read, every later one is read
  with the chain, the bridge and the Circle transmitter of the first, whatever the contracts answer
  then; and a client that is connected anew looks everything up again.
\<close>

theorem evm_cache_is_final:
  assumes "evm_getTransactionResults env eenv prov txHash c = Inr (r, c')"
  shows "\<exists>cache. evm_cacheIfNeeded prov c = Inr (cache, c') \<and> cl_contract c' = cl_contract c \<and>
    (\<forall>prov' txHash'. evm_getTransactionResults env eenv prov' txHash' c' =
      bnd (ep_getTransactionReceipt prov' txHash') (\<lambda>txReceipt. case txReceipt of
         None \<Rightarrow> Inl TypeError
       | Some logs \<Rightarrow> bnd (fromEthersTransactionReceipt env eenv (ca_chainId cache) (cl_contract c) (ca_coreBridge cache) logs
           (ca_circleTransmitterAddress cache)) (\<lambda>r. Inr (r, c')))) \<and>
    cl_cache (evm_connect c') = None"
proof -
  from assms obtain cache logs where c: "evm_cacheIfNeeded prov c = Inr (cache, c')"
    and r: "fromEthersTransactionReceipt env eenv (ca_chainId cache) (cl_contract c') (ca_coreBridge cache) logs
      (ca_circleTransmitterAddress cache) = Inr r"
    by (auto simp: evm_getTransactionResults_def bnd_eq_Inr_iff split: option.splits)
  from r obtain chain where "ee_toChain eenv (ca_chainId cache) = Inr chain"
    by (auto simp: fromEthersTransactionReceipt_def bnd_eq_Inr_iff)
  moreover from c have "cl_cache c' = Some cache" "cl_contract c' = cl_contract c"
    by (auto simp: evm_cacheIfNeeded_def bnd_eq_Inr_iff Let_def split: option.splits)
  ultimately show ?thesis using c
    by (auto simp: evm_getTransactionResults_def evm_cacheIfNeeded_def [of _ c'] evm_connect_def newEvmClient_def
        intro!: exI [of _ cache] arg_cong2 [where f = bnd] split: option.split)
qed

section \<open>Contract errors\<close>

definition errorJson :: "string \<Rightarrow> json" where
  "errorJson data = JObj [(''code'', JStr ''CALL_EXCEPTION''), (''error'', JObj [(''error'', JObj [(''error'',
     JObj [(''code'', JNum (Dbl 3 0)), (''data'', JStr data)])])])]"

lemma errorDecoder_json:
  assumes "10 \<le> length data" "take 2 data = ''0x''"
  shows "errorDecoder eenv (errorJson data) =
    (if take 10 data = computeSelector eenv ''ErrDeadlineExceeded()'' then Inr \<lparr>de_selector = ''ErrDeadlineExceeded'', de_data = None\<rparr>
     else if take 10 data = computeSelector eenv ''ErrUnsupportedChain(uint16)''
     then Inr \<lparr>de_selector = ''ErrUnsupportedChain'', de_data = Some (''0x'' @ drop 10 data)\<rparr>
     else if take 10 data = computeSelector eenv ''ErrInvalidSourceRouter(bytes32,bytes32)''
     then Inr \<lparr>de_selector = ''ErrInvalidSourceRouter'', de_data = Some (''0x'' @ drop 10 data)\<rparr>
     else Inl (Error (''unknown selector: '' @ take 10 data)))"
  using assms by (simp add: errorDecoder_def errorJson_def requireKey_def hasKey_def Let_def)

end
