(* ===== verification/Message_Layouts.thy ===== *)
theory Message_Layouts
  imports Chain_Env
begin

text \<open>
  \<open>universal/ts/src\<close>: the layouts of the Liquidity Layer's messages and payloads, the type guards and the
  dispatch of \<open>Message\<close> and \<open>Payload\<close> over them. A message is an object, here the list of its fields; the
  interpreter of layouts (\<open>serializeLayout\<close>, \<open>deserializeLayout\<close>, \<open>layoutDiscriminator\<close>) is third-party and a
  record of functions.
\<close>

section \<open>Layouts\<close>

text \<open>An item of a layout: its name, and how the layout language or \<open>layoutItems\<close> describes it.\<close>

datatype layoutKind =
    UintItem nat  \<comment> \<open>size in bytes\<close>
  | BytesItem nat  \<comment> \<open>size of the length prefix\<close>
  | UniversalAddressItem
  | AmountItem
  | CircleDomainItem
  | CircleNonceItem
  | ChainItem
  | PayloadIdItem nat
  | SwitchItem nat nat "(nat \<times> (string \<times> layoutKind) list) list"  \<comment> \<open>length prefix, size of the id, cases\<close>

type_synonym layout = "(string \<times> layoutKind) list"

definition fillLayout :: layout where
  "fillLayout =
     [(''sourceChain'', ChainItem),
      (''orderSender'', UniversalAddressItem),
      (''redeemer'', UniversalAddressItem),
      (''redeemerMessage'', BytesItem 2)]"

definition slowOrderResponseLayout :: layout where
  "slowOrderResponseLayout = [(''baseFee'', UintItem 8)]"

definition payloadLayouts :: "(string \<times> nat \<times> layout) list" where
  "payloadLayouts = [(''Fill'', 1, fillLayout), (''SlowOrderResponse'', 2, slowOrderResponseLayout)]"

definition payloadLayoutSwitch :: "nat \<Rightarrow> layoutKind" where
  "payloadLayoutSwitch lengthSize = SwitchItem lengthSize 1 (map snd payloadLayouts)"

definition cctpDepositLayout :: layout where
  "cctpDepositLayout =
     [(''tokenAddress'', UniversalAddressItem),
      (''amount'', AmountItem),
      (''sourceCctpDomain'', CircleDomainItem),
      (''destinationCctpDomain'', CircleDomainItem),
      (''cctpNonce'', CircleNonceItem),
      (''burnSource'', UniversalAddressItem),
      (''mintRecipient'', UniversalAddressItem),
      (''payload'', payloadLayoutSwitch 2)]"

definition fastMarketOrderLayout :: layout where
  "fastMarketOrderLayout =
     [(''amountIn'', UintItem 8),
      (''minAmountOut'', UintItem 8),
      (''targetChain'', ChainItem),
      (''redeemer'', UniversalAddressItem),
      (''sender'', UniversalAddressItem),
      (''refundAddress'', UniversalAddressItem),
      (''maxFee'', UintItem 8),
      (''initAuctionFee'', UintItem 8),
      (''deadline'', UintItem 4),
      (''redeemerMessage'', BytesItem 2)]"

definition fastFillLayout :: layout where
  "fastFillLayout =
     [(''fillAmount'', UintItem 8),
      (''sourceChain'', ChainItem),
      (''orderSender'', UniversalAddressItem),
      (''redeemer'', UniversalAddressItem),
      (''redeemerMessage'', BytesItem 2)]"

definition messageLayouts :: "(string \<times> nat \<times> layout) list" where
  "messageLayouts =
     [(''CctpDeposit'', 1, cctpDepositLayout),
      (''FastMarketOrder'', 11, fastMarketOrderLayout),
      (''FastFill'', 12, fastFillLayout)]"

text \<open>\<open>messages(name)\<close> and \<open>payloads(name)\<close>; the types exclude other names.\<close>

definition messagesOf :: "string \<Rightarrow> nat \<times> layout" where
  "messagesOf name = (case map_of messageLayouts name of Some m \<Rightarrow> m | None \<Rightarrow> (0, []))"

definition payloadsOf :: "string \<Rightarrow> nat \<times> layout" where
  "payloadsOf name = (case map_of payloadLayouts name of Some m \<Rightarrow> m | None \<Rightarrow> (0, []))"

definition messageNames :: "string list" where
  "messageNames = map fst messageLayouts"

definition payloadNames :: "string list" where
  "payloadNames = map fst payloadLayouts"

definition messageIds :: "string \<Rightarrow> nat" where
  "messageIds name = fst (messagesOf name)"

definition payloadIds :: "string \<Rightarrow> nat" where
  "payloadIds name = fst (payloadsOf name)"

definition messageLayout :: "string \<Rightarrow> layout" where
  "messageLayout name = (''payloadId'', PayloadIdItem (messageIds name)) # snd (messagesOf name)"

definition payloadLayout :: "string \<Rightarrow> layout" where
  "payloadLayout name = (''payloadId'', PayloadIdItem (payloadIds name)) # snd (payloadsOf name)"

section \<open>Objects\<close>

datatype fieldValue =
    VInt int
  | VBytes "byte list"
  | VAddress "byte list"
  | VChain string
  | VObject "(string \<times> fieldValue) list"

type_synonym fieldObject = "(string \<times> fieldValue) list"

text \<open>The objects that the message types describe. The payload of a deposit carries the id of its case.\<close>

fun payloadObject :: "depositPayload \<Rightarrow> fieldObject" where
  "payloadObject (FillPayload f) =
     [(''sourceChain'', VChain (fp_sourceChain f)), (''orderSender'', VAddress (fp_orderSender f)),
      (''redeemer'', VAddress (fp_redeemer f)), (''redeemerMessage'', VBytes (fp_redeemerMessage f))]"
| "payloadObject (SlowOrderResponsePayload baseFee) = [(''baseFee'', VInt baseFee)]"

fun payloadName :: "depositPayload \<Rightarrow> string" where
  "payloadName (FillPayload f) = ''Fill''"
| "payloadName (SlowOrderResponsePayload baseFee) = ''SlowOrderResponse''"

fun messageObject :: "message \<Rightarrow> fieldObject" where
  "messageObject (CctpDepositMessage d) =
     [(''tokenAddress'', VAddress (cd_tokenAddress d)), (''amount'', VInt (cd_amount d)),
      (''sourceCctpDomain'', VInt (cd_sourceCctpDomain d)), (''destinationCctpDomain'', VInt (cd_destinationCctpDomain d)),
      (''cctpNonce'', VInt (cd_cctpNonce d)), (''burnSource'', VAddress (cd_burnSource d)),
      (''mintRecipient'', VAddress (cd_mintRecipient d)),
      (''payload'', VObject ((''id'', VInt (int (payloadIds (payloadName (cd_payload d))))) # payloadObject (cd_payload d)))]"
| "messageObject (FastMarketOrderMessage m) =
     [(''amountIn'', VInt (fm_amountIn m)), (''minAmountOut'', VInt (fm_minAmountOut m)),
      (''targetChain'', VChain (fm_targetChain m)), (''redeemer'', VAddress (fm_redeemer m)),
      (''sender'', VAddress (fm_sender m)), (''refundAddress'', VAddress (fm_refundAddress m)),
      (''maxFee'', VInt (fm_maxFee m)), (''initAuctionFee'', VInt (fm_initAuctionFee m)),
      (''deadline'', VInt (fm_deadline m)), (''redeemerMessage'', VBytes (fm_redeemerMessage m))]"
| "messageObject (FastFillMessage f) =
     [(''fillAmount'', VInt (fl_fillAmount f)), (''sourceChain'', VChain (fl_sourceChain f)),
      (''orderSender'', VAddress (fl_orderSender f)), (''redeemer'', VAddress (fl_redeemer f)),
      (''redeemerMessage'', VBytes (fl_redeemerMessage f))]"

fun messageName :: "message \<Rightarrow> string" where
  "messageName (CctpDepositMessage d) = ''CctpDeposit''"
| "messageName (FastMarketOrderMessage m) = ''FastMarketOrder''"
| "messageName (FastFillMessage f) = ''FastFill''"

section \<open>Guards and dispatch\<close>

record layoutCodec =
  lc_serialize :: "layout \<Rightarrow> fieldObject \<Rightarrow> byte list result"
  lc_deserialize :: "layout \<Rightarrow> byte list \<Rightarrow> fieldObject result"
  lc_discriminator :: "layout list \<Rightarrow> byte list \<Rightarrow> nat option"

text \<open>No item of the layout is missing in the object.\<close>

definition coversLayout :: "layout \<Rightarrow> fieldObject \<Rightarrow> bool" where
  "coversLayout l obj = (filter (\<lambda>item. fst item \<notin> set (map fst obj)) l = [])"

definition messageIs :: "fieldObject \<Rightarrow> string \<Rightarrow> bool" where
  "messageIs obj name = coversLayout (snd (messagesOf name)) obj"

definition payloadIs :: "fieldObject \<Rightarrow> string \<Rightarrow> bool" where
  "payloadIs obj name = coversLayout (snd (payloadsOf name)) obj"

fun serializeFirst :: "layoutCodec \<Rightarrow> (fieldObject \<Rightarrow> string \<Rightarrow> bool) \<Rightarrow> (string \<Rightarrow> layout) \<Rightarrow> string \<Rightarrow> string list \<Rightarrow>
    fieldObject \<Rightarrow> byte list result" where
  "serializeFirst c guard layoutOf kind [] obj = Inl (Error (''Unrecognized '' @ kind @ '' type''))"
| "serializeFirst c guard layoutOf kind (name # names) obj =
     (if guard obj name then lc_serialize c (layoutOf name) obj else serializeFirst c guard layoutOf kind names obj)"

definition message_serialize :: "layoutCodec \<Rightarrow> fieldObject \<Rightarrow> byte list result" where
  "message_serialize c obj = serializeFirst c messageIs messageLayout ''message'' messageNames obj"

definition messageDiscriminator :: "layoutCodec \<Rightarrow> byte list \<Rightarrow> nat option" where
  "messageDiscriminator c = lc_discriminator c (map messageLayout messageNames)"

definition message_deserialize :: "layoutCodec \<Rightarrow> byte list \<Rightarrow> fieldObject result" where
  "message_deserialize c bytes =
     (case messageDiscriminator c bytes of
        None \<Rightarrow> Inl (Error ''Unrecognized message type'')
      | Some idx \<Rightarrow> lc_deserialize c (messageLayout (messageNames ! idx)) bytes)"

definition payload_serialize :: "layoutCodec \<Rightarrow> fieldObject \<Rightarrow> byte list result" where
  "payload_serialize c obj = serializeFirst c payloadIs payloadLayout ''payload'' payloadNames obj"

text \<open>Payloads are told apart by their layouts without the id.\<close>

definition payloadDiscriminator :: "layoutCodec \<Rightarrow> byte list \<Rightarrow> nat option" where
  "payloadDiscriminator c = lc_discriminator c (map (\<lambda>p. snd (snd p)) payloadLayouts)"

definition payload_deserialize :: "layoutCodec \<Rightarrow> byte list \<Rightarrow> fieldObject result" where
  "payload_deserialize c bytes =
     (case payloadDiscriminator c bytes of
        None \<Rightarrow> Inl (Error ''Unrecognized payload type'')
      | Some idx \<Rightarrow> lc_deserialize c (payloadLayout (payloadNames ! idx)) bytes)"

section \<open>The guards tell typed messages apart\<close>

lemmas layout_defs = fillLayout_def slowOrderResponseLayout_def payloadLayouts_def cctpDepositLayout_def
  fastMarketOrderLayout_def fastFillLayout_def messageLayouts_def messagesOf_def payloadsOf_def messageNames_def payloadNames_def

lemma messageIs_typed: "name \<in> set messageNames \<Longrightarrow> messageIs (messageObject m) name \<longleftrightarrow> name = messageName m"
  by (cases m) (auto simp: messageIs_def coversLayout_def layout_defs)

lemma payloadIs_typed: "name \<in> set payloadNames \<Longrightarrow> payloadIs (payloadObject p) name \<longleftrightarrow> name = payloadName p"
  by (cases p) (auto simp: payloadIs_def coversLayout_def layout_defs)

lemma serializeFirst_unique:
  assumes "\<And>n. n \<in> set names \<Longrightarrow> guard obj n \<longleftrightarrow> n = name" "name \<in> set names"
  shows "serializeFirst c guard layoutOf kind names obj = lc_serialize c (layoutOf name) obj"
  using assms by (induction names) auto

lemma messageName_in: "messageName m \<in> set messageNames" and payloadName_in: "payloadName p \<in> set payloadNames"
  by (cases m; simp add: messageNames_def messageLayouts_def) (cases p; simp add: payloadNames_def payloadLayouts_def)

text \<open>
  C23. A message is serialized with the layout of its own type: for every message and every payload of the
  message types exactly one guard holds, the ids of the three messages are different, and the
  dispatch reaches the layout that starts with the message's own id. The guards look at the names of
  fields only, so a fast fill is also a payload of kind \<open>Fill\<close>.
\<close>

theorem typed_messages_dispatch:
  "filter (messageIs (messageObject m)) messageNames = [messageName m] \<and>
   filter (payloadIs (payloadObject p)) payloadNames = [payloadName p] \<and>
   message_serialize c (messageObject m) = lc_serialize c (messageLayout (messageName m)) (messageObject m) \<and>
   payload_serialize c (payloadObject p) = lc_serialize c (payloadLayout (payloadName p)) (payloadObject p) \<and>
   hd (messageLayout (messageName m)) = (''payloadId'', PayloadIdItem (messageIds (messageName m))) \<and>
   distinct (map messageIds messageNames) \<and> distinct (map payloadIds payloadNames) \<and>
   payloadIs (messageObject (FastFillMessage f)) ''Fill''"
proof -
  have "filter (messageIs (messageObject m)) messageNames = filter (\<lambda>n. n = messageName m) messageNames"
    by (rule filter_cong) (simp_all add: messageIs_typed)
  also have "\<dots> = [messageName m]" by (cases m) (simp_all add: messageNames_def messageLayouts_def)
  finally have m: "filter (messageIs (messageObject m)) messageNames = [messageName m]" .
  have "filter (payloadIs (payloadObject p)) payloadNames = filter (\<lambda>n. n = payloadName p) payloadNames"
    by (rule filter_cong) (simp_all add: payloadIs_typed)
  also have "\<dots> = [payloadName p]" by (cases p) (simp_all add: payloadNames_def payloadLayouts_def)
  finally have p: "filter (payloadIs (payloadObject p)) payloadNames = [payloadName p]" .
  have "message_serialize c (messageObject m) = lc_serialize c (messageLayout (messageName m)) (messageObject m)"
    unfolding message_serialize_def by (rule serializeFirst_unique) (simp_all add: messageIs_typed messageName_in)
  moreover have "payload_serialize c (payloadObject p) = lc_serialize c (payloadLayout (payloadName p)) (payloadObject p)"
    unfolding payload_serialize_def by (rule serializeFirst_unique) (simp_all add: payloadIs_typed payloadName_in)
  moreover have "distinct (map messageIds messageNames)" "distinct (map payloadIds payloadNames)"
    by (simp_all add: messageIds_def payloadIds_def messagesOf_def payloadsOf_def messageNames_def payloadNames_def
        messageLayouts_def payloadLayouts_def)
  moreover have "payloadIs (messageObject (FastFillMessage f)) ''Fill''"
    by (simp add: payloadIs_def coversLayout_def layout_defs)
  ultimately show ?thesis using m p by (simp add: messageLayout_def)
qed

end
