(* ===== verification/Idl_Layout.thy ===== *)
theory Idl_Layout
  imports Me_History Idl_Matching_Engine Idl_Token_Router Idl_Me_Types Idl_Tr_Types Idl_Message_Transmitter
    Idl_Token_Messenger
begin

text \<open>
  The hand-written reader of the auction history and the accounts that several programs read, compared with what the interface
  descriptions declare. The specification of a declared type is its layout in Borsh, the public format of Anchor
  accounts (little-endian integers, a tag byte before an optional value, an index byte before a
  variant, a 32-bit length before a vector); the coder itself is Anchor's and not modelled.
\<close>

section \<open>Values of declared types and their layout\<close>

datatype idlValue =
    IBool bool
  | IInt int
  | IBytes "byte list"
  | IList "idlValue list"
  | INone
  | ISome idlValue
  | IStruct "(string \<times> idlValue) list"
  | IVariant string "(string \<times> idlValue) list"

text \<open>Partial concatenation, and the index of a variant.\<close>

definition appendOption :: "byte list option \<Rightarrow> byte list option \<Rightarrow> byte list option" where
  "appendOption a b = (case (a, b) of (Some x, Some y) \<Rightarrow> Some (x @ y) | _ \<Rightarrow> None)"

fun variantIndex :: "string \<Rightarrow> (string \<times> 'a) list \<Rightarrow> nat" where
  "variantIndex k [] = 0"
| "variantIndex k ((k', x) # xs) = (if k = k' then 0 else Suc (variantIndex k xs))"

text \<open>Strings of bytes and arrays of bytes are byte lists; other arrays are lists.\<close>

fun layoutOf :: "idlTypes \<Rightarrow> idlType \<Rightarrow> idlValue \<Rightarrow> byte list option"
  and layoutFields :: "idlTypes \<Rightarrow> (string \<times> idlType) list \<Rightarrow> (string \<times> idlValue) list \<Rightarrow> byte list option"
  and layoutAll :: "idlTypes \<Rightarrow> idlType \<Rightarrow> idlValue list \<Rightarrow> byte list option" where
  "layoutOf ts t (IBool b) = (if t = TBool then Some [if b then 1 else 0] else None)"
| "layoutOf ts t (IInt n) =
     (case t of
        TUInt w \<Rightarrow> if 0 \<le> n \<and> n < 256 ^ (w div 8) then Some (leBytes (w div 8) (nat n)) else None
      | TInt w \<Rightarrow> if 0 < w \<and> 8 dvd w \<and> - (2 ^ (w - 1)) \<le> n \<and> n < 2 ^ (w - 1) then Some (leBytes (w div 8) (nat (n mod 2 ^ w))) else None
      | _ \<Rightarrow> None)"
| "layoutOf ts t (IBytes b) =
     (case t of
        TPubkey \<Rightarrow> if length b = 32 then Some b else None
      | TBytes \<Rightarrow> if length b < 256 ^ 4 then Some (leBytes 4 (length b) @ b) else None
      | TArray u n \<Rightarrow> if u = TUInt 8 \<and> length b = n then Some b else None
      | _ \<Rightarrow> None)"
| "layoutOf ts t (IList vs) =
     (case t of
        TArray u n \<Rightarrow> if u \<noteq> TUInt 8 \<and> length vs = n then layoutAll ts u vs else None
      | TVec u \<Rightarrow> if length vs < 256 ^ 4 then appendOption (Some (leBytes 4 (length vs))) (layoutAll ts u vs) else None
      | _ \<Rightarrow> None)"
| "layoutOf ts t INone = (case t of TOption u \<Rightarrow> Some [0] | _ \<Rightarrow> None)"
| "layoutOf ts t (ISome v) = (case t of TOption u \<Rightarrow> appendOption (Some [1]) (layoutOf ts u v) | _ \<Rightarrow> None)"
| "layoutOf ts t (IStruct fs) =
     (case t of
        TDefined n \<Rightarrow> (case map_of ts n of Some (StructDef flds) \<Rightarrow> layoutFields ts flds fs | _ \<Rightarrow> None)
      | _ \<Rightarrow> None)"
| "layoutOf ts t (IVariant k fs) =
     (case t of
        TDefined n \<Rightarrow>
          (case map_of ts n of
             Some (EnumDef vs) \<Rightarrow>
               (case map_of vs k of
                  Some flds \<Rightarrow> if length vs \<le> 256
                    then appendOption (Some [word_of_nat (variantIndex k vs)]) (layoutFields ts flds fs) else None
                | None \<Rightarrow> None)
           | _ \<Rightarrow> None)
      | _ \<Rightarrow> None)"
| "layoutFields ts flds [] = (if flds = [] then Some [] else None)"
| "layoutFields ts flds ((k, v) # fs) =
     (case flds of
        (k', t) # flds' \<Rightarrow> if k = k' then appendOption (layoutOf ts t v) (layoutFields ts flds' fs) else None
      | [] \<Rightarrow> None)"
| "layoutAll ts t [] = Some []"
| "layoutAll ts t (v # vs) = appendOption (layoutOf ts t v) (layoutAll ts t vs)"

lemma appendOption_eq_Some [simp]: "appendOption a b = Some z \<longleftrightarrow> (\<exists>x y. a = Some x \<and> b = Some y \<and> z = x @ y)"
  by (auto simp: appendOption_def split: option.splits)

section \<open>The values that a type has a layout for\<close>

lemma layoutOf_Bool: "layoutOf ts TBool v = Some b \<longleftrightarrow> (\<exists>x. v = IBool x \<and> b = [if x then 1 else 0])"
  by (cases v) auto

lemma layoutOf_UInt: "layoutOf ts (TUInt w) v = Some b \<longleftrightarrow>
    (\<exists>n. v = IInt n \<and> 0 \<le> n \<and> n < 256 ^ (w div 8) \<and> b = leBytes (w div 8) (nat n))"
  by (cases v) auto

lemma layoutOf_Int: "layoutOf ts (TInt w) v = Some b \<longleftrightarrow>
    (\<exists>n. v = IInt n \<and> 0 < w \<and> 8 dvd w \<and> - (2 ^ (w - 1)) \<le> n \<and> n < 2 ^ (w - 1) \<and>
      b = leBytes (w div 8) (nat (n mod 2 ^ w)))"
  by (cases v) auto

lemma layoutOf_Pubkey: "layoutOf ts TPubkey v = Some b \<longleftrightarrow> v = IBytes b \<and> length b = 32"
  by (cases v) auto

lemma layoutOf_Bytes: "layoutOf ts TBytes v = Some b \<longleftrightarrow>
    (\<exists>x. v = IBytes x \<and> length x < 256 ^ 4 \<and> b = leBytes 4 (length x) @ x)"
  by (cases v) (auto split: if_splits)

lemma layoutOf_Array: "layoutOf ts (TArray u n) v = Some b \<longleftrightarrow>
    (if u = TUInt 8 then v = IBytes b \<and> length b = n
     else \<exists>vs. v = IList vs \<and> length vs = n \<and> layoutAll ts u vs = Some b)"
  by (cases v) auto

lemma layoutOf_Vec: "layoutOf ts (TVec u) v = Some b \<longleftrightarrow>
    (\<exists>vs x. v = IList vs \<and> length vs < 256 ^ 4 \<and> layoutAll ts u vs = Some x \<and> b = leBytes 4 (length vs) @ x)"
  by (cases v) (auto split: if_splits)

lemma layoutOf_Option: "layoutOf ts (TOption u) v = Some b \<longleftrightarrow>
    v = INone \<and> b = [0] \<or> (\<exists>w x. v = ISome w \<and> layoutOf ts u w = Some x \<and> b = 1 # x)"
  by (cases v) auto

lemma layoutOf_Defined: "layoutOf ts (TDefined n) v = Some b \<longleftrightarrow>
    (\<exists>flds fs. map_of ts n = Some (StructDef flds) \<and> v = IStruct fs \<and> layoutFields ts flds fs = Some b) \<or>
    (\<exists>vs k flds fs x. map_of ts n = Some (EnumDef vs) \<and> v = IVariant k fs \<and> map_of vs k = Some flds \<and>
      length vs \<le> 256 \<and> layoutFields ts flds fs = Some x \<and> b = word_of_nat (variantIndex k vs) # x)"
  by (cases v) (auto split: option.splits idlTypeDef.splits if_splits)

lemmas layoutOf_iffs = layoutOf_Bool layoutOf_UInt layoutOf_Int layoutOf_Pubkey layoutOf_Bytes layoutOf_Array
  layoutOf_Vec layoutOf_Option layoutOf_Defined

lemma layoutFields_Cons: "layoutFields ts ((k, t) # flds) fs = Some b \<longleftrightarrow>
    (\<exists>v fs' x y. fs = (k, v) # fs' \<and> layoutOf ts t v = Some x \<and> layoutFields ts flds fs' = Some y \<and> b = x @ y)"
  by (cases fs) (auto split: if_splits)

lemma layoutFields_Nil: "layoutFields ts [] fs = Some b \<longleftrightarrow> fs = [] \<and> b = []"
  by (cases fs) auto

section \<open>Accounts that two programs read\<close>

text \<open>
  C27. Programs agree on the accounts that they share: the Token Router describes the Matching Engine's fast
  fills and router endpoints, down to the types they contain, as the Matching Engine itself, with the same
  discriminators; and the Matching Engine reads Circle's remote token messenger with the layout that
  Circle declares. The two custodians have the same discriminator but different types, so only the
  owner of the account tells them apart.
\<close>

theorem shared_accounts_agree:
  "map (map_of tr_types) [''fastFill'', ''fastFillInfo'', ''fastFillSeeds'', ''routerEndpoint'', ''endpointInfo'', ''messageProtocol''] =
   map (map_of me_types) [''fastFill'', ''fastFillInfo'', ''fastFillSeeds'', ''routerEndpoint'', ''endpointInfo'', ''messageProtocol''] \<and>
   map_of tr_types ''fastFill'' = Some ty_me_fastFill \<and> map_of tr_types ''routerEndpoint'' = Some ty_me_routerEndpoint \<and>
   map (map_of tr_accounts) [''fastFill'', ''routerEndpoint''] = map (map_of me_accounts) [''fastFill'', ''routerEndpoint''] \<and>
   layoutOf me_types (TDefined ''remoteTokenMessenger'') v = layoutOf tm_accountTypes (TDefined ''remoteTokenMessenger'') v \<and>
   map_of tr_accounts ''custodian'' = map_of me_accounts ''custodian'' \<and>
   map_of tr_types ''custodian'' \<noteq> map_of me_types ''custodian''"
proof -
  have "layoutOf me_types (TDefined ''remoteTokenMessenger'') v = Some b \<longleftrightarrow>
      layoutOf tm_accountTypes (TDefined ''remoteTokenMessenger'') v = Some b" for b
    by (auto simp: layoutOf_Defined me_types_def tm_accountTypes_def ty_me_remoteTokenMessenger_def
        ty_tm_remoteTokenMessenger_def layoutFields_Cons layoutFields_Nil layoutOf_UInt layoutOf_Array layoutOf_Pubkey)
  then have "layoutOf me_types (TDefined ''remoteTokenMessenger'') v = layoutOf tm_accountTypes (TDefined ''remoteTokenMessenger'') v"
    by (metis not_None_eq)
  moreover have "map_of tr_types ''custodian'' \<noteq> map_of me_types ''custodian''"
    by (simp add: tr_types_def me_types_def ty_tr_custodian_def ty_me_custodian_def)
  ultimately show ?thesis
    by (simp add: tr_types_def me_types_def tr_accounts_def me_accounts_def ty_tr_fastFill_def ty_me_fastFill_def
        ty_tr_fastFillInfo_def ty_me_fastFillInfo_def ty_tr_fastFillSeeds_def ty_me_fastFillSeeds_def ty_tr_routerEndpoint_def
        ty_me_routerEndpoint_def ty_tr_endpointInfo_def ty_me_endpointInfo_def ty_tr_messageProtocol_def ty_me_messageProtocol_def)
qed

section \<open>The history reader\<close>

definition auctionInfoValue :: "auctionInfo \<Rightarrow> idlValue" where
  "auctionInfoValue i = IStruct
     [(''configId'', IInt (ai_configId i)), (''custodyTokenBump'', IInt (ai_custodyTokenBump i)),
      (''vaaSequence'', IInt (ai_vaaSequence i)), (''sourceChain'', IInt (ai_sourceChain i)),
      (''bestOfferToken'', IBytes (ai_bestOfferToken i)), (''initialOfferToken'', IBytes (ai_initialOfferToken i)),
      (''startSlot'', IInt (ai_startSlot i)), (''amountIn'', IInt (ai_amountIn i)),
      (''securityDeposit'', IInt (ai_securityDeposit i)), (''offerPrice'', IInt (ai_offerPrice i)),
      (''redeemerMessageLen'', IInt (ai_redeemerMessageLen i)),
      (''destinationAssetInfo'',
         case ai_destinationAssetInfo i of
           None \<Rightarrow> INone
         | Some d \<Rightarrow> ISome (IStruct [(''custodyTokenBump'', IInt (da_custodyTokenBump d)), (''amountOut'', IInt (da_amountOut d))]))]"

lemma auctionInfo_layout:
  assumes "auctionEntry_wf e"
  shows "\<exists>b. layoutOf me_types (TDefined ''auctionInfo'') (auctionInfoValue (ae_info e)) = Some b \<and>
    auctionEntryBytes e = ae_vaaHash e @ leBytes 4 (nat (ae_vaaTimestamp e)) @ b \<and>
    length b = (if ai_destinationAssetInfo (ae_info e) = None then 114 else 123)"
  using assms
  by (auto simp: auctionInfoValue_def me_types_def ty_me_auctionInfo_def ty_me_auctionDestinationAssetInfo_def
      appendOption_def auctionEntry_wf_def Let_def fits_def auctionEntryBytes_def auctionEntryPrefix_def optBytes_def
      destinationAssetBytes_def split: option.split)

text \<open>
  C26. The hand-written reader of the auction history reads the layout that the description declares for
  \<open>auctionInfo\<close>, if and only if there is no destination asset: given the hash, the timestamp and the layout
  of any well-formed entry, wherever they stand in the account, it returns that entry and moves to its
  end exactly when the entry has no destination asset.
\<close>

theorem history_reader_reads_layout:
  assumes "auctionEntry_wf e"
    and "layoutOf me_types (TDefined ''auctionInfo'') (auctionInfoValue (ae_info e)) = Some b"
  shows "parseAuctionEntry (pre @ ae_vaaHash e @ leBytes 4 (nat (ae_vaaTimestamp e)) @ b @ rest) (length pre) =
      Inr (e, length pre + 36 + length b) \<longleftrightarrow> ai_destinationAssetInfo (ae_info e) = None"
proof -
  from auctionInfo_layout [OF assms(1)] assms(2) have b: "auctionEntryBytes e = ae_vaaHash e @ leBytes 4 (nat (ae_vaaTimestamp e)) @ b"
    "length b = (if ai_destinationAssetInfo (ae_info e) = None then 114 else 123)" by auto
  have w: "length (ae_vaaHash e) = 32" using assms(1) by (simp add: auctionEntry_wf_def Let_def)
  show ?thesis
  proof
    assume "ai_destinationAssetInfo (ae_info e) = None"
    with parseAuctionEntry_none [OF assms(1), of pre rest] b w
    show "parseAuctionEntry (pre @ ae_vaaHash e @ leBytes 4 (nat (ae_vaaTimestamp e)) @ b @ rest) (length pre) =
        Inr (e, length pre + 36 + length b)" by simp
  next
    assume "parseAuctionEntry (pre @ ae_vaaHash e @ leBytes 4 (nat (ae_vaaTimestamp e)) @ b @ rest) (length pre) =
        Inr (e, length pre + 36 + length b)"
    then have "length pre + 36 + length b = length pre + 150"
      by (auto simp: parseAuctionEntry_def Let_def bnd_eq_Inr_iff)
    with b(2) show "ai_destinationAssetInfo (ae_info e) = None" by (simp split: if_splits)
  qed
qed

lemma demoEntry_wf: "auctionEntry_wf (demoEntry None)"
  "auctionEntry_wf (demoEntry (Some \<lparr>da_custodyTokenBump = 255, da_amountOut = 1\<rparr>))"
  by (simp_all add: demoEntry_def auctionEntry_wf_def fits_def)

theorem history_reader_reads_layout_witness:
  "\<exists>b c. layoutOf me_types (TDefined ''auctionInfo'') (auctionInfoValue (ae_info (demoEntry None))) = Some b \<and>
     parseAuctionEntry (ae_vaaHash (demoEntry None) @ leBytes 4 77 @ b) 0 = Inr (demoEntry None, 150) \<and>
     layoutOf me_types (TDefined ''auctionInfo'')
       (auctionInfoValue (ae_info (demoEntry (Some \<lparr>da_custodyTokenBump = 255, da_amountOut = 1\<rparr>)))) = Some c \<and>
     parseAuctionEntry (ae_vaaHash (demoEntry None) @ leBytes 4 77 @ c) 0 \<noteq>
       Inr (demoEntry (Some \<lparr>da_custodyTokenBump = 255, da_amountOut = 1\<rparr>), 159)"
proof -
  let ?e = "demoEntry (Some \<lparr>da_custodyTokenBump = 255, da_amountOut = 1\<rparr>)"
  obtain b where b: "layoutOf me_types (TDefined ''auctionInfo'') (auctionInfoValue (ae_info (demoEntry None))) = Some b" "length b = 114"
    using auctionInfo_layout [OF demoEntry_wf(1)] by (auto simp: demoEntry_def)
  obtain c where c: "layoutOf me_types (TDefined ''auctionInfo'') (auctionInfoValue (ae_info ?e)) = Some c" "length c = 123"
    using auctionInfo_layout [OF demoEntry_wf(2)] by (auto simp: demoEntry_def)
  have parts: "nat (ae_vaaTimestamp (demoEntry None)) = 77" "nat (ae_vaaTimestamp ?e) = 77" "ae_vaaHash ?e = ae_vaaHash (demoEntry None)"
    "ai_destinationAssetInfo (ae_info (demoEntry None)) = None" "ai_destinationAssetInfo (ae_info ?e) \<noteq> None"
    by (simp_all add: demoEntry_def)
  have "parseAuctionEntry (ae_vaaHash (demoEntry None) @ leBytes 4 77 @ b) 0 = Inr (demoEntry None, 150)"
    using history_reader_reads_layout [OF demoEntry_wf(1) b(1), of "[]" "[]"] b(2) parts by simp
  moreover have "parseAuctionEntry (ae_vaaHash (demoEntry None) @ leBytes 4 77 @ c) 0 \<noteq> Inr (?e, 159)"
    using history_reader_reads_layout [OF demoEntry_wf(2) c(1), of "[]" "[]"] c(2) parts by simp
  ultimately show ?thesis using b(1) c(1) by blast
qed

end
