(* ===== verification/Ts_Types.thy ===== *)
theory Ts_Types
  imports Idl_Types
begin

text \<open>
  TypeScript types of decoded data: values, the types that the SDK declares with structural typing, what
  Anchor decodes for a type of an interface, and a check that a declared type admits all of it, with the
  proof that the check is sound.
\<close>

section \<open>Values and TypeScript types\<close>

datatype jsVal =
    JsBoolean bool
  | JsNumber int
  | JsBN int
  | JsPublicKey "byte list"
  | JsBuffer "byte list"
  | JsNumbers "byte list"
  | JsNull
  | JsObject "(string \<times> jsVal) list"

datatype tsType =
    TsBoolean
  | TsNumber
  | TsBN
  | TsPublicKey
  | TsBuffer
  | TsNumbers  \<comment> \<open>\<open>Array<number>\<close> and \<open>number[]\<close>\<close>
  | TsOrNull tsType
  | TsRef string

text \<open>An object type, or one whose members are all optional, each an object.\<close>

datatype tsDef =
    TsObject "(string \<times> tsType) list"
  | TsUnion "(string \<times> (string \<times> tsType) list) list"

type_synonym tsDefs = "(string \<times> tsDef) list"

fun nonNull :: "tsType \<Rightarrow> tsType" where
  "nonNull (TsOrNull t) = nonNull t"
| "nonNull t = t"

fun hasTs :: "tsDefs \<Rightarrow> tsType \<Rightarrow> jsVal \<Rightarrow> bool" where
  "hasTs d t (JsBoolean b) = (nonNull t = TsBoolean)"
| "hasTs d t (JsNumber n) = (nonNull t = TsNumber)"
| "hasTs d t (JsBN n) = (nonNull t = TsBN)"
| "hasTs d t (JsPublicKey k) = (nonNull t = TsPublicKey)"
| "hasTs d t (JsBuffer b) = (nonNull t = TsBuffer)"
| "hasTs d t (JsNumbers b) = (nonNull t = TsNumbers)"
| "hasTs d t JsNull = (nonNull t \<noteq> t)"
| "hasTs d t (JsObject fs) =
     (case nonNull t of
        TsRef n \<Rightarrow>
          (case map_of d n of
             Some (TsObject flds) \<Rightarrow> fst ` set flds \<subseteq> fst ` set fs \<and> distinct (map fst fs) \<and>
               list_all (\<lambda>(k, j). case map_of flds k of Some u \<Rightarrow> hasTs d u j | None \<Rightarrow> True) fs
           | Some (TsUnion vs) \<Rightarrow> distinct (map fst fs) \<and>
               list_all (\<lambda>(k, j). case map_of vs k of
                  None \<Rightarrow> True
                | Some flds \<Rightarrow>
                    (case j of
                       JsObject inner \<Rightarrow> fst ` set flds \<subseteq> fst ` set inner \<and> distinct (map fst inner) \<and>
                         list_all (\<lambda>(k, j). case map_of flds k of Some u \<Rightarrow> hasTs d u j | None \<Rightarrow> True) inner
                     | _ \<Rightarrow> False)) fs
           | None \<Rightarrow> False)
      | _ \<Rightarrow> False)"

section \<open>What Anchor decodes\<close>

text \<open>
  Anchor's decoder is not part of the repository: it is a parameter \<open>decode\<close>, which takes a type of the interface and
  bytes and may throw. What is known of it is documented: integers up to 32 bits are decoded as numbers,
  wider ones as \<open>BN\<close>; byte strings as buffers and byte arrays as arrays of numbers; an absent option as
  \<open>null\<close> and a present one as its value; a structure as an object with the decoded values of its fields under their names; a variant
  as an object with the name of the variant as its only key. \<open>V u j\<close> says that \<open>j\<close> is decoded from some bytes as \<open>u\<close>.
\<close>

definition decodedFields :: "(idlType \<Rightarrow> jsVal \<Rightarrow> bool) \<Rightarrow> (string \<times> idlType) list \<Rightarrow> (string \<times> jsVal) list \<Rightarrow> bool" where
  "decodedFields V flds fs \<longleftrightarrow> distinct (map fst fs) \<and> list_all2 (\<lambda>(f, u) (k, j). f = k \<and> V u j) flds fs"

fun decodedAs :: "idlTypes \<Rightarrow> (idlType \<Rightarrow> jsVal \<Rightarrow> bool) \<Rightarrow> idlType \<Rightarrow> jsVal \<Rightarrow> bool" where
  "decodedAs ts V TBool j = (\<exists>b. j = JsBoolean b)"
| "decodedAs ts V (TUInt w) j =
     (if w \<le> 32 then \<exists>n. j = JsNumber n \<and> 0 \<le> n \<and> n < 2 ^ w else \<exists>n. j = JsBN n \<and> 0 \<le> n \<and> n < 2 ^ w)"
| "decodedAs ts V (TInt w) j =
     (if w \<le> 32 then \<exists>n. j = JsNumber n \<and> - (2 ^ (w - 1)) \<le> n \<and> n < 2 ^ (w - 1)
      else \<exists>n. j = JsBN n \<and> - (2 ^ (w - 1)) \<le> n \<and> n < 2 ^ (w - 1))"
| "decodedAs ts V TPubkey j = (\<exists>k. j = JsPublicKey k \<and> length k = 32)"
| "decodedAs ts V TBytes j = (\<exists>b. j = JsBuffer b)"
| "decodedAs ts V (TArray u m) j = (u = TUInt 8 \<longrightarrow> (\<exists>b. j = JsNumbers b \<and> length b = m))"
| "decodedAs ts V (TVec u) j = True"
| "decodedAs ts V (TOption u) j = (j = JsNull \<or> V u j)"
| "decodedAs ts V (TDefined k) j =
     (case map_of ts k of
        None \<Rightarrow> False
      | Some (StructDef flds) \<Rightarrow> \<exists>fs. j = JsObject fs \<and> decodedFields V flds fs
      | Some (EnumDef vs) \<Rightarrow> \<exists>v flds inner. j = JsObject [(v, JsObject inner)] \<and> (v, flds) \<in> set vs \<and>
          decodedFields V flds inner)"

definition decoderLaws :: "idlTypes \<Rightarrow> (idlType \<Rightarrow> byte list \<Rightarrow> jsVal result) \<Rightarrow> bool" where
  "decoderLaws ts decode \<longleftrightarrow> (\<forall>u bytes j. decode u bytes = Inr j \<longrightarrow>
     decodedAs ts (\<lambda>u j. \<exists>bytes. decode u bytes = Inr j) u j)"

section \<open>Checking a declared type against an interface\<close>

text \<open>
  \<open>admits d ts n u t\<close>: values of type \<open>u\<close> are values of type \<open>t\<close>; \<open>n\<close> bounds the nesting of named types, and too small
  a bound only makes the check fail.
\<close>

definition present :: "idlType \<Rightarrow> idlType" where
  "present t = (case t of TOption u \<Rightarrow> u | _ \<Rightarrow> t)"

fun admits :: "tsDefs \<Rightarrow> idlTypes \<Rightarrow> nat \<Rightarrow> idlType \<Rightarrow> tsType \<Rightarrow> bool" where
  "admits d ts n TBool t = (nonNull t = TsBoolean)"
| "admits d ts n (TUInt w) t = (nonNull t = (if w \<le> 32 then TsNumber else TsBN))"
| "admits d ts n (TInt w) t = (nonNull t = (if w \<le> 32 then TsNumber else TsBN))"
| "admits d ts n TPubkey t = (nonNull t = TsPublicKey)"
| "admits d ts n TBytes t = (nonNull t = TsBuffer)"
| "admits d ts n (TArray u m) t = (u = TUInt 8 \<and> nonNull t = TsNumbers)"
| "admits d ts n (TVec u) t = False"
| "admits d ts n (TOption u) t = (nonNull t \<noteq> t \<and> present u = u \<and> admits d ts n u t)"
| "admits d ts 0 (TDefined k) t = False"
| "admits d ts (Suc n) (TDefined k) t =
     (case (map_of ts k, nonNull t) of
        (Some (StructDef flds), TsRef m) \<Rightarrow>
          (case map_of d m of
             Some (TsObject tflds) \<Rightarrow> distinct (map fst tflds) \<and>
               list_all (\<lambda>(f, t). case map_of flds f of Some u \<Rightarrow> admits d ts n u t | None \<Rightarrow> False) tflds
           | _ \<Rightarrow> False)
      | (Some (EnumDef vs), TsRef m) \<Rightarrow>
          (case map_of d m of
             Some (TsUnion tvs) \<Rightarrow>
               list_all (\<lambda>(v, flds). case map_of tvs v of
                  Some tflds \<Rightarrow> distinct (map fst tflds) \<and>
                    list_all (\<lambda>(f, t). case map_of flds f of Some u \<Rightarrow> admits d ts n u t | None \<Rightarrow> False) tflds
                | None \<Rightarrow> False) vs
           | _ \<Rightarrow> False)
      | _ \<Rightarrow> False)"

lemma admits_TsOrNull: "admits d ts n (TDefined k) (TsOrNull t) = admits d ts n (TDefined k) t"
  by (cases n) simp_all

text \<open>The members of a decoded object have the declared types of their fields.\<close>

lemma members_have:
  assumes "decodedFields V flds fs" "distinct (map fst tflds)"
    and "list_all (\<lambda>(f, t). case map_of flds f of Some u \<Rightarrow> admits d ts n u t | None \<Rightarrow> False) tflds"
    and IH: "\<And>j u t. admits d ts n u t \<Longrightarrow> V u j \<Longrightarrow> hasTs d t j"
  shows "fst ` set tflds \<subseteq> fst ` set fs \<and> distinct (map fst fs) \<and>
    list_all (\<lambda>(k, j). case map_of tflds k of Some u \<Rightarrow> hasTs d u j | None \<Rightarrow> True) fs"
proof (intro conjI)
  from assms(1) have d: "distinct (map fst fs)" and all: "list_all2 (\<lambda>(f, u) (k, j). f = k \<and> V u j) flds fs"
    by (auto simp: decodedFields_def)
  have each: "\<exists>u. (k, u) \<in> set flds \<and> V u j" if "(k, j) \<in> set fs" for k j
    using all that by (induction flds fs rule: list_all2_induct) auto
  have keys: "map fst flds = map fst fs"
    using all by (induction flds fs rule: list_all2_induct) auto
  have sub: "\<exists>u. map_of flds f = Some u \<and> admits d ts n u t" if "(f, t) \<in> set tflds" for f t
    using assms(3) that by (auto simp: list_all_iff split: option.splits)
  have "fst ` set fs = fst ` set flds" using keys by (metis set_map)
  with sub show "fst ` set tflds \<subseteq> fst ` set fs" by (force dest: map_of_SomeD)
  show "distinct (map fst fs)" by (rule d)
  show "list_all (\<lambda>(k, j). case map_of tflds k of Some u \<Rightarrow> hasTs d u j | None \<Rightarrow> True) fs"
    unfolding list_all_iff
  proof (clarsimp split: option.split)
    fix k j t assume kj: "(k, j) \<in> set fs" and "map_of tflds k = Some t"
    then obtain u where u: "map_of flds k = Some u" "admits d ts n u t" using sub by (blast dest: map_of_SomeD)
    from each [OF kj] obtain u' where "(k, u') \<in> set flds" "V u' j" by blast
    moreover have "distinct (map fst flds)" using d keys by simp
    ultimately have "V u j" using u(1) by simp
    with u(2) show "hasTs d t j" by (rule IH)
  qed
qed

lemma admits_sound:
  assumes laws: "\<And>u j. V u j \<Longrightarrow> decodedAs ts V u j"
  shows "admits d ts n u t \<Longrightarrow> V u j \<Longrightarrow> hasTs d t j"
proof (induction n arbitrary: u t j)
  case 0
  have base: "hasTs d t j" if "admits d ts 0 u t" "V u j" "present u = u" for u
    using that laws [of u j] by (cases u) (auto simp: present_def split: if_splits)
  show ?case
  proof (cases "\<exists>v. u = TOption v")
    case True
    then obtain v where v: "u = TOption v" by blast
    with 0(1) have a: "nonNull t \<noteq> t" "present v = v" "admits d ts 0 v t" by auto
    from laws [OF 0(2)] v have "j = JsNull \<or> V v j" by simp
    with a base [OF a(3) _ a(2)] show ?thesis by auto
  next
    case False
    then have "present u = u" by (cases u) (auto simp: present_def)
    with 0 base show ?thesis by blast
  qed
next
  case (Suc n)
  have base: "hasTs d t j" if a: "admits d ts (Suc n) u t" "V u j" "present u = u" for u
  proof (cases "\<exists>k. u = TDefined k")
    case True
    then obtain k where k: "u = TDefined k" by blast
    show ?thesis
    proof (cases "map_of ts k")
      case None
      with laws [OF a(2)] k show ?thesis by simp
    next
      case (Some def)
      show ?thesis
      proof (cases "def")
        case (StructDef flds)
        with a k Some obtain m tflds where t: "nonNull t = TsRef m" "map_of d m = Some (TsObject tflds)"
          "distinct (map fst tflds)"
          "list_all (\<lambda>(f, t). case map_of flds f of Some u \<Rightarrow> admits d ts n u t | None \<Rightarrow> False) tflds"
          by (auto split: tsType.splits option.splits tsDef.splits)
        from laws [OF a(2)] k Some StructDef obtain fs where f: "j = JsObject fs" "decodedFields V flds fs" by auto
        from members_have [OF f(2) t(3,4) Suc.IH] show ?thesis by (simp add: f(1) t(1,2))
      next
        case (EnumDef vs)
        with a k Some obtain m tvs where t: "nonNull t = TsRef m" "map_of d m = Some (TsUnion tvs)"
          "list_all (\<lambda>(v, flds). case map_of tvs v of
                  Some tflds \<Rightarrow> distinct (map fst tflds) \<and>
                    list_all (\<lambda>(f, t). case map_of flds f of Some u \<Rightarrow> admits d ts n u t | None \<Rightarrow> False) tflds
                | None \<Rightarrow> False) vs"
          by (auto split: tsType.splits option.splits tsDef.splits)
        from laws [OF a(2)] k Some EnumDef obtain v flds inner where f: "j = JsObject [(v, JsObject inner)]" "(v, flds) \<in> set vs"
          "decodedFields V flds inner" by auto
        from t(3) [unfolded list_all_iff, THEN bspec, OF f(2)] obtain tflds where v: "map_of tvs v = Some tflds" "distinct (map fst tflds)"
          "list_all (\<lambda>(f, t). case map_of flds f of Some u \<Rightarrow> admits d ts n u t | None \<Rightarrow> False) tflds"
          by (cases "map_of tvs v") (auto simp: list_all_iff)
        from members_have [OF f(3) v(2,3) Suc.IH] show ?thesis by (simp add: f(1) t(1,2) v(1))
      qed
    qed
  next
    case False
    with a laws [OF a(2)] show ?thesis by (cases u) (auto simp: present_def split: if_splits)
  qed
  show ?case
  proof (cases "\<exists>v. u = TOption v")
    case True
    then obtain v where v: "u = TOption v" by blast
    with Suc.prems(1) have a: "nonNull t \<noteq> t" "present v = v" "admits d ts (Suc n) v t" by auto
    from laws [OF Suc.prems(2)] v have "j = JsNull \<or> V v j" by simp
    with a base [OF a(3) _ a(2)] show ?thesis by auto
  next
    case False
    then have "present u = u" by (cases u) (auto simp: present_def)
    with Suc.prems base show ?thesis by blast
  qed
qed

lemma decoder_sound:
  assumes "decoderLaws ts decode" "admits d ts n u t" "decode u bytes = Inr j"
  shows "hasTs d t j"
proof (rule admits_sound [OF _ assms(2)])
  show "decodedAs ts (\<lambda>u j. \<exists>bytes. decode u bytes = Inr j) u j" if "\<exists>bytes. decode u bytes = Inr j" for u j
    using assms(1) that by (auto simp: decoderLaws_def)
  show "\<exists>bytes. decode u bytes = Inr j" using assms(3) by blast
qed

section \<open>Undeclared data\<close>

text \<open>
  What a type of the interface has and the declared type does not, in it and in every type nested in it: the type and the field
  or variant. A type that the bound \<open>n\<close> does not reach, or that is declared otherwise, counts as undeclared.
\<close>

fun undeclared :: "tsDefs \<Rightarrow> idlTypes \<Rightarrow> nat \<Rightarrow> idlType \<Rightarrow> tsType \<Rightarrow> (string \<times> string) list" where
  "undeclared d ts 0 u t = (case present u of TDefined k \<Rightarrow> [(k, [])] | _ \<Rightarrow> [])"
| "undeclared d ts (Suc n) u t =
     (case present u of
        TDefined k \<Rightarrow>
          (case (map_of ts k, nonNull t) of
             (Some def, TsRef m) \<Rightarrow>
               (case (def, map_of d m) of
                  (StructDef flds, Some (TsObject tflds)) \<Rightarrow>
                    concat (map (\<lambda>(f, u). case map_of tflds f of None \<Rightarrow> [(k, f)] | Some t \<Rightarrow> undeclared d ts n u t) flds)
                | (EnumDef vs, Some (TsUnion tvs)) \<Rightarrow>
                    concat (map (\<lambda>(v, flds). case map_of tvs v of
                        None \<Rightarrow> [(k, v)]
                      | Some tflds \<Rightarrow> concat (map (\<lambda>(f, u).
                          case map_of tflds f of None \<Rightarrow> [(k, f)] | Some t \<Rightarrow> undeclared d ts n u t) flds)) vs)
                | _ \<Rightarrow> [(k, [])])
           | _ \<Rightarrow> [(k, [])])
      | _ \<Rightarrow> [])"

end
