(* ===== verification/Decoded_Types.thy ===== *)
theory Decoded_Types
  imports Ts_Types Idl_Me_Types Idl_Tr_Types
begin

text \<open>
  What Anchor decodes from accounts and events has the TypeScript types that the SDK declares for it:
  \<open>matchingEngine/index.ts\<close> (events) and the classes of \<open>matchingEngine/state\<close>, \<open>tokenRouter/state\<close>,
  \<open>upgradeManager/state\<close> and \<open>cctp/tokenMessengerMinter\<close>.
\<close>

section \<open>The declared types\<close>

subsection \<open>Matching Engine\<close>

definition ts_SettledTokenAccountInfo :: tsDef where
  "ts_SettledTokenAccountInfo = TsObject
     [(''key'', TsPublicKey), (''balanceAfter'', TsBN)]"

definition ts_AuctionSettled :: tsDef where
  "ts_AuctionSettled = TsObject
     [(''fastVaaHash'', TsNumbers),
      (''bestOfferToken'', TsOrNull (TsRef ''SettledTokenAccountInfo'')),
      (''baseFeeToken'', TsOrNull (TsRef ''SettledTokenAccountInfo'')),
      (''withExecute'', TsOrNull (TsRef ''MessageProtocol''))]"

definition ts_AuctionUpdated :: tsDef where
  "ts_AuctionUpdated = TsObject
     [(''configId'', TsNumber), (''fastVaaHash'', TsNumbers), (''vaa'', TsOrNull TsPublicKey),
      (''sourceChain'', TsNumber), (''targetProtocol'', TsRef ''MessageProtocol''),
      (''redeemerMessageLen'', TsNumber), (''endSlot'', TsBN), (''bestOfferToken'', TsPublicKey),
      (''tokenBalanceBefore'', TsBN), (''amountIn'', TsBN), (''totalDeposit'', TsBN),
      (''maxOfferPriceAllowed'', TsOrNull TsBN)]"

definition ts_OrderExecuted :: tsDef where
  "ts_OrderExecuted = TsObject
     [(''fastVaaHash'', TsNumbers), (''vaa'', TsPublicKey),
      (''targetProtocol'', TsRef ''MessageProtocol'')]"

definition ts_Proposed :: tsDef where
  "ts_Proposed = TsObject
     [(''action'', TsRef ''ProposalAction'')]"

definition ts_Enacted :: tsDef where
  "ts_Enacted = TsObject
     [(''action'', TsRef ''ProposalAction'')]"

definition ts_LocalFastOrderFilled :: tsDef where
  "ts_LocalFastOrderFilled = TsObject
     [(''seeds'', TsRef ''FastFillSeeds''), (''info'', TsRef ''FastFillInfo''),
      (''auction'', TsOrNull TsPublicKey)]"

definition ts_FastFillSequenceReserved :: tsDef where
  "ts_FastFillSequenceReserved = TsObject
     [(''fastVaaHash'', TsNumbers), (''fastFill'', TsRef ''FastFillSeeds'')]"

definition ts_FastFillRedeemed :: tsDef where
  "ts_FastFillRedeemed = TsObject
     [(''preparedBy'', TsPublicKey), (''fastFill'', TsRef ''FastFillSeeds'')]"

definition ts_AuctionClosed :: tsDef where
  "ts_AuctionClosed = TsObject
     [(''auction'', TsRef ''Auction'')]"

definition ts_AuctionStatus :: tsDef where
  "ts_AuctionStatus = TsUnion
     [(''notStarted'', []), (''active'', []), (''completed'', [(''slot'', TsBN),
      (''executePenalty'', TsOrNull TsBN)]), (''settled'', [(''fee'', TsBN),
      (''totalPenalty'', TsOrNull TsBN)])]"

definition ts_AuctionDestinationAssetInfo :: tsDef where
  "ts_AuctionDestinationAssetInfo = TsObject
     [(''custodyTokenBump'', TsNumber), (''amountOut'', TsBN)]"

definition ts_AuctionInfo :: tsDef where
  "ts_AuctionInfo = TsObject
     [(''configId'', TsNumber), (''custodyTokenBump'', TsNumber), (''vaaSequence'', TsBN),
      (''sourceChain'', TsNumber), (''bestOfferToken'', TsPublicKey),
      (''initialOfferToken'', TsPublicKey), (''startSlot'', TsBN), (''amountIn'', TsBN),
      (''securityDeposit'', TsBN), (''offerPrice'', TsBN), (''redeemerMessageLen'', TsNumber),
      (''destinationAssetInfo'', TsOrNull (TsRef ''AuctionDestinationAssetInfo''))]"

definition ts_Auction :: tsDef where
  "ts_Auction = TsObject
     [(''bump'', TsNumber), (''vaaHash'', TsNumbers), (''vaaTimestamp'', TsNumber),
      (''targetProtocol'', TsRef ''MessageProtocol''), (''status'', TsRef ''AuctionStatus''),
      (''preparedBy'', TsPublicKey), (''info'', TsOrNull (TsRef ''AuctionInfo''))]"

definition ts_AuctionParameters :: tsDef where
  "ts_AuctionParameters = TsObject
     [(''userPenaltyRewardBps'', TsNumber), (''initialPenaltyBps'', TsNumber),
      (''duration'', TsNumber), (''gracePeriod'', TsNumber), (''penaltyPeriod'', TsNumber),
      (''minOfferDeltaBps'', TsNumber), (''securityDepositBase'', TsBN),
      (''securityDepositBps'', TsNumber)]"

definition ts_AuctionConfig :: tsDef where
  "ts_AuctionConfig = TsObject
     [(''id'', TsNumber), (''parameters'', TsRef ''AuctionParameters'')]"

definition ts_Custodian :: tsDef where
  "ts_Custodian = TsObject
     [(''owner'', TsPublicKey), (''pendingOwner'', TsOrNull TsPublicKey), (''paused'', TsBoolean),
      (''pausedSetBy'', TsOrNull TsPublicKey), (''ownerAssistant'', TsPublicKey),
      (''feeRecipientToken'', TsPublicKey), (''auctionConfigId'', TsNumber),
      (''nextProposalId'', TsBN)]"

definition ts_FastFillInfo :: tsDef where
  "ts_FastFillInfo = TsObject
     [(''preparedBy'', TsPublicKey), (''amount'', TsBN), (''redeemer'', TsPublicKey),
      (''timestamp'', TsBN)]"

definition ts_FastFillSeeds :: tsDef where
  "ts_FastFillSeeds = TsObject
     [(''sourceChain'', TsNumber), (''orderSender'', TsNumbers), (''sequence'', TsBN),
      (''bump'', TsNumber)]"

definition ts_FastFill :: tsDef where
  "ts_FastFill = TsObject
     [(''seeds'', TsRef ''FastFillSeeds''), (''redeemed'', TsBoolean),
      (''info'', TsRef ''FastFillInfo''), (''redeemerMessage'', TsBuffer)]"

definition ts_FastFillSequencerSeeds :: tsDef where
  "ts_FastFillSequencerSeeds = TsObject
     [(''sourceChain'', TsNumber), (''sender'', TsNumbers), (''bump'', TsNumber)]"

definition ts_FastFillSequencer :: tsDef where
  "ts_FastFillSequencer = TsObject
     [(''seeds'', TsRef ''FastFillSequencerSeeds''), (''nextSequence'', TsBN)]"

definition ts_PreparedOrderResponseSeeds :: tsDef where
  "ts_PreparedOrderResponseSeeds = TsObject
     [(''fastVaaHash'', TsNumbers), (''bump'', TsNumber)]"

definition ts_PreparedOrderResponseInfo :: tsDef where
  "ts_PreparedOrderResponseInfo = TsObject
     [(''preparedBy'', TsPublicKey), (''baseFeeToken'', TsPublicKey),
      (''fastVaaTimestamp'', TsNumber), (''sourceChain'', TsNumber), (''baseFee'', TsBN),
      (''initAuctionFee'', TsBN), (''sender'', TsNumbers), (''redeemer'', TsNumbers),
      (''amountIn'', TsBN)]"

definition ts_PreparedOrderResponse :: tsDef where
  "ts_PreparedOrderResponse = TsObject
     [(''seeds'', TsRef ''PreparedOrderResponseSeeds''),
      (''info'', TsRef ''PreparedOrderResponseInfo''), (''toEndpoint'', TsRef ''EndpointInfo''),
      (''redeemerMessage'', TsBuffer)]"

definition ts_ProposalAction :: tsDef where
  "ts_ProposalAction = TsUnion
     [(''none'', []), (''updateAuctionParameters'', [(''id'', TsNumber),
      (''parameters'', TsRef ''AuctionParameters'')])]"

definition ts_Proposal :: tsDef where
  "ts_Proposal = TsObject
     [(''id'', TsBN), (''bump'', TsNumber), (''action'', TsRef ''ProposalAction''),
      (''by'', TsPublicKey), (''owner'', TsPublicKey), (''slotProposedAt'', TsBN),
      (''slotEnactDelay'', TsBN), (''slotEnactedAt'', TsOrNull TsBN)]"

definition ts_ReservedFastFillSequenceSeeds :: tsDef where
  "ts_ReservedFastFillSequenceSeeds = TsObject
     [(''fastVaaHash'', TsNumbers), (''bump'', TsNumber)]"

definition ts_ReservedFastFillSequence :: tsDef where
  "ts_ReservedFastFillSequence = TsObject
     [(''seeds'', TsRef ''ReservedFastFillSequenceSeeds''), (''beneficiary'', TsPublicKey),
      (''fastFillSeeds'', TsRef ''FastFillSeeds'')]"

definition ts_MessageProtocol :: tsDef where
  "ts_MessageProtocol = TsUnion
     [(''local'', [(''programId'', TsPublicKey)]), (''cctp'', [(''domain'', TsNumber)]),
      (''none'', [])]"

definition ts_EndpointInfo :: tsDef where
  "ts_EndpointInfo = TsObject
     [(''chain'', TsNumber), (''address'', TsNumbers), (''mintRecipient'', TsNumbers),
      (''protocol'', TsRef ''MessageProtocol'')]"

definition ts_RouterEndpoint :: tsDef where
  "ts_RouterEndpoint = TsObject
     [(''bump'', TsNumber), (''info'', TsRef ''EndpointInfo'')]"

definition ts_RemoteTokenMessenger :: tsDef where
  "ts_RemoteTokenMessenger = TsObject
     [(''domain'', TsNumber), (''tokenMessenger'', TsNumbers)]"

definition me_ts :: tsDefs where
  "me_ts =
     [(''SettledTokenAccountInfo'', ts_SettledTokenAccountInfo),
      (''AuctionSettled'', ts_AuctionSettled), (''AuctionUpdated'', ts_AuctionUpdated),
      (''OrderExecuted'', ts_OrderExecuted), (''Proposed'', ts_Proposed), (''Enacted'', ts_Enacted),
      (''LocalFastOrderFilled'', ts_LocalFastOrderFilled),
      (''FastFillSequenceReserved'', ts_FastFillSequenceReserved),
      (''FastFillRedeemed'', ts_FastFillRedeemed), (''AuctionClosed'', ts_AuctionClosed),
      (''AuctionStatus'', ts_AuctionStatus),
      (''AuctionDestinationAssetInfo'', ts_AuctionDestinationAssetInfo),
      (''AuctionInfo'', ts_AuctionInfo), (''Auction'', ts_Auction),
      (''AuctionParameters'', ts_AuctionParameters), (''AuctionConfig'', ts_AuctionConfig),
      (''Custodian'', ts_Custodian), (''FastFillInfo'', ts_FastFillInfo),
      (''FastFillSeeds'', ts_FastFillSeeds), (''FastFill'', ts_FastFill),
      (''FastFillSequencerSeeds'', ts_FastFillSequencerSeeds),
      (''FastFillSequencer'', ts_FastFillSequencer),
      (''PreparedOrderResponseSeeds'', ts_PreparedOrderResponseSeeds),
      (''PreparedOrderResponseInfo'', ts_PreparedOrderResponseInfo),
      (''PreparedOrderResponse'', ts_PreparedOrderResponse), (''ProposalAction'', ts_ProposalAction),
      (''Proposal'', ts_Proposal),
      (''ReservedFastFillSequenceSeeds'', ts_ReservedFastFillSequenceSeeds),
      (''ReservedFastFillSequence'', ts_ReservedFastFillSequence),
      (''MessageProtocol'', ts_MessageProtocol), (''EndpointInfo'', ts_EndpointInfo),
      (''RouterEndpoint'', ts_RouterEndpoint), (''RemoteTokenMessenger'', ts_RemoteTokenMessenger)]"

text \<open>The events with their declared types, and the accounts with the classes that their fetches return.\<close>

definition matchingEngineEvents :: "(string \<times> string) list" where
  "matchingEngineEvents =
     [(''auctionSettled'', ''AuctionSettled''), (''auctionUpdated'', ''AuctionUpdated''), (''orderExecuted'', ''OrderExecuted''),
      (''proposed'', ''Proposed''), (''enacted'', ''Enacted''), (''localFastOrderFilled'', ''LocalFastOrderFilled''),
      (''fastFillSequenceReserved'', ''FastFillSequenceReserved''), (''fastFillRedeemed'', ''FastFillRedeemed''),
      (''auctionClosed'', ''AuctionClosed'')]"

definition meFetches :: "(string \<times> string) list" where
  "meFetches =
     [(''custodian'', ''Custodian''), (''auctionConfig'', ''AuctionConfig''), (''routerEndpoint'', ''RouterEndpoint''),
      (''auction'', ''Auction''), (''proposal'', ''Proposal''), (''preparedOrderResponse'', ''PreparedOrderResponse''),
      (''fastFill'', ''FastFill''), (''fastFillSequencer'', ''FastFillSequencer''),
      (''reservedFastFillSequence'', ''ReservedFastFillSequence''), (''remoteTokenMessenger'', ''RemoteTokenMessenger'')]"

subsection \<open>Token Router and Upgrade Manager\<close>

definition ts_tr_Custodian :: tsDef where
  "ts_tr_Custodian = TsObject
     [(''paused'', TsBoolean), (''owner'', TsPublicKey), (''pendingOwner'', TsOrNull TsPublicKey),
      (''ownerAssistant'', TsPublicKey), (''pausedSetBy'', TsPublicKey)]"

definition ts_tr_FillType :: tsDef where
  "ts_tr_FillType = TsUnion
     [(''unset'', []), (''wormholeCctpDeposit'', []), (''fastFill'', [])]"

definition ts_tr_PreparedFillSeeds :: tsDef where
  "ts_tr_PreparedFillSeeds = TsObject
     [(''fillSource'', TsPublicKey), (''bump'', TsNumber)]"

definition ts_tr_PreparedFillInfo :: tsDef where
  "ts_tr_PreparedFillInfo = TsObject
     [(''preparedCustodyTokenBump'', TsNumber), (''preparedBy'', TsPublicKey),
      (''fillType'', TsRef ''FillType''), (''sourceChain'', TsNumber), (''orderSender'', TsNumbers),
      (''redeemer'', TsPublicKey), (''timestamp'', TsBN)]"

definition ts_tr_PreparedFill :: tsDef where
  "ts_tr_PreparedFill = TsObject
     [(''seeds'', TsRef ''PreparedFillSeeds''), (''info'', TsRef ''PreparedFillInfo''),
      (''redeemerMessage'', TsBuffer)]"

definition ts_tr_OrderType :: tsDef where
  "ts_tr_OrderType = TsUnion
     [(''market'', [(''minAmountOut'', TsOrNull TsBN)])]"

definition ts_tr_PreparedOrderInfo :: tsDef where
  "ts_tr_PreparedOrderInfo = TsObject
     [(''preparedCustodyTokenBump'', TsNumber), (''orderSender'', TsPublicKey),
      (''preparedBy'', TsPublicKey), (''orderType'', TsRef ''OrderType''),
      (''srcToken'', TsPublicKey), (''refundToken'', TsPublicKey), (''targetChain'', TsNumber),
      (''redeemer'', TsNumbers)]"

definition ts_tr_PreparedOrder :: tsDef where
  "ts_tr_PreparedOrder = TsObject
     [(''info'', TsRef ''PreparedOrderInfo''), (''redeemerMessage'', TsBuffer)]"

definition ts_tr_UpgradeStatus :: tsDef where
  "ts_tr_UpgradeStatus = TsUnion
     [(''none'', []), (''uncommitted'', [(''buffer'', TsPublicKey), (''slot'', TsBN)])]"

definition ts_tr_UpgradeReceipt :: tsDef where
  "ts_tr_UpgradeReceipt = TsObject
     [(''bump'', TsNumber), (''programDataBump'', TsNumber), (''owner'', TsPublicKey),
      (''status'', TsRef ''UpgradeStatus'')]"

definition tr_ts :: tsDefs where
  "tr_ts =
     [(''Custodian'', ts_tr_Custodian), (''FillType'', ts_tr_FillType),
      (''PreparedFillSeeds'', ts_tr_PreparedFillSeeds),
      (''PreparedFillInfo'', ts_tr_PreparedFillInfo), (''PreparedFill'', ts_tr_PreparedFill),
      (''OrderType'', ts_tr_OrderType), (''PreparedOrderInfo'', ts_tr_PreparedOrderInfo),
      (''PreparedOrder'', ts_tr_PreparedOrder), (''UpgradeStatus'', ts_tr_UpgradeStatus),
      (''UpgradeReceipt'', ts_tr_UpgradeReceipt)]"

definition trFetches :: "(string \<times> string) list" where
  "trFetches = [(''custodian'', ''Custodian''), (''preparedFill'', ''PreparedFill''), (''preparedOrder'', ''PreparedOrder'')]"

definition umFetches :: "(string \<times> string) list" where
  "umFetches = [(''upgradeReceipt'', ''UpgradeReceipt'')]"

section \<open>Every declared type admits what is decoded\<close>

lemma me_ts_lookup:
  "map_of me_ts ''SettledTokenAccountInfo'' = Some ts_SettledTokenAccountInfo"
  "map_of me_ts ''AuctionSettled'' = Some ts_AuctionSettled"
  "map_of me_ts ''AuctionUpdated'' = Some ts_AuctionUpdated"
  "map_of me_ts ''OrderExecuted'' = Some ts_OrderExecuted"
  "map_of me_ts ''Proposed'' = Some ts_Proposed"
  "map_of me_ts ''Enacted'' = Some ts_Enacted"
  "map_of me_ts ''LocalFastOrderFilled'' = Some ts_LocalFastOrderFilled"
  "map_of me_ts ''FastFillSequenceReserved'' = Some ts_FastFillSequenceReserved"
  "map_of me_ts ''FastFillRedeemed'' = Some ts_FastFillRedeemed"
  "map_of me_ts ''AuctionClosed'' = Some ts_AuctionClosed"
  "map_of me_ts ''AuctionStatus'' = Some ts_AuctionStatus"
  "map_of me_ts ''AuctionDestinationAssetInfo'' = Some ts_AuctionDestinationAssetInfo"
  "map_of me_ts ''AuctionInfo'' = Some ts_AuctionInfo"
  "map_of me_ts ''Auction'' = Some ts_Auction"
  "map_of me_ts ''AuctionParameters'' = Some ts_AuctionParameters"
  "map_of me_ts ''AuctionConfig'' = Some ts_AuctionConfig"
  "map_of me_ts ''Custodian'' = Some ts_Custodian"
  "map_of me_ts ''FastFillInfo'' = Some ts_FastFillInfo"
  "map_of me_ts ''FastFillSeeds'' = Some ts_FastFillSeeds"
  "map_of me_ts ''FastFill'' = Some ts_FastFill"
  "map_of me_ts ''FastFillSequencerSeeds'' = Some ts_FastFillSequencerSeeds"
  "map_of me_ts ''FastFillSequencer'' = Some ts_FastFillSequencer"
  "map_of me_ts ''PreparedOrderResponseSeeds'' = Some ts_PreparedOrderResponseSeeds"
  "map_of me_ts ''PreparedOrderResponseInfo'' = Some ts_PreparedOrderResponseInfo"
  "map_of me_ts ''PreparedOrderResponse'' = Some ts_PreparedOrderResponse"
  "map_of me_ts ''ProposalAction'' = Some ts_ProposalAction"
  "map_of me_ts ''Proposal'' = Some ts_Proposal"
  "map_of me_ts ''ReservedFastFillSequenceSeeds'' = Some ts_ReservedFastFillSequenceSeeds"
  "map_of me_ts ''ReservedFastFillSequence'' = Some ts_ReservedFastFillSequence"
  "map_of me_ts ''MessageProtocol'' = Some ts_MessageProtocol"
  "map_of me_ts ''EndpointInfo'' = Some ts_EndpointInfo"
  "map_of me_ts ''RouterEndpoint'' = Some ts_RouterEndpoint"
  "map_of me_ts ''RemoteTokenMessenger'' = Some ts_RemoteTokenMessenger"
  by (simp_all add: me_ts_def)

lemma me_types_lookup:
  "map_of me_types ''settledTokenAccountInfo'' = Some ty_me_settledTokenAccountInfo"
  "map_of me_types ''auctionSettled'' = Some ty_me_auctionSettled"
  "map_of me_types ''auctionUpdated'' = Some ty_me_auctionUpdated"
  "map_of me_types ''orderExecuted'' = Some ty_me_orderExecuted"
  "map_of me_types ''proposed'' = Some ty_me_proposed"
  "map_of me_types ''enacted'' = Some ty_me_enacted"
  "map_of me_types ''localFastOrderFilled'' = Some ty_me_localFastOrderFilled"
  "map_of me_types ''fastFillSequenceReserved'' = Some ty_me_fastFillSequenceReserved"
  "map_of me_types ''fastFillRedeemed'' = Some ty_me_fastFillRedeemed"
  "map_of me_types ''auctionClosed'' = Some ty_me_auctionClosed"
  "map_of me_types ''auctionStatus'' = Some ty_me_auctionStatus"
  "map_of me_types ''auctionDestinationAssetInfo'' = Some ty_me_auctionDestinationAssetInfo"
  "map_of me_types ''auctionInfo'' = Some ty_me_auctionInfo"
  "map_of me_types ''auction'' = Some ty_me_auction"
  "map_of me_types ''auctionParameters'' = Some ty_me_auctionParameters"
  "map_of me_types ''auctionConfig'' = Some ty_me_auctionConfig"
  "map_of me_types ''custodian'' = Some ty_me_custodian"
  "map_of me_types ''fastFillInfo'' = Some ty_me_fastFillInfo"
  "map_of me_types ''fastFillSeeds'' = Some ty_me_fastFillSeeds"
  "map_of me_types ''fastFill'' = Some ty_me_fastFill"
  "map_of me_types ''fastFillSequencerSeeds'' = Some ty_me_fastFillSequencerSeeds"
  "map_of me_types ''fastFillSequencer'' = Some ty_me_fastFillSequencer"
  "map_of me_types ''preparedOrderResponseSeeds'' = Some ty_me_preparedOrderResponseSeeds"
  "map_of me_types ''preparedOrderResponseInfo'' = Some ty_me_preparedOrderResponseInfo"
  "map_of me_types ''preparedOrderResponse'' = Some ty_me_preparedOrderResponse"
  "map_of me_types ''proposalAction'' = Some ty_me_proposalAction"
  "map_of me_types ''proposal'' = Some ty_me_proposal"
  "map_of me_types ''reservedFastFillSequenceSeeds'' = Some ty_me_reservedFastFillSequenceSeeds"
  "map_of me_types ''reservedFastFillSequence'' = Some ty_me_reservedFastFillSequence"
  "map_of me_types ''messageProtocol'' = Some ty_me_messageProtocol"
  "map_of me_types ''endpointInfo'' = Some ty_me_endpointInfo"
  "map_of me_types ''routerEndpoint'' = Some ty_me_routerEndpoint"
  "map_of me_types ''remoteTokenMessenger'' = Some ty_me_remoteTokenMessenger"
  by (simp_all add: me_types_def)

lemma tr_ts_lookup:
  "map_of tr_ts ''Custodian'' = Some ts_tr_Custodian"
  "map_of tr_ts ''FillType'' = Some ts_tr_FillType"
  "map_of tr_ts ''PreparedFillSeeds'' = Some ts_tr_PreparedFillSeeds"
  "map_of tr_ts ''PreparedFillInfo'' = Some ts_tr_PreparedFillInfo"
  "map_of tr_ts ''PreparedFill'' = Some ts_tr_PreparedFill"
  "map_of tr_ts ''OrderType'' = Some ts_tr_OrderType"
  "map_of tr_ts ''PreparedOrderInfo'' = Some ts_tr_PreparedOrderInfo"
  "map_of tr_ts ''PreparedOrder'' = Some ts_tr_PreparedOrder"
  "map_of tr_ts ''UpgradeStatus'' = Some ts_tr_UpgradeStatus"
  "map_of tr_ts ''UpgradeReceipt'' = Some ts_tr_UpgradeReceipt"
  by (simp_all add: tr_ts_def)

lemma tr_types_lookup:
  "map_of tr_types ''custodian'' = Some ty_tr_custodian"
  "map_of tr_types ''fillType'' = Some ty_tr_fillType"
  "map_of tr_types ''preparedFillSeeds'' = Some ty_tr_preparedFillSeeds"
  "map_of tr_types ''preparedFillInfo'' = Some ty_tr_preparedFillInfo"
  "map_of tr_types ''preparedFill'' = Some ty_tr_preparedFill"
  "map_of tr_types ''orderType'' = Some ty_tr_orderType"
  "map_of tr_types ''preparedOrderInfo'' = Some ty_tr_preparedOrderInfo"
  "map_of tr_types ''preparedOrder'' = Some ty_tr_preparedOrder"
  by (simp_all add: tr_types_def)

lemma um_types_lookup:
  "map_of um_types ''upgradeStatus'' = Some ty_um_upgradeStatus"
  "map_of um_types ''upgradeReceipt'' = Some ty_um_upgradeReceipt"
  by (simp_all add: um_types_def)

lemma me_admits_1:
  "admits me_ts me_types (Suc n) (TDefined ''settledTokenAccountInfo'') (TsRef ''SettledTokenAccountInfo'')"
  "admits me_ts me_types (Suc n) (TDefined ''auctionStatus'') (TsRef ''AuctionStatus'')"
  "admits me_ts me_types (Suc n) (TDefined ''auctionDestinationAssetInfo'') (TsRef ''AuctionDestinationAssetInfo'')"
  "admits me_ts me_types (Suc n) (TDefined ''auctionParameters'') (TsRef ''AuctionParameters'')"
  "admits me_ts me_types (Suc n) (TDefined ''custodian'') (TsRef ''Custodian'')"
  "admits me_ts me_types (Suc n) (TDefined ''fastFillInfo'') (TsRef ''FastFillInfo'')"
  "admits me_ts me_types (Suc n) (TDefined ''fastFillSeeds'') (TsRef ''FastFillSeeds'')"
  "admits me_ts me_types (Suc n) (TDefined ''fastFillSequencerSeeds'') (TsRef ''FastFillSequencerSeeds'')"
  "admits me_ts me_types (Suc n) (TDefined ''preparedOrderResponseSeeds'') (TsRef ''PreparedOrderResponseSeeds'')"
  "admits me_ts me_types (Suc n) (TDefined ''preparedOrderResponseInfo'') (TsRef ''PreparedOrderResponseInfo'')"
  "admits me_ts me_types (Suc n) (TDefined ''reservedFastFillSequenceSeeds'') (TsRef ''ReservedFastFillSequenceSeeds'')"
  "admits me_ts me_types (Suc n) (TDefined ''messageProtocol'') (TsRef ''MessageProtocol'')"
  "admits me_ts me_types (Suc n) (TDefined ''remoteTokenMessenger'') (TsRef ''RemoteTokenMessenger'')"
  by (subst admits.simps(10), simp del: admits.simps(10) add: me_ts_lookup me_types_lookup present_def admits_TsOrNull
      ts_SettledTokenAccountInfo_def ty_me_settledTokenAccountInfo_def
      ts_AuctionStatus_def ty_me_auctionStatus_def
      ts_AuctionDestinationAssetInfo_def ty_me_auctionDestinationAssetInfo_def
      ts_AuctionParameters_def ty_me_auctionParameters_def ts_Custodian_def ty_me_custodian_def
      ts_FastFillInfo_def ty_me_fastFillInfo_def ts_FastFillSeeds_def ty_me_fastFillSeeds_def
      ts_FastFillSequencerSeeds_def ty_me_fastFillSequencerSeeds_def
      ts_PreparedOrderResponseSeeds_def ty_me_preparedOrderResponseSeeds_def
      ts_PreparedOrderResponseInfo_def ty_me_preparedOrderResponseInfo_def
      ts_ReservedFastFillSequenceSeeds_def ty_me_reservedFastFillSequenceSeeds_def
      ts_MessageProtocol_def ty_me_messageProtocol_def ts_RemoteTokenMessenger_def ty_me_remoteTokenMessenger_def)+

lemma me_admits_2:
  "admits me_ts me_types (Suc (Suc n)) (TDefined ''auctionSettled'') (TsRef ''AuctionSettled'')"
  "admits me_ts me_types (Suc (Suc n)) (TDefined ''auctionUpdated'') (TsRef ''AuctionUpdated'')"
  "admits me_ts me_types (Suc (Suc n)) (TDefined ''orderExecuted'') (TsRef ''OrderExecuted'')"
  "admits me_ts me_types (Suc (Suc n)) (TDefined ''localFastOrderFilled'') (TsRef ''LocalFastOrderFilled'')"
  "admits me_ts me_types (Suc (Suc n)) (TDefined ''fastFillSequenceReserved'') (TsRef ''FastFillSequenceReserved'')"
  "admits me_ts me_types (Suc (Suc n)) (TDefined ''fastFillRedeemed'') (TsRef ''FastFillRedeemed'')"
  "admits me_ts me_types (Suc (Suc n)) (TDefined ''auctionInfo'') (TsRef ''AuctionInfo'')"
  "admits me_ts me_types (Suc (Suc n)) (TDefined ''auctionConfig'') (TsRef ''AuctionConfig'')"
  "admits me_ts me_types (Suc (Suc n)) (TDefined ''fastFill'') (TsRef ''FastFill'')"
  "admits me_ts me_types (Suc (Suc n)) (TDefined ''fastFillSequencer'') (TsRef ''FastFillSequencer'')"
  "admits me_ts me_types (Suc (Suc n)) (TDefined ''proposalAction'') (TsRef ''ProposalAction'')"
  "admits me_ts me_types (Suc (Suc n)) (TDefined ''reservedFastFillSequence'') (TsRef ''ReservedFastFillSequence'')"
  "admits me_ts me_types (Suc (Suc n)) (TDefined ''endpointInfo'') (TsRef ''EndpointInfo'')"
  by (subst admits.simps(10), simp del: admits.simps(10) add: me_ts_lookup me_types_lookup present_def admits_TsOrNull me_admits_1
      ts_AuctionSettled_def ty_me_auctionSettled_def ts_AuctionUpdated_def ty_me_auctionUpdated_def
      ts_OrderExecuted_def ty_me_orderExecuted_def ts_LocalFastOrderFilled_def ty_me_localFastOrderFilled_def
      ts_FastFillSequenceReserved_def ty_me_fastFillSequenceReserved_def
      ts_FastFillRedeemed_def ty_me_fastFillRedeemed_def ts_AuctionInfo_def ty_me_auctionInfo_def
      ts_AuctionConfig_def ty_me_auctionConfig_def ts_FastFill_def ty_me_fastFill_def
      ts_FastFillSequencer_def ty_me_fastFillSequencer_def ts_ProposalAction_def ty_me_proposalAction_def
      ts_ReservedFastFillSequence_def ty_me_reservedFastFillSequence_def
      ts_EndpointInfo_def ty_me_endpointInfo_def)+

lemma me_admits_3:
  "admits me_ts me_types (Suc (Suc (Suc n))) (TDefined ''proposed'') (TsRef ''Proposed'')"
  "admits me_ts me_types (Suc (Suc (Suc n))) (TDefined ''enacted'') (TsRef ''Enacted'')"
  "admits me_ts me_types (Suc (Suc (Suc n))) (TDefined ''auction'') (TsRef ''Auction'')"
  "admits me_ts me_types (Suc (Suc (Suc n))) (TDefined ''preparedOrderResponse'') (TsRef ''PreparedOrderResponse'')"
  "admits me_ts me_types (Suc (Suc (Suc n))) (TDefined ''proposal'') (TsRef ''Proposal'')"
  "admits me_ts me_types (Suc (Suc (Suc n))) (TDefined ''routerEndpoint'') (TsRef ''RouterEndpoint'')"
  by (subst admits.simps(10), simp del: admits.simps(10) add: me_ts_lookup me_types_lookup present_def admits_TsOrNull me_admits_1 me_admits_2
      ts_Proposed_def ty_me_proposed_def ts_Enacted_def ty_me_enacted_def ts_Auction_def ty_me_auction_def
      ts_PreparedOrderResponse_def ty_me_preparedOrderResponse_def ts_Proposal_def ty_me_proposal_def
      ts_RouterEndpoint_def ty_me_routerEndpoint_def)+

lemma me_admits_4:
  "admits me_ts me_types (Suc (Suc (Suc (Suc n)))) (TDefined ''auctionClosed'') (TsRef ''AuctionClosed'')"
  by (subst admits.simps(10), simp del: admits.simps(10) add: me_ts_lookup me_types_lookup present_def admits_TsOrNull me_admits_1 me_admits_2 me_admits_3
      ts_AuctionClosed_def ty_me_auctionClosed_def)+

lemma tr_admits_1:
  "admits tr_ts tr_types (Suc n) (TDefined ''custodian'') (TsRef ''Custodian'')"
  "admits tr_ts tr_types (Suc n) (TDefined ''fillType'') (TsRef ''FillType'')"
  "admits tr_ts tr_types (Suc n) (TDefined ''preparedFillSeeds'') (TsRef ''PreparedFillSeeds'')"
  "admits tr_ts tr_types (Suc n) (TDefined ''orderType'') (TsRef ''OrderType'')"
  by (subst admits.simps(10), simp del: admits.simps(10) add: tr_ts_lookup tr_types_lookup present_def admits_TsOrNull ts_tr_Custodian_def ty_tr_custodian_def
      ts_tr_FillType_def ty_tr_fillType_def ts_tr_PreparedFillSeeds_def ty_tr_preparedFillSeeds_def
      ts_tr_OrderType_def ty_tr_orderType_def)+

lemma tr_admits_2:
  "admits tr_ts tr_types (Suc (Suc n)) (TDefined ''preparedFillInfo'') (TsRef ''PreparedFillInfo'')"
  "admits tr_ts tr_types (Suc (Suc n)) (TDefined ''preparedOrderInfo'') (TsRef ''PreparedOrderInfo'')"
  by (subst admits.simps(10), simp del: admits.simps(10) add: tr_ts_lookup tr_types_lookup present_def admits_TsOrNull tr_admits_1
      ts_tr_PreparedFillInfo_def ty_tr_preparedFillInfo_def
      ts_tr_PreparedOrderInfo_def ty_tr_preparedOrderInfo_def)+

lemma tr_admits_3:
  "admits tr_ts tr_types (Suc (Suc (Suc n))) (TDefined ''preparedFill'') (TsRef ''PreparedFill'')"
  "admits tr_ts tr_types (Suc (Suc (Suc n))) (TDefined ''preparedOrder'') (TsRef ''PreparedOrder'')"
  by (subst admits.simps(10), simp del: admits.simps(10) add: tr_ts_lookup tr_types_lookup present_def admits_TsOrNull tr_admits_1 tr_admits_2
      ts_tr_PreparedFill_def ty_tr_preparedFill_def ts_tr_PreparedOrder_def ty_tr_preparedOrder_def)+

lemma um_admits_1:
  "admits tr_ts um_types (Suc n) (TDefined ''upgradeStatus'') (TsRef ''UpgradeStatus'')"
  by (subst admits.simps(10), simp del: admits.simps(10) add: tr_ts_lookup um_types_lookup present_def admits_TsOrNull ts_tr_UpgradeStatus_def ty_um_upgradeStatus_def)+

lemma um_admits_2:
  "admits tr_ts um_types (Suc (Suc n)) (TDefined ''upgradeReceipt'') (TsRef ''UpgradeReceipt'')"
  by (subst admits.simps(10), simp del: admits.simps(10) add: tr_ts_lookup um_types_lookup present_def admits_TsOrNull um_admits_1
      ts_tr_UpgradeReceipt_def ty_um_upgradeReceipt_def)+

lemma me_admits: "list_all (\<lambda>(k, t). admits me_ts me_types (Suc (Suc (Suc (Suc n)))) (TDefined k) (TsRef t)) (matchingEngineEvents @ meFetches)"
  by (simp add: matchingEngineEvents_def meFetches_def me_admits_1 me_admits_2 me_admits_3 me_admits_4 del: admits.simps)

lemma tr_admits: "list_all (\<lambda>(k, t). admits tr_ts tr_types (Suc (Suc (Suc n))) (TDefined k) (TsRef t)) (trFetches)"
  by (simp add: trFetches_def tr_admits_1 tr_admits_2 tr_admits_3 del: admits.simps)

lemma um_admits: "list_all (\<lambda>(k, t). admits tr_ts um_types (Suc (Suc (Suc n))) (TDefined k) (TsRef t)) (umFetches)"
  by (simp add: umFetches_def um_admits_1 um_admits_2 del: admits.simps)

lemma declared_complete:
  "set (map fst me_events) = set (map fst matchingEngineEvents)" "set (map fst me_accounts) = set (map fst meFetches)"
  "set (map fst um_accounts) = set (map fst umFetches)"
  by (auto simp: me_events_def matchingEngineEvents_def me_accounts_def meFetches_def um_accounts_def umFetches_def)

lemmas me_type_defs = ts_SettledTokenAccountInfo_def ts_AuctionSettled_def ts_AuctionUpdated_def ts_OrderExecuted_def
      ts_Proposed_def ts_Enacted_def ts_LocalFastOrderFilled_def ts_FastFillSequenceReserved_def
      ts_FastFillRedeemed_def ts_AuctionClosed_def ts_AuctionStatus_def ts_AuctionDestinationAssetInfo_def
      ts_AuctionInfo_def ts_Auction_def ts_AuctionParameters_def ts_AuctionConfig_def ts_Custodian_def
      ts_FastFillInfo_def ts_FastFillSeeds_def ts_FastFill_def ts_FastFillSequencerSeeds_def
      ts_FastFillSequencer_def ts_PreparedOrderResponseSeeds_def ts_PreparedOrderResponseInfo_def
      ts_PreparedOrderResponse_def ts_ProposalAction_def ts_Proposal_def ts_ReservedFastFillSequenceSeeds_def
      ts_ReservedFastFillSequence_def ts_MessageProtocol_def ts_EndpointInfo_def ts_RouterEndpoint_def
      ts_RemoteTokenMessenger_def
     ty_me_settledTokenAccountInfo_def ty_me_auctionSettled_def ty_me_auctionUpdated_def
      ty_me_orderExecuted_def ty_me_proposed_def ty_me_enacted_def ty_me_localFastOrderFilled_def
      ty_me_fastFillSequenceReserved_def ty_me_fastFillRedeemed_def ty_me_auctionClosed_def
      ty_me_auctionStatus_def ty_me_auctionDestinationAssetInfo_def ty_me_auctionInfo_def ty_me_auction_def
      ty_me_auctionParameters_def ty_me_auctionConfig_def ty_me_custodian_def ty_me_fastFillInfo_def
      ty_me_fastFillSeeds_def ty_me_fastFill_def ty_me_fastFillSequencerSeeds_def ty_me_fastFillSequencer_def
      ty_me_preparedOrderResponseSeeds_def ty_me_preparedOrderResponseInfo_def ty_me_preparedOrderResponse_def
      ty_me_proposalAction_def ty_me_proposal_def ty_me_reservedFastFillSequenceSeeds_def
      ty_me_reservedFastFillSequence_def ty_me_messageProtocol_def ty_me_endpointInfo_def
      ty_me_routerEndpoint_def ty_me_remoteTokenMessenger_def

lemmas tr_type_defs = ts_tr_Custodian_def ts_tr_FillType_def ts_tr_PreparedFillSeeds_def ts_tr_PreparedFillInfo_def
      ts_tr_PreparedFill_def ts_tr_OrderType_def ts_tr_PreparedOrderInfo_def ts_tr_PreparedOrder_def
      ts_tr_UpgradeStatus_def ts_tr_UpgradeReceipt_def
     ty_tr_custodian_def ty_tr_fillType_def ty_tr_preparedFillSeeds_def ty_tr_preparedFillInfo_def
      ty_tr_preparedFill_def ty_tr_orderType_def ty_tr_preparedOrderInfo_def ty_tr_preparedOrder_def
      ty_um_upgradeStatus_def ty_um_upgradeReceipt_def

text \<open>What the declared types lack, computed over everything that is nested in them.\<close>

lemma me_undeclared:
  "map (\<lambda>(k, t). undeclared me_ts me_types 5 (TDefined k) (TsRef t)) (matchingEngineEvents @ meFetches) =
    [[], [], [(''orderExecuted'', ''sourceChain''), (''orderExecuted'', ''penalized'')],
     [], [], [], [], [], [], [], [], [], [], [], [], [], [], [], []]"
  by (simp add: matchingEngineEvents_def meFetches_def eval_nat_numeral me_ts_lookup me_types_lookup me_type_defs present_def)

lemma tr_undeclared: "map (\<lambda>(k, t). undeclared tr_ts tr_types 5 (TDefined k) (TsRef t)) trFetches = [[], [], []]"
  by (simp add: trFetches_def eval_nat_numeral tr_ts_lookup tr_types_lookup tr_type_defs present_def)

lemma um_undeclared: "map (\<lambda>(k, t). undeclared tr_ts um_types 5 (TDefined k) (TsRef t)) umFetches = [[]]"
  by (simp add: umFetches_def eval_nat_numeral tr_ts_lookup um_types_lookup tr_type_defs present_def)

text \<open>
  C28. What is decoded has its declared type: for every decoder that decodes the types of the interfaces to the
  documented kinds of values (\<open>decoderLaws\<close>), every event of the Matching Engine and every account that a client
  fetches is a value of the TypeScript type that the SDK declares for it, whatever the program wrote. All events and
  accounts of the Matching Engine and the account of the Upgrade Manager have a declared type. The declared types have all fields and
  variants, in all three programs and in all nested types, but for \<open>OrderExecuted\<close>, which lacks the source chain and
  whether the executor was penalized.
\<close>

theorem decoded_values_typed:
  assumes "decoderLaws me_types decodeMe" "decoderLaws tr_types decodeTr" "decoderLaws um_types decodeUm"
  shows "list_all (\<lambda>(k, t). \<forall>bytes j. decodeMe (TDefined k) bytes = Inr j \<longrightarrow> hasTs me_ts (TsRef t) j)
      (matchingEngineEvents @ meFetches) \<and>
    list_all (\<lambda>(k, t). \<forall>bytes j. decodeTr (TDefined k) bytes = Inr j \<longrightarrow> hasTs tr_ts (TsRef t) j) trFetches \<and>
    list_all (\<lambda>(k, t). \<forall>bytes j. decodeUm (TDefined k) bytes = Inr j \<longrightarrow> hasTs tr_ts (TsRef t) j) umFetches \<and>
    set (map fst me_events) = set (map fst matchingEngineEvents) \<and> set (map fst me_accounts) = set (map fst meFetches) \<and>
    set (map fst um_accounts) = set (map fst umFetches) \<and>
    list_all (\<lambda>(k, t). undeclared me_ts me_types 5 (TDefined k) (TsRef t) =
      (if k = ''orderExecuted'' then [(''orderExecuted'', ''sourceChain''), (''orderExecuted'', ''penalized'')] else []))
      (matchingEngineEvents @ meFetches) \<and>
    list_all (\<lambda>(k, t). undeclared tr_ts tr_types 5 (TDefined k) (TsRef t) = []) trFetches \<and>
    list_all (\<lambda>(k, t). undeclared tr_ts um_types 5 (TDefined k) (TsRef t) = []) umFetches"
proof (intro conjI declared_complete)
  have sound: "list_all (\<lambda>(k, t). \<forall>bytes j. decode (TDefined k) bytes = Inr j \<longrightarrow> hasTs d (TsRef t) j) xs"
    if "decoderLaws ts decode" "list_all (\<lambda>(k, t). admits d ts n (TDefined k) (TsRef t)) xs" for d ts n xs decode
    by (rule list.pred_mono_strong [OF that(2)]) (auto intro: decoder_sound [OF that(1)])
  show "list_all (\<lambda>(k, t). \<forall>bytes j. decodeMe (TDefined k) bytes = Inr j \<longrightarrow> hasTs me_ts (TsRef t) j)
      (matchingEngineEvents @ meFetches)" by (rule sound [OF assms(1) me_admits])
  show "list_all (\<lambda>(k, t). \<forall>bytes j. decodeTr (TDefined k) bytes = Inr j \<longrightarrow> hasTs tr_ts (TsRef t) j) trFetches"
    by (rule sound [OF assms(2) tr_admits])
  show "list_all (\<lambda>(k, t). \<forall>bytes j. decodeUm (TDefined k) bytes = Inr j \<longrightarrow> hasTs tr_ts (TsRef t) j) umFetches"
    by (rule sound [OF assms(3) um_admits])
  show "list_all (\<lambda>(k, t). undeclared me_ts me_types 5 (TDefined k) (TsRef t) =
      (if k = ''orderExecuted'' then [(''orderExecuted'', ''sourceChain''), (''orderExecuted'', ''penalized'')] else []))
      (matchingEngineEvents @ meFetches)"
    using me_undeclared by (simp add: matchingEngineEvents_def meFetches_def del: undeclared.simps)
  show "list_all (\<lambda>(k, t). undeclared tr_ts tr_types 5 (TDefined k) (TsRef t) = []) trFetches"
    using tr_undeclared by (simp add: trFetches_def del: undeclared.simps)
  show "list_all (\<lambda>(k, t). undeclared tr_ts um_types 5 (TDefined k) (TsRef t) = []) umFetches"
    using um_undeclared by (simp add: umFetches_def del: undeclared.simps)
qed

text \<open>
  A decoder of one event, the end of an auction whose executor was not the best bidder, and of its parts; the byte says
  which value is decoded.
\<close>

definition exampleSettled :: jsVal where
  "exampleSettled = JsObject
     [(''fastVaaHash'', JsNumbers (replicate 32 7)),
      (''bestOfferToken'', JsObject [(''key'', JsPublicKey (replicate 32 1)), (''balanceAfter'', JsBN 1000000)]),
      (''baseFeeToken'', JsNull), (''withExecute'', JsObject [(''cctp'', JsObject [(''domain'', JsNumber 3)])])]"

definition exampleValues :: "(idlType \<times> jsVal) list" where
  "exampleValues =
     [(TDefined ''auctionSettled'', exampleSettled), (TArray (TUInt 8) 32, JsNumbers (replicate 32 7)),
      (TOption (TDefined ''settledTokenAccountInfo''), JsObject [(''key'', JsPublicKey (replicate 32 1)), (''balanceAfter'', JsBN 1000000)]),
      (TDefined ''settledTokenAccountInfo'', JsObject [(''key'', JsPublicKey (replicate 32 1)), (''balanceAfter'', JsBN 1000000)]),
      (TOption (TDefined ''settledTokenAccountInfo''), JsNull), (TPubkey, JsPublicKey (replicate 32 1)), (TUInt 64, JsBN 1000000),
      (TOption (TDefined ''messageProtocol''), JsObject [(''cctp'', JsObject [(''domain'', JsNumber 3)])]),
      (TDefined ''messageProtocol'', JsObject [(''cctp'', JsObject [(''domain'', JsNumber 3)])]), (TUInt 32, JsNumber 3)]"

definition exampleDecode :: "idlType \<Rightarrow> byte list \<Rightarrow> jsVal result" where
  "exampleDecode u bytes =
     (case bytes of
        [i] \<Rightarrow> if unat i < length exampleValues \<and> fst (exampleValues ! unat i) = u then Inr (snd (exampleValues ! unat i))
          else Inl (Error ''unexpected byte'')
      | _ \<Rightarrow> Inl (Error ''unexpected length''))"

lemma exampleDecode_values: "(\<exists>bytes. exampleDecode u bytes = Inr j) \<longleftrightarrow> (u, j) \<in> set exampleValues"
proof
  assume "\<exists>bytes. exampleDecode u bytes = Inr j"
  then obtain bytes where "exampleDecode u bytes = Inr j" by blast
  then obtain i :: "8 word" where "unat i < length exampleValues" "fst (exampleValues ! unat i) = u" "snd (exampleValues ! unat i) = j"
    unfolding exampleDecode_def by (cases bytes; cases "tl bytes") (auto split: if_splits)
  then show "(u, j) \<in> set exampleValues" by (metis nth_mem prod.collapse)
next
  assume "(u, j) \<in> set exampleValues"
  then obtain i where i: "i < length exampleValues" "exampleValues ! i = (u, j)" by (auto simp: in_set_conv_nth)
  then have "unat (word_of_nat i :: 8 word) = i" by (simp add: exampleValues_def unat_of_nat)
  with i have "exampleDecode u [word_of_nat i] = Inr j" by (simp add: exampleDecode_def)
  then show "\<exists>bytes. exampleDecode u bytes = Inr j" by blast
qed

lemma exampleDecode_laws: "decoderLaws me_types exampleDecode"
proof -
  have "list_all (\<lambda>(u, j). decodedAs me_types (\<lambda>u j. (u, j) \<in> set exampleValues) u j) exampleValues"
    by (subst (2) exampleValues_def) (simp add: exampleSettled_def exampleValues_def decodedFields_def me_types_lookup ty_me_auctionSettled_def
        ty_me_settledTokenAccountInfo_def ty_me_messageProtocol_def)
  then show ?thesis
    unfolding decoderLaws_def exampleDecode_values list_all_iff using exampleDecode_values by blast
qed

theorem decoded_values_typed_witness:
  "exampleDecode (TDefined ''auctionSettled'') [0] = Inr exampleSettled \<and> hasTs me_ts (TsRef ''AuctionSettled'') exampleSettled"
proof -
  have decoded: "exampleDecode (TDefined ''auctionSettled'') [0] = Inr exampleSettled"
    by (simp add: exampleDecode_def exampleValues_def)
  have none: "decoderLaws ts (\<lambda>_ _. Inl TypeError)" for ts by (simp add: decoderLaws_def)
  have "(''auctionSettled'', ''AuctionSettled'') \<in> set (matchingEngineEvents @ meFetches)"
    by (simp add: matchingEngineEvents_def)
  with decoded_values_typed [OF exampleDecode_laws none none, THEN conjunct1, unfolded list_all_iff, THEN bspec, OF this] decoded
  show ?thesis by blast
qed

end
