(* ===== verification/Setup_Scripts.thy ===== *)
theory Setup_Scripts
  imports Solver_Handlers Conformance
begin

text \<open>
  The scripts that set the programs up and upgrade them (\<open>solana/ts/scripts\<close>): initialization and router
  endpoints of the Matching Engine, initialization of the Token Router, new auction parameters, upgrades
  and the address lookup table. A script is an effect on the world of its connection; waiting and
  printing are left out.
\<close>

section \<open>The connection of a script\<close>

text \<open>
  \<open>sendAndConfirmTransaction\<close> takes the instructions of one transaction, its signers and a commitment, and
  rejects unless the transaction succeeded. \<open>getOrCreateAssociatedTokenAccount\<close> is the token library's: it is given with
  the transactions that it submits. \<open>cu_secretKey\<close> is the payer that \<open>SOLANA_PRIVATE_KEY\<close> encodes, if
  it is set (in hex for the Token Router, in base64 for the other scripts).
\<close>

type_synonym sentTx = "instruction list \<times> pubkey list"

record 'w cluster =
  cu_env :: "'w \<Rightarrow> env"
  cu_later :: "'w \<Rightarrow> 'w"
  cu_sendAndConfirm :: "instruction list \<Rightarrow> pubkey list \<Rightarrow> string option \<Rightarrow> ('w, string) eff"
  cu_getOrCreateToken :: "pubkey \<Rightarrow> pubkey \<Rightarrow> pubkey \<Rightarrow> 'w \<Rightarrow> sentTx list \<times> unit result \<times> 'w"  \<comment> \<open>payer, mint, owner\<close>
  cu_toUniversal :: "string \<Rightarrow> string \<Rightarrow> byte list result"
  cu_toText :: "pubkey \<Rightarrow> string"
  cu_secretKey :: "pubkey result option"

definition readC :: "'w cluster \<Rightarrow> (env \<Rightarrow> 'a result) \<Rightarrow> ('w, 'a) eff" where
  "readC cu f = (\<lambda>w. (f (cu_env cu w), cu_later cu w))"

definition getOrCreateToken :: "'w cluster \<Rightarrow> pubkey \<Rightarrow> pubkey \<Rightarrow> pubkey \<Rightarrow> ('w, unit) eff" where
  "getOrCreateToken cu payer mint owner w = snd (cu_getOrCreateToken cu payer mint owner w)"

definition payerOf :: "'w cluster \<Rightarrow> pubkey result" where
  "payerOf cu =
     (case cu_secretKey cu of
        None \<Rightarrow> Inl (Error ''SOLANA_PRIVATE_KEY is undefined'')
      | Some payer \<Rightarrow> payer)"

definition accountFound :: "env \<Rightarrow> pubkey \<Rightarrow> bool result" where
  "accountFound env k = bnd (getAccountInfo env k) (\<lambda>acct. Inr (acct \<noteq> None))"

section \<open>setUpTestnetMatchingEngine\<close>

definition AUCTION_PARAMS :: auctionParameters where
  "AUCTION_PARAMS = \<lparr>ap_userPenaltyRewardBps = 400000, ap_initialPenaltyBps = 250000, ap_duration = 5, ap_gracePeriod = 10,
     ap_penaltyPeriod = 20, ap_minOfferDeltaBps = 50000, ap_securityDepositBase = 1000000, ap_securityDepositBps = 5000\<rparr>"

definition initializeMatchingEngine :: "'w cluster \<Rightarrow> meProgram \<Rightarrow> pubkey \<Rightarrow> ('w, unit) eff" where
  "initializeMatchingEngine cu me payer =
     thenE (readC cu (\<lambda>env. accountFound env (me_custodianAddress env me))) (\<lambda>exists.
     if exists then retE ()
     else
       thenE (readC cu (\<lambda>env. me_initializeIx env me payer payer payer None AUCTION_PARAMS)) (\<lambda>ix.
       thenE (getOrCreateToken cu payer (me_mint me) payer) (\<lambda>_.
       thenE (cu_sendAndConfirm cu [ix] [payer] None) (\<lambda>txSig. retE ()))))"

text \<open>The custodian is fetched only to see that it is there.\<close>

definition requireCustodian :: "'w cluster \<Rightarrow> meProgram \<Rightarrow> ('w, unit) eff" where
  "requireCustodian cu me =
     readC cu (\<lambda>env. case me_fetchCustodian env me None of Inl e \<Rightarrow> Inl (Error ''no custodian found'') | Inr c \<Rightarrow> Inr ())"

definition endpointMatches :: "endpointInfo \<Rightarrow> byte list \<Rightarrow> byte list \<Rightarrow> bool" where
  "endpointMatches info address mintRecipient \<longleftrightarrow> State_Types.ei_address info = address \<and>
     State_Types.ei_mintRecipient info = mintRecipient"

text \<open>The instruction that is sent for an endpoint, if one is, with what it does.\<close>

definition cctpEndpointIx :: "'w cluster \<Rightarrow> meProgram \<Rightarrow> pubkey \<Rightarrow> int \<Rightarrow> int \<Rightarrow> byte list \<Rightarrow> byte list option \<Rightarrow> bool \<Rightarrow>
    ('w, (instruction \<times> string) option) eff" where
  "cctpEndpointIx cu me payer chain cctpDomain address mintRecipient exists =
     (let args = \<lparr>ra_chain = chain, ra_cctpDomain = cctpDomain, ra_address = address, ra_mintRecipient = mintRecipient\<rparr>
      in if exists then
           thenE (readC cu (\<lambda>env. me_fetchRouterEndpointInfo env me (Derived chain))) (\<lambda>info.
           if endpointMatches info address (orElse mintRecipient address) then retE None
           else
             thenE (readC cu (\<lambda>env. me_updateCctpRouterEndpointIx env me payer None None None args)) (\<lambda>ix.
             retE (Some (ix, ''updated''))))
         else
           thenE (readC cu (\<lambda>env. me_addCctpRouterEndpointIx env me payer None None None None args)) (\<lambda>ix.
           retE (Some (ix, ''added''))))"

definition setCctpRouterEndpoint :: "'w cluster \<Rightarrow> meProgram \<Rightarrow> pubkey \<Rightarrow> string \<Rightarrow> int \<Rightarrow> string \<Rightarrow> string option \<Rightarrow>
    ('w, unit) eff" where
  "setCctpRouterEndpoint cu me payer foreignChain cctpDomain foreignEmitter foreignMintRecipient =
     thenE (requireCustodian cu me) (\<lambda>_.
     thenE (readC cu (\<lambda>env.
       bnd (toChainId env foreignChain) (\<lambda>chain.
       bnd (me_routerEndpointAddress env me chain) (\<lambda>endpoint.
       bnd (accountFound env endpoint) (\<lambda>exists. Inr (chain, exists)))))) (\<lambda>(chain, exists).
     thenE (liftE (cu_toUniversal cu foreignChain foreignEmitter)) (\<lambda>address.
     thenE (liftE (case foreignMintRecipient of
                     None \<Rightarrow> Inr None
                   | Some m \<Rightarrow> bnd (cu_toUniversal cu foreignChain m) (\<lambda>u. Inr (Some u)))) (\<lambda>mintRecipient.
     thenE (cctpEndpointIx cu me payer chain cctpDomain address mintRecipient exists) (\<lambda>r.
     case r of
       None \<Rightarrow> retE ()
     | Some (ix, action) \<Rightarrow> thenE (cu_sendAndConfirm cu [ix] [payer] None) (\<lambda>txSig. retE ()))))))"

text \<open>The local endpoint is added whether it does not exist or has other values; it is never updated.\<close>

definition setLocalRouterEndpoint :: "'w cluster \<Rightarrow> meProgram \<Rightarrow> pubkey \<Rightarrow> trProgram \<Rightarrow> ('w, unit) eff" where
  "setLocalRouterEndpoint cu me payer tr =
     thenE (requireCustodian cu me) (\<lambda>_.
     thenE (readC cu (\<lambda>env.
       bnd (toChainId env ''Solana'') (\<lambda>chain.
       bnd (me_routerEndpointAddress env me chain) (\<lambda>endpoint.
       bnd (accountFound env endpoint) (\<lambda>exists.
       bnd (cu_toUniversal cu ''Solana'' (cu_toText cu (tr_custodianAddress env tr))) (\<lambda>address.
       bnd (tr_cctpMintRecipientAddress env tr) (\<lambda>recipient.
       bnd (cu_toUniversal cu ''Solana'' (cu_toText cu recipient)) (\<lambda>mintRecipient.
       Inr (chain, exists, address, mintRecipient))))))))) (\<lambda>(chain, exists, address, mintRecipient).
     thenE (if exists then
              thenE (readC cu (\<lambda>env. me_fetchRouterEndpointInfo env me (Derived chain))) (\<lambda>info.
              retE (endpointMatches info address mintRecipient))
            else retE False) (\<lambda>finished.
     if finished then retE ()
     else
       thenE (readC cu (\<lambda>env. me_addLocalRouterEndpointIx env me payer (tr_ID env tr) None None None)) (\<lambda>ix.
       thenE (cu_sendAndConfirm cu [ix] [payer] None) (\<lambda>txSig. retE ())))))"

text \<open>Chain, CCTP domain and emitter of the endpoints, in the order of \<open>main\<close>.\<close>

definition foreignEndpoints :: "(string \<times> int \<times> string) list" where
  "foreignEndpoints =
     [(''Sepolia'', 0, ''0xE57D917bf955FedE2888AAbD056202a6497F1882''),
      (''Avalanche'', 1, ''0x8Cd7D7C980cd72eBD16737dC3fa04469dcFcf07A''),
      (''OptimismSepolia'', 2, ''0x6BAa7397c18abe6221b4f6C3Ac91C88a9faE00D8''),
      (''ArbitrumSepolia'', 3, ''0xe0418C44F06B0b0D7D1706E01706316DBB0B210E''),
      (''BaseSepolia'', 6, ''0x824Ea687CD1CC2f2446235D33Ae764CbCd08e18C''),
      (''PolygonSepolia'', 7, ''0xa098368AaaDc0FdF3e309cda710D7A5f8BDEeCD9'')]"

fun setCctpRouterEndpoints :: "'w cluster \<Rightarrow> meProgram \<Rightarrow> pubkey \<Rightarrow> (string \<times> int \<times> string) list \<Rightarrow> ('w, unit) eff" where
  "setCctpRouterEndpoints cu me payer [] = retE ()"
| "setCctpRouterEndpoints cu me payer ((chain, domain, emitter) # es) =
     thenE (setCctpRouterEndpoint cu me payer chain domain emitter None) (\<lambda>_. setCctpRouterEndpoints cu me payer es)"

definition setUpMatchingEngine :: "'w cluster \<Rightarrow> meProgram \<Rightarrow> trProgram \<Rightarrow> ('w, unit) eff" where
  "setUpMatchingEngine cu me tr =
     thenE (liftE (payerOf cu)) (\<lambda>payer.
     thenE (initializeMatchingEngine cu me payer) (\<lambda>_.
     thenE (setLocalRouterEndpoint cu me payer tr) (\<lambda>_.
     setCctpRouterEndpoints cu me payer foreignEndpoints)))"

section \<open>setUpTestnetTokenRouter\<close>

definition initializeTokenRouter :: "'w cluster \<Rightarrow> trProgram \<Rightarrow> pubkey \<Rightarrow> ('w, unit) eff" where
  "initializeTokenRouter cu tr payer =
     thenE (readC cu (\<lambda>env. accountFound env (tr_custodianAddress env tr))) (\<lambda>exists.
     if exists then retE ()
     else
       thenE (readC cu (\<lambda>env. tr_initializeIx env tr payer payer None)) (\<lambda>ix.
       thenE (cu_sendAndConfirm cu [ix] [payer] None) (\<lambda>txSig. retE ())))"

definition setUpTokenRouter :: "'w cluster \<Rightarrow> trProgram \<Rightarrow> ('w, unit) eff" where
  "setUpTokenRouter cu tr = thenE (liftE (payerOf cu)) (initializeTokenRouter cu tr)"

section \<open>enactNewTestnetAuctionConfig\<close>

definition proposeParameters :: "'w cluster \<Rightarrow> meProgram \<Rightarrow> pubkey \<Rightarrow> ('w, unit) eff" where
  "proposeParameters cu me payer =
     thenE (readC cu (\<lambda>env. me_proposeAuctionParametersIx env me payer None None None AUCTION_PARAMS None)) (\<lambda>ix.
     thenE (cu_sendAndConfirm cu [ix] [payer] None) (\<lambda>txSig. retE ()))"

definition enactParameters :: "'w cluster \<Rightarrow> meProgram \<Rightarrow> pubkey \<Rightarrow> ('w, unit) eff" where
  "enactParameters cu me payer =
     thenE (readC cu (\<lambda>env. me_updateAuctionParametersIx env me payer None None None None None)) (\<lambda>ix.
     thenE (cu_sendAndConfirm cu [ix] [payer] None) (\<lambda>txSig. retE ()))"

definition enactNewAuctionConfig :: "'w cluster \<Rightarrow> meProgram \<Rightarrow> ('w, unit) eff" where
  "enactNewAuctionConfig cu me =
     thenE (liftE (payerOf cu)) (\<lambda>payer.
     thenE (proposeParameters cu me payer) (\<lambda>_.
     enactParameters cu me payer))"

section \<open>upgradeTestnet\<close>

text \<open>
  A buffer is executed once, with commitment \<open>finalized\<close>; the commit is sent until it succeeds, so the script may
  run forever.
\<close>

definition upgradeProgram :: "'w cluster \<Rightarrow> (env \<Rightarrow> instruction result) \<Rightarrow> (env \<Rightarrow> instruction result) \<Rightarrow> pubkey \<Rightarrow>
    pubkey \<Rightarrow> ('w, unit) effP" where
  "upgradeProgram cu executeIx commitIx owner buffer =
     thenP (runP (readC cu (\<lambda>env. accountFound env buffer))) (\<lambda>exists.
     if \<not> exists then runP (liftE (Inl (Error ''no buffer found'')))
     else
       thenP (runP (readC cu executeIx)) (\<lambda>ix.
       thenP (runP (cu_sendAndConfirm cu [ix] [owner] (Some ''finalized''))) (\<lambda>executeTxSig.
       thenP (runP (readC cu commitIx)) (\<lambda>ix.
       \<lambda>w. map_option (Pair (Inr ())) (retryLoop (cu_sendAndConfirm cu [ix] [owner] None) w)))))"

definition upgradeMatchingEngine :: "'w cluster \<Rightarrow> string \<Rightarrow> pubkey \<Rightarrow> pubkey \<Rightarrow> ('w, unit) effP" where
  "upgradeMatchingEngine cu um owner buffer =
     upgradeProgram cu (\<lambda>env. um_executeMatchingEngineUpgradeIx env um owner buffer None)
       (\<lambda>env. um_commitMatchingEngineUpgradeIx env um owner None) owner buffer"

definition upgradeTokenRouter :: "'w cluster \<Rightarrow> string \<Rightarrow> pubkey \<Rightarrow> pubkey \<Rightarrow> ('w, unit) effP" where
  "upgradeTokenRouter cu um owner buffer =
     upgradeProgram cu (\<lambda>env. um_executeTokenRouterUpgradeIx env um owner buffer None)
       (\<lambda>env. um_commitTokenRouterUpgradeIx env um owner None) owner buffer"

section \<open>setUpMatchingEngineLut\<close>

definition CHAINS :: "string list" where
  "CHAINS = [''Sepolia'', ''Avalanche'', ''OptimismSepolia'', ''ArbitrumSepolia'', ''BaseSepolia'', ''PolygonSepolia'']"

text \<open>\<open>Object.values\<close> of the common accounts.\<close>

definition commonValues :: "matchingEngineCommonAccounts \<Rightarrow> pubkey list" where
  "commonValues c =
     [mm_matchingEngineProgram c, mm_systemProgram c, mm_rent c, mm_clock c, mm_custodian c, mm_cctpMintRecipient c,
      mm_coreBridgeConfig c, mm_coreEmitterSequence c, mm_coreFeeCollector c, mm_coreBridgeProgram c, mm_tokenMessenger c,
      mm_tokenMinter c, mm_tokenMessengerMinterSenderAuthority c, mm_tokenMessengerMinterProgram c,
      mm_messageTransmitterAuthority c, mm_messageTransmitterConfig c, mm_messageTransmitterProgram c, mm_tokenProgram c,
      mm_mint c, mm_localToken c, mm_tokenMessengerMinterCustodyToken c]"

text \<open>\<open>Map.set\<close> on the entries in insertion order.\<close>

fun mapSet :: "string \<Rightarrow> 'v \<Rightarrow> (string \<times> 'v) list \<Rightarrow> (string \<times> 'v) list" where
  "mapSet k v [] = [(k, v)]"
| "mapSet k v ((k', v') # m) = (if k = k' then (k, v) # m else (k', v') # mapSet k v m)"

fun lookupTableLoop :: "'w cluster \<Rightarrow> meProgram \<Rightarrow> string list \<Rightarrow> (string \<times> pubkey) list \<Rightarrow>
    ('w, (string \<times> pubkey) list) eff" where
  "lookupTableLoop cu me [] unique = retE unique"
| "lookupTableLoop cu me (chainName # rest) unique =
     thenE (readC cu (\<lambda>env. bnd (toChainId env chainName) (\<lambda>chain. me_fetchRouterEndpointInfo env me (Derived chain)))) (\<lambda>info.
     case ei_protocol info of
       CctpProtocol domain \<Rightarrow>
         thenE (readC cu (\<lambda>env. Inr (tmm_depositForBurnWithCallerAccounts env me_tokenMessengerMinterProgram (me_mint me) domain))) (\<lambda>a.
         lookupTableLoop cu me rest
           (mapSet (cu_toText cu (db_tokenMessengerMinterEventAuthority a)) (db_tokenMessengerMinterEventAuthority a)
             (mapSet (cu_toText cu (db_remoteTokenMessenger a)) (db_remoteTokenMessenger a) unique)))
     | _ \<Rightarrow> lookupTableLoop cu me rest unique)"

text \<open>\<open>extendLookupTable\<close> is the library's: payer, authority, table and addresses.\<close>

definition setUpLookupTable :: "'w cluster \<Rightarrow> (pubkey \<Rightarrow> pubkey \<Rightarrow> pubkey \<Rightarrow> pubkey list \<Rightarrow> instruction) \<Rightarrow> meProgram \<Rightarrow>
    ('w, unit) eff" where
  "setUpLookupTable cu extendLookupTable me =
     thenE (liftE (payerOf cu)) (\<lambda>payer.
     thenE (readC cu (\<lambda>env. Inr (newPublicKey env ''DaZU4eDFxq8hAHf78HLUyhWe8G2tszyaNUJoFgDCqqs8''))) (\<lambda>lookupTable.
     thenE (readC cu (\<lambda>env. me_commonAccounts env me)) (\<lambda>common.
     thenE (lookupTableLoop cu me CHAINS []) (\<lambda>unique.
     thenE (cu_sendAndConfirm cu
              [extendLookupTable payer payer lookupTable (commonValues common @ [payer] @ map snd unique)] [payer]
              (Some ''finalized'')) (\<lambda>extendTx. retE ())))))"

section \<open>What the scripts submit\<close>

text \<open>
  The same connection with a log of the transactions, those of the token library included: instructions and
  signers.
\<close>

definition recordedC :: "'w cluster \<Rightarrow> ('w \<times> sentTx list) cluster" where
  "recordedC cu = \<lparr>cu_env = (\<lambda>(w, l). cu_env cu w), cu_later = (\<lambda>(w, l). (cu_later cu w, l)),
     cu_sendAndConfirm = (\<lambda>ixs signers commitment (w, l).
       case cu_sendAndConfirm cu ixs signers commitment w of (r, w) \<Rightarrow> (r, w, l @ [(ixs, signers)])),
     cu_getOrCreateToken = (\<lambda>payer mint owner (w, l).
       case cu_getOrCreateToken cu payer mint owner w of (txs, r, w) \<Rightarrow> (txs, r, w, l @ txs)),
     cu_toUniversal = cu_toUniversal cu, cu_toText = cu_toText cu, cu_secretKey = cu_secretKey cu\<rparr>"

definition logged :: "(sentTx \<Rightarrow> bool) \<Rightarrow> 'w \<times> sentTx list \<Rightarrow> bool" where
  "logged G wl \<longleftrightarrow> list_all G (snd wl)"

text \<open>An effect keeps the log good, and what it returns satisfies \<open>R\<close>.\<close>

definition yields :: "(sentTx \<Rightarrow> bool) \<Rightarrow> ('w \<times> sentTx list, 'a) eff \<Rightarrow> ('a \<Rightarrow> bool) \<Rightarrow> bool" where
  "yields G m R \<longleftrightarrow> triple (logged G) m (\<lambda>r w. logged G w \<and> (\<forall>x. r = Inr x \<longrightarrow> R x))"

lemma yields_thenE: "yields G m R \<Longrightarrow> (\<And>x. R x \<Longrightarrow> yields G (k x) Q) \<Longrightarrow> yields G (thenE m k) Q"
  unfolding yields_def by (rule triple_thenE, assumption) (auto simp: triple_def)

lemma yields_retE: "Q x \<Longrightarrow> yields G (retE x) Q" and yields_liftE: "(\<And>x. r = Inr x \<Longrightarrow> Q x) \<Longrightarrow> yields G (liftE r) Q"
  by (simp_all add: yields_def triple_retE triple_liftE)

lemma yields_readC: "(\<And>env x. f env = Inr x \<Longrightarrow> Q x) \<Longrightarrow> yields G (readC (recordedC cu) f) Q"
  by (auto simp: yields_def triple_def readC_def recordedC_def logged_def)

lemma yields_send: "G (ixs, signers) \<Longrightarrow> yields G (cu_sendAndConfirm (recordedC cu) ixs signers c) (\<lambda>_. True)"
  by (auto simp: yields_def triple_def logged_def recordedC_def split: prod.splits)

text \<open>What the token library submits for the payer's account.\<close>

definition tokenLibraryTx :: "'w cluster \<Rightarrow> pubkey \<Rightarrow> pubkey \<Rightarrow> sentTx \<Rightarrow> bool" where
  "tokenLibraryTx cu mint payer tx \<longleftrightarrow> (\<exists>w. tx \<in> set (fst (cu_getOrCreateToken cu payer mint payer w)))"

lemma yields_token:
  assumes "\<And>tx. tokenLibraryTx cu mint payer tx \<Longrightarrow> G tx"
  shows "yields G (getOrCreateToken (recordedC cu) payer mint payer) (\<lambda>_. True)"
  unfolding yields_def triple_def
proof (intro allI impI)
  fix wl :: "'a \<times> sentTx list"
  assume l: "logged G wl"
  obtain txs r w' where c: "cu_getOrCreateToken cu payer mint payer (fst wl) = (txs, r, w')" by (metis prod.exhaust)
  have "list_all G txs"
    unfolding list_all_iff
  proof
    fix tx assume "tx \<in> set txs"
    then have "tx \<in> set (fst (cu_getOrCreateToken cu payer mint payer (fst wl)))" by (simp add: c)
    then show "G tx" unfolding tokenLibraryTx_def [symmetric] by (intro assms) (auto simp: tokenLibraryTx_def)
  qed
  with l c show "case getOrCreateToken (recordedC cu) payer mint payer wl of (r, w) \<Rightarrow> logged G w \<and> (\<forall>x. r = Inr x \<longrightarrow> True)"
    by (cases wl) (simp add: getOrCreateToken_def recordedC_def logged_def)
qed

lemma yields_requireCustodian: "yields G (requireCustodian (recordedC cu) me) (\<lambda>_. True)"
  unfolding requireCustodian_def by (rule yields_readC) simp

lemma yields_build:
  assumes "\<And>env ix. f env = Inr ix \<Longrightarrow> G ([ix], [payer])"
  shows "yields G (thenE (readC (recordedC cu) f) (\<lambda>ix. thenE (cu_sendAndConfirm (recordedC cu) [ix] [payer] c) (\<lambda>_. retE ()))) (\<lambda>_. True)"
  by (rule yields_thenE [OF yields_readC [where Q = "\<lambda>ix. G ([ix], [payer])"]])
    (auto intro: assms yields_thenE yields_send yields_retE)

text \<open>
  One instruction that the SDK built for the program, which conforms to its interface, signed by the payer, who is the
  only signer it needs.
\<close>

definition validTx :: "(env \<Rightarrow> instruction \<Rightarrow> bool) \<Rightarrow> (env \<Rightarrow> pubkey) \<Rightarrow> idlTypes \<Rightarrow> idlInstruction list \<Rightarrow> pubkey \<Rightarrow>
    sentTx \<Rightarrow> bool" where
  "validTx built ID types idl payer tx \<longleftrightarrow>
     (\<exists>env ix. tx = ([ix], [payer]) \<and> built env ix \<and> conforms types idl (ID env) ix \<and> set (requiredSigners idl ix) \<subseteq> {payer})"

lemma initialize_signers: "ok (\<lambda>ix. set (requiredSigners me_idl ix) \<subseteq> {owner}) (me_initializeIx env me owner assistant feeRecipient mint ps)"
  unfolding me_initializeIx_def Let_def case_prod_unfold
  by ((rule ok_rules)+, simp add: idl_me_initialize_def me_find me_composites)

lemma addCctp_signers: "ok (\<lambda>ix. set (requiredSigners me_idl ix) \<subseteq> {payer}) (me_addCctpRouterEndpointIx env me payer None None None None args)"
  unfolding me_addCctpRouterEndpointIx_def Let_def case_prod_unfold
  by ((rule ok_rules)+, simp add: idl_me_addCctpRouterEndpoint_def me_find me_composites)

lemma updateCctp_signers: "ok (\<lambda>ix. set (requiredSigners me_idl ix) \<subseteq> {payer}) (me_updateCctpRouterEndpointIx env me payer None None None args)"
  unfolding me_updateCctpRouterEndpointIx_def Let_def case_prod_unfold
  by ((rule ok_rules)+, simp add: idl_me_updateCctpRouterEndpoint_def me_find me_composites)

lemma addLocal_signers: "ok (\<lambda>ix. set (requiredSigners me_idl ix) \<subseteq> {payer}) (me_addLocalRouterEndpointIx env me payer router None None None)"
  unfolding me_addLocalRouterEndpointIx_def Let_def case_prod_unfold
  by ((rule ok_rules)+, simp add: idl_me_addLocalRouterEndpoint_def me_find me_composites)

lemma propose_signers: "ok (\<lambda>ix. set (requiredSigners me_idl ix) \<subseteq> {payer}) (me_proposeAuctionParametersIx env me payer None None None ps None)"
  unfolding me_proposeAuctionParametersIx_def Let_def case_prod_unfold
  by ((rule ok_rules)+, simp add: idl_me_proposeAuctionParameters_def me_find me_composites)

lemma enact_signers: "ok (\<lambda>ix. set (requiredSigners me_idl ix) \<subseteq> {payer}) (me_updateAuctionParametersIx env me payer None None None None None)"
  unfolding me_updateAuctionParametersIx_def Let_def case_prod_unfold
  by ((rule ok_rules)+, simp add: idl_me_updateAuctionParameters_def me_find me_composites)

lemma tr_initialize_signers: "ok (\<lambda>ix. set (requiredSigners tr_idl ix) \<subseteq> {owner}) (tr_initializeIx env tr owner assistant mint)"
  unfolding tr_initializeIx_def Let_def case_prod_unfold
  by ((rule ok_rules)+, simp add: idl_tr_initialize_def tr_find tr_composites)

abbreviation validMeTx :: "meProgram \<Rightarrow> pubkey \<Rightarrow> sentTx \<Rightarrow> bool" where
  "validMeTx me \<equiv> validTx (\<lambda>env. meBuilt env me) (\<lambda>env. me_ID env me) me_types me_idl"

abbreviation validTrTx :: "trProgram \<Rightarrow> pubkey \<Rightarrow> sentTx \<Rightarrow> bool" where
  "validTrTx tr \<equiv> validTx (\<lambda>env. trBuilt env tr) (\<lambda>env. tr_ID env tr) tr_types tr_idl"

lemma validTxI: "built env ix \<Longrightarrow> conforms types idl (ID env) ix \<Longrightarrow> set (requiredSigners idl ix) \<subseteq> {payer} \<Longrightarrow>
    validTx built ID types idl payer ([ix], [payer])"
  by (auto simp: validTx_def)

lemma valid_meTxs:
  "me_initializeIx env me payer payer payer None ps = Inr ix \<Longrightarrow> validMeTx me payer ([ix], [payer])"
  "me_addCctpRouterEndpointIx env me payer None None None None args = Inr ix \<Longrightarrow> validMeTx me payer ([ix], [payer])"
  "me_updateCctpRouterEndpointIx env me payer None None None args = Inr ix \<Longrightarrow> validMeTx me payer ([ix], [payer])"
  "me_addLocalRouterEndpointIx env me payer router None None None = Inr ix \<Longrightarrow> validMeTx me payer ([ix], [payer])"
  "me_proposeAuctionParametersIx env me payer None None None ps None = Inr ix \<Longrightarrow> validMeTx me payer ([ix], [payer])"
  "me_updateAuctionParametersIx env me payer None None None None None = Inr ix \<Longrightarrow> validMeTx me payer ([ix], [payer])"
  by (rule validTxI, erule meBuilt.intros, erule me_conforms, erule okD [OF initialize_signers] okD [OF addCctp_signers]
      okD [OF updateCctp_signers] okD [OF addLocal_signers] okD [OF propose_signers] okD [OF enact_signers])+

lemma valid_trTx: "tr_initializeIx env tr payer assistant mint = Inr ix \<Longrightarrow> validTrTx tr payer ([ix], [payer])"
  by (rule validTxI, erule trBuilt.intros, erule tr_conforms, erule okD [OF tr_initialize_signers])

text \<open>A transaction of the Matching Engine's setup.\<close>

definition setupTx :: "'w cluster \<Rightarrow> meProgram \<Rightarrow> pubkey \<Rightarrow> sentTx \<Rightarrow> bool" where
  "setupTx cu me payer tx \<longleftrightarrow> validMeTx me payer tx \<or> tokenLibraryTx cu (me_mint me) payer tx"

lemma setup_valid: "validMeTx me payer tx \<Longrightarrow> setupTx cu me payer tx"
  by (simp add: setupTx_def)

lemmas setup_meTxs = valid_meTxs [THEN setup_valid]

lemma setup_token: "tokenLibraryTx cu (me_mint me) payer tx \<Longrightarrow> setupTx cu me payer tx"
  by (simp add: setupTx_def)

lemma yields_initialize: "yields (setupTx cu me payer) (initializeMatchingEngine (recordedC cu) me payer) (\<lambda>_. True)"
  unfolding initializeMatchingEngine_def
proof (rule yields_thenE [OF yields_readC [where Q = "\<lambda>_. True"]])
  let ?G = "setupTx cu me payer"
  have "yields ?G (thenE (readC (recordedC cu) (\<lambda>env. me_initializeIx env me payer payer payer None AUCTION_PARAMS)) (\<lambda>ix.
       thenE (getOrCreateToken (recordedC cu) payer (me_mint me) payer) (\<lambda>_.
       thenE (cu_sendAndConfirm (recordedC cu) [ix] [payer] None) (\<lambda>txSig. retE ())))) (\<lambda>_. True)"
    by (rule yields_thenE [OF yields_readC [where Q = "\<lambda>ix. ?G ([ix], [payer])"]])
      (auto intro: setup_meTxs yields_thenE yields_token setup_token yields_send yields_retE)
  then show "yields ?G (if exists then retE () else
      thenE (readC (recordedC cu) (\<lambda>env. me_initializeIx env me payer payer payer None AUCTION_PARAMS)) (\<lambda>ix.
       thenE (getOrCreateToken (recordedC cu) payer (me_mint me) payer) (\<lambda>_.
       thenE (cu_sendAndConfirm (recordedC cu) [ix] [payer] None) (\<lambda>txSig. retE ())))) (\<lambda>_. True)" for exists
    by (simp add: yields_retE)
qed simp

lemma yields_cctpEndpointIx: "yields (setupTx cu me payer)
    (cctpEndpointIx (recordedC cu) me payer chain domain address recipient exists)
    (\<lambda>r. \<forall>ix action. r = Some (ix, action) \<longrightarrow> setupTx cu me payer ([ix], [payer]))"
proof -
  let ?G = "setupTx cu me payer"
  have build: "yields ?G (thenE (readC (recordedC cu) f) (\<lambda>ix. retE (Some (ix, act))))
      (\<lambda>r. \<forall>ix action. r = Some (ix, action) \<longrightarrow> ?G ([ix], [payer]))"
    if "\<And>env ix. f env = Inr ix \<Longrightarrow> ?G ([ix], [payer])" for f and act :: string
    by (rule yields_thenE [OF yields_readC [where Q = "\<lambda>ix. ?G ([ix], [payer])"]]) (auto intro: that yields_retE)
  show ?thesis
  proof (cases "exists")
    case True
    show ?thesis
      unfolding cctpEndpointIx_def Let_def if_P [OF True]
      by (rule yields_thenE [OF yields_readC [where Q = "\<lambda>_. True"]])
        (simp, split if_split, intro conjI impI, rule yields_retE, simp, rule build, rule setup_meTxs(3))
  next
    case False
    show ?thesis
      unfolding cctpEndpointIx_def Let_def if_not_P [OF False] by (rule build) (rule setup_meTxs(2))
  qed
qed

lemma yields_cctpEndpoint: "yields (setupTx cu me payer)
    (setCctpRouterEndpoint (recordedC cu) me payer chain domain emitter recipient) (\<lambda>_. True)"
  unfolding setCctpRouterEndpoint_def
  by (rule yields_thenE [OF yields_requireCustodian], rule yields_thenE [OF yields_readC [where Q = "\<lambda>_. True"]], simp,
      simp only: case_prod_unfold, rule yields_thenE [OF yields_liftE [where Q = "\<lambda>_. True"]], simp,
      rule yields_thenE [OF yields_liftE [where Q = "\<lambda>_. True"]], simp,
      rule yields_thenE [OF yields_cctpEndpointIx])
    (auto split: option.split intro!: yields_retE yields_thenE [OF yields_send])

lemma yields_localEndpoint: "yields (setupTx cu me payer) (setLocalRouterEndpoint (recordedC cu) me payer tr) (\<lambda>_. True)"
proof -
  let ?G = "setupTx cu me payer"
  have "yields ?G (if finished then retE () else
      thenE (readC (recordedC cu) (\<lambda>env. me_addLocalRouterEndpointIx env me payer (tr_ID env tr) None None None)) (\<lambda>ix.
       thenE (cu_sendAndConfirm (recordedC cu) [ix] [payer] None) (\<lambda>txSig. retE ()))) (\<lambda>_. True)" for finished
    by (auto intro: setup_meTxs intro!: yields_retE yields_build)
  then show ?thesis
    unfolding setLocalRouterEndpoint_def
    by (intro yields_thenE [OF yields_requireCustodian])
      (rule yields_thenE [OF yields_readC [where Q = "\<lambda>_. True"]], simp, simp only: case_prod_unfold,
        rule yields_thenE [where R = "\<lambda>_. True"],
        auto intro!: yields_retE yields_thenE [OF yields_readC [where Q = "\<lambda>_. True"]])
qed

lemma yields_cctpEndpoints: "yields (setupTx cu me payer)
    (setCctpRouterEndpoints (recordedC cu) me payer es) (\<lambda>_. True)"
  by (induction es) (auto intro: yields_retE yields_thenE [OF yields_cctpEndpoint])

lemma yields_log: "yields G m R \<Longrightarrow> list_all G (snd (snd (m (w, []))))"
proof -
  assume y: "yields G m R"
  obtain r v where m: "m (w, []) = (r, v)" by (cases "m (w, [])")
  from tripleD [OF y [unfolded yields_def] _ m] m show ?thesis by (simp add: logged_def)
qed

text \<open>
  C18. The scripts submit only what the programs accept from the payer. Every transaction of the scripts that set
  up the two programs or enact new auction parameters is one instruction that the SDK built for that
  program, conforms to the program's interface, is signed by the payer, and needs no other signer;
  except that the Matching Engine's setup also has the token library create the payer's token account of
  the engine's mint, whose transactions are the library's.
\<close>

theorem scripts_submit_valid:
  assumes "payerOf cu = Inr payer"
  shows "list_all (\<lambda>tx. validTx (\<lambda>env. meBuilt env me) (\<lambda>env. me_ID env me) me_types me_idl payer tx \<or>
      tokenLibraryTx cu (me_mint me) payer tx) (snd (snd (setUpMatchingEngine (recordedC cu) me tr (w, [])))) \<and>
    list_all (validTx (\<lambda>env. meBuilt env me) (\<lambda>env. me_ID env me) me_types me_idl payer)
      (snd (snd (enactNewAuctionConfig (recordedC cu) me (w, [])))) \<and>
    list_all (validTx (\<lambda>env. trBuilt env tr) (\<lambda>env. tr_ID env tr) tr_types tr_idl payer)
      (snd (snd (setUpTokenRouter (recordedC cu) tr (w, []))))"
  unfolding setupTx_def [symmetric]
proof (intro conjI yields_log)
  have p: "payerOf (recordedC cu) = Inr payer" using assms by (simp add: payerOf_def recordedC_def)
  show "yields (setupTx cu me payer) (setUpMatchingEngine (recordedC cu) me tr) (\<lambda>_. True)"
    unfolding setUpMatchingEngine_def p thenE_liftE
    by (intro yields_thenE [OF yields_initialize] yields_thenE [OF yields_localEndpoint] yields_cctpEndpoints)
  show "yields (validMeTx me payer) (enactNewAuctionConfig (recordedC cu) me) (\<lambda>_. True)"
    unfolding enactNewAuctionConfig_def p thenE_liftE proposeParameters_def enactParameters_def
    by (rule yields_thenE [OF yields_build]) (auto intro: valid_meTxs yields_build)
  show "yields (validTrTx tr payer) (setUpTokenRouter (recordedC cu) tr) (\<lambda>_. True)"
    unfolding setUpTokenRouter_def p thenE_liftE initializeTokenRouter_def
    by (rule yields_thenE [OF yields_readC [where Q = "\<lambda>_. True"]])
      (auto intro: yields_retE yields_build valid_trTx)
qed

theorem scripts_submit_valid_witness:
  "\<forall>(env :: env) (cu :: nat cluster).
    (let env' = env\<lparr>associatedTokenAddress := \<lambda>_ _ _. Inr [5], getAccountInfo := \<lambda>_. Inr None\<rparr>;
         cu' = cu\<lparr>cu_env := \<lambda>_. env', cu_secretKey := Some (Inr [7]),
           cu_sendAndConfirm := \<lambda>ixs signers c w. (Inr ''sig'', w)\<rparr>;
         tr = \<lparr>tr_programId = tr_testnet, tr_mint = [1]\<rparr>;
         log = snd (snd (setUpTokenRouter (recordedC cu') tr (0, [])))
     in length log = 1 \<and> list_all (validTx (\<lambda>env. trBuilt env tr) (\<lambda>env. tr_ID env tr) tr_types tr_idl [7]) log)"
proof (unfold Let_def, intro allI)
  fix env :: env and cu :: "nat cluster"
  let ?env = "env\<lparr>associatedTokenAddress := \<lambda>_ _ _. Inr [5], getAccountInfo := \<lambda>_. Inr None\<rparr>"
  let ?cu = "cu\<lparr>cu_env := \<lambda>_. ?env, cu_secretKey := Some (Inr [7]), cu_sendAndConfirm := \<lambda>ixs signers c w. (Inr ''sig'', w)\<rparr>"
  let ?tr = "\<lparr>tr_programId = tr_testnet, tr_mint = [1]\<rparr>"
  have p: "payerOf ?cu = Inr [7]" by (simp add: payerOf_def)
  have "\<exists>ix. tr_initializeIx ?env ?tr [7] [7] None = Inr ix"
    by (simp add: tr_initializeIx_def tr_upgradeManagerProgram_def tr_cctpMintRecipientAddress_def)
  then have "length (snd (snd (setUpTokenRouter (recordedC ?cu) ?tr (0, [])))) = 1"
    by (auto simp: setUpTokenRouter_def payerOf_def initializeTokenRouter_def thenE_def readC_def recordedC_def
        accountFound_def retE_def liftE_def simp del: One_nat_def)
  with scripts_submit_valid [OF p, of undefined ?tr 0] show
    "length (snd (snd (setUpTokenRouter (recordedC ?cu) ?tr (0, [])))) = 1 \<and>
     list_all (validTx (\<lambda>env. trBuilt env ?tr) (\<lambda>env. tr_ID env ?tr) tr_types tr_idl [7]) (snd (snd (setUpTokenRouter (recordedC ?cu) ?tr (0, []))))"
    by blast
qed

section \<open>Running the setup again\<close>

text \<open>The chain already has the custodian and endpoints with these addresses, in every state that is read.\<close>

definition endpointOnChain :: "env \<Rightarrow> meProgram \<Rightarrow> int \<Rightarrow> byte list \<Rightarrow> byte list \<Rightarrow> bool" where
  "endpointOnChain env me chain address mintRecipient \<longleftrightarrow> (\<exists>endpoint data info.
     me_routerEndpointAddress env me chain = Inr endpoint \<and> getAccountInfo env endpoint = Inr (Some data) \<and>
     me_fetchRouterEndpointInfo env me (Derived chain) = Inr info \<and> endpointMatches info address mintRecipient)"

definition cctpSettled :: "'w cluster \<Rightarrow> meProgram \<Rightarrow> string \<times> int \<times> string \<Rightarrow> bool" where
  "cctpSettled cu me e \<longleftrightarrow> (case e of (name, domain, emitter) \<Rightarrow>
     \<exists>chain address. cu_toUniversal cu name emitter = Inr address \<and>
       (\<forall>w. toChainId (cu_env cu w) name = Inr chain \<and> endpointOnChain (cu_env cu w) me chain address address))"

definition localSettled :: "'w cluster \<Rightarrow> meProgram \<Rightarrow> trProgram \<Rightarrow> bool" where
  "localSettled cu me tr \<longleftrightarrow> (\<exists>chain address mintRecipient. \<forall>w. toChainId (cu_env cu w) ''Solana'' = Inr chain \<and>
     cu_toUniversal cu ''Solana'' (cu_toText cu (tr_custodianAddress (cu_env cu w) tr)) = Inr address \<and>
     (\<exists>recipient. tr_cctpMintRecipientAddress (cu_env cu w) tr = Inr recipient \<and>
       cu_toUniversal cu ''Solana'' (cu_toText cu recipient) = Inr mintRecipient) \<and>
     endpointOnChain (cu_env cu w) me chain address mintRecipient)"

definition custodianOnChain :: "'w cluster \<Rightarrow> meProgram \<Rightarrow> bool" where
  "custodianOnChain cu me \<longleftrightarrow> (\<forall>w. \<exists>data c. getAccountInfo (cu_env cu w) (me_custodianAddress (cu_env cu w) me) = Inr (Some data) \<and>
     me_fetchCustodian (cu_env cu w) me None = Inr c)"

text \<open>An effect that returns and submits nothing.\<close>

definition silent :: "('w \<times> sentTx list, 'a) eff \<Rightarrow> 'a \<Rightarrow> bool" where
  "silent m x \<longleftrightarrow> (\<forall>w l. \<exists>w'. m (w, l) = (Inr x, w', l))"

lemma silent_thenE: "silent m x \<Longrightarrow> silent (k x) y \<Longrightarrow> silent (thenE m k) y"
  unfolding silent_def thenE_def
proof (intro allI)
  fix w l
  assume "\<forall>w l. \<exists>w'. m (w, l) = (Inr x, w', l)" "\<forall>w l. \<exists>w'. k x (w, l) = (Inr y, w', l)"
  then obtain w1 w2 where "m (w, l) = (Inr x, w1, l)" "k x (w1, l) = (Inr y, w2, l)" by metis
  then show "\<exists>w'. (case m (w, l) of (Inl e, w) \<Rightarrow> (Inl e, w) | (Inr x, w) \<Rightarrow> k x w) = (Inr y, w', l)" by simp
qed

lemma silent_retE: "silent (retE x) x" and silent_liftE: "silent (liftE (Inr x)) x"
  by (simp_all add: silent_def retE_def liftE_def)

lemma silent_readC: "(\<And>w. f (cu_env cu w) = Inr x) \<Longrightarrow> silent (readC (recordedC cu) f) x"
  by (simp add: silent_def readC_def recordedC_def)

lemma recordedC_sel [simp]: "cu_toUniversal (recordedC cu) = cu_toUniversal cu" "cu_toText (recordedC cu) = cu_toText cu"
  "payerOf (recordedC cu) = payerOf cu"
  by (simp_all add: recordedC_def payerOf_def)

lemma silent_requireCustodian: "custodianOnChain cu me \<Longrightarrow> silent (requireCustodian (recordedC cu) me) ()"
  unfolding requireCustodian_def custodianOnChain_def by (rule silent_readC) (metis old.sum.simps(6))

lemma silent_initialize: "custodianOnChain cu me \<Longrightarrow> silent (initializeMatchingEngine (recordedC cu) me payer) ()"
  unfolding initializeMatchingEngine_def
  by (rule silent_thenE [OF silent_readC [where x = True]])
    (auto simp: custodianOnChain_def accountFound_def silent_retE bnd_eq_Inr_iff)

lemma silent_read_then:
  assumes "\<And>w. \<exists>x. f (cu_env cu w) = Inr x \<and> silent (k x) y"
  shows "silent (thenE (readC (recordedC cu) f) k) y"
  unfolding silent_def
proof (intro allI)
  fix w l
  from assms [of w] obtain x where "f (cu_env cu w) = Inr x" and s: "silent (k x) y" by blast
  moreover from s obtain w2 where "k x (cu_later cu w, l) = (Inr y, w2, l)" unfolding silent_def by blast
  ultimately show "\<exists>w'. thenE (readC (recordedC cu) f) k (w, l) = (Inr y, w', l)"
    by (simp add: thenE_def readC_def recordedC_def)
qed

lemma silent_cctpEndpoint:
  assumes "custodianOnChain cu me" "cctpSettled cu me (name, domain, emitter)"
  shows "silent (setCctpRouterEndpoint (recordedC cu) me payer name domain' emitter None) ()"
proof -
  from assms(2) obtain chain address where a: "cu_toUniversal cu name emitter = Inr address"
    and e: "\<And>w. toChainId (cu_env cu w) name = Inr chain" "\<And>w. endpointOnChain (cu_env cu w) me chain address address"
    by (auto simp: cctpSettled_def)
  have info: "\<exists>info. me_fetchRouterEndpointInfo (cu_env cu w) me (Derived chain) = Inr info \<and> endpointMatches info address address" for w
    using e(2) [of w] by (auto simp: endpointOnChain_def)
  have x: "silent (cctpEndpointIx (recordedC cu) me payer chain domain' address None True) None"
    unfolding cctpEndpointIx_def Let_def if_True
    by (rule silent_read_then) (use info in \<open>force intro: silent_retE\<close>)
  have r: "bnd (toChainId (cu_env cu w) name) (\<lambda>chain. bnd (me_routerEndpointAddress (cu_env cu w) me chain) (\<lambda>endpoint.
      bnd (accountFound (cu_env cu w) endpoint) (\<lambda>exists. Inr (chain, exists)))) = Inr (chain, True)" for w
    using e [of w] by (auto simp: endpointOnChain_def accountFound_def)
  show ?thesis
    unfolding setCctpRouterEndpoint_def recordedC_sel a
    by (rule silent_thenE [OF silent_requireCustodian [OF assms(1)]],
        rule silent_thenE [OF silent_readC [where x = "(chain, True)"]], rule r)
      (simp add: silent_thenE [OF x] silent_retE)
qed

lemma silent_localEndpoint:
  assumes "custodianOnChain cu me" "localSettled cu me tr"
  shows "silent (setLocalRouterEndpoint (recordedC cu) me payer tr) ()"
proof -
  from assms(2) obtain chain address mintRecipient where
    e: "\<And>w. toChainId (cu_env cu w) ''Solana'' = Inr chain"
    "\<And>w. cu_toUniversal cu ''Solana'' (cu_toText cu (tr_custodianAddress (cu_env cu w) tr)) = Inr address"
    "\<And>w. \<exists>recipient. tr_cctpMintRecipientAddress (cu_env cu w) tr = Inr recipient \<and>
       cu_toUniversal cu ''Solana'' (cu_toText cu recipient) = Inr mintRecipient"
    "\<And>w. endpointOnChain (cu_env cu w) me chain address mintRecipient"
    unfolding localSettled_def by blast
  have info: "\<exists>info. me_fetchRouterEndpointInfo (cu_env cu w) me (Derived chain) = Inr info \<and> endpointMatches info address mintRecipient" for w
    using e(4) [of w] by (auto simp: endpointOnChain_def)
  have r: "bnd (toChainId (cu_env cu w) ''Solana'') (\<lambda>chain.
       bnd (me_routerEndpointAddress (cu_env cu w) me chain) (\<lambda>endpoint.
       bnd (accountFound (cu_env cu w) endpoint) (\<lambda>exists.
       bnd (cu_toUniversal cu ''Solana'' (cu_toText cu (tr_custodianAddress (cu_env cu w) tr))) (\<lambda>address.
       bnd (tr_cctpMintRecipientAddress (cu_env cu w) tr) (\<lambda>recipient.
       bnd (cu_toUniversal cu ''Solana'' (cu_toText cu recipient)) (\<lambda>mintRecipient.
       Inr (chain, exists, address, mintRecipient))))))) = Inr (chain, True, address, mintRecipient)" for w
    using e [of w] by (auto simp: endpointOnChain_def accountFound_def)
  have f: "silent (thenE (readC (recordedC cu) (\<lambda>env. me_fetchRouterEndpointInfo env me (Derived chain))) (\<lambda>info.
      retE (endpointMatches info address mintRecipient))) True"
    by (rule silent_read_then) (use info in \<open>force intro: silent_retE\<close>)
  show ?thesis
    unfolding setLocalRouterEndpoint_def recordedC_sel
    by (rule silent_thenE [OF silent_requireCustodian [OF assms(1)]],
        rule silent_thenE [OF silent_readC [where x = "(chain, True, address, mintRecipient)"]], rule r)
      (simp add: silent_thenE [OF f] silent_retE)
qed

lemma silent_cctpEndpoints:
  assumes "custodianOnChain cu me" "list_all (cctpSettled cu me) es"
  shows "silent (setCctpRouterEndpoints (recordedC cu) me payer es) ()"
  using assms(2)
  by (induction es) (auto intro: silent_retE silent_thenE [OF silent_cctpEndpoint [OF assms(1)]])

text \<open>
  C19. Setting up twice changes nothing: if the custodian and all endpoints are on the chain with the addresses
  of the script, running the setup of the Matching Engine returns without submitting a transaction.
  The CCTP domains that the endpoints have on the chain do not matter, so a wrong domain is not
  corrected.
\<close>

theorem setup_leaves_settled_chain:
  assumes "payerOf cu = Inr payer" "custodianOnChain cu me" "localSettled cu me tr" "list_all (cctpSettled cu me) foreignEndpoints"
  shows "(\<exists>w'. setUpMatchingEngine (recordedC cu) me tr (w, l) = (Inr (), w', l)) \<and>
    cctpSettled cu me (name, domain, emitter) = cctpSettled cu me (name, domain', emitter)"
proof -
  have "silent (setUpMatchingEngine (recordedC cu) me tr) ()"
    unfolding setUpMatchingEngine_def recordedC_sel assms(1) thenE_liftE
    by (intro silent_thenE [OF silent_initialize [OF assms(2)]] silent_thenE [OF silent_localEndpoint [OF assms(2,3)]]
        silent_cctpEndpoints [OF assms(2,4)])
  then show ?thesis by (simp add: silent_def cctpSettled_def)
qed

theorem setup_leaves_settled_chain_witness:
  "\<forall>(env :: env) (cu :: nat cluster) c.
    (let env' = env\<lparr>toChainId := \<lambda>_. Inr 1, getAccountInfo := \<lambda>_. Inr (Some []), acctMeCustodian := \<lambda>_. Inr c,
           associatedTokenAddress := \<lambda>_ _ _. Inr [5],
           acctRouterEndpoint := \<lambda>_. Inr \<lparr>re_bump = 0, re_info = \<lparr>ei_chain = 1, ei_address = [9], ei_mintRecipient = [9],
             ei_protocol = LocalProtocol [3]\<rparr>\<rparr>\<rparr>;
         cu' = cu\<lparr>cu_env := \<lambda>_. env', cu_secretKey := Some (Inr [7]), cu_toUniversal := \<lambda>_ _. Inr [9]\<rparr>
     in \<exists>w'. setUpMatchingEngine (recordedC cu') \<lparr>me_programId = me_testnet, me_mint = [1]\<rparr>
       \<lparr>tr_programId = tr_testnet, tr_mint = [1]\<rparr> (0, []) = (Inr (), w', []))"
proof (unfold Let_def, intro allI)
  fix env :: env and cu :: "nat cluster" and c
  let ?env = "env\<lparr>toChainId := \<lambda>_. Inr 1, getAccountInfo := \<lambda>_. Inr (Some []), acctMeCustodian := \<lambda>_. Inr c,
           associatedTokenAddress := \<lambda>_ _ _. Inr [5],
           acctRouterEndpoint := \<lambda>_. Inr \<lparr>re_bump = 0, re_info = \<lparr>ei_chain = 1, ei_address = [9], ei_mintRecipient = [9],
             ei_protocol = LocalProtocol [3]\<rparr>\<rparr>\<rparr>"
  let ?cu = "cu\<lparr>cu_env := \<lambda>_. ?env, cu_secretKey := Some (Inr [7]), cu_toUniversal := \<lambda>_ _. Inr [9]\<rparr>"
  let ?me = "\<lparr>me_programId = me_testnet, me_mint = [1]\<rparr>" and ?tr = "\<lparr>tr_programId = tr_testnet, tr_mint = [1]\<rparr>"
  have e: "endpointOnChain ?env ?me 1 [9] [9]"
    by (simp add: endpointOnChain_def me_routerEndpointAddress_def routerEndpoint_address_def routerEndpoint_seeds_def
        me_fetchRouterEndpointInfo_def endpointMatches_def writeBE_alloc)
  have p: "payerOf ?cu = Inr [7]" by (simp add: payerOf_def)
  have cust: "custodianOnChain ?cu ?me" by (simp add: custodianOnChain_def me_fetchCustodian_def)
  have local: "localSettled ?cu ?me ?tr" using e by (auto simp: localSettled_def tr_cctpMintRecipientAddress_def)
  have cctp: "cctpSettled ?cu ?me x" for x using e by (auto simp: cctpSettled_def split: prod.split)
  have "list_all (cctpSettled ?cu ?me) foreignEndpoints" by (simp add: foreignEndpoints_def cctp)
  from setup_leaves_settled_chain [OF p cust local this, of 0 "[]"]
  show "\<exists>w'. setUpMatchingEngine (recordedC ?cu) ?me ?tr (0, []) = (Inr (), w', [])" by blast
qed

text \<open>A local endpoint that exists with other addresses is not updated: the instruction that adds it is sent again.\<close>

lemma local_endpoint_added_again:
  assumes "cu_env cu = (\<lambda>_. env)" "me_fetchCustodian env me None = Inr c" "toChainId env ''Solana'' = Inr chain"
    and "me_routerEndpointAddress env me chain = Inr endpoint" "getAccountInfo env endpoint = Inr (Some data)"
    and "cu_toUniversal cu ''Solana'' (cu_toText cu (tr_custodianAddress env tr)) = Inr address"
    and "tr_cctpMintRecipientAddress env tr = Inr recipient" "cu_toUniversal cu ''Solana'' (cu_toText cu recipient) = Inr mintRecipient"
    and "me_fetchRouterEndpointInfo env me (Derived chain) = Inr info" "\<not> endpointMatches info address mintRecipient"
    and "me_addLocalRouterEndpointIx env me payer (tr_ID env tr) None None None = Inr ix"
  shows "snd (snd (setLocalRouterEndpoint (recordedC cu) me payer tr (w, l))) = l @ [([ix], [payer])]"
  using assms by (simp add: setLocalRouterEndpoint_def requireCustodian_def thenE_def readC_def recordedC_def accountFound_def
      retE_def liftE_def split: prod.splits sum.splits)

section \<open>The lookup table\<close>

text \<open>The addresses of the domains are entered once each, under their text, as far as the loop gets.\<close>

lemma mapSet_keys: "distinct (map fst m) \<Longrightarrow> distinct (map fst (mapSet k v m)) \<and> set (map fst (mapSet k v m)) = insert k (set (map fst m))"
  by (induction m rule: mapSet.induct) auto

lemma mapSet_texts: "list_all (\<lambda>(t, a). t = f a) m \<Longrightarrow> k = f v \<Longrightarrow> list_all (\<lambda>(t, a). t = f a) (mapSet k v m)"
  by (induction m rule: mapSet.induct) auto

definition entered :: "(pubkey \<Rightarrow> string) \<Rightarrow> (string \<times> pubkey) list \<Rightarrow> bool" where
  "entered f m \<longleftrightarrow> distinct (map fst m) \<and> list_all (\<lambda>(t, a). t = f a) m"

lemma entered_mapSet: "entered f m \<Longrightarrow> entered f (mapSet (f v) v m)"
  by (simp add: entered_def mapSet_keys mapSet_texts)

lemma entered_distinct: "entered f m \<Longrightarrow> distinct (map snd m)"
proof -
  assume e: "entered f m"
  then have "map fst m = map f (map snd m)" by (auto simp: entered_def list_all_iff)
  with e have "distinct (map f (map snd m))" by (simp add: entered_def)
  then show ?thesis by (rule distinct_map [THEN iffD1, THEN conjunct1])
qed

lemma lookupTableLoop_entered:
  "entered (cu_toText cu) m \<Longrightarrow> lookupTableLoop cu me names m w = (Inr m', w') \<Longrightarrow> entered (cu_toText cu) m'"
proof (induction cu me names m arbitrary: w rule: lookupTableLoop.induct)
  case (1 cu me unique)
  then show ?case by (simp add: retE_Inr)
next
  case (2 cu me chainName rest unique)
  from "2.prems"(2) [unfolded lookupTableLoop.simps(2) thenE_Inr] obtain info :: endpointInfo and w1 where
    r: "(case ei_protocol info of
       CctpProtocol domain \<Rightarrow>
         thenE (readC cu (\<lambda>env. Inr (tmm_depositForBurnWithCallerAccounts env me_tokenMessengerMinterProgram (me_mint me) domain))) (\<lambda>a.
         lookupTableLoop cu me rest
           (mapSet (cu_toText cu (db_tokenMessengerMinterEventAuthority a)) (db_tokenMessengerMinterEventAuthority a)
             (mapSet (cu_toText cu (db_remoteTokenMessenger a)) (db_remoteTokenMessenger a) unique)))
     | _ \<Rightarrow> lookupTableLoop cu me rest unique) w1 = (Inr m', w')"
    by (elim exE conjE)
  show ?case
  proof (cases "ei_protocol info")
    case (CctpProtocol domain)
    with r obtain a :: depositForBurnWithCallerAccounts and w2 where "lookupTableLoop cu me rest
           (mapSet (cu_toText cu (db_tokenMessengerMinterEventAuthority a)) (db_tokenMessengerMinterEventAuthority a)
             (mapSet (cu_toText cu (db_remoteTokenMessenger a)) (db_remoteTokenMessenger a) unique)) w2 = (Inr m', w')"
      by (auto simp: thenE_Inr)
    with "2.IH" CctpProtocol "2.prems"(1) show ?thesis by (meson entered_mapSet)
  qed (use r "2.IH" "2.prems"(1) in \<open>auto\<close>)
qed

lemma lookup_table_addresses_distinct:
  "lookupTableLoop cu me CHAINS [] w = (Inr m, w') \<Longrightarrow> distinct (map snd m)"
  by (rule entered_distinct [OF lookupTableLoop_entered [of cu "[]"]]) (simp add: entered_def)

section \<open>Upgrading\<close>

lemma recordedC_send: "cu_sendAndConfirm (recordedC cu) ixs signers c (w, l) =
    (case cu_sendAndConfirm cu ixs signers c w of (r, w) \<Rightarrow> (r, w, l @ [(ixs, signers)]))"
  and readC_recordedC: "readC (recordedC cu) f (w, l) = (f (cu_env cu w), cu_later cu w, l)"
  by (simp_all add: recordedC_def readC_def)

text \<open>Attempts that all threw have each submitted the transaction once.\<close>

lemma retries_recordedC:
  "retries (cu_sendAndConfirm (recordedC cu) ixs signers c) v v' \<Longrightarrow>
    retries (cu_sendAndConfirm cu ixs signers c) (fst v) (fst v') \<and> (\<exists>n. snd v' = snd v @ replicate n (ixs, signers))"
proof (induction rule: retries.induct)
  case (none v)
  then show ?case by (auto intro: retries.none)
next
  case (again v e v1 v2)
  then obtain n where n: "snd v2 = snd v1 @ replicate n (ixs, signers)" by blast
  have "cu_sendAndConfirm cu ixs signers c (fst v) = (Inl e, fst v1)" "snd v1 = snd v @ [(ixs, signers)]"
    using again.hyps(1) by (cases v; auto simp: recordedC_send split: prod.splits)+
  with again.IH n show ?case by (auto intro: retries.again exI [where x = "Suc n"])
qed

lemma retries_recordedC_back:
  "retries (cu_sendAndConfirm cu ixs signers c) w w' \<Longrightarrow>
    \<exists>l'. retries (cu_sendAndConfirm (recordedC cu) ixs signers c) (w, l) (w', l')"
proof (induction arbitrary: l rule: retries.induct)
  case (none w)
  then show ?case by (auto intro: retries.none)
next
  case (again w e w1 w2)
  then have "cu_sendAndConfirm (recordedC cu) ixs signers c (w, l) = (Inl e, w1, l @ [(ixs, signers)])"
    by (simp add: recordedC_send)
  moreover from again.IH obtain l' where
    "retries (cu_sendAndConfirm (recordedC cu) ixs signers c) (w1, l @ [(ixs, signers)]) (w2, l')" by blast
  ultimately show ?case by (blast intro: retries.again)
qed

text \<open>The commit returns exactly if some attempt does, and has then been submitted at least once.\<close>

lemma commit_runs:
  "retryLoop (cu_sendAndConfirm (recordedC cu) ixs signers c) (w, l) = Some (w', l') \<Longrightarrow>
    \<exists>w1 n sig. retries (cu_sendAndConfirm cu ixs signers c) w w1 \<and> cu_sendAndConfirm cu ixs signers c w1 = (Inr sig, w') \<and>
      l' = l @ replicate (Suc n) (ixs, signers)"
proof -
  assume "retryLoop (cu_sendAndConfirm (recordedC cu) ixs signers c) (w, l) = Some (w', l')"
  from retryLoop_runs [OF this] obtain w1 l1 sig where
    r: "retries (cu_sendAndConfirm (recordedC cu) ixs signers c) (w, l) (w1, l1)" and
    a: "cu_sendAndConfirm (recordedC cu) ixs signers c (w1, l1) = (Inr sig, w', l')" by auto
  from retries_recordedC [OF r] obtain n where
    "retries (cu_sendAndConfirm cu ixs signers c) w w1" "l1 = l @ replicate n (ixs, signers)" by auto
  moreover from a have "cu_sendAndConfirm cu ixs signers c w1 = (Inr sig, w')" "l' = l1 @ [(ixs, signers)]"
    by (auto simp: recordedC_send split: prod.splits)
  ultimately show ?thesis
    by (metis append_assoc replicate_append_same replicate_Suc)
qed

lemma commit_returns:
  assumes "retries (cu_sendAndConfirm cu ixs signers c) w w1" "cu_sendAndConfirm cu ixs signers c w1 = (Inr sig, w')"
  shows "\<exists>l'. retryLoop (cu_sendAndConfirm (recordedC cu) ixs signers c) (w, l) = Some (w', l')"
proof -
  from retries_recordedC_back [OF assms(1)] obtain l1 where
    "retries (cu_sendAndConfirm (recordedC cu) ixs signers c) (w, l) (w1, l1)" by blast
  moreover from assms(2) have "cu_sendAndConfirm (recordedC cu) ixs signers c (w1, l1) = (Inr sig, w', l1 @ [(ixs, signers)])"
    by (simp add: recordedC_send)
  ultimately show ?thesis by (blast intro: retryLoop_returns)
qed

text \<open>
  The way of an upgrade to its commit: the buffer is there, the instruction to execute is built and its
  transaction succeeds, the instruction to commit is built.
\<close>

definition executesBefore :: "'w cluster \<Rightarrow> (env \<Rightarrow> instruction result) \<Rightarrow> (env \<Rightarrow> instruction result) \<Rightarrow> pubkey \<Rightarrow>
    pubkey \<Rightarrow> 'w \<Rightarrow> instruction \<Rightarrow> instruction \<Rightarrow> 'w \<Rightarrow> bool" where
  "executesBefore cu executeIx commitIx owner buffer w x c w1 \<longleftrightarrow>
     (let w2 = cu_later cu w in
      accountFound (cu_env cu w) buffer = Inr True \<and> executeIx (cu_env cu w2) = Inr x \<and>
      (\<exists>sig w3. cu_sendAndConfirm cu [x] [owner] (Some ''finalized'') (cu_later cu w2) = (Inr sig, w3) \<and>
        commitIx (cu_env cu w3) = Inr c \<and> w1 = cu_later cu w3))"

lemma upgradeProgram_recordedC:
  assumes "executesBefore cu executeIx commitIx owner buffer w x c w1"
  shows "upgradeProgram (recordedC cu) executeIx commitIx owner buffer (w, l) =
    map_option (Pair (Inr ())) (retryLoop (cu_sendAndConfirm (recordedC cu) [c] [owner] None) (w1, l @ [([x], [owner])]))"
  using assms
  by (auto simp: executesBefore_def Let_def upgradeProgram_def thenP_def runP_def readC_recordedC recordedC_send)

lemma upgradeProgram_fails:
  assumes "\<nexists>x c w1. executesBefore cu executeIx commitIx owner buffer w x c w1"
  shows "\<exists>e w' l' x. upgradeProgram (recordedC cu) executeIx commitIx owner buffer (w, l) = Some (Inl e, w', l') \<and>
    (l' = l \<or> l' = l @ [([x], [owner])])"
  using assms
  by (auto simp: executesBefore_def Let_def upgradeProgram_def thenP_def runP_def readC_recordedC recordedC_send liftE_def
      split: prod.splits sum.splits)

text \<open>
  What an upgrade comes to: it runs forever if it was executed and no attempt to commit ever succeeds, throws
  having submitted at most the instruction that executes it, or returns after the first successful commit.
\<close>

definition upgradeOutcome :: "'w cluster \<Rightarrow> (env \<Rightarrow> instruction result) \<Rightarrow> (env \<Rightarrow> instruction result) \<Rightarrow> pubkey \<Rightarrow>
    pubkey \<Rightarrow> 'w \<Rightarrow> sentTx list \<Rightarrow> (unit result \<times> 'w \<times> sentTx list) option \<Rightarrow> bool" where
  "upgradeOutcome cu executeIx commitIx owner buffer w l run \<longleftrightarrow>
     (let before = executesBefore cu executeIx commitIx owner buffer w;
          attempt = (\<lambda>c. cu_sendAndConfirm cu [c] [owner] None)
      in case run of
           None \<Rightarrow> \<exists>x c w1. before x c w1 \<and> (\<nexists>w2 sig w'. retries (attempt c) w1 w2 \<and> attempt c w2 = (Inr sig, w'))
         | Some (Inl e, w', l') \<Rightarrow> (\<nexists>x c w1. before x c w1) \<and> (\<exists>x. l' = l \<or> l' = l @ [([x], [owner])])
         | Some (Inr u, w', l') \<Rightarrow> \<exists>x c w1 w2 sig n. before x c w1 \<and> retries (attempt c) w1 w2 \<and>
             attempt c w2 = (Inr sig, w') \<and> l' = l @ ([x], [owner]) # replicate (Suc n) ([c], [owner]))"

lemma upgradeProgram_outcome:
  "upgradeOutcome cu executeIx commitIx owner buffer w l (upgradeProgram (recordedC cu) executeIx commitIx owner buffer (w, l))"
proof (cases "\<exists>x c w1. executesBefore cu executeIx commitIx owner buffer w x c w1")
  case False
  from upgradeProgram_fails [OF this, of l] False show ?thesis by (auto simp: upgradeOutcome_def Let_def)
next
  case True
  then obtain x c w1 where b: "executesBefore cu executeIx commitIx owner buffer w x c w1" by blast
  let ?loop = "retryLoop (cu_sendAndConfirm (recordedC cu) [c] [owner] None) (w1, l @ [([x], [owner])])"
  show ?thesis
  proof (cases ?loop)
    case None
    have "\<nexists>w2 sig w'. retries (cu_sendAndConfirm cu [c] [owner] None) w1 w2 \<and>
        cu_sendAndConfirm cu [c] [owner] None w2 = (Inr sig, w')"
      using None commit_returns by (metis option.distinct(1))
    with b None show ?thesis by (auto simp: upgradeOutcome_def Let_def upgradeProgram_recordedC [OF b])
  next
    case (Some v)
    then obtain w' l' where v: "?loop = Some (w', l')" by (cases v) auto
    from commit_runs [OF v] obtain w2 n sig where
      "retries (cu_sendAndConfirm cu [c] [owner] None) w1 w2" "cu_sendAndConfirm cu [c] [owner] None w2 = (Inr sig, w')"
      "l' = l @ ([x], [owner]) # replicate (Suc n) ([c], [owner])" by auto
    with b show ?thesis unfolding upgradeOutcome_def Let_def upgradeProgram_recordedC [OF b] v by (simp, blast)
  qed
qed

text \<open>
  C20. An upgrade is executed at most once and committed until that succeeds: the script of the Matching Engine or
  the Token Router either throws before the commit, having submitted at most the instruction that
  executes the upgrade; or returns, having submitted that instruction once and then the commit until
  the first attempt that succeeded; or runs forever, if the upgrade was executed and no attempt to
  commit ever succeeds.
\<close>

theorem upgrade_commits_until_success:
  "upgradeOutcome cu (\<lambda>env. um_executeMatchingEngineUpgradeIx env um owner buffer None)
     (\<lambda>env. um_commitMatchingEngineUpgradeIx env um owner None) owner buffer w l
     (upgradeMatchingEngine (recordedC cu) um owner buffer (w, l)) \<and>
   upgradeOutcome cu (\<lambda>env. um_executeTokenRouterUpgradeIx env um owner buffer None)
     (\<lambda>env. um_commitTokenRouterUpgradeIx env um owner None) owner buffer w l
     (upgradeTokenRouter (recordedC cu) um owner buffer (w, l))"
  unfolding upgradeMatchingEngine_def upgradeTokenRouter_def by (intro conjI upgradeProgram_outcome)

text \<open>A commit that fails twice: the upgrade is executed once and the commit submitted three times.\<close>

definition exampleCluster :: "env \<Rightarrow> nat cluster" where
  "exampleCluster env = \<lparr>cu_env = \<lambda>_. env, cu_later = id,
     cu_sendAndConfirm = (\<lambda>ixs signers c n. (if n = 1 \<or> n = 2 then Inl (Error ''blockhash not found'') else Inr ''sig'', Suc n)),
     cu_getOrCreateToken = (\<lambda>_ _ _ n. ([], Inr (), n)), cu_toUniversal = (\<lambda>_ _. Inr []), cu_toText = (\<lambda>_. []), cu_secretKey = None\<rparr>"

lemma upgrade_example:
  "\<exists>x c. upgradeMatchingEngine (recordedC (exampleCluster (env\<lparr>getAccountInfo := \<lambda>_. Inr (Some [1])\<rparr>))) um_testnet [7] [8] (0, []) =
    Some (Inr (), 4, [([x], [[7]]), ([c], [[7]]), ([c], [[7]]), ([c], [[7]])])"
  by (simp add: upgradeMatchingEngine_def upgradeProgram_def thenP_def runP_def readC_def recordedC_def exampleCluster_def
      accountFound_def um_executeMatchingEngineUpgradeIx_def um_commitMatchingEngineUpgradeIx_def um_matchingEngineProgram_def
      retryLoop.simps)

end
