(* ===== verification/Evm_Scripts.thy ===== *)
theory Evm_Scripts
  imports Evm_Client
begin

text \<open>
  The scripts that set up the EVM contracts (\<open>evm/ts/scripts\<close>): CCTP allowance and router endpoints of the
  Matching Engine and of a Token Router, and the fast transfer parameters. The configuration is the
  value that \<open>JSON.parse\<close> returned for a file that is not in the repository, so all its shapes are
  covered. A script is an effect on the world that its transactions change; printing is left out.
\<close>

section \<open>Arguments, configuration and transactions\<close>

datatype scriptArg =
    SaText string
  | SaInt int
  | SaJson "json option"
  | SaEndpoint "json option" "json option"  \<comment> \<open>router, mintRecipient\<close>

text \<open>The contract, the method and the arguments.\<close>

datatype scriptCall = ScriptCall string string "scriptArg list"

text \<open>
  Reading and parsing a file, the wallet, chains and native addresses of the Wormhole SDK, the language's
  conversion of a string to a number (\<open>None\<close> for \<open>NaN\<close>), and a call with the wait for its receipt: it throws
  if the transaction is not sent or fails.
\<close>

record 'w evmScripts =
  es_readJson :: "string \<Rightarrow> json result"
  es_wallet :: "json \<Rightarrow> json \<Rightarrow> unit result"
  es_toChainId :: "json \<Rightarrow> int result"
  es_toChain :: "int \<Rightarrow> string result"
  es_native :: "string \<Rightarrow> json option \<Rightarrow> string result"
  es_toNumber :: "string \<Rightarrow> double option"
  es_senv :: solverEnv
  es_transact :: "scriptCall \<Rightarrow> ('w, unit) eff"

record scriptArgs =
  ag_network :: json
  ag_chain :: json
  ag_rpc :: json
  ag_key :: json

definition getArgs :: "scriptArgs \<Rightarrow> (string \<times> scriptArgs) result" where
  "getArgs argv =
     (if ag_network argv = JStr ''mainnet'' then Inr (''mainnet'', argv)
      else if ag_network argv = JStr ''testnet'' then Inr (''testnet'', argv)
      else Inl (Error ''Invalid network''))"

definition getConfig :: "'w evmScripts \<Rightarrow> string \<Rightarrow> json result" where
  "getConfig es network = es_readJson es (''/../../../cfg/deployment.'' @ network @ ''.json'')"

definition ZERO_BYTES32 :: string where
  "ZERO_BYTES32 = ''0x'' @ replicate 64 (CHR ''0'')"

section \<open>Loose equality\<close>

definition doubleEq :: "double \<Rightarrow> double \<Rightarrow> bool" where
  "doubleEq x y \<longleftrightarrow> doubleLe x y \<and> doubleLe y x"

definition equalsNumber :: "double option \<Rightarrow> double \<Rightarrow> bool" where
  "equalsNumber x y \<longleftrightarrow> (case x of None \<Rightarrow> False | Some x \<Rightarrow> doubleEq x y)"

text \<open>\<open>n == v\<close> for a number. Objects of the configuration are converted to \<open>[object Object]\<close>, which is no number.\<close>

fun looseNumber :: "'w evmScripts \<Rightarrow> double \<Rightarrow> json option \<Rightarrow> bool" where
  "looseNumber es n None = False"
| "looseNumber es n (Some JNull) = False"
| "looseNumber es n (Some (JBool b)) = doubleEq n (doubleOfInt (if b then 1 else 0))"
| "looseNumber es n (Some (JNum d)) = doubleEq n d"
| "looseNumber es n (Some v) = equalsNumber (es_toNumber es (jsonText (es_senv es) v)) n"

text \<open>\<open>v == s\<close> for a string.\<close>

fun looseText :: "'w evmScripts \<Rightarrow> json option \<Rightarrow> string \<Rightarrow> bool" where
  "looseText es None s = False"
| "looseText es (Some JNull) s = False"
| "looseText es (Some (JBool b)) s = equalsNumber (es_toNumber es s) (doubleOfInt (if b then 1 else 0))"
| "looseText es (Some (JNum d)) s = equalsNumber (es_toNumber es s) d"
| "looseText es (Some v) s = (jsonText (es_senv es) v = s)"

definition nullish :: "json option \<Rightarrow> bool" where
  "nullish v \<longleftrightarrow> v = None \<or> v = Some JNull"

section \<open>Router endpoints\<close>

definition addRouterInfoCall :: "string \<Rightarrow> string \<Rightarrow> json option \<Rightarrow> json option \<Rightarrow> json option \<Rightarrow> scriptCall" where
  "addRouterInfoCall contract chainId router mintRecipient domain =
     ScriptCall contract ''addRouterEndpoint'' [SaText chainId, SaEndpoint router mintRecipient, SaJson domain]"

text \<open>What one turn of the loop over the routers calls. A zero address ends the script.\<close>

definition endpointCall :: "'w evmScripts \<Rightarrow> string \<Rightarrow> json option \<Rightarrow> string \<Rightarrow> scriptCall result" where
  "endpointCall es contract routers chainId =
     bnd (jget routers chainId) (\<lambda>targetRouter.
     bnd (jget targetRouter ''address'') (\<lambda>address.
     if looseText es address ZERO_BYTES32 then Inl (Error (''Invalid endpoint for chain '' @ chainId))
     else
       bnd (jget targetRouter ''mintRecipient'') (\<lambda>mintRecipient.
       bnd (jget targetRouter ''domain'') (\<lambda>domain.
       Inr (addRouterInfoCall contract chainId address mintRecipient domain)))))"

fun addRouters :: "'w evmScripts \<Rightarrow> string \<Rightarrow> json option \<Rightarrow> string option \<Rightarrow> string list \<Rightarrow> ('w, unit) eff" where
  "addRouters es contract routers own [] = retE ()"
| "addRouters es contract routers own (chainId # chainIds) =
     (if own = Some chainId then addRouters es contract routers own chainIds
      else
        thenE (liftE (endpointCall es contract routers chainId)) (\<lambda>call.
        thenE (es_transact es call) (\<lambda>_.
        addRouters es contract routers own chainIds)))"

definition allowanceCall :: "string \<Rightarrow> scriptCall" where
  "allowanceCall contract = ScriptCall contract ''setCctpAllowance'' [SaInt (2 ^ 256 - 1)]"

text \<open>The allowance, then the endpoints in the order of \<open>Object.keys\<close>, without the chain \<open>own\<close> if there is one.\<close>

definition setUpContract :: "'w evmScripts \<Rightarrow> string \<Rightarrow> json option \<Rightarrow> string option \<Rightarrow> ('w, unit) eff" where
  "setUpContract es contract routers own =
     thenE (es_transact es (allowanceCall contract)) (\<lambda>_.
     thenE (liftE (objectKeys routers)) (addRouters es contract routers own))"

section \<open>setup_token_router\<close>

text \<open>The configured routers, the chain and the address of the router on it.\<close>

definition tokenRouterOf :: "'w evmScripts \<Rightarrow> scriptArgs \<Rightarrow> json option \<Rightarrow> (int \<times> string) result" where
  "tokenRouterOf es argv routers =
     bnd (es_wallet es (ag_key argv) (ag_rpc argv)) (\<lambda>_.
     bnd (es_toChainId es (ag_chain argv)) (\<lambda>routerChainId.
     bnd (es_toChain es routerChainId) (\<lambda>routerChain.
     bnd (jget routers (intText routerChainId)) (\<lambda>router.
     bnd (jget router ''address'') (\<lambda>address.
     bnd (es_native es routerChain address) (\<lambda>routerAddress.
     Inr (routerChainId, routerAddress)))))))"

definition tokenRouterPlan :: "'w evmScripts \<Rightarrow> scriptArgs \<Rightarrow> (json option \<times> int \<times> string) result" where
  "tokenRouterPlan es argv =
     bnd (getArgs argv) (\<lambda>(network, argv).
     bnd (getConfig es network) (\<lambda>config.
     bnd (jget (Some config) ''routers'') (\<lambda>routers.
     if nullish routers then Inl (Error ''Invalid routers'')
     else
       bnd (tokenRouterOf es argv routers) (\<lambda>(routerChainId, routerAddress).
       Inr (routers, routerChainId, routerAddress)))))"

definition setup_token_router :: "'w evmScripts \<Rightarrow> scriptArgs \<Rightarrow> ('w, unit) eff" where
  "setup_token_router es argv =
     thenE (liftE (tokenRouterPlan es argv)) (\<lambda>(routers, routerChainId, routerAddress).
     setUpContract es routerAddress routers (Some (intText routerChainId)))"

section \<open>setup_matching_engine\<close>

definition matchingEnginePlan :: "'w evmScripts \<Rightarrow> scriptArgs \<Rightarrow> (json option \<times> string) result" where
  "matchingEnginePlan es argv =
     bnd (getArgs argv) (\<lambda>(network, argv).
     bnd (getConfig es network) (\<lambda>config.
     bnd (jget (Some config) ''matchingEngine'') (\<lambda>matchingEngineConfig.
     bnd (jget (Some config) ''routers'') (\<lambda>routers.
     if nullish routers \<or> nullish matchingEngineConfig then Inl (Error ''Invalid config'')
     else
       bnd (es_wallet es (ag_key argv) (ag_rpc argv)) (\<lambda>_.
       bnd (es_toChainId es (ag_chain argv)) (\<lambda>engineChainId.
       bnd (jget matchingEngineConfig ''chain'') (\<lambda>chain.
       if \<not> looseNumber es (doubleOfInt engineChainId) chain then Inl (Error ''Invalid chainId'')
       else
         bnd (es_toChain es engineChainId) (\<lambda>engineChain.
         bnd (jget matchingEngineConfig ''address'') (\<lambda>address.
         bnd (es_native es engineChain address) (\<lambda>engineAddress.
         Inr (routers, engineAddress)))))))))))"

definition setup_matching_engine :: "'w evmScripts \<Rightarrow> scriptArgs \<Rightarrow> ('w, unit) eff" where
  "setup_matching_engine es argv =
     thenE (liftE (matchingEnginePlan es argv)) (\<lambda>(routers, engineAddress).
     setUpContract es engineAddress routers None)"

section \<open>set_fast_transfer_parameters\<close>

definition fastTransferCall :: "'w evmScripts \<Rightarrow> scriptArgs \<Rightarrow> scriptCall result" where
  "fastTransferCall es argv =
     bnd (getArgs argv) (\<lambda>(network, argv).
     bnd (getConfig es network) (\<lambda>config.
     bnd (jget (Some config) ''routers'') (\<lambda>routers.
     bnd (jget (Some config) ''fastTransferParameters'') (\<lambda>fastTransferParams.
     if nullish routers \<or> nullish fastTransferParams then Inl (Error ''Invalid routers'')
     else
       bnd (tokenRouterOf es argv routers) (\<lambda>(routerChainId, routerAddress).
       Inr (ScriptCall routerAddress ''updateFastTransferParameters'' [SaJson fastTransferParams]))))))"

definition set_fast_transfer_parameters :: "'w evmScripts \<Rightarrow> scriptArgs \<Rightarrow> ('w, unit) eff" where
  "set_fast_transfer_parameters es argv = thenE (liftE (fastTransferCall es argv)) (es_transact es)"

section \<open>What the scripts call\<close>

text \<open>The same world with a log of the calls.\<close>

definition recordedS :: "'w evmScripts \<Rightarrow> ('w \<times> scriptCall list) evmScripts" where
  "recordedS es = \<lparr>es_readJson = es_readJson es, es_wallet = es_wallet es, es_toChainId = es_toChainId es,
     es_toChain = es_toChain es, es_native = es_native es, es_toNumber = es_toNumber es, es_senv = es_senv es,
     es_transact = (\<lambda>call (w, l). case es_transact es call w of (r, w) \<Rightarrow> (r, w, l @ [call]))\<rparr>"

lemma recordedS_sel [simp]:
  "es_readJson (recordedS es) = es_readJson es" "es_wallet (recordedS es) = es_wallet es"
  "es_toChainId (recordedS es) = es_toChainId es" "es_toChain (recordedS es) = es_toChain es"
  "es_native (recordedS es) = es_native es" "es_toNumber (recordedS es) = es_toNumber es" "es_senv (recordedS es) = es_senv es"
  "es_transact (recordedS es) call (w, l) = (case es_transact es call w of (r, w) \<Rightarrow> (r, w, l @ [call]))"
  by (simp_all add: recordedS_def)

lemma loose_recordedS [simp]:
  "looseText (recordedS es) v s = looseText es v s" "looseNumber (recordedS es) n v = looseNumber es n v"
  by (induction es v s rule: looseText.induct; simp) (induction es n v rule: looseNumber.induct; simp)

lemma plan_recordedS [simp]:
  "endpointCall (recordedS es) contract routers chainId = endpointCall es contract routers chainId"
  "tokenRouterPlan (recordedS es) argv = tokenRouterPlan es argv"
  "matchingEnginePlan (recordedS es) argv = matchingEnginePlan es argv"
  "fastTransferCall (recordedS es) argv = fastTransferCall es argv"
  unfolding endpointCall_def tokenRouterPlan_def tokenRouterOf_def matchingEnginePlan_def fastTransferCall_def getConfig_def
    recordedS_sel loose_recordedS by (rule refl)+

text \<open>The keys whose router is added.\<close>

definition addedKeys :: "string option \<Rightarrow> string list \<Rightarrow> string list" where
  "addedKeys own chainIds = filter (\<lambda>k. own \<noteq> Some k) chainIds"

text \<open>
  \<open>callsOf es contract routers keys complete calls\<close>: the calls are those of the first keys, one each in their order,
  and of all of them if \<open>complete\<close>.
\<close>

definition callsOf :: "'w evmScripts \<Rightarrow> string \<Rightarrow> json option \<Rightarrow> string list \<Rightarrow> bool \<Rightarrow> scriptCall list \<Rightarrow> bool" where
  "callsOf es contract routers keys complete calls \<longleftrightarrow>
     map Inr calls = take (length calls) (map (endpointCall es contract routers) keys) \<and>
     (complete \<longrightarrow> length calls = length keys)"

lemma callsOf_Nil: "callsOf es contract routers keys complete [] \<longleftrightarrow> (complete \<longrightarrow> keys = [])"
  by (auto simp: callsOf_def)

lemma callsOf_Cons:
  "endpointCall es contract routers k = Inr call \<Longrightarrow> callsOf es contract routers keys complete calls \<Longrightarrow>
    callsOf es contract routers (k # keys) complete (call # calls)"
  by (simp add: callsOf_def)

lemma addRouters_calls:
  "addRouters (recordedS es) contract routers own keys (w, l) = (r, w', l') \<Longrightarrow>
    \<exists>calls. l' = l @ calls \<and> callsOf es contract routers (addedKeys own keys) (r = Inr ()) calls"
proof (induction keys arbitrary: w l)
  case Nil
  then show ?case by (auto simp: retE_def liftE_def callsOf_Nil addedKeys_def)
next
  case (Cons k keys)
  show ?case
  proof (cases "own = Some k")
    case True
    with Cons show ?thesis by (simp add: addedKeys_def)
  next
    case False
    then have keys: "addedKeys own (k # keys) = k # addedKeys own keys" by (simp add: addedKeys_def)
    show ?thesis
    proof (cases "endpointCall es contract routers k")
      case (Inl e)
      with Cons.prems False show ?thesis by (auto simp: thenE_def liftE_def callsOf_Nil)
    next
      case (Inr call)
      obtain r1 w1 where t: "es_transact es call w = (r1, w1)" by force
      have run: "(case r1 of Inl e \<Rightarrow> (Inl e, w1, l @ [call])
          | Inr x \<Rightarrow> addRouters (recordedS es) contract routers own keys (w1, l @ [call])) = (r, w', l')"
        using Cons.prems False by (simp add: Inr thenE_def liftE_def t split: sum.splits)
      show ?thesis
      proof (cases r1)
        case (Inl e)
        with run have "l' = l @ [call]" "r \<noteq> Inr ()" by auto
        then show ?thesis using callsOf_Cons [OF Inr, of _ False "[]"] by (auto simp: keys callsOf_Nil)
      next
        case (Inr x)
        with run have "addRouters (recordedS es) contract routers own keys (w1, l @ [call]) = (r, w', l')" by simp
        from Cons.IH [OF this] obtain calls where
          "l' = l @ call # calls" "callsOf es contract routers (addedKeys own keys) (r = Inr ()) calls" by auto
        with callsOf_Cons [OF \<open>endpointCall es contract routers k = Inr call\<close>] show ?thesis by (auto simp: keys)
      qed
    qed
  qed
qed

lemma setUpContract_calls:
  assumes "setUpContract (recordedS es) contract routers own (w, l) = (r, w', l')" "objectKeys routers = Inr keys"
  shows "\<exists>calls. l' = l @ allowanceCall contract # calls \<and>
    callsOf es contract routers (addedKeys own keys) (r = Inr ()) calls"
proof -
  obtain r1 w1 where t: "es_transact es (allowanceCall contract) w = (r1, w1)" by force
  show ?thesis
  proof (cases r1)
    case (Inl e)
    with assms t show ?thesis by (auto simp: setUpContract_def thenE_def callsOf_Nil)
  next
    case (Inr x)
    with assms t have "addRouters (recordedS es) contract routers own keys (w1, l @ [allowanceCall contract]) = (r, w', l')"
      by (simp add: setUpContract_def thenE_def liftE_def)
    from addRouters_calls [OF this] show ?thesis by auto
  qed
qed

lemma objectKeys_total: "\<not> nullish v \<Longrightarrow> \<exists>keys. objectKeys v = Inr keys"
  by (cases v; simp add: nullish_def; rename_tac v'; case_tac v'; simp)

lemma endpointCall_nonzero:
  "endpointCall es contract routers k = Inr call \<Longrightarrow> \<exists>address mintRecipient domain.
    call = addRouterInfoCall contract k address mintRecipient domain \<and>
    \<not> looseText es address ZERO_BYTES32"
  by (auto simp: endpointCall_def bnd_eq_Inr_iff split: if_splits)

lemma callsOf_each:
  assumes "callsOf es contract routers keys complete calls"
  shows "list_all (\<lambda>c. \<exists>k address mintRecipient domain.
    c = addRouterInfoCall contract k address mintRecipient domain \<and>
    k \<in> set keys \<and> \<not> looseText es address ZERO_BYTES32) calls"
  unfolding list_all_iff
proof
  fix c assume "c \<in> set calls"
  then have "Inr c \<in> set (map Inr calls :: scriptCall result list)" by simp
  also have "map Inr calls = take (length calls) (map (endpointCall es contract routers) keys)"
    using assms by (simp add: callsOf_def)
  finally obtain k where "k \<in> set keys" "endpointCall es contract routers k = Inr c"
    by (force dest: in_set_takeD)
  with endpointCall_nonzero [OF this(2)] show "\<exists>k address mintRecipient domain.
    c = addRouterInfoCall contract k address mintRecipient domain \<and>
    k \<in> set keys \<and> \<not> looseText es address ZERO_BYTES32" by blast
qed

text \<open>The keys of the configuration: those that are numbers, as chain ids are, come first and ascending, in whatever order the file has them.\<close>

lemma objectKeys_chains:
  assumes "objectKeys (Some (JObj members)) = Inr keys"
  shows "set keys = fst ` set members \<and> (\<exists>chains others. keys = chains @ others \<and>
    sorted (map (\<lambda>k. the (arrayIndex k)) chains) \<and> list_all (\<lambda>k. arrayIndex k \<noteq> None) chains \<and>
    list_all (\<lambda>k. arrayIndex k = None) others)"
proof -
  from assms have k: "keys = objectOrder (map fst members)" by simp
  from objectOrder_spec [of "map fst members"] obtain chains others where
    c: "objectOrder (map fst members) = chains @ others" "sorted (map (\<lambda>k. the (arrayIndex k)) chains)"
    "set chains = {k \<in> set (map fst members). arrayIndex k \<noteq> None}"
    "others = filter (\<lambda>k. arrayIndex k = None) (map fst members)" by blast
  have "set keys = fst ` set members" by (auto simp: k c(1,3,4))
  moreover have "list_all (\<lambda>k. arrayIndex k \<noteq> None) chains" "list_all (\<lambda>k. arrayIndex k = None) others"
    by (auto simp: list_all_iff c(3,4))
  ultimately show ?thesis using k c(1,2) by blast
qed

text \<open>
  C21. A router is set up with its allowance and the other routers of the configuration, in JavaScript's order of their
  keys: when the script ends, it has called nothing (if arguments, configuration or wallet are bad), or the
  allowance of the router of the given chain and then one endpoint for each configured chain but its own, up to the
  first that throws; if it returns, for all of them. If the configured routers are an object, the endpoints are those of all its
  keys, the numeric ones (chain ids) first and in ascending order whatever their order in the file. No
  endpoint with the zero address is added.
\<close>

theorem router_setup_calls:
  assumes "setup_token_router (recordedS es) argv (w, []) = (r, w', log)"
  shows "(log = [] \<and> r \<noteq> Inr ()) \<or>
    (\<exists>routers own contract keys calls.
       tokenRouterPlan es argv = Inr (routers, own, contract) \<and> objectKeys routers = Inr keys \<and>
       (\<forall>members. routers = Some (JObj members) \<longrightarrow> set keys = fst ` set members \<and>
         (\<exists>chains others. keys = chains @ others \<and> sorted (map (\<lambda>k. the (arrayIndex k)) chains) \<and>
            list_all (\<lambda>k. arrayIndex k \<noteq> None) chains \<and> list_all (\<lambda>k. arrayIndex k = None) others)) \<and>
       log = allowanceCall contract # calls \<and>
       callsOf es contract routers (filter (\<lambda>k. k \<noteq> intText own) keys) (r = Inr ()) calls \<and>
       list_all (\<lambda>c. \<exists>k address mintRecipient domain.
         c = addRouterInfoCall contract k address mintRecipient domain \<and>
         k \<noteq> intText own \<and> \<not> looseText es address ZERO_BYTES32) calls)"
proof (cases "tokenRouterPlan es argv")
  case (Inl e)
  with assms show ?thesis by (auto simp: setup_token_router_def thenE_def liftE_def)
next
  case (Inr p)
  then obtain routers own contract where p: "tokenRouterPlan es argv = Inr (routers, own, contract)" by (cases p) auto
  then have "\<not> nullish routers" by (auto simp: tokenRouterPlan_def bnd_eq_Inr_iff split: if_splits)
  then obtain keys where keys: "objectKeys routers = Inr keys" using objectKeys_total by blast
  from assms p have "setUpContract (recordedS es) contract routers (Some (intText own)) (w, []) = (r, w', log)"
    by (simp add: setup_token_router_def)
  from setUpContract_calls [OF this keys] obtain calls where
    c: "log = allowanceCall contract # calls"
    "callsOf es contract routers (filter (\<lambda>k. k \<noteq> intText own) keys) (r = Inr ()) calls"
    by (auto simp: addedKeys_def eq_commute)
  have "list_all (\<lambda>c. \<exists>k address mintRecipient domain.
      c = addRouterInfoCall contract k address mintRecipient domain \<and>
      k \<noteq> intText own \<and> \<not> looseText es address ZERO_BYTES32) calls"
    by (rule list.pred_mono_strong [OF callsOf_each [OF c(2)]]) auto
  moreover have "set keys = fst ` set members \<and> (\<exists>chains others. keys = chains @ others \<and>
      sorted (map (\<lambda>k. the (arrayIndex k)) chains) \<and> list_all (\<lambda>k. arrayIndex k \<noteq> None) chains \<and>
      list_all (\<lambda>k. arrayIndex k = None) others)" if "routers = Some (JObj members)" for members
    using keys that objectKeys_chains by blast
  ultimately show ?thesis using p keys c by blast
qed

text \<open>The file lists the chains 23, 6 and 4; the endpoints are added for 4 and then for 23.\<close>

definition exampleConfig :: json where
  "exampleConfig = JObj [(''routers'', JObj
     [(''23'', JObj [(''address'', JStr ''0x23''), (''mintRecipient'', JStr ''0x33''), (''domain'', JStr ''3'')]),
      (''6'', JObj [(''address'', JStr ''0x06''), (''mintRecipient'', JStr ''0x16''), (''domain'', JStr ''1'')]),
      (''4'', JObj [(''address'', JStr ''0x04''), (''mintRecipient'', JStr ''0x14''), (''domain'', JStr ''0'')])])]"

definition exampleCalls :: "scriptCall list" where
  "exampleCalls =
     [allowanceCall ''0x06'',
      ScriptCall ''0x06'' ''addRouterEndpoint''
        [SaText ''4'', SaEndpoint (Some (JStr ''0x04'')) (Some (JStr ''0x14'')), SaJson (Some (JStr ''0''))],
      ScriptCall ''0x06'' ''addRouterEndpoint''
        [SaText ''23'', SaEndpoint (Some (JStr ''0x23'')) (Some (JStr ''0x33'')), SaJson (Some (JStr ''3''))]]"

lemma example_texts: "intText 6 = ''6''" "''0x23'' \<noteq> ZERO_BYTES32" "''0x04'' \<noteq> ZERO_BYTES32"
  by (code_simp, simp_all add: ZERO_BYTES32_def numeral_eq_Suc)

lemma example_order: "objectOrder [''23'', ''6'', ''4''] = [''4'', ''6'', ''23'']"
  by (simp add: objectOrder_def arrayIndex_def isDigit_def decValue_def)

theorem router_setup_calls_witness:
  "\<forall>(es :: nat evmScripts) v.
    (let es' = es\<lparr>es_readJson := \<lambda>_. Inr exampleConfig, es_wallet := \<lambda>_ _. Inr (), es_toChainId := \<lambda>_. Inr 6,
           es_toChain := \<lambda>_. Inr ''Avalanche'', es_native := \<lambda>_ _. Inr ''0x06'', es_transact := \<lambda>c n. (Inr (), Suc n)\<rparr>;
         argv = \<lparr>ag_network = JStr ''testnet'', ag_chain = v, ag_rpc = v, ag_key = v\<rparr>
     in setup_token_router (recordedS es') argv (0, []) = (Inr (), 3, exampleCalls) \<and>
        (\<exists>routers own contract keys calls.
          tokenRouterPlan es' argv = Inr (routers, own, contract) \<and> objectKeys routers = Inr keys \<and>
          exampleCalls = allowanceCall contract # calls \<and>
          callsOf es' contract routers (filter (\<lambda>k. k \<noteq> intText own) keys) True calls))"
proof (unfold Let_def, intro allI)
  fix es :: "nat evmScripts" and v
  let ?es = "es\<lparr>es_readJson := \<lambda>_. Inr exampleConfig, es_wallet := \<lambda>_ _. Inr (), es_toChainId := \<lambda>_. Inr 6,
           es_toChain := \<lambda>_. Inr ''Avalanche'', es_native := \<lambda>_ _. Inr ''0x06'', es_transact := \<lambda>c n. (Inr (), Suc n)\<rparr>"
  let ?argv = "\<lparr>ag_network = JStr ''testnet'', ag_chain = v, ag_rpc = v, ag_key = v\<rparr>"
  have plan: "\<exists>routers. tokenRouterPlan ?es ?argv = Inr (Some routers, 6, ''0x06'') \<and> map_of
      (case exampleConfig of JObj ms \<Rightarrow> ms) ''routers'' = Some routers"
    by (simp add: tokenRouterPlan_def tokenRouterOf_def getArgs_def getConfig_def exampleConfig_def nullish_def example_texts)
  have run: "setup_token_router (recordedS ?es) ?argv (0, []) = (Inr (), 3, exampleCalls)"
    using plan
    by (simp add: setup_token_router_def setUpContract_def thenE_def liftE_def retE_def endpointCall_def addRouterInfoCall_def
        exampleConfig_def exampleCalls_def example_texts example_order)
  from router_setup_calls [OF run] obtain routers own contract keys calls where
    "tokenRouterPlan ?es ?argv = Inr (routers, own, contract)" "objectKeys routers = Inr keys"
    "exampleCalls = allowanceCall contract # calls"
    "callsOf ?es contract routers (filter (\<lambda>k. k \<noteq> intText own) keys) True calls"
    by (auto simp: exampleCalls_def)
  with run show "setup_token_router (recordedS ?es) ?argv (0, []) = (Inr (), 3, exampleCalls) \<and>
        (\<exists>routers own contract keys calls.
          tokenRouterPlan ?es ?argv = Inr (routers, own, contract) \<and> objectKeys routers = Inr keys \<and>
          exampleCalls = allowanceCall contract # calls \<and>
          callsOf ?es contract routers (filter (\<lambda>k. k \<noteq> intText own) keys) True calls)" by blast
qed

section \<open>The other scripts\<close>

text \<open>The engine adds every configured router, the one of its own chain included.\<close>

lemma engine_setup_calls:
  assumes "setup_matching_engine (recordedS es) argv (w, []) = (r, w', log)" "matchingEnginePlan es argv = Inr (routers, contract)"
  shows "\<exists>keys calls. objectKeys routers = Inr keys \<and> log = allowanceCall contract # calls \<and>
    callsOf es contract routers keys (r = Inr ()) calls"
proof -
  from assms(2) have "\<not> nullish routers" by (auto simp: matchingEnginePlan_def bnd_eq_Inr_iff split: if_splits)
  then obtain keys where keys: "objectKeys routers = Inr keys" using objectKeys_total by blast
  from assms have "setUpContract (recordedS es) contract routers None (w, []) = (r, w', log)"
    by (simp add: setup_matching_engine_def)
  from setUpContract_calls [OF this keys] keys show ?thesis by (auto simp: addedKeys_def)
qed

text \<open>The parameters are handed on as they are configured, in one call.\<close>

lemma fastTransfer_calls:
  assumes "set_fast_transfer_parameters (recordedS es) argv (w, []) = (r, w', log)"
  shows "log = (case fastTransferCall es argv of Inl e \<Rightarrow> [] | Inr call \<Rightarrow> [call])"
  using assms by (cases "fastTransferCall es argv")
    (auto simp: set_fast_transfer_parameters_def thenE_def liftE_def split: prod.splits)

end
