(* ===== verification/Spec2Isabelle.thy ===== *)
theory Spec2Isabelle
  imports Array_Queue Event_Listener Me_History Transactions Networks Vaa_Spy Solver_Rules Solver_Guards
    Evm_Client Message_Layouts Idl_Layout Decoded_Types Setup_Scripts Evm_Scripts
begin

text \<open>
  The TypeScript SDK of the Example Liquidity Layer (\<open>solana/ts/src\<close>): the clients of three Solana programs,
  the Matching Engine, the Token Router and the Upgrade Manager, and of Circle's CCTP programs. A user
  prepares a market order with the Token Router. A fast order reaches the Matching Engine as a VAA;
  solvers bid for executing it in an auction that starts with an initial offer backed by a deposit, the
  best offer is executed locally (a fast fill) or through CCTP, and the auction is settled once the
  finalized transfer arrives.

  What is modelled, a theory per part, in the order of the imports:

  \<^item> \<open>Prelude\<close>: results (\<open>js_error + 'a\<close>, with \<open>bnd\<close> for a call that may throw and \<open>ok\<close> for what holds of a
    result if there is one), JavaScript numbers, big- and little-endian encodings, Node's buffers with
    their range errors, decimal digits.
  \<^item> \<open>Common\<close>: \<open>common/index.ts\<close> (the union type \<open>Uint64\<close> and its conversions, VAA hashes).
  \<^item> \<open>State_Types\<close>: the account classes of \<open>matchingEngine/state\<close>, \<open>tokenRouter/state\<close>,
    \<open>upgradeManager/state\<close>, \<open>cctp\<close> and the messages of \<open>universal/ts\<close>, as records and datatypes.
  \<^item> \<open>Chain_Env\<close>: what the SDK calls and does not define, a record \<open>env\<close> of functions, and what an
    instruction is. An instruction is the value handed to Anchor: program, method, arguments and the
    tree of accounts; or an SPL approval.
  \<^item> \<open>Addresses\<close>: every program-derived address, as its seed list. The locale \<open>pda_family\<close> says that a
    family of seed lists keeps its members apart and fits the platform; it is interpreted for the
    Matching Engine (17 kinds of account) and the Token Router (six).
  \<^item> \<open>Array_Queue\<close>: the ring buffer of \<open>utils.ts\<close>, its invariant, its refinement to lists while it does
    not grow, and what goes wrong when it grows.
  \<^item> \<open>Event_Listener\<close>: \<open>onEventCpi\<close>. The log callback and the slot callback are functions on the queue
    and the observed transactions; the slot callback suspends while it fetches a transaction, so the
    two also appear as a step relation over the same listener, in which callbacks interleave at these points, late
    and failed fetches and transactions on which the callback throws included.
  \<^item> \<open>Cctp_Messages\<close>, \<open>Cctp_Programs\<close>: the message codecs and the program clients of \<open>cctp/\<close>.
  \<^item> \<open>Vaa_Account\<close>: \<open>wormhole/index.ts\<close>, the parser of posted and encoded VAA accounts.
  \<^item> \<open>Liquidity_Messages\<close>: \<open>common/messages\<close>, the dispatch on the tag of a message.
  \<^item> \<open>Upgrade_Manager_Base\<close>, \<open>Me_Program\<close>, \<open>Tr_Program\<close>, \<open>Upgrade_Manager\<close>: program ids, lookups between the
    programs, addresses, fetching methods and the groups of accounts that instructions share. A program
    object is its id and its mint.
  \<^item> \<open>Me_Fees\<close>: the computations of penalties, minimum offers and security deposits in the SDK (on
    \<open>bigint\<close>) and in the program (\<open>utils/auction.rs\<close>, saturating 64- and 128-bit arithmetic, and the extra grace period
    of local auctions in \<open>execute_fast_order/mod.rs\<close>), and how they agree.
  \<^item> \<open>Me_History\<close>: the hand-written reader of the auction history and the encoding it reads.
  \<^item> \<open>Me_Admin\<close>, \<open>Me_Offers\<close>, \<open>Me_Settle\<close>, \<open>Me_Execute\<close>, \<open>Tr_Orders\<close>: the builders of instructions and
    transactions, each with its optional accounts, the reads of the chain it makes for the missing
    ones, its errors and the order of its steps.
  \<^item> \<open>Idl_Types\<close>, \<open>Idl_Matching_Engine\<close>, \<open>Idl_Token_Router\<close>, \<open>Idl_Me_Types\<close>, \<open>Idl_Tr_Types\<close>: the interface
    descriptions of \<open>idl/ts\<close> (instructions, types, accounts, events and errors), and what it means for an
    instruction to conform to one, its arguments included. \<open>Idl_Message_Transmitter\<close> and
    \<open>Idl_Token_Messenger\<close>: the same for Circle's programs (\<open>cctp/types\<close>).
  \<^item> \<open>Conformance\<close>: every builder conforms to its interface, one lemma per builder, and one theorem over
    the relations \<open>meBuilt\<close>, \<open>trBuilt\<close> and \<open>umBuilt\<close> of everything the SDK builds.
  \<^item> \<open>Idl_Layout\<close>: the descriptions agree on shared accounts, and the history reader reads the
    layout (Borsh, as a specification) of the declared type except for destination assets.
  \<^item> \<open>Ts_Types\<close>, \<open>Decoded_Types\<close>: the TypeScript types that the SDK declares for events and accounts, that what
    a decoder with the documented laws returns has them, and which fields they lack. The decoder is a parameter.
  \<^item> \<open>Transactions\<close>: signatures, deposits and unused accounts of the six transactions.
  \<^item> \<open>Networks\<close>: the lookups between the programs on mainnet, testnet and localnet.
  \<^item> \<open>Vaa_Spy\<close>: \<open>wormhole/spy.ts\<close>, the observation handler and the clean-up timer of the spy as steps with
    their times, over the map from VAA hashes to the times they were seen.
  \<^item> \<open>Solver_Slots\<close>: the container of auctions per slot of \<open>executeOrder/app.ts\<close> with the slot and the auction
    callback, as a run over a list of notifications.
  \<^item> \<open>Solver_Pricing\<close>: the two offer rules of \<open>placeInitialOffer.ts\<close> and \<open>improveOffer/app.ts\<close>, with doubles as
    \<open>m * 2 ^ e\<close> rounded to 53 bits; \<open>Solver_Rules\<close>: the price from which they offer, over the real numbers.
  \<^item> \<open>Solver_Config\<close>: \<open>utils/config.ts\<close>, the validation of a JSON value and the accessors of \<open>AppConfig\<close>.
  \<^item> \<open>Solver_Send\<close>: effects on the world of a connection (\<open>eff\<close>, a state monad with errors), \<open>sendTx.ts\<close>,
    \<open>preparePostVaaTx.ts\<close>, the containers, and the executor's loop. The submitted messages are recorded by
    \<open>recorded\<close>, with their success by \<open>withOutcomes\<close>; the properties are triples over that log.
  \<^item> \<open>Solver_Handlers\<close>: the handlers of the relayer and the improver, with their lookups;
    \<open>Solver_Guards\<close>: what a handler has checked before it hands over a transaction.
  \<^item> \<open>Message_Layouts\<close>: \<open>universal/ts/src\<close>, the layouts of messages and payloads, the guards by field names and
    the dispatch over the names of types.
  \<^item> \<open>Evm_Client\<close>: \<open>evm/ts/src\<close>, the decoder of messages, the messages that a transaction's receipt contains,
    the decoder of contract errors and the two contract clients.
  \<^item> \<open>Setup_Scripts\<close>: \<open>solana/ts/scripts\<close>, the scripts that set the programs up, propose and enact auction
    parameters, upgrade the programs and fill the lookup table, as effects on the world of a cluster;
    \<open>recordedC\<close> logs the transactions, those of the token library included. \<open>Evm_Scripts\<close>: \<open>evm/ts/scripts\<close>, the set-up of the EVM contracts over a
    JSON configuration; \<open>recordedS\<close> logs the calls.

  How state and effects are modelled. Asynchronous reads of the chain are functions of \<open>env\<close>, so one
  call of the SDK sees one snapshot; the interleavings that matter, those of the event listener, are
  explicit steps. Exceptions are \<open>Inl\<close> values. Numbers of type \<open>bigint\<close> and \<open>BN\<close> are unbounded integers with
  the range checks where the code encodes them; bytes are 8-bit words. Loops are structural recursion
  over the data they traverse, so no fuel is used: the entries of a history are counted by its header,
  the drain of the queue by the queue, retries by their bound. The three loops without a bound, the
  executor's retries, the wait for an attestation and the commit of an upgrade, are partial functions to
  \<open>option\<close>, whose value \<open>None\<close> is not returning.

  Parameters. Finding an address for seeds, Keccak, the VAA deserializer, the layout interpreter, the
  decoders of Anchor and the connection are arbitrary functions; no theorem assumes anything about them
  beyond the values named in its hypotheses. Theorems about addresses are therefore about seeds.

  What the solver's theorems assume is named in their statements: \<open>chainRecords\<close> (a submitted transaction that
  succeeds adds its instructions to the chain's record), \<open>mintsApart\<close> (token accounts of different mints
  differ). That what is decoded has its declared type is stated for decoders that satisfy \<open>decoderLaws\<close>, the
  documented kinds of decoded values. What a receipt
  contains is stated for \<open>checksumStable\<close> (check-summing an address twice changes nothing). That a second
  set-up changes nothing is stated for a chain that already has the custodian (\<open>custodianOnChain\<close>) and the
  endpoints (\<open>localSettled\<close>, \<open>cctpSettled\<close>).

  What is not modelled: the encoding and decoding by Anchor, logging and pauses, the bindings of the EVM contracts, the scripts that only print or are examples,
  and tests; the programs on chain, except for the formulas that the SDK mirrors.
\<close>

end
